(* ===== verification/Prelude.thy ===== *)
theory Prelude
  imports
    Main
    "HOL-Library.Word"
    "HOL-Library.Char_ord"
    "HOL-Library.List_Lexorder"
    "HOL-Library.Product_Lexorder"
    "HOL-Library.Option_ord"
    "HOL-Library.Multiset"
begin

text \<open>
  Shared vocabulary of the development: machine integers and bytes, results of fallible
  calls, and big-endian byte strings.

  A Rust \<open>String\<close> is its UTF-8 byte string: here a \<^typ>\<open>string\<close> whose characters are bytes.
  With the orders of \<open>Char_ord\<close> and \<open>List_Lexorder\<close> the comparison of two strings is
  exactly \<open>as_bytes().cmp(..)\<close>, with \<open>Product_Lexorder\<close> a comparison chained by \<open>then\<close> is the
  comparison of the pair, and with \<open>Option_ord\<close> \<open>None\<close> is below every \<open>Some\<close>, as in
  Rust's derived \<open>Ord\<close>.
\<close>

named_theorems wire_inj

section \<open>Machine integers, bytes and results\<close>

type_synonym byte = "8 word"
type_synonym u16 = "16 word"
type_synonym u32 = "32 word"
type_synonym u64 = "64 word"
type_synonym usize = "64 word"

text \<open>\<open>checked_add\<close> of an unsigned integer type: \<open>None\<close> on overflow.\<close>

definition checked_add :: "'w::len word \<Rightarrow> 'w word \<Rightarrow> 'w word option" where
  "checked_add a b = (if unat a + unat b < 2 ^ LENGTH('w) then Some (a + b) else None)"

text \<open>To evaluate it, overflow is detected by comparing the wrapped sum.\<close>

lemma checked_add_code [code]: "checked_add a b = (let c = a + b in if a \<le> c then Some c else None)"
  for a b :: "'w::len word"
  by (simp add: checked_add_def Let_def no_olen_add_nat)

lemma checked_add_Some_unat:
  fixes a :: "'w::len word"
  shows "checked_add a b = Some c \<Longrightarrow> unat c = unat a + unat b"
  by (auto simp: checked_add_def unat_word_ariths split: if_splits)

lemma checked_add_eq_Some_iff:
  fixes a :: "'w::len word"
  shows "checked_add a b = Some c \<longleftrightarrow> unat c = unat a + unat b"
proof
  assume "unat c = unat a + unat b"
  moreover have "unat c < 2 ^ LENGTH('w)" by (rule unsigned_less)
  ultimately show "checked_add a b = Some c"
    by (auto simp: checked_add_def unat_word_ariths intro: word_unat_eq_iff [THEN iffD2])
qed (rule checked_add_Some_unat)

text \<open>\<open>saturating_add\<close>: the largest value on overflow.\<close>

definition saturating_add :: "'w::len word \<Rightarrow> 'w word \<Rightarrow> 'w word" where
  "saturating_add a b = (case checked_add a b of Some c \<Rightarrow> c | None \<Rightarrow> - 1)"

text \<open>A \<open>Result\<close> is a sum with the error on the left; \<open>?\<close> is \<open>res_bind\<close>.\<close>

fun res_bind :: "'e + 'a \<Rightarrow> ('a \<Rightarrow> 'e + 'b) \<Rightarrow> 'e + 'b" where
  "res_bind (Inl e) f = Inl e"
| "res_bind (Inr a) f = f a"

fun map_err :: "('e \<Rightarrow> 'f) \<Rightarrow> 'e + 'a \<Rightarrow> 'f + 'a" where
  "map_err f (Inl e) = Inl (f e)"
| "map_err f (Inr a) = Inr a"

text \<open>\<open>iter().map(..).collect::<Result<Vec<_>, _>>()\<close>: stops at the first error.\<close>

fun res_map :: "('a \<Rightarrow> 'e + 'b) \<Rightarrow> 'a list \<Rightarrow> 'e + 'b list" where
  "res_map f [] = Inr []"
| "res_map f (x # xs) = res_bind (f x) (\<lambda>y. res_bind (res_map f xs) (\<lambda>ys. Inr (y # ys)))"

text \<open>A loop \<open>for x in xs { check(x)?; }\<close>.\<close>

fun res_all :: "('a \<Rightarrow> 'e + unit) \<Rightarrow> 'a list \<Rightarrow> 'e + unit" where
  "res_all f [] = Inr ()"
| "res_all f (x # xs) = res_bind (f x) (\<lambda>_. res_all f xs)"

lemma res_bind_Inr_iff: "res_bind r f = Inr b \<longleftrightarrow> (\<exists>a. r = Inr a \<and> f a = Inr b)"
  by (cases r) auto

lemma res_bind_Inl_iff: "res_bind r f = Inl e \<longleftrightarrow> r = Inl e \<or> (\<exists>a. r = Inr a \<and> f a = Inl e)"
  by (cases r) auto

lemma map_err_Inr_iff: "map_err f r = Inr a \<longleftrightarrow> r = Inr a"
  by (cases r) auto

lemma map_err_Inl_iff: "map_err f r = Inl e \<longleftrightarrow> (\<exists>e'. r = Inl e' \<and> e = f e')"
  by (cases r) auto

lemmas res_iffs = res_bind_Inr_iff res_bind_Inl_iff map_err_Inr_iff map_err_Inl_iff

lemma res_map_Inr_iff: "res_map f xs = Inr ys \<longleftrightarrow> map f xs = map Inr ys"
proof (induction xs arbitrary: ys)
  case Nil
  then show ?case by auto
next
  case (Cons x xs)
  show ?case by (cases ys) (auto simp: res_iffs Cons.IH)
qed

lemma res_all_Inr_iff: "res_all f xs = Inr u \<longleftrightarrow> (\<forall>x \<in> set xs. f x = Inr ())"
  by (induction xs) (auto simp: res_iffs)

section \<open>Big-endian byte strings\<close>

definition to_be_bytes :: "nat \<Rightarrow> 'w::len word \<Rightarrow> byte list" where
  "to_be_bytes n w = map (\<lambda>i. ucast (drop_bit (8 * i) w)) (rev [0..<n])"

definition str_bytes :: "string \<Rightarrow> byte list" where
  "str_bytes s = map of_char s"

text \<open>\<open>u64_from_usize(xs.len())\<close>: on a 64-bit target the conversion cannot fail.\<close>

definition len_u64 :: "'a list \<Rightarrow> u64" where
  "len_u64 xs = word_of_nat (length xs)"

text \<open>A length that a \<open>usize\<close> can hold.\<close>

definition fits :: "'a list \<Rightarrow> bool" where
  "fits xs \<longleftrightarrow> length xs < 2 ^ 64"

lemma length_to_be_bytes [simp]: "length (to_be_bytes n w) = n"
  by (simp add: to_be_bytes_def)

lemma to_be_bytes_inj:
  fixes v w :: "'w::len word"
  assumes "LENGTH('w) = 8 * n" and eq: "to_be_bytes n v = to_be_bytes n w"
  shows "v = w"
proof (rule bit_word_eqI)
  fix k assume k: "k < LENGTH('w)"
  have "(\<forall>i < n. ucast (drop_bit (8 * i) v) = (ucast (drop_bit (8 * i) w) :: byte))"
    using eq by (auto simp: to_be_bytes_def)
  moreover have "k div 8 < n" using k assms(1) by auto
  ultimately have "ucast (drop_bit (8 * (k div 8)) v) = (ucast (drop_bit (8 * (k div 8)) w) :: byte)"
    by blast
  then have "bit (ucast (drop_bit (8 * (k div 8)) v) :: byte) (k mod 8)
      = bit (ucast (drop_bit (8 * (k div 8)) w) :: byte) (k mod 8)"
    by simp
  then show "bit v k = bit w k"
    by (simp add: bit_ucast_iff bit_drop_bit_eq)
qed

lemma of_char_byte_inj: "(of_char c :: byte) = of_char d \<longleftrightarrow> c = d"
proof
  assume "(of_char c :: byte) = of_char d"
  then have "unat (word_of_nat (of_char c) :: byte) = unat (word_of_nat (of_char d) :: byte)"
    by (simp only: of_nat_of_char)
  then have "(of_char c :: nat) = of_char d"
    by (simp add: unat_of_nat)
  then show "c = d" by simp
qed simp

lemma str_bytes_inj [simp]: "str_bytes s = str_bytes t \<longleftrightarrow> s = t"
  unfolding str_bytes_def by (rule inj_map_eq_map) (simp add: inj_def of_char_byte_inj)

lemma length_str_bytes [simp]: "length (str_bytes s) = length s"
  by (simp add: str_bytes_def)

lemma len_u64_inj: "fits xs \<Longrightarrow> fits ys \<Longrightarrow> len_u64 xs = len_u64 ys \<Longrightarrow> length xs = length ys"
  by (auto simp: fits_def len_u64_def word_of_nat_eq_iff take_bit_eq_mod)

end
