(* ===== verification/Spec.thy ===== *)
theory Spec
  imports Prelude
begin

text \<open>
  Component: the workflow specification, \<open>crates/workflow-spec/src/lib.rs\<close> and
  \<open>crates/workflow-spec/src/agent_contract.rs\<close>. The authored document is first decoded by the
  TOML library into the \<open>Raw...\<close> structs, then checked and turned into a \<open>WorkflowSpec\<close> by
  \<open>parse_str\<close>. The TOML decoder is not part of this repository: it is an argument of the
  definitions (\<open>toml_parse\<close>, \<open>toml_de\<close>, \<open>toml_span\<close>), as is opening a file.

  A \<open>BTreeMap\<close> is the list of its entries in iteration order, a \<open>BTreeSet\<close> the list of its
  elements in iteration order. The accessor methods of a Rust struct are the selectors of the
  record; a \<open>NodeId\<close> or \<open>WorkflowId\<close>, a struct around one string, is that string.
\<close>

section \<open>Agent contracts (agent\_contract.rs)\<close>

datatype SessionMode = Isolated | Shared

datatype AgentContractError = EmptyField string | DuplicateStateKey | InvalidSession

record InstructionContract =
  ins_path :: string
  ins_sha256 :: string

definition InstructionContract_new :: "string \<Rightarrow> string \<Rightarrow> AgentContractError + InstructionContract" where
  "InstructionContract_new path sha256 =
     (if path = [] then Inl (EmptyField ''instruction.path'')
      else if sha256 = [] then Inl (EmptyField ''instruction.sha256'')
      else Inr \<lparr>ins_path = path, ins_sha256 = sha256\<rparr>)"

record InputContract =
  in_state_keys :: "string list"

fun input_keys_check :: "string list \<Rightarrow> string list \<Rightarrow> AgentContractError + unit" where
  "input_keys_check seen [] = Inr ()"
| "input_keys_check seen (key # keys) =
     (if key = [] then Inl (EmptyField ''input.state_keys'')
      else if key \<in> set seen then Inl DuplicateStateKey
      else input_keys_check (key # seen) keys)"

definition InputContract_new :: "string list \<Rightarrow> AgentContractError + InputContract" where
  "InputContract_new state_keys =
     res_bind (input_keys_check [] state_keys) (\<lambda>_. Inr \<lparr>in_state_keys = state_keys\<rparr>)"

record OutputContract =
  out_state_key :: string
  out_schema :: string

definition OutputContract_new :: "string \<Rightarrow> string \<Rightarrow> AgentContractError + OutputContract" where
  "OutputContract_new state_key schema =
     (if state_key = [] then Inl (EmptyField ''output.state_key'')
      else if schema = [] then Inl (EmptyField ''output.schema'')
      else Inr \<lparr>out_state_key = state_key, out_schema = schema\<rparr>)"

record AgentNodeContract =
  ac_instruction :: InstructionContract
  ac_input :: InputContract
  ac_output :: OutputContract
  ac_session :: SessionMode

section \<open>The decoded specification\<close>

definition WORKFLOW_SCHEMA_VERSION_V1 :: u32 where
  "WORKFLOW_SCHEMA_VERSION_V1 = 1"

definition RESERVED_SKILL_TOOL_NAMES :: "string list" where
  "RESERVED_SKILL_TOOL_NAMES = [''activate_skill'', ''read_skill_resource'', ''run_skill_script'']"

definition is_reserved_skill_tool_name :: "string \<Rightarrow> bool" where
  "is_reserved_skill_tool_name name \<longleftrightarrow> name \<in> set RESERVED_SKILL_TOOL_NAMES"

record SourceLocation =
  loc_source :: string
  loc_field :: string
  loc_span :: "(nat \<times> nat) option"

definition SourceLocation_root :: "string \<Rightarrow> SourceLocation" where
  "SourceLocation_root source = \<lparr>loc_source = source, loc_field = ''.'', loc_span = None\<rparr>"

datatype SchemaVersion = V1

datatype NodeKind = Agent | Action | Validator | Registered | Approval | Terminal

datatype RouteOperator = Equals | NotEquals | IsTrue | IsFalse | Exists | IsEmpty | EnumCase
  | NumericRange | StatusClass

fun RouteOperator_as_str :: "RouteOperator \<Rightarrow> string" where
  "RouteOperator_as_str Equals = ''equals''"
| "RouteOperator_as_str NotEquals = ''not_equals''"
| "RouteOperator_as_str IsTrue = ''is_true''"
| "RouteOperator_as_str IsFalse = ''is_false''"
| "RouteOperator_as_str Exists = ''exists''"
| "RouteOperator_as_str IsEmpty = ''is_empty''"
| "RouteOperator_as_str EnumCase = ''enum_case''"
| "RouteOperator_as_str NumericRange = ''numeric_range''"
| "RouteOperator_as_str StatusClass = ''status_class''"

definition RouteOperator_from_str :: "string \<Rightarrow> string + RouteOperator" where
  "RouteOperator_from_str input =
     (if input = ''equals'' then Inr Equals
      else if input = ''not_equals'' then Inr NotEquals
      else if input = ''is_true'' then Inr IsTrue
      else if input = ''is_false'' then Inr IsFalse
      else if input = ''exists'' then Inr Exists
      else if input = ''is_empty'' then Inr IsEmpty
      else if input = ''enum_case'' then Inr EnumCase
      else if input = ''numeric_range'' then Inr NumericRange
      else if input = ''status_class'' then Inr StatusClass
      else Inl input)"

datatype ModelRole = Worker | Reviewer

record ModelReference =
  mr_role :: ModelRole
  mr_id :: string
  mr_version :: string

record ToolReference =
  tr_id :: string
  tr_version :: string

record SkillReference =
  sr_id :: string
  sr_version :: string

datatype TrajectoryObserverMode = Disabled | Semantic

record TrajectoryPolicy =
  tp_schema_version :: u16
  tp_observer_mode :: "TrajectoryObserverMode option"

record BehavioralPolicy =
  bp_schema_version :: u16
  bp_max_steps :: usize
  bp_timeout_ms :: u64
  bp_trajectory :: "TrajectoryPolicy option"

record UntrustedTextPreparation =
  ut_schema_version :: u16
  ut_max_input_bytes :: usize
  ut_en :: bool
  ut_zh :: bool
  ut_ja :: bool
  ut_behavioral :: "BehavioralPolicy option"

record FirewallContract =
  fw_schema_version :: u32
  fw_identity :: string

record ResourceReference =
  res_path :: string
  res_sha256 :: string

record Workflow =
  wf_id :: string
  wf_version :: string
  wf_entry :: string
  wf_resources :: "ResourceReference list"

record Node =
  nd_id :: string
  nd_kind :: NodeKind
  nd_timeout_ms :: "u64 option"
  nd_max_visits :: "u32 option"
  nd_idempotent :: bool
  nd_resources :: "ResourceReference list"
  nd_model :: "ModelReference option"
  nd_tools :: "ToolReference list"
  nd_skills :: "SkillReference list"
  nd_agent_contract :: "AgentNodeContract option"
  nd_untrusted_text :: "UntrustedTextPreparation option"
  nd_firewall :: "FirewallContract option"

record Edge =
  ed_from :: string
  ed_to :: string

record PredicateReference =
  pr_id :: string
  pr_version :: string

record RouteCase =
  rc_key :: string
  rc_target :: string

record PredicateRoute =
  rt_from :: string
  rt_predicate :: PredicateReference
  rt_cases :: "RouteCase list"
  rt_default :: "string option"

record StateKey =
  sk_name :: string
  sk_schema_id :: string
  sk_schema_version :: string
  sk_handle :: "string option"

record StateSpec =
  st_schema_id :: string
  st_schema_version :: string
  st_required_keys :: "string list"
  st_keys :: "StateKey list"

datatype CompactStateEndpoint = CodeInvestigation | GroundedAnswer | MultiHop | Review

record CompactStateExchange =
  cx_from :: CompactStateEndpoint
  cx_to :: CompactStateEndpoint

record WorkflowSpec =
  ws_schema_version :: SchemaVersion
  ws_workflow :: Workflow
  ws_nodes :: "Node list"
  ws_edges :: "Edge list"
  ws_routes :: "PredicateRoute list"
  ws_state :: "StateSpec option"
  ws_compact_state_exchange :: "CompactStateExchange option"
  ws_resources :: "ResourceReference list"

section \<open>The raw document\<close>

record RawInstructionContract =
  ri_path :: string
  ri_sha256 :: string

record RawInputContract =
  rin_state_keys :: "string list"

record RawOutputContract =
  rout_state_key :: string
  rout_schema :: string

record RawModelReference =
  rm_role :: ModelRole
  rm_id :: string
  rm_version :: string

record RawToolReference =
  rtl_id :: string
  rtl_version :: string

record RawSkillReference =
  rsk_id :: string
  rsk_version :: string

record RawResource =
  rr_path :: string
  rr_sha256 :: string

record RawNode =
  rn_id :: string
  rn_kind :: NodeKind
  rn_timeout_ms :: "u64 option"
  rn_max_visits :: "u32 option"
  rn_idempotent :: bool
  rn_resources :: "RawResource list"
  rn_model :: "RawModelReference option"
  rn_tools :: "RawToolReference list"
  rn_skills :: "RawSkillReference list"
  rn_instruction :: "RawInstructionContract option"
  rn_input :: "RawInputContract option"
  rn_output :: "RawOutputContract option"
  rn_session :: "string option"
  rn_untrusted_text :: "UntrustedTextPreparation option"
  rn_firewall :: "FirewallContract option"

record RawEdge =
  re_from :: string
  re_to :: string

record RawPredicateReference =
  rp_id :: string
  rp_version :: string

record RawPredicateRoute =
  rpr_from :: string
  rpr_predicate :: RawPredicateReference
  rpr_cases :: "(string \<times> string) list"
  rpr_default :: "string option"

record RawStateKey =
  rsy_schema_id :: string
  rsy_schema_version :: string
  rsy_handle :: "string option"

record RawState =
  rst_schema_id :: string
  rst_schema_version :: string
  rst_required_keys :: "string list"
  rst_keys :: "(string \<times> RawStateKey) list"

record RawCompactStateExchange =
  rcx_from :: CompactStateEndpoint
  rcx_to :: CompactStateEndpoint

record RawWorkflow =
  rw_id :: string
  rw_version :: string
  rw_entry :: string
  rw_resources :: "RawResource list"

record RawWorkflowSpec =
  raw_schema_version :: u32
  raw_workflow :: RawWorkflow
  raw_nodes :: "RawNode list"
  raw_edges :: "RawEdge list"
  raw_routes :: "RawPredicateRoute list"
  raw_state :: "RawState option"
  raw_compact_state_exchange :: "RawCompactStateExchange option"
  raw_resources :: "RawResource list"

end
