(* ===== verification/Wire_Code.thy ===== *)
theory Wire_Code
  imports Prelude
begin

text \<open>
  The byte-writing helpers of \<open>crates/workflow-ir/src/lib.rs\<close> (\<open>write_u16\<close>, \<open>write_u32\<close>,
  \<open>write_u64\<close>, \<open>write_frame\<close> and the two shapes every section of the canonical wire is made
  of: a tagged optional value and a counted sequence), and the interface they all implement:
  a \<^emph>\<open>prefix code\<close>, an encoding whose end can be told from its bytes, so that what is written
  after it can be split off again. The interface is a locale; each helper interprets it, and
  the lemma for a sequence or an optional value is proved once, inside the locale, for every
  element encoding.
\<close>

section \<open>The interface: prefix codes\<close>

locale prefix_code =
  fixes enc :: "'a \<Rightarrow> byte list"
    and ok :: "'a \<Rightarrow> bool"
  assumes cancel: "ok a \<Longrightarrow> ok b \<Longrightarrow> enc a @ x = enc b @ y \<Longrightarrow> a = b \<and> x = y"
begin

lemma cancel_iff: "ok a \<Longrightarrow> ok b \<Longrightarrow> enc a @ x = enc b @ y \<longleftrightarrow> a = b \<and> x = y"
  using cancel by blast

lemma enc_eq_iff: "ok a \<Longrightarrow> ok b \<Longrightarrow> enc a = enc b \<longleftrightarrow> a = b"
  using cancel [of a b "[]" "[]"] by auto

lemma concat_cancel:
  assumes "length as = length bs" and "list_all ok as" and "list_all ok bs"
    and "concat (map enc as) @ x = concat (map enc bs) @ y"
  shows "as = bs \<and> x = y"
  using assms
proof (induction as bs arbitrary: x y rule: list_induct2)
  case Nil
  then show ?case by simp
next
  case (Cons a as b bs)
  from Cons.prems have "a = b" and "concat (map enc as) @ x = concat (map enc bs) @ y"
    using cancel [of a b "concat (map enc as) @ x" "concat (map enc bs) @ y"] by auto
  with Cons.IH [of x y] Cons.prems show ?case by simp
qed

lemma concat_cancel_iff:
  "length as = length bs \<Longrightarrow> list_all ok as \<Longrightarrow> list_all ok bs \<Longrightarrow>
     concat (map enc as) @ x = concat (map enc bs) @ y \<longleftrightarrow> as = bs \<and> x = y"
  using concat_cancel by blast

end

text \<open>
  A code of which every value is a legal one; and a code for a value that is read off the
  value that is really written.
\<close>

locale total_code = prefix_code enc "\<lambda>_. True" for enc :: "'a \<Rightarrow> byte list"
begin

lemma total_cancel_iff [simp]: "enc a @ x = enc b @ y \<longleftrightarrow> a = b \<and> x = y"
  by (rule cancel_iff) auto

lemma total_enc_eq_iff [simp]: "enc a = enc b \<longleftrightarrow> a = b"
  by (rule enc_eq_iff) auto

end

section \<open>The helpers\<close>

definition write_u16 :: "u16 \<Rightarrow> byte list" where
  "write_u16 value = to_be_bytes 2 value"

definition write_u32 :: "u32 \<Rightarrow> byte list" where
  "write_u32 value = to_be_bytes 4 value"

definition write_u64 :: "u64 \<Rightarrow> byte list" where
  "write_u64 value = to_be_bytes 8 value"

definition write_frame :: "string \<Rightarrow> byte list" where
  "write_frame value = write_u64 (len_u64 value) @ str_bytes value"

text \<open>\<open>match o { Some(v) => { [1]; enc(v) } None => [0] }\<close>\<close>

definition write_opt :: "('a \<Rightarrow> byte list) \<Rightarrow> 'a option \<Rightarrow> byte list" where
  "write_opt enc o' = (case o' of Some v \<Rightarrow> [1] @ enc v | None \<Rightarrow> [0])"

text \<open>\<open>write_u64(len); for x in xs { enc(x) }\<close>\<close>

definition write_seq :: "('a \<Rightarrow> byte list) \<Rightarrow> 'a list \<Rightarrow> byte list" where
  "write_seq enc xs = write_u64 (len_u64 xs) @ concat (map enc xs)"

text \<open>\<open>u8::from(b)\<close>\<close>

definition write_bool :: "bool \<Rightarrow> byte list" where
  "write_bool b = [if b then 1 else 0]"

section \<open>Each helper is a prefix code\<close>

lemma fixed_width_cancel:
  assumes "\<And>v. length (enc v) = n" and "\<And>v w. enc v = enc w \<Longrightarrow> v = w"
  shows "total_code enc"
proof
  fix a b x y
  assume eq: "enc a @ x = enc b @ y"
  have "length (enc a) = length (enc b)" by (simp add: assms(1))
  with eq have "enc a = enc b" and "x = y" by auto
  then show "a = b \<and> x = y" using assms(2) by blast
qed

interpretation u16: total_code write_u16
  by (rule fixed_width_cancel [where n = 2])
     (auto simp: write_u16_def elim!: to_be_bytes_inj [rotated])

interpretation u32: total_code write_u32
  by (rule fixed_width_cancel [where n = 4])
     (auto simp: write_u32_def elim!: to_be_bytes_inj [rotated])

interpretation u64: total_code write_u64
  by (rule fixed_width_cancel [where n = 8])
     (auto simp: write_u64_def elim!: to_be_bytes_inj [rotated])

interpretation flag: total_code write_bool
  by (rule fixed_width_cancel [where n = 1]) (auto simp: write_bool_def split: if_splits)

interpretation frame: prefix_code write_frame fits
proof
  fix a b x y
  assume ok: "fits a" "fits b" and eq: "write_frame a @ x = write_frame b @ y"
  from eq have "len_u64 a = len_u64 b" and rest: "str_bytes a @ x = str_bytes b @ y"
    by (simp_all add: write_frame_def)
  with ok have "length a = length b" by (blast intro: len_u64_inj)
  with rest show "a = b \<and> x = y" by auto
qed

context prefix_code
begin

lemma seq_cancel:
  assumes "fits as" "fits bs" "list_all ok as" "list_all ok bs"
    and "write_seq enc as @ x = write_seq enc bs @ y"
  shows "as = bs \<and> x = y"
proof -
  from assms(5) have "len_u64 as = len_u64 bs"
    and "concat (map enc as) @ x = concat (map enc bs) @ y"
    by (simp_all add: write_seq_def)
  moreover from assms(1,2) \<open>len_u64 as = len_u64 bs\<close> have "length as = length bs"
    by (rule len_u64_inj)
  ultimately show ?thesis using assms(3,4) by (blast dest: concat_cancel)
qed

lemma seq_code: "prefix_code (write_seq enc) (\<lambda>xs. fits xs \<and> list_all ok xs)"
  by unfold_locales (auto dest: seq_cancel)

lemma opt_code: "prefix_code (write_opt enc) (pred_option ok)"
  by unfold_locales (auto simp: write_opt_def cancel_iff split: option.splits)

text \<open>A section that is written only under a condition both sides agree on.\<close>

lemma cond_cancel_iff:
  "ok a \<Longrightarrow> ok b \<Longrightarrow> c \<or> a = d \<Longrightarrow> c \<or> b = d \<Longrightarrow>
     (if c then enc a else []) @ x = (if c then enc b else []) @ y \<longleftrightarrow> a = b \<and> x = y"
  by (auto simp: cancel_iff)

end

lemmas wire_codes [wire_inj] = frame.cancel_iff frame.enc_eq_iff

end
