(* ===== verification/Ir.thy ===== *)
theory Ir
  imports Spec Wire_Code
begin

text \<open>
  Component: the canonical workflow IR, \<open>crates/workflow-ir/src/lib.rs\<close> (with the exchange
  endpoints of \<open>crates/workflow-ir/src/compact_state.rs\<close>). The data of the IR, the
  normalisation \<open>WorkflowIr::from(&WorkflowSpec)\<close> with its sorts, the choice of the wire
  version, and \<open>encode_canonical\<close>, the byte string whose SHA-256 is the content identity of a
  workflow. The sink of the code is the list of bytes written to it.

  Rust's \<open>sort_by\<close> and \<open>sort\<close> are stable sorts, as \<^const>\<open>sort_key\<close> is.
\<close>

section \<open>Data\<close>

datatype IrSchemaVersion = IrV1

definition IrSchemaVersion_tag :: "IrSchemaVersion \<Rightarrow> u32" where
  "IrSchemaVersion_tag v = (case v of IrV1 \<Rightarrow> 1)"

datatype IrNodeKind = IrAgent | IrAction | IrValidator | IrRegistered | IrApproval | IrTerminal

fun IrNodeKind_tag :: "IrNodeKind \<Rightarrow> byte" where
  "IrNodeKind_tag IrAgent = 1"
| "IrNodeKind_tag IrAction = 2"
| "IrNodeKind_tag IrValidator = 3"
| "IrNodeKind_tag IrRegistered = 4"
| "IrNodeKind_tag IrApproval = 5"
| "IrNodeKind_tag IrTerminal = 6"

datatype IrModelRole = IrWorker | IrReviewer

fun IrModelRole_tag :: "IrModelRole \<Rightarrow> byte" where
  "IrModelRole_tag IrWorker = 1"
| "IrModelRole_tag IrReviewer = 2"

record IrModelReference =
  im_role :: IrModelRole
  im_id :: string
  im_version :: string

record IrToolReference =
  itl_id :: string
  itl_version :: string

record IrSkillReference =
  isk_id :: string
  isk_version :: string

record IrNode =
  irn_id :: string
  irn_kind :: IrNodeKind
  irn_timeout_ms :: "u64 option"
  irn_max_visits :: "u32 option"
  irn_idempotent :: bool
  irn_model :: "IrModelReference option"
  irn_tools :: "IrToolReference list"
  irn_skills :: "IrSkillReference list"
  irn_agent_contract :: "AgentNodeContract option"
  irn_untrusted_text :: "UntrustedTextPreparation option"
  irn_firewall :: "FirewallContract option"

record IrEdge =
  ire_from :: string
  ire_to :: string

record IrResource =
  irr_path :: string
  irr_sha256 :: string

record IrPredicateReference =
  irp_id :: string
  irp_version :: string

record IrRouteCase =
  irc_key :: string
  irc_target :: string

record IrPredicateRoute =
  irt_from :: string
  irt_predicate :: IrPredicateReference
  irt_cases :: "IrRouteCase list"
  irt_default :: "string option"

record IrStateKey =
  isy_name :: string
  isy_schema_id :: string
  isy_schema_version :: string
  isy_handle :: "string option"

record IrState =
  ist_schema_id :: string
  ist_schema_version :: string
  ist_required_keys :: "string list"
  ist_keys :: "IrStateKey list"

datatype IrCompactStateEndpoint = IrCodeInvestigation | IrGroundedAnswer | IrMultiHop | IrReview

fun IrCompactStateEndpoint_as_str :: "IrCompactStateEndpoint \<Rightarrow> string" where
  "IrCompactStateEndpoint_as_str IrCodeInvestigation = ''code.investigation''"
| "IrCompactStateEndpoint_as_str IrGroundedAnswer = ''grounded.answer''"
| "IrCompactStateEndpoint_as_str IrMultiHop = ''multi.hop''"
| "IrCompactStateEndpoint_as_str IrReview = ''review''"

fun IrCompactStateEndpoint_from :: "CompactStateEndpoint \<Rightarrow> IrCompactStateEndpoint" where
  "IrCompactStateEndpoint_from CodeInvestigation = IrCodeInvestigation"
| "IrCompactStateEndpoint_from GroundedAnswer = IrGroundedAnswer"
| "IrCompactStateEndpoint_from MultiHop = IrMultiHop"
| "IrCompactStateEndpoint_from Review = IrReview"

record IrCompactStateExchange =
  icx_from :: IrCompactStateEndpoint
  icx_to :: IrCompactStateEndpoint

record WorkflowIr =
  ir_schema_version :: IrSchemaVersion
  ir_workflow_id :: string
  ir_workflow_version :: string
  ir_entry_node_id :: string
  ir_nodes :: "IrNode list"
  ir_edges :: "IrEdge list"
  ir_routes :: "IrPredicateRoute list"
  ir_state :: "IrState option"
  ir_compact_state_exchange :: "IrCompactStateExchange option"
  ir_resources :: "IrResource list"

section \<open>Normalisation: WorkflowIr::from\<close>

fun IrNodeKind_from :: "NodeKind \<Rightarrow> IrNodeKind" where
  "IrNodeKind_from Agent = IrAgent"
| "IrNodeKind_from Action = IrAction"
| "IrNodeKind_from Validator = IrValidator"
| "IrNodeKind_from Registered = IrRegistered"
| "IrNodeKind_from Approval = IrApproval"
| "IrNodeKind_from Terminal = IrTerminal"

fun IrModelRole_from :: "ModelRole \<Rightarrow> IrModelRole" where
  "IrModelRole_from Worker = IrWorker"
| "IrModelRole_from Reviewer = IrReviewer"

text \<open>The sort keys of the comparators in \<open>From<&WorkflowSpec>\<close>.\<close>

definition tool_key :: "IrToolReference \<Rightarrow> string \<times> string" where
  "tool_key t = (itl_id t, itl_version t)"

definition skill_key :: "IrSkillReference \<Rightarrow> string \<times> string" where
  "skill_key s = (isk_id s, isk_version s)"

definition case_key :: "IrRouteCase \<Rightarrow> string \<times> string" where
  "case_key c = (irc_key c, irc_target c)"

definition node_key :: "IrNode \<Rightarrow> string \<times> byte" where
  "node_key n = (irn_id n, IrNodeKind_tag (irn_kind n))"

definition edge_key :: "IrEdge \<Rightarrow> string \<times> string" where
  "edge_key e = (ire_from e, ire_to e)"

definition route_key ::
  "IrPredicateRoute \<Rightarrow> string \<times> (string \<times> string) \<times> (string \<times> string) list \<times> string option" where
  "route_key r = (irt_from r, (irp_id (irt_predicate r), irp_version (irt_predicate r)),
                  map case_key (irt_cases r), irt_default r)"

definition resource_key :: "IrResource \<Rightarrow> string \<times> string" where
  "resource_key r = (irr_path r, irr_sha256 r)"

definition ir_resource :: "ResourceReference \<Rightarrow> IrResource" where
  "ir_resource r = \<lparr>irr_path = res_path r, irr_sha256 = res_sha256 r\<rparr>"

definition ir_node :: "Node \<Rightarrow> IrNode" where
  "ir_node node =
     (let kind = IrNodeKind_from (nd_kind node) in
      \<lparr>irn_id = nd_id node, irn_kind = kind,
       irn_timeout_ms = (if kind = IrApproval then nd_timeout_ms node else None),
       irn_max_visits = nd_max_visits node, irn_idempotent = nd_idempotent node,
       irn_model = map_option (\<lambda>m. \<lparr>im_role = IrModelRole_from (mr_role m), im_id = mr_id m,
                                    im_version = mr_version m\<rparr>) (nd_model node),
       irn_tools = sort_key tool_key
         (map (\<lambda>t. \<lparr>itl_id = tr_id t, itl_version = tr_version t\<rparr>) (nd_tools node)),
       irn_skills = sort_key skill_key
         (map (\<lambda>s. \<lparr>isk_id = sr_id s, isk_version = sr_version s\<rparr>) (nd_skills node)),
       irn_agent_contract = nd_agent_contract node, irn_untrusted_text = nd_untrusted_text node,
       irn_firewall = nd_firewall node\<rparr>)"

definition ir_edge :: "Edge \<Rightarrow> IrEdge" where
  "ir_edge e = \<lparr>ire_from = ed_from e, ire_to = ed_to e\<rparr>"

definition ir_route :: "PredicateRoute \<Rightarrow> IrPredicateRoute" where
  "ir_route route =
     \<lparr>irt_from = rt_from route,
      irt_predicate = \<lparr>irp_id = pr_id (rt_predicate route), irp_version = pr_version (rt_predicate route)\<rparr>,
      irt_cases = sort_key case_key
        (map (\<lambda>c. \<lparr>irc_key = rc_key c, irc_target = rc_target c\<rparr>) (rt_cases route)),
      irt_default = rt_default route\<rparr>"

definition ir_state_key :: "StateKey \<Rightarrow> IrStateKey" where
  "ir_state_key key =
     \<lparr>isy_name = sk_name key, isy_schema_id = sk_schema_id key, isy_schema_version = sk_schema_version key,
      isy_handle = (if sk_handle key = Some ''inline'' then None else sk_handle key)\<rparr>"

definition ir_state_from :: "StateSpec \<Rightarrow> IrState" where
  "ir_state_from state =
     \<lparr>ist_schema_id = st_schema_id state, ist_schema_version = st_schema_version state,
      ist_required_keys = st_required_keys state, ist_keys = map ir_state_key (st_keys state)\<rparr>"

definition ir_exchange :: "CompactStateExchange \<Rightarrow> IrCompactStateExchange" where
  "ir_exchange x = \<lparr>icx_from = IrCompactStateEndpoint_from (cx_from x),
                    icx_to = IrCompactStateEndpoint_from (cx_to x)\<rparr>"

definition WorkflowIr_from :: "WorkflowSpec \<Rightarrow> WorkflowIr" where
  "WorkflowIr_from spec =
     \<lparr>ir_schema_version = (case ws_schema_version spec of V1 \<Rightarrow> IrV1),
      ir_workflow_id = wf_id (ws_workflow spec),
      ir_workflow_version = wf_version (ws_workflow spec),
      ir_entry_node_id = wf_entry (ws_workflow spec),
      ir_nodes = sort_key node_key (map ir_node (ws_nodes spec)),
      ir_edges = sort_key edge_key (map ir_edge (ws_edges spec)),
      ir_routes = sort_key route_key (map ir_route (ws_routes spec)),
      ir_state = map_option ir_state_from (ws_state spec),
      ir_compact_state_exchange = map_option ir_exchange (ws_compact_state_exchange spec),
      ir_resources = sort_key resource_key
        (map ir_resource (ws_resources spec @ wf_resources (ws_workflow spec))
         @ concat (map (\<lambda>n. map ir_resource (nd_resources n)) (ws_nodes spec)))\<rparr>"

section \<open>The canonical wire\<close>

definition DOMAIN :: "byte list" where
  "DOMAIN = str_bytes ''adk-workflow-kit/workflow-ir'' @ [0]"

definition has_trajectory3 :: "IrNode \<Rightarrow> bool" where
  "has_trajectory3 n \<longleftrightarrow>
     (case Option.bind (Option.bind (irn_untrusted_text n) ut_behavioral) bp_trajectory of
        None \<Rightarrow> False | Some p \<Rightarrow> tp_schema_version p = 3)"

definition canonical_wire_version :: "WorkflowIr \<Rightarrow> u16" where
  "canonical_wire_version ir =
     (let nodes = ir_nodes ir; any = (\<lambda>p. list_ex p nodes) in
      if any has_trajectory3 then 15
      else if ir_compact_state_exchange ir \<noteq> None then 14
      else if any (\<lambda>n. case Option.bind (irn_untrusted_text n) ut_behavioral of
                        None \<Rightarrow> False | Some p \<Rightarrow> bp_trajectory p \<noteq> None) then 13
      else if any (\<lambda>n. case irn_untrusted_text n of None \<Rightarrow> False | Some p \<Rightarrow> ut_behavioral p \<noteq> None) then 12
      else if any (\<lambda>n. irn_untrusted_text n \<noteq> None) then 11
      else if any (\<lambda>n. irn_firewall n \<noteq> None) then 10
      else if any (\<lambda>n. irn_agent_contract n \<noteq> None) then 9
      else if any (\<lambda>n. irn_skills n \<noteq> []) then 8
      else if any (\<lambda>n. irn_model n \<noteq> None \<or> irn_tools n \<noteq> []) then 7
      else if ir_resources ir \<noteq> []
           \<or> any (\<lambda>n. irn_max_visits n \<noteq> None \<or> irn_idempotent n)
           \<or> list_ex (\<lambda>r. irt_default r \<noteq> None) (ir_routes ir) then 5
      else if any (\<lambda>n. irn_kind n = IrApproval) then 4
      else if ir_state ir \<noteq> None then 3
      else if ir_routes ir = [] then 1
      else 2)"

fun observer_byte :: "TrajectoryObserverMode \<Rightarrow> byte" where
  "observer_byte Disabled = 0"
| "observer_byte Semantic = 1"

definition encode_trajectory :: "u16 \<Rightarrow> TrajectoryPolicy \<Rightarrow> byte list" where
  "encode_trajectory wire_version observer =
     write_u16 (tp_schema_version observer)
     @ (if 15 \<le> wire_version then write_opt (\<lambda>mode. [observer_byte mode]) (tp_observer_mode observer) else [])"

definition encode_behavioral :: "u16 \<Rightarrow> BehavioralPolicy \<Rightarrow> byte list" where
  "encode_behavioral wire_version behavioral =
     write_u16 (bp_schema_version behavioral) @ write_u64 (bp_max_steps behavioral)
     @ write_u64 (bp_timeout_ms behavioral)
     @ (if 13 \<le> wire_version then write_opt (encode_trajectory wire_version) (bp_trajectory behavioral) else [])"

definition encode_untrusted_text :: "u16 \<Rightarrow> UntrustedTextPreparation \<Rightarrow> byte list" where
  "encode_untrusted_text wire_version policy =
     write_u16 (ut_schema_version policy) @ write_u64 (ut_max_input_bytes policy)
     @ write_bool (ut_en policy) @ write_bool (ut_zh policy) @ write_bool (ut_ja policy)
     @ (if 12 \<le> wire_version then write_opt (encode_behavioral wire_version) (ut_behavioral policy) else [])"

definition encode_model :: "IrModelReference \<Rightarrow> byte list" where
  "encode_model model = [IrModelRole_tag (im_role model)] @ write_frame (im_id model) @ write_frame (im_version model)"

definition encode_tool :: "IrToolReference \<Rightarrow> byte list" where
  "encode_tool tool = write_frame (itl_id tool) @ write_frame (itl_version tool)"

definition encode_skill :: "IrSkillReference \<Rightarrow> byte list" where
  "encode_skill skill = write_frame (isk_id skill) @ write_frame (isk_version skill)"

fun session_byte :: "SessionMode \<Rightarrow> byte" where
  "session_byte Isolated = 1"
| "session_byte Shared = 2"

definition encode_agent_contract :: "AgentNodeContract \<Rightarrow> byte list" where
  "encode_agent_contract contract =
     [session_byte (ac_session contract)]
     @ write_frame (ins_path (ac_instruction contract)) @ write_frame (ins_sha256 (ac_instruction contract))
     @ write_seq write_frame (in_state_keys (ac_input contract))
     @ write_frame (out_state_key (ac_output contract)) @ write_frame (out_schema (ac_output contract))"

definition encode_node :: "u16 \<Rightarrow> bool \<Rightarrow> IrNode \<Rightarrow> byte list" where
  "encode_node wire_version has_cycle_policy node =
     write_frame (irn_id node) @ [IrNodeKind_tag (irn_kind node)]
     @ (if 11 \<le> wire_version
        then write_opt (encode_untrusted_text wire_version) (irn_untrusted_text node) else [])
     @ (if irn_kind node = IrApproval then write_opt write_u64 (irn_timeout_ms node) else [])
     @ (if has_cycle_policy
        then write_opt write_u32 (irn_max_visits node) @ write_bool (irn_idempotent node) else [])
     @ (if 6 \<le> wire_version
        then write_opt encode_model (irn_model node)
             @ (if wire_version = 6 then [0] else write_seq encode_tool (irn_tools node))
             @ (if 8 \<le> wire_version then write_seq encode_skill (irn_skills node) else [])
             @ (if 9 \<le> wire_version then write_opt encode_agent_contract (irn_agent_contract node) else [])
        else [])"

definition encode_firewall :: "FirewallContract \<Rightarrow> byte list" where
  "encode_firewall contract = write_u64 (ucast (fw_schema_version contract)) @ write_frame (fw_identity contract)"

definition encode_edge :: "IrEdge \<Rightarrow> byte list" where
  "encode_edge edge = write_frame (ire_from edge) @ write_frame (ire_to edge)"

definition encode_case :: "IrRouteCase \<Rightarrow> byte list" where
  "encode_case c = write_frame (irc_key c) @ write_frame (irc_target c)"

definition encode_route :: "bool \<Rightarrow> IrPredicateRoute \<Rightarrow> byte list" where
  "encode_route has_route_defaults route =
     write_frame (irt_from route) @ write_frame (irp_id (irt_predicate route))
     @ write_frame (irp_version (irt_predicate route))
     @ write_seq encode_case (irt_cases route)
     @ (if has_route_defaults then write_opt write_frame (irt_default route) else [])"

definition encode_state_key :: "IrStateKey \<Rightarrow> byte list" where
  "encode_state_key key =
     write_frame (isy_name key) @ write_frame (isy_schema_id key) @ write_frame (isy_schema_version key)
     @ write_opt write_frame (isy_handle key)"

definition encode_state :: "IrState \<Rightarrow> byte list" where
  "encode_state state =
     write_frame (ist_schema_id state) @ write_frame (ist_schema_version state)
     @ write_seq write_frame (ist_required_keys state) @ write_seq encode_state_key (ist_keys state)"

definition encode_exchange :: "IrCompactStateExchange \<Rightarrow> byte list" where
  "encode_exchange exchange =
     write_frame (IrCompactStateEndpoint_as_str (icx_from exchange))
     @ write_frame (IrCompactStateEndpoint_as_str (icx_to exchange))"

definition encode_resource :: "IrResource \<Rightarrow> byte list" where
  "encode_resource r = write_frame (irr_path r) @ write_frame (irr_sha256 r)"

definition has_cycle_policy :: "WorkflowIr \<Rightarrow> bool" where
  "has_cycle_policy ir = list_ex (\<lambda>n. irn_max_visits n \<noteq> None \<or> irn_idempotent n) (ir_nodes ir)"

definition has_route_defaults :: "WorkflowIr \<Rightarrow> bool" where
  "has_route_defaults ir = list_ex (\<lambda>r. irt_default r \<noteq> None) (ir_routes ir)"

definition encode_canonical :: "WorkflowIr \<Rightarrow> byte list" where
  "encode_canonical ir =
     (let wire_version = canonical_wire_version ir in
      DOMAIN @ write_u16 wire_version @ write_u32 (IrSchemaVersion_tag (ir_schema_version ir))
      @ write_frame (ir_workflow_id ir) @ write_frame (ir_workflow_version ir)
      @ write_frame (ir_entry_node_id ir)
      @ write_seq (encode_node wire_version (has_cycle_policy ir)) (ir_nodes ir)
      @ (if 10 \<le> wire_version
         then concat (map (\<lambda>n. write_opt encode_firewall (irn_firewall n)) (ir_nodes ir)) else [])
      @ write_seq encode_edge (ir_edges ir)
      @ (if ir_routes ir \<noteq> [] then write_seq (encode_route (has_route_defaults ir)) (ir_routes ir) else [])
      @ (case ir_state ir of None \<Rightarrow> [] | Some state \<Rightarrow> encode_state state)
      @ (case ir_compact_state_exchange ir of None \<Rightarrow> [] | Some exchange \<Rightarrow> encode_exchange exchange)
      @ (if ir_resources ir \<noteq> [] then write_seq encode_resource (ir_resources ir) else []))"

text \<open>SHA-256 is a library function: a parameter, fed the bytes in the order they are written.\<close>

definition canonical_hash :: "(byte list \<Rightarrow> 'h) \<Rightarrow> WorkflowIr \<Rightarrow> 'h" where
  "canonical_hash sha256 ir = sha256 (encode_canonical ir)"

end
