(* ===== verification/Ir_Wire.thy ===== *)
theory Ir_Wire
  imports Ir
begin

text \<open>
  The canonical wire of \<open>workflow-ir\<close> as a code: each section writer of \<open>encode_canonical\<close>
  interprets \<open>prefix_code\<close> on the values the layout can carry. The layout of a wire
  depends on facts of the whole workflow (the wire version, whether any node declares a
  cycle policy, whether any route declares a default, which optional sections are present);
  \<open>same_layout\<close> is agreement on those facts. Under it the wire determines the workflow;
  without it two different workflows can have the same wire.
\<close>

section \<open>Tags\<close>

lemma kind_tag_inj [simp]: "IrNodeKind_tag k = IrNodeKind_tag k' \<longleftrightarrow> k = k'"
  by (cases k; cases k') simp_all

lemma role_tag_inj [simp]: "IrModelRole_tag r = IrModelRole_tag r' \<longleftrightarrow> r = r'"
  by (cases r; cases r') simp_all

lemma session_byte_inj [simp]: "session_byte m = session_byte m' \<longleftrightarrow> m = m'"
  by (cases m; cases m') simp_all

lemma observer_byte_inj [simp]: "observer_byte m = observer_byte m' \<longleftrightarrow> m = m'"
  by (cases m; cases m') simp_all

lemma endpoint_str_inj [simp]:
  "IrCompactStateEndpoint_as_str e = IrCompactStateEndpoint_as_str e' \<longleftrightarrow> e = e'"
  by (cases e; cases e') simp_all

lemma fits_endpoint [simp]: "fits (IrCompactStateEndpoint_as_str e)"
  by (cases e) (simp_all add: fits_def)

section \<open>Values a layout can carry\<close>

definition ok_model :: "IrModelReference \<Rightarrow> bool" where
  "ok_model m \<longleftrightarrow> fits (im_id m) \<and> fits (im_version m)"

definition ok_tool :: "IrToolReference \<Rightarrow> bool" where
  "ok_tool t \<longleftrightarrow> fits (itl_id t) \<and> fits (itl_version t)"

definition ok_skill :: "IrSkillReference \<Rightarrow> bool" where
  "ok_skill s \<longleftrightarrow> fits (isk_id s) \<and> fits (isk_version s)"

definition ok_contract :: "AgentNodeContract \<Rightarrow> bool" where
  "ok_contract c \<longleftrightarrow> fits (ins_path (ac_instruction c)) \<and> fits (ins_sha256 (ac_instruction c))
     \<and> fits (in_state_keys (ac_input c)) \<and> list_all fits (in_state_keys (ac_input c))
     \<and> fits (out_state_key (ac_output c)) \<and> fits (out_schema (ac_output c))"

definition ok_trajectory :: "u16 \<Rightarrow> TrajectoryPolicy \<Rightarrow> bool" where
  "ok_trajectory wv t \<longleftrightarrow> 15 \<le> wv \<or> tp_observer_mode t = None"

definition ok_behavioral :: "u16 \<Rightarrow> BehavioralPolicy \<Rightarrow> bool" where
  "ok_behavioral wv b \<longleftrightarrow> (13 \<le> wv \<or> bp_trajectory b = None) \<and> pred_option (ok_trajectory wv) (bp_trajectory b)"

definition ok_untrusted :: "u16 \<Rightarrow> UntrustedTextPreparation \<Rightarrow> bool" where
  "ok_untrusted wv p \<longleftrightarrow> (12 \<le> wv \<or> ut_behavioral p = None) \<and> pred_option (ok_behavioral wv) (ut_behavioral p)"

text \<open>The firewall contract of a node is written in a section of its own, after all nodes.\<close>

definition ok_node :: "u16 \<Rightarrow> bool \<Rightarrow> IrNode \<Rightarrow> bool" where
  "ok_node wv cyc n \<longleftrightarrow> fits (irn_id n)
     \<and> (11 \<le> wv \<or> irn_untrusted_text n = None) \<and> pred_option (ok_untrusted wv) (irn_untrusted_text n)
     \<and> (irn_kind n = IrApproval \<or> irn_timeout_ms n = None)
     \<and> (cyc \<or> irn_max_visits n = None \<and> \<not> irn_idempotent n)
     \<and> (7 \<le> wv \<or> irn_model n = None \<and> irn_tools n = []) \<and> pred_option ok_model (irn_model n)
     \<and> fits (irn_tools n) \<and> list_all ok_tool (irn_tools n)
     \<and> (8 \<le> wv \<or> irn_skills n = []) \<and> fits (irn_skills n) \<and> list_all ok_skill (irn_skills n)
     \<and> (9 \<le> wv \<or> irn_agent_contract n = None) \<and> pred_option ok_contract (irn_agent_contract n)
     \<and> irn_firewall n = None"

definition ok_firewall :: "FirewallContract \<Rightarrow> bool" where
  "ok_firewall f \<longleftrightarrow> fits (fw_identity f)"

definition ok_edge :: "IrEdge \<Rightarrow> bool" where
  "ok_edge e \<longleftrightarrow> fits (ire_from e) \<and> fits (ire_to e)"

definition ok_case :: "IrRouteCase \<Rightarrow> bool" where
  "ok_case c \<longleftrightarrow> fits (irc_key c) \<and> fits (irc_target c)"

definition ok_route :: "bool \<Rightarrow> IrPredicateRoute \<Rightarrow> bool" where
  "ok_route defs r \<longleftrightarrow> fits (irt_from r) \<and> fits (irp_id (irt_predicate r))
     \<and> fits (irp_version (irt_predicate r)) \<and> fits (irt_cases r) \<and> list_all ok_case (irt_cases r)
     \<and> (defs \<or> irt_default r = None) \<and> pred_option fits (irt_default r)"

definition ok_state_key :: "IrStateKey \<Rightarrow> bool" where
  "ok_state_key k \<longleftrightarrow> fits (isy_name k) \<and> fits (isy_schema_id k) \<and> fits (isy_schema_version k)
     \<and> pred_option fits (isy_handle k)"

definition ok_state :: "IrState \<Rightarrow> bool" where
  "ok_state s \<longleftrightarrow> fits (ist_schema_id s) \<and> fits (ist_schema_version s)
     \<and> fits (ist_required_keys s) \<and> list_all fits (ist_required_keys s)
     \<and> fits (ist_keys s) \<and> list_all ok_state_key (ist_keys s)"

definition ok_resource :: "IrResource \<Rightarrow> bool" where
  "ok_resource r \<longleftrightarrow> fits (irr_path r) \<and> fits (irr_sha256 r)"

section \<open>Every section writer is a prefix code\<close>

interpretation model: prefix_code encode_model ok_model
proof
  fix a b :: IrModelReference and x y
  show "ok_model a \<Longrightarrow> ok_model b \<Longrightarrow> encode_model a @ x = encode_model b @ y \<Longrightarrow> a = b \<and> x = y"
    by (cases a; cases b) (simp add: ok_model_def encode_model_def frame.cancel_iff)
qed

interpretation tool: prefix_code encode_tool ok_tool
proof
  fix a b :: IrToolReference and x y
  show "ok_tool a \<Longrightarrow> ok_tool b \<Longrightarrow> encode_tool a @ x = encode_tool b @ y \<Longrightarrow> a = b \<and> x = y"
    by (cases a; cases b) (simp add: ok_tool_def encode_tool_def frame.cancel_iff)
qed

interpretation skill: prefix_code encode_skill ok_skill
proof
  fix a b :: IrSkillReference and x y
  show "ok_skill a \<Longrightarrow> ok_skill b \<Longrightarrow> encode_skill a @ x = encode_skill b @ y \<Longrightarrow> a = b \<and> x = y"
    by (cases a; cases b) (simp add: ok_skill_def encode_skill_def frame.cancel_iff)
qed

interpretation frames: prefix_code "write_seq write_frame" "\<lambda>xs. fits xs \<and> list_all fits xs"
  by (rule frame.seq_code)

interpretation frame_opt: prefix_code "write_opt write_frame" "pred_option fits"
  by (rule frame.opt_code)

interpretation contract: prefix_code encode_agent_contract ok_contract
proof
  fix a b :: AgentNodeContract and x y
  assume ok: "ok_contract a" "ok_contract b" and eq: "encode_agent_contract a @ x = encode_agent_contract b @ y"
  obtain ap ah ak ao as am where a: "a = \<lparr>ac_instruction = \<lparr>ins_path = ap, ins_sha256 = ah\<rparr>,
      ac_input = \<lparr>in_state_keys = ak\<rparr>, ac_output = \<lparr>out_state_key = ao, out_schema = as\<rparr>, ac_session = am\<rparr>"
    by (metis AgentNodeContract.surjective InputContract.surjective InstructionContract.surjective
        OutputContract.surjective unit.exhaust)
  obtain bp bh bk bo bs bm where b: "b = \<lparr>ac_instruction = \<lparr>ins_path = bp, ins_sha256 = bh\<rparr>,
      ac_input = \<lparr>in_state_keys = bk\<rparr>, ac_output = \<lparr>out_state_key = bo, out_schema = bs\<rparr>, ac_session = bm\<rparr>"
    by (metis AgentNodeContract.surjective InputContract.surjective InstructionContract.surjective
        OutputContract.surjective unit.exhaust)
  from ok eq show "a = b \<and> x = y"
    by (simp add: a b ok_contract_def encode_agent_contract_def frame.cancel_iff frames.cancel_iff)
qed

interpretation mode_opt: prefix_code "write_opt (\<lambda>mode. [observer_byte mode])" "\<lambda>_. True"
  by unfold_locales (auto simp: write_opt_def split: option.splits)

interpretation trajectory: prefix_code "encode_trajectory wv" "ok_trajectory wv" for wv
proof
  fix a b :: TrajectoryPolicy and x y
  show "ok_trajectory wv a \<Longrightarrow> ok_trajectory wv b \<Longrightarrow> encode_trajectory wv a @ x = encode_trajectory wv b @ y \<Longrightarrow> a = b \<and> x = y"
    by (cases a; cases b) (auto simp: ok_trajectory_def encode_trajectory_def mode_opt.cancel_iff split: if_splits)
qed

interpretation trajectory_opt: prefix_code "write_opt (encode_trajectory wv)" "pred_option (ok_trajectory wv)" for wv
  by (rule trajectory.opt_code)

interpretation behavioral: prefix_code "encode_behavioral wv" "ok_behavioral wv" for wv
proof
  fix a b :: BehavioralPolicy and x y
  show "ok_behavioral wv a \<Longrightarrow> ok_behavioral wv b \<Longrightarrow> encode_behavioral wv a @ x = encode_behavioral wv b @ y \<Longrightarrow> a = b \<and> x = y"
    by (cases a; cases b) (auto simp: ok_behavioral_def encode_behavioral_def trajectory_opt.cancel_iff split: if_splits)
qed

interpretation behavioral_opt: prefix_code "write_opt (encode_behavioral wv)" "pred_option (ok_behavioral wv)" for wv
  by (rule behavioral.opt_code)

interpretation untrusted: prefix_code "encode_untrusted_text wv" "ok_untrusted wv" for wv
proof
  fix a b :: UntrustedTextPreparation and x y
  show "ok_untrusted wv a \<Longrightarrow> ok_untrusted wv b \<Longrightarrow> encode_untrusted_text wv a @ x = encode_untrusted_text wv b @ y \<Longrightarrow> a = b \<and> x = y"
    by (cases a; cases b) (auto simp: ok_untrusted_def encode_untrusted_text_def behavioral_opt.cancel_iff split: if_splits)
qed

interpretation untrusted_opt: prefix_code "write_opt (encode_untrusted_text wv)" "pred_option (ok_untrusted wv)" for wv
  by (rule untrusted.opt_code)

interpretation u64_opt: total_code "write_opt write_u64"
  using u64.opt_code by (simp add: total_code_def option.pred_True)

interpretation u32_opt: total_code "write_opt write_u32"
  using u32.opt_code by (simp add: total_code_def option.pred_True)

interpretation model_opt: prefix_code "write_opt encode_model" "pred_option ok_model"
  by (rule model.opt_code)

interpretation contract_opt: prefix_code "write_opt encode_agent_contract" "pred_option ok_contract"
  by (rule contract.opt_code)

interpretation tools: prefix_code "write_seq encode_tool" "\<lambda>xs. fits xs \<and> list_all ok_tool xs"
  by (rule tool.seq_code)

interpretation skills: prefix_code "write_seq encode_skill" "\<lambda>xs. fits xs \<and> list_all ok_skill xs"
  by (rule skill.seq_code)

text \<open>The conditional sections of a node: absent means the default value.\<close>

lemmas node_field_codes = frame.cancel_iff
  untrusted_opt.cond_cancel_iff [where d = None] u64_opt.cond_cancel_iff [where d = None]
  contract_opt.cond_cancel_iff [where d = None] skills.cond_cancel_iff [where d = "[]"]
  u32_opt.cancel_iff model_opt.cancel_iff tools.cancel_iff

lemma binding_section_cancel:
  assumes "ok_node wv cyc a" and "ok_node wv cyc b"
    and "(if 6 \<le> wv
        then write_opt encode_model (irn_model a)
             @ (if wv = 6 then [0] else write_seq encode_tool (irn_tools a))
             @ (if 8 \<le> wv then write_seq encode_skill (irn_skills a) else [])
             @ (if 9 \<le> wv then write_opt encode_agent_contract (irn_agent_contract a) else [])
        else []) @ x
     = (if 6 \<le> wv
        then write_opt encode_model (irn_model b)
             @ (if wv = 6 then [0] else write_seq encode_tool (irn_tools b))
             @ (if 8 \<le> wv then write_seq encode_skill (irn_skills b) else [])
             @ (if 9 \<le> wv then write_opt encode_agent_contract (irn_agent_contract b) else [])
        else []) @ y"
  shows "irn_model a = irn_model b \<and> irn_tools a = irn_tools b \<and> irn_skills a = irn_skills b
    \<and> irn_agent_contract a = irn_agent_contract b \<and> x = y"
proof (cases "7 \<le> wv")
  case True
  then have "6 \<le> wv" and "wv \<noteq> 6" by unat_arith+
  with assms True show ?thesis by (simp add: ok_node_def node_field_codes)
next
  case False
  then have "\<not> 8 \<le> wv" and "\<not> 9 \<le> wv" by unat_arith+
  from False have "wv = 6 \<or> \<not> 6 \<le> wv" by unat_arith
  with \<open>\<not> 8 \<le> wv\<close> \<open>\<not> 9 \<le> wv\<close> assms False show ?thesis by (auto simp: ok_node_def write_opt_def)
qed

interpretation node: prefix_code "encode_node wv cyc" "ok_node wv cyc" for wv cyc
proof
  fix a b :: IrNode and x y
  assume ok: "ok_node wv cyc a" "ok_node wv cyc b" and eq: "encode_node wv cyc a @ x = encode_node wv cyc b @ y"
  note ok' = ok [unfolded ok_node_def]
  have kind: "irn_kind a = irn_kind b"
    using eq ok' by (simp add: encode_node_def node_field_codes)
  have head: "irn_id a = irn_id b" "irn_untrusted_text a = irn_untrusted_text b" "irn_timeout_ms a = irn_timeout_ms b"
    using eq ok' by (simp_all add: encode_node_def kind node_field_codes)
  have cyc: "irn_max_visits a = irn_max_visits b \<and> irn_idempotent a = irn_idempotent b"
    using eq ok' by (cases cyc) (simp_all add: encode_node_def kind node_field_codes)
  then have "irn_model a = irn_model b \<and> irn_tools a = irn_tools b \<and> irn_skills a = irn_skills b
      \<and> irn_agent_contract a = irn_agent_contract b \<and> x = y"
    using eq by (intro binding_section_cancel [OF ok]) (simp add: encode_node_def kind head)
  with ok' kind head cyc show "a = b \<and> x = y" by (auto intro: IrNode.equality)
qed

interpretation firewall: prefix_code encode_firewall ok_firewall
proof
  fix a b :: FirewallContract and x y
  have wide: "(ucast v :: u64) = ucast w \<longleftrightarrow> v = w" for v w :: u32
  proof
    assume eq: "(ucast v :: u64) = ucast w"
    have wide_bit: "bit (ucast u :: u64) n \<longleftrightarrow> n < 64 \<and> bit u n" for u :: u32 and n
      by (simp add: bit_ucast_iff)
    show "v = w"
    proof (rule bit_word_eqI)
      fix n assume "n < LENGTH(32)"
      then show "bit v n = bit w n" using wide_bit [of v n] wide_bit [of w n] eq by simp
    qed
  qed simp
  show "ok_firewall a \<Longrightarrow> ok_firewall b \<Longrightarrow> encode_firewall a @ x = encode_firewall b @ y \<Longrightarrow> a = b \<and> x = y"
    by (cases a; cases b) (simp add: ok_firewall_def encode_firewall_def frame.cancel_iff wide)
qed

interpretation firewall_opt: prefix_code "write_opt encode_firewall" "pred_option ok_firewall"
  by (rule firewall.opt_code)

interpretation edge: prefix_code encode_edge ok_edge
proof
  fix a b :: IrEdge and x y
  show "ok_edge a \<Longrightarrow> ok_edge b \<Longrightarrow> encode_edge a @ x = encode_edge b @ y \<Longrightarrow> a = b \<and> x = y"
    by (cases a; cases b) (simp add: ok_edge_def encode_edge_def frame.cancel_iff)
qed

interpretation rcase: prefix_code encode_case ok_case
proof
  fix a b :: IrRouteCase and x y
  show "ok_case a \<Longrightarrow> ok_case b \<Longrightarrow> encode_case a @ x = encode_case b @ y \<Longrightarrow> a = b \<and> x = y"
    by (cases a; cases b) (simp add: ok_case_def encode_case_def frame.cancel_iff)
qed

interpretation rcases: prefix_code "write_seq encode_case" "\<lambda>xs. fits xs \<and> list_all ok_case xs"
  by (rule rcase.seq_code)

interpretation route: prefix_code "encode_route defs" "ok_route defs" for defs
proof
  fix a b :: IrPredicateRoute and x y
  assume ok: "ok_route defs a" "ok_route defs b" and eq: "encode_route defs a @ x = encode_route defs b @ y"
  have "irp_id (irt_predicate a) = irp_id (irt_predicate b)
      \<and> irp_version (irt_predicate a) = irp_version (irt_predicate b)
      \<and> irt_from a = irt_from b \<and> irt_cases a = irt_cases b \<and> irt_default a = irt_default b \<and> x = y"
    using ok eq by (simp add: ok_route_def encode_route_def frame.cancel_iff rcases.cancel_iff
        frame_opt.cond_cancel_iff [where d = None])
  then show "a = b \<and> x = y" by (auto intro!: IrPredicateRoute.equality IrPredicateReference.equality)
qed

interpretation state_key: prefix_code encode_state_key ok_state_key
proof
  fix a b :: IrStateKey and x y
  show "ok_state_key a \<Longrightarrow> ok_state_key b \<Longrightarrow> encode_state_key a @ x = encode_state_key b @ y \<Longrightarrow> a = b \<and> x = y"
    by (cases a; cases b) (simp add: ok_state_key_def encode_state_key_def frame.cancel_iff frame_opt.cancel_iff)
qed

interpretation state_keys: prefix_code "write_seq encode_state_key" "\<lambda>xs. fits xs \<and> list_all ok_state_key xs"
  by (rule state_key.seq_code)

interpretation istate: prefix_code encode_state ok_state
proof
  fix a b :: IrState and x y
  show "ok_state a \<Longrightarrow> ok_state b \<Longrightarrow> encode_state a @ x = encode_state b @ y \<Longrightarrow> a = b \<and> x = y"
    by (cases a; cases b) (simp add: ok_state_def encode_state_def frame.cancel_iff frames.cancel_iff state_keys.cancel_iff)
qed

interpretation exchange: total_code encode_exchange
proof
  fix a b :: IrCompactStateExchange and x y
  show "encode_exchange a @ x = encode_exchange b @ y \<Longrightarrow> a = b \<and> x = y"
    by (cases a; cases b) (simp add: encode_exchange_def frame.cancel_iff)
qed

interpretation iresource: prefix_code encode_resource ok_resource
proof
  fix a b :: IrResource and x y
  show "ok_resource a \<Longrightarrow> ok_resource b \<Longrightarrow> encode_resource a @ x = encode_resource b @ y \<Longrightarrow> a = b \<and> x = y"
    by (cases a; cases b) (simp add: ok_resource_def encode_resource_def frame.cancel_iff)
qed

interpretation nodes: prefix_code "write_seq (encode_node wv cyc)" "\<lambda>xs. fits xs \<and> list_all (ok_node wv cyc) xs" for wv cyc
  by (rule node.seq_code)

interpretation edges: prefix_code "write_seq encode_edge" "\<lambda>xs. fits xs \<and> list_all ok_edge xs"
  by (rule edge.seq_code)

interpretation routes: prefix_code "write_seq (encode_route defs)" "\<lambda>xs. fits xs \<and> list_all (ok_route defs) xs" for defs
  by (rule route.seq_code)

interpretation resources: prefix_code "write_seq encode_resource" "\<lambda>xs. fits xs \<and> list_all ok_resource xs"
  by (rule iresource.seq_code)

section \<open>Well-formed workflows and their layout\<close>

text \<open>
  What holds of every IR in memory (all lengths fit a \<open>usize\<close>), plus the two facts the
  wire relies on: only approval nodes carry a timeout (established by \<open>WorkflowIr::from\<close>), and
  an observer mode is declared only by the schema-3 trajectory policy that admits one.
\<close>

definition wf_trajectory :: "TrajectoryPolicy \<Rightarrow> bool" where
  "wf_trajectory t \<longleftrightarrow> tp_observer_mode t = None \<or> tp_schema_version t = 3"

definition node_trajectory :: "IrNode \<Rightarrow> TrajectoryPolicy option" where
  "node_trajectory n = Option.bind (Option.bind (irn_untrusted_text n) ut_behavioral) bp_trajectory"

definition wf_node :: "IrNode \<Rightarrow> bool" where
  "wf_node n \<longleftrightarrow> fits (irn_id n) \<and> pred_option wf_trajectory (node_trajectory n)
     \<and> (irn_kind n = IrApproval \<or> irn_timeout_ms n = None)
     \<and> pred_option ok_model (irn_model n) \<and> fits (irn_tools n) \<and> list_all ok_tool (irn_tools n)
     \<and> fits (irn_skills n) \<and> list_all ok_skill (irn_skills n)
     \<and> pred_option ok_contract (irn_agent_contract n) \<and> pred_option ok_firewall (irn_firewall n)"

definition wf_ir :: "WorkflowIr \<Rightarrow> bool" where
  "wf_ir ir \<longleftrightarrow> fits (ir_workflow_id ir) \<and> fits (ir_workflow_version ir) \<and> fits (ir_entry_node_id ir)
     \<and> fits (ir_nodes ir) \<and> list_all wf_node (ir_nodes ir)
     \<and> fits (ir_edges ir) \<and> list_all ok_edge (ir_edges ir)
     \<and> fits (ir_routes ir) \<and> list_all (ok_route True) (ir_routes ir)
     \<and> pred_option ok_state (ir_state ir)
     \<and> fits (ir_resources ir) \<and> list_all ok_resource (ir_resources ir)"

definition same_layout :: "WorkflowIr \<Rightarrow> WorkflowIr \<Rightarrow> bool" where
  "same_layout a b \<longleftrightarrow> has_cycle_policy a = has_cycle_policy b \<and> has_route_defaults a = has_route_defaults b
     \<and> (ir_routes a = []) = (ir_routes b = []) \<and> (ir_state a = None) = (ir_state b = None)
     \<and> (ir_compact_state_exchange a = None) = (ir_compact_state_exchange b = None)
     \<and> (ir_resources a = []) = (ir_resources b = [])"

abbreviation strip_firewall :: "IrNode \<Rightarrow> IrNode" where
  "strip_firewall n \<equiv> n\<lparr>irn_firewall := None\<rparr>"

lemma encode_node_strip: "encode_node wv cyc (strip_firewall n) = encode_node wv cyc n"
  by (simp add: encode_node_def)

text \<open>The wire version is high enough for everything some node declares.\<close>

lemma wire_version_covers:
  assumes "n \<in> set (ir_nodes ir)"
  shows "15 \<le> canonical_wire_version ir \<or> \<not> has_trajectory3 n"
    and "13 \<le> canonical_wire_version ir \<or> node_trajectory n = None"
    and "12 \<le> canonical_wire_version ir \<or> Option.bind (irn_untrusted_text n) ut_behavioral = None"
    and "11 \<le> canonical_wire_version ir \<or> irn_untrusted_text n = None"
    and "10 \<le> canonical_wire_version ir \<or> irn_firewall n = None"
    and "9 \<le> canonical_wire_version ir \<or> irn_agent_contract n = None"
    and "8 \<le> canonical_wire_version ir \<or> irn_skills n = []"
    and "7 \<le> canonical_wire_version ir \<or> irn_model n = None \<and> irn_tools n = []"
  using assms unfolding canonical_wire_version_def Let_def list_ex_iff node_trajectory_def
  by (auto split: option.splits Option.bind_splits)

lemma wf_node_ok:
  assumes n: "n \<in> set (ir_nodes ir)" and wf: "wf_node n"
  shows "ok_node (canonical_wire_version ir) (has_cycle_policy ir) (strip_firewall n)"
proof -
  let ?v = "canonical_wire_version ir"
  note covers = wire_version_covers [OF n]
  have "pred_option (ok_trajectory ?v) (node_trajectory n)"
    using covers(1) wf
    by (auto simp: ok_trajectory_def wf_node_def wf_trajectory_def has_trajectory3_def node_trajectory_def
        split: option.splits)
  then have "pred_option (ok_untrusted ?v) (irn_untrusted_text n)"
    using covers(2,3)
    by (auto simp: ok_untrusted_def ok_behavioral_def node_trajectory_def option.pred_set)
  moreover have "has_cycle_policy ir \<or> irn_max_visits n = None \<and> \<not> irn_idempotent n"
    using n by (auto simp: has_cycle_policy_def list_ex_iff)
  ultimately show ?thesis using wf covers(4,6-8) by (auto simp: ok_node_def wf_node_def)
qed

lemma wf_routes_ok:
  "list_all (ok_route True) (ir_routes ir) \<Longrightarrow> list_all (ok_route (has_route_defaults ir)) (ir_routes ir)"
  by (auto simp: list_all_iff ok_route_def has_route_defaults_def list_ex_iff)

lemma nodes_from_parts:
  assumes "map strip_firewall as = map strip_firewall bs" and "map irn_firewall as = map irn_firewall bs"
  shows "as = bs"
proof (rule nth_equalityI)
  show len: "length as = length bs" using assms(1) by (rule map_eq_imp_length_eq)
  fix i assume i: "i < length as"
  with assms len have "strip_firewall (as ! i) = strip_firewall (bs ! i)"
    and "irn_firewall (as ! i) = irn_firewall (bs ! i)"
    by (metis nth_map)+
  then show "as ! i = bs ! i" by (cases "as ! i"; cases "bs ! i") simp
qed

text \<open>The node section together with the firewall section determines the nodes.\<close>

lemma node_sections_cancel:
  assumes wf: "list_all wf_node (ir_nodes a)" "list_all wf_node (ir_nodes b)"
    and fit: "fits (ir_nodes a)" "fits (ir_nodes b)"
    and v: "canonical_wire_version a = v" "canonical_wire_version b = v"
    and cyc: "has_cycle_policy a = cyc" "has_cycle_policy b = cyc"
    and eq: "write_seq (encode_node v cyc) (ir_nodes a)
        @ (if 10 \<le> v then concat (map (\<lambda>n. write_opt encode_firewall (irn_firewall n)) (ir_nodes a)) else []) @ x
      = write_seq (encode_node v cyc) (ir_nodes b)
        @ (if 10 \<le> v then concat (map (\<lambda>n. write_opt encode_firewall (irn_firewall n)) (ir_nodes b)) else []) @ y"
  shows "ir_nodes a = ir_nodes b \<and> x = y"
proof -
  let ?as = "ir_nodes a" and ?bs = "ir_nodes b"
  have seq: "write_seq (encode_node v cyc) ns = write_seq (encode_node v cyc) (map strip_firewall ns)" for ns
    by (simp add: write_seq_def len_u64_def comp_def encode_node_strip)
  have oka: "list_all (ok_node v cyc) (map strip_firewall ?as)"
    using wf(1) v(1) cyc(1) by (auto simp: list_all_iff dest: wf_node_ok)
  have okb: "list_all (ok_node v cyc) (map strip_firewall ?bs)"
    using wf(2) v(2) cyc(2) by (auto simp: list_all_iff dest: wf_node_ok)
  have strip: "map strip_firewall ?as = map strip_firewall ?bs"
    and rest: "(if 10 \<le> v then concat (map (write_opt encode_firewall) (map irn_firewall ?as)) else []) @ x
      = (if 10 \<le> v then concat (map (write_opt encode_firewall) (map irn_firewall ?bs)) else []) @ y"
    using eq oka okb fit unfolding seq [of ?as] seq [of ?bs]
    by (auto simp: nodes.cancel_iff fits_def comp_def)
  have len: "length (map irn_firewall ?as) = length (map irn_firewall ?bs)"
    using strip by (auto dest: map_eq_imp_length_eq)
  have fw: "list_all (pred_option ok_firewall) (map irn_firewall ?as)" "list_all (pred_option ok_firewall) (map irn_firewall ?bs)"
    using wf by (auto simp: list_all_iff wf_node_def)
  have "map irn_firewall ?as = map irn_firewall ?bs \<and> x = y"
  proof (cases "10 \<le> v")
    case True
    with rest show ?thesis using firewall_opt.concat_cancel [OF len fw] by simp
  next
    case False
    then have "irn_firewall n = None" if "n \<in> set ?as \<union> set ?bs" for n
      using that wire_version_covers(5) [of n a] wire_version_covers(5) [of n b] v by auto
    then have "map irn_firewall ?as = map (\<lambda>_. None) ?as" "map irn_firewall ?bs = map (\<lambda>_. None) ?bs"
      by auto
    with rest False len show ?thesis by (auto simp: map_replicate_const)
  qed
  with strip show ?thesis by (auto intro: nodes_from_parts)
qed

section \<open>The wire determines the workflow\<close>

lemma schema_tag_inj [simp]: "IrSchemaVersion_tag v = IrSchemaVersion_tag v' \<longleftrightarrow> v = v'"
  by (cases v; cases v') simp

lemma wire_version_read: "encode_canonical a = encode_canonical b \<Longrightarrow> canonical_wire_version a = canonical_wire_version b"
  by (simp add: encode_canonical_def Let_def)

lemma opt_section_cancel:
  assumes "prefix_code enc ok" and "(s = None) = (t = None)" and "pred_option ok s" "pred_option ok t"
    and "(case s of None \<Rightarrow> [] | Some v \<Rightarrow> enc v) @ x = (case t of None \<Rightarrow> [] | Some v \<Rightarrow> enc v) @ y"
  shows "s = t \<and> x = y"
  using assms(2-) by (auto simp: prefix_code.cancel_iff [OF assms(1)] split: option.splits)

lemma seq_section_cancel:
  assumes "prefix_code enc ok" and "(xs = []) = (ys = [])" and "ok xs" "ok ys"
    and "(if xs \<noteq> [] then enc xs else []) @ x = (if ys \<noteq> [] then enc ys else []) @ y"
  shows "xs = ys \<and> x = y"
  using assms(2-) by (cases "xs = []") (auto simp: prefix_code.cancel_iff [OF assms(1)])

lemma route_sections_cancel:
  assumes wf: "wf_ir a" "wf_ir b" and lay: "same_layout a b"
    and eq: "(if ir_routes a \<noteq> [] then write_seq (encode_route (has_route_defaults a)) (ir_routes a) else [])
        @ (case ir_state a of None \<Rightarrow> [] | Some state \<Rightarrow> encode_state state)
        @ (case ir_compact_state_exchange a of None \<Rightarrow> [] | Some exchange \<Rightarrow> encode_exchange exchange)
        @ (if ir_resources a \<noteq> [] then write_seq encode_resource (ir_resources a) else [])
      = (if ir_routes b \<noteq> [] then write_seq (encode_route (has_route_defaults b)) (ir_routes b) else [])
        @ (case ir_state b of None \<Rightarrow> [] | Some state \<Rightarrow> encode_state state)
        @ (case ir_compact_state_exchange b of None \<Rightarrow> [] | Some exchange \<Rightarrow> encode_exchange exchange)
        @ (if ir_resources b \<noteq> [] then write_seq encode_resource (ir_resources b) else [])"
  shows "ir_routes a = ir_routes b \<and> ir_state a = ir_state b
    \<and> ir_compact_state_exchange a = ir_compact_state_exchange b \<and> ir_resources a = ir_resources b"
proof -
  note lay' = lay [unfolded same_layout_def] and wf' = wf [unfolded wf_ir_def]
  have d: "has_route_defaults a = has_route_defaults b" using lay' by blast
  have r: "ir_routes a = ir_routes b"
    and eq1: "(case ir_state a of None \<Rightarrow> [] | Some state \<Rightarrow> encode_state state)
        @ (case ir_compact_state_exchange a of None \<Rightarrow> [] | Some exchange \<Rightarrow> encode_exchange exchange)
        @ (if ir_resources a \<noteq> [] then write_seq encode_resource (ir_resources a) else [])
      = (case ir_state b of None \<Rightarrow> [] | Some state \<Rightarrow> encode_state state)
        @ (case ir_compact_state_exchange b of None \<Rightarrow> [] | Some exchange \<Rightarrow> encode_exchange exchange)
        @ (if ir_resources b \<noteq> [] then write_seq encode_resource (ir_resources b) else [])"
    using seq_section_cancel [OF routes.prefix_code_axioms _ _ _ eq [unfolded d]] lay' wf'
      wf_routes_ok [of a] wf_routes_ok [of b] d by auto
  have s: "ir_state a = ir_state b"
    and eq2: "(case ir_compact_state_exchange a of None \<Rightarrow> [] | Some exchange \<Rightarrow> encode_exchange exchange)
        @ (if ir_resources a \<noteq> [] then write_seq encode_resource (ir_resources a) else [])
      = (case ir_compact_state_exchange b of None \<Rightarrow> [] | Some exchange \<Rightarrow> encode_exchange exchange)
        @ (if ir_resources b \<noteq> [] then write_seq encode_resource (ir_resources b) else [])"
    using opt_section_cancel [OF istate.prefix_code_axioms _ _ _ eq1] lay' wf' by auto
  have x: "ir_compact_state_exchange a = ir_compact_state_exchange b"
    and eq3: "(if ir_resources a \<noteq> [] then write_seq encode_resource (ir_resources a) else []) @ []
      = (if ir_resources b \<noteq> [] then write_seq encode_resource (ir_resources b) else []) @ []"
    using opt_section_cancel [OF exchange.prefix_code_axioms _ _ _ eq2] lay'
    by (auto simp: option.pred_True)
  have "ir_resources a = ir_resources b"
    using seq_section_cancel [OF resources.prefix_code_axioms _ _ _ eq3] lay' wf' by auto
  with r s x show ?thesis by blast
qed

text \<open>
  C5: the canonical wire is injective on every layout. Two well-formed workflows that agree on
  which optional sections the graph-wide layout contains and have the same canonical bytes are
  equal: no field, no order and no duplicate of nodes, edges, routes, state, exchange, resources,
  bindings, contracts, policies or limits is lost by the encoding.
\<close>

theorem encode_canonical_injective:
  assumes wf: "wf_ir a" "wf_ir b" and lay: "same_layout a b"
    and eq: "encode_canonical a = encode_canonical b"
  shows "a = b"
proof -
  let ?v = "canonical_wire_version a"
  have v: "canonical_wire_version b = ?v" using wire_version_read [OF eq] by simp
  have cyc: "has_cycle_policy b = has_cycle_policy a" using lay by (simp add: same_layout_def)
  note wf' = wf [unfolded wf_ir_def]
  note eq' = eq [unfolded encode_canonical_def Let_def v cyc, simplified append_assoc]
  have head: "ir_schema_version a = ir_schema_version b" "ir_workflow_id a = ir_workflow_id b"
    "ir_workflow_version a = ir_workflow_version b" "ir_entry_node_id a = ir_entry_node_id b"
    using eq' wf' by (simp_all add: frame.cancel_iff)
  have nodes: "ir_nodes a = ir_nodes b \<and>
      write_seq encode_edge (ir_edges a)
        @ (if ir_routes a \<noteq> [] then write_seq (encode_route (has_route_defaults a)) (ir_routes a) else [])
        @ (case ir_state a of None \<Rightarrow> [] | Some state \<Rightarrow> encode_state state)
        @ (case ir_compact_state_exchange a of None \<Rightarrow> [] | Some exchange \<Rightarrow> encode_exchange exchange)
        @ (if ir_resources a \<noteq> [] then write_seq encode_resource (ir_resources a) else [])
      = write_seq encode_edge (ir_edges b)
        @ (if ir_routes b \<noteq> [] then write_seq (encode_route (has_route_defaults b)) (ir_routes b) else [])
        @ (case ir_state b of None \<Rightarrow> [] | Some state \<Rightarrow> encode_state state)
        @ (case ir_compact_state_exchange b of None \<Rightarrow> [] | Some exchange \<Rightarrow> encode_exchange exchange)
        @ (if ir_resources b \<noteq> [] then write_seq encode_resource (ir_resources b) else [])"
    using eq' wf' v cyc by (intro node_sections_cancel) (simp_all add: frame.cancel_iff head)
  then have "ir_edges a = ir_edges b" and rest: "ir_routes a = ir_routes b \<and> ir_state a = ir_state b
      \<and> ir_compact_state_exchange a = ir_compact_state_exchange b \<and> ir_resources a = ir_resources b"
    using wf' route_sections_cancel [OF wf lay] by (simp_all add: edges.cancel_iff)
  with head nodes show ?thesis by (auto intro: WorkflowIr.equality)
qed

end
