(* ===== verification/Graph_Check.thy ===== *)
theory Graph_Check
  imports Ir
begin

text \<open>
  Component: graph validation, \<open>crates/workflow-compiler/src/lib.rs\<close> (\<open>validate_graph\<close> and the
  functions it calls). A \<open>Vec<Vec<usize>>\<close> adjacency is a list of lists of indices. An index
  out of range panics in Rust: here the search functions return \<^const>\<open>None\<close> for a panic, so
  that "no panic" is a theorem and not an assumption. A \<open>Vec\<close> used as a stack keeps its top
  at the end, as in the code.
\<close>

section \<open>Errors\<close>

datatype MissingEdgeEndpoint = Origin | Destination | Both

datatype GraphValidationError =
    InvalidIdentifier string
  | DuplicateNodeId string nat
  | MissingEntryNode string
  | DanglingEdge string string MissingEdgeEndpoint
  | EmptyRouteCases
  | DuplicateRouteOrigin
  | MixedRouteAndEdgeOrigin
  | DanglingRoute
  | UnreachableNode string
  | NoReachableTerminal
  | Cycle "string list"
  | UnboundedCycle "string list"
  | NonIdempotentCycleNode string
  | CannotReachTerminal string

section \<open>Identifiers, duplicates, routes\<close>

definition first_empty :: "(string \<times> string) list \<Rightarrow> GraphValidationError option" where
  "first_empty named = map_option (\<lambda>(field_path, _). InvalidIdentifier field_path)
     (List.find (\<lambda>(_, value). value = []) named)"

definition edge_fields :: "IrEdge \<Rightarrow> (string \<times> string) list" where
  "edge_fields e = [(''edges[].from'', ire_from e), (''edges[].to'', ire_to e)]"

definition route_fields :: "IrPredicateRoute \<Rightarrow> (string \<times> string) list" where
  "route_fields r =
     [(''routes[].from'', irt_from r), (''routes[].predicate.id'', irp_id (irt_predicate r)),
      (''routes[].predicate.version'', irp_version (irt_predicate r))]
     @ concat (map (\<lambda>c. [(''routes[].cases[].key'', irc_key c), (''routes[].cases[].target'', irc_target c)])
         (irt_cases r))"

definition invalid_identifier_error :: "WorkflowIr \<Rightarrow> GraphValidationError option" where
  "invalid_identifier_error ir =
     (case first_empty [(''workflow.id'', ir_workflow_id ir), (''workflow.entry'', ir_entry_node_id ir)] of
        Some e \<Rightarrow> Some e
      | None \<Rightarrow>
          if list_ex (\<lambda>n. irn_id n = [] \<or> irn_id n = ''__start__'' \<or> irn_id n = ''__end__'') (ir_nodes ir)
          then Some (InvalidIdentifier ''nodes[].id'')
          else (case first_empty (concat (map edge_fields (ir_edges ir))) of
                  Some e \<Rightarrow> Some e
                | None \<Rightarrow> first_empty (concat (map route_fields (ir_routes ir)))))"

fun duplicate_node_error :: "IrNode list \<Rightarrow> GraphValidationError option" where
  "duplicate_node_error [] = None"
| "duplicate_node_error (n # ns) =
     (let run = takeWhile (\<lambda>m. irn_id n = irn_id m) ns in
      if run \<noteq> [] then Some (DuplicateNodeId (irn_id n) (length run + 1))
      else duplicate_node_error ns)"

text \<open>\<open>slice::binary_search_by\<close> on the key of each element.\<close>

function binary_search :: "('a \<Rightarrow> 'k::linorder) \<Rightarrow> 'k \<Rightarrow> 'a list \<Rightarrow> nat \<Rightarrow> nat \<Rightarrow> nat option" where
  "binary_search key k xs lo hi =
     (if lo < hi then
        let mid = lo + (hi - lo) div 2 in
        if key (xs ! mid) < k then binary_search key k xs (Suc mid) hi
        else if k < key (xs ! mid) then binary_search key k xs lo mid
        else Some mid
      else None)"
  by pat_completeness auto
termination
  by (relation "measure (\<lambda>(key, k, xs, lo, hi). hi - lo)") auto

declare binary_search.simps [simp del]

definition find_node_index :: "IrNode list \<Rightarrow> string \<Rightarrow> nat option" where
  "find_node_index nodes node_id = binary_search irn_id node_id nodes 0 (length nodes)"

definition route_structure_error :: "WorkflowIr \<Rightarrow> GraphValidationError option" where
  "route_structure_error ir =
     (if list_ex (\<lambda>r. irt_cases r = []) (ir_routes ir) then Some EmptyRouteCases
      else if list_ex (\<lambda>(r, s). irt_from r = irt_from s) (zip (ir_routes ir) (tl (ir_routes ir)))
      then Some DuplicateRouteOrigin
      else if list_ex (\<lambda>r. binary_search ire_from (irt_from r) (ir_edges ir) 0 (length (ir_edges ir)) \<noteq> None)
               (ir_routes ir)
      then Some MixedRouteAndEdgeOrigin
      else None)"

section \<open>Adjacency\<close>

type_synonym Adjacency = "nat list list"

definition add_arc :: "nat \<Rightarrow> nat \<Rightarrow> Adjacency \<times> Adjacency \<Rightarrow> Adjacency \<times> Adjacency" where
  "add_arc from to adj =
     (case adj of (forward, reverse) \<Rightarrow> (forward[from := forward ! from @ [to]], reverse[to := reverse ! to @ [from]]))"

fun adjacency_edges :: "IrNode list \<Rightarrow> IrEdge list \<Rightarrow> Adjacency \<times> Adjacency \<Rightarrow>
    GraphValidationError + Adjacency \<times> Adjacency" where
  "adjacency_edges nodes [] adj = Inr adj"
| "adjacency_edges nodes (edge # edges) adj =
     (case (find_node_index nodes (ire_from edge), find_node_index nodes (ire_to edge)) of
        (Some from, Some to) \<Rightarrow> adjacency_edges nodes edges (add_arc from to adj)
      | (from, to) \<Rightarrow> Inl (DanglingEdge (ire_from edge) (ire_to edge)
          (if from = None \<and> to = None then Both else if from = None then Origin else Destination)))"

fun adjacency_targets :: "IrNode list \<Rightarrow> nat \<Rightarrow> string list \<Rightarrow> Adjacency \<times> Adjacency \<Rightarrow>
    GraphValidationError + Adjacency \<times> Adjacency" where
  "adjacency_targets nodes from [] adj = Inr adj"
| "adjacency_targets nodes from (target # targets) adj =
     (case find_node_index nodes target of
        None \<Rightarrow> Inl DanglingRoute
      | Some to \<Rightarrow> adjacency_targets nodes from targets (add_arc from to adj))"

definition route_targets :: "IrPredicateRoute \<Rightarrow> string list" where
  "route_targets r = map irc_target (irt_cases r) @ (case irt_default r of None \<Rightarrow> [] | Some t \<Rightarrow> [t])"

fun adjacency_routes :: "IrNode list \<Rightarrow> IrPredicateRoute list \<Rightarrow> Adjacency \<times> Adjacency \<Rightarrow>
    GraphValidationError + Adjacency \<times> Adjacency" where
  "adjacency_routes nodes [] adj = Inr adj"
| "adjacency_routes nodes (route # routes) adj =
     (case find_node_index nodes (irt_from route) of
        None \<Rightarrow> Inl DanglingRoute
      | Some from \<Rightarrow> res_bind (adjacency_targets nodes from (route_targets route) adj)
                       (adjacency_routes nodes routes))"

definition adjacency :: "IrNode list \<Rightarrow> WorkflowIr \<Rightarrow> GraphValidationError + Adjacency \<times> Adjacency" where
  "adjacency nodes ir =
     res_bind (adjacency_edges nodes (ir_edges ir) (replicate (length nodes) [], replicate (length nodes) []))
       (adjacency_routes nodes (ir_routes ir))"

section \<open>Searches\<close>

text \<open>\<open>for &next in list { if !reached[next] { reached[next] = true; queue.push(next); } }\<close>\<close>

fun scan :: "nat list \<Rightarrow> bool list \<Rightarrow> nat list \<Rightarrow> (bool list \<times> nat list) option" where
  "scan [] reached queue = Some (reached, queue)"
| "scan (next # rest) reached queue =
     (if next < length reached then
        if reached ! next then scan rest reached queue
        else scan rest (reached[next := True]) (queue @ [next])
      else None)"

lemma count_list_update_True:
  "i < length xs \<Longrightarrow> \<not> xs ! i \<Longrightarrow> Suc (count_list (xs[i := True]) False) = count_list xs False"
proof (induction xs arbitrary: i)
  case Nil
  then show ?case by simp
next
  case (Cons x xs)
  then show ?case by (cases i) auto
qed

lemma scan_measure:
  "scan ns r q = Some (r', q') \<Longrightarrow>
     length r' = length r \<and> count_list r' False + length q' = count_list r False + length q"
proof (induction ns arbitrary: r q)
  case (Cons n ns)
  then show ?case
    using count_list_update_True [of n r] by (fastforce split: if_splits)
qed simp

function bfs :: "Adjacency \<Rightarrow> bool list \<Rightarrow> nat list \<Rightarrow> bool list option" where
  "bfs adj reached queue =
     (case queue of
        [] \<Rightarrow> Some reached
      | node # rest \<Rightarrow>
          if node < length adj then
            (case scan (adj ! node) reached rest of
               None \<Rightarrow> None
             | Some (reached', queue') \<Rightarrow> bfs adj reached' queue')
          else None)"
  by pat_completeness auto
termination
  by (relation "measure (\<lambda>(g, r, q). count_list r False + length q)") (auto dest!: scan_measure)

declare bfs.simps [simp del]

definition reachability_from :: "nat list \<Rightarrow> Adjacency \<Rightarrow> bool list option" where
  "reachability_from starts adj =
     (case scan starts (replicate (length adj) False) [] of
        None \<Rightarrow> None
      | Some (reached, queue) \<Rightarrow> bfs adj reached queue)"

definition reachability :: "nat \<Rightarrow> Adjacency \<Rightarrow> bool list option" where
  "reachability start adj = reachability_from [start] adj"

section \<open>Strongly connected components\<close>

definition stack_work :: "Adjacency \<Rightarrow> (nat \<times> nat) list \<Rightarrow> nat" where
  "stack_work forward stack = (\<Sum>(node, next_edge)\<leftarrow>stack. Suc (length (forward ! node)) - next_edge)"

function dfs :: "Adjacency \<Rightarrow> bool list \<Rightarrow> (nat \<times> nat) list \<Rightarrow> nat list \<Rightarrow> (bool list \<times> nat list) option" where
  "dfs forward visited stack finished =
     (if stack = [] then Some (visited, finished)
      else (case last stack of (node, next_edge) \<Rightarrow>
        if node < length forward then
          if next_edge = length (forward ! node)
          then dfs forward visited (butlast stack) (finished @ [node])
          else if next_edge < length (forward ! node) then
            let next = forward ! node ! next_edge; stack' = butlast stack @ [(node, Suc next_edge)] in
            if next < length visited then
              if visited ! next then dfs forward visited stack' finished
              else dfs forward (visited[next := True]) (stack' @ [(next, 0)]) finished
            else None
          else None
        else None))"
  by pat_completeness auto
termination
  apply (relation "measures [\<lambda>(fw, v, st, f). count_list v False, \<lambda>(fw, v, st, f). stack_work fw st]")
     apply simp
  subgoal for fw v st by (cases st rule: rev_cases) (auto simp: stack_work_def)
  subgoal for fw v st by (cases st rule: rev_cases) (auto simp: stack_work_def)
  subgoal for fw v st f nd ne nxt
    using count_list_update_True [of nxt v] by auto
  done

declare dfs.simps [simp del]

fun dfs_all :: "Adjacency \<Rightarrow> nat list \<Rightarrow> bool list \<Rightarrow> nat list \<Rightarrow> (bool list \<times> nat list) option" where
  "dfs_all forward [] visited finished = Some (visited, finished)"
| "dfs_all forward (start # starts) visited finished =
     (if start < length visited then
        if visited ! start then dfs_all forward starts visited finished
        else (case dfs forward (visited[start := True]) [(start, 0)] finished of
                None \<Rightarrow> None
              | Some (visited', finished') \<Rightarrow> dfs_all forward starts visited' finished')
      else None)"

function gather :: "Adjacency \<Rightarrow> bool list \<Rightarrow> nat list \<Rightarrow> nat list \<Rightarrow> (bool list \<times> nat list) option" where
  "gather reverse assigned stack component =
     (if stack = [] then Some (assigned, component)
      else if last stack < length reverse then
        (case scan (reverse ! last stack) assigned (butlast stack) of
           None \<Rightarrow> None
         | Some (assigned', stack') \<Rightarrow> gather reverse assigned' stack' (component @ [last stack]))
      else None)"
  by pat_completeness auto
termination
  apply (relation "measure (\<lambda>(rv, a, st, c). count_list a False + length st)")
   apply simp
  subgoal for rv a st by (cases st rule: rev_cases) (auto dest!: scan_measure)
  done

declare gather.simps [simp del]

definition is_cyclic :: "Adjacency \<Rightarrow> nat list \<Rightarrow> bool" where
  "is_cyclic forward component \<longleftrightarrow> length component > 1 \<or> hd component \<in> set (forward ! hd component)"

fun collect :: "Adjacency \<Rightarrow> Adjacency \<Rightarrow> nat list \<Rightarrow> bool list \<Rightarrow> nat list list \<Rightarrow> nat list list option" where
  "collect forward reverse [] assigned components = Some components"
| "collect forward reverse (start # starts) assigned components =
     (if start < length assigned then
        if assigned ! start then collect forward reverse starts assigned components
        else (case gather reverse (assigned[start := True]) [start] [] of
                None \<Rightarrow> None
              | Some (assigned', component) \<Rightarrow>
                  let component' = sort component in
                  collect forward reverse starts assigned'
                    (if is_cyclic forward component' then components @ [component'] else components))
      else None)"

definition cyclic_components :: "Adjacency \<Rightarrow> Adjacency \<Rightarrow> nat list list option" where
  "cyclic_components forward reverse =
     (case dfs_all forward [0..<length forward] (replicate (length forward) False) [] of
        None \<Rightarrow> None
      | Some (_, finished) \<Rightarrow>
          map_option (sort_key hd)
            (collect forward reverse (rev finished) (replicate (length forward) False) []))"

section \<open>validate\_graph\<close>

definition check_component :: "IrNode list \<Rightarrow> nat list \<Rightarrow> GraphValidationError + unit" where
  "check_component nodes component =
     (if list_ex (\<lambda>i. irn_max_visits (nodes ! i) = None \<or> irn_max_visits (nodes ! i) = Some 0) component
      then Inl (UnboundedCycle (map (\<lambda>i. irn_id (nodes ! i)) component))
      else (case List.find (\<lambda>i. irn_kind (nodes ! i) = IrAction \<and> \<not> irn_idempotent (nodes ! i)) component of
              Some i \<Rightarrow> Inl (NonIdempotentCycleNode (irn_id (nodes ! i)))
            | None \<Rightarrow> Inr ()))"

definition terminal_seeds :: "IrNode list \<Rightarrow> bool list \<Rightarrow> nat list" where
  "terminal_seeds nodes reachable =
     filter (\<lambda>i. reachable ! i \<and> irn_kind (nodes ! i) = IrTerminal) [0..<length nodes]"

definition validate_liveness ::
  "IrNode list \<Rightarrow> nat \<Rightarrow> Adjacency \<Rightarrow> Adjacency \<Rightarrow> (GraphValidationError + unit) option" where
  "validate_liveness nodes entry forward reverse =
     Option.bind (reachability entry forward) (\<lambda>reachable.
       case List.find (\<lambda>i. \<not> reachable ! i) [0..<length reachable] of
         Some i \<Rightarrow> Some (Inl (UnreachableNode (irn_id (nodes ! i))))
       | None \<Rightarrow>
         let seeds = terminal_seeds nodes reachable in
         if seeds = [] then Some (Inl NoReachableTerminal)
         else Option.bind (cyclic_components forward reverse) (\<lambda>components.
           case res_all (check_component nodes) components of
             Inl e \<Rightarrow> Some (Inl e)
           | Inr _ \<Rightarrow> Option.bind (reachability_from seeds reverse) (\<lambda>can_reach_terminal.
               case List.find (\<lambda>i. reachable ! i \<and> \<not> can_reach_terminal ! i) [0..<length reachable] of
                 Some i \<Rightarrow> Some (Inl (CannotReachTerminal (irn_id (nodes ! i))))
               | None \<Rightarrow> Some (Inr ()))))"

definition validate_graph :: "WorkflowIr \<Rightarrow> (GraphValidationError + unit) option" where
  "validate_graph ir =
     (let nodes = ir_nodes ir in
      case invalid_identifier_error ir of Some e \<Rightarrow> Some (Inl e) | None \<Rightarrow>
      case duplicate_node_error nodes of Some e \<Rightarrow> Some (Inl e) | None \<Rightarrow>
      case route_structure_error ir of Some e \<Rightarrow> Some (Inl e) | None \<Rightarrow>
      case find_node_index nodes (ir_entry_node_id ir) of
        None \<Rightarrow> Some (Inl (MissingEntryNode (ir_entry_node_id ir)))
      | Some entry \<Rightarrow>
        (case adjacency nodes ir of
           Inl e \<Rightarrow> Some (Inl e)
         | Inr (forward, reverse) \<Rightarrow> validate_liveness nodes entry forward reverse))"

end
