(* ===== verification/Graph_Search.thy ===== *)
theory Graph_Search
  imports Graph_Check
begin

text \<open>
  Correctness of the graph searches of \<open>crates/workflow-compiler/src/lib.rs\<close>: the breadth-first
  \<open>reachability_from\<close> computes exactly the nodes reachable from its starts, and the two
  iterative passes of \<open>cyclic_components\<close> (Kosaraju's algorithm on an explicit stack) return
  exactly the strongly connected components that contain a cycle. None of them indexes out of
  range when every arc stays inside the node range.
\<close>

section \<open>Adjacency lists as relations\<close>

definition arcs :: "Adjacency \<Rightarrow> (nat \<times> nat) set" where
  "arcs adj = {(i, j). i < length adj \<and> j \<in> set (adj ! i)}"

definition in_range :: "Adjacency \<Rightarrow> bool" where
  "in_range adj \<longleftrightarrow> (\<forall>i < length adj. \<forall>j \<in> set (adj ! i). j < length adj)"

definition marked :: "bool list \<Rightarrow> nat set" where
  "marked r = {i. i < length r \<and> r ! i}"

definition dual :: "Adjacency \<Rightarrow> Adjacency \<Rightarrow> bool" where
  "dual forward reverse \<longleftrightarrow>
     length reverse = length forward \<and> in_range forward \<and> in_range reverse \<and> arcs reverse = (arcs forward)\<inverse>"

lemma marked_bound: "marked r \<subseteq> {..<length r}"
  by (auto simp: marked_def)

lemma marked_update [simp]: "i < length r \<Longrightarrow> marked (r[i := True]) = insert i (marked r)"
  by (auto simp: marked_def nth_list_update)

lemma marked_replicate [simp]: "marked (replicate n False) = {}"
  by (auto simp: marked_def)

lemma in_marked: "i < length r \<Longrightarrow> i \<in> marked r \<longleftrightarrow> r ! i"
  by (simp add: marked_def)

lemma arcs_range: "in_range adj \<Longrightarrow> arcs adj \<subseteq> {..<length adj} \<times> {..<length adj}"
  by (auto simp: in_range_def arcs_def)

lemma arcs_image: "i < length adj \<Longrightarrow> arcs adj `` {i} = set (adj ! i)"
  by (auto simp: arcs_def)

lemma reach_in_range:
  assumes "in_range adj" and "(i, j) \<in> (arcs adj)\<^sup>*" and "i < length adj"
  shows "j < length adj"
  using assms(2,3) arcs_range [OF assms(1)] by (induction rule: rtrancl_induct) auto

lemma closed_rtrancl: "R `` A \<subseteq> A \<Longrightarrow> R\<^sup>* `` A = A"
  by (rule Image_closed_trancl)

section \<open>Breadth-first search\<close>

lemma scan_spec:
  assumes "set ns \<subseteq> {..<length r}"
  shows "\<exists>r' new. scan ns r q = Some (r', q @ new) \<and> length r' = length r \<and>
           marked r' = marked r \<union> set ns \<and> set new = set ns - marked r \<and> distinct new"
  using assms
proof (induction ns arbitrary: r q)
  case Nil
  then show ?case by simp
next
  case (Cons n ns)
  show ?case
  proof (cases "r ! n")
    case True
    then show ?thesis using Cons.IH [of r q] Cons.prems by (auto simp: in_marked [symmetric])
  next
    case False
    have nl: "n < length r" and nm: "n \<notin> marked r" using Cons.prems False by (auto simp: marked_def)
    obtain r' new where "scan ns (r[n := True]) (q @ [n]) = Some (r', (q @ [n]) @ new)"
      and "length r' = length r" "marked r' = insert n (marked r) \<union> set ns"
      and "set new = set ns - insert n (marked r)" "distinct new"
      using Cons.IH [of "r[n := True]" "q @ [n]"] Cons.prems by auto
    then have "scan (n # ns) r q = Some (r', q @ (n # new))" "length r' = length r"
      "marked r' = marked r \<union> set (n # ns)" "set (n # new) = set (n # ns) - marked r" "distinct (n # new)"
      using nl nm False by auto
    then show ?thesis by blast
  qed
qed

lemma bfs_spec:
  assumes "in_range adj" "length r = length adj" "set q \<subseteq> marked r"
    and "arcs adj `` (marked r - set q) \<subseteq> marked r"
  shows "\<exists>r'. bfs adj r q = Some r' \<and> length r' = length adj \<and> marked r' = (arcs adj)\<^sup>* `` marked r"
  using assms
proof (induction adj r q rule: bfs.induct)
  case (1 adj r q)
  show ?case
  proof (cases q)
    case Nil
    then show ?thesis using 1(3-) closed_rtrancl [of "arcs adj" "marked r"] by (simp add: bfs.simps)
  next
    case (Cons n rest)
    have nl: "n < length adj" using 1(3-) Cons marked_bound [of r] by auto
    then have "set (adj ! n) \<subseteq> {..<length r}" using 1(2,3) by (auto simp: in_range_def)
    from scan_spec [OF this, of rest] obtain r' new where
      s: "scan (adj ! n) r rest = Some (r', rest @ new)" and l: "length r' = length r"
      and m: "marked r' = marked r \<union> set (adj ! n)" and nw: "set new = set (adj ! n) - marked r"
      by blast
    have "arcs adj `` (marked r' - set (rest @ new)) \<subseteq> marked r'"
      using 1(5) m nw Cons arcs_image [OF nl] by fastforce
    moreover have "set (rest @ new) \<subseteq> marked r'" using 1(4) m nw Cons by auto
    moreover have "length r' = length adj" using 1(3) l by simp
    ultimately obtain r'' where b: "bfs adj r' (rest @ new) = Some r''" and l'': "length r'' = length adj"
      and m'': "marked r'' = (arcs adj)\<^sup>* `` marked r'"
      using 1(1) [OF Cons nl s refl] 1(2) by blast
    have "n \<in> marked r" using 1(4) Cons by simp
    then have "(arcs adj)\<^sup>* `` marked r' = (arcs adj)\<^sup>* `` marked r"
      unfolding m arcs_image [OF nl, symmetric]
      by (auto intro: converse_rtrancl_into_rtrancl)
    then show ?thesis using b l'' m'' s nl Cons by (simp add: bfs.simps [of adj r "n # rest"])
  qed
qed

lemma reachability_from_spec:
  assumes "in_range adj" "set starts \<subseteq> {..<length adj}"
  shows "\<exists>r. reachability_from starts adj = Some r \<and> length r = length adj \<and>
           marked r = (arcs adj)\<^sup>* `` set starts"
proof -
  obtain r' new where s: "scan starts (replicate (length adj) False) [] = Some (r', new)"
    and *: "length r' = length adj" "marked r' = set starts" "set new = set starts"
    using scan_spec [of starts "replicate (length adj) False" "[]"] assms(2) by auto
  then show ?thesis using bfs_spec [OF assms(1), of r' new] by (simp add: reachability_from_def)
qed

section \<open>First pass: finishing order\<close>

text \<open>
  The property of the finishing order that the second pass relies on: the nodes that finished
  before \<open>s\<close> split into those that \<open>s\<close> reaches and an earlier part with no arc into \<open>s\<close> or into
  what \<open>s\<close> reached.
\<close>

definition settled :: "(nat \<times> nat) set \<Rightarrow> nat list \<Rightarrow> nat \<Rightarrow> nat set \<Rightarrow> bool" where
  "settled E F s up \<longleftrightarrow> (\<exists>G H. F = G @ H \<and> (\<forall>h \<in> set H. (s, h) \<in> E\<^sup>*) \<and>
     (\<forall>a \<in> set G. \<forall>x \<in> set H \<union> up. (a, x) \<notin> E))"

definition finish_order :: "(nat \<times> nat) set \<Rightarrow> nat list \<Rightarrow> bool" where
  "finish_order E F \<longleftrightarrow> (\<forall>L s R. F = L @ s # R \<longrightarrow> settled E L s {s})"

definition dfs_inv :: "Adjacency \<Rightarrow> bool list \<Rightarrow> (nat \<times> nat) list \<Rightarrow> nat list \<Rightarrow> bool" where
  "dfs_inv fw v st F \<longleftrightarrow>
     length v = length fw \<and> marked v = set F \<union> fst ` set st \<and>
     sorted_wrt (\<lambda>a b. (a, b) \<in> (arcs fw)\<^sup>*) (map fst st) \<and>
     arcs fw `` set F \<subseteq> marked v \<and>
     (\<forall>e \<in> set st. snd e \<le> length (fw ! fst e) \<and> set (take (snd e) (fw ! fst e)) \<subseteq> marked v) \<and>
     (\<forall>ys t zs. map fst st = ys @ t # zs \<longrightarrow> settled (arcs fw) F t (set (t # zs))) \<and>
     finish_order (arcs fw) F"

lemma dfs_invD:
  assumes "dfs_inv fw v st F"
  shows "length v = length fw" "marked v = set F \<union> fst ` set st"
    "sorted_wrt (\<lambda>a b. (a, b) \<in> (arcs fw)\<^sup>*) (map fst st)" "arcs fw `` set F \<subseteq> marked v"
    "e \<in> set st \<Longrightarrow> snd e \<le> length (fw ! fst e)" "e \<in> set st \<Longrightarrow> set (take (snd e) (fw ! fst e)) \<subseteq> marked v"
    "map fst st = ys @ t # zs \<Longrightarrow> settled (arcs fw) F t (set (t # zs))" "finish_order (arcs fw) F"
  using assms unfolding dfs_inv_def by blast+

lemma dfs_invI:
  assumes "length v = length fw" "marked v = set F \<union> fst ` set st"
    "sorted_wrt (\<lambda>a b. (a, b) \<in> (arcs fw)\<^sup>*) (map fst st)" "arcs fw `` set F \<subseteq> marked v"
    "\<And>e. e \<in> set st \<Longrightarrow> snd e \<le> length (fw ! fst e) \<and> set (take (snd e) (fw ! fst e)) \<subseteq> marked v"
    "\<And>ys t zs. map fst st = ys @ t # zs \<Longrightarrow> settled (arcs fw) F t (set (t # zs))" "finish_order (arcs fw) F"
  shows "dfs_inv fw v st F"
  unfolding dfs_inv_def using assms by blast

lemma finish_order_snoc:
  "finish_order E (F @ [s]) \<longleftrightarrow> finish_order E F \<and> settled E F s {s}"
proof -
  have "F @ [s] = L @ t # R \<longleftrightarrow> (R = [] \<and> L = F \<and> t = s) \<or> (\<exists>R'. R = R' @ [s] \<and> F = L @ t # R')" for L t R
    by (cases R rule: rev_cases) auto
  then show ?thesis unfolding finish_order_def by metis
qed

lemma settled_finish:
  assumes "settled E F t up" "s \<in> up" "(t, s) \<in> E\<^sup>*" "up' \<subseteq> up"
  shows "settled E (F @ [s]) t up'"
proof -
  obtain G H where "F = G @ H" "\<forall>h \<in> set H. (t, h) \<in> E\<^sup>*" "\<forall>a \<in> set G. \<forall>x \<in> set H \<union> up. (a, x) \<notin> E"
    using assms(1) unfolding settled_def by blast
  then have "F @ [s] = G @ (H @ [s])" "\<forall>h \<in> set (H @ [s]). (t, h) \<in> E\<^sup>*"
    "\<forall>a \<in> set G. \<forall>x \<in> set (H @ [s]) \<union> up'. (a, x) \<notin> E"
    using assms(2-4) by auto
  then show ?thesis unfolding settled_def by blast
qed

lemma settled_push:
  assumes "settled E F t up" "\<forall>a \<in> set F. (a, s) \<notin> E"
  shows "settled E F t (insert s up)"
proof -
  obtain G H where "F = G @ H" "\<forall>h \<in> set H. (t, h) \<in> E\<^sup>*" "\<forall>a \<in> set G. \<forall>x \<in> set H \<union> up. (a, x) \<notin> E"
    using assms(1) unfolding settled_def by blast
  moreover from this have "\<forall>a \<in> set G. \<forall>x \<in> set H \<union> insert s up. (a, x) \<notin> E"
    using assms(2) by auto
  ultimately show ?thesis unfolding settled_def by blast
qed

lemma settled_new: "\<forall>a \<in> set F. (a, s) \<notin> E \<Longrightarrow> settled E F s {s}"
  unfolding settled_def by (rule exI [of _ F], rule exI [of _ "[]"]) auto

lemma dfs_inv_pop:
  assumes inv: "dfs_inv fw v (st @ [(n, length (fw ! n))]) F" and n: "n < length fw"
  shows "dfs_inv fw v st (F @ [n])"
proof (rule dfs_invI)
  let ?E = "arcs fw"
  note I = dfs_invD [OF inv]
  show "length v = length fw" "marked v = set (F @ [n]) \<union> fst ` set st" using I(1,2) by auto
  show "sorted_wrt (\<lambda>a b. (a, b) \<in> ?E\<^sup>*) (map fst st)" using I(3) by (simp add: sorted_wrt_append)
  show "?E `` set (F @ [n]) \<subseteq> marked v"
    using I(4) I(6) [of "(n, length (fw ! n))"] arcs_image [OF n] by auto
  show "snd e \<le> length (fw ! fst e) \<and> set (take (snd e) (fw ! fst e)) \<subseteq> marked v" if "e \<in> set st" for e
    using I(5,6) [of e] that by auto
  show "finish_order ?E (F @ [n])"
    using I(8) I(7) [of "map fst st" n "[]"] by (simp add: finish_order_snoc)
  show "settled ?E (F @ [n]) t (set (t # zs))" if "map fst st = ys @ t # zs" for ys t zs
  proof (rule settled_finish)
    show "settled ?E F t (set (t # zs @ [n]))" using I(7) [of ys t "zs @ [n]"] that by simp
    show "(t, n) \<in> ?E\<^sup>*" using I(3) that by (simp add: sorted_wrt_append)
  qed auto
qed

lemma dfs_inv_advance:
  assumes inv: "dfs_inv fw v (st @ [(n, k)]) F" and k: "k < length (fw ! n)" and s: "fw ! n ! k \<in> marked v"
  shows "dfs_inv fw v (st @ [(n, Suc k)]) F"
proof (rule dfs_invI)
  note I = dfs_invD [OF inv]
  show "snd e \<le> length (fw ! fst e) \<and> set (take (snd e) (fw ! fst e)) \<subseteq> marked v"
    if "e \<in> set (st @ [(n, Suc k)])" for e
    using I(5,6) [of e] I(6) [of "(n, k)"] that k s by (auto simp: take_Suc_conv_app_nth)
qed (use dfs_invD [OF inv] in \<open>simp_all\<close>)

lemma dfs_inv_push:
  assumes inv: "dfs_inv fw v (st @ [(n, k)]) F" and k: "k < length (fw ! n)" and n: "n < length fw"
    and s: "s = fw ! n ! k" "s \<notin> marked v" "s < length fw"
  shows "dfs_inv fw (v[s := True]) (st @ [(n, Suc k), (s, 0)]) F"
proof (rule dfs_invI)
  let ?E = "arcs fw"
  note I = dfs_invD [OF inv]
  have arc: "(n, s) \<in> ?E" using k n s(1) by (auto simp: arcs_def)
  have fresh: "\<forall>a \<in> set F. (a, s) \<notin> ?E" using I(4) s(2) by auto
  have m: "marked (v[s := True]) = insert s (marked v)" using I(1) s(3) by simp
  show "length (v[s := True]) = length fw" using I(1) by simp
  show "marked (v[s := True]) = set F \<union> fst ` set (st @ [(n, Suc k), (s, 0)])" using m I(2) by auto
  show "?E `` set F \<subseteq> marked (v[s := True])" using m I(4) by auto
  show "sorted_wrt (\<lambda>a b. (a, b) \<in> ?E\<^sup>*) (map fst (st @ [(n, Suc k), (s, 0)]))"
    using I(3) arc by (auto simp: sorted_wrt_append intro: rtrancl_into_rtrancl)
  show "snd e \<le> length (fw ! fst e) \<and> set (take (snd e) (fw ! fst e)) \<subseteq> marked (v[s := True])"
    if "e \<in> set (st @ [(n, Suc k), (s, 0)])" for e
    using I(5,6) [of e] I(6) [of "(n, k)"] that k s(1) m by (auto simp: take_Suc_conv_app_nth)
  show "finish_order ?E F" by (rule I(8))
  show "settled ?E F t (set (t # zs))"
    if eq: "map fst (st @ [(n, Suc k), (s, 0)]) = ys @ t # zs" for ys t zs
  proof (cases zs rule: rev_cases)
    case Nil
    then show ?thesis using eq settled_new [OF fresh] by simp
  next
    case (snoc zs' z)
    have "map fst (st @ [(n, k)]) @ [s] = (ys @ t # zs') @ [z]" using eq snoc by simp
    then have "map fst (st @ [(n, k)]) = ys @ t # zs'" "z = s" by (metis butlast_snoc, metis last_snoc)
    then show ?thesis using settled_push [OF I(7) fresh, of ys t zs'] snoc by (simp add: insert_commute)
  qed
qed

lemma dfs_spec:
  assumes "in_range fw" "dfs_inv fw v st F"
  shows "\<exists>v' F'. dfs fw v st F = Some (v', F') \<and> dfs_inv fw v' [] F' \<and> marked v \<subseteq> marked v'"
  using assms
proof (induction fw v st F rule: dfs.induct)
  case (1 fw v st F)
  show ?case
  proof (cases st rule: rev_cases)
    case Nil
    then show ?thesis using 1(5) by (simp add: dfs.simps)
  next
    case (snoc st' top)
    obtain n k where top: "top = (n, k)" by force
    note I = 1(5)
    have len: "length v = length fw" and n: "n < length fw" and kle: "k \<le> length (fw ! n)"
      using 1(5) snoc top marked_bound [of v] unfolding dfs_inv_def by auto
    have ne: "st \<noteq> []" "last st = (n, k)" "butlast st = st'" using snoc top by auto
    note step = dfs.simps [of fw v st F]
    consider (pop) "k = length (fw ! n)" | (seen) "k < length (fw ! n)" "v ! (fw ! n ! k)"
      | (new) "k < length (fw ! n)" "\<not> v ! (fw ! n ! k)"
      using kle by linarith
    then show ?thesis
    proof cases
      case pop
      have "dfs_inv fw v st' (F @ [n])" using 1(5) snoc top pop n dfs_inv_pop by simp
      then show ?thesis using 1(1) [OF ne(1) ne(2) [symmetric] n pop] 1(4) ne n pop step by auto
    next
      case seen
      have sl: "fw ! n ! k < length v" using 1(4) n seen(1) len by (auto simp: in_range_def)
      have "dfs_inv fw v (st' @ [(n, Suc k)]) F"
        using dfs_inv_advance [of fw v st' n k F] I snoc top seen sl by (simp add: in_marked)
      then show ?thesis using 1(2) [OF ne(1) ne(2) [symmetric] n _ seen(1) refl refl sl] 1(4) ne n seen sl step by auto
    next
      case new
      have sl: "fw ! n ! k < length v" using 1(4) n new(1) len by (auto simp: in_range_def)
      have "dfs_inv fw (v[fw ! n ! k := True]) (st' @ [(n, Suc k), (fw ! n ! k, 0)]) F"
        using dfs_inv_push [of fw v st' n k F] I snoc top n new sl len by (simp add: in_marked)
      then show ?thesis using 1(3) [OF ne(1) ne(2) [symmetric] n _ new(1) refl refl sl] 1(4) ne n new sl step by auto
    qed
  qed
qed

lemma dfs_inv_start:
  assumes inv: "dfs_inv fw v [] F" and s: "s < length fw" "s \<notin> marked v"
  shows "dfs_inv fw (v[s := True]) [(s, 0)] F"
proof (rule dfs_invI)
  note I = dfs_invD [OF inv]
  have m: "marked (v[s := True]) = insert s (marked v)" using I(1) s by simp
  have fresh: "\<forall>a \<in> set F. (a, s) \<notin> arcs fw" using I(4) s(2) by auto
  show "settled (arcs fw) F t (set (t # zs))" if "map fst [(s, 0::nat)] = ys @ t # zs" for ys t zs
    using that settled_new [OF fresh] by (cases ys) auto
qed (use dfs_invD [OF inv] s in \<open>auto\<close>)

lemma dfs_all_spec:
  assumes "in_range fw" "dfs_inv fw v [] F" "set starts \<subseteq> {..<length fw}"
  shows "\<exists>v' F'. dfs_all fw starts v F = Some (v', F') \<and> dfs_inv fw v' [] F' \<and>
           marked v \<union> set starts \<subseteq> marked v'"
  using assms
proof (induction starts arbitrary: v F)
  case Nil
  then show ?case by simp
next
  case (Cons s starts)
  have len: "length v = length fw" using dfs_invD(1) [OF Cons.prems(2)] .
  show ?case
  proof (cases "v ! s")
    case True
    then have "s \<in> marked v" using Cons.prems(3) len by (simp add: in_marked)
    then show ?thesis using Cons.IH [of v F] Cons.prems len True by auto
  next
    case False
    have "dfs_inv fw (v[s := True]) [(s, 0)] F"
      using dfs_inv_start [OF Cons.prems(2), of s] Cons.prems(3) False len by (simp add: in_marked)
    from dfs_spec [OF Cons.prems(1) this] obtain v1 F1 where
      d: "dfs fw (v[s := True]) [(s, 0)] F = Some (v1, F1)" "dfs_inv fw v1 [] F1"
      and m: "marked (v[s := True]) \<subseteq> marked v1" by blast
    from Cons.IH [OF Cons.prems(1) d(2)] Cons.prems(3) obtain v2 F2 where
      "dfs_all fw starts v1 F1 = Some (v2, F2)" "dfs_inv fw v2 [] F2" "marked v1 \<union> set starts \<subseteq> marked v2"
      by auto
    then show ?thesis using d m False len Cons.prems(3) by auto
  qed
qed

lemma dfs_inv_init: "dfs_inv fw (replicate (length fw) False) [] []"
  by (rule dfs_invI) (auto simp: finish_order_def)

lemma first_pass:
  assumes "in_range fw"
  obtains v F where "dfs_all fw [0..<length fw] (replicate (length fw) False) [] = Some (v, F)"
    and "set F = {..<length fw}" and "finish_order (arcs fw) F"
proof -
  obtain v F where d: "dfs_all fw [0..<length fw] (replicate (length fw) False) [] = Some (v, F)"
    and i: "dfs_inv fw v [] F" and m: "{..<length fw} \<subseteq> marked v"
    using dfs_all_spec [OF assms dfs_inv_init, of "[0..<length fw]"] by (auto simp: atLeast0LessThan)
  have "set F = {..<length fw}" using dfs_invD(1,2) [OF i] m marked_bound [of v] by auto
  then show thesis using that d dfs_invD(8) [OF i] by blast
qed

section \<open>Second pass: components\<close>

lemma gather_spec:
  assumes "in_range adj" "length r = length adj" "set q \<subseteq> marked r" "distinct (c @ q)"
    and "arcs adj `` (marked r - set q) \<subseteq> marked r" "set c \<subseteq> marked r"
  shows "\<exists>r' c'. gather adj r q c = Some (r', c') \<and> length r' = length adj \<and>
           marked r' = (arcs adj)\<^sup>* `` marked r \<and> distinct c' \<and>
           set c' = set c \<union> set q \<union> (marked r' - marked r)"
  using assms
proof (induction adj r q c rule: gather.induct)
  case (1 adj r q c)
  show ?case
  proof (cases q rule: rev_cases)
    case Nil
    then show ?thesis using 1(3-) closed_rtrancl [of "arcs adj" "marked r"] by (auto simp: gather.simps)
  next
    case (snoc rest n)
    have ne: "q \<noteq> []" "last q = n" "butlast q = rest" using snoc by auto
    have nl: "last q < length adj" using 1(3-) snoc marked_bound [of r] by auto
    then have "set (adj ! n) \<subseteq> {..<length r}" using 1(2,3) ne(2) by (auto simp: in_range_def)
    from scan_spec [OF this, of rest] obtain r1 new where
      s: "scan (adj ! n) r rest = Some (r1, rest @ new)" and l: "length r1 = length r"
      and m: "marked r1 = marked r \<union> set (adj ! n)" and nw: "set new = set (adj ! n) - marked r" "distinct new"
      by blast
    have im: "arcs adj `` {n} = set (adj ! n)" using arcs_image nl ne(2) by simp
    have a: "arcs adj `` (marked r1 - set (rest @ new)) \<subseteq> marked r1"
      using 1(6) m nw snoc im by fastforce
    have b: "set (rest @ new) \<subseteq> marked r1" "distinct ((c @ [n]) @ rest @ new)" "set (c @ [n]) \<subseteq> marked r1"
      using 1(4,5,7) m nw snoc by auto
    have "\<exists>r' c'. gather adj r1 (rest @ new) (c @ [n]) = Some (r', c') \<and> length r' = length adj \<and>
           marked r' = (arcs adj)\<^sup>* `` marked r1 \<and> distinct c' \<and>
           set c' = set (c @ [n]) \<union> set (rest @ new) \<union> (marked r' - marked r1)"
      using 1(1) [OF ne(1) nl s [folded ne(2,3)] refl] 1(2,3) l a b ne(2,3) by simp
    then obtain r' c' where g: "gather adj r1 (rest @ new) (c @ [n]) = Some (r', c')"
      and l': "length r' = length adj" and m': "marked r' = (arcs adj)\<^sup>* `` marked r1" and d': "distinct c'"
      and c': "set c' = set (c @ [n]) \<union> set (rest @ new) \<union> (marked r' - marked r1)" by blast
    have "n \<in> marked r" using 1(4) snoc by simp
    then have eq: "(arcs adj)\<^sup>* `` marked r1 = (arcs adj)\<^sup>* `` marked r"
      unfolding m im [symmetric] by (auto intro: converse_rtrancl_into_rtrancl)
    have "marked r1 \<subseteq> marked r'" using m' by auto
    then have "set c' = set c \<union> set q \<union> (marked r' - marked r)" using c' m nw snoc by auto
    moreover have "gather adj r q c = Some (r', c')"
      using g s nl ne by (simp add: gather.simps [of adj r q])
    ultimately show ?thesis using l' m' d' eq by auto
  qed
qed

definition scc :: "(nat \<times> nat) set \<Rightarrow> nat \<Rightarrow> nat set" where
  "scc E s = {x. (s, x) \<in> E\<^sup>* \<and> (x, s) \<in> E\<^sup>*}"

lemma scc_self [simp]: "s \<in> scc E s"
  by (simp add: scc_def)

lemma scc_eq: "x \<in> scc E s \<Longrightarrow> scc E x = scc E s"
  unfolding scc_def by (auto intro: rtrancl_trans)

text \<open>A node from which \<open>s\<close> is reachable, among the nodes not yet assigned, is reachable from \<open>s\<close>.\<close>

lemma finish_order_component:
  assumes fo: "finish_order E F" and F: "F = L @ s # R"
    and R: "set R \<subseteq> A" and A: "E\<inverse> `` A \<subseteq> A" and dom: "Domain E \<subseteq> set F"
    and x: "(x, s) \<in> E\<^sup>*" "x \<notin> A" "x \<in> set F"
  shows "(s, x) \<in> E\<^sup>*"
proof -
  obtain G H where GH: "L = G @ H" and H: "\<forall>h \<in> set H. (s, h) \<in> E\<^sup>*"
    and G: "\<forall>a \<in> set G. \<forall>y \<in> insert s (set H). (a, y) \<notin> E"
    using fo [unfolded finish_order_def, rule_format, OF F] unfolding settled_def by auto
  have "y \<notin> A \<longrightarrow> y \<in> insert s (set H)" if "(y, s) \<in> E\<^sup>*" for y
    using that
  proof (induction rule: converse_rtrancl_induct)
    case (step y z)
    have yF: "y \<in> set F" using dom step(1) by auto
    show ?case
    proof
      assume y: "y \<notin> A"
      have "z \<notin> A" using A step(1) y by blast
      then have "z \<in> insert s (set H)" using step(3) by blast
      then have "y \<notin> set G" using G step(1) by blast
      then show "y \<in> insert s (set H)" using yF y F GH R by auto
    qed
  qed simp
  then show ?thesis using x(1,2) H by auto
qed

lemma scc_two:
  assumes "x \<in> scc E s" "y \<in> scc E s" "x \<noteq> y"
  shows "(x, x) \<in> E\<^sup>+"
proof -
  have "(x, y) \<in> E\<^sup>*" "(y, x) \<in> E\<^sup>*" using assms(1,2) by (auto simp: scc_def intro: rtrancl_trans)
  then show ?thesis using assms(3) by (metis rtranclD trancl_rtrancl_trancl)
qed

lemma scc_loop:
  assumes "(x, x) \<in> E\<^sup>+" "scc E s = {x}"
  shows "(x, x) \<in> E"
proof -
  obtain y where y: "(x, y) \<in> E" "(y, x) \<in> E\<^sup>*" using assms(1) by (meson tranclD)
  have "x \<in> scc E s" using assms(2) by simp
  then have "y \<in> scc E s" using scc_eq [of x E s] y by (auto simp: scc_def)
  then show ?thesis using y assms(2) by simp
qed

text \<open>The test of the code on a component decides whether its members lie on a cycle.\<close>

lemma is_cyclic_iff:
  assumes "distinct c" "c \<noteq> []" "set c = scc (arcs fw) s" "set c \<subseteq> {..<length fw}" "x \<in> set c"
  shows "is_cyclic fw c \<longleftrightarrow> (x, x) \<in> (arcs fw)\<^sup>+"
proof (cases c)
  case Nil
  then show ?thesis using assms(2) by simp
next
  case (Cons y ys)
  show ?thesis
  proof (cases ys)
    case Nil
    then have "x = y" using assms(5) Cons by simp
    moreover from this have "scc (arcs fw) s = {x}" "y < length fw"
      using assms(3,4) Cons Nil by (simp_all add: assms(3) [symmetric])
    ultimately show ?thesis using Cons Nil scc_loop [of x "arcs fw" s]
      by (auto simp: is_cyclic_def arcs_def)
  next
    case (Cons z zs)
    then have "\<exists>w \<in> set c. w \<noteq> x" using assms(1) \<open>c = y # ys\<close> by (cases "x = y") auto
    then have "(x, x) \<in> (arcs fw)\<^sup>+" using scc_two [of x _ s] assms(3,5) by auto
    then show ?thesis using \<open>c = y # ys\<close> Cons by (simp add: is_cyclic_def)
  qed
qed

text \<open>What \<open>collect\<close> has established when the nodes in \<open>A\<close> are assigned.\<close>

definition cyclic_sccs :: "Adjacency \<Rightarrow> nat set \<Rightarrow> nat list list \<Rightarrow> bool" where
  "cyclic_sccs fw A cs \<longleftrightarrow>
     (\<forall>c \<in> set cs. sorted c \<and> c \<noteq> [] \<and> (\<exists>s < length fw. set c = scc (arcs fw) s)) \<and>
     distinct (concat cs) \<and> set (concat cs) = {x \<in> A. (x, x) \<in> (arcs fw)\<^sup>+}"

lemma cyclic_sccs_extend:
  assumes cs: "cyclic_sccs fw A cs" and c: "sorted c" "distinct c" "set c = scc (arcs fw) s"
    and s: "s < length fw" "set c \<subseteq> {..<length fw}" "set c \<inter> A = {}"
  shows "cyclic_sccs fw (A \<union> set c) (if is_cyclic fw c then cs @ [c] else cs)"
proof -
  have "c \<noteq> []" using c(3) scc_self [of s "arcs fw"] by (metis empty_iff set_empty)
  note cyc = is_cyclic_iff [OF c(2) this c(3) s(2)]
  show ?thesis
  proof (cases "is_cyclic fw c")
    case True
    then have "{x \<in> A \<union> set c. (x, x) \<in> (arcs fw)\<^sup>+} = set (concat cs) \<union> set c"
      using cyc cs unfolding cyclic_sccs_def by blast
    moreover have "distinct (concat (cs @ [c]))" using cs c(2) s(3) unfolding cyclic_sccs_def by auto
    ultimately show ?thesis using True cs c s(1) \<open>c \<noteq> []\<close> unfolding cyclic_sccs_def by auto
  next
    case False
    then have "{x \<in> A \<union> set c. (x, x) \<in> (arcs fw)\<^sup>+} = set (concat cs)"
      using cyc cs unfolding cyclic_sccs_def by blast
    then show ?thesis using False cs unfolding cyclic_sccs_def by simp
  qed
qed

lemma gather_component:
  assumes d: "dual fw rv" and F: "F = L @ s # R" "set F = {..<length fw}" "finish_order (arcs fw) F"
    and r: "length r = length fw" "set R \<subseteq> marked r" "arcs rv `` marked r \<subseteq> marked r" "s \<notin> marked r"
  obtains r' c where "gather rv (r[s := True]) [s] [] = Some (r', c)" and "length r' = length fw"
    and "arcs rv `` marked r' \<subseteq> marked r'" and "marked r' = marked r \<union> set c" and "set c \<inter> marked r = {}"
    and "distinct c" and "set c = scc (arcs fw) s" and "set c \<subseteq> {..<length fw}"
proof -
  let ?E = "arcs fw"
  have rv: "length rv = length fw" "in_range rv" "arcs rv = ?E\<inverse>" "in_range fw" using d by (auto simp: dual_def)
  have sl: "s < length r" using F(1,2) r(1) by auto
  then have m: "marked (r[s := True]) = insert s (marked r)" by simp
  obtain r' c where g: "gather rv (r[s := True]) [s] [] = Some (r', c)" and l: "length r' = length fw"
    and m': "marked r' = (?E\<inverse>)\<^sup>* `` insert s (marked r)" and c: "distinct c" "set c = {s} \<union> (marked r' - insert s (marked r))"
    using gather_spec [OF rv(2), of "r[s := True]" "[s]" "[]"] rv(1,3) r(1,3,4) sl m by fastforce
  have cl: "(?E\<inverse>)\<^sup>* `` marked r = marked r" using closed_rtrancl r(3) rv(3) by metis
  have bwd: "(?E\<inverse>)\<^sup>* `` insert s (marked r) = marked r \<union> {x. (x, s) \<in> ?E\<^sup>*}"
    using cl Image_Un [of "(?E\<inverse>)\<^sup>*" "{s}" "marked r"] by (auto simp: rtrancl_converse)
  have comp: "set c = {x. (x, s) \<in> ?E\<^sup>*} - marked r" using c(2) m' bwd r(4) by auto
  have dom: "Domain ?E \<subseteq> set F" using arcs_range [OF rv(4)] F(2) by auto
  have inF: "x \<in> set F" if "(x, s) \<in> ?E\<^sup>*" for x
    using that F(1) dom by (auto elim: converse_rtranclE)
  have "(s, x) \<in> ?E\<^sup>*" if "x \<in> set c" for x
    using finish_order_component [OF F(3,1) r(2) _ dom] r(3) rv(3) that comp inF by auto
  moreover have "x \<notin> marked r" if "(s, x) \<in> ?E\<^sup>*" for x
  proof
    assume "x \<in> marked r"
    moreover have "(x, s) \<in> (?E\<inverse>)\<^sup>*" using that by (simp add: rtrancl_converse)
    ultimately show False using cl r(4) by blast
  qed
  ultimately have scc: "set c = scc ?E s" using comp by (auto simp: scc_def)
  have closed': "arcs rv `` marked r' \<subseteq> marked r'" unfolding m' rv(3) by (auto intro: rtrancl_into_rtrancl)
  have mr: "marked r' = marked r \<union> set c" using m' bwd comp by auto
  have cr: "set c \<subseteq> {..<length fw}" using mr marked_bound [of r'] l by auto
  have dj: "set c \<inter> marked r = {}" using comp by blast
  show thesis by (rule that [OF g l closed' mr dj c(1) scc cr])
qed

lemma collect_spec:
  assumes d: "dual fw rv" and F: "F = rev starts @ R" "set F = {..<length fw}" "finish_order (arcs fw) F"
    and r: "length r = length fw" "set R \<subseteq> marked r" "arcs rv `` marked r \<subseteq> marked r"
    and cs: "cyclic_sccs fw (marked r) cs"
  shows "\<exists>cs'. collect fw rv starts r cs = Some cs' \<and> cyclic_sccs fw {..<length fw} cs'"
  using F(1) r cs
proof (induction starts arbitrary: R r cs)
  case Nil
  then have "marked r = {..<length fw}" using F(2) marked_bound [of r] by auto
  then show ?case using Nil by simp
next
  case (Cons s starts)
  have F': "F = rev starts @ s # R" using Cons.prems(1) by simp
  have sl: "s < length r" using F(2) F' Cons.prems(2) by auto
  show ?case
  proof (cases "r ! s")
    case True
    then have "s \<in> marked r" using sl by (simp add: in_marked)
    then show ?thesis using Cons.IH [OF F' Cons.prems(2) _ Cons.prems(4,5)] Cons.prems(3) True sl by simp
  next
    case False
    then have "s \<notin> marked r" using sl by (simp add: in_marked)
    from gather_component [OF d F' F(2,3) Cons.prems(2-4) this] obtain r' c where
      g: "gather rv (r[s := True]) [s] [] = Some (r', c)" and l: "length r' = length fw"
      and cl: "arcs rv `` marked r' \<subseteq> marked r'" and m: "marked r' = marked r \<union> set c"
      and dj: "set c \<inter> marked r = {}" and c: "distinct c" "set c = scc (arcs fw) s" "set c \<subseteq> {..<length fw}"
      by blast
    let ?cs = "if is_cyclic fw (sort c) then cs @ [sort c] else cs"
    have "cyclic_sccs fw (marked r') ?cs"
      using cyclic_sccs_extend [OF Cons.prems(5), of "sort c" s] c dj m sl Cons.prems(2) by simp
    moreover have "set (s # R) \<subseteq> marked r'" using Cons.prems(3) m c(2) by auto
    ultimately obtain cs' where "collect fw rv starts r' ?cs = Some cs'" "cyclic_sccs fw {..<length fw} cs'"
      using Cons.IH [OF F' l _ cl] by blast
    then show ?thesis using g False sl by (simp add: Let_def)
  qed
qed

lemma cyclic_sccs_mset:
  assumes "mset cs = mset cs'" "cyclic_sccs fw A cs"
  shows "cyclic_sccs fw A cs'"
proof -
  have "mset (concat cs) = mset (concat cs')" using assms(1) by (simp add: mset_concat flip: sum_mset_sum_list)
  then have "set (concat cs) = set (concat cs')" "distinct (concat cs) = distinct (concat cs')"
    by (fact mset_eq_setD, fact mset_eq_imp_distinct_iff)
  moreover have "set cs = set cs'" using assms(1) by (rule mset_eq_setD)
  ultimately show ?thesis using assms(2) by (simp add: cyclic_sccs_def)
qed

lemma cyclic_components_spec:
  assumes "dual fw rv"
  shows "\<exists>cs. cyclic_components fw rv = Some cs \<and> cyclic_sccs fw {..<length fw} cs \<and> sorted (map hd cs)"
proof -
  have "in_range fw" using assms by (simp add: dual_def)
  from first_pass [OF this] obtain v F where
    d: "dfs_all fw [0..<length fw] (replicate (length fw) False) [] = Some (v, F)"
    and F: "set F = {..<length fw}" "finish_order (arcs fw) F" by metis
  have "cyclic_sccs fw (marked (replicate (length fw) False)) []" by (simp add: cyclic_sccs_def)
  then obtain cs where "collect fw rv (rev F) (replicate (length fw) False) [] = Some cs"
    and "cyclic_sccs fw {..<length fw} cs"
    using collect_spec [OF assms _ F, of "rev F" "[]" "replicate (length fw) False" "[]"] by auto
  then show ?thesis using d cyclic_sccs_mset [of cs "sort_key hd cs"]
    by (simp add: cyclic_components_def)
qed

end
