(* ===== verification/Ir_Normal.thy ===== *)
theory Ir_Normal
  imports Ir
begin

text \<open>
  Normalisation of an authored workflow, \<open>From<&WorkflowSpec> for WorkflowIr\<close> in
  \<open>crates/workflow-ir/src/lib.rs\<close>: every list the comparators sort comes out in canonical order
  and two authored documents that differ only in the order of their sections have the same IR,
  hence the same canonical bytes and the same content identity.
\<close>

section \<open>Comparators that separate their elements\<close>

text \<open>
  A comparator that distinguishes every two different elements makes its sort a canonical form:
  the result depends on the multiset of elements only.
\<close>

locale canonical_order =
  fixes key :: "'a \<Rightarrow> 'k::linorder"
  assumes key_inj: "key x = key y \<Longrightarrow> x = y"
begin

lemma sort_mset_cong: "mset xs = mset ys \<Longrightarrow> sort_key key xs = sort_key key ys"
  by (rule sort_key_inj_key_eq) (auto intro: key_inj inj_onI)

lemma sort_idem: "sort_key key (sort_key key xs) = sort_key key xs"
  by (rule sort_mset_cong) simp

end

interpretation tools: canonical_order tool_key
  by unfold_locales (simp add: tool_key_def)

interpretation skills: canonical_order skill_key
  by unfold_locales (simp add: skill_key_def)

interpretation cases: canonical_order case_key
  by unfold_locales (simp add: case_key_def)

interpretation edges: canonical_order edge_key
  by unfold_locales (simp add: edge_key_def)

interpretation resources: canonical_order resource_key
  by unfold_locales (simp add: resource_key_def)

lemma case_keys_inj: "map case_key cs = map case_key ds \<longleftrightarrow> cs = ds"
  by (rule inj_map_eq_map) (auto intro: injI cases.key_inj)

interpretation routes: canonical_order route_key
  by unfold_locales (simp add: route_key_def case_keys_inj)

lemma node_sort_cong:
  assumes "mset xs = mset ys" and "distinct (map irn_id xs)"
  shows "sort_key node_key xs = sort_key node_key ys"
proof (rule sort_key_inj_key_eq)
  have "inj_on irn_id (set xs)" using assms(2) by (simp add: distinct_map)
  then show "inj_on node_key (set xs)" by (auto simp: inj_on_def node_key_def)
qed (use assms in simp_all)

section \<open>The canonical order of the IR\<close>

lemma sorted_map_fst:
  fixes f :: "'a \<Rightarrow> 'k::linorder \<times> 'l::linorder"
  shows "sorted (map f xs) \<Longrightarrow> sorted (map (\<lambda>x. fst (f x)) xs)"
  unfolding sorted_map by (erule sorted_wrt_mono_rel [rotated]) (auto simp: less_eq_prod_def)

lemma ir_nodes_sorted: "sorted (map irn_id (ir_nodes (WorkflowIr_from spec)))"
  using sorted_map_fst [OF sorted_sort_key [of node_key "map ir_node (ws_nodes spec)"]]
  by (simp add: WorkflowIr_from_def node_key_def)

lemma ir_edges_sorted: "sorted (map ire_from (ir_edges (WorkflowIr_from spec)))"
  using sorted_map_fst [OF sorted_sort_key [of edge_key "map ir_edge (ws_edges spec)"]]
  by (simp add: WorkflowIr_from_def edge_key_def)

lemma ir_routes_sorted: "sorted (map irt_from (ir_routes (WorkflowIr_from spec)))"
  using sorted_map_fst [OF sorted_sort_key [of route_key "map ir_route (ws_routes spec)"]]
  by (simp add: WorkflowIr_from_def route_key_def)

lemmas ir_sorted = ir_nodes_sorted ir_edges_sorted ir_routes_sorted

section \<open>Reordered documents\<close>

text \<open>A node whose tools, skills and resources are listed in another order.\<close>

definition reordered_node :: "Node \<Rightarrow> Node \<Rightarrow> bool" where
  "reordered_node a b \<longleftrightarrow>
     mset (nd_tools a) = mset (nd_tools b) \<and> mset (nd_skills a) = mset (nd_skills b) \<and>
     mset (nd_resources a) = mset (nd_resources b) \<and>
     a\<lparr>nd_tools := [], nd_skills := [], nd_resources := []\<rparr>
       = b\<lparr>nd_tools := [], nd_skills := [], nd_resources := []\<rparr>"

definition reordered_route :: "PredicateRoute \<Rightarrow> PredicateRoute \<Rightarrow> bool" where
  "reordered_route a b \<longleftrightarrow> mset (rt_cases a) = mset (rt_cases b) \<and> a\<lparr>rt_cases := []\<rparr> = b\<lparr>rt_cases := []\<rparr>"

text \<open>The same workflow with its sections, and the lists inside them, in another order.\<close>

definition reordered :: "WorkflowSpec \<Rightarrow> WorkflowSpec \<Rightarrow> bool" where
  "reordered s t \<longleftrightarrow>
     ws_schema_version s = ws_schema_version t \<and>
     ws_workflow s\<lparr>wf_resources := []\<rparr> = ws_workflow t\<lparr>wf_resources := []\<rparr> \<and>
     (\<exists>ns. mset ns = mset (ws_nodes s) \<and> list_all2 reordered_node ns (ws_nodes t)) \<and>
     mset (ws_edges s) = mset (ws_edges t) \<and>
     (\<exists>rs. mset rs = mset (ws_routes s) \<and> list_all2 reordered_route rs (ws_routes t)) \<and>
     ws_state s = ws_state t \<and> ws_compact_state_exchange s = ws_compact_state_exchange t \<and>
     mset (ws_resources s @ wf_resources (ws_workflow s))
       = mset (ws_resources t @ wf_resources (ws_workflow t))"

lemma ir_node_reordered:
  assumes "reordered_node a b"
  shows "ir_node a = ir_node b"
proof -
  have eqs: "nd_id a = nd_id b" "nd_kind a = nd_kind b" "nd_timeout_ms a = nd_timeout_ms b"
    "nd_max_visits a = nd_max_visits b" "nd_idempotent a = nd_idempotent b" "nd_model a = nd_model b"
    "nd_agent_contract a = nd_agent_contract b" "nd_untrusted_text a = nd_untrusted_text b"
    "nd_firewall a = nd_firewall b"
    using assms by (cases a; cases b; simp add: reordered_node_def)+
  have "sort_key tool_key (map f (nd_tools a)) = sort_key tool_key (map f (nd_tools b))"
    "sort_key skill_key (map g (nd_skills a)) = sort_key skill_key (map g (nd_skills b))" for f g
    using assms by (auto simp: reordered_node_def intro!: tools.sort_mset_cong skills.sort_mset_cong)
  then show ?thesis unfolding ir_node_def eqs Let_def by simp
qed

lemma ir_route_reordered:
  assumes "reordered_route a b"
  shows "ir_route a = ir_route b"
proof -
  have "sort_key case_key (map f (rt_cases a)) = sort_key case_key (map f (rt_cases b))" for f
    using assms by (auto simp: reordered_route_def intro!: cases.sort_mset_cong)
  moreover have "rt_from a = rt_from b" "rt_predicate a = rt_predicate b" "rt_default a = rt_default b"
    using assms by (cases a; cases b; simp add: reordered_route_def)+
  ultimately show ?thesis by (simp add: ir_route_def)
qed

lemma map_list_all2: "list_all2 P xs ys \<Longrightarrow> (\<And>x y. P x y \<Longrightarrow> f x = f y) \<Longrightarrow> map f xs = map f ys"
  by (induction rule: list_all2_induct) auto

lemma mset_concat_map_cong: "mset xs = mset ys \<Longrightarrow> mset (concat (map f xs)) = mset (concat (map f ys))"
  by (simp add: mset_concat flip: sum_mset_sum_list)

lemma mset_concat_list_all2:
  "list_all2 P xs ys \<Longrightarrow> (\<And>x y. P x y \<Longrightarrow> mset (f x) = mset (f y)) \<Longrightarrow>
     mset (concat (map f xs)) = mset (concat (map f ys))"
  by (induction rule: list_all2_induct) auto

text \<open>
  C7: Authoring order does not matter. Two workflow documents that list their nodes, edges,
  routes, route cases, tools, skills and resources in different orders are normalised to the
  same IR, as long as no two nodes share an identifier; so they have the same canonical bytes
  and the same content identity under every hash function.
\<close>

theorem WorkflowIr_from_reordered:
  assumes "reordered s t" and "distinct (map nd_id (ws_nodes s))"
  shows "WorkflowIr_from s = WorkflowIr_from t \<and>
         canonical_hash sha256 (WorkflowIr_from s) = canonical_hash sha256 (WorkflowIr_from t)"
proof -
  note R = assms(1) [unfolded reordered_def]
  obtain ns rs where ns: "mset ns = mset (ws_nodes s)" "list_all2 reordered_node ns (ws_nodes t)"
    and rs: "mset rs = mset (ws_routes s)" "list_all2 reordered_route rs (ws_routes t)"
    using R by blast
  have nodes: "mset (map ir_node (ws_nodes s)) = mset (map ir_node (ws_nodes t))"
    using arg_cong [where f = mset, OF map_list_all2 [where f = ir_node, OF ns(2) ir_node_reordered]] ns(1) by simp
  have "map irn_id (map ir_node (ws_nodes s)) = map nd_id (ws_nodes s)" by (simp add: ir_node_def Let_def)
  then have "distinct (map irn_id (map ir_node (ws_nodes s)))" using assms(2) by metis
  then have 1: "sort_key node_key (map ir_node (ws_nodes s)) = sort_key node_key (map ir_node (ws_nodes t))"
    by (rule node_sort_cong [OF nodes])
  have "mset (map ir_route (ws_routes s)) = mset (map ir_route (ws_routes t))"
    using arg_cong [where f = mset, OF map_list_all2 [where f = ir_route, OF rs(2) ir_route_reordered]] rs(1) by simp
  then have 2: "sort_key route_key (map ir_route (ws_routes s)) = sort_key route_key (map ir_route (ws_routes t))"
    by (rule routes.sort_mset_cong)
  have 3: "sort_key edge_key (map ir_edge (ws_edges s)) = sort_key edge_key (map ir_edge (ws_edges t))"
    using R by (auto intro: edges.sort_mset_cong)
  let ?own = "\<lambda>n. map ir_resource (nd_resources n)"
  have "mset (concat (map ?own (ws_nodes s))) = mset (concat (map ?own (ws_nodes t)))"
    using mset_concat_map_cong [OF ns(1), of ?own] mset_concat_list_all2 [OF ns(2), of ?own]
    by (simp add: reordered_node_def)
  moreover have "image_mset ir_resource (mset (ws_resources s @ wf_resources (ws_workflow s)))
      = image_mset ir_resource (mset (ws_resources t @ wf_resources (ws_workflow t)))"
    using R by metis
  ultimately have 4: "sort_key resource_key (map ir_resource (ws_resources s @ wf_resources (ws_workflow s))
        @ concat (map ?own (ws_nodes s)))
      = sort_key resource_key (map ir_resource (ws_resources t @ wf_resources (ws_workflow t))
        @ concat (map ?own (ws_nodes t)))"
    by (intro resources.sort_mset_cong) simp
  have "wf_id (ws_workflow s) = wf_id (ws_workflow t)" "wf_version (ws_workflow s) = wf_version (ws_workflow t)"
    "wf_entry (ws_workflow s) = wf_entry (ws_workflow t)"
    using R by (cases "ws_workflow s"; cases "ws_workflow t"; simp)+
  then have "WorkflowIr_from s = WorkflowIr_from t"
    unfolding WorkflowIr_from_def using R 1 2 3 4 by simp
  then show ?thesis by simp
qed

text \<open>A two-step workflow, authored in two orders.\<close>

definition plain_node :: "string \<Rightarrow> NodeKind \<Rightarrow> Node" where
  "plain_node i k = \<lparr>nd_id = i, nd_kind = k, nd_timeout_ms = None, nd_max_visits = None, nd_idempotent = False,
     nd_resources = [], nd_model = None, nd_tools = [], nd_skills = [], nd_agent_contract = None,
     nd_untrusted_text = None, nd_firewall = None\<rparr>"

definition two_step :: "Node list \<Rightarrow> WorkflowSpec" where
  "two_step nodes = \<lparr>ws_schema_version = V1,
     ws_workflow = \<lparr>wf_id = ''w'', wf_version = ''1'', wf_entry = ''a'', wf_resources = []\<rparr>,
     ws_nodes = nodes, ws_edges = [\<lparr>ed_from = ''a'', ed_to = ''b''\<rparr>], ws_routes = [], ws_state = None,
     ws_compact_state_exchange = None, ws_resources = []\<rparr>"

theorem WorkflowIr_from_reordered_witness:
  "WorkflowIr_from (two_step [plain_node ''a'' Action, plain_node ''b'' Terminal])
     = WorkflowIr_from (two_step [plain_node ''b'' Terminal, plain_node ''a'' Action])"
proof -
  let ?a = "plain_node ''a'' Action" and ?b = "plain_node ''b'' Terminal"
  have "\<exists>ns. mset ns = mset [?a, ?b] \<and> list_all2 reordered_node ns [?b, ?a]"
    by (rule exI [of _ "[?b, ?a]"]) (simp add: reordered_node_def add_mset_commute)
  moreover have "\<exists>rs. mset rs = mset [] \<and> list_all2 reordered_route rs []" by simp
  ultimately have "reordered (two_step [?a, ?b]) (two_step [?b, ?a])"
    by (simp add: reordered_def two_step_def)
  moreover have "distinct (map nd_id (ws_nodes (two_step [?a, ?b])))"
    by (simp add: two_step_def plain_node_def)
  ultimately show ?thesis by (rule WorkflowIr_from_reordered [THEN conjunct1])
qed

end
