(* ===== verification/Graph_Correct.thy ===== *)
theory Graph_Correct
  imports Graph_Search Ir_Normal
begin

text \<open>
  Graph validation against its specification. \<open>sound_graph\<close> says in terms of node identifiers
  and the flow relation what a workflow graph has to satisfy; \<open>validate_graph\<close> on a normalised
  workflow accepts exactly the sound graphs, and never indexes out of range.
\<close>

section \<open>Binary search\<close>

lemma binary_search_Some:
  "binary_search key k xs lo hi = Some i \<Longrightarrow> lo \<le> i \<and> i < hi \<and> key (xs ! i) = k"
proof (induction key k xs lo hi rule: binary_search.induct)
  case (1 key k xs lo hi)
  have "binary_search key k xs lo hi = Some i" by fact
  then show ?case using 1(1,2)
    by (subst (asm) binary_search.simps) (fastforce simp: Let_def split: if_splits)
qed

lemma binary_search_None:
  assumes "binary_search key k xs lo hi = None" "sorted (map key xs)" "hi \<le> length xs" "lo \<le> i" "i < hi"
  shows "key (xs ! i) \<noteq> k"
  using assms
proof (induction key k xs lo hi rule: binary_search.induct)
  case (1 key k xs lo hi)
  let ?mid = "lo + (hi - lo) div 2"
  have lh: "lo < hi" and mid: "lo \<le> ?mid" "?mid < hi" using 1(6,7) by auto
  have ord: "key (xs ! i) \<le> key (xs ! j)" if "i \<le> j" "j < length xs" for i j
    using sorted_nth_mono [OF 1(4), of i j] that by simp
  consider "key (xs ! ?mid) < k" "binary_search key k xs (Suc ?mid) hi = None"
    | "k < key (xs ! ?mid)" "binary_search key k xs lo ?mid = None"
    using 1(3) lh by (subst (asm) binary_search.simps) (auto simp: Let_def split: if_splits)
  then show ?case
  proof cases
    case 1
    then show ?thesis
      using "1.IH"(1) [OF lh refl] "1.prems" ord [of i ?mid] mid by (cases "i \<le> ?mid") fastforce+
  next
    case 2
    then show ?thesis
      using "1.IH"(2) [OF lh refl] "1.prems" ord [of ?mid i] mid by (cases "i < ?mid") fastforce+
  qed
qed

lemma find_node_index_Some:
  "find_node_index nodes x = Some i \<Longrightarrow> i < length nodes \<and> irn_id (nodes ! i) = x"
  by (auto simp: find_node_index_def dest: binary_search_Some)

lemma find_node_index_iff:
  assumes "sorted (map irn_id nodes)" "distinct (map irn_id nodes)"
  shows "find_node_index nodes x = Some i \<longleftrightarrow> i < length nodes \<and> irn_id (nodes ! i) = x"
proof
  assume i: "i < length nodes \<and> irn_id (nodes ! i) = x"
  have "find_node_index nodes x \<noteq> None"
    using binary_search_None [OF _ assms(1), of x 0 "length nodes" i] i by (auto simp: find_node_index_def)
  then obtain j where "find_node_index nodes x = Some j" by blast
  moreover from this have "j < length nodes \<and> irn_id (nodes ! j) = x" by (rule find_node_index_Some)
  ultimately show "find_node_index nodes x = Some i"
    using i assms(2) by (auto simp: distinct_conv_nth)
qed (rule find_node_index_Some)

lemma binary_search_member:
  assumes "sorted (map key xs)"
  shows "binary_search key k xs 0 (length xs) \<noteq> None \<longleftrightarrow> k \<in> key ` set xs"
proof
  assume "binary_search key k xs 0 (length xs) \<noteq> None"
  then show "k \<in> key ` set xs" by (auto dest: binary_search_Some)
next
  assume "k \<in> key ` set xs"
  then obtain i where "i < length xs" "key (xs ! i) = k" by (auto simp: in_set_conv_nth)
  then show "binary_search key k xs 0 (length xs) \<noteq> None"
    using binary_search_None [OF _ assms, of k 0 "length xs" i] by auto
qed

section \<open>Duplicates and routes\<close>

lemma takeWhile_sorted_Nil:
  assumes "sorted (map f (n # ns))"
  shows "takeWhile (\<lambda>m. f n = f m) ns = [] \<longleftrightarrow> f n \<notin> f ` set ns"
proof (cases ns)
  case (Cons m ms)
  then show ?thesis using assms by auto
qed simp

lemma duplicate_node_error_None:
  "sorted (map irn_id nodes) \<Longrightarrow> duplicate_node_error nodes = None \<longleftrightarrow> distinct (map irn_id nodes)"
proof (induction nodes)
  case (Cons n ns)
  then show ?case using takeWhile_sorted_Nil [of irn_id n ns] by (simp add: Let_def)
qed simp

lemma adjacent_distinct:
  "sorted (map f xs) \<Longrightarrow> list_ex (\<lambda>(x, y). f x = f y) (zip xs (tl xs)) \<longleftrightarrow> \<not> distinct (map f xs)"
proof (induction xs)
  case (Cons x xs)
  then show ?case by (cases xs) auto
qed simp

definition routes_ok :: "WorkflowIr \<Rightarrow> bool" where
  "routes_ok ir \<longleftrightarrow> (\<forall>r \<in> set (ir_routes ir). irt_cases r \<noteq> []) \<and> distinct (map irt_from (ir_routes ir)) \<and>
     irt_from ` set (ir_routes ir) \<inter> ire_from ` set (ir_edges ir) = {}"

lemma route_structure_error_None:
  assumes "sorted (map ire_from (ir_edges ir))" "sorted (map irt_from (ir_routes ir))"
  shows "route_structure_error ir = None \<longleftrightarrow> routes_ok ir"
  unfolding route_structure_error_def routes_ok_def binary_search_member [OF assms(1)] adjacent_distinct [OF assms(2)]
  by (auto simp: list_ex_iff)

definition identifiers_ok :: "WorkflowIr \<Rightarrow> bool" where
  "identifiers_ok ir \<longleftrightarrow>
     ir_workflow_id ir \<noteq> [] \<and> ir_entry_node_id ir \<noteq> [] \<and>
     (\<forall>n \<in> set (ir_nodes ir). irn_id n \<notin> {[], ''__start__'', ''__end__''}) \<and>
     (\<forall>e \<in> set (ir_edges ir). ire_from e \<noteq> [] \<and> ire_to e \<noteq> []) \<and>
     (\<forall>r \<in> set (ir_routes ir). irt_from r \<noteq> [] \<and> irp_id (irt_predicate r) \<noteq> [] \<and>
        irp_version (irt_predicate r) \<noteq> [] \<and> (\<forall>c \<in> set (irt_cases r). irc_key c \<noteq> [] \<and> irc_target c \<noteq> []))"

lemma first_empty_None: "first_empty named = None \<longleftrightarrow> [] \<notin> snd ` set named"
  by (auto simp: first_empty_def find_None_iff image_iff)

lemma first_error_None: "(case x of Some e \<Rightarrow> Some e | None \<Rightarrow> y) = None \<longleftrightarrow> x = None \<and> y = None"
  by (cases x) auto

lemma invalid_identifier_error_None: "invalid_identifier_error ir = None \<longleftrightarrow> identifiers_ok ir"
proof -
  have e: "[] \<notin> snd ` set (concat (map edge_fields es)) \<longleftrightarrow> (\<forall>e \<in> set es. ire_from e \<noteq> [] \<and> ire_to e \<noteq> [])" for es
    by (auto simp: edge_fields_def image_iff)
  have r: "[] \<notin> snd ` set (concat (map route_fields rs)) \<longleftrightarrow> (\<forall>r \<in> set rs. irt_from r \<noteq> [] \<and>
      irp_id (irt_predicate r) \<noteq> [] \<and> irp_version (irt_predicate r) \<noteq> [] \<and>
      (\<forall>c \<in> set (irt_cases r). irc_key c \<noteq> [] \<and> irc_target c \<noteq> []))" for rs
    by (simp add: route_fields_def image_iff eq_commute [of "[]"])
  show ?thesis
    unfolding invalid_identifier_error_def identifiers_ok_def first_error_None
    by (auto simp: first_error_None first_empty_None e r list_ex_iff simp del: set_concat)
qed

section \<open>Adjacency\<close>

lemma in_range_iff: "in_range adj \<longleftrightarrow> arcs adj \<subseteq> UNIV \<times> {..<length adj}"
  by (auto simp: in_range_def arcs_def)

lemma add_arc_dual:
  assumes "dual fw rv" "i < length fw" "j < length fw" "add_arc i j (fw, rv) = (fw', rv')"
  shows "dual fw' rv' \<and> length fw' = length fw \<and> arcs fw' = insert (i, j) (arcs fw)"
proof -
  have eq: "fw' = fw[i := fw ! i @ [j]]" "rv' = rv[j := rv ! j @ [i]]"
    using assms(4) by (simp_all add: add_arc_def)
  have f: "arcs (g[a := g ! a @ [b]]) = insert (a, b) (arcs g)" if "a < length g" for g a b
    using that by (auto simp: arcs_def nth_list_update split: if_splits)
  have d: "length rv = length fw" "in_range fw" "in_range rv" "arcs rv = (arcs fw)\<inverse>"
    using assms(1) by (auto simp: dual_def)
  have "arcs rv' = (arcs fw')\<inverse>"
    unfolding eq f [OF assms(2)] using f [of j rv i] d(1,4) assms(3) by auto
  moreover have "in_range fw'" "in_range rv'"
    using assms(2,3) d(1-3) f [of i fw j] f [of j rv i] unfolding eq in_range_iff by simp_all
  ultimately show ?thesis using assms(1,2) f [of i fw j] eq by (simp add: dual_def)
qed

text \<open>The arcs between indices that a list of identifier pairs denotes.\<close>

definition index_arcs :: "IrNode list \<Rightarrow> (string \<times> string) set \<Rightarrow> (nat \<times> nat) set" where
  "index_arcs nodes P = {(i, j). \<exists>(a, b) \<in> P. find_node_index nodes a = Some i \<and> find_node_index nodes b = Some j}"

definition extends :: "IrNode list \<Rightarrow> (string \<times> string) set \<Rightarrow> Adjacency \<times> Adjacency \<Rightarrow> Adjacency \<times> Adjacency \<Rightarrow> bool" where
  "extends nodes P adj adj' \<longleftrightarrow>
     dual (fst adj') (snd adj') \<and> length (fst adj') = length nodes \<and>
     arcs (fst adj') = arcs (fst adj) \<union> index_arcs nodes P"

lemma extends_refl:
  "dual (fst adj) (snd adj) \<Longrightarrow> length (fst adj) = length nodes \<Longrightarrow> extends nodes {} adj adj"
  by (simp add: extends_def index_arcs_def)

lemma extends_trans: "extends nodes P a b \<Longrightarrow> extends nodes Q b c \<Longrightarrow> extends nodes (P \<union> Q) a c"
  by (auto simp: extends_def index_arcs_def)

lemma extends_arc:
  assumes "dual (fst adj) (snd adj)" "length (fst adj) = length nodes"
    and "find_node_index nodes a = Some i" "find_node_index nodes b = Some j"
  shows "extends nodes {(a, b)} adj (add_arc i j adj)"
proof -
  obtain fw rv fw' rv' where adj: "adj = (fw, rv)" "add_arc i j (fw, rv) = (fw', rv')" by fastforce
  then show ?thesis
    using add_arc_dual [of fw rv i j fw' rv'] assms find_node_index_Some [of nodes a i] find_node_index_Some [of nodes b j]
    by (auto simp: extends_def index_arcs_def)
qed

definition declared :: "IrNode list \<Rightarrow> string \<Rightarrow> bool" where
  "declared nodes x \<longleftrightarrow> find_node_index nodes x \<noteq> None"

lemma extendsD: "extends nodes P adj adj' \<Longrightarrow> dual (fst adj') (snd adj') \<and> length (fst adj') = length nodes"
  by (simp add: extends_def)

lemma adjacency_edges_ok:
  assumes "dual (fst adj) (snd adj)" "length (fst adj) = length nodes"
  shows "adjacency_edges nodes es adj = Inr adj' \<Longrightarrow>
           extends nodes ((\<lambda>e. (ire_from e, ire_to e)) ` set es) adj adj'"
    and "(\<exists>adj'. adjacency_edges nodes es adj = Inr adj') \<longleftrightarrow>
           (\<forall>e \<in> set es. declared nodes (ire_from e) \<and> declared nodes (ire_to e))"
proof -
  show "adjacency_edges nodes es adj = Inr adj' \<Longrightarrow>
          extends nodes ((\<lambda>e. (ire_from e, ire_to e)) ` set es) adj adj'"
    using assms
  proof (induction es arbitrary: adj)
    case Nil
    then show ?case by (simp add: extends_refl)
  next
    case (Cons e es)
    from Cons.prems(1) obtain i j where ij: "find_node_index nodes (ire_from e) = Some i"
      "find_node_index nodes (ire_to e) = Some j" "adjacency_edges nodes es (add_arc i j adj) = Inr adj'"
      by (auto split: option.splits)
    note step = extends_arc [OF Cons.prems(2,3) ij(1,2)]
    from extends_trans [OF step Cons.IH [OF ij(3)]] extendsD [OF step] show ?case by simp
  qed
  show "(\<exists>adj'. adjacency_edges nodes es adj = Inr adj') \<longleftrightarrow>
          (\<forall>e \<in> set es. declared nodes (ire_from e) \<and> declared nodes (ire_to e))"
    by (induction es arbitrary: adj) (auto simp: declared_def split: option.splits)
qed

lemma adjacency_targets_ok:
  assumes "dual (fst adj) (snd adj)" "length (fst adj) = length nodes" "find_node_index nodes a = Some i"
  shows "adjacency_targets nodes i ts adj = Inr adj' \<Longrightarrow> extends nodes (Pair a ` set ts) adj adj'"
    and "(\<exists>adj'. adjacency_targets nodes i ts adj = Inr adj') \<longleftrightarrow> (\<forall>t \<in> set ts. declared nodes t)"
proof -
  show "adjacency_targets nodes i ts adj = Inr adj' \<Longrightarrow> extends nodes (Pair a ` set ts) adj adj'"
    using assms
  proof (induction ts arbitrary: adj)
    case Nil
    then show ?case by (simp add: extends_refl)
  next
    case (Cons t ts)
    from Cons.prems(1) obtain j where j: "find_node_index nodes t = Some j"
      "adjacency_targets nodes i ts (add_arc i j adj) = Inr adj'"
      by (auto split: option.splits)
    note step = extends_arc [OF Cons.prems(2,3,4) j(1)]
    from extends_trans [OF step Cons.IH [OF j(2)]] extendsD [OF step] Cons.prems(4) show ?case by simp
  qed
  show "(\<exists>adj'. adjacency_targets nodes i ts adj = Inr adj') \<longleftrightarrow> (\<forall>t \<in> set ts. declared nodes t)"
    by (induction ts arbitrary: adj) (auto simp: declared_def split: option.splits)
qed

definition route_arcs :: "IrPredicateRoute \<Rightarrow> (string \<times> string) set" where
  "route_arcs r = Pair (irt_from r) ` set (route_targets r)"

lemma adjacency_routes_ok:
  assumes "dual (fst adj) (snd adj)" "length (fst adj) = length nodes"
  shows "adjacency_routes nodes rs adj = Inr adj' \<Longrightarrow> extends nodes (\<Union> (route_arcs ` set rs)) adj adj'"
    and "(\<exists>adj'. adjacency_routes nodes rs adj = Inr adj') \<longleftrightarrow>
           (\<forall>r \<in> set rs. declared nodes (irt_from r) \<and> (\<forall>t \<in> set (route_targets r). declared nodes t))"
proof -
  show "adjacency_routes nodes rs adj = Inr adj' \<Longrightarrow> extends nodes (\<Union> (route_arcs ` set rs)) adj adj'"
    using assms
  proof (induction rs arbitrary: adj)
    case Nil
    then show ?case by (simp add: extends_refl)
  next
    case (Cons r rs)
    from Cons.prems(1) obtain i adj1 where i: "find_node_index nodes (irt_from r) = Some i"
      "adjacency_targets nodes i (route_targets r) adj = Inr adj1" "adjacency_routes nodes rs adj1 = Inr adj'"
      by (auto simp: res_iffs split: option.splits)
    note step = adjacency_targets_ok(1) [OF Cons.prems(2,3) i(1,2)]
    from extends_trans [OF step Cons.IH [OF i(3)]] extendsD [OF step] show ?case by (simp add: route_arcs_def)
  qed
  show "(\<exists>adj'. adjacency_routes nodes rs adj = Inr adj') \<longleftrightarrow>
          (\<forall>r \<in> set rs. declared nodes (irt_from r) \<and> (\<forall>t \<in> set (route_targets r). declared nodes t))"
    using assms
  proof (induction rs arbitrary: adj)
    case (Cons r rs)
    show ?case
    proof (cases "find_node_index nodes (irt_from r)")
      case (Some i)
      note t = adjacency_targets_ok [OF Cons.prems Some, of "route_targets r"]
      show ?thesis
      proof (cases "adjacency_targets nodes i (route_targets r) adj")
        case (Inl e)
        then show ?thesis using t(2) Some by auto
      next
        case (Inr adj1)
        then show ?thesis using t(2) Some Cons.IH [of adj1] extendsD [OF t(1) [OF Inr]]
          by (auto simp: declared_def)
      qed
    qed (simp add: declared_def)
  qed simp
qed

definition flow :: "WorkflowIr \<Rightarrow> (string \<times> string) set" where
  "flow ir = (\<lambda>e. (ire_from e, ire_to e)) ` set (ir_edges ir) \<union> (\<Union> (route_arcs ` set (ir_routes ir)))"

lemma dual_empty: "dual (replicate n []) (replicate n [])"
  by (auto simp: dual_def in_range_def arcs_def)

lemma adjacency_ok:
  assumes "adjacency nodes ir = Inr (fw, rv)"
  shows "dual fw rv \<and> length fw = length nodes \<and> arcs fw = index_arcs nodes (flow ir)"
proof -
  let ?z = "(replicate (length nodes) [], replicate (length nodes) [])"
  have z: "dual (fst ?z) (snd ?z)" "length (fst ?z) = length nodes" by (simp_all add: dual_empty)
  obtain adj where e: "adjacency_edges nodes (ir_edges ir) ?z = Inr adj"
    and r: "adjacency_routes nodes (ir_routes ir) adj = Inr (fw, rv)"
    using assms by (auto simp: adjacency_def res_iffs)
  note 1 = adjacency_edges_ok(1) [OF z e]
  note 2 = adjacency_routes_ok(1) [OF extendsD [OF 1, THEN conjunct1] extendsD [OF 1, THEN conjunct2] r]
  have "arcs (fst ?z) = {}" by (auto simp: arcs_def)
  then show ?thesis using extends_trans [OF 1 2] by (simp add: extends_def flow_def)
qed

lemma adjacency_defined:
  assumes "routes_ok ir"
  shows "(\<exists>adj. adjacency nodes ir = Inr adj) \<longleftrightarrow> (\<forall>(a, b) \<in> flow ir. declared nodes a \<and> declared nodes b)"
proof -
  let ?z = "(replicate (length nodes) [], replicate (length nodes) [])"
  have z: "dual (fst ?z) (snd ?z)" "length (fst ?z) = length nodes" by (simp_all add: dual_empty)
  have ne: "route_targets r \<noteq> []" if "r \<in> set (ir_routes ir)" for r
    using assms that by (auto simp: routes_ok_def route_targets_def)
  have "(\<exists>adj. adjacency nodes ir = Inr adj) \<longleftrightarrow>
      (\<forall>e \<in> set (ir_edges ir). declared nodes (ire_from e) \<and> declared nodes (ire_to e)) \<and>
      (\<forall>r \<in> set (ir_routes ir). declared nodes (irt_from r) \<and> (\<forall>t \<in> set (route_targets r). declared nodes t))"
  proof (cases "adjacency_edges nodes (ir_edges ir) ?z")
    case (Inl e)
    then have "\<not> (\<exists>adj. adjacency_edges nodes (ir_edges ir) ?z = Inr adj)" by simp
    then show ?thesis using adjacency_edges_ok(2) [OF z, of "ir_edges ir"] Inl by (simp add: adjacency_def)
  next
    case (Inr adj)
    note 1 = extendsD [OF adjacency_edges_ok(1) [OF z Inr]]
    have "\<exists>adj. adjacency_edges nodes (ir_edges ir) ?z = Inr adj" using Inr by blast
    then show ?thesis
      using adjacency_edges_ok(2) [OF z, of "ir_edges ir"] Inr
        adjacency_routes_ok(2) [OF 1 [THEN conjunct1] 1 [THEN conjunct2], of "ir_routes ir"]
      by (simp add: adjacency_def)
  qed
  also have "\<dots> \<longleftrightarrow> (\<forall>(a, b) \<in> flow ir. declared nodes a \<and> declared nodes b)"
  proof -
    have "(\<forall>(a, b) \<in> route_arcs r. declared nodes a \<and> declared nodes b) \<longleftrightarrow>
        declared nodes (irt_from r) \<and> (\<forall>t \<in> set (route_targets r). declared nodes t)"
      if "r \<in> set (ir_routes ir)" for r
      using ne [OF that] by (cases "route_targets r") (auto simp: route_arcs_def)
    then show ?thesis unfolding flow_def ball_Un by simp
  qed
  finally show ?thesis .
qed

section \<open>Liveness over indices\<close>

text \<open>What a node on a cycle needs: a positive visit bound, and idempotence if it is an action.\<close>

definition cycle_safe :: "IrNode \<Rightarrow> bool" where
  "cycle_safe n \<longleftrightarrow> (\<exists>b. irn_max_visits n = Some b \<and> b \<noteq> 0) \<and> (irn_kind n = IrAction \<longrightarrow> irn_idempotent n)"

lemma check_component_ok: "check_component nodes c = Inr u \<longleftrightarrow> (\<forall>i \<in> set c. cycle_safe (nodes ! i))"
proof -
  have "x = None \<or> x = Some 0 \<longleftrightarrow> \<not> (\<exists>b. x = Some b \<and> b \<noteq> 0)" for x :: "u32 option"
    by (cases x) auto
  then have "list_ex (\<lambda>i. irn_max_visits (nodes ! i) = None \<or> irn_max_visits (nodes ! i) = Some 0) c \<longleftrightarrow>
      \<not> (\<forall>i \<in> set c. \<exists>b. irn_max_visits (nodes ! i) = Some b \<and> b \<noteq> 0)"
    unfolding list_ex_iff by simp
  then show ?thesis
    by (auto simp: check_component_def cycle_safe_def find_None_iff find_Some_iff split: option.splits)
qed

definition live :: "IrNode list \<Rightarrow> nat \<Rightarrow> (nat \<times> nat) set \<Rightarrow> bool" where
  "live nodes entry E \<longleftrightarrow>
     (\<forall>i < length nodes. (entry, i) \<in> E\<^sup>*) \<and>
     (\<forall>i < length nodes. \<exists>t < length nodes. irn_kind (nodes ! t) = IrTerminal \<and> (i, t) \<in> E\<^sup>*) \<and>
     (\<forall>i < length nodes. (i, i) \<in> E\<^sup>+ \<longrightarrow> cycle_safe (nodes ! i))"

lemma find_range_None: "List.find P [0..<n] = None \<longleftrightarrow> (\<forall>i < n. \<not> P i)"
  by (auto simp: find_None_iff)

lemma marked_all: "marked r = {..<length r} \<longleftrightarrow> (\<forall>i < length r. r ! i)"
  by (auto simp: marked_def)

lemma validate_liveness_spec:
  assumes d: "dual fw rv" and n: "length fw = length nodes" and e: "entry < length nodes"
  shows "\<exists>r. validate_liveness nodes entry fw rv = Some r \<and> (r = Inr () \<longleftrightarrow> live nodes entry (arcs fw))"
proof -
  let ?E = "arcs fw" and ?n = "length nodes"
  have rv: "length rv = ?n" "in_range rv" "arcs rv = ?E\<inverse>" "in_range fw" using d n by (auto simp: dual_def)
  obtain reach where reach: "reachability entry fw = Some reach" "length reach = ?n" "marked reach = ?E\<^sup>* `` {entry}"
    using reachability_from_spec [OF rv(4), of "[entry]"] e n by (auto simp: reachability_def)
  then have at: "reach ! i \<longleftrightarrow> (entry, i) \<in> ?E\<^sup>*" if "i < ?n" for i
    using that in_marked [of i reach] by auto
  let ?seeds = "terminal_seeds nodes reach"
  have seeds: "set ?seeds = {t. t < ?n \<and> (entry, t) \<in> ?E\<^sup>* \<and> irn_kind (nodes ! t) = IrTerminal}"
    using at by (auto simp: terminal_seeds_def)
  obtain cs where cs: "cyclic_components fw rv = Some cs" "cyclic_sccs fw {..<?n} cs"
    using cyclic_components_spec [OF d] n by auto
  have safe: "res_all (check_component nodes) cs = Inr u \<longleftrightarrow> (\<forall>i < ?n. (i, i) \<in> ?E\<^sup>+ \<longrightarrow> cycle_safe (nodes ! i))" for u
    using cs(2) unfolding res_all_Inr_iff check_component_ok cyclic_sccs_def by auto
  obtain can where can: "reachability_from ?seeds rv = Some can" "length can = ?n" "marked can = (?E\<inverse>)\<^sup>* `` set ?seeds"
    using reachability_from_spec [OF rv(2), of ?seeds] rv(1,3) seeds by auto
  have trm: "can ! i \<longleftrightarrow> (\<exists>t \<in> set ?seeds. (i, t) \<in> ?E\<^sup>*)" if "i < ?n" for i
    using that can in_marked [of i can] by (auto simp: rtrancl_converse)
  have unreach: "List.find (\<lambda>i. \<not> reach ! i) [0..<length reach] = None \<longleftrightarrow> (\<forall>i < ?n. (entry, i) \<in> ?E\<^sup>*)"
    unfolding find_range_None using at reach(2) by auto
  show ?thesis
  proof (cases "\<forall>i < ?n. (entry, i) \<in> ?E\<^sup>*")
    case False
    then obtain i where "List.find (\<lambda>i. \<not> reach ! i) [0..<length reach] = Some i" using unreach by (metis not_None_eq)
    then show ?thesis using False reach(1) by (auto simp: validate_liveness_def live_def)
  next
    case True
    then have f: "List.find (\<lambda>i. \<not> reach ! i) [0..<length reach] = None" using unreach by simp
    have "can ! i \<longleftrightarrow> (\<exists>t < ?n. irn_kind (nodes ! t) = IrTerminal \<and> (i, t) \<in> ?E\<^sup>*)" if "i < ?n" for i
      using trm [OF that] True unfolding seeds by blast
    then have "(\<forall>i < ?n. reach ! i \<longrightarrow> can ! i) \<longleftrightarrow>
        (\<forall>i < ?n. \<exists>t < ?n. irn_kind (nodes ! t) = IrTerminal \<and> (i, t) \<in> ?E\<^sup>*)"
      using True at by simp
    then have stuck: "List.find (\<lambda>i. reach ! i \<and> \<not> can ! i) [0..<length reach] = None \<longleftrightarrow>
        (\<forall>i < ?n. \<exists>t < ?n. irn_kind (nodes ! t) = IrTerminal \<and> (i, t) \<in> ?E\<^sup>*)"
      unfolding find_range_None reach(2) by blast
    have "?seeds = [] \<Longrightarrow> \<not> live nodes entry ?E" using seeds e True by (auto simp: live_def)
    moreover have "res_all (check_component nodes) cs = Inl err \<Longrightarrow> \<not> live nodes entry ?E" for err
      using safe by (auto simp: live_def)
    ultimately show ?thesis
      using reach(1) f cs(1) can(1) safe stuck True
      by (auto simp: validate_liveness_def live_def Let_def split: sum.splits option.splits)
  qed
qed

section \<open>From indices to identifiers\<close>

lemma trancl_map_inj:
  assumes inj: "inj_on f A" and E: "E \<subseteq> A \<times> A" and "i \<in> A" "j \<in> A"
  shows "(f i, f j) \<in> (map_prod f f ` E)\<^sup>+ \<longleftrightarrow> (i, j) \<in> E\<^sup>+"
proof
  assume "(i, j) \<in> E\<^sup>+"
  then show "(f i, f j) \<in> (map_prod f f ` E)\<^sup>+"
  proof (induction rule: trancl_induct)
    case (base y)
    then show ?case by force
  next
    case (step y z)
    then have "(f y, f z) \<in> map_prod f f ` E" by force
    then show ?case using step(3) by (rule trancl_into_trancl [rotated])
  qed
next
  have "\<exists>z \<in> A. y = f z \<and> (i, z) \<in> E\<^sup>+" if "(f i, y) \<in> (map_prod f f ` E)\<^sup>+" for y
    using that
  proof (induction rule: trancl_induct)
    case (base y)
    then obtain a b where ab: "(a, b) \<in> E" "f a = f i" "f b = y" by auto
    then have "a = i" using inj E assms(3) by (auto dest: inj_onD)
    then show ?case using ab E by auto
  next
    case (step y z)
    then obtain w a b where w: "w \<in> A" "y = f w" "(i, w) \<in> E\<^sup>+" and ab: "(a, b) \<in> E" "f a = y" "f b = z" by auto
    then have "a = w" using inj E by (auto dest: inj_onD)
    then show ?case using w ab E by (auto intro: trancl_into_trancl)
  qed
  moreover assume "(f i, f j) \<in> (map_prod f f ` E)\<^sup>+"
  ultimately obtain z where "z \<in> A" "f j = f z" "(i, z) \<in> E\<^sup>+" by blast
  then show "(i, j) \<in> E\<^sup>+" using inj assms(4) by (auto dest: inj_onD)
qed

lemma rtrancl_map_inj:
  assumes "inj_on f A" "E \<subseteq> A \<times> A" "i \<in> A" "j \<in> A"
  shows "(f i, f j) \<in> (map_prod f f ` E)\<^sup>* \<longleftrightarrow> (i, j) \<in> E\<^sup>*"
  using trancl_map_inj [OF assms] assms(1,3,4) by (auto simp: rtrancl_eq_or_trancl dest: inj_onD)

definition ids :: "WorkflowIr \<Rightarrow> string set" where
  "ids ir = irn_id ` set (ir_nodes ir)"

lemma declared_ids:
  assumes "sorted (map irn_id (ir_nodes ir))"
  shows "declared (ir_nodes ir) x \<longleftrightarrow> x \<in> ids ir"
  using binary_search_member [OF assms, of x] by (simp add: declared_def find_node_index_def ids_def)

lemma index_arcs_flow:
  assumes "sorted (map irn_id (ir_nodes ir))" "distinct (map irn_id (ir_nodes ir))" "flow ir \<subseteq> ids ir \<times> ids ir"
  shows "map_prod (\<lambda>i. irn_id (ir_nodes ir ! i)) (\<lambda>i. irn_id (ir_nodes ir ! i)) ` index_arcs (ir_nodes ir) (flow ir)
           = flow ir"
proof
  show "flow ir \<subseteq> map_prod (\<lambda>i. irn_id (ir_nodes ir ! i)) (\<lambda>i. irn_id (ir_nodes ir ! i)) ` index_arcs (ir_nodes ir) (flow ir)"
  proof
    fix p assume p: "p \<in> flow ir"
    then obtain i j where ij: "i < length (ir_nodes ir)" "j < length (ir_nodes ir)"
      "p = (irn_id (ir_nodes ir ! i), irn_id (ir_nodes ir ! j))"
      using assms(3) by (fastforce simp: ids_def in_set_conv_nth)
    then have "(i, j) \<in> index_arcs (ir_nodes ir) (flow ir)"
      using p by (auto simp: index_arcs_def find_node_index_iff [OF assms(1,2)])
    then show "p \<in> map_prod (\<lambda>i. irn_id (ir_nodes ir ! i)) (\<lambda>i. irn_id (ir_nodes ir ! i)) ` index_arcs (ir_nodes ir) (flow ir)"
      using ij(3) by force
  qed
qed (auto simp: index_arcs_def dest!: find_node_index_Some)

text \<open>The specification of a sound workflow graph, over identifiers.\<close>

definition sound_graph :: "WorkflowIr \<Rightarrow> bool" where
  "sound_graph ir \<longleftrightarrow>
     identifiers_ok ir \<and> distinct (map irn_id (ir_nodes ir)) \<and> routes_ok ir \<and>
     ir_entry_node_id ir \<in> ids ir \<and> flow ir \<subseteq> ids ir \<times> ids ir \<and>
     (\<forall>n \<in> set (ir_nodes ir). (ir_entry_node_id ir, irn_id n) \<in> (flow ir)\<^sup>*) \<and>
     (\<forall>n \<in> set (ir_nodes ir). \<exists>t \<in> set (ir_nodes ir).
        irn_kind t = IrTerminal \<and> (irn_id n, irn_id t) \<in> (flow ir)\<^sup>*) \<and>
     (\<forall>n \<in> set (ir_nodes ir). (irn_id n, irn_id n) \<in> (flow ir)\<^sup>+ \<longrightarrow> cycle_safe n)"

lemma live_flow:
  assumes "sorted (map irn_id (ir_nodes ir))" "distinct (map irn_id (ir_nodes ir))" "flow ir \<subseteq> ids ir \<times> ids ir"
    and "find_node_index (ir_nodes ir) (ir_entry_node_id ir) = Some entry"
  shows "live (ir_nodes ir) entry (index_arcs (ir_nodes ir) (flow ir)) \<longleftrightarrow>
     (\<forall>n \<in> set (ir_nodes ir). (ir_entry_node_id ir, irn_id n) \<in> (flow ir)\<^sup>*) \<and>
     (\<forall>n \<in> set (ir_nodes ir). \<exists>t \<in> set (ir_nodes ir).
        irn_kind t = IrTerminal \<and> (irn_id n, irn_id t) \<in> (flow ir)\<^sup>*) \<and>
     (\<forall>n \<in> set (ir_nodes ir). (irn_id n, irn_id n) \<in> (flow ir)\<^sup>+ \<longrightarrow> cycle_safe n)"
proof -
  let ?A = "{..<length (ir_nodes ir)}" and ?f = "\<lambda>i. irn_id (ir_nodes ir ! i)"
  let ?E = "index_arcs (ir_nodes ir) (flow ir)"
  have inj: "inj_on ?f ?A" using assms(2) by (auto simp: inj_on_def distinct_conv_nth)
  have sub: "?E \<subseteq> ?A \<times> ?A" by (auto simp: index_arcs_def dest!: find_node_index_Some)
  have e: "entry \<in> ?A" "?f entry = ir_entry_node_id ir" using find_node_index_Some [OF assms(4)] by auto
  have r: "(?f i, ?f j) \<in> (flow ir)\<^sup>* \<longleftrightarrow> (i, j) \<in> ?E\<^sup>*" and t: "(?f i, ?f j) \<in> (flow ir)\<^sup>+ \<longleftrightarrow> (i, j) \<in> ?E\<^sup>+"
    if "i < length (ir_nodes ir)" "j < length (ir_nodes ir)" for i j
    using rtrancl_map_inj [OF inj sub, of i j] trancl_map_inj [OF inj sub, of i j] that
    unfolding index_arcs_flow [OF assms(1-3)] by auto
  have all: "(\<forall>n \<in> set (ir_nodes ir). P n) \<longleftrightarrow> (\<forall>i < length (ir_nodes ir). P (ir_nodes ir ! i))" for P
    unfolding all_set_conv_all_nth ..
  have ex: "(\<exists>n \<in> set (ir_nodes ir). P n) \<longleftrightarrow> (\<exists>i < length (ir_nodes ir). P (ir_nodes ir ! i))" for P
    using all [of "\<lambda>n. \<not> P n"] by blast
  have "(\<forall>i < length (ir_nodes ir). (ir_entry_node_id ir, ?f i) \<in> (flow ir)\<^sup>* \<longleftrightarrow> (entry, i) \<in> ?E\<^sup>*)"
    using r [of entry] e by simp
  then show ?thesis unfolding live_def all ex by (simp add: r t cong: conj_cong)
qed

lemma validate_graph_spec:
  assumes s: "sorted (map irn_id (ir_nodes ir))" "sorted (map ire_from (ir_edges ir))" "sorted (map irt_from (ir_routes ir))"
  shows "\<exists>r. validate_graph ir = Some r \<and> (r = Inr () \<longleftrightarrow> sound_graph ir)"
proof (cases "identifiers_ok ir \<and> distinct (map irn_id (ir_nodes ir)) \<and> routes_ok ir")
  case False
  then show ?thesis
    using invalid_identifier_error_None [of ir] duplicate_node_error_None [OF s(1)] route_structure_error_None [OF s(2,3)]
    by (auto simp: validate_graph_def Let_def sound_graph_def split: option.splits)
next
  case True
  then have pre: "invalid_identifier_error ir = None" "duplicate_node_error (ir_nodes ir) = None"
    "route_structure_error ir = None"
    using invalid_identifier_error_None [of ir] duplicate_node_error_None [OF s(1)] route_structure_error_None [OF s(2,3)]
    by auto
  show ?thesis
  proof (cases "find_node_index (ir_nodes ir) (ir_entry_node_id ir)")
    case None
    then show ?thesis using pre declared_ids [OF s(1), of "ir_entry_node_id ir"]
      by (auto simp: validate_graph_def sound_graph_def declared_def)
  next
    case (Some entry)
    have ent: "ir_entry_node_id ir \<in> ids ir" "entry < length (ir_nodes ir)"
      using Some declared_ids [OF s(1), of "ir_entry_node_id ir"] find_node_index_Some [OF Some] by (auto simp: declared_def)
    have def: "(\<exists>adj. adjacency (ir_nodes ir) ir = Inr adj) \<longleftrightarrow> flow ir \<subseteq> ids ir \<times> ids ir"
      using adjacency_defined [of ir "ir_nodes ir"] True declared_ids [OF s(1)] by auto
    show ?thesis
    proof (cases "adjacency (ir_nodes ir) ir")
      case (Inl err)
      then show ?thesis using pre Some def by (auto simp: validate_graph_def sound_graph_def)
    next
      case (Inr adj)
      obtain fw rv where adj: "adj = (fw, rv)" by force
      have fl: "flow ir \<subseteq> ids ir \<times> ids ir" using def Inr by blast
      note ok = adjacency_ok [OF Inr [unfolded adj]]
      from validate_liveness_spec [of fw rv "ir_nodes ir" entry] ok ent(2)
      obtain r where "validate_liveness (ir_nodes ir) entry fw rv = Some r"
        "r = Inr () \<longleftrightarrow> live (ir_nodes ir) entry (index_arcs (ir_nodes ir) (flow ir))" by auto
      then show ?thesis using pre Some Inr adj True fl ent(1) live_flow [OF s(1) _ fl Some]
        by (auto simp: validate_graph_def sound_graph_def)
    qed
  qed
qed

text \<open>
  C1: Graph validation decides exactly the sound graphs. For every authored workflow the
  validator returns (it never panics on an index), and it accepts the normalised workflow if
  and only if: the identifiers are non-empty and not reserved, node identifiers are unique, the
  entry and all edge and route endpoints are declared, routes have cases, a single route per
  origin and no competing edge, every node is reachable from the entry, every node can reach a
  terminal node, and every node on a cycle has a positive visit bound and, if it is an action,
  is idempotent.
\<close>

theorem validate_graph_iff_sound:
  "validate_graph (WorkflowIr_from spec) \<noteq> None \<and>
   (validate_graph (WorkflowIr_from spec) = Some (Inr ()) \<longleftrightarrow> sound_graph (WorkflowIr_from spec))"
  using validate_graph_spec [OF ir_sorted] by (metis option.distinct(1) option.inject)

end
