(* ===== verification/Rust_Str.thy ===== *)
theory Rust_Str
  imports Prelude
begin

text \<open>
  The operations of Rust's \<open>str\<close> and \<open>u8\<close> that the modelled code uses, on strings of UTF-8
  bytes: substring search, prefix stripping, ASCII classes, and the Unicode white space that
  \<open>trim\<close> removes, by its UTF-8 encodings.
\<close>

section \<open>Searching\<close>

definition starts_with :: "string \<Rightarrow> string \<Rightarrow> bool" where
  "starts_with s pat \<longleftrightarrow> take (length pat) s = pat"

definition strip_prefix :: "string \<Rightarrow> string \<Rightarrow> string option" where
  "strip_prefix s pat = (if starts_with s pat then Some (drop (length pat) s) else None)"

text \<open>\<open>s.find(pat)\<close>\<close>

fun find_sub :: "string \<Rightarrow> string \<Rightarrow> nat option" where
  "find_sub pat [] = (if pat = [] then Some 0 else None)"
| "find_sub pat (c # s) = (if starts_with (c # s) pat then Some 0 else map_option Suc (find_sub pat s))"

definition contains :: "string \<Rightarrow> string \<Rightarrow> bool" where
  "contains s pat \<longleftrightarrow> find_sub pat s \<noteq> None"

lemma starts_with_append: "starts_with s pat \<longleftrightarrow> (\<exists>r. s = pat @ r)"
  unfolding starts_with_def by (metis append_eq_conv_conj append_take_drop_id)

lemma find_sub_Some:
  "find_sub pat s = Some k \<Longrightarrow>
     s = take k s @ pat @ drop (k + length pat) s \<and> (\<forall>j < k. \<not> starts_with (drop j s) pat)"
proof (induction s arbitrary: k)
  case Nil
  then show ?case by (auto split: if_splits)
next
  case (Cons c s)
  show ?case
  proof (cases "starts_with (c # s) pat")
    case True
    then have "k = 0" using Cons.prems by simp
    moreover have "c # s = pat @ drop (length pat) (c # s)"
      using True by (metis append_take_drop_id starts_with_def)
    ultimately show ?thesis by simp
  next
    case False
    then obtain m where m: "k = Suc m" "find_sub pat s = Some m" using Cons.prems by (auto split: if_splits)
    note IH = Cons.IH [OF m(2)]
    have "\<not> starts_with (drop j (c # s)) pat" if "j < k" for j
      using IH that False m(1) by (cases j) auto
    moreover have "c # s = take k (c # s) @ pat @ drop (k + length pat) (c # s)"
      using IH m(1) by simp
    ultimately show ?thesis by blast
  qed
qed

lemma find_sub_None: "find_sub pat s = None \<longleftrightarrow> (\<forall>j \<le> length s. \<not> starts_with (drop j s) pat)"
proof (induction s)
  case Nil
  then show ?case by (simp add: starts_with_def)
next
  case (Cons c s)
  have "(\<forall>j \<le> length (c # s). \<not> starts_with (drop j (c # s)) pat) \<longleftrightarrow>
      \<not> starts_with (c # s) pat \<and> (\<forall>j \<le> length s. \<not> starts_with (drop j s) pat)"
    by (auto simp: less_Suc_eq_le) (metis Suc_le_mono drop_0 drop_Suc_Cons not0_implies_Suc)
  then show ?case using Cons.IH by simp
qed

lemma contains_iff: "contains s pat \<longleftrightarrow> (\<exists>a b. s = a @ pat @ b)"
proof
  assume "contains s pat"
  then obtain k where "find_sub pat s = Some k" by (auto simp: contains_def)
  from find_sub_Some [OF this] show "\<exists>a b. s = a @ pat @ b" by blast
next
  assume "\<exists>a b. s = a @ pat @ b"
  then obtain a b where s: "s = a @ pat @ b" by blast
  then have "starts_with (drop (length a) s) pat" "length a \<le> length s" by (auto simp: starts_with_append)
  then show "contains s pat" unfolding contains_def using find_sub_None by blast
qed

section \<open>Byte classes\<close>

definition is_ascii_digit :: "char \<Rightarrow> bool" where
  "is_ascii_digit c \<longleftrightarrow> CHR ''0'' \<le> c \<and> c \<le> CHR ''9''"

definition is_ascii_lower :: "char \<Rightarrow> bool" where
  "is_ascii_lower c \<longleftrightarrow> CHR ''a'' \<le> c \<and> c \<le> CHR ''z''"

definition is_ascii_upper :: "char \<Rightarrow> bool" where
  "is_ascii_upper c \<longleftrightarrow> CHR ''A'' \<le> c \<and> c \<le> CHR ''Z''"

definition is_ascii_alphanumeric :: "char \<Rightarrow> bool" where
  "is_ascii_alphanumeric c \<longleftrightarrow> is_ascii_digit c \<or> is_ascii_lower c \<or> is_ascii_upper c"

text \<open>\<open>u8::is_ascii_whitespace\<close>: space, tab, line feed, form feed, carriage return.\<close>

definition is_ascii_whitespace :: "char \<Rightarrow> bool" where
  "is_ascii_whitespace c \<longleftrightarrow> (of_char c :: nat) \<in> {9, 10, 12, 13, 32}"

text \<open>\<open>u8::is_ascii_control\<close>: U+0000..U+001F and U+007F.\<close>

definition is_ascii_control :: "char \<Rightarrow> bool" where
  "is_ascii_control c \<longleftrightarrow> (of_char c :: nat) < 32 \<or> (of_char c :: nat) = 127"

definition to_ascii_lowercase :: "string \<Rightarrow> string" where
  "to_ascii_lowercase = map (\<lambda>c. if is_ascii_upper c then char_of (of_char c + 32 :: nat) else c)"

definition is_lower_hex :: "char \<Rightarrow> bool" where
  "is_lower_hex c \<longleftrightarrow> is_ascii_digit c \<or> (CHR ''a'' \<le> c \<and> c \<le> CHR ''f'')"

text \<open>\<open>v.len() == 64 && v.bytes().all(..)\<close>: the spelling of a SHA-256 digest.\<close>

definition lower_hex64 :: "string \<Rightarrow> bool" where
  "lower_hex64 s \<longleftrightarrow> length s = 64 \<and> list_all is_lower_hex s"

section \<open>White space\<close>

text \<open>
  The code points with the Unicode property \<open>White_Space\<close>, by the length of their encoding:
  U+0009..U+000D and U+0020; U+0085 and U+00A0; U+1680, U+2000..U+200A, U+2028, U+2029, U+202F,
  U+205F and U+3000.
\<close>

definition white1 :: "char \<Rightarrow> bool" where
  "white1 a \<longleftrightarrow> (of_char a :: nat) \<in> {9, 10, 11, 12, 13, 32}"

definition white2 :: "char \<Rightarrow> char \<Rightarrow> bool" where
  "white2 a b \<longleftrightarrow> (of_char a :: nat) = 0xC2 \<and> (of_char b :: nat) \<in> {0x85, 0xA0}"

definition white3 :: "char \<Rightarrow> char \<Rightarrow> char \<Rightarrow> bool" where
  "white3 a b c \<longleftrightarrow>
     (let x = of_char a :: nat; y = of_char b :: nat; z = of_char c :: nat in
      (x, y, z) \<in> {(0xE1, 0x9A, 0x80), (0xE2, 0x80, 0xA8), (0xE2, 0x80, 0xA9), (0xE2, 0x80, 0xAF),
                   (0xE2, 0x81, 0x9F), (0xE3, 0x80, 0x80)}
      \<or> x = 0xE2 \<and> y = 0x80 \<and> 0x80 \<le> z \<and> z \<le> 0x8A)"

fun trim_start :: "string \<Rightarrow> string" where
  "trim_start [] = []"
| "trim_start [a] = (if white1 a then [] else [a])"
| "trim_start [a, b] = (if white1 a then trim_start [b] else if white2 a b then [] else [a, b])"
| "trim_start (a # b # c # s) =
     (if white1 a then trim_start (b # c # s)
      else if white2 a b then trim_start (c # s)
      else if white3 a b c then trim_start s
      else a # b # c # s)"

text \<open>\<open>s.trim().is_empty()\<close>: nothing is left once the leading white space is removed.\<close>

definition blank :: "string \<Rightarrow> bool" where
  "blank s \<longleftrightarrow> trim_start s = []"

lemma blank_Nil [simp]: "blank []"
  by (simp add: blank_def)

end
