(* ===== verification/Security.thy ===== *)
theory Security
  imports Rust_Str Wire_Code
begin

text \<open>
  Component: the security model of the runtime, \<open>crates/workflow-runtime/src/security.rs\<close>:
  trust domains and content provenance, the classification of content by a trust policy, the
  cache key that separates trust domains, synthetic honeytokens and the sanitiser of log lines.
  SHA-256 is a parameter. A \<open>BTreeSet\<close> of strings is the sorted list of its elements.
\<close>

section \<open>Trust domains and provenance\<close>

definition SECURITY_MODEL_VERSION :: string where
  "SECURITY_MODEL_VERSION = ''security-threat-model-v1''"

definition SECRET_POLICY_VERSION :: string where
  "SECRET_POLICY_VERSION = ''synthetic-secret-policy-v1''"

definition SYNTHETIC_HONEYTOKEN_PREFIX :: string where
  "SYNTHETIC_HONEYTOKEN_PREFIX = ''synthetic-honeytoken-v1:''"

datatype TrustDomain =
    TrustedPolicy | TrustedGoal | ConditionallyTrustedContent | UntrustedContent | SyntheticTrap

fun cache_salt :: "TrustDomain \<Rightarrow> string" where
  "cache_salt TrustedPolicy = ''trust-domain:policy:v1''"
| "cache_salt TrustedGoal = ''trust-domain:goal:v1''"
| "cache_salt ConditionallyTrustedContent = ''trust-domain:conditional-content:v1''"
| "cache_salt UntrustedContent = ''trust-domain:untrusted-content:v1''"
| "cache_salt SyntheticTrap = ''trust-domain:synthetic-trap:v1''"

datatype ContentObjectKind = IssueBodyKind | CommentKind

fun cache_tag :: "ContentObjectKind \<Rightarrow> string" where
  "cache_tag IssueBodyKind = ''issue_body''"
| "cache_tag CommentKind = ''comment''"

record ContentProvenance =
  cp_kind :: ContentObjectKind
  cp_scope :: string
  cp_object_id :: string
  cp_author :: string
  cp_domain :: TrustDomain
  cp_policy_digest :: "byte list"

datatype TrustPolicyError = EmptyScope | EmptyAllowlistedAuthor | EmptyObjectId | EmptyAuthor

definition validate_non_blank :: "string \<Rightarrow> 'e \<Rightarrow> 'e + unit" where
  "validate_non_blank value error = (if blank value then Inl error else Inr ())"

definition ContentProvenance_from_parts ::
  "ContentObjectKind \<Rightarrow> string \<Rightarrow> string \<Rightarrow> string \<Rightarrow> TrustDomain \<Rightarrow> byte list \<Rightarrow>
     TrustPolicyError + ContentProvenance" where
  "ContentProvenance_from_parts kind scope object_id author domain policy_digest =
     res_bind (validate_non_blank scope EmptyScope) (\<lambda>_.
     res_bind (validate_non_blank object_id EmptyObjectId) (\<lambda>_.
     res_bind (validate_non_blank author EmptyAuthor) (\<lambda>_.
       Inr \<lparr>cp_kind = kind, cp_scope = scope, cp_object_id = object_id, cp_author = author,
            cp_domain = domain, cp_policy_digest = policy_digest\<rparr>)))"

text \<open>\<open>update_field\<close>: the length of a field, then the field.\<close>

definition update_field :: "byte list \<Rightarrow> byte list" where
  "update_field value = write_u64 (len_u64 value) @ value"

definition cache_key_material :: "ContentProvenance \<Rightarrow> byte list \<Rightarrow> byte list" where
  "cache_key_material p content =
     update_field (str_bytes SECURITY_MODEL_VERSION) @ update_field (str_bytes SECRET_POLICY_VERSION)
     @ update_field (cp_policy_digest p) @ update_field (str_bytes (cp_scope p))
     @ update_field (str_bytes (cache_tag (cp_kind p))) @ update_field (str_bytes (cp_object_id p))
     @ update_field (str_bytes (cp_author p)) @ update_field (str_bytes (cache_salt (cp_domain p)))
     @ update_field content"

definition cache_key :: "(byte list \<Rightarrow> byte list) \<Rightarrow> ContentProvenance \<Rightarrow> byte list \<Rightarrow> byte list" where
  "cache_key sha256 p content = sha256 (cache_key_material p content)"

section \<open>Trust policies\<close>

datatype ContentObject = IssueBody string string | Comment string string

record TrustPolicy =
  tpo_scope :: string
  tpo_allowlisted_authors :: "string list"
  tpo_policy_digest :: "byte list"

definition btree_insert :: "'a::linorder \<Rightarrow> 'a list \<Rightarrow> 'a list" where
  "btree_insert x xs = (if x \<in> set xs then xs else insort x xs)"

definition policy_material :: "string list \<Rightarrow> byte list" where
  "policy_material authors =
     update_field (str_bytes SECURITY_MODEL_VERSION) @ update_field (str_bytes SECRET_POLICY_VERSION)
     @ update_field (str_bytes ''trust-policy-allowlist-v1'')
     @ concat (map (\<lambda>author. update_field (str_bytes author)) authors)"

definition canonical_policy_digest :: "(byte list \<Rightarrow> byte list) \<Rightarrow> string list \<Rightarrow> byte list" where
  "canonical_policy_digest sha256 authors = sha256 (policy_material authors)"

fun collect_authors :: "string list \<Rightarrow> string list \<Rightarrow> TrustPolicyError + string list" where
  "collect_authors [] authors = Inr authors"
| "collect_authors (author # rest) authors =
     res_bind (validate_non_blank author EmptyAllowlistedAuthor)
       (\<lambda>_. collect_authors rest (btree_insert author authors))"

definition TrustPolicy_new ::
  "(byte list \<Rightarrow> byte list) \<Rightarrow> string \<Rightarrow> string list \<Rightarrow> TrustPolicyError + TrustPolicy" where
  "TrustPolicy_new sha256 scope allowlisted_authors =
     res_bind (validate_non_blank scope EmptyScope) (\<lambda>_.
     res_bind (collect_authors allowlisted_authors []) (\<lambda>authors.
       Inr \<lparr>tpo_scope = scope, tpo_allowlisted_authors = authors,
            tpo_policy_digest = canonical_policy_digest sha256 authors\<rparr>))"

definition allows_author :: "TrustPolicy \<Rightarrow> string \<Rightarrow> bool" where
  "allows_author policy author \<longleftrightarrow> author \<in> set (tpo_allowlisted_authors policy)"

definition classify :: "TrustPolicy \<Rightarrow> ContentObject \<Rightarrow> TrustPolicyError + ContentProvenance" where
  "classify policy object =
     (let (kind, object_id, author) = (case object of
            IssueBody object_id author \<Rightarrow> (IssueBodyKind, object_id, author)
          | Comment object_id author \<Rightarrow> (CommentKind, object_id, author));
          domain = (if author \<in> set (tpo_allowlisted_authors policy)
                    then ConditionallyTrustedContent else UntrustedContent)
      in ContentProvenance_from_parts kind (tpo_scope policy) object_id author domain (tpo_policy_digest policy))"

section \<open>Probes and honeytokens\<close>

datatype ExecutorTarget = Simulated | Production

datatype ProbeBindingError = ProductionExecutorForbidden

definition SentinelProbe_bind :: "ExecutorTarget \<Rightarrow> ProbeBindingError + unit" where
  "SentinelProbe_bind target =
     (case target of Simulated \<Rightarrow> Inr () | Production \<Rightarrow> Inl ProductionExecutorForbidden)"

datatype SecretPolicyError = EmptyTokenScope | EmptyTokenNonce | RealSecretFixtureRejected

definition hex_digit :: "nat \<Rightarrow> char" where
  "hex_digit d = ''0123456789abcdef'' ! d"

text \<open>\<open>format!("{byte:02x}")\<close> of each byte.\<close>

definition hex :: "byte list \<Rightarrow> string" where
  "hex bytes = concat (map (\<lambda>b. [hex_digit (unat b div 16), hex_digit (unat b mod 16)]) bytes)"

definition SyntheticHoneytoken_for_scope ::
  "(byte list \<Rightarrow> byte list) \<Rightarrow> string \<Rightarrow> string \<Rightarrow> SecretPolicyError + string" where
  "SyntheticHoneytoken_for_scope sha256 scope nonce =
     (if blank scope then Inl EmptyTokenScope
      else if blank nonce then Inl EmptyTokenNonce
      else Inr (SYNTHETIC_HONEYTOKEN_PREFIX @ hex (sha256 (str_bytes scope @ [0] @ str_bytes nonce))))"

definition is_synthetic :: "string \<Rightarrow> bool" where
  "is_synthetic value \<longleftrightarrow> starts_with value SYNTHETIC_HONEYTOKEN_PREFIX"

section \<open>The log sanitiser\<close>

definition REDACTION_MARKER :: string where
  "REDACTION_MARKER = ''[REDACTED_SYNTHETIC]''"

definition SECRET_LIKE_KEYS :: "string list" where
  "SECRET_LIKE_KEYS =
     [''api_key'', ''apikey'', ''secret'', ''secret_key'', ''secret_access_key'', ''access_token'',
      ''auth_token'', ''private_key'', ''password'', ''credential'', ''credentials'', ''token'']"

definition token_byte :: "char \<Rightarrow> bool" where
  "token_byte c \<longleftrightarrow> is_ascii_alphanumeric c \<or> c \<in> {CHR ''-'', CHR ''_'', CHR ''.''}"

text \<open>The loop of \<open>redact_synthetic_markers\<close>; its argument is \<open>line[cursor..]\<close>.\<close>

function redact_synthetic_markers :: "string \<Rightarrow> string" where
  "redact_synthetic_markers line =
     (case find_sub SYNTHETIC_HONEYTOKEN_PREFIX line of
        None \<Rightarrow> line
      | Some offset \<Rightarrow>
          take offset line @ REDACTION_MARKER
          @ redact_synthetic_markers
              (dropWhile token_byte (drop (offset + length SYNTHETIC_HONEYTOKEN_PREFIX) line)))"
  by pat_completeness auto
termination
proof (relation "measure length", goal_cases)
  case (2 line offset)
  let ?rest = "drop (offset + length SYNTHETIC_HONEYTOKEN_PREFIX) line"
  have "length line = length (take offset line @ SYNTHETIC_HONEYTOKEN_PREFIX @ ?rest)"
    using find_sub_Some [OF 2] by metis
  moreover have "0 < length SYNTHETIC_HONEYTOKEN_PREFIX" by (simp add: SYNTHETIC_HONEYTOKEN_PREFIX_def)
  moreover have "length (dropWhile token_byte ?rest) \<le> length ?rest" by (rule length_dropWhile_le)
  ultimately have "length (dropWhile token_byte ?rest) < length line" unfolding length_append by linarith
  then show ?case by simp
qed simp

declare redact_synthetic_markers.simps [simp del]

definition byte_at :: "string \<Rightarrow> nat \<Rightarrow> char option" where
  "byte_at s i = (if i < length s then Some (s ! i) else None)"

text \<open>\<open>while s.as_bytes().get(i).is_some_and(p) { i += 1; }\<close>\<close>

definition skip_while :: "(char \<Rightarrow> bool) \<Rightarrow> string \<Rightarrow> nat \<Rightarrow> nat" where
  "skip_while p s i = i + length (takeWhile p (drop i s))"

text \<open>\<open>get(start.wrapping_sub(1))\<close>: nothing before the first byte.\<close>

definition byte_before :: "string \<Rightarrow> nat \<Rightarrow> char option" where
  "byte_before s start = (if start = 0 then None else byte_at s (start - 1))"

definition is_key_boundary :: "string \<Rightarrow> nat \<Rightarrow> nat \<Rightarrow> bool" where
  "is_key_boundary line start end' \<longleftrightarrow>
     pred_option (\<lambda>c. \<not> is_ascii_alphanumeric c) (byte_before line start) \<and>
     pred_option (\<lambda>c. \<not> is_ascii_alphanumeric c) (byte_at line end')"

definition is_single_quoted_key :: "string \<Rightarrow> nat \<Rightarrow> nat \<Rightarrow> bool" where
  "is_single_quoted_key line start end' \<longleftrightarrow>
     byte_before line start = Some (CHR 0x27) \<or> byte_at line end' = Some (CHR 0x27)"

definition is_redaction_suffix :: "string \<Rightarrow> bool" where
  "is_redaction_suffix suffix \<longleftrightarrow>
     (case trim_start suffix of [] \<Rightarrow> True | c # _ \<Rightarrow> c \<in> {CHR '','', CHR ''}'', CHR '']''})"

definition is_redaction_value :: "string \<Rightarrow> nat \<Rightarrow> bool" where
  "is_redaction_value line value_start =
     (let value = drop value_start line in
      case strip_prefix value REDACTION_MARKER of
        Some suffix \<Rightarrow> is_redaction_suffix suffix
      | None \<Rightarrow>
         (case strip_prefix value [CHR 0x22] of None \<Rightarrow> False | Some value \<Rightarrow>
          case strip_prefix value REDACTION_MARKER of None \<Rightarrow> False | Some value \<Rightarrow>
          case strip_prefix value [CHR 0x22] of None \<Rightarrow> False | Some suffix \<Rightarrow> is_redaction_suffix suffix))"

text \<open>The body of the loop for one occurrence of a key at \<open>start\<close>.\<close>

definition secret_at :: "string \<Rightarrow> string \<Rightarrow> nat \<Rightarrow> nat \<Rightarrow> bool" where
  "secret_at line lower start end' =
     (let key_end = skip_while (\<lambda>c. is_ascii_alphanumeric c \<or> c \<in> {CHR ''_'', CHR ''-''}) lower end' in
      is_key_boundary lower start key_end \<and>
      (is_single_quoted_key lower start key_end \<or>
       (let value_start = (if byte_at lower key_end = Some (CHR 0x22) then key_end + 1 else key_end);
            value_start = skip_while is_ascii_whitespace lower value_start
        in (byte_at lower value_start = Some (CHR ''='') \<or> byte_at lower value_start = Some (CHR '':'')) \<and>
           \<not> is_redaction_value line (skip_while is_ascii_whitespace lower (value_start + 1)))))"

text \<open>
  The loop over the occurrences of a key. The code would not end on an empty key; the list of
  keys has none.
\<close>

function secret_key_from :: "string \<Rightarrow> string \<Rightarrow> string \<Rightarrow> nat \<Rightarrow> bool" where
  "secret_key_from line lower key search_from =
     (if key = [] then False
      else case find_sub key (drop search_from lower) of
        None \<Rightarrow> False
      | Some offset \<Rightarrow>
          (let start = search_from + offset; end' = start + length key in
           secret_at line lower start end' \<or> secret_key_from line lower key end'))"
  by pat_completeness auto
termination
proof (relation "measure (\<lambda>(line, lower, key, sf). length lower - sf)", goal_cases)
  case (2 line lower key sf offset start end')
  have "drop sf lower = take offset (drop sf lower) @ key @ drop (offset + length key) (drop sf lower)"
    using find_sub_Some [OF 2(2)] by blast
  then have "length key \<le> length (drop sf lower)" by (metis length_append le_add1 le_add2 le_trans)
  then show ?case using 2 by (cases key) auto
qed simp

declare secret_key_from.simps [simp del]

definition contains_unknown_secret_like_structure :: "string \<Rightarrow> bool" where
  "contains_unknown_secret_like_structure line =
     (let lower = to_ascii_lowercase line in
      contains lower ''real-secret-fixture'' \<or> contains lower ''fixture-placeholder'' \<or>
      list_ex (\<lambda>key. secret_key_from line lower key 0) SECRET_LIKE_KEYS)"

definition sanitize_log :: "string \<Rightarrow> SecretPolicyError + string" where
  "sanitize_log line =
     (let redacted = redact_synthetic_markers line in
      if contains_unknown_secret_like_structure redacted then Inl RealSecretFixtureRejected else Inr redacted)"

section \<open>Lemmas on redaction\<close>

lemma contains_split:
  assumes "c \<notin> set pat"
  shows "contains (x @ c # y) pat \<longleftrightarrow> contains x pat \<or> contains y pat"
proof
  assume "contains (x @ c # y) pat"
  then obtain a b where eq: "x @ c # y = a @ pat @ b" by (auto simp: contains_iff)
  consider (left) "length a + length pat \<le> length x" | (right) "length x < length a"
    | (mid) "length a \<le> length x" "length x < length a + length pat" by linarith
  then show "contains x pat \<or> contains y pat"
  proof cases
    case left
    then have "x = (a @ pat) @ drop (length a + length pat) x"
      using eq by (metis append_assoc append_eq_append_conv_if append_eq_conv_conj length_append take_all_iff)
    then show ?thesis unfolding contains_iff by auto
  next
    case right
    then have "a = (x @ [c]) @ drop (Suc (length x)) a"
      using eq by (metis append_Cons append_Nil append_assoc append_eq_append_conv_if append_eq_conv_conj
          length_append_singleton Suc_leI)
    then show ?thesis using eq unfolding contains_iff
      by (metis append_Cons append_Nil append_assoc same_append_eq list.inject)
  next
    case mid
    have "(x @ c # y) ! length x = pat ! (length x - length a)"
      unfolding eq using mid by (simp add: nth_append less_diff_conv2 add.commute)
    then have "c \<in> set pat" using mid by (simp add: less_diff_conv2 add.commute)
    then show ?thesis using assms by simp
  qed
next
  assume "contains x pat \<or> contains y pat"
  then show "contains (x @ c # y) pat"
    unfolding contains_iff by (metis append_Cons append_assoc)
qed

lemma take_find_sub:
  assumes "find_sub pat s = Some k" "pat \<noteq> []"
  shows "\<not> contains (take k s) pat"
proof
  assume "contains (take k s) pat"
  then obtain a b where ab: "take k s = a @ pat @ b" by (auto simp: contains_iff)
  have "s = a @ pat @ b @ drop k s" using ab by (metis append.assoc append_take_drop_id)
  then have "starts_with (drop (length a) s) pat" by (metis append_eq_conv_conj starts_with_append)
  moreover have "length a < k" using arg_cong [OF ab, of length] assms(2) by (cases pat) auto
  ultimately show False using find_sub_Some [OF assms(1)] by blast
qed

lemma marker_split:
  "contains (x @ REDACTION_MARKER @ y) SYNTHETIC_HONEYTOKEN_PREFIX \<longleftrightarrow>
     contains x SYNTHETIC_HONEYTOKEN_PREFIX \<or> contains y SYNTHETIC_HONEYTOKEN_PREFIX"
proof -
  have m: "REDACTION_MARKER @ y = CHR ''['' # ''REDACTED_SYNTHETIC'' @ CHR '']'' # y"
    by (simp add: REDACTION_MARKER_def)
  have "CHR ''['' \<notin> set SYNTHETIC_HONEYTOKEN_PREFIX" "CHR '']'' \<notin> set SYNTHETIC_HONEYTOKEN_PREFIX"
    by (simp_all add: SYNTHETIC_HONEYTOKEN_PREFIX_def)
  moreover have "\<not> contains ''REDACTED_SYNTHETIC'' SYNTHETIC_HONEYTOKEN_PREFIX"
    by (simp add: contains_def starts_with_def SYNTHETIC_HONEYTOKEN_PREFIX_def)
  ultimately show ?thesis unfolding m
    using contains_split [of "CHR ''[''" SYNTHETIC_HONEYTOKEN_PREFIX x "''REDACTED_SYNTHETIC'' @ CHR '']'' # y"]
      contains_split [of "CHR '']''" SYNTHETIC_HONEYTOKEN_PREFIX "''REDACTED_SYNTHETIC''" y] by metis
qed

lemma prefix_nonempty: "SYNTHETIC_HONEYTOKEN_PREFIX \<noteq> []"
  by (simp add: SYNTHETIC_HONEYTOKEN_PREFIX_def)

lemma redact_removes_prefix: "\<not> contains (redact_synthetic_markers line) SYNTHETIC_HONEYTOKEN_PREFIX"
proof (induction line rule: redact_synthetic_markers.induct)
  case (1 line)
  show ?case
  proof (cases "find_sub SYNTHETIC_HONEYTOKEN_PREFIX line")
    case None
    then show ?thesis by (simp add: redact_synthetic_markers.simps [of line] contains_def)
  next
    case (Some k)
    then show ?thesis
      using 1 [OF Some] take_find_sub [OF Some prefix_nonempty] marker_split
      by (simp add: redact_synthetic_markers.simps [of line])
  qed
qed

lemma redact_id: "\<not> contains line SYNTHETIC_HONEYTOKEN_PREFIX \<Longrightarrow> redact_synthetic_markers line = line"
  by (simp add: contains_def redact_synthetic_markers.simps [of line])

section \<open>Properties of the sanitiser\<close>

text \<open>
  C11: A log line that the sanitiser lets through carries no synthetic honeytoken and no
  secret-like assignment, and sanitising it again changes nothing.
\<close>

theorem sanitize_log_sound:
  assumes "sanitize_log line = Inr out"
  shows "\<not> contains out SYNTHETIC_HONEYTOKEN_PREFIX \<and> \<not> contains_unknown_secret_like_structure out \<and>
         sanitize_log out = Inr out"
proof -
  have out: "out = redact_synthetic_markers line" "\<not> contains_unknown_secret_like_structure out"
    using assms by (auto simp: sanitize_log_def Let_def split: if_splits)
  moreover have "redact_synthetic_markers out = out"
    using redact_id redact_removes_prefix out(1) by blast
  ultimately show ?thesis using redact_removes_prefix by (simp add: sanitize_log_def)
qed

theorem sanitize_log_sound_witness:
  "sanitize_log ''id=synthetic-honeytoken-v1:0a9 ok'' = Inr ''id=[REDACTED_SYNTHETIC] ok'' \<and>
   sanitize_log ''id=[REDACTED_SYNTHETIC] ok'' = Inr ''id=[REDACTED_SYNTHETIC] ok''"
proof -
  have "sanitize_log ''id=synthetic-honeytoken-v1:0a9 ok'' = Inr ''id=[REDACTED_SYNTHETIC] ok''" by code_simp
  from this sanitize_log_sound [OF this] show ?thesis by blast
qed

lemma find_sub_first:
  assumes pat: "pat = q @ [c]" "c \<notin> set q" and pre: "\<not> contains pre pat"
  shows "find_sub pat (pre @ pat @ post) = Some (length pre)"
proof -
  let ?s = "pre @ pat @ post"
  have "contains ?s pat" unfolding contains_iff by blast
  then obtain k where k: "find_sub pat ?s = Some k" by (auto simp: contains_def)
  note F = find_sub_Some [OF k]
  have "starts_with (drop (length pre) ?s) pat" by (simp add: starts_with_append)
  then have kle: "k \<le> length pre" using F by (meson not_le)
  have "k = length pre"
  proof (rule ccontr)
    assume "k \<noteq> length pre"
    then have lt: "k < length pre" using kle by simp
    have occ: "?s = take k ?s @ pat @ drop (k + length pat) ?s" using F by blast
    have lk: "length (take k ?s) = k" using kle by simp
    let ?m = "k + length q"
    have "?s ! ?m = (take k ?s @ pat @ drop (k + length pat) ?s) ! ?m" using occ by metis
    also have "(xs @ pat @ zs) ! (length xs + length q) = c" for xs zs by (simp add: nth_append pat(1))
    then have "(take k ?s @ pat @ drop (k + length pat) ?s) ! ?m = c" using lk by metis
    finally have at: "?s ! ?m = c" .
    show False
    proof (cases "k + length pat \<le> length pre")
      case True
      have "take (k + length pat) ?s = take k ?s @ pat" using occ lk by (metis append.assoc append_eq_conv_conj length_append)
      then have "take (k + length pat) pre = take k pre @ pat" using True lt by simp
      then have "pre = take k pre @ pat @ drop (k + length pat) pre" by (metis append.assoc append_take_drop_id)
      then show False using pre unfolding contains_iff by blast
    next
      case False
      then have "length pre \<le> ?m" "?m - length pre < length q" using lt pat(1) by auto
      then have "?s ! ?m = q ! (?m - length pre)" by (simp add: nth_append pat(1))
      then have "c \<in> set q" using at \<open>?m - length pre < length q\<close> by auto
      then show False using pat(2) by blast
    qed
  qed
  then show ?thesis using k by simp
qed

lemma hex_token_bytes: "list_all token_byte (hex bs)"
proof -
  have d: "token_byte (hex_digit d)" if "d < 16" for d
  proof -
    have "list_all token_byte ''0123456789abcdef''" by code_simp
    moreover have "d < length ''0123456789abcdef''" using that by simp
    ultimately show ?thesis unfolding hex_digit_def list_all_length by blast
  qed
  have "unat b div 16 < 16" "unat b mod 16 < 16" for b :: byte
  proof -
    have "unat b < 2 ^ LENGTH(8)" by (rule unsigned_less)
    then show "unat b div 16 < 16" by (simp add: less_mult_imp_div_less)
  qed simp
  then show ?thesis using d by (induction bs) (auto simp: hex_def)
qed

text \<open>
  C28: An issued honeytoken is taken out of a log line as a whole: the text before it stays, the
  token (prefix, digest and every token byte that follows) becomes the redaction marker, and the
  scan goes on behind it.
\<close>

theorem redact_honeytoken:
  assumes "SyntheticHoneytoken_for_scope sha256 scope nonce = Inr token"
    and "\<not> contains pre SYNTHETIC_HONEYTOKEN_PREFIX"
  shows "redact_synthetic_markers (pre @ token @ post)
           = pre @ REDACTION_MARKER @ redact_synthetic_markers (dropWhile token_byte post)"
proof -
  obtain bs where token: "token = SYNTHETIC_HONEYTOKEN_PREFIX @ hex bs"
    using assms(1) by (auto simp: SyntheticHoneytoken_for_scope_def split: if_splits)
  have "SYNTHETIC_HONEYTOKEN_PREFIX = ''synthetic-honeytoken-v1'' @ [CHR '':'']"
    "CHR '':'' \<notin> set ''synthetic-honeytoken-v1''"
    by (simp_all add: SYNTHETIC_HONEYTOKEN_PREFIX_def)
  from find_sub_first [OF this assms(2), of "hex bs @ post"]
  have f: "find_sub SYNTHETIC_HONEYTOKEN_PREFIX (pre @ token @ post) = Some (length pre)"
    by (simp add: token)
  have "dropWhile token_byte (hex bs @ post) = dropWhile token_byte post"
    using hex_token_bytes [of bs] by (simp add: dropWhile_append2 list_all_iff)
  then show ?thesis using f unfolding token
    by (subst redact_synthetic_markers.simps) simp
qed

theorem redact_honeytoken_witness:
  "redact_synthetic_markers (''log '' @ (SYNTHETIC_HONEYTOKEN_PREFIX @ ''2a'') @ '' end'')
     = ''log '' @ REDACTION_MARKER @ '' end''"
proof -
  have 1: "SyntheticHoneytoken_for_scope (\<lambda>_. [42]) ''s'' ''n'' = Inr (SYNTHETIC_HONEYTOKEN_PREFIX @ ''2a'')"
    by code_simp
  have 2: "\<not> contains ''log '' SYNTHETIC_HONEYTOKEN_PREFIX" by code_simp
  have 3: "redact_synthetic_markers (dropWhile token_byte '' end'') = '' end''" by code_simp
  show ?thesis using redact_honeytoken [OF 1 2, of "'' end''"] unfolding 3 .
qed

section \<open>Properties of cache keys and policies\<close>

interpretation field: prefix_code update_field fits
proof
  fix a b x y
  assume ok: "fits a" "fits b" and eq: "update_field a @ x = update_field b @ y"
  from eq have "len_u64 a = len_u64 b" and rest: "a @ x = b @ y" by (simp_all add: update_field_def)
  with ok have "length a = length b" by (blast intro: len_u64_inj)
  with rest show "a = b \<and> x = y" by auto
qed

context prefix_code
begin

text \<open>A sequence written without a count, when nothing follows it.\<close>

lemma concat_inj:
  assumes "\<And>a. enc a \<noteq> []" "list_all ok as" "list_all ok bs" "concat (map enc as) = concat (map enc bs)"
  shows "as = bs"
  using assms(2-)
proof (induction as arbitrary: bs)
  case Nil
  then show ?case using assms(1) by (cases bs) auto
next
  case (Cons a as)
  obtain b bs' where bs: "bs = b # bs'" using Cons.prems(3) assms(1) [of a] by (cases bs) simp_all
  have "a = b \<and> concat (map enc as) = concat (map enc bs')"
    using cancel [of a b "concat (map enc as)" "concat (map enc bs')"] Cons.prems bs by simp
  then show ?case using Cons.IH [of bs'] Cons.prems bs by simp
qed

end

lemma fits_str_bytes [simp]: "fits (str_bytes s) = fits s"
  by (simp add: fits_def)

lemma cache_salt_inj [simp]: "cache_salt a = cache_salt b \<longleftrightarrow> a = b"
  by (cases a; cases b; simp)

lemma cache_tag_inj [simp]: "cache_tag a = cache_tag b \<longleftrightarrow> a = b"
  by (cases a; cases b; simp)

lemma fits_short: "length xs \<le> 100 \<Longrightarrow> fits xs"
  unfolding fits_def by (rule le_less_trans [of _ 100]) simp_all

lemma fits_cache_salt [simp]: "fits (cache_salt d)"
  by (cases d; intro fits_short; simp)

lemma fits_cache_tag [simp]: "fits (cache_tag k)"
  by (cases k; intro fits_short; simp)

lemma fits_versions [simp]: "fits SECURITY_MODEL_VERSION" "fits SECRET_POLICY_VERSION" "fits ''trust-policy-allowlist-v1''"
  by (intro fits_short; simp add: SECURITY_MODEL_VERSION_def SECRET_POLICY_VERSION_def)+

definition fits_provenance :: "ContentProvenance \<Rightarrow> bool" where
  "fits_provenance p \<longleftrightarrow> fits (cp_scope p) \<and> fits (cp_object_id p) \<and> fits (cp_author p) \<and> fits (cp_policy_digest p)"

lemma cache_key_material_eq:
  assumes "fits_provenance p" "fits_provenance q" "fits c" "fits d"
    and "cache_key_material p c = cache_key_material q d"
  shows "cp_policy_digest p = cp_policy_digest q \<and> cp_scope p = cp_scope q \<and> cp_kind p = cp_kind q \<and>
      cp_object_id p = cp_object_id q \<and> cp_author p = cp_author q \<and> cp_domain p = cp_domain q \<and> c = d"
  using assms unfolding cache_key_material_def fits_provenance_def
  by (simp add: field.cancel_iff field.enc_eq_iff)

text \<open>
  C9: Cache keys separate everything they are meant to separate. The bytes hashed into a cache
  key determine the provenance (kind, scope, object, author, trust domain and policy digest) and
  the content, for all values whose lengths a machine word can hold: two objects share a cache
  key only if they are the same object in the same trust domain, or SHA-256 collides.
\<close>

theorem cache_key_material_injective:
  assumes "fits_provenance p" "fits_provenance q" "fits c" "fits d"
    and "cache_key_material p c = cache_key_material q d"
  shows "p = q \<and> c = d"
  using cache_key_material_eq [OF assms] by (cases p; cases q) simp

definition sample_provenance :: "TrustDomain \<Rightarrow> ContentProvenance" where
  "sample_provenance d = \<lparr>cp_kind = CommentKind, cp_scope = ''repo'', cp_object_id = ''7'', cp_author = ''ann'',
     cp_domain = d, cp_policy_digest = [1, 2, 3]\<rparr>"

theorem cache_key_material_injective_witness:
  "(sample_provenance UntrustedContent = sample_provenance UntrustedContent \<and> ([7] :: byte list) = [7]) \<and>
   cache_key_material (sample_provenance UntrustedContent) [7]
     \<noteq> cache_key_material (sample_provenance ConditionallyTrustedContent) [7]"
proof -
  have fp: "fits_provenance (sample_provenance d)" for d
    unfolding fits_provenance_def sample_provenance_def by (simp add: fits_short)
  have fc: "fits [7 :: byte]" by (rule fits_short) simp
  have ne: "sample_provenance UntrustedContent \<noteq> sample_provenance ConditionallyTrustedContent"
    by (simp add: sample_provenance_def)
  show ?thesis
    using cache_key_material_injective [OF fp fp fc fc refl]
      cache_key_material_injective [OF fp fp fc fc, of UntrustedContent ConditionallyTrustedContent] ne by blast
qed

lemma btree_insert_spec: "sorted xs \<and> distinct xs \<Longrightarrow>
    sorted (btree_insert x xs) \<and> distinct (btree_insert x xs) \<and> set (btree_insert x xs) = insert x (set xs)"
  by (auto simp: btree_insert_def sorted_insort set_insort_key distinct_insort)

lemma collect_authors_spec:
  "collect_authors as acc = Inr r \<Longrightarrow> sorted acc \<and> distinct acc \<Longrightarrow>
     sorted r \<and> distinct r \<and> set r = set as \<union> set acc \<and> (\<forall>a \<in> set as. \<not> blank a)"
proof (induction as arbitrary: acc)
  case (Cons a as)
  then have "collect_authors as (btree_insert a acc) = Inr r" "\<not> blank a"
    by (auto simp: res_iffs validate_non_blank_def split: if_splits)
  then show ?case using Cons.IH [of "btree_insert a acc"] btree_insert_spec [of acc a] Cons.prems(2) by auto
qed simp

lemma TrustPolicy_new_authors:
  assumes "TrustPolicy_new sha256 scope as = Inr p"
  shows "sorted (tpo_allowlisted_authors p) \<and> distinct (tpo_allowlisted_authors p) \<and>
         set (tpo_allowlisted_authors p) = set as \<and> tpo_scope p = scope \<and>
         tpo_policy_digest p = canonical_policy_digest sha256 (tpo_allowlisted_authors p)"
  using assms collect_authors_spec [of as "[]"] by (auto simp: TrustPolicy_new_def res_iffs)

text \<open>
  C29: The digest of a trust policy identifies its allowlist. For two policies built from author
  lists, the digested bytes agree exactly when the lists hold the same authors, whatever their
  order and repetitions.
\<close>

theorem policy_digest_identifies_allowlist:
  assumes "TrustPolicy_new sha256 scope as = Inr p" "TrustPolicy_new sha256 scope' bs = Inr q"
    and "list_all fits as" "list_all fits bs"
  shows "policy_material (tpo_allowlisted_authors p) = policy_material (tpo_allowlisted_authors q)
           \<longleftrightarrow> set as = set bs"
proof -
  note P = TrustPolicy_new_authors [OF assms(1)] and Q = TrustPolicy_new_authors [OF assms(2)]
  have "policy_material xs = policy_material ys \<longleftrightarrow> xs = ys" if "list_all fits xs" "list_all fits ys" for xs ys
  proof
    assume "policy_material xs = policy_material ys"
    then have "concat (map update_field (map str_bytes xs)) = concat (map update_field (map str_bytes ys))"
      by (simp add: policy_material_def comp_def)
    then have "map str_bytes xs = map str_bytes ys"
      using that by (intro field.concat_inj) (auto simp: list_all_iff update_field_def write_u64_def to_be_bytes_def)
    then show "xs = ys" by (simp add: inj_map_eq_map inj_def)
  qed simp
  moreover have "tpo_allowlisted_authors p = tpo_allowlisted_authors q \<longleftrightarrow> set as = set bs"
    using P Q sorted_distinct_set_unique by metis
  ultimately show ?thesis using P Q assms(3,4) by (simp add: list_all_iff)
qed

theorem policy_digest_identifies_allowlist_witness:
  "policy_material [''ann'', ''bob''] = policy_material [''ann'', ''bob''] \<longleftrightarrow>
     set [''bob'', ''ann'', ''bob''] = set [''ann'', ''bob'']"
proof -
  let ?p = "\<lparr>tpo_scope = ''r'', tpo_allowlisted_authors = [''ann'', ''bob''], tpo_policy_digest = []\<rparr>"
  have 1: "TrustPolicy_new (\<lambda>_. []) ''r'' [''bob'', ''ann'', ''bob''] = Inr ?p" by code_simp
  have 2: "TrustPolicy_new (\<lambda>_. []) ''r'' [''ann'', ''bob''] = Inr ?p" by code_simp
  have "list_all fits [''bob'', ''ann'', ''bob'']" "list_all fits [''ann'', ''bob'']" by (simp_all add: fits_short)
  from policy_digest_identifies_allowlist [OF 1 2 this] show ?thesis by simp
qed

text \<open>
  C27: Content of an allowlisted author and content of any other author never share a cache key,
  under whatever policies they are classified: the bytes hashed for them differ.
\<close>

theorem trust_domains_never_share_cache:
  assumes "classify pol o1 = Inr p" "classify pol' o2 = Inr q" "fits_provenance p" "fits_provenance q"
    and "fits c" "fits d" and "allows_author pol (cp_author p) \<noteq> allows_author pol' (cp_author q)"
  shows "cp_domain p \<in> {ConditionallyTrustedContent, UntrustedContent} \<and>
         cache_key_material p c \<noteq> cache_key_material q d"
proof -
  have dom: "cp_domain r = (if allows_author pl (cp_author r) then ConditionallyTrustedContent else UntrustedContent)"
    if "classify pl ob = Inr r" for pl ob r
    using that by (cases ob)
      (auto simp: classify_def ContentProvenance_from_parts_def res_iffs allows_author_def)
  have "cp_domain p \<noteq> cp_domain q" using dom [OF assms(1)] dom [OF assms(2)] assms(7) by auto
  then have "cache_key_material p c \<noteq> cache_key_material q d"
    using cache_key_material_eq [OF assms(3-6)] by blast
  then show ?thesis using dom [OF assms(1)] by simp
qed

theorem trust_domains_never_share_cache_witness:
  "cache_key_material (sample_provenance ConditionallyTrustedContent) [7]
     \<noteq> cache_key_material (sample_provenance UntrustedContent) [7]"
proof -
  let ?pol = "\<lambda>as. \<lparr>tpo_scope = ''repo'', tpo_allowlisted_authors = as, tpo_policy_digest = [1, 2, 3]\<rparr>"
  have 1: "classify (?pol [''ann'']) (Comment ''7'' ''ann'') = Inr (sample_provenance ConditionallyTrustedContent)"
    by code_simp
  have 2: "classify (?pol []) (Comment ''7'' ''ann'') = Inr (sample_provenance UntrustedContent)" by code_simp
  have fp: "fits_provenance (sample_provenance d)" for d
    unfolding fits_provenance_def sample_provenance_def by (simp add: fits_short)
  have fc: "fits [7 :: byte]" by (rule fits_short) simp
  have "allows_author (?pol [''ann'']) (cp_author (sample_provenance ConditionallyTrustedContent))
      \<noteq> allows_author (?pol []) (cp_author (sample_provenance UntrustedContent))"
    by (simp add: allows_author_def sample_provenance_def)
  from trust_domains_never_share_cache [OF 1 2 fp fp fc fc this] show ?thesis by blast
qed

end
