(* ===== verification/Spec_Parse.thy ===== *)
theory Spec_Parse
  imports Spec
begin

text \<open>
  The boundary of \<open>crates/workflow-spec/src/lib.rs\<close>: reading a bounded regular file, checking
  that it is UTF-8, and \<open>parse_str\<close>, with every error it returns. The lemmas say which
  documents are accepted and what an accepted document is guaranteed to satisfy.
\<close>

section \<open>Errors\<close>

text \<open>An I/O error either comes from the operating system or is made by the code itself.\<close>

datatype 'os io_error = OsError 'os | InvalidInput string | InvalidData string

datatype ('os, 'te) SpecError =
    Read SourceLocation "'os io_error"
  | InvalidUtf8 SourceLocation
  | Decode SourceLocation 'te
  | UnsupportedSchemaVersion SourceLocation u32
  | InvalidNodeBinding

section \<open>Checks on raw nodes\<close>

fun valid_tools_loop :: "(string \<times> string) list \<Rightarrow> RawToolReference list \<Rightarrow> bool" where
  "valid_tools_loop identities [] = True"
| "valid_tools_loop identities (tool # tools) =
     (rtl_id tool \<noteq> [] \<and> rtl_version tool \<noteq> [] \<and> \<not> is_reserved_skill_tool_name (rtl_id tool)
      \<and> (rtl_id tool, rtl_version tool) \<notin> set identities
      \<and> valid_tools_loop ((rtl_id tool, rtl_version tool) # identities) tools)"

definition valid_tools :: "RawToolReference list \<Rightarrow> bool" where
  "valid_tools tools = valid_tools_loop [] tools"

fun valid_skills_loop :: "(string \<times> string) list \<Rightarrow> RawSkillReference list \<Rightarrow> bool" where
  "valid_skills_loop identities [] = True"
| "valid_skills_loop identities (skill # skills) =
     (rsk_id skill \<noteq> [] \<and> rsk_version skill \<noteq> []
      \<and> (rsk_id skill, rsk_version skill) \<notin> set identities
      \<and> valid_skills_loop ((rsk_id skill, rsk_version skill) # identities) skills)"

definition valid_skills :: "RawSkillReference list \<Rightarrow> bool" where
  "valid_skills skills = valid_skills_loop [] skills"

text \<open>\<open>versions.insert(id, version).is_none_or(|old| old == version)\<close> for every skill in turn.\<close>

fun skill_versions_loop :: "(string \<rightharpoonup> string) \<Rightarrow> RawSkillReference list \<Rightarrow> bool" where
  "skill_versions_loop versions [] = True"
| "skill_versions_loop versions (skill # skills) =
     ((case versions (rsk_id skill) of None \<Rightarrow> True | Some version \<Rightarrow> version = rsk_version skill)
      \<and> skill_versions_loop (versions(rsk_id skill \<mapsto> rsk_version skill)) skills)"

definition valid_skill_versions :: "RawNode list \<Rightarrow> bool" where
  "valid_skill_versions nodes = skill_versions_loop Map.empty (concat (map rn_skills nodes))"

definition parse_agent_contract :: "RawNode \<Rightarrow> ('os, 'te) SpecError + AgentNodeContract option" where
  "parse_agent_contract node =
     (let present = [rn_instruction node \<noteq> None, rn_input node \<noteq> None, rn_output node \<noteq> None,
                     rn_session node \<noteq> None] in
      if list_all Not present then Inr None
      else if list_ex Not present then Inl InvalidNodeBinding
      else (case (rn_instruction node, rn_input node, rn_output node) of
          (Some instruction, Some input, Some output) \<Rightarrow>
            res_bind (map_err (\<lambda>_. InvalidNodeBinding)
                (InstructionContract_new (ri_path instruction) (ri_sha256 instruction))) (\<lambda>instruction.
            res_bind (map_err (\<lambda>_. InvalidNodeBinding)
                (InputContract_new (rin_state_keys input))) (\<lambda>input.
            res_bind (map_err (\<lambda>_. InvalidNodeBinding)
                (OutputContract_new (rout_state_key output) (rout_schema output))) (\<lambda>output.
            res_bind (if rn_session node = Some ''isolated'' then Inr Isolated
                      else if rn_session node = Some ''shared'' then Inr Shared
                      else Inl InvalidNodeBinding) (\<lambda>session.
            Inr (Some \<lparr>ac_instruction = instruction, ac_input = input, ac_output = output,
                       ac_session = session\<rparr>)))))
        | _ \<Rightarrow> Inl InvalidNodeBinding))"

definition resource :: "RawResource \<Rightarrow> ResourceReference" where
  "resource r = \<lparr>res_path = rr_path r, res_sha256 = rr_sha256 r\<rparr>"

section \<open>parse\_str\<close>

definition invalid_raw_node :: "RawNode \<Rightarrow> bool" where
  "invalid_raw_node node \<longleftrightarrow>
     (case rn_model node of None \<Rightarrow> False | Some model \<Rightarrow> rm_id model = [] \<or> rm_version model = [])
     \<or> \<not> valid_tools (rn_tools node) \<or> \<not> valid_skills (rn_skills node)"

definition parse_node :: "RawNode \<Rightarrow> ('os, 'te) SpecError + Node" where
  "parse_node node = res_bind (parse_agent_contract node) (\<lambda>agent_contract. Inr
     \<lparr>nd_id = rn_id node, nd_kind = rn_kind node, nd_timeout_ms = rn_timeout_ms node,
      nd_max_visits = rn_max_visits node, nd_idempotent = rn_idempotent node,
      nd_resources = map resource (rn_resources node),
      nd_model = map_option (\<lambda>m. \<lparr>mr_role = rm_role m, mr_id = rm_id m, mr_version = rm_version m\<rparr>)
        (rn_model node),
      nd_tools = map (\<lambda>t. \<lparr>tr_id = rtl_id t, tr_version = rtl_version t\<rparr>) (rn_tools node),
      nd_skills = map (\<lambda>s. \<lparr>sr_id = rsk_id s, sr_version = rsk_version s\<rparr>) (rn_skills node),
      nd_agent_contract = agent_contract,
      nd_untrusted_text = rn_untrusted_text node, nd_firewall = rn_firewall node\<rparr>)"

definition parse_route :: "RawPredicateRoute \<Rightarrow> PredicateRoute" where
  "parse_route route =
     \<lparr>rt_from = rpr_from route,
      rt_predicate = \<lparr>pr_id = rp_id (rpr_predicate route), pr_version = rp_version (rpr_predicate route)\<rparr>,
      rt_cases = map (\<lambda>(key, target). \<lparr>rc_key = key, rc_target = target\<rparr>) (rpr_cases route),
      rt_default = rpr_default route\<rparr>"

definition parse_state :: "RawState \<Rightarrow> StateSpec" where
  "parse_state state =
     \<lparr>st_schema_id = rst_schema_id state, st_schema_version = rst_schema_version state,
      st_required_keys = rst_required_keys state,
      st_keys = map (\<lambda>(name, key). \<lparr>sk_name = name, sk_schema_id = rsy_schema_id key,
        sk_schema_version = rsy_schema_version key, sk_handle = rsy_handle key\<rparr>) (rst_keys state)\<rparr>"

text \<open>Everything \<open>parse_str\<close> does once the TOML library has produced the raw document.\<close>

definition parse_raw :: "string \<Rightarrow> RawWorkflowSpec \<Rightarrow> ('os, 'te) SpecError + WorkflowSpec" where
  "parse_raw source raw =
     (if list_ex invalid_raw_node (raw_nodes raw) \<or> \<not> valid_skill_versions (raw_nodes raw)
      then Inl InvalidNodeBinding
      else if raw_schema_version raw \<noteq> WORKFLOW_SCHEMA_VERSION_V1
      then Inl (UnsupportedSchemaVersion
             \<lparr>loc_source = source, loc_field = ''schema_version'', loc_span = None\<rparr>
             (raw_schema_version raw))
      else res_bind (res_map parse_node (raw_nodes raw)) (\<lambda>nodes. Inr
        \<lparr>ws_schema_version = V1,
         ws_workflow = \<lparr>wf_id = rw_id (raw_workflow raw), wf_version = rw_version (raw_workflow raw),
           wf_entry = rw_entry (raw_workflow raw),
           wf_resources = map resource (rw_resources (raw_workflow raw))\<rparr>,
         ws_nodes = nodes,
         ws_edges = map (\<lambda>e. \<lparr>ed_from = re_from e, ed_to = re_to e\<rparr>) (raw_edges raw),
         ws_routes = map parse_route (raw_routes raw),
         ws_state = map_option parse_state (raw_state raw),
         ws_compact_state_exchange =
           map_option (\<lambda>x. \<lparr>cx_from = rcx_from x, cx_to = rcx_to x\<rparr>) (raw_compact_state_exchange raw),
         ws_resources = map resource (raw_resources raw)\<rparr>))"

definition parse_str ::
  "(string \<Rightarrow> 'te + 'doc) \<Rightarrow> ('doc \<Rightarrow> (string \<times> 'te) + RawWorkflowSpec) \<Rightarrow>
   ('te \<Rightarrow> (nat \<times> nat) option) \<Rightarrow> string \<Rightarrow> string \<Rightarrow> ('os, 'te) SpecError + WorkflowSpec" where
  "parse_str toml_parse toml_de toml_span source toml =
     (case toml_parse toml of
        Inl error \<Rightarrow> Inl (Decode \<lparr>loc_source = source, loc_field = ''.'',
                                 loc_span = toml_span error\<rparr> error)
      | Inr deserializer \<Rightarrow>
          (case toml_de deserializer of
             Inl (field, error) \<Rightarrow> Inl (Decode \<lparr>loc_source = source, loc_field = field,
                                               loc_span = toml_span error\<rparr> error)
           | Inr raw \<Rightarrow> parse_raw source raw))"

section \<open>Reading a source file\<close>

definition MAX_SOURCE_BYTES :: usize where
  "MAX_SOURCE_BYTES = 1048576"

text \<open>What the operating system answers for an opened file: its kind and its bytes.\<close>

record 'os FileView =
  file_is_file :: "'os + bool"
  file_bytes :: "'os + byte list"

definition source_read_error :: "string \<Rightarrow> 'os io_error \<Rightarrow> ('os, 'te) SpecError" where
  "source_read_error source error = Read (SourceLocation_root source) error"

definition read_bounded_regular_file ::
  "(string \<Rightarrow> 'os + 'os FileView) \<Rightarrow> string \<Rightarrow> usize \<Rightarrow> ('os, 'te) SpecError + byte list" where
  "read_bounded_regular_file open_file source max_bytes =
     res_bind (map_err (\<lambda>e. source_read_error source (OsError e)) (open_file source)) (\<lambda>file.
     res_bind (map_err (\<lambda>e. source_read_error source (OsError e)) (file_is_file file)) (\<lambda>is_file.
     if \<not> is_file
     then Inl (source_read_error source (InvalidInput ''input file is not a regular file''))
     else res_bind (map_err (\<lambda>e. source_read_error source (OsError e)) (file_bytes file)) (\<lambda>content.
       let bytes = take (unat (saturating_add max_bytes 1)) content in
       if length bytes > unat max_bytes
       then Inl (source_read_error source (InvalidData ''input file exceeds the byte limit''))
       else Inr bytes)))"

text \<open>\<open>std::str::from_utf8\<close>: the well-formed byte sequences of UTF-8.\<close>

definition is_cont :: "byte \<Rightarrow> bool" where
  "is_cont b \<longleftrightarrow> 0x80 \<le> b \<and> b \<le> 0xBF"

fun utf8_valid :: "byte list \<Rightarrow> bool" where
  "utf8_valid [] = True"
| "utf8_valid (a # rest) =
     (if a < 0x80 then utf8_valid rest
      else (case rest of
          [] \<Rightarrow> False
        | b # rest2 \<Rightarrow>
            if 0xC2 \<le> a \<and> a \<le> 0xDF then is_cont b \<and> utf8_valid rest2
            else (case rest2 of
                [] \<Rightarrow> False
              | c # rest3 \<Rightarrow>
                  if 0xE0 \<le> a \<and> a \<le> 0xEF
                  then is_cont b \<and> is_cont c \<and> (a = 0xE0 \<longrightarrow> 0xA0 \<le> b) \<and> (a = 0xED \<longrightarrow> b \<le> 0x9F)
                       \<and> utf8_valid rest3
                  else (case rest3 of
                      [] \<Rightarrow> False
                    | d # rest4 \<Rightarrow>
                        0xF0 \<le> a \<and> a \<le> 0xF4 \<and> is_cont b \<and> is_cont c \<and> is_cont d
                        \<and> (a = 0xF0 \<longrightarrow> 0x90 \<le> b) \<and> (a = 0xF4 \<longrightarrow> b \<le> 0x8F)
                        \<and> utf8_valid rest4))))"

definition bytes_str :: "byte list \<Rightarrow> string" where
  "bytes_str bs = map (\<lambda>b. char_of (unat b)) bs"

definition parse_file ::
  "(string \<Rightarrow> 'os + 'os FileView) \<Rightarrow> (string \<Rightarrow> 'te + 'doc) \<Rightarrow>
   ('doc \<Rightarrow> (string \<times> 'te) + RawWorkflowSpec) \<Rightarrow> ('te \<Rightarrow> (nat \<times> nat) option) \<Rightarrow>
   string \<Rightarrow> ('os, 'te) SpecError + WorkflowSpec" where
  "parse_file open_file toml_parse toml_de toml_span path =
     res_bind (read_bounded_regular_file open_file path MAX_SOURCE_BYTES) (\<lambda>bytes.
     if utf8_valid bytes
     then parse_str toml_parse toml_de toml_span path (bytes_str bytes)
     else Inl (InvalidUtf8 (SourceLocation_root path)))"

section \<open>What the checks mean\<close>

lemma valid_tools_loop_iff:
  "valid_tools_loop identities tools \<longleftrightarrow>
     (\<forall>t \<in> set tools. rtl_id t \<noteq> [] \<and> rtl_version t \<noteq> [] \<and> \<not> is_reserved_skill_tool_name (rtl_id t))
     \<and> distinct (map (\<lambda>t. (rtl_id t, rtl_version t)) tools)
     \<and> (\<forall>t \<in> set tools. (rtl_id t, rtl_version t) \<notin> set identities)"
  by (induction tools arbitrary: identities) (auto simp: image_iff)

lemma valid_skills_loop_iff:
  "valid_skills_loop identities skills \<longleftrightarrow>
     (\<forall>s \<in> set skills. rsk_id s \<noteq> [] \<and> rsk_version s \<noteq> [])
     \<and> distinct (map (\<lambda>s. (rsk_id s, rsk_version s)) skills)
     \<and> (\<forall>s \<in> set skills. (rsk_id s, rsk_version s) \<notin> set identities)"
  by (induction skills arbitrary: identities) (auto simp: image_iff)

lemma skill_versions_loop_iff:
  "skill_versions_loop versions skills \<longleftrightarrow>
     (\<forall>s \<in> set skills. \<forall>v. versions (rsk_id s) = Some v \<longrightarrow> v = rsk_version s)
     \<and> (\<forall>s \<in> set skills. \<forall>t \<in> set skills. rsk_id s = rsk_id t \<longrightarrow> rsk_version s = rsk_version t)"
proof (induction skills arbitrary: versions)
  case Nil
  then show ?case by simp
next
  case (Cons s skills)
  let ?A = "\<lambda>x. \<forall>v. versions (rsk_id x) = Some v \<longrightarrow> v = rsk_version x"
  have head: "(case versions (rsk_id s) of None \<Rightarrow> True | Some version \<Rightarrow> version = rsk_version s) \<longleftrightarrow> ?A s"
    by (auto split: option.splits)
  have upd: "(\<forall>v. (versions(rsk_id s \<mapsto> rsk_version s)) (rsk_id x) = Some v \<longrightarrow> v = rsk_version x)
      \<longleftrightarrow> (rsk_id x = rsk_id s \<longrightarrow> rsk_version s = rsk_version x) \<and> (rsk_id x \<noteq> rsk_id s \<longrightarrow> ?A x)" for x
    by auto
  show ?case
    unfolding skill_versions_loop.simps Cons.IH upd head list.set ball_simps
    by (rule iffI; safe; metis)
qed

lemma input_keys_check_iff:
  "input_keys_check seen keys = Inr u \<longleftrightarrow> [] \<notin> set keys \<and> distinct keys \<and> set keys \<inter> set seen = {}"
  by (induction keys arbitrary: seen) auto

lemma InstructionContract_new_Inr:
  "InstructionContract_new p h = Inr c \<longleftrightarrow> p \<noteq> [] \<and> h \<noteq> [] \<and> c = \<lparr>ins_path = p, ins_sha256 = h\<rparr>"
  by (auto simp: InstructionContract_new_def)

lemma InputContract_new_Inr:
  "InputContract_new ks = Inr c \<longleftrightarrow> [] \<notin> set ks \<and> distinct ks \<and> c = \<lparr>in_state_keys = ks\<rparr>"
  by (auto simp: InputContract_new_def res_iffs input_keys_check_iff)

lemma OutputContract_new_Inr:
  "OutputContract_new k s = Inr c \<longleftrightarrow> k \<noteq> [] \<and> s \<noteq> [] \<and> c = \<lparr>out_state_key = k, out_schema = s\<rparr>"
  by (auto simp: OutputContract_new_def)

lemmas contract_new_iffs = InstructionContract_new_Inr InputContract_new_Inr OutputContract_new_Inr

text \<open>
  The declarative reading of the binding rules: a model identity is complete; tools and skills
  are named, distinct and (for tools) not names of the Skill runtime; a contract is declared in
  full or not at all, with named and distinct state keys.
\<close>

definition raw_contract_ok :: "RawNode \<Rightarrow> bool" where
  "raw_contract_ok node \<longleftrightarrow>
     (rn_instruction node = None \<and> rn_input node = None \<and> rn_output node = None \<and> rn_session node = None)
     \<or> (\<exists>ins inp out. rn_instruction node = Some ins \<and> rn_input node = Some inp \<and> rn_output node = Some out
          \<and> rn_session node \<in> {Some ''isolated'', Some ''shared''}
          \<and> ri_path ins \<noteq> [] \<and> ri_sha256 ins \<noteq> []
          \<and> [] \<notin> set (rin_state_keys inp) \<and> distinct (rin_state_keys inp)
          \<and> rout_state_key out \<noteq> [] \<and> rout_schema out \<noteq> [])"

definition raw_node_ok :: "RawNode \<Rightarrow> bool" where
  "raw_node_ok node \<longleftrightarrow>
     (\<forall>m. rn_model node = Some m \<longrightarrow> rm_id m \<noteq> [] \<and> rm_version m \<noteq> [])
     \<and> (\<forall>t \<in> set (rn_tools node). rtl_id t \<noteq> [] \<and> rtl_version t \<noteq> []
          \<and> \<not> is_reserved_skill_tool_name (rtl_id t))
     \<and> distinct (map (\<lambda>t. (rtl_id t, rtl_version t)) (rn_tools node))
     \<and> (\<forall>s \<in> set (rn_skills node). rsk_id s \<noteq> [] \<and> rsk_version s \<noteq> [])
     \<and> distinct (map (\<lambda>s. (rsk_id s, rsk_version s)) (rn_skills node))"

definition skills_agree :: "RawNode list \<Rightarrow> bool" where
  "skills_agree nodes \<longleftrightarrow>
     (\<forall>n \<in> set nodes. \<forall>n' \<in> set nodes. \<forall>s \<in> set (rn_skills n). \<forall>s' \<in> set (rn_skills n').
        rsk_id s = rsk_id s' \<longrightarrow> rsk_version s = rsk_version s')"

lemma invalid_raw_node_iff: "invalid_raw_node node \<longleftrightarrow> \<not> raw_node_ok node"
  by (auto simp: invalid_raw_node_def raw_node_ok_def valid_tools_def valid_skills_def
      valid_tools_loop_iff valid_skills_loop_iff split: option.splits)

lemma valid_skill_versions_iff: "valid_skill_versions nodes \<longleftrightarrow> skills_agree nodes"
  by (auto simp: valid_skill_versions_def skill_versions_loop_iff skills_agree_def)

lemma parse_agent_contract_Inr_iff:
  "(\<exists>c. parse_agent_contract node = (Inr c :: ('os, 'te) SpecError + _)) \<longleftrightarrow> raw_contract_ok node"
  by (cases "rn_instruction node"; cases "rn_input node"; cases "rn_output node"; cases "rn_session node")
     (auto simp: parse_agent_contract_def raw_contract_ok_def res_iffs contract_new_iffs)

lemma parse_node_Inr_iff:
  "(\<exists>n. parse_node node = (Inr n :: ('os, 'te) SpecError + _)) \<longleftrightarrow> raw_contract_ok node"
  by (simp add: parse_node_def res_iffs flip: parse_agent_contract_Inr_iff [where 'os='os and 'te='te])

lemma res_map_ex_Inr: "(\<exists>ys. res_map f xs = Inr ys) \<longleftrightarrow> (\<forall>x \<in> set xs. \<exists>y. f x = Inr y)"
  by (induction xs) (auto simp: res_iffs)

text \<open>
  C8: the acceptance condition of the specification boundary. A decoded document becomes a
  \<open>WorkflowSpec\<close> exactly when its schema version is 1, every node binding is complete,
  distinct and free of reserved names, every agent contract is declared in full or not at all,
  and no skill is bound at two versions anywhere in the workflow; every other document is
  rejected.
\<close>

theorem parse_raw_accepts_iff:
  "(\<exists>spec. parse_raw source raw = (Inr spec :: ('os, 'te) SpecError + _)) \<longleftrightarrow>
     raw_schema_version raw = 1 \<and> list_all raw_node_ok (raw_nodes raw)
     \<and> list_all raw_contract_ok (raw_nodes raw) \<and> skills_agree (raw_nodes raw)"
  unfolding parse_raw_def WORKFLOW_SCHEMA_VERSION_V1_def
  by (auto simp: res_iffs res_map_ex_Inr list_ex_iff list_all_iff invalid_raw_node_iff
      valid_skill_versions_iff parse_node_Inr_iff [where 'os = 'os and 'te = 'te])

section \<open>What an accepted document guarantees\<close>

definition node_bound_ok :: "Node \<Rightarrow> bool" where
  "node_bound_ok n \<longleftrightarrow>
     (\<forall>m. nd_model n = Some m \<longrightarrow> mr_id m \<noteq> [] \<and> mr_version m \<noteq> [])
     \<and> (\<forall>t \<in> set (nd_tools n). tr_id t \<noteq> [] \<and> tr_version t \<noteq> [] \<and> \<not> is_reserved_skill_tool_name (tr_id t))
     \<and> distinct (nd_tools n)
     \<and> (\<forall>s \<in> set (nd_skills n). sr_id s \<noteq> [] \<and> sr_version s \<noteq> [])
     \<and> distinct (nd_skills n)
     \<and> (\<forall>c. nd_agent_contract n = Some c \<longrightarrow>
          ins_path (ac_instruction c) \<noteq> [] \<and> ins_sha256 (ac_instruction c) \<noteq> []
          \<and> [] \<notin> set (in_state_keys (ac_input c)) \<and> distinct (in_state_keys (ac_input c))
          \<and> out_state_key (ac_output c) \<noteq> [] \<and> out_schema (ac_output c) \<noteq> [])"

definition spec_skills_agree :: "WorkflowSpec \<Rightarrow> bool" where
  "spec_skills_agree spec \<longleftrightarrow>
     (\<forall>n \<in> set (ws_nodes spec). \<forall>n' \<in> set (ws_nodes spec).
        \<forall>s \<in> set (nd_skills n). \<forall>s' \<in> set (nd_skills n').
          sr_id s = sr_id s' \<longrightarrow> sr_version s = sr_version s')"

lemma distinct_map_pair:
  "distinct (map (\<lambda>t. (f t, g t)) xs) \<Longrightarrow> (\<forall>s t. h s = h t \<longrightarrow> f s = f t \<and> g s = g t) \<Longrightarrow> distinct (map h xs)"
  unfolding distinct_map inj_on_def by blast

lemma parse_agent_contract_content:
  assumes "parse_agent_contract node = Inr (Some c)"
  shows "ins_path (ac_instruction c) \<noteq> [] \<and> ins_sha256 (ac_instruction c) \<noteq> []
    \<and> [] \<notin> set (in_state_keys (ac_input c)) \<and> distinct (in_state_keys (ac_input c))
    \<and> out_state_key (ac_output c) \<noteq> [] \<and> out_schema (ac_output c) \<noteq> []"
proof -
  from assms obtain ins inp out where parts: "rn_instruction node = Some ins" "rn_input node = Some inp"
    "rn_output node = Some out"
    by (cases "rn_instruction node"; cases "rn_input node"; cases "rn_output node")
       (auto simp: parse_agent_contract_def Let_def split: if_splits)
  from assms have "\<exists>a. InstructionContract_new (ri_path ins) (ri_sha256 ins) = Inr a
      \<and> (\<exists>b. InputContract_new (rin_state_keys inp) = Inr b
      \<and> (\<exists>d. OutputContract_new (rout_state_key out) (rout_schema out) = Inr d
      \<and> (\<exists>e. c = \<lparr>ac_instruction = a, ac_input = b, ac_output = d, ac_session = e\<rparr>)))"
    by (fastforce simp: parse_agent_contract_def Let_def parts res_iffs split: if_splits)
  then show ?thesis by (auto simp: contract_new_iffs)
qed

lemma parse_node_bound_ok: "parse_node r = Inr n \<Longrightarrow> raw_node_ok r \<Longrightarrow> node_bound_ok n"
  unfolding parse_node_def node_bound_ok_def
  by (auto simp: res_iffs raw_node_ok_def dest: parse_agent_contract_content
      elim!: distinct_map_pair)

lemma parse_node_skills: "parse_node r = Inr n \<Longrightarrow>
    nd_id n = rn_id r \<and> nd_skills n = map (\<lambda>s. \<lparr>sr_id = rsk_id s, sr_version = rsk_version s\<rparr>) (rn_skills r)"
  by (auto simp: parse_node_def res_iffs)

lemma res_map_setD: "res_map f xs = Inr ys \<Longrightarrow> y \<in> set ys \<Longrightarrow> \<exists>x \<in> set xs. f x = Inr y"
  by (induction xs arbitrary: ys) (auto simp: res_iffs)

lemma parse_raw_nodes:
  assumes "parse_raw source raw = (Inr spec :: ('os, 'te) SpecError + _)" and "n \<in> set (ws_nodes spec)"
  obtains r where "r \<in> set (raw_nodes raw)" and "parse_node r = (Inr n :: ('os, 'te) SpecError + _)"
    and "raw_node_ok r" and "skills_agree (raw_nodes raw)"
  using assms unfolding parse_raw_def
  by (auto simp: res_iffs list_ex_iff invalid_raw_node_iff valid_skill_versions_iff
      split: if_splits dest!: res_map_setD)

text \<open>
  what every later stage may rely on. Whatever the TOML decoder does, a specification
  returned by \<open>parse_str\<close> has complete and distinct bindings on every node, complete agent
  contracts, and one version per skill across all its nodes.
\<close>

theorem parse_str_well_bound:
  assumes "parse_str toml_parse toml_de toml_span source toml = (Inr spec :: ('os, 'te) SpecError + _)"
  shows "list_all node_bound_ok (ws_nodes spec) \<and> spec_skills_agree spec"
proof -
  from assms obtain raw where raw: "parse_raw source raw = (Inr spec :: ('os, 'te) SpecError + _)"
    unfolding parse_str_def by (auto split: sum.splits prod.splits)
  have "node_bound_ok n" if "n \<in> set (ws_nodes spec)" for n
    using raw that by (rule parse_raw_nodes) (rule parse_node_bound_ok)
  moreover have "sr_version s = sr_version s'"
    if n: "n \<in> set (ws_nodes spec)" and n': "n' \<in> set (ws_nodes spec)"
      and s: "s \<in> set (nd_skills n)" "s' \<in> set (nd_skills n')" "sr_id s = sr_id s'" for n n' s s'
  proof -
    obtain r where r: "r \<in> set (raw_nodes raw)" "parse_node r = (Inr n :: ('os, 'te) SpecError + _)"
      and agree: "skills_agree (raw_nodes raw)"
      using parse_raw_nodes [OF raw n] .
    obtain r' where r': "r' \<in> set (raw_nodes raw)" "parse_node r' = (Inr n' :: ('os, 'te) SpecError + _)"
      using parse_raw_nodes [OF raw n'] .
    from s(1) parse_node_skills [OF r(2)] obtain t
      where t: "t \<in> set (rn_skills r)" "s = \<lparr>sr_id = rsk_id t, sr_version = rsk_version t\<rparr>"
      by auto
    from s(2) parse_node_skills [OF r'(2)] obtain t'
      where t': "t' \<in> set (rn_skills r')" "s' = \<lparr>sr_id = rsk_id t', sr_version = rsk_version t'\<rparr>"
      by auto
    from s(3) have "rsk_id t = rsk_id t'" by (simp add: t(2) t'(2))
    with agree r(1) r'(1) t(1) t'(1) have "rsk_version t = rsk_version t'"
      unfolding skills_agree_def by blast
    then show ?thesis by (simp add: t(2) t'(2))
  qed
  ultimately show ?thesis unfolding list_all_iff spec_skills_agree_def by blast
qed

lemma read_bounded_regular_file_Inr_iff:
  assumes "max_bytes \<noteq> - 1"
  shows "read_bounded_regular_file open_file source max_bytes = Inr bytes \<longleftrightarrow>
    (\<exists>file. open_file source = Inr file \<and> file_is_file file = Inr True \<and> file_bytes file = Inr bytes
       \<and> length bytes \<le> unat max_bytes)"
proof -
  have "unat max_bytes + 1 < 2 ^ 64"
    using assms unsigned_less [of max_bytes, where ?'a = nat]
    by (auto simp: word_unat_eq_iff unsigned_minus_1_eq_mask mask_eq_exp_minus_1)
  then have "unat (saturating_add max_bytes 1) = unat max_bytes + 1"
    by (simp add: saturating_add_def checked_add_def unat_word_ariths)
  then show ?thesis
    by (cases "open_file source"; cases "file_is_file (projr (open_file source))";
        cases "file_bytes (projr (open_file source))")
       (auto simp: read_bounded_regular_file_def Let_def)
qed

text \<open>
  a workflow read from disk is the whole content of a regular file of at most one mebibyte
  of well-formed UTF-8; no truncated or partially read source is ever parsed.
\<close>

theorem parse_file_accepts:
  assumes "parse_file open_file toml_parse toml_de toml_span path = (Inr spec :: ('os, 'te) SpecError + _)"
  shows "\<exists>file bytes. open_file path = Inr file \<and> file_is_file file = Inr True \<and> file_bytes file = Inr bytes
    \<and> length bytes \<le> 1048576 \<and> utf8_valid bytes
    \<and> parse_str toml_parse toml_de toml_span path (bytes_str bytes) = (Inr spec :: ('os, 'te) SpecError + _)"
proof -
  have "MAX_SOURCE_BYTES \<noteq> - 1" and "unat MAX_SOURCE_BYTES = 1048576"
    by (simp_all add: MAX_SOURCE_BYTES_def)
  with assms show ?thesis
    unfolding parse_file_def res_bind_Inr_iff
    by (auto simp: read_bounded_regular_file_Inr_iff split: if_splits)
qed

text \<open>
  the nine route operators and their names determine each other: parsing the printed name
  gives the operator back, and a name is accepted only when it is the printed name of the result.
\<close>

theorem RouteOperator_roundtrip:
  "RouteOperator_from_str (RouteOperator_as_str op) = Inr op
   \<and> (RouteOperator_from_str s = Inr op \<longleftrightarrow> s = RouteOperator_as_str op)"
proof
  show "RouteOperator_from_str (RouteOperator_as_str op) = Inr op"
    by (cases op) (simp_all add: RouteOperator_from_str_def)
  then show "RouteOperator_from_str s = Inr op \<longleftrightarrow> s = RouteOperator_as_str op"
    by (auto simp: RouteOperator_from_str_def split: if_splits)
qed

section \<open>Witnesses\<close>

definition demo_agent :: RawNode where
  "demo_agent =
     \<lparr>rn_id = ''agent'', rn_kind = Agent, rn_timeout_ms = None, rn_max_visits = None, rn_idempotent = False,
      rn_resources = [], rn_model = Some \<lparr>rm_role = Worker, rm_id = ''m'', rm_version = ''1''\<rparr>,
      rn_tools = [\<lparr>rtl_id = ''echo'', rtl_version = ''1''\<rparr>],
      rn_skills = [\<lparr>rsk_id = ''s'', rsk_version = ''1''\<rparr>],
      rn_instruction = Some \<lparr>ri_path = ''p'', ri_sha256 = ''h''\<rparr>,
      rn_input = Some \<lparr>rin_state_keys = [''q'']\<rparr>,
      rn_output = Some \<lparr>rout_state_key = ''a'', rout_schema = ''text''\<rparr>,
      rn_session = Some ''isolated'', rn_untrusted_text = None, rn_firewall = None\<rparr>"

definition demo_raw :: RawWorkflowSpec where
  "demo_raw =
     \<lparr>raw_schema_version = 1,
      raw_workflow = \<lparr>rw_id = ''w'', rw_version = ''1'', rw_entry = ''agent'', rw_resources = []\<rparr>,
      raw_nodes = [demo_agent], raw_edges = [], raw_routes = [], raw_state = None,
      raw_compact_state_exchange = None, raw_resources = []\<rparr>"

lemma demo_accepted:
  "\<exists>spec. parse_str (\<lambda>t. Inr t) (\<lambda>_. Inr demo_raw) (\<lambda>_. None) ''w.toml'' toml = (Inr spec :: (unit, unit) SpecError + _)"
  by (simp add: parse_str_def parse_raw_def demo_raw_def demo_agent_def invalid_raw_node_def valid_tools_def
      valid_skills_def valid_skill_versions_def is_reserved_skill_tool_name_def RESERVED_SKILL_TOOL_NAMES_def
      WORKFLOW_SCHEMA_VERSION_V1_def parse_node_def parse_agent_contract_def InstructionContract_new_def
      InputContract_new_def OutputContract_new_def)

theorem parse_str_well_bound_witness:
  "\<exists>spec. parse_str (\<lambda>t. Inr t) (\<lambda>_. Inr demo_raw) (\<lambda>_. None) ''w.toml'' ''x'' = (Inr spec :: (unit, unit) SpecError + _)
     \<and> list_all node_bound_ok (ws_nodes spec) \<and> spec_skills_agree spec"
proof -
  obtain spec where "parse_str (\<lambda>t. Inr t) (\<lambda>_. Inr demo_raw) (\<lambda>_. None) ''w.toml'' ''x''
      = (Inr spec :: (unit, unit) SpecError + _)"
    using demo_accepted by blast
  with parse_str_well_bound [OF this] show ?thesis by blast
qed

definition demo_open :: "string \<Rightarrow> unit + unit FileView" where
  "demo_open path = Inr \<lparr>file_is_file = Inr True, file_bytes = Inr [0x78]\<rparr>"

lemma demo_file_accepted:
  "\<exists>spec. parse_file demo_open (\<lambda>t. Inr t) (\<lambda>_. Inr demo_raw) (\<lambda>_. None) ''w.toml'' = (Inr spec :: (unit, unit) SpecError + _)"
proof -
  have "read_bounded_regular_file demo_open ''w.toml'' MAX_SOURCE_BYTES = (Inr [0x78] :: (unit, unit) SpecError + _)"
    by (subst read_bounded_regular_file_Inr_iff) (simp_all add: MAX_SOURCE_BYTES_def demo_open_def)
  moreover have "utf8_valid [0x78]" by simp
  ultimately show ?thesis using demo_accepted by (simp add: parse_file_def)
qed

theorem parse_file_accepts_witness:
  "\<exists>spec file bytes. parse_file demo_open (\<lambda>t. Inr t) (\<lambda>_. Inr demo_raw) (\<lambda>_. None) ''w.toml''
       = (Inr spec :: (unit, unit) SpecError + _)
     \<and> demo_open ''w.toml'' = Inr file \<and> file_bytes file = Inr bytes \<and> length bytes \<le> 1048576 \<and> utf8_valid bytes"
proof -
  obtain spec where "parse_file demo_open (\<lambda>t. Inr t) (\<lambda>_. Inr demo_raw) (\<lambda>_. None) ''w.toml''
      = (Inr spec :: (unit, unit) SpecError + _)"
    using demo_file_accepted by blast
  with parse_file_accepts [OF this] show ?thesis by blast
qed

end
