(* ===== verification/Compile.thy ===== *)
theory Compile
  imports Graph_Correct Behavioral Spec_Parse
begin

text \<open>
  Component: the compiler pipeline, \<open>crates/workflow-compiler/src/lib.rs\<close> (state and binding
  preflight, \<open>validated_ir\<close>, the \<open>compile_*\<close> entry points, \<open>render_mermaid\<close>),
  \<open>behavioral.rs\<close> (host admission), \<open>registry.rs\<close> and \<open>graph_builder.rs\<close>. A registry is the
  function its \<open>resolve\<close> method computes. \<^const>\<open>None\<close> in front of a compiler result stands for a
  panic of the graph validator, as in \<^const>\<open>validate_graph\<close>. SHA-256, the TOML parser and the
  identity strings of the host capabilities (hashes of their JSON) are parameters.
\<close>

section \<open>Errors\<close>

datatype StateValidationError =
    StInvalidIdentifier string
  | StUnsupportedSchemaVersion string
  | StMissingRequiredKey string
  | StInvalidHandleShape string
  | StUndeclaredAgentStateKey string

datatype BindingValidationError =
    InvalidPlacement
  | ReviewerTool
  | ReservedSkillTool
  | InvalidUntrustedTextPreparation
  | InvalidSentinelScript
  | InvalidSentinelModelProbe

datatype RegistryCategory = CatModel | CatTool | CatNode | CatValidator | CatPredicate | CatSkill

record RegistryNotFound =
  nf_category :: RegistryCategory
  nf_id :: string
  nf_version :: string

datatype 'p CompileError =
    Parse 'p
  | Graph GraphValidationError
  | State StateValidationError
  | Binding BindingValidationError
  | PredicateRegistryRequired
  | Registry RegistryNotFound

section \<open>State preflight\<close>

definition STATE_SCHEMA_VERSION_V1 :: string where
  "STATE_SCHEMA_VERSION_V1 = ''1''"

definition HANDLE_SHAPES :: "string list" where
  "HANDLE_SHAPES = [''inline'', ''artifact'']"

definition contract_keys :: "AgentNodeContract \<Rightarrow> string list" where
  "contract_keys c = in_state_keys (ac_input c) @ [out_state_key (ac_output c)]"

definition state_declares :: "IrState \<Rightarrow> string \<Rightarrow> bool" where
  "state_declares state key_name = list_ex (\<lambda>key. isy_name key = key_name) (ist_keys state)"

definition check_contract_keys :: "IrState option \<Rightarrow> IrNode \<Rightarrow> StateValidationError + unit" where
  "check_contract_keys state node =
     (case irn_agent_contract node of
        None \<Rightarrow> Inr ()
      | Some contract \<Rightarrow>
          res_all (\<lambda>key_name. if (case state of None \<Rightarrow> True | Some st \<Rightarrow> \<not> state_declares st key_name)
                             then Inl (StUndeclaredAgentStateKey key_name) else Inr ())
            (contract_keys contract))"

definition check_named :: "(string \<times> string) list \<Rightarrow> StateValidationError + unit" where
  "check_named named = res_all (\<lambda>(field_path, value). if value = [] then Inl (StInvalidIdentifier field_path) else Inr ()) named"

definition state_key_fields :: "IrStateKey \<Rightarrow> (string \<times> string) list" where
  "state_key_fields key =
     [(''state.keys[].name'', isy_name key), (''state.keys[].schema_id'', isy_schema_id key),
      (''state.keys[].schema_version'', isy_schema_version key)]"

definition check_handle :: "IrStateKey \<Rightarrow> StateValidationError + unit" where
  "check_handle key =
     (case isy_handle key of
        None \<Rightarrow> Inr ()
      | Some shape \<Rightarrow> if shape \<in> set HANDLE_SHAPES then Inr () else Inl (StInvalidHandleShape shape))"

definition validate_state :: "WorkflowIr \<Rightarrow> StateValidationError + unit" where
  "validate_state ir =
     res_bind (res_all (check_contract_keys (ir_state ir)) (ir_nodes ir)) (\<lambda>_.
     case ir_state ir of
       None \<Rightarrow> Inr ()
     | Some state \<Rightarrow>
         res_bind (check_named [(''state.schema_id'', ist_schema_id state),
                                (''state.schema_version'', ist_schema_version state)]) (\<lambda>_.
         res_bind (res_all (\<lambda>key. check_named (state_key_fields key)) (ist_keys state)) (\<lambda>_.
         if ist_schema_version state \<noteq> STATE_SCHEMA_VERSION_V1
         then Inl (StUnsupportedSchemaVersion (ist_schema_version state))
         else
           res_bind (res_all (\<lambda>name. if state_declares state name then Inr () else Inl (StMissingRequiredKey name))
             (ist_required_keys state)) (\<lambda>_.
           res_all check_handle (ist_keys state)))))"

section \<open>Binding preflight\<close>

definition invalid_preparation :: "WorkflowSpec \<Rightarrow> Node \<Rightarrow> UntrustedTextPreparation \<Rightarrow> bool" where
  "invalid_preparation spec node policy \<longleftrightarrow>
     ut_schema_version policy \<noteq> 1
     \<or> (case ut_behavioral policy of None \<Rightarrow> False
        | Some behavioral \<Rightarrow> bp_schema_version behavioral \<notin> {1, 2})
     \<or> ut_max_input_bytes policy > 65536
     \<or> nd_kind node \<noteq> Terminal
     \<or> length (ws_nodes spec) \<noteq> 1
     \<or> ws_edges spec \<noteq> []
     \<or> ws_routes spec \<noteq> []"

definition invalid_firewall :: "WorkflowSpec \<Rightarrow> Node \<Rightarrow> FirewallContract \<Rightarrow> bool" where
  "invalid_firewall spec node firewall \<longleftrightarrow>
     nd_kind node \<noteq> Validator
     \<or> nd_id node \<noteq> wf_entry (ws_workflow spec)
     \<or> fw_schema_version firewall \<noteq> 1
     \<or> length (fw_identity firewall) \<noteq> 64
     \<or> \<not> list_all is_lower_hex (fw_identity firewall)
     \<or> list_ex (\<lambda>edge. ed_to edge = nd_id node) (ws_edges spec)
     \<or> list_ex (\<lambda>route. list_ex (\<lambda>c. rc_target c = nd_id node) (rt_cases route)
                        \<or> rt_default route = Some (nd_id node)) (ws_routes spec)"

definition check_node_bindings :: "WorkflowSpec \<Rightarrow> Node \<Rightarrow> BindingValidationError + unit" where
  "check_node_bindings spec node =
     (if (case nd_untrusted_text node of None \<Rightarrow> False | Some policy \<Rightarrow> invalid_preparation spec node policy)
      then Inl InvalidUntrustedTextPreparation
      else if (case nd_firewall node of None \<Rightarrow> False | Some firewall \<Rightarrow> invalid_firewall spec node firewall)
      then Inl InvalidPlacement
      else if nd_kind node \<noteq> Agent
              \<and> (nd_model node \<noteq> None \<or> nd_tools node \<noteq> [] \<or> nd_skills node \<noteq> [] \<or> nd_agent_contract node \<noteq> None)
      then Inl InvalidPlacement
      else if (case nd_model node of None \<Rightarrow> False | Some model \<Rightarrow> mr_role model = Reviewer)
              \<and> (nd_tools node \<noteq> [] \<or> nd_skills node \<noteq> [])
      then Inl ReviewerTool
      else if list_ex (\<lambda>tool. is_reserved_skill_tool_name (tr_id tool)) (nd_tools node)
      then Inl ReservedSkillTool
      else Inr ())"

definition validate_node_bindings :: "WorkflowSpec \<Rightarrow> 'p CompileError + unit" where
  "validate_node_bindings spec = map_err Binding (res_all (check_node_bindings spec) (ws_nodes spec))"

definition invalid_timeout :: "Node \<Rightarrow> bool" where
  "invalid_timeout node =
     (if nd_kind node = Approval then (case nd_timeout_ms node of None \<Rightarrow> True | Some timeout_ms \<Rightarrow> timeout_ms = 0)
      else nd_timeout_ms node \<noteq> None)"

definition validate_approval_nodes :: "WorkflowSpec \<Rightarrow> 'p CompileError + unit" where
  "validate_approval_nodes spec =
     res_all (\<lambda>node. if invalid_timeout node then Inl (Graph (InvalidIdentifier ''nodes[].timeout_ms'')) else Inr ())
       (ws_nodes spec)"

section \<open>Host admission of behavioural policies\<close>

datatype 'o BehavioralAdmission = AdmitScript "'o TrustedScript" | AdmitModel TrustedModelProbe string

definition node_behavioral :: "IrNode \<Rightarrow> BehavioralPolicy option" where
  "node_behavioral node = Option.bind (irn_untrusted_text node) ut_behavioral"

fun find_map :: "('a \<Rightarrow> 'b option) \<Rightarrow> 'a list \<Rightarrow> 'b option" where
  "find_map f [] = None"
| "find_map f (x # xs) = (case f x of Some y \<Rightarrow> Some y | None \<Rightarrow> find_map f xs)"

definition prefixed_hash :: "(byte list \<Rightarrow> byte list) \<Rightarrow> WorkflowIr \<Rightarrow> string" where
  "prefixed_hash sha256 ir = ''sha256:'' @ hex (canonical_hash sha256 ir)"

definition policy_limits :: "BehavioralPolicy \<Rightarrow> ProbeLimits" where
  "policy_limits policy = \<lparr>pl_max_steps = bp_max_steps policy, pl_timeout_ms = bp_timeout_ms policy\<rparr>"

definition script_admitted :: "string \<Rightarrow> BehavioralPolicy \<Rightarrow> 'o TrustedScript \<Rightarrow> bool" where
  "script_admitted hash policy script \<longleftrightarrow>
     bp_schema_version policy = 1
     \<and> (case bp_trajectory policy of None \<Rightarrow> True | Some p \<Rightarrow> tp_observer_mode p = None)
     \<and> matches_trajectory_policy script (map_option tp_schema_version (bp_trajectory policy))
     \<and> TrustedScript_matches_approval script hash (policy_limits policy)"

definition model_admitted :: "string \<Rightarrow> BehavioralPolicy \<Rightarrow> TrustedModelProbe \<Rightarrow> string \<Rightarrow> bool" where
  "model_admitted hash policy probe route \<longleftrightarrow>
     bp_schema_version policy = 2
     \<and> (case bp_trajectory policy of
          None \<Rightarrow> \<not> mp_reasoning_capture probe \<and> mp_monitor probe = None
        | Some p \<Rightarrow>
            if tp_schema_version p = 2
            then mp_reasoning_capture probe \<and> mp_monitor probe = None \<and> tp_observer_mode p = None
            else if tp_schema_version p = 3
            then mp_reasoning_capture probe
                 \<and> (case mp_monitor probe of None \<Rightarrow> False
                    | Some monitor \<Rightarrow> TrustedTrajectoryMonitor_valid monitor
                                      \<and> tp_observer_mode p = Some (tm_mode monitor))
            else False)
     \<and> TrustedModelProbe_matches_approval probe hash (policy_limits policy) route"

definition validate_admission ::
  "(byte list \<Rightarrow> byte list) \<Rightarrow> WorkflowIr \<Rightarrow> 'o BehavioralAdmission option \<Rightarrow> BindingValidationError + unit" where
  "validate_admission sha256 ir admission =
     (let policy = find_map node_behavioral (ir_nodes ir);
          invalid = (if (case admission of Some (AdmitModel _ _) \<Rightarrow> True | _ \<Rightarrow> False)
                        \<or> (case policy of None \<Rightarrow> False | Some p \<Rightarrow> bp_schema_version p = 2)
                     then InvalidSentinelModelProbe else InvalidSentinelScript);
          admitted = (case (policy, admission) of
              (None, None) \<Rightarrow> True
            | (Some policy, Some (AdmitScript script)) \<Rightarrow> script_admitted (prefixed_hash sha256 ir) policy script
            | (Some policy, Some (AdmitModel probe route)) \<Rightarrow>
                model_admitted (prefixed_hash sha256 ir) policy probe route
            | _ \<Rightarrow> False)
      in if admitted then Inr () else Inl invalid)"

section \<open>The pipeline\<close>

definition validated_ir ::
  "(byte list \<Rightarrow> byte list) \<Rightarrow> WorkflowSpec \<Rightarrow> 'o BehavioralAdmission option \<Rightarrow> ('p CompileError + WorkflowIr) option" where
  "validated_ir sha256 spec admission =
     (case res_bind (validate_approval_nodes spec) (\<lambda>_. validate_node_bindings spec) of
        Inl e \<Rightarrow> Some (Inl e)
      | Inr _ \<Rightarrow>
          let ir = WorkflowIr_from spec in
          map_option (\<lambda>graph.
            res_bind (map_err Graph graph) (\<lambda>_.
            res_bind (map_err State (validate_state ir)) (\<lambda>_.
            res_bind (map_err Binding (validate_admission sha256 ir admission)) (\<lambda>_.
              Inr ir)))) (validate_graph ir))"

record CompiledPlan =
  cpl_ir :: WorkflowIr
  cpl_registry_binding_count :: nat
  cpl_sentinel_script_identity :: "string option"
  cpl_sentinel_model_probe_identity :: "string option"

record 'i RegistryEntry =
  rge_implementation :: 'i
  rge_id :: string
  rge_version :: string

type_synonym 'i registry = "string \<Rightarrow> string \<Rightarrow> RegistryNotFound + 'i RegistryEntry"

definition BuiltinPredicateRegistry :: "unit registry" where
  "BuiltinPredicateRegistry i version =
     (if version = ''1.0.0''
         \<and> i \<in> {''coverage.decision@v1'', ''review.verdict@v1'', ''grounding.verdict@v1''}
      then Inr \<lparr>rge_implementation = (), rge_id = i, rge_version = version\<rparr>
      else Inl \<lparr>nf_category = CatPredicate, nf_id = i, nf_version = version\<rparr>)"

definition plan :: "WorkflowIr \<Rightarrow> nat \<Rightarrow> CompiledPlan" where
  "plan ir n = \<lparr>cpl_ir = ir, cpl_registry_binding_count = n, cpl_sentinel_script_identity = None,
     cpl_sentinel_model_probe_identity = None\<rparr>"

definition compile_without_predicates ::
  "(byte list \<Rightarrow> byte list) \<Rightarrow> WorkflowSpec \<Rightarrow> ('p CompileError + CompiledPlan) option" where
  "compile_without_predicates sha256 spec =
     map_option (\<lambda>r. res_bind r (\<lambda>ir.
       if ir_routes ir \<noteq> [] then Inl PredicateRegistryRequired else Inr (plan ir 0)))
       (validated_ir sha256 spec (None :: unit BehavioralAdmission option))"

definition compile_with_predicates ::
  "(byte list \<Rightarrow> byte list) \<Rightarrow> 'i registry \<Rightarrow> WorkflowSpec \<Rightarrow> ('p CompileError + CompiledPlan) option" where
  "compile_with_predicates sha256 registry spec =
     map_option (\<lambda>r. res_bind r (\<lambda>ir.
       res_bind (res_all (\<lambda>route. res_bind
           (map_err Registry (registry (irp_id (irt_predicate route)) (irp_version (irt_predicate route))))
           (\<lambda>_. Inr ())) (ir_routes ir)) (\<lambda>_.
         Inr (plan ir (length (ir_routes ir))))))
       (validated_ir sha256 spec (None :: unit BehavioralAdmission option))"

definition after_parse ::
  "'p + WorkflowSpec \<Rightarrow> (WorkflowSpec \<Rightarrow> ('p CompileError + 'a) option) \<Rightarrow> ('p CompileError + 'a) option" where
  "after_parse parsed compile = (case parsed of Inl e \<Rightarrow> Some (Inl (Parse e)) | Inr spec \<Rightarrow> compile spec)"

definition compile_str where
  "compile_str sha256 toml_parse toml_de toml_span source toml =
     after_parse (parse_str toml_parse toml_de toml_span source toml) (compile_without_predicates sha256)"

definition compile_str_with_predicates where
  "compile_str_with_predicates sha256 registry toml_parse toml_de toml_span source toml =
     after_parse (parse_str toml_parse toml_de toml_span source toml) (compile_with_predicates sha256 registry)"

definition compile_file where
  "compile_file sha256 open_file toml_parse toml_de toml_span path =
     after_parse (parse_file open_file toml_parse toml_de toml_span path)
       (compile_with_predicates sha256 BuiltinPredicateRegistry)"

definition compile_file_with_predicates where
  "compile_file_with_predicates sha256 registry open_file toml_parse toml_de toml_span path =
     after_parse (parse_file open_file toml_parse toml_de toml_span path) (compile_with_predicates sha256 registry)"

definition compile_spec_with_sentinel_script ::
  "(byte list \<Rightarrow> byte list) \<Rightarrow> ('o TrustedScript \<Rightarrow> string) \<Rightarrow> WorkflowSpec \<Rightarrow> 'o TrustedScript \<Rightarrow>
     ('p CompileError + CompiledPlan) option" where
  "compile_spec_with_sentinel_script sha256 identity spec script =
     map_option (\<lambda>r. res_bind r (\<lambda>ir. Inr ((plan ir 0)\<lparr>cpl_sentinel_script_identity := Some (identity script)\<rparr>)))
       (validated_ir sha256 spec (Some (AdmitScript script)))"

definition compile_spec_with_sentinel_model_probe ::
  "(byte list \<Rightarrow> byte list) \<Rightarrow> (TrustedModelProbe \<Rightarrow> string) \<Rightarrow> WorkflowSpec \<Rightarrow> TrustedModelProbe \<Rightarrow> string \<Rightarrow>
     ('p CompileError + CompiledPlan) option" where
  "compile_spec_with_sentinel_model_probe sha256 identity spec probe route =
     map_option (\<lambda>r. res_bind r (\<lambda>ir. Inr ((plan ir 0)\<lparr>cpl_sentinel_model_probe_identity := Some (identity probe)\<rparr>)))
       (validated_ir sha256 spec (Some (AdmitModel probe route) :: unit BehavioralAdmission option))"

section \<open>GraphBuilder\<close>

record RegistryBinding =
  rb_category :: RegistryCategory
  rb_id :: string
  rb_version :: string

record RegistryIdentityDrift =
  dr_category :: RegistryCategory
  dr_requested_id :: string
  dr_requested_version :: string
  dr_resolved_id :: string
  dr_resolved_version :: string

datatype 'p GraphBuildError =
    BuildCompile "'p CompileError"
  | BuildRegistry RegistryNotFound
  | IdentityDrift RegistryIdentityDrift

record ('m, 't, 'n, 'v, 'q, 's) GraphBuilder =
  gb_models :: "'m registry"
  gb_tools :: "'t registry"
  gb_nodes :: "'n registry"
  gb_validators :: "'v registry"
  gb_predicates :: "'q registry"
  gb_skills :: "'s registry"

definition check_identity ::
  "RegistryCategory \<Rightarrow> RegistryBinding \<Rightarrow> RegistryNotFound + 'i RegistryEntry \<Rightarrow> 'p GraphBuildError + unit" where
  "check_identity category binding result =
     res_bind (map_err BuildRegistry result) (\<lambda>entry.
       if rge_id entry \<noteq> rb_id binding \<or> rge_version entry \<noteq> rb_version binding
       then Inl (IdentityDrift \<lparr>dr_category = category, dr_requested_id = rb_id binding,
              dr_requested_version = rb_version binding, dr_resolved_id = rge_id entry,
              dr_resolved_version = rge_version entry\<rparr>)
       else Inr ())"

definition GraphBuilder_resolve ::
  "('m, 't, 'n, 'v, 'q, 's) GraphBuilder \<Rightarrow> RegistryBinding \<Rightarrow> 'p GraphBuildError + unit" where
  "GraphBuilder_resolve builder binding =
     (let c = rb_category binding; i = rb_id binding; v = rb_version binding in
      case c of
        CatModel \<Rightarrow> check_identity c binding (gb_models builder i v)
      | CatTool \<Rightarrow> check_identity c binding (gb_tools builder i v)
      | CatNode \<Rightarrow> check_identity c binding (gb_nodes builder i v)
      | CatValidator \<Rightarrow> check_identity c binding (gb_validators builder i v)
      | CatPredicate \<Rightarrow> check_identity c binding (gb_predicates builder i v)
      | CatSkill \<Rightarrow> check_identity c binding (gb_skills builder i v))"

definition route_binding :: "IrPredicateRoute \<Rightarrow> RegistryBinding" where
  "route_binding route = \<lparr>rb_category = CatPredicate, rb_id = irp_id (irt_predicate route),
     rb_version = irp_version (irt_predicate route)\<rparr>"

definition GraphBuilder_build ::
  "(byte list \<Rightarrow> byte list) \<Rightarrow> ('m, 't, 'n, 'v, 'q, 's) GraphBuilder \<Rightarrow> WorkflowSpec \<Rightarrow> RegistryBinding list \<Rightarrow>
     ('p GraphBuildError + CompiledPlan) option" where
  "GraphBuilder_build sha256 builder spec bindings =
     map_option (\<lambda>r.
       res_bind (map_err BuildCompile r) (\<lambda>ir.
       res_bind (res_all (\<lambda>route. check_identity CatPredicate (route_binding route)
           (gb_predicates builder (irp_id (irt_predicate route)) (irp_version (irt_predicate route))))
         (ir_routes ir)) (\<lambda>_.
       res_bind (res_all (GraphBuilder_resolve builder) bindings) (\<lambda>_.
         Inr (plan ir (length (ir_routes ir) + length bindings))))))
       (validated_ir sha256 spec (None :: unit BehavioralAdmission option))"

section \<open>Rendering\<close>

definition upper_hex_digit :: "nat \<Rightarrow> char" where
  "upper_hex_digit d = ''0123456789ABCDEF'' ! d"

definition byte_nat :: "char \<Rightarrow> nat" where
  "byte_nat c = of_char c"

definition node_name :: "string \<Rightarrow> string" where
  "node_name identifier =
     ''n'' @ concat (map (\<lambda>c. [hex_digit (byte_nat c div 16), hex_digit (byte_nat c mod 16)]) identifier)"

definition plain_byte :: "char \<Rightarrow> bool" where
  "plain_byte c \<longleftrightarrow> is_ascii_alphanumeric c \<or> c \<in> {CHR ''.'', CHR ''_'', CHR ''~'', CHR ''-''}"

definition encoded_identifier :: "string \<Rightarrow> string" where
  "encoded_identifier identifier =
     concat (map (\<lambda>c. if plain_byte c then [c]
        else [CHR ''%'', upper_hex_digit (byte_nat c div 16), upper_hex_digit (byte_nat c mod 16)]) identifier)"

fun kind_name :: "IrNodeKind \<Rightarrow> string" where
  "kind_name IrAgent = ''agent''"
| "kind_name IrAction = ''action''"
| "kind_name IrValidator = ''validator''"
| "kind_name IrRegistered = ''registered''"
| "kind_name IrApproval = ''approval''"
| "kind_name IrTerminal = ''terminal''"

definition newline :: char where
  "newline = CHR 0x0A"

definition mermaid_node :: "IrNode \<Rightarrow> string" where
  "mermaid_node node = ''  '' @ node_name (irn_id node) @ [CHR ''['', CHR 0x22] @ encoded_identifier (irn_id node)
     @ '' ('' @ kind_name (irn_kind node) @ [CHR '')'', CHR 0x22, CHR '']'', newline]"

definition mermaid_edge :: "IrEdge \<Rightarrow> string" where
  "mermaid_edge edge = ''  '' @ node_name (ire_from edge) @ '' --> '' @ node_name (ire_to edge) @ [newline]"

definition render_mermaid :: "CompiledPlan \<Rightarrow> string" where
  "render_mermaid p = ''graph TD'' @ [newline] @ concat (map mermaid_node (ir_nodes (cpl_ir p)))
     @ concat (map mermaid_edge (ir_edges (cpl_ir p)))"

end
