(* ===== verification/Compile_Correct.thy ===== *)
theory Compile_Correct
  imports Compile
begin

text \<open>
  What a successful compilation guarantees. The preflight checks are characterised on both
  sides (accepted exactly when the stated condition holds), and the guarantees are stated on the
  compiled IR, the object the runtime works with.
\<close>

section \<open>State preflight\<close>

text \<open>The specification of a well-declared state contract.\<close>

definition state_sound :: "WorkflowIr \<Rightarrow> bool" where
  "state_sound ir \<longleftrightarrow>
     (\<forall>n \<in> set (ir_nodes ir). \<forall>c. irn_agent_contract n = Some c \<longrightarrow>
        (\<exists>st. ir_state ir = Some st \<and> set (contract_keys c) \<subseteq> isy_name ` set (ist_keys st))) \<and>
     (\<forall>st. ir_state ir = Some st \<longrightarrow>
        ist_schema_id st \<noteq> [] \<and> ist_schema_version st = ''1'' \<and>
        set (ist_required_keys st) \<subseteq> isy_name ` set (ist_keys st) \<and>
        (\<forall>k \<in> set (ist_keys st). isy_name k \<noteq> [] \<and> isy_schema_id k \<noteq> [] \<and> isy_schema_version k \<noteq> [] \<and>
           isy_handle k \<in> {None, Some ''inline'', Some ''artifact''}))"

lemma state_declares_iff: "state_declares st k \<longleftrightarrow> k \<in> isy_name ` set (ist_keys st)"
  by (auto simp: state_declares_def list_ex_iff)

lemma contract_keys_ne: "set (contract_keys c) \<noteq> {}"
  by (simp add: contract_keys_def)

lemma check_contract_keys_ok:
  "check_contract_keys state node = Inr u \<longleftrightarrow>
     (\<forall>c. irn_agent_contract node = Some c \<longrightarrow>
        (\<exists>st. state = Some st \<and> set (contract_keys c) \<subseteq> isy_name ` set (ist_keys st)))"
proof (cases "irn_agent_contract node")
  case None
  then show ?thesis by (simp add: check_contract_keys_def)
next
  case (Some c)
  show ?thesis
  proof (cases state)
    case None
    then show ?thesis using Some contract_keys_ne [of c] by (auto simp: check_contract_keys_def res_all_Inr_iff)
  next
    case (Some st)
    then show ?thesis using \<open>irn_agent_contract node = Some c\<close>
      by (auto simp: check_contract_keys_def res_all_Inr_iff state_declares_iff split: if_splits)
  qed
qed

lemma check_named_ok: "check_named named = Inr u \<longleftrightarrow> (\<forall>(f, v) \<in> set named. v \<noteq> [])"
  by (auto simp: check_named_def res_all_Inr_iff split: if_splits)

lemma check_handle_ok: "check_handle k = Inr u \<longleftrightarrow> isy_handle k \<in> {None, Some ''inline'', Some ''artifact''}"
  by (auto simp: check_handle_def HANDLE_SHAPES_def split: option.splits)

lemma validate_state_iff: "validate_state ir = Inr u \<longleftrightarrow> state_sound ir"
proof (cases "ir_state ir")
  case None
  then show ?thesis
    by (auto simp: validate_state_def state_sound_def res_iffs res_all_Inr_iff check_contract_keys_ok)
next
  case (Some st)
  have "res_all (\<lambda>name. if state_declares st name then Inr () else Inl (StMissingRequiredKey name)) (ist_required_keys st) = Inr ()
      \<longleftrightarrow> set (ist_required_keys st) \<subseteq> isy_name ` set (ist_keys st)"
    by (auto simp: res_all_Inr_iff state_declares_iff split: if_splits)
  then show ?thesis using Some
    by (auto simp: validate_state_def state_sound_def res_iffs res_all_Inr_iff check_contract_keys_ok
        check_named_ok check_handle_ok state_key_fields_def STATE_SCHEMA_VERSION_V1_def)
qed

section \<open>Binding preflight\<close>

text \<open>The specification of well-placed bindings, node by node.\<close>

definition node_sound :: "WorkflowSpec \<Rightarrow> Node \<Rightarrow> bool" where
  "node_sound spec n \<longleftrightarrow>
     (nd_kind n = Approval \<longleftrightarrow> nd_timeout_ms n \<noteq> None) \<and> nd_timeout_ms n \<noteq> Some 0 \<and>
     (nd_kind n \<noteq> Agent \<longrightarrow>
        nd_model n = None \<and> nd_tools n = [] \<and> nd_skills n = [] \<and> nd_agent_contract n = None) \<and>
     (\<forall>m. nd_model n = Some m \<longrightarrow> mr_role m = Reviewer \<longrightarrow> nd_tools n = [] \<and> nd_skills n = []) \<and>
     (\<forall>t \<in> set (nd_tools n). \<not> is_reserved_skill_tool_name (tr_id t)) \<and>
     (\<forall>p. nd_untrusted_text n = Some p \<longrightarrow> \<not> invalid_preparation spec n p) \<and>
     (\<forall>f. nd_firewall n = Some f \<longrightarrow> \<not> invalid_firewall spec n f)"

lemma check_node_bindings_ok:
  "check_node_bindings spec n = Inr u \<longleftrightarrow>
     (\<forall>p. nd_untrusted_text n = Some p \<longrightarrow> \<not> invalid_preparation spec n p) \<and>
     (\<forall>f. nd_firewall n = Some f \<longrightarrow> \<not> invalid_firewall spec n f) \<and>
     (nd_kind n \<noteq> Agent \<longrightarrow>
        nd_model n = None \<and> nd_tools n = [] \<and> nd_skills n = [] \<and> nd_agent_contract n = None) \<and>
     (\<forall>m. nd_model n = Some m \<longrightarrow> mr_role m = Reviewer \<longrightarrow> nd_tools n = [] \<and> nd_skills n = []) \<and>
     (\<forall>t \<in> set (nd_tools n). \<not> is_reserved_skill_tool_name (tr_id t))"
  unfolding check_node_bindings_def by (auto simp: list_ex_iff split: option.splits if_splits)

lemma invalid_timeout_iff:
  "\<not> invalid_timeout n \<longleftrightarrow> (nd_kind n = Approval \<longleftrightarrow> nd_timeout_ms n \<noteq> None) \<and> nd_timeout_ms n \<noteq> Some 0"
  by (auto simp: invalid_timeout_def split: option.splits)

lemma preflight_ok:
  "res_bind (validate_approval_nodes spec) (\<lambda>_. validate_node_bindings spec) = Inr u \<longleftrightarrow>
     list_all (node_sound spec) (ws_nodes spec)"
proof -
  have "validate_approval_nodes spec = (Inr () :: 'a CompileError + unit) \<longleftrightarrow> (\<forall>n \<in> set (ws_nodes spec). \<not> invalid_timeout n)"
    by (auto simp: validate_approval_nodes_def res_all_Inr_iff split: if_splits)
  then show ?thesis
    unfolding res_bind_Inr_iff validate_node_bindings_def map_err_Inr_iff res_all_Inr_iff node_sound_def
      check_node_bindings_ok invalid_timeout_iff list_all_iff by auto
qed

section \<open>Admission\<close>

definition admission_ok :: "(byte list \<Rightarrow> byte list) \<Rightarrow> WorkflowIr \<Rightarrow> 'o BehavioralAdmission option \<Rightarrow> bool" where
  "admission_ok sha256 ir admission \<longleftrightarrow>
     (case admission of
        None \<Rightarrow> (\<forall>n \<in> set (ir_nodes ir). node_behavioral n = None)
      | Some (AdmitScript script) \<Rightarrow>
          (\<exists>p. find_map node_behavioral (ir_nodes ir) = Some p \<and> script_admitted (prefixed_hash sha256 ir) p script)
      | Some (AdmitModel probe route) \<Rightarrow>
          (\<exists>p. find_map node_behavioral (ir_nodes ir) = Some p \<and> model_admitted (prefixed_hash sha256 ir) p probe route))"

lemma find_map_None: "find_map f xs = None \<longleftrightarrow> (\<forall>x \<in> set xs. f x = None)"
  by (induction xs) (auto split: option.splits)

lemma validate_admission_iff: "validate_admission sha256 ir admission = Inr u \<longleftrightarrow> admission_ok sha256 ir admission"
  by (auto simp: validate_admission_def admission_ok_def Let_def find_map_None [symmetric]
      split: option.splits BehavioralAdmission.splits if_splits)

section \<open>The pipeline\<close>

lemma validated_ir_spec:
  "\<exists>r. validated_ir sha256 spec admission = (Some r :: ('p CompileError + WorkflowIr) option) \<and>
     (r = Inr ir \<longleftrightarrow> ir = WorkflowIr_from spec \<and> list_all (node_sound spec) (ws_nodes spec) \<and>
        sound_graph ir \<and> state_sound ir \<and> admission_ok sha256 ir admission)"
proof -
  obtain g where g: "validate_graph (WorkflowIr_from spec) = Some g" "g = Inr () \<longleftrightarrow> sound_graph (WorkflowIr_from spec)"
    using validate_graph_spec [OF ir_sorted, of spec] by blast
  show ?thesis
  proof (cases "res_bind (validate_approval_nodes spec) (\<lambda>_. validate_node_bindings spec) :: 'p CompileError + unit")
    case (Inl e)
    then have "\<not> list_all (node_sound spec) (ws_nodes spec)" using preflight_ok [where 'a = 'p, of spec] by auto
    then show ?thesis using Inl by (auto simp: validated_ir_def)
  next
    case (Inr u)
    then have "list_all (node_sound spec) (ws_nodes spec)" using preflight_ok [where 'a = 'p, of spec] by auto
    then show ?thesis using Inr g
      by (auto simp: validated_ir_def Let_def res_iffs validate_state_iff validate_admission_iff)
  qed
qed

text \<open>
  C2: The validation pipeline decides exactly the valid workflows. It always returns; it
  succeeds with the normalised workflow if and only if every node is well placed (timeouts on
  approval nodes only and positive, models, tools, skills and contracts on agents only, no tools
  for reviewers, no reserved tool names, preparation and firewall policies within their
  limits), the graph is sound, the state contract is sound, and behavioural policy and host
  admission match; otherwise it is an error.
\<close>

theorem validated_ir_iff:
  "(validated_ir sha256 spec admission :: ('p CompileError + WorkflowIr) option) \<noteq> None \<and>
   (validated_ir sha256 spec admission = (Some (Inr ir) :: ('p CompileError + WorkflowIr) option) \<longleftrightarrow>
      ir = WorkflowIr_from spec \<and> list_all (node_sound spec) (ws_nodes spec) \<and>
      sound_graph ir \<and> state_sound ir \<and> admission_ok sha256 ir admission)"
  using validated_ir_spec [where 'p = 'p, of sha256 spec admission ir] by (metis option.distinct(1) option.inject)

lemma validated_irD:
  assumes "validated_ir sha256 spec admission = (Some (Inr ir) :: ('p CompileError + WorkflowIr) option)"
  shows "ir = WorkflowIr_from spec" "\<And>n. n \<in> set (ws_nodes spec) \<Longrightarrow> node_sound spec n" "sound_graph ir" "state_sound ir"
    "admission_ok sha256 ir admission"
  using validated_ir_spec [where 'p = 'p, of sha256 spec admission ir] assms by (auto simp: list_all_iff)

section \<open>Guarantees on the compiled IR\<close>

lemma ir_nodes_set: "set (ir_nodes (WorkflowIr_from spec)) = ir_node ` set (ws_nodes spec)"
  by (simp add: WorkflowIr_from_def)

lemma ir_node_fields [simp]:
  "irn_id (ir_node n) = nd_id n" "irn_firewall (ir_node n) = nd_firewall n"
  "irn_kind (ir_node n) = IrNodeKind_from (nd_kind n)" "irn_untrusted_text (ir_node n) = nd_untrusted_text n"
  "irn_agent_contract (ir_node n) = nd_agent_contract n"
  by (simp_all add: ir_node_def Let_def)

lemma IrNodeKind_from_inj [simp]: "IrNodeKind_from a = IrNodeKind_from b \<longleftrightarrow> a = b"
  by (cases a; cases b; simp)

lemma flow_target:
  assumes "(x, y) \<in> flow (WorkflowIr_from spec)"
  shows "list_ex (\<lambda>e. ed_to e = y) (ws_edges spec) \<or>
         list_ex (\<lambda>r. list_ex (\<lambda>c. rc_target c = y) (rt_cases r) \<or> rt_default r = Some y) (ws_routes spec)"
  using assms
  by (auto simp: flow_def WorkflowIr_from_def route_arcs_def route_targets_def ir_edge_def ir_route_def list_ex_iff
      split: option.splits) blast+

text \<open>
  C3: The injection firewall is a hard gate. In a compiled workflow a node with a firewall
  contract is the entry node, a validator with a well-formed policy identity; nothing leads back
  to it, every node is reached through it, and it is the only one.
\<close>

theorem firewall_gate:
  assumes "validated_ir sha256 spec admission = (Some (Inr ir) :: ('p CompileError + WorkflowIr) option)"
    and "n \<in> set (ir_nodes ir)" and "irn_firewall n = Some f"
  shows "irn_id n = ir_entry_node_id ir \<and> irn_kind n = IrValidator \<and> lower_hex64 (fw_identity f) \<and>
         (\<forall>x. (x, irn_id n) \<notin> flow ir) \<and>
         (\<forall>m \<in> set (ir_nodes ir). (irn_id n, irn_id m) \<in> (flow ir)\<^sup>*) \<and>
         (\<forall>m \<in> set (ir_nodes ir). irn_firewall m \<noteq> None \<longrightarrow> m = n)"
proof -
  note V = validated_irD [OF assms(1)]
  have gate: "irn_id m = ir_entry_node_id ir \<and> irn_kind m = IrValidator \<and> lower_hex64 (fw_identity g) \<and>
      (\<forall>x. (x, irn_id m) \<notin> flow ir)" if m: "m \<in> set (ir_nodes ir)" "irn_firewall m = Some g" for m g
  proof -
    obtain a where a: "a \<in> set (ws_nodes spec)" "m = ir_node a" using m(1) V(1) ir_nodes_set by auto
    have "\<not> invalid_firewall spec a g" using V(2) [OF a(1)] m(2) a(2) by (auto simp: node_sound_def)
    moreover have "ir_entry_node_id ir = wf_entry (ws_workflow spec)" using V(1) by (simp add: WorkflowIr_from_def)
    ultimately show ?thesis using a(2) V(1) flow_target [of _ "nd_id a" spec]
      by (auto simp: invalid_firewall_def lower_hex64_def)
  qed
  have "m = n" if "m \<in> set (ir_nodes ir)" "irn_firewall m \<noteq> None" for m
  proof -
    have "irn_id m = irn_id n" using gate [OF that(1)] gate [OF assms(2,3)] that(2) by auto
    moreover have "inj_on irn_id (set (ir_nodes ir))" using V(3) by (simp add: sound_graph_def distinct_map)
    ultimately show ?thesis using that(1) assms(2) by (auto dest: inj_onD)
  qed
  moreover have "\<forall>m \<in> set (ir_nodes ir). (irn_id n, irn_id m) \<in> (flow ir)\<^sup>*"
    using V(3) gate [OF assms(2,3)] by (simp add: sound_graph_def)
  ultimately show ?thesis using gate [OF assms(2,3)] by blast
qed

text \<open>
  C8: Least privilege in the compiled IR. Only agent nodes carry models, tools, skills or agent
  contracts; a reviewer model owns no tools and no skills; no static tool takes a name of the
  Skill runtime; approval nodes, and only they, have a timeout, and it is positive.
\<close>

theorem compiled_least_privilege:
  assumes "validated_ir sha256 spec admission = (Some (Inr ir) :: ('p CompileError + WorkflowIr) option)"
    and "n \<in> set (ir_nodes ir)"
  shows "(irn_kind n = IrAgent \<or> irn_model n = None \<and> irn_tools n = [] \<and> irn_skills n = [] \<and> irn_agent_contract n = None) \<and>
         (\<forall>m. irn_model n = Some m \<longrightarrow> im_role m = IrReviewer \<longrightarrow> irn_tools n = [] \<and> irn_skills n = []) \<and>
         (\<forall>t \<in> set (irn_tools n). \<not> is_reserved_skill_tool_name (itl_id t)) \<and>
         (irn_kind n = IrApproval \<longleftrightarrow> irn_timeout_ms n \<noteq> None) \<and> irn_timeout_ms n \<noteq> Some 0"
proof -
  note V = validated_irD [OF assms(1)]
  obtain a where a: "a \<in> set (ws_nodes spec)" "n = ir_node a" using assms(2) V(1) ir_nodes_set by auto
  have tools: "set (irn_tools n) = (\<lambda>t. \<lparr>itl_id = tr_id t, itl_version = tr_version t\<rparr>) ` set (nd_tools a)"
    "irn_tools n = [] \<longleftrightarrow> nd_tools a = []" "irn_skills n = [] \<longleftrightarrow> nd_skills a = []"
    "irn_model n = None \<longleftrightarrow> nd_model a = None"
    using a(2) by (simp_all add: ir_node_def Let_def flip: set_empty)
  have role: "\<exists>m'. nd_model a = Some m' \<and> (im_role m = IrReviewer \<longrightarrow> mr_role m' = Reviewer)"
    if "irn_model n = Some m" for m
    using that a(2) by (auto simp: ir_node_def Let_def elim: IrModelRole_from.elims)
  have time: "irn_timeout_ms n = (if nd_kind a = Approval then nd_timeout_ms a else None)"
    using a(2) IrNodeKind_from_inj [of "nd_kind a" Approval] by (simp add: ir_node_def Let_def)
  have kinds: "irn_kind n = IrAgent \<longleftrightarrow> nd_kind a = Agent" "irn_kind n = IrApproval \<longleftrightarrow> nd_kind a = Approval"
    using a(2) IrNodeKind_from_inj [of "nd_kind a" Agent] IrNodeKind_from_inj [of "nd_kind a" Approval] by simp_all
  note N = V(2) [OF a(1), unfolded node_sound_def]
  have "\<forall>t \<in> set (irn_tools n). \<not> is_reserved_skill_tool_name (itl_id t)" using N unfolding tools(1) by simp
  moreover have "irn_agent_contract n = nd_agent_contract a" using a(2) by simp
  ultimately show ?thesis unfolding tools(2-4) kinds time using N role by auto
qed

section \<open>Behavioural policies need the host\<close>

lemma preparation_single:
  assumes "validated_ir sha256 spec admission = (Some (Inr ir) :: ('p CompileError + WorkflowIr) option)"
    and "find_map node_behavioral (ir_nodes ir) = Some p"
  shows "\<exists>n. ir_nodes ir = [n] \<and> irn_kind n = IrTerminal \<and> node_behavioral n = Some p \<and> ir_edges ir = [] \<and> ir_routes ir = []"
proof -
  note V = validated_irD [OF assms(1)]
  have "\<exists>n \<in> set ns. node_behavioral n = Some p" if "find_map node_behavioral ns = Some p" for ns
    using that by (induction ns) (auto split: option.splits)
  then obtain n where n: "n \<in> set (ir_nodes ir)" "node_behavioral n = Some p" using assms(2) by blast
  then obtain a q where a: "a \<in> set (ws_nodes spec)" "n = ir_node a" "nd_untrusted_text a = Some q"
    using V(1) ir_nodes_set by (auto simp: node_behavioral_def bind_eq_Some_conv)
  have ok: "\<not> invalid_preparation spec a q" using V(2) [OF a(1)] a(3) by (simp add: node_sound_def)
  then have "length (ws_nodes spec) = 1" "ws_edges spec = []" "ws_routes spec = []" "nd_kind a = Terminal"
    by (auto simp: invalid_preparation_def)
  then have "ws_nodes spec = [a]" using a(1) by (auto simp: length_Suc_conv)
  then show ?thesis using V(1) a n \<open>ws_edges spec = []\<close> \<open>ws_routes spec = []\<close> \<open>nd_kind a = Terminal\<close>
    by (simp add: WorkflowIr_from_def)
qed

text \<open>
  C30: Without a host capability no behavioural policy compiles: in a workflow that passes
  validation with no admission, no node opts into behavioural execution.
\<close>

theorem behavioral_needs_admission:
  assumes "validated_ir sha256 spec (None :: 'o BehavioralAdmission option)
             = (Some (Inr ir) :: ('p CompileError + WorkflowIr) option)"
  shows "list_all (\<lambda>n. node_behavioral n = None) (ir_nodes ir)"
  using validated_irD(5) [OF assms] by (simp add: admission_ok_def list_all_iff)

text \<open>
  C9: A script approval covers exactly one workflow. If a workflow compiles against a script
  that the host authorised (with or without a trajectory observer attached), then the approved
  hash is the canonical hash of the compiled IR, the workflow is a single terminal node with a
  version 1 behavioural policy, the policy limits are the approved ones and within the hard
  ceilings (1 to 32 steps, 1 to 1000 ms), and the plan carries the identity of that script.
\<close>

theorem script_approval_exact:
  assumes "TrustedScript_authorize from_slice h src prov revision bytes limits = Inr script0"
    and "script = script0 \<or> with_trajectory_observer parse_summary script0 task summary = Inr script"
    and "compile_spec_with_sentinel_script sha256 identity spec script
           = (Some (Inr p) :: ('p CompileError + CompiledPlan) option)"
  shows "h = prefixed_hash sha256 (cpl_ir p) \<and> valid_digest h \<and>
         cpl_sentinel_script_identity p = Some (identity script) \<and>
         (\<exists>n b. ir_nodes (cpl_ir p) = [n] \<and> irn_kind n = IrTerminal \<and> node_behavioral n = Some b \<and>
            bp_schema_version b = 1 \<and> policy_limits b = limits \<and>
            1 \<le> pl_max_steps limits \<and> pl_max_steps limits \<le> 32 \<and>
            1 \<le> pl_timeout_ms limits \<and> pl_timeout_ms limits \<le> 1000 \<and>
            (bp_trajectory b = None \<longleftrightarrow> ts_observer script = None))"
proof -
  have 0: "ts_approved_ir_hash script0 = h" "ts_limits script0 = limits" "valid_digest h"
    "ProbeLimits_validate limits = Inr ()"
    using assms(1) by (auto simp: TrustedScript_authorize_def res_iffs split: if_splits)
  then have s: "ts_approved_ir_hash script = h" "ts_limits script = limits"
    using assms(2) by (auto simp: with_trajectory_observer_def split: if_splits)
  obtain ir where ir: "validated_ir sha256 spec (Some (AdmitScript script)) = (Some (Inr ir) :: ('p CompileError + WorkflowIr) option)"
    and p: "p = (plan ir 0)\<lparr>cpl_sentinel_script_identity := Some (identity script)\<rparr>"
    using assms(3) by (auto simp: compile_spec_with_sentinel_script_def res_iffs)
  obtain b where b: "find_map node_behavioral (ir_nodes ir) = Some b" "script_admitted (prefixed_hash sha256 ir) b script"
    using validated_irD(5) [OF ir] by (auto simp: admission_ok_def)
  have "1 \<le> pl_max_steps limits \<and> pl_max_steps limits \<le> 32 \<and> 1 \<le> pl_timeout_ms limits \<and> pl_timeout_ms limits \<le> 1000"
    using 0(4) by (auto simp: ProbeLimits_validate_def split: if_splits)
  moreover have "h = prefixed_hash sha256 ir" "policy_limits b = limits" "bp_schema_version b = 1"
    "bp_trajectory b = None \<longleftrightarrow> ts_observer script = None"
    using b(2) s by (auto simp: script_admitted_def TrustedScript_matches_approval_def matches_trajectory_policy_def)
  ultimately show ?thesis
    using preparation_single [OF ir b(1)] 0(3) p by (auto simp: plan_def)
qed

section \<open>Registries\<close>

text \<open>The contract of the registry traits: a lookup answers with the identity it was asked for.\<close>

locale exact_registry =
  fixes resolve :: "'i registry"
  assumes exact: "resolve i v = Inr entry \<Longrightarrow> rge_id entry = i \<and> rge_version entry = v"
begin

lemma no_drift:
  "check_identity c \<lparr>rb_category = c, rb_id = i, rb_version = v\<rparr> (resolve i v)
     = map_err BuildRegistry (res_bind (resolve i v) (\<lambda>_. Inr ()))"
  using exact [of i v] by (cases "resolve i v") (auto simp: check_identity_def)

lemma builder_agrees:
  assumes "gb_predicates builder = resolve"
  shows "GraphBuilder_build sha256 builder spec [] = (Some (Inr p) :: ('p GraphBuildError + CompiledPlan) option) \<longleftrightarrow>
         compile_with_predicates sha256 resolve spec = (Some (Inr p) :: ('p CompileError + CompiledPlan) option)"
proof -
  have "check_identity CatPredicate (route_binding r) (resolve (irp_id (irt_predicate r)) (irp_version (irt_predicate r)))
      = (Inr u :: 'p GraphBuildError + unit) \<longleftrightarrow>
      res_bind (map_err Registry (resolve (irp_id (irt_predicate r)) (irp_version (irt_predicate r)))) (\<lambda>_. Inr ())
      = (Inr u :: 'p CompileError + unit)" for r u
    unfolding route_binding_def no_drift by (auto simp: res_iffs)
  then have "res_all (\<lambda>r. check_identity CatPredicate (route_binding r)
        (resolve (irp_id (irt_predicate r)) (irp_version (irt_predicate r)))) rs = (Inr u :: 'p GraphBuildError + unit) \<longleftrightarrow>
      res_all (\<lambda>r. res_bind (map_err Registry (resolve (irp_id (irt_predicate r)) (irp_version (irt_predicate r))))
        (\<lambda>_. Inr ())) rs = (Inr u :: 'p CompileError + unit)" for rs u
    unfolding res_all_Inr_iff by blast
  then show ?thesis
    unfolding GraphBuilder_build_def compile_with_predicates_def using assms by (auto simp: res_iffs)
qed

end

interpretation builtin: exact_registry BuiltinPredicateRegistry
  by unfold_locales (auto simp: BuiltinPredicateRegistry_def split: if_splits)

text \<open>
  C42: The two ways to compile with the built-in predicates agree: a graph builder whose
  predicate registry is the built-in one, asked for no further bindings, produces a plan exactly
  when \<open>compile_with_predicates\<close> does, and the same one.
\<close>

theorem builder_agrees_with_compile:
  "GraphBuilder_build sha256 (builder\<lparr>gb_predicates := BuiltinPredicateRegistry\<rparr>) spec []
     = (Some (Inr p) :: ('p GraphBuildError + CompiledPlan) option) \<longleftrightarrow>
   compile_with_predicates sha256 BuiltinPredicateRegistry spec = (Some (Inr p) :: ('p CompileError + CompiledPlan) option)"
  by (rule builtin.builder_agrees) simp

definition resolved_exactly :: "'i registry \<Rightarrow> string \<Rightarrow> string \<Rightarrow> bool" where
  "resolved_exactly registry i v \<longleftrightarrow> (\<exists>e. registry i v = Inr e \<and> rge_id e = i \<and> rge_version e = v)"

lemma check_identity_ok:
  "check_identity c b r = Inr u \<longleftrightarrow> (\<exists>e. r = Inr e \<and> rge_id e = rb_id b \<and> rge_version e = rb_version b)"
  by (cases r) (auto simp: check_identity_def)

text \<open>
  C38: Whatever the registries answer, a built plan only rests on exact identities: every
  predicate route and every requested binding was resolved by the registry of its category to an
  entry with the requested identifier and version, and the plan counts them all.
\<close>

theorem builder_exact:
  assumes "GraphBuilder_build sha256 builder spec bindings = (Some (Inr p) :: ('p GraphBuildError + CompiledPlan) option)"
  shows "cpl_ir p = WorkflowIr_from spec \<and>
         cpl_registry_binding_count p = length (ir_routes (cpl_ir p)) + length bindings \<and>
         list_all (\<lambda>r. resolved_exactly (gb_predicates builder) (irp_id (irt_predicate r)) (irp_version (irt_predicate r)))
           (ir_routes (cpl_ir p)) \<and>
         list_all (\<lambda>b. (case rb_category b of
              CatModel \<Rightarrow> resolved_exactly (gb_models builder) | CatTool \<Rightarrow> resolved_exactly (gb_tools builder)
            | CatNode \<Rightarrow> resolved_exactly (gb_nodes builder) | CatValidator \<Rightarrow> resolved_exactly (gb_validators builder)
            | CatPredicate \<Rightarrow> resolved_exactly (gb_predicates builder) | CatSkill \<Rightarrow> resolved_exactly (gb_skills builder))
              (rb_id b) (rb_version b)) bindings"
proof -
  obtain ir where ir: "validated_ir sha256 spec (None :: unit BehavioralAdmission option) = (Some (Inr ir) :: ('p CompileError + WorkflowIr) option)"
    and p: "p = plan ir (length (ir_routes ir) + length bindings)"
    and r: "res_all (\<lambda>route. check_identity CatPredicate (route_binding route)
           (gb_predicates builder (irp_id (irt_predicate route)) (irp_version (irt_predicate route))))
         (ir_routes ir) = (Inr () :: 'p GraphBuildError + unit)"
    and b: "res_all (GraphBuilder_resolve builder) bindings = (Inr () :: 'p GraphBuildError + unit)"
    using assms by (auto simp: GraphBuilder_build_def res_iffs)
  have "list_all (\<lambda>r. resolved_exactly (gb_predicates builder) (irp_id (irt_predicate r)) (irp_version (irt_predicate r)))
      (ir_routes ir)"
    using r by (auto simp: res_all_Inr_iff check_identity_ok route_binding_def resolved_exactly_def list_all_iff)
  moreover have "list_all (\<lambda>b. (case rb_category b of
              CatModel \<Rightarrow> resolved_exactly (gb_models builder) | CatTool \<Rightarrow> resolved_exactly (gb_tools builder)
            | CatNode \<Rightarrow> resolved_exactly (gb_nodes builder) | CatValidator \<Rightarrow> resolved_exactly (gb_validators builder)
            | CatPredicate \<Rightarrow> resolved_exactly (gb_predicates builder) | CatSkill \<Rightarrow> resolved_exactly (gb_skills builder))
              (rb_id b) (rb_version b)) bindings"
    using b unfolding res_all_Inr_iff list_all_iff
    by (auto simp: GraphBuilder_resolve_def Let_def check_identity_ok resolved_exactly_def split: RegistryCategory.splits)
  ultimately show ?thesis using p validated_irD(1) [OF ir] by (simp add: plan_def)
qed

section \<open>Rendering\<close>

lemma hex_pair_inj:
  assumes d: "distinct digits" "length digits = 16"
    and eq: "digits ! (byte_nat b div 16) = digits ! (byte_nat c div 16)" "digits ! (byte_nat b mod 16) = digits ! (byte_nat c mod 16)"
  shows "b = c"
proof -
  have lt: "byte_nat x div 16 < 16" "byte_nat x mod 16 < 16" for x
    using nat_of_char_less_256 [of x] by (auto simp: byte_nat_def less_mult_imp_div_less)
  have "byte_nat b div 16 = byte_nat c div 16" "byte_nat b mod 16 = byte_nat c mod 16"
    using eq d lt by (auto simp: nth_eq_iff_index_eq)
  then have "byte_nat b = byte_nat c" by (metis mult_div_mod_eq)
  then show ?thesis by (simp add: byte_nat_def)
qed

lemma digits_plain:
  assumes "list_all P digits" "length digits = 16"
  shows "P (digits ! (byte_nat c div 16))" "P (digits ! (byte_nat c mod 16))"
proof -
  have "byte_nat c div 16 < length digits" "byte_nat c mod 16 < length digits"
    using nat_of_char_less_256 [of c] assms(2) by (auto simp: byte_nat_def less_mult_imp_div_less)
  then show "P (digits ! (byte_nat c div 16))" "P (digits ! (byte_nat c mod 16))"
    using assms(1) unfolding list_all_length by blast+
qed

lemma node_name_inj: "node_name s = node_name t \<Longrightarrow> s = t"
proof -
  have "concat (map (\<lambda>c. [hex_digit (byte_nat c div 16), hex_digit (byte_nat c mod 16)]) s)
      = concat (map (\<lambda>c. [hex_digit (byte_nat c div 16), hex_digit (byte_nat c mod 16)]) t) \<Longrightarrow> s = t"
  proof (induction s arbitrary: t)
    case Nil
    then show ?case by (cases t) auto
  next
    case (Cons c s)
    then obtain d t' where t: "t = d # t'" by (cases t) auto
    have "c = d" using Cons.prems t hex_pair_inj [of "''0123456789abcdef''" c d] by (simp add: hex_digit_def)
    then show ?case using Cons t by simp
  qed
  then show "node_name s = node_name t \<Longrightarrow> s = t" by (simp add: node_name_def)
qed

lemma encoded_identifier_inj: "encoded_identifier s = encoded_identifier t \<Longrightarrow> s = t"
proof (induction s arbitrary: t)
  case Nil
  then show ?case by (cases t) (auto simp: encoded_identifier_def split: if_splits)
next
  case (Cons c s)
  then obtain d t' where t: "t = d # t'" by (cases t) (auto simp: encoded_identifier_def split: if_splits)
  have pct: "\<not> plain_byte (CHR ''%'')" by code_simp
  have "c = d \<and> encoded_identifier s = encoded_identifier t'"
    using Cons.prems t pct hex_pair_inj [of "''0123456789ABCDEF''" c d]
    by (auto simp: encoded_identifier_def upper_hex_digit_def split: if_splits)
  then show ?case using Cons.IH t by simp
qed

text \<open>
  C35: Rendered diagrams cannot be forged by identifiers. The label of a node uses only letters,
  digits and the bytes \<open>. _ ~ - %\<close>, its name only letters and digits, so no identifier can close a
  quote, a bracket or a line; and different identifiers get different labels and different names.
\<close>

theorem mermaid_identifiers_safe:
  "list_all (\<lambda>c. plain_byte c \<or> c = CHR ''%'') (encoded_identifier s) \<and>
   list_all is_ascii_alphanumeric (node_name s) \<and>
   (encoded_identifier s = encoded_identifier t \<longleftrightarrow> s = t) \<and> (node_name s = node_name t \<longleftrightarrow> s = t)"
proof -
  have up: "list_all plain_byte ''0123456789ABCDEF''" and low: "list_all is_ascii_alphanumeric ''0123456789abcdef''"
    by code_simp+
  have n: "is_ascii_alphanumeric (CHR ''n'')" by code_simp
  have "list_all (\<lambda>c. plain_byte c \<or> c = CHR ''%'') (encoded_identifier s)"
    using digits_plain [OF up] by (induction s) (auto simp: encoded_identifier_def upper_hex_digit_def)
  moreover have "list_all is_ascii_alphanumeric (node_name s)"
    using digits_plain [OF low] n by (induction s) (auto simp: node_name_def hex_digit_def)
  ultimately show ?thesis using encoded_identifier_inj node_name_inj by blast
qed

section \<open>A gated workflow and a scripted one\<close>

definition gate_node :: Node where
  "gate_node = (plain_node ''a'' Validator)\<lparr>nd_firewall := Some \<lparr>fw_schema_version = 1,
     fw_identity = replicate 64 (CHR ''a'')\<rparr>\<rparr>"

definition gated :: WorkflowSpec where
  "gated = two_step [gate_node, plain_node ''b'' Terminal]"

lemma gated_valid:
  "validated_ir (\<lambda>_. []) gated (None :: unit BehavioralAdmission option)
     = (Some (Inr (WorkflowIr_from gated)) :: (unit CompileError + WorkflowIr) option)"
  by code_simp

lemma gate_in_ir: "ir_node gate_node \<in> set (ir_nodes (WorkflowIr_from gated))"
  by (simp add: ir_nodes_set gated_def two_step_def)

theorem firewall_gate_witness:
  "irn_id (ir_node gate_node) = ''a'' \<and> (\<forall>x. (x, ''a'') \<notin> flow (WorkflowIr_from gated))"
proof -
  have "irn_firewall (ir_node gate_node) = Some \<lparr>fw_schema_version = 1, fw_identity = replicate 64 (CHR ''a'')\<rparr>"
    by (simp add: gate_node_def)
  from firewall_gate [OF gated_valid gate_in_ir this] show ?thesis
    by (auto simp: WorkflowIr_from_def gated_def two_step_def)
qed

theorem compiled_least_privilege_witness: "irn_tools (ir_node gate_node) = []"
  using compiled_least_privilege [OF gated_valid gate_in_ir] by (auto simp: gate_node_def plain_node_def ir_node_def Let_def)

theorem behavioral_needs_admission_witness:
  "list_all (\<lambda>n. node_behavioral n = None) (ir_nodes (WorkflowIr_from gated))"
  by (rule behavioral_needs_admission [OF gated_valid])

definition builtin_builder :: "(unit, unit, unit, unit, unit, unit) GraphBuilder" where
  "builtin_builder = \<lparr>gb_models = BuiltinPredicateRegistry, gb_tools = BuiltinPredicateRegistry,
     gb_nodes = BuiltinPredicateRegistry, gb_validators = BuiltinPredicateRegistry,
     gb_predicates = BuiltinPredicateRegistry, gb_skills = BuiltinPredicateRegistry\<rparr>"

theorem builder_exact_witness:
  "cpl_registry_binding_count (plan (WorkflowIr_from gated) 1) = 1 \<and>
   resolved_exactly BuiltinPredicateRegistry ''review.verdict@v1'' ''1.0.0''"
proof -
  let ?b = "\<lparr>rb_category = CatPredicate, rb_id = ''review.verdict@v1'', rb_version = ''1.0.0''\<rparr>"
  have "GraphBuilder_build (\<lambda>_. []) builtin_builder gated [?b]
      = (Some (Inr (plan (WorkflowIr_from gated) 1)) :: (unit GraphBuildError + CompiledPlan) option)"
    unfolding GraphBuilder_build_def gated_valid
    by (simp add: WorkflowIr_from_def gated_def two_step_def GraphBuilder_resolve_def Let_def check_identity_ok
        check_identity_def builtin_builder_def BuiltinPredicateRegistry_def)
  from builder_exact [OF this] show ?thesis by (simp add: builtin_builder_def plan_def)
qed

definition scripted :: WorkflowSpec where
  "scripted = (two_step [(plain_node ''a'' Terminal)\<lparr>nd_untrusted_text := Some \<lparr>ut_schema_version = 1,
     ut_max_input_bytes = 100, ut_en = True, ut_zh = False, ut_ja = False,
     ut_behavioral = Some \<lparr>bp_schema_version = 1, bp_max_steps = 8, bp_timeout_ms = 100, bp_trajectory = None\<rparr>\<rparr>\<rparr>])\<lparr>ws_edges := []\<rparr>"

definition zero_digest :: "byte list \<Rightarrow> byte list" where
  "zero_digest _ = replicate 32 0"

definition approved :: "unit TrustedScript" where
  "approved = \<lparr>ts_approved_ir_hash = ''sha256:'' @ replicate 64 (CHR ''0''), ts_approved_source = ''s'',
     ts_provenance = sample_provenance UntrustedContent, ts_revision = ''r'',
     ts_script = \<lparr>sc_schema_version = 1, sc_steps = []\<rparr>, ts_limits = ProbeLimits_default, ts_observer = None\<rparr>"

theorem script_approval_exact_witness:
  "''sha256:'' @ replicate 64 (CHR ''0'') = prefixed_hash zero_digest (WorkflowIr_from scripted)"
proof -
  have 1: "TrustedScript_authorize (\<lambda>_. Some \<lparr>sc_schema_version = 1, sc_steps = []\<rparr>)
      (''sha256:'' @ replicate 64 (CHR ''0'')) ''s'' (sample_provenance UntrustedContent) ''r'' [] ProbeLimits_default = Inr approved"
    by code_simp
  have 2: "compile_spec_with_sentinel_script zero_digest (\<lambda>_. ''i'') scripted approved
      = (Some (Inr ((plan (WorkflowIr_from scripted) 0)\<lparr>cpl_sentinel_script_identity := Some ''i''\<rparr>))
         :: (unit CompileError + CompiledPlan) option)"
    by code_simp
  show ?thesis using script_approval_exact [OF 1 _ 2] by (simp add: plan_def)
qed

end
