(* ===== verification/Canonical_Identity.thy ===== *)
theory Canonical_Identity
  imports Ir_Wire Compile_Correct
begin

text \<open>
  How far the canonical hash identifies a compiled workflow. Within one layout it does
  (\<open>Ir_Wire\<close>). Across layouts it does not: the optional trailing sections of the wire (routes,
  state, exchange, resources) carry no tag that says which of them follows, and the wire version
  is raised by the first feature that needs it, not by the set of sections present. Two
  workflows that the compiler accepts are given whose canonical bytes coincide.
\<close>

definition be8 :: "nat \<Rightarrow> string" where
  "be8 n = replicate 7 (CHR 0x00) @ [char_of n]"

definition framed :: "string \<Rightarrow> string" where
  "framed s = be8 (length s) @ s"

definition done_only :: WorkflowSpec where
  "done_only = (two_step [(plain_node ''a'' Terminal)\<lparr>nd_idempotent := True\<rparr>])\<lparr>ws_edges := []\<rparr>"

text \<open>One state key with a name of 127 bytes, and no resources.\<close>

definition with_state :: WorkflowSpec where
  "with_state = done_only\<lparr>ws_state := Some
     \<lparr>st_schema_id = be8 33, st_schema_version = ''1'', st_required_keys = [],
      st_keys = [\<lparr>sk_name = framed [] @ concat (replicate 6 (framed ''a'' @ framed [])) @ framed ''a'' @ be8 19,
                  sk_schema_id = ''s'', sk_schema_version = ''1'', sk_handle = None\<rparr>]\<rparr>\<rparr>"

text \<open>No state, and eight resources.\<close>

definition with_resources :: WorkflowSpec where
  "with_resources = done_only\<lparr>ws_resources :=
     \<lparr>res_path = be8 1 @ ''1'' @ be8 0 @ be8 1 @ be8 127, res_sha256 = []\<rparr>
     # replicate 6 \<lparr>res_path = ''a'', res_sha256 = []\<rparr>
     @ [\<lparr>res_path = ''a'', res_sha256 = framed ''s'' @ framed ''1'' @ [CHR 0x00]\<rparr>]\<rparr>"

lemma validated_any_hash:
  assumes "validated_ir sha256 spec (None :: unit BehavioralAdmission option) = (Some (Inr ir) :: ('p CompileError + WorkflowIr) option)"
  shows "validated_ir sha256' spec (None :: unit BehavioralAdmission option) = (Some (Inr ir) :: ('p CompileError + WorkflowIr) option)"
  using validated_ir_spec [where 'p = 'p, of sha256 spec "None :: unit BehavioralAdmission option" ir]
    validated_ir_spec [where 'p = 'p, of sha256' spec "None :: unit BehavioralAdmission option" ir] assms
  by (auto simp: admission_ok_def)

lemma with_state_valid:
  "validated_ir (\<lambda>_. []) with_state (None :: unit BehavioralAdmission option)
     = (Some (Inr (WorkflowIr_from with_state)) :: (unit CompileError + WorkflowIr) option)"
  by code_simp

lemma with_resources_valid:
  "validated_ir (\<lambda>_. []) with_resources (None :: unit BehavioralAdmission option)
     = (Some (Inr (WorkflowIr_from with_resources)) :: (unit CompileError + WorkflowIr) option)"
  by code_simp

lemma same_bytes:
  "encode_canonical (WorkflowIr_from with_state) = encode_canonical (WorkflowIr_from with_resources)"
  by code_simp

lemma no_routes: "ir_routes (WorkflowIr_from with_state) = []" "ir_routes (WorkflowIr_from with_resources) = []"
  by (simp_all add: WorkflowIr_from_def with_state_def with_resources_def done_only_def two_step_def)

text \<open>
  C6: The canonical hash does not identify a compiled workflow. There are two authored workflows
  that the compiler accepts, one that declares a state section and no resources, one that
  declares resources and no state, whose compiled IRs differ and whose canonical bytes are equal:
  they have the same canonical hash under every hash function.
\<close>

theorem canonical_identity_collision:
  "\<exists>p q. compile_without_predicates sha256 with_state = (Some (Inr p) :: (unit CompileError + CompiledPlan) option) \<and>
     compile_without_predicates sha256 with_resources = (Some (Inr q) :: (unit CompileError + CompiledPlan) option) \<and>
     ir_state (cpl_ir p) \<noteq> ir_state (cpl_ir q) \<and> ir_resources (cpl_ir p) \<noteq> ir_resources (cpl_ir q) \<and>
     canonical_hash sha256 (cpl_ir p) = canonical_hash sha256 (cpl_ir q)"
proof -
  have "compile_without_predicates sha256 with_state
      = (Some (Inr (plan (WorkflowIr_from with_state) 0)) :: (unit CompileError + CompiledPlan) option)"
    "compile_without_predicates sha256 with_resources
      = (Some (Inr (plan (WorkflowIr_from with_resources) 0)) :: (unit CompileError + CompiledPlan) option)"
    using no_routes
    by (simp_all add: compile_without_predicates_def validated_any_hash [OF with_state_valid]
        validated_any_hash [OF with_resources_valid])
  moreover have "ir_state (WorkflowIr_from with_state) \<noteq> ir_state (WorkflowIr_from with_resources)"
    by (simp add: WorkflowIr_from_def with_state_def with_resources_def done_only_def two_step_def)
  moreover have "ir_resources (WorkflowIr_from with_state) \<noteq> ir_resources (WorkflowIr_from with_resources)"
    by code_simp
  ultimately show ?thesis using same_bytes by (simp add: plan_def canonical_hash_def)
qed

lemma two_step_wf:
  assumes "nodes = [plain_node ''a'' Action, plain_node ''b'' Terminal] \<or> nodes = [plain_node ''b'' Terminal, plain_node ''a'' Action]"
  shows "wf_ir (WorkflowIr_from (two_step nodes))"
proof -
  have "wf_node (ir_node (plain_node ''a'' Action))" "wf_node (ir_node (plain_node ''b'' Terminal))"
    by (simp_all add: wf_node_def node_trajectory_def ir_node_def plain_node_def fits_short)
  moreover have "set (sort_key node_key (map ir_node nodes)) = {ir_node (plain_node ''a'' Action), ir_node (plain_node ''b'' Terminal)}"
    "length (sort_key node_key (map ir_node nodes)) = 2" "concat (map (\<lambda>n. map ir_resource (nd_resources n)) nodes) = []"
    using assms by (auto simp: plain_node_def)
  ultimately show ?thesis
    by (simp add: wf_ir_def WorkflowIr_from_def two_step_def list_all_iff ok_edge_def ir_edge_def fits_short
        del: concat_eq_Nil_conv)
qed

theorem encode_canonical_injective_witness:
  "WorkflowIr_from (two_step [plain_node ''a'' Action, plain_node ''b'' Terminal])
     = WorkflowIr_from (two_step [plain_node ''b'' Terminal, plain_node ''a'' Action])"
proof (rule encode_canonical_injective)
  show "wf_ir (WorkflowIr_from (two_step [plain_node ''a'' Action, plain_node ''b'' Terminal]))"
    "wf_ir (WorkflowIr_from (two_step [plain_node ''b'' Terminal, plain_node ''a'' Action]))"
    by (rule two_step_wf, simp)+
  show "same_layout (WorkflowIr_from (two_step [plain_node ''a'' Action, plain_node ''b'' Terminal]))
      (WorkflowIr_from (two_step [plain_node ''b'' Terminal, plain_node ''a'' Action]))" by code_simp
  show "encode_canonical (WorkflowIr_from (two_step [plain_node ''a'' Action, plain_node ''b'' Terminal]))
      = encode_canonical (WorkflowIr_from (two_step [plain_node ''b'' Terminal, plain_node ''a'' Action]))" by code_simp
qed

end
