(* ===== verification/Review_Result.thy ===== *)
theory Review_Result
  imports Security
begin

text \<open>
  Typed review results (\<open>workflow-review/src/lib.rs\<close>): verdicts, defects, the checks of
  \<open>ReviewResult::new\<close> and \<open>ReviewResult::from_json\<close>, the canonical hash, and the policy that
  resolves the votes of several reviewers.  The JSON decoder and encoder of \<open>serde_json\<close> are
  parameters.  A confidence is an \<open>f64\<close>, here its 64 bits: no modelled code computes with it.
\<close>

section \<open>Verdicts, defects, results\<close>

type_synonym f64 = u64

definition f64_one :: f64 where
  "f64_one = 0x3FF0000000000000"

datatype ReviewVerdict = Pass | Revise | Abstain

datatype ReviewSeverity = Info | Warning | Error | Critical

record ReviewDefect =
  df_code :: string
  df_severity :: ReviewSeverity
  df_location :: "string option"
  df_evidence_refs :: "string list"
  df_message :: string
  df_suggested_action :: "string option"

record ReviewResult =
  rr_schema_version :: u32
  rr_verdict :: ReviewVerdict
  rr_summary :: string
  rr_defects :: "ReviewDefect list"
  rr_confidence :: f64

text \<open>The error of the JSON library is the type parameter \<open>'j\<close>.\<close>

datatype 'j ReviewError =
    Decode 'j
  | Serialize 'j
  | UnsupportedSchemaVersion
  | PassWithErrorOrCriticalDefects
  | EmptyReviewerSet
  | MixedSubjectIdentity

definition REVIEW_SCHEMA_VERSION_V1 :: u32 where
  "REVIEW_SCHEMA_VERSION_V1 = 1"

definition CANONICAL_REVIEW_WIRE_VERSION_V1 :: u16 where
  "CANONICAL_REVIEW_WIRE_VERSION_V1 = 1"

definition REVIEW_DOMAIN :: "byte list" where
  "REVIEW_DOMAIN = str_bytes ''adk-workflow-kit/workflow-review'' @ [0]"

definition validate_schema_version :: "u32 \<Rightarrow> 'j ReviewError + unit" where
  "validate_schema_version version =
     (if version = REVIEW_SCHEMA_VERSION_V1 then Inr () else Inl UnsupportedSchemaVersion)"

definition validate_verdict_defects :: "ReviewVerdict \<Rightarrow> ReviewDefect list \<Rightarrow> 'j ReviewError + unit" where
  "validate_verdict_defects verdict defects =
     (if verdict = Pass \<and> list_ex (\<lambda>d. df_severity d \<in> {Error, Critical}) defects
      then Inl PassWithErrorOrCriticalDefects else Inr ())"

definition ReviewResult_new ::
    "u32 \<Rightarrow> ReviewVerdict \<Rightarrow> string \<Rightarrow> ReviewDefect list \<Rightarrow> f64 \<Rightarrow> 'j ReviewError + ReviewResult" where
  "ReviewResult_new schema_version verdict summary defects confidence =
     res_bind (validate_verdict_defects verdict defects) (\<lambda>_.
     res_bind (validate_schema_version schema_version) (\<lambda>_.
     Inr \<lparr>rr_schema_version = schema_version, rr_verdict = verdict, rr_summary = summary,
          rr_defects = defects, rr_confidence = confidence\<rparr>))"

definition ReviewResult_from_json ::
    "(string \<Rightarrow> 'j + ReviewResult) \<Rightarrow> string \<Rightarrow> 'j ReviewError + ReviewResult" where
  "ReviewResult_from_json decode json =
     res_bind (map_err Decode (decode json)) (\<lambda>result.
     res_bind (validate_verdict_defects (rr_verdict result) (rr_defects result)) (\<lambda>_.
     res_bind (validate_schema_version (rr_schema_version result)) (\<lambda>_.
     Inr result)))"

definition ReviewResult_to_json ::
    "(ReviewResult \<Rightarrow> 'j + string) \<Rightarrow> ReviewResult \<Rightarrow> 'j ReviewError + string" where
  "ReviewResult_to_json encode result = map_err Serialize (encode result)"

definition ReviewResult_canonical_hash ::
    "(byte list \<Rightarrow> byte list) \<Rightarrow> (ReviewResult \<Rightarrow> 'j + string) \<Rightarrow> ReviewResult \<Rightarrow> 'j ReviewError + string" where
  "ReviewResult_canonical_hash sha256 encode result =
     res_bind (ReviewResult_to_json encode result) (\<lambda>json.
     Inr (hex (sha256 (REVIEW_DOMAIN @ to_be_bytes 2 CANONICAL_REVIEW_WIRE_VERSION_V1 @ str_bytes json))))"

section \<open>Several reviewers\<close>

datatype ReviewDisposition = Accept | Defer

record ReviewVote =
  vt_subject :: string
  vt_verdict :: ReviewVerdict

definition resolve_disposition :: "ReviewVote list \<Rightarrow> 'j ReviewError + ReviewDisposition" where
  "resolve_disposition votes =
     (case votes of
        [] \<Rightarrow> Inl EmptyReviewerSet
      | first # _ \<Rightarrow>
          if list_ex (\<lambda>vote. vt_subject vote \<noteq> vt_subject first) votes then Inl MixedSubjectIdentity
          else if list_all (\<lambda>vote. vt_verdict vote = Pass) votes then Inr Accept
          else Inr Defer)"

section \<open>What is accepted\<close>

text \<open>
  A well-formed result: the only schema version, and nothing that blocks acceptance under a
  passing verdict.
\<close>

definition sound_review :: "ReviewResult \<Rightarrow> bool" where
  "sound_review r \<longleftrightarrow> rr_schema_version r = 1 \<and>
     (rr_verdict r = Pass \<longrightarrow> list_all (\<lambda>d. df_severity d \<in> {Info, Warning}) (rr_defects r))"

lemma blocking_iff: "df_severity d \<in> {Error, Critical} \<longleftrightarrow> df_severity d \<notin> {Info, Warning}"
  by (cases "df_severity d") auto

lemma verdict_and_version_iff:
  "res_bind (validate_verdict_defects (rr_verdict r) (rr_defects r)) (\<lambda>_.
     res_bind (validate_schema_version (rr_schema_version r)) (\<lambda>_. Inr r)) = Inr r' \<longleftrightarrow>
   r' = r \<and> sound_review r"
  unfolding validate_verdict_defects_def validate_schema_version_def sound_review_def
    REVIEW_SCHEMA_VERSION_V1_def blocking_iff
  by (auto simp: list_ex_iff list_all_iff)

lemma ReviewResult_new_sound: "ReviewResult_new v verdict s ds c = Inr r \<Longrightarrow>
    sound_review r \<and> rr_verdict r = verdict \<and> rr_defects r = ds"
  unfolding ReviewResult_new_def validate_verdict_defects_def validate_schema_version_def
    sound_review_def REVIEW_SCHEMA_VERSION_V1_def blocking_iff
  by (auto simp: list_ex_iff list_all_iff res_iffs split: if_splits)

text \<open>
  decoding a review result is exact and fail-closed.  Whatever the JSON decoder is,
  \<open>ReviewResult::from_json\<close> returns a result exactly when the decoder produced it, its schema
  version is 1, and a \<open>pass\<close> verdict carries only \<open>info\<close> and \<open>warning\<close> defects; it returns that
  result unchanged.
\<close>
theorem from_json_accepts_iff:
  fixes decode :: "string \<Rightarrow> 'j + ReviewResult"
  shows "ReviewResult_from_json decode json = Inr r \<longleftrightarrow> decode json = Inr r \<and> sound_review r"
  unfolding ReviewResult_from_json_def
  by (cases "decode json") (auto simp: verdict_and_version_iff)

text \<open>The policy looks at the set of votes only: not at their order, nor at repetitions.\<close>

lemma one_subject_iff:
  assumes "votes \<noteq> []"
  shows "card (vt_subject ` set votes) = 1 \<longleftrightarrow> list_all (\<lambda>v. vt_subject v = vt_subject (hd votes)) votes"
    (is "?l \<longleftrightarrow> ?r")
proof
  have first: "vt_subject (hd votes) \<in> vt_subject ` set votes" using assms by simp
  assume ?l
  then obtain s where "vt_subject ` set votes = {s}" using card_1_singletonE by blast
  then have "\<And>v. v \<in> set votes \<Longrightarrow> vt_subject v = s" and "vt_subject (hd votes) = s" using first by blast+
  then show ?r by (simp add: list_all_iff)
next
  assume ?r
  then have "vt_subject ` set votes \<subseteq> {vt_subject (hd votes)}" unfolding list_all_iff by blast
  then have "vt_subject ` set votes = {vt_subject (hd votes)}" using assms by (simp add: subset_singleton_iff)
  then show ?l by simp
qed

lemma resolve_disposition_set:
  "resolve_disposition votes =
     (if set votes = {} then Inl EmptyReviewerSet
      else if card (vt_subject ` set votes) \<noteq> 1 then Inl MixedSubjectIdentity
      else if \<forall>a \<in> set votes. vt_verdict a = Pass then Inr Accept else Inr Defer)"
proof (cases votes)
  case (Cons first rest)
  then have "list_ex (\<lambda>v. vt_subject v \<noteq> vt_subject first) votes \<longleftrightarrow> card (vt_subject ` set votes) \<noteq> 1"
    using one_subject_iff [of votes] by (simp add: list_ex_iff list_all_iff)
  then show ?thesis using Cons unfolding resolve_disposition_def by (simp only: list.case list_all_iff) simp
qed (simp add: resolve_disposition_def)

lemma all_pass_iff:
  "(\<exists>subject. votes \<noteq> [] \<and> set votes \<subseteq> {\<lparr>vt_subject = subject, vt_verdict = Pass\<rparr>}) \<longleftrightarrow>
     card (vt_subject ` set votes) = 1 \<and> (\<forall>a \<in> set votes. vt_verdict a = Pass)"
  (is "?l \<longleftrightarrow> ?r")
proof
  assume ?l
  then obtain s where "set votes = {\<lparr>vt_subject = s, vt_verdict = Pass\<rparr>}" by (metis set_empty subset_singletonD)
  then show ?r by simp
next
  assume r: ?r
  then obtain s where s: "vt_subject ` set votes = {s}" using card_1_singletonE by blast
  have "a = \<lparr>vt_subject = s, vt_verdict = Pass\<rparr>" if "a \<in> set votes" for a
  proof -
    have "vt_subject a = s" using that s by blast
    moreover have "vt_verdict a = Pass" using r that by blast
    ultimately show ?thesis by (cases a) simp
  qed
  moreover have "votes \<noteq> []" using s by auto
  ultimately show ?l by blast
qed

text \<open>
  the disagreement policy of \<open>resolve_disposition\<close> is fail-closed and depends only on the set of
  votes.  It accepts exactly when there is at least one vote, all votes are about one
  subject, and every verdict is \<open>pass\<close>; it fails exactly when there is no vote or two votes name
  different subjects; and reordering or repeating votes never changes the answer.
\<close>
theorem resolve_disposition_spec:
  fixes votes votes' :: "ReviewVote list"
  shows "(resolve_disposition votes = (Inr Accept :: 'j ReviewError + ReviewDisposition) \<longleftrightarrow>
            (\<exists>subject. votes \<noteq> [] \<and> set votes \<subseteq> {\<lparr>vt_subject = subject, vt_verdict = Pass\<rparr>})) \<and>
         (isl (resolve_disposition votes :: 'j ReviewError + ReviewDisposition) \<longleftrightarrow>
            card (vt_subject ` set votes) \<noteq> 1) \<and>
         (set votes' = set votes \<longrightarrow>
            (resolve_disposition votes' :: 'j ReviewError + ReviewDisposition) = resolve_disposition votes)"
proof -
  let ?r = "resolve_disposition votes :: 'j ReviewError + ReviewDisposition"
  have a: "?r = Inr Accept \<longleftrightarrow> card (vt_subject ` set votes) = 1 \<and> (\<forall>a \<in> set votes. vt_verdict a = Pass)"
    unfolding resolve_disposition_set by simp
  have b: "isl ?r \<longleftrightarrow> card (vt_subject ` set votes) \<noteq> 1"
    unfolding resolve_disposition_set by simp
  have c: "(resolve_disposition votes' :: 'j ReviewError + ReviewDisposition) = ?r"
    if "set votes' = set votes"
    unfolding resolve_disposition_set that ..
  show ?thesis unfolding all_pass_iff by (intro conjI impI a b c)
qed

theorem resolve_disposition_spec_witness:
  "resolve_disposition [\<lparr>vt_subject = ''a'', vt_verdict = Pass\<rparr>, \<lparr>vt_subject = ''a'', vt_verdict = Revise\<rparr>]
     = (resolve_disposition [\<lparr>vt_subject = ''a'', vt_verdict = Revise\<rparr>, \<lparr>vt_subject = ''a'', vt_verdict = Pass\<rparr>]
         :: unit ReviewError + ReviewDisposition)"
  using resolve_disposition_spec
    [where 'j = unit,
     of "[\<lparr>vt_subject = ''a'', vt_verdict = Revise\<rparr>, \<lparr>vt_subject = ''a'', vt_verdict = Pass\<rparr>]"
        "[\<lparr>vt_subject = ''a'', vt_verdict = Pass\<rparr>, \<lparr>vt_subject = ''a'', vt_verdict = Revise\<rparr>]"]
  by (simp add: insert_commute)

end
