(* ===== verification/Session.thy ===== *)
theory Session
  imports Security
begin

text \<open>
  Independent session identities of the producer and the reviewer of a run
  (\<open>workflow-runtime/src/session.rs\<close>).  The bytes that \<open>read_exact\<close> delivers from the entropy
  source are a parameter: \<open>None\<close> when the source cannot be opened or is too short.
\<close>

datatype SessionRole = RoleProducer | RoleReviewer

record RunSessionIds =
  rs_producer :: string
  rs_reviewer :: string

datatype SessionIdentityErrorKind = Entropy | DuplicateIdentity

text \<open>\<open>encode_hex\<close> pushes the high and the low digit of each byte.\<close>

definition encode_hex :: "byte list \<Rightarrow> string" where
  "encode_hex bytes = fold (\<lambda>b encoded. encoded @ [hex_digit (unat (drop_bit 4 b)), hex_digit (unat (and b 0x0F))]) bytes []"

definition allocate_with :: "byte list option \<Rightarrow> SessionIdentityErrorKind + RunSessionIds" where
  "allocate_with entropy =
     (case entropy of
        None \<Rightarrow> Inl Entropy
      | Some bytes \<Rightarrow>
          let producer = take 16 bytes; reviewer = drop 16 bytes in
          if producer = reviewer then Inl DuplicateIdentity
          else Inr \<lparr>rs_producer = encode_hex producer, rs_reviewer = encode_hex reviewer\<rparr>)"

fun RunSessionIds_id :: "RunSessionIds \<Rightarrow> SessionRole \<Rightarrow> string" where
  "RunSessionIds_id ids RoleProducer = rs_producer ids"
| "RunSessionIds_id ids RoleReviewer = rs_reviewer ids"

section \<open>Hexadecimal digits\<close>

lemma nibbles: "unat (drop_bit 4 (b :: byte)) = unat b div 16" "unat (and (b :: byte) 0x0F) = unat b mod 16"
proof -
  have "unat (drop_bit 4 b) = drop_bit 4 (unat b)" by (rule unat_drop_bit_eq)
  then show "unat (drop_bit 4 b) = unat b div 16" by (simp only: drop_bit_eq_div) simp
  have "and b 0x0F = take_bit 4 b" by (simp add: take_bit_eq_mask mask_eq_exp_minus_1)
  then have "unat (and b 0x0F) = take_bit 4 (unat b)" by (simp only: unsigned_take_bit_eq)
  then show "unat (and b 0x0F) = unat b mod 16" by (simp only: take_bit_eq_mod) simp
qed

text \<open>The two spellings of the encoder in the workspace agree.\<close>

lemma encode_hex_eq_hex: "encode_hex bytes = hex bytes"
proof -
  have "fold (\<lambda>b encoded. encoded @ [hex_digit (unat (drop_bit 4 b)), hex_digit (unat (and b 0x0F))]) bytes acc
      = acc @ hex bytes" for acc
    by (induction bytes arbitrary: acc) (simp_all add: hex_def nibbles)
  then show ?thesis by (simp add: encode_hex_def)
qed

lemma high_digit: "unat (b :: byte) div 16 < 16"
proof -
  have "unat b < 2 ^ 8" using unsigned_less [where 'a = nat, of b] by simp
  then show ?thesis by (simp add: less_mult_imp_div_less)
qed

lemma hex_digit_inj: "d < 16 \<Longrightarrow> e < 16 \<Longrightarrow> hex_digit d = hex_digit e \<Longrightarrow> d = e"
proof -
  have "distinct ''0123456789abcdef''" and "length ''0123456789abcdef'' = 16" by simp_all
  then show "d < 16 \<Longrightarrow> e < 16 \<Longrightarrow> hex_digit d = hex_digit e \<Longrightarrow> d = e"
    unfolding hex_digit_def using nth_eq_iff_index_eq by metis
qed

lemma hex_inj: "hex a = hex b \<Longrightarrow> a = b"
proof (induction a arbitrary: b)
  case Nil
  then show ?case by (cases b) (simp_all add: hex_def)
next
  case (Cons x a)
  then obtain y c where b: "b = y # c" by (cases b) (simp_all add: hex_def)
  have "hex_digit (unat x div 16) = hex_digit (unat y div 16)" "hex_digit (unat x mod 16) = hex_digit (unat y mod 16)"
    and rest: "hex a = hex c"
    using Cons.prems by (simp_all add: b hex_def)
  then have "unat x div 16 = unat y div 16" "unat x mod 16 = unat y mod 16"
    by (simp_all add: hex_digit_inj high_digit)
  then have "unat x = unat y" by (metis div_mult_mod_eq)
  then have "x = y" by (simp add: word_unat_eq_iff)
  then show ?case using Cons.IH [OF rest] b by simp
qed

lemma length_hex: "length (hex bytes) = 2 * length bytes"
  by (induction bytes) (simp_all add: hex_def)

lemma hex_lower: "list_all is_lower_hex (hex bytes)"
proof -
  have "list_all is_lower_hex ''0123456789abcdef''" by code_simp
  then have "is_lower_hex (hex_digit d)" if "d < 16" for d
    using that unfolding hex_digit_def list_all_length by simp
  then show ?thesis by (induction bytes) (simp_all add: hex_def high_digit)
qed

text \<open>
  the producer and the reviewer of a run never share a session identity.  Whenever identities
  are allocated from the 32 bytes of the entropy source, the two are different strings of 32
  lowercase hexadecimal digits, and together they determine the bytes they came from.
\<close>
theorem session_ids_independent:
  assumes "allocate_with (Some bytes) = Inr ids" and "length bytes = 32"
  shows "RunSessionIds_id ids RoleProducer \<noteq> RunSessionIds_id ids RoleReviewer \<and>
         (\<forall>role. length (RunSessionIds_id ids role) = 32 \<and> list_all is_lower_hex (RunSessionIds_id ids role)) \<and>
         hex bytes = RunSessionIds_id ids RoleProducer @ RunSessionIds_id ids RoleReviewer"
proof -
  have "take 16 bytes \<noteq> drop 16 bytes" and ids: "rs_producer ids = hex (take 16 bytes)" "rs_reviewer ids = hex (drop 16 bytes)"
    using assms(1) by (auto simp: allocate_with_def Let_def encode_hex_eq_hex split: if_splits)
  then have "rs_producer ids \<noteq> rs_reviewer ids" using hex_inj by metis
  moreover have "length (RunSessionIds_id ids role) = 32 \<and> list_all is_lower_hex (RunSessionIds_id ids role)" for role
    by (cases role) (simp_all add: ids length_hex hex_lower assms(2))
  moreover have "hex bytes = rs_producer ids @ rs_reviewer ids"
    unfolding ids hex_def concat_append [symmetric] map_append [symmetric] append_take_drop_id ..
  ultimately show ?thesis by simp
qed

theorem session_ids_independent_witness:
  "\<exists>ids. allocate_with (Some (replicate 16 0 @ replicate 16 255)) = Inr ids \<and>
     RunSessionIds_id ids RoleProducer \<noteq> RunSessionIds_id ids RoleReviewer"
proof -
  have "allocate_with (Some (replicate 16 0 @ replicate 16 255))
      = Inr \<lparr>rs_producer = encode_hex (replicate 16 0), rs_reviewer = encode_hex (replicate 16 255)\<rparr>"
    by (simp add: allocate_with_def Let_def)
  from session_ids_independent [OF this] this show ?thesis by auto
qed

end
