(* ===== verification/Policy.thy ===== *)
theory Policy
  imports Prelude
begin

text \<open>
  Capability intersection (\<open>workflow-runtime/src/lib.rs\<close>) and the contextual policy layered over
  it (\<open>workflow-runtime/src/policy.rs\<close>).  A \<open>HashSet\<close> is the list of its elements, without
  repetitions, in an iteration order that nothing may depend on.
\<close>

section \<open>Capabilities\<close>

datatype SandboxCapability =
    FilesystemRead | FilesystemWrite | Network | ProcessSpawn | MaximumPids | CpuTime | WallTime
  | IdleTime | Memory | OutputBytes | OpenFiles | EnvironmentVariables | SyscallProfile
  | UserGroupIdentity | DeviceAccess

fun SandboxCapability_as_str :: "SandboxCapability \<Rightarrow> string" where
  "SandboxCapability_as_str FilesystemRead = ''filesystem.read''"
| "SandboxCapability_as_str FilesystemWrite = ''filesystem.write''"
| "SandboxCapability_as_str Network = ''network''"
| "SandboxCapability_as_str ProcessSpawn = ''process.spawn''"
| "SandboxCapability_as_str MaximumPids = ''limit.pids''"
| "SandboxCapability_as_str CpuTime = ''limit.cpu_time''"
| "SandboxCapability_as_str WallTime = ''limit.wall_time''"
| "SandboxCapability_as_str IdleTime = ''limit.idle_time''"
| "SandboxCapability_as_str Memory = ''limit.memory''"
| "SandboxCapability_as_str OutputBytes = ''limit.output_bytes''"
| "SandboxCapability_as_str OpenFiles = ''limit.open_files''"
| "SandboxCapability_as_str EnvironmentVariables = ''environment.variables''"
| "SandboxCapability_as_str SyscallProfile = ''syscall.profile''"
| "SandboxCapability_as_str UserGroupIdentity = ''identity.user_group''"
| "SandboxCapability_as_str DeviceAccess = ''device.access''"

record NetworkDestination =
  ns_host :: string
  ns_port :: u16

datatype InvalidNetworkDestination = InvalidNetworkDestination

definition NetworkDestination_new :: "string \<Rightarrow> u16 \<Rightarrow> InvalidNetworkDestination + NetworkDestination" where
  "NetworkDestination_new host port =
     (if host = [] \<or> CHR ''*'' \<in> set host \<or> port = 0 then Inl InvalidNetworkDestination
      else Inr \<lparr>ns_host = host, ns_port = port\<rparr>)"

record RequestedCapabilities =
  rqc_capabilities :: "SandboxCapability list"
  rqc_network_destination :: "NetworkDestination option"

definition RequestedCapabilities_new :: "SandboxCapability list \<Rightarrow> RequestedCapabilities" where
  "RequestedCapabilities_new capabilities =
     \<lparr>rqc_capabilities = remdups capabilities, rqc_network_destination = None\<rparr>"

type_synonym PolicyCapabilities = "SandboxCapability list"

text \<open>The intersection of the layers: nothing when there is no layer.\<close>

definition allowed_capabilities :: "PolicyCapabilities list \<Rightarrow> SandboxCapability list" where
  "allowed_capabilities policy_layers =
     (case policy_layers of
        [] \<Rightarrow> []
      | first # remaining \<Rightarrow> fold (\<lambda>layer. filter (\<lambda>c. c \<in> set layer)) remaining first)"

text \<open>The error is the list of missing capabilities.\<close>

definition intersect_policy_capabilities ::
    "RequestedCapabilities \<Rightarrow> PolicyCapabilities list \<Rightarrow> SandboxCapability list + SandboxCapability list" where
  "intersect_policy_capabilities requested policy_layers =
     (let allowed = allowed_capabilities policy_layers;
          missing = sort_key SandboxCapability_as_str
            (filter (\<lambda>c. c \<notin> set allowed) (rqc_capabilities requested))
      in if rqc_capabilities requested = [] \<or> missing \<noteq> [] then Inl missing
         else Inr (sort_key SandboxCapability_as_str (rqc_capabilities requested)))"

definition verify_sandbox_capabilities ::
    "RequestedCapabilities \<Rightarrow> SandboxCapability list \<Rightarrow> SandboxCapability list + unit" where
  "verify_sandbox_capabilities requested backend =
     (let missing = sort_key SandboxCapability_as_str
            (filter (\<lambda>c. c \<notin> set backend) (rqc_capabilities requested))
      in if missing = [] then Inr () else Inl missing)"

section \<open>Contextual policy\<close>

datatype Classification = Public | Internal | Confidential | Restricted

fun Classification_rank :: "Classification \<Rightarrow> nat" where
  "Classification_rank Public = 0"
| "Classification_rank Internal = 1"
| "Classification_rank Confidential = 2"
| "Classification_rank Restricted = 3"

text \<open>The derived order: by declaration.\<close>

instantiation Classification :: linorder
begin

definition less_eq_Classification :: "Classification \<Rightarrow> Classification \<Rightarrow> bool" where
  "a \<le> b \<longleftrightarrow> Classification_rank a \<le> Classification_rank b"

definition less_Classification :: "Classification \<Rightarrow> Classification \<Rightarrow> bool" where
  "a < b \<longleftrightarrow> Classification_rank a < Classification_rank b"

instance
proof
  fix a b :: Classification
  assume "a \<le> b" "b \<le> a"
  then show "a = b" by (cases a; cases b) (simp_all add: less_eq_Classification_def)
qed (auto simp: less_eq_Classification_def less_Classification_def)

end

datatype InvalidPolicyToken = InvalidPolicyToken

record PolicySubject =
  su_tenant_id :: string
  su_role :: string
  su_classification :: Classification

definition policy_token :: "string \<Rightarrow> InvalidPolicyToken + string" where
  "policy_token value = (if value = [] then Inl InvalidPolicyToken else Inr value)"

definition PolicySubject_new :: "string \<Rightarrow> string \<Rightarrow> Classification \<Rightarrow> InvalidPolicyToken + PolicySubject" where
  "PolicySubject_new tenant_id role classification =
     res_bind (policy_token tenant_id) (\<lambda>tenant_id.
     res_bind (policy_token role) (\<lambda>role.
     Inr \<lparr>su_tenant_id = tenant_id, su_role = role, su_classification = classification\<rparr>))"

datatype NetworkProfile = NoNetwork | LoopbackOnly | ServiceAlias | BrokeredAllowlist | FullNetwork

record PolicyLayer =
  ly_allowed_tenants :: "string list"
  ly_allowed_roles :: "string list"
  ly_max_classification :: Classification
  ly_network_profile :: NetworkProfile
  ly_brokered_destinations :: "NetworkDestination list"
  ly_capabilities :: PolicyCapabilities

record EffectivePolicy =
  ep_capabilities :: "SandboxCapability list"
  ep_network_profile :: NetworkProfile
  ep_brokered_destinations :: "NetworkDestination list"

datatype ContextPolicyDeniedKind =
    MissingSubject | RoleDenied | TenantMismatch | ClassificationDenied | NetworkProfileRequired
  | DestinationDenied | CapabilityDenied | InvalidPolicy

record ContextPolicyDenied =
  cd_kind :: ContextPolicyDeniedKind
  cd_missing :: "SandboxCapability list"

text \<open>The loop over the profiles: \<open>None\<close> when it returns early.\<close>

fun intersect_profiles :: "NetworkProfile option \<Rightarrow> NetworkProfile list \<Rightarrow> NetworkProfile option option" where
  "intersect_profiles profile [] = Some profile"
| "intersect_profiles profile (layer_profile # rest) =
     (case profile of
        None \<Rightarrow> intersect_profiles (Some layer_profile) rest
      | Some current \<Rightarrow>
          if current = FullNetwork then intersect_profiles (Some layer_profile) rest
          else if layer_profile = FullNetwork then intersect_profiles (Some current) rest
          else if current = layer_profile then intersect_profiles (Some current) rest
          else None)"

fun intersect_destinations ::
    "NetworkDestination list option \<Rightarrow> PolicyLayer list \<Rightarrow> NetworkDestination list option" where
  "intersect_destinations destinations [] = destinations"
| "intersect_destinations destinations (layer # rest) =
     (case destinations of
        Some current \<Rightarrow>
          intersect_destinations (Some (filter (\<lambda>d. d \<in> set (ly_brokered_destinations layer)) current)) rest
      | None \<Rightarrow> intersect_destinations (Some (ly_brokered_destinations layer)) rest)"

definition intersect_network_policy :: "PolicyLayer list \<Rightarrow> NetworkProfile \<times> NetworkDestination list" where
  "intersect_network_policy policy_layers =
     (case intersect_profiles None (map ly_network_profile policy_layers) of
        None \<Rightarrow> (NoNetwork, [])
      | Some profile \<Rightarrow>
          let profile = (case profile of None \<Rightarrow> NoNetwork | Some p \<Rightarrow> p) in
          if profile \<noteq> BrokeredAllowlist then (profile, [])
          else (profile,
            case intersect_destinations None
                   (filter (\<lambda>layer. ly_network_profile layer = BrokeredAllowlist) policy_layers) of
              None \<Rightarrow> [] | Some d \<Rightarrow> d))"

definition context_denied :: "ContextPolicyDeniedKind \<Rightarrow> ContextPolicyDenied" where
  "context_denied kind = \<lparr>cd_kind = kind, cd_missing = []\<rparr>"

definition context_capability_denial :: "SandboxCapability list \<Rightarrow> ContextPolicyDenied" where
  "context_capability_denial missing = \<lparr>cd_kind = CapabilityDenied, cd_missing = missing\<rparr>"

definition evaluate_context_policy ::
    "PolicySubject \<Rightarrow> RequestedCapabilities \<Rightarrow> PolicyLayer list \<Rightarrow> ContextPolicyDenied + EffectivePolicy" where
  "evaluate_context_policy subject requested policy_layers =
     (if policy_layers = [] then Inl (context_denied InvalidPolicy)
      else if \<not> list_all (\<lambda>layer. su_tenant_id subject \<in> set (ly_allowed_tenants layer)) policy_layers
      then Inl (context_denied TenantMismatch)
      else if \<not> list_all (\<lambda>layer. su_role subject \<in> set (ly_allowed_roles layer)) policy_layers
      then Inl (context_denied RoleDenied)
      else if \<not> list_all (\<lambda>layer. su_classification subject \<le> ly_max_classification layer) policy_layers
      then Inl (context_denied ClassificationDenied)
      else
        let (network_profile, brokered_destinations) = intersect_network_policy policy_layers;
            network = Network \<in> set (rqc_capabilities requested)
        in if network \<and> network_profile = NoNetwork then Inl (context_denied NetworkProfileRequired)
           else if network \<and> network_profile = BrokeredAllowlist \<and>
             (case rqc_network_destination requested of
                None \<Rightarrow> False | Some destination \<Rightarrow> destination \<notin> set brokered_destinations)
           then Inl (context_denied DestinationDenied)
           else
             res_bind (map_err context_capability_denial
               (intersect_policy_capabilities requested (map ly_capabilities policy_layers)))
               (\<lambda>capabilities.
                 Inr \<lparr>ep_capabilities = capabilities, ep_network_profile = network_profile,
                      ep_brokered_destinations = brokered_destinations\<rparr>))"

section \<open>Properties\<close>

lemma fold_filter_set: "set (fold (\<lambda>layer. filter (\<lambda>c. c \<in> set layer)) ls xs) = {c \<in> set xs. \<forall>l \<in> set ls. c \<in> set l}"
  by (induction ls arbitrary: xs) auto

lemma set_allowed_capabilities: "ls \<noteq> [] \<Longrightarrow> set (allowed_capabilities ls) = {c. \<forall>l \<in> set ls. c \<in> set l}"
  by (cases ls) (auto simp: allowed_capabilities_def fold_filter_set)

lemma sort_key_Nil [simp]: "sort_key f xs = [] \<longleftrightarrow> xs = []"
  by (metis length_0_conv length_sort)

lemma intersect_policy_capabilities_iff:
  "ls \<noteq> [] \<Longrightarrow> intersect_policy_capabilities r ls = Inr e \<longleftrightarrow>
     rqc_capabilities r \<noteq> [] \<and> (\<forall>l \<in> set ls. set (rqc_capabilities r) \<subseteq> set l) \<and>
     e = sort_key SandboxCapability_as_str (rqc_capabilities r)"
  unfolding intersect_policy_capabilities_def Let_def
  by (auto simp: filter_empty_conv set_allowed_capabilities)

text \<open>\<open>P\<close> is the profile all layers agree on, where a layer with full access agrees to anything.\<close>

definition common_profile :: "PolicyLayer list \<Rightarrow> NetworkProfile \<Rightarrow> bool" where
  "common_profile ls P \<longleftrightarrow>
     (\<forall>l \<in> set ls. ly_network_profile l \<in> {P, FullNetwork}) \<and> (\<exists>l \<in> set ls. ly_network_profile l = P)"

lemma intersect_profiles_Some:
  "intersect_profiles (Some p) ps = Some q \<longleftrightarrow>
     (\<exists>P. q = Some P \<and> set (p # ps) \<subseteq> {P, FullNetwork} \<and> P \<in> set (p # ps))"
  by (induction ps arbitrary: p) (auto split: if_splits)

lemma intersect_profiles_None:
  "ps \<noteq> [] \<Longrightarrow> intersect_profiles None ps = Some q \<longleftrightarrow> (\<exists>P. q = Some P \<and> set ps \<subseteq> {P, FullNetwork} \<and> P \<in> set ps)"
  by (cases ps) (simp_all add: intersect_profiles_Some)

lemma profiles_common:
  assumes "ls \<noteq> []"
  shows "intersect_profiles None (map ly_network_profile ls) = Some q \<longleftrightarrow> (\<exists>P. q = Some P \<and> common_profile ls P)"
  using intersect_profiles_None [of "map ly_network_profile ls" q] assms
  unfolding common_profile_def by (simp add: image_subset_iff image_iff eq_commute)

lemma intersect_destinations_Some:
  "\<exists>ds. intersect_destinations (Some cur) ls = Some ds \<and>
     set ds = {d \<in> set cur. \<forall>l \<in> set ls. d \<in> set (ly_brokered_destinations l)}"
proof (induction ls arbitrary: cur)
  case (Cons l ls)
  show ?case using Cons.IH [of "filter (\<lambda>d. d \<in> set (ly_brokered_destinations l)) cur"] by auto
qed simp

lemma intersect_destinations_None:
  "ls \<noteq> [] \<Longrightarrow> \<exists>ds. intersect_destinations None ls = Some ds \<and>
     set ds = {d. \<forall>l \<in> set ls. d \<in> set (ly_brokered_destinations l)}"
  using intersect_destinations_Some [of "ly_brokered_destinations (hd ls)" "tl ls"] by (cases ls) auto

lemma common_profile_unique: "common_profile ls P \<Longrightarrow> common_profile ls Q \<Longrightarrow> P = Q"
  unfolding common_profile_def by (metis insertE singletonD)

text \<open>The network part of the effective policy.\<close>

lemma intersect_network_policy_spec:
  assumes "ls \<noteq> []"
  shows "(\<exists>P. common_profile ls P \<and> fst (intersect_network_policy ls) = P \<and>
            (P = BrokeredAllowlist \<longrightarrow> set (snd (intersect_network_policy ls))
               = {d. \<forall>l \<in> set ls. ly_network_profile l = BrokeredAllowlist \<longrightarrow> d \<in> set (ly_brokered_destinations l)}) \<and>
            (P \<noteq> BrokeredAllowlist \<longrightarrow> snd (intersect_network_policy ls) = [])) \<or>
         ((\<nexists>P. common_profile ls P) \<and> intersect_network_policy ls = (NoNetwork, []))"
proof (cases "\<exists>P. common_profile ls P")
  case True
  then obtain P where P: "common_profile ls P" by blast
  then have eq: "intersect_profiles None (map ly_network_profile ls) = Some (Some P)"
    using profiles_common [OF assms, of "Some P"] by blast
  let ?b = "filter (\<lambda>layer. ly_network_profile layer = BrokeredAllowlist) ls"
  have "?b \<noteq> []" if "P = BrokeredAllowlist" using P that by (auto simp: common_profile_def filter_empty_conv)
  then show ?thesis using P eq intersect_destinations_None [of ?b]
    by (cases "P = BrokeredAllowlist") (force simp: intersect_network_policy_def Let_def)+
next
  case False
  then have "intersect_profiles None (map ly_network_profile ls) = None"
    using profiles_common [OF assms] by (metis option.exhaust)
  then show ?thesis using False by (simp add: intersect_network_policy_def)
qed

text \<open>What one layer must grant, and what all layers must agree on for network access.\<close>

definition layer_admits :: "PolicySubject \<Rightarrow> RequestedCapabilities \<Rightarrow> PolicyLayer \<Rightarrow> bool" where
  "layer_admits subject requested layer \<longleftrightarrow>
     su_tenant_id subject \<in> set (ly_allowed_tenants layer) \<and> su_role subject \<in> set (ly_allowed_roles layer) \<and>
     su_classification subject \<le> ly_max_classification layer \<and>
     set (rqc_capabilities requested) \<subseteq> set (ly_capabilities layer)"

definition network_admitted :: "RequestedCapabilities \<Rightarrow> PolicyLayer list \<Rightarrow> bool" where
  "network_admitted requested layers \<longleftrightarrow>
     (\<exists>P. common_profile layers P \<and> P \<noteq> NoNetwork \<and>
       (P = BrokeredAllowlist \<longrightarrow> (\<forall>d. rqc_network_destination requested = Some d \<longrightarrow>
          (\<forall>l \<in> set layers. ly_network_profile l = BrokeredAllowlist \<longrightarrow> d \<in> set (ly_brokered_destinations l)))))"

lemma network_step:
  assumes "ls \<noteq> []"
  shows "\<not> (fst (intersect_network_policy ls) = NoNetwork \<or>
          fst (intersect_network_policy ls) = BrokeredAllowlist \<and>
          (case rqc_network_destination r of None \<Rightarrow> False
           | Some d \<Rightarrow> d \<notin> set (snd (intersect_network_policy ls)))) \<longleftrightarrow> network_admitted r ls"
  using intersect_network_policy_spec [OF assms]
proof
  assume "\<exists>P. common_profile ls P \<and> fst (intersect_network_policy ls) = P \<and>
            (P = BrokeredAllowlist \<longrightarrow> set (snd (intersect_network_policy ls))
               = {d. \<forall>l \<in> set ls. ly_network_profile l = BrokeredAllowlist \<longrightarrow> d \<in> set (ly_brokered_destinations l)}) \<and>
            (P \<noteq> BrokeredAllowlist \<longrightarrow> snd (intersect_network_policy ls) = [])"
  then obtain P where P: "common_profile ls P" "fst (intersect_network_policy ls) = P"
    "P = BrokeredAllowlist \<longrightarrow> set (snd (intersect_network_policy ls))
       = {d. \<forall>l \<in> set ls. ly_network_profile l = BrokeredAllowlist \<longrightarrow> d \<in> set (ly_brokered_destinations l)}"
    by blast
  have "network_admitted r ls \<longleftrightarrow> P \<noteq> NoNetwork \<and>
      (P = BrokeredAllowlist \<longrightarrow> (\<forall>d. rqc_network_destination r = Some d \<longrightarrow> d \<in> set (snd (intersect_network_policy ls))))"
    unfolding network_admitted_def using P common_profile_unique by blast
  then show ?thesis using P(2) by (auto split: option.splits)
next
  assume *: "(\<nexists>P. common_profile ls P) \<and> intersect_network_policy ls = (NoNetwork, [])"
  then show ?thesis by (simp add: network_admitted_def)
qed

lemma evaluate_context_policy_Inr:
  assumes "ls \<noteq> []"
  shows "evaluate_context_policy s r ls = Inr p \<longleftrightarrow>
     rqc_capabilities r \<noteq> [] \<and> (\<forall>l \<in> set ls. layer_admits s r l) \<and>
     (Network \<in> set (rqc_capabilities r) \<longrightarrow> network_admitted r ls) \<and>
     p = \<lparr>ep_capabilities = sort_key SandboxCapability_as_str (rqc_capabilities r),
          ep_network_profile = fst (intersect_network_policy ls),
          ep_brokered_destinations = snd (intersect_network_policy ls)\<rparr>"
proof -
  obtain prof ds where n: "intersect_network_policy ls = (prof, ds)" by fastforce
  have net: "\<not> (prof = NoNetwork \<or> prof = BrokeredAllowlist \<and>
      (case rqc_network_destination r of None \<Rightarrow> False | Some d \<Rightarrow> d \<notin> set ds)) \<longleftrightarrow> network_admitted r ls"
    using network_step [OF assms, of r] by (simp only: n fst_conv snd_conv)
  have cap: "intersect_policy_capabilities r (map ly_capabilities ls) = Inr e \<longleftrightarrow>
      rqc_capabilities r \<noteq> [] \<and> (\<forall>l \<in> set ls. set (rqc_capabilities r) \<subseteq> set (ly_capabilities l)) \<and>
      e = sort_key SandboxCapability_as_str (rqc_capabilities r)" for e
    using intersect_policy_capabilities_iff [of "map ly_capabilities ls" r e] assms by simp
  show ?thesis
    unfolding evaluate_context_policy_def n net [symmetric]
    by (auto simp: Let_def assms list_all_iff layer_admits_def res_iffs cap split: if_splits option.splits)
qed

text \<open>
  the contextual policy admits a request exactly when every layer does.  A request is granted if
  and only if there is a layer, something is requested, every layer allows the tenant, the role, the
  classification and all requested capabilities, and, when network access is requested, all layers
  agree on one profile other than none (a layer with full access agreeing to any) and, under a
  brokered profile, every brokered layer lists the requested destination.  What is granted is exactly
  what was requested.
\<close>
theorem context_policy_exact:
  "(\<exists>p. evaluate_context_policy subject requested layers = Inr p) \<longleftrightarrow>
     layers \<noteq> [] \<and> rqc_capabilities requested \<noteq> [] \<and> list_all (layer_admits subject requested) layers \<and>
     (Network \<notin> set (rqc_capabilities requested) \<or> network_admitted requested layers)"
  using evaluate_context_policy_Inr [of layers subject requested]
  by (cases "layers = []") (auto simp: list_all_iff evaluate_context_policy_def)

lemma common_profile_append:
  "common_profile (ls @ es) Q \<Longrightarrow> ls \<noteq> [] \<Longrightarrow> common_profile ls Q \<or> common_profile ls FullNetwork"
  unfolding common_profile_def by (cases "\<exists>l \<in> set ls. ly_network_profile l = Q") (auto simp: neq_Nil_conv)

lemma network_admitted_append:
  assumes "network_admitted r (ls @ es)" "ls \<noteq> []"
  shows "network_admitted r ls"
proof -
  obtain P where P: "common_profile (ls @ es) P" "P \<noteq> NoNetwork"
    and d: "P = BrokeredAllowlist \<longrightarrow> (\<forall>d. rqc_network_destination r = Some d \<longrightarrow>
      (\<forall>l \<in> set (ls @ es). ly_network_profile l = BrokeredAllowlist \<longrightarrow> d \<in> set (ly_brokered_destinations l)))"
    using assms(1) unfolding network_admitted_def by blast
  from common_profile_append [OF P(1) assms(2)] show ?thesis
  proof
    assume "common_profile ls P"
    then show ?thesis unfolding network_admitted_def using P(2) d by auto
  next
    assume "common_profile ls FullNetwork"
    then show ?thesis unfolding network_admitted_def by blast
  qed
qed

lemma intersect_network_policy_append:
  fixes es :: "PolicyLayer list"
  assumes "ls \<noteq> []"
  defines "p \<equiv> intersect_network_policy ls" and "q \<equiv> intersect_network_policy (ls @ es)"
  shows "(fst p = FullNetwork \<or> fst q \<in> {fst p, NoNetwork}) \<and> (fst p = FullNetwork \<or> set (snd q) \<subseteq> set (snd p))"
proof (cases "\<exists>Q. common_profile (ls @ es) Q")
  case False
  then have "q = (NoNetwork, [])" using intersect_network_policy_spec [of "ls @ es"] assms by auto
  then show ?thesis by simp
next
  case True
  then obtain Q where Q: "common_profile (ls @ es) Q" by blast
  then have q: "fst q = Q" "Q = BrokeredAllowlist \<Longrightarrow> set (snd q)
      = {d. \<forall>l \<in> set (ls @ es). ly_network_profile l = BrokeredAllowlist \<longrightarrow> d \<in> set (ly_brokered_destinations l)}"
    "Q \<noteq> BrokeredAllowlist \<Longrightarrow> snd q = []"
    using intersect_network_policy_spec [of "ls @ es"] common_profile_unique assms(1) unfolding q_def by blast+
  from common_profile_append [OF Q assms(1)] show ?thesis
  proof
    assume "common_profile ls FullNetwork"
    then have "fst p = FullNetwork"
      using intersect_network_policy_spec [OF assms(1)] common_profile_unique unfolding p_def by blast
    then show ?thesis by simp
  next
    assume c: "common_profile ls Q"
    then have p: "fst p = Q" "Q = BrokeredAllowlist \<Longrightarrow> set (snd p)
        = {d. \<forall>l \<in> set ls. ly_network_profile l = BrokeredAllowlist \<longrightarrow> d \<in> set (ly_brokered_destinations l)}"
      using intersect_network_policy_spec [OF assms(1)] common_profile_unique unfolding p_def by blast+
    then show ?thesis using q by (cases "Q = BrokeredAllowlist") auto
  qed
qed

text \<open>
  adding a policy layer never widens an effective policy.  If a request is granted under some
  layers together with further ones, it is granted under those layers alone, with the same
  capabilities; and unless the layers alone gave full network access, the further layers leave the
  network profile as it is or take it away, and leave open no destination that was not open.
\<close>
theorem context_policy_monotone:
  assumes "evaluate_context_policy subject requested (layers @ further) = Inr q" and "layers \<noteq> []"
  shows "\<exists>p. evaluate_context_policy subject requested layers = Inr p \<and> ep_capabilities p = ep_capabilities q \<and>
           (ep_network_profile p = FullNetwork \<or>
            ep_network_profile q \<in> {ep_network_profile p, NoNetwork} \<and>
            set (ep_brokered_destinations q) \<subseteq> set (ep_brokered_destinations p))"
proof -
  have q: "rqc_capabilities requested \<noteq> []" "\<forall>l \<in> set (layers @ further). layer_admits subject requested l"
    "Network \<in> set (rqc_capabilities requested) \<longrightarrow> network_admitted requested (layers @ further)"
    and q_eq: "q = \<lparr>ep_capabilities = sort_key SandboxCapability_as_str (rqc_capabilities requested),
          ep_network_profile = fst (intersect_network_policy (layers @ further)),
          ep_brokered_destinations = snd (intersect_network_policy (layers @ further))\<rparr>"
    using assms evaluate_context_policy_Inr [of "layers @ further" subject requested q] by simp_all
  then have "Network \<in> set (rqc_capabilities requested) \<longrightarrow> network_admitted requested layers"
    using network_admitted_append [OF _ assms(2)] by blast
  then have "evaluate_context_policy subject requested layers
      = Inr \<lparr>ep_capabilities = sort_key SandboxCapability_as_str (rqc_capabilities requested),
          ep_network_profile = fst (intersect_network_policy layers),
          ep_brokered_destinations = snd (intersect_network_policy layers)\<rparr>"
    using evaluate_context_policy_Inr [OF assms(2), of subject requested] q by simp
  then show ?thesis using q_eq intersect_network_policy_append [OF assms(2), of further] by auto
qed

definition sample_layer :: "NetworkProfile \<Rightarrow> PolicyLayer" where
  "sample_layer profile =
     \<lparr>ly_allowed_tenants = [''t''], ly_allowed_roles = [''r''], ly_max_classification = Internal,
      ly_network_profile = profile, ly_brokered_destinations = [], ly_capabilities = [Network, FilesystemRead]\<rparr>"

theorem context_policy_monotone_witness:
  "\<exists>p. evaluate_context_policy \<lparr>su_tenant_id = ''t'', su_role = ''r'', su_classification = Public\<rparr>
        (RequestedCapabilities_new [FilesystemRead]) [sample_layer LoopbackOnly] = Inr p \<and>
      ep_capabilities p = [FilesystemRead]"
proof -
  have "evaluate_context_policy \<lparr>su_tenant_id = ''t'', su_role = ''r'', su_classification = Public\<rparr>
      (RequestedCapabilities_new [FilesystemRead]) ([sample_layer LoopbackOnly] @ [sample_layer ServiceAlias])
    = Inr \<lparr>ep_capabilities = [FilesystemRead], ep_network_profile = NoNetwork, ep_brokered_destinations = []\<rparr>"
    by code_simp
  from context_policy_monotone [OF this] show ?thesis by fastforce
qed

theorem context_policy_exact_witness:
  "list_all (layer_admits \<lparr>su_tenant_id = ''t'', su_role = ''r'', su_classification = Public\<rparr> (RequestedCapabilities_new [Network]))
     [sample_layer LoopbackOnly, sample_layer FullNetwork]
   \<and> network_admitted (RequestedCapabilities_new [Network]) [sample_layer LoopbackOnly, sample_layer FullNetwork]"
proof -
  have "evaluate_context_policy \<lparr>su_tenant_id = ''t'', su_role = ''r'', su_classification = Public\<rparr>
      (RequestedCapabilities_new [Network]) [sample_layer LoopbackOnly, sample_layer FullNetwork]
    = Inr \<lparr>ep_capabilities = [Network], ep_network_profile = LoopbackOnly, ep_brokered_destinations = []\<rparr>"
    by code_simp
  moreover have "Network \<in> set (rqc_capabilities (RequestedCapabilities_new [Network]))"
    by (simp add: RequestedCapabilities_new_def)
  ultimately show ?thesis
    using context_policy_exact [of _ "RequestedCapabilities_new [Network]" "[sample_layer LoopbackOnly, sample_layer FullNetwork]"]
    by blast
qed

end
