(* ===== verification/Tool_Types.thy ===== *)
theory Tool_Types
  imports Policy Rust_Str
begin

text \<open>
  The vocabulary of tool calls that the tool bridge, the review loop and the effect ledger share
  (\<open>workflow-runtime/src/tool.rs\<close>, \<open>bridge.rs\<close>).
\<close>

datatype ToolBridgeErrorKind =
    UnknownTool | DuplicateTool | CapabilityDenied | SandboxDenied | ApprovalDenied | InvalidInput
  | ProvenanceMismatch | HandlerFailed | OutputTooLarge | ArtifactFailed | IdempotencyRequired

record 'v ToolCall =
  tc_name :: string
  tc_call_id :: string
  tc_actor :: string
  tc_arguments :: 'v

record ToolProvenance =
  pr_tool_id :: string
  pr_tool_version :: string

datatype ToolFailure = FailInvalidInput | FailNotFound | FailUnavailable | FailInternal

text \<open>The handle of an artifact is its text.\<close>

datatype 'v ToolEnvelope =
    EnvelopeSuccess 'v ToolProvenance "u64 option" "string option"
  | EnvelopeEmpty ToolProvenance
  | EnvelopeFailure ToolFailure ToolProvenance

definition envelope_success :: "'v \<Rightarrow> ToolProvenance \<Rightarrow> 'v ToolEnvelope" where
  "envelope_success payload provenance = EnvelopeSuccess payload provenance None None"

definition envelope_failure :: "ToolFailure \<Rightarrow> ToolProvenance \<Rightarrow> 'v ToolEnvelope" where
  "envelope_failure failure provenance = EnvelopeFailure failure provenance"

fun with_artifact :: "'v ToolEnvelope \<Rightarrow> string \<Rightarrow> u64 option \<Rightarrow> 'v ToolEnvelope" where
  "with_artifact (EnvelopeSuccess payload provenance _ _) artifact offset =
     EnvelopeSuccess payload provenance offset (Some artifact)"
| "with_artifact other artifact offset = other"

fun envelope_provenance :: "'v ToolEnvelope \<Rightarrow> ToolProvenance" where
  "envelope_provenance (EnvelopeSuccess _ provenance _ _) = provenance"
| "envelope_provenance (EnvelopeEmpty provenance) = provenance"
| "envelope_provenance (EnvelopeFailure _ provenance) = provenance"

fun next_offset :: "'v ToolEnvelope \<Rightarrow> u64 option" where
  "next_offset (EnvelopeSuccess _ _ offset _) = offset"
| "next_offset _ = None"

fun artifact_id :: "'v ToolEnvelope \<Rightarrow> string option" where
  "artifact_id (EnvelopeSuccess _ _ _ artifact) = artifact"
| "artifact_id _ = None"

section \<open>Registrations\<close>

record ToolFlags =
  tf_read_only :: bool
  tf_concurrency_safe :: bool
  tf_idempotent :: bool

datatype ToolIdempotency = NotRequired | StableKey

text \<open>The type of JSON schemas is a parameter.\<close>

record 's ToolRegistration =
  rg_name :: string
  rg_provenance :: ToolProvenance
  rg_input_schema :: 's
  rg_handler_output_schema :: 's
  rg_output_schema :: 's
  rg_flags :: ToolFlags
  rg_required_capabilities :: "SandboxCapability list"
  rg_required_scopes :: "string list"
  rg_timeout_ms :: u64
  rg_inline_output_limit_bytes :: u64
  rg_paging :: bool
  rg_idempotency :: ToolIdempotency
  rg_implementation_digest :: string

text \<open>\<open>Vec::dedup\<close>: removes an element equal to the one before it.\<close>

definition with_required_capabilities :: "SandboxCapability list \<Rightarrow> 's ToolRegistration \<Rightarrow> 's ToolRegistration" where
  "with_required_capabilities capabilities registration =
     registration\<lparr>rg_required_capabilities := remdups_adj (sort_key SandboxCapability_as_str capabilities)\<rparr>"

definition with_required_scopes :: "string list \<Rightarrow> 's ToolRegistration \<Rightarrow> 's ToolRegistration" where
  "with_required_scopes scopes registration = registration\<lparr>rg_required_scopes := remdups_adj (sort scopes)\<rparr>"

datatype ToolRegistrationError =
    EmptyName | InvalidName | NameTooLong | EmptyToolId | EmptyToolVersion | InvalidInputSchema | InputSchemaTooLarge
  | InvalidOutputSchema | OutputSchemaTooLarge | InvalidFlags

definition validate_name :: "string \<Rightarrow> ToolRegistrationError + unit" where
  "validate_name name =
     (if name = [] then Inl EmptyName
      else if length name > 64 then Inl NameTooLong
      else if \<not> list_all (\<lambda>byte. is_ascii_alphanumeric byte \<or> byte \<in> set ''_-'') name then Inl InvalidName
      else Inr ())"

definition validate_provenance :: "ToolProvenance \<Rightarrow> ToolRegistrationError + unit" where
  "validate_provenance provenance =
     (if pr_tool_id provenance = [] then Inl EmptyToolId
      else if pr_tool_version provenance = [] then Inl EmptyToolVersion
      else Inr ())"

end
