(* ===== verification/Review_Loop.thy ===== *)
theory Review_Loop
  imports Review_Result Session Tool_Types
begin

text \<open>
  The bounded producer, validator, reviewer, reviser loop
  (\<open>workflow-review/src/review_loop.rs\<close>).

  The four callbacks are parameters that pass their own state, of type \<open>'s\<close>, along.  A callback
  returns \<open>None\<close> when it panics and otherwise its \<open>Result\<close>.  The reviewer is the only callback
  that calls back into the kit: it is a tree of tool invocations, each of them continued with the
  reply, and \<open>drive\<close> answers them through the reviewer's authority.  The tool bridge behind the
  execution boundary is a parameter with its own state \<open>'b\<close>.

  Locks: the budget is locked only by code that cannot panic, so that lock is never poisoned; the
  lease, the bridge and the artifact store are locked while a tool runs, so a panic of the bridge
  poisons all three.
\<close>

section \<open>Candidates and evidence\<close>

record CandidateArtifact =
  ca_bytes :: "byte list"
  ca_sha256 :: string

datatype CandidateDigestError = CandidateDigestError

definition candidate_digest :: "(byte list \<Rightarrow> byte list) \<Rightarrow> byte list \<Rightarrow> string" where
  "candidate_digest sha256 bytes = hex (sha256 bytes)"

definition CandidateArtifact_new :: "(byte list \<Rightarrow> byte list) \<Rightarrow> byte list \<Rightarrow> CandidateArtifact" where
  "CandidateArtifact_new sha256 bytes = \<lparr>ca_bytes = bytes, ca_sha256 = candidate_digest sha256 bytes\<rparr>"

definition CandidateArtifact_from_declared_hash ::
    "(byte list \<Rightarrow> byte list) \<Rightarrow> byte list \<Rightarrow> string \<Rightarrow> CandidateDigestError + CandidateArtifact" where
  "CandidateArtifact_from_declared_hash sha256 bytes declared_hash =
     (let artifact = CandidateArtifact_new sha256 bytes in
      if ca_sha256 artifact = declared_hash then Inr artifact else Inl CandidateDigestError)"

record SelectedEvidence =
  se_id :: string
  se_content :: string

section \<open>The reviewer's tools\<close>

type_synonym 'env tool_reply = "(ToolBridgeErrorKind + 'env) option"

type_synonym ('b, 'v, 'env) bridge_invoke = "'b \<Rightarrow> 'v ToolCall \<Rightarrow> 'b \<times> 'env tool_reply"

record ReviewerToolBudget =
  tb_remaining :: u64
  tb_consumed :: u64

definition ReviewerToolBudget_new :: "u64 \<Rightarrow> ReviewerToolBudget" where
  "ReviewerToolBudget_new max_tool_calls = \<lparr>tb_remaining = max_tool_calls, tb_consumed = 0\<rparr>"

definition reserve :: "ReviewerToolBudget \<Rightarrow> bool \<times> ReviewerToolBudget" where
  "reserve budget =
     (if tb_remaining budget = 0 then (False, budget)
      else case checked_add (tb_consumed budget) 1 of
             None \<Rightarrow> (False, budget)
           | Some consumed \<Rightarrow> (True, \<lparr>tb_remaining = tb_remaining budget - 1, tb_consumed = consumed\<rparr>))"

record 'b ReviewerExecutionBoundary =
  eb_bridge :: 'b
  eb_read_only_tools :: "string list"
  eb_poisoned :: bool

text \<open>
  \<open>tool_names\<close> and \<open>registration\<close> are the queries of the tool bridge; a registration is known by
  its \<open>read_only\<close> flag.
\<close>

definition ReviewerExecutionBoundary_new ::
    "('b \<Rightarrow> string list) \<Rightarrow> ('b \<Rightarrow> string \<Rightarrow> bool option) \<Rightarrow> 'b \<Rightarrow> 'b ReviewerExecutionBoundary" where
  "ReviewerExecutionBoundary_new tool_names registration bridge =
     \<lparr>eb_bridge = bridge,
      eb_read_only_tools = filter (\<lambda>name. registration bridge name = Some True) (tool_names bridge),
      eb_poisoned = False\<rparr>"

text \<open>
  \<open>ReviewerExecutionBoundary::invoke\<close>.  A panic of the bridge unwinds with both locks held.
\<close>

definition boundary_invoke ::
    "('b, 'v, 'env) bridge_invoke \<Rightarrow> 'v ToolCall \<Rightarrow> 'b ReviewerExecutionBoundary \<Rightarrow> ReviewerToolBudget
     \<Rightarrow> 'env tool_reply \<times> 'b ReviewerExecutionBoundary \<times> ReviewerToolBudget" where
  "boundary_invoke bridge_invoke call boundary budget =
     (if \<not> List.member (eb_read_only_tools boundary) (tc_name call)
      then (Some (Inl CapabilityDenied), boundary, budget)
      else let (reserved, budget') = reserve budget in
        if \<not> reserved then (Some (Inl CapabilityDenied), boundary, budget')
        else if eb_poisoned boundary then (Some (Inl HandlerFailed), boundary, budget')
        else let (bridge, reply) = bridge_invoke (eb_bridge boundary) call in
             (reply, boundary\<lparr>eb_bridge := bridge, eb_poisoned := (reply = None)\<rparr>, budget'))"

text \<open>The lease mutex: not closed yet, closed, or poisoned by a panic during an invocation.\<close>

datatype Lease = LeaseOpen | LeaseClosed | LeasePoisoned

fun lease_close :: "Lease \<Rightarrow> Lease" where
  "lease_close LeaseOpen = LeaseClosed"
| "lease_close LeaseClosed = LeaseClosed"
| "lease_close LeasePoisoned = LeasePoisoned"

text \<open>What an authority shares with the run: the boundary, the budget, and its own lease.\<close>

record 'b ReviewerCells =
  rc_boundary :: "'b ReviewerExecutionBoundary option"
  rc_budget :: ReviewerToolBudget
  rc_lease :: Lease

record ReviewerAuthority =
  ra_read_only_tools :: "string list"
  ra_reviewer_session_id :: string

definition invoke_tool ::
    "('b, 'v, 'env) bridge_invoke \<Rightarrow> ReviewerAuthority \<Rightarrow> string \<Rightarrow> string \<Rightarrow> 'v \<Rightarrow> 'b ReviewerCells
     \<Rightarrow> 'env tool_reply \<times> 'b ReviewerCells" where
  "invoke_tool bridge_invoke authority call_id tool_name arguments cells =
     (if rc_lease cells \<noteq> LeaseOpen then (Some (Inl CapabilityDenied), cells)
      else if \<not> List.member (ra_read_only_tools authority) tool_name then (Some (Inl CapabilityDenied), cells)
      else case rc_boundary cells of
             None \<Rightarrow> (Some (Inl CapabilityDenied), cells)
           | Some boundary \<Rightarrow>
               let (reply, boundary', budget') =
                 boundary_invoke bridge_invoke
                   \<lparr>tc_name = tool_name, tc_call_id = call_id, tc_actor = ra_reviewer_session_id authority,
                    tc_arguments = arguments\<rparr> boundary (rc_budget cells)
               in (reply, cells\<lparr>rc_boundary := Some boundary', rc_budget := budget',
                                rc_lease := (if reply = None then LeasePoisoned else LeaseOpen)\<rparr>))"

text \<open>
  A reviewer in execution: it has ended, or it invokes a tool and goes on with the reply.  Every
  path of the tree is finite: a reviewer callback is assumed to come to an end.
\<close>

datatype ('v, 'env, 'r) reviewer_run =
    Finish 'r
  | Invoke string string 'v "'env tool_reply \<Rightarrow> ('v, 'env, 'r) reviewer_run"

primrec drive ::
    "('b, 'v, 'env) bridge_invoke \<Rightarrow> ReviewerAuthority \<Rightarrow> ('v, 'env, 'r) reviewer_run \<Rightarrow> 'b ReviewerCells
     \<Rightarrow> 'r \<times> 'b ReviewerCells" where
  "drive bridge_invoke authority (Finish r) = (\<lambda>cells. (r, cells))"
| "drive bridge_invoke authority (Invoke call_id tool_name arguments k) = (\<lambda>cells.
     (let (reply, cells') = invoke_tool bridge_invoke authority call_id tool_name arguments cells
      in drive bridge_invoke authority (k reply) cells'))"

section \<open>Configuration, reports, costs\<close>

record 'b ReviewLoopConfig =
  cf_max_revisions :: usize
  cf_max_same_defect_rounds :: usize
  cf_stop_on_repeated_output_hash :: bool
  cf_stop_on_two_cycle :: bool
  cf_max_model_turns :: u64
  cf_max_tool_calls :: u64
  cf_rubric :: string
  cf_evidence :: "SelectedEvidence list"
  cf_read_only_tools :: "string list"
  cf_execution_boundary :: "'b ReviewerExecutionBoundary option"

definition ReviewLoopConfig_default :: "'b ReviewLoopConfig" where
  "ReviewLoopConfig_default =
     \<lparr>cf_max_revisions = 2, cf_max_same_defect_rounds = 1, cf_stop_on_repeated_output_hash = True,
      cf_stop_on_two_cycle = True, cf_max_model_turns = 18, cf_max_tool_calls = 64,
      cf_rubric = ''review the candidate against the acceptance contract'', cf_evidence = [],
      cf_read_only_tools = [], cf_execution_boundary = None\<rparr>"

definition valid_free_text :: "string \<Rightarrow> bool" where
  "valid_free_text text \<longleftrightarrow>
     list_all (\<lambda>byte. \<not> is_ascii_control byte \<or> (of_char byte :: nat) \<in> {10, 13, 9}) text"

text \<open>\<open>validate_config\<close>: its only error is \<open>InvalidConfiguration\<close>, so it is a test.\<close>

definition validate_config :: "'b ReviewLoopConfig \<Rightarrow> bool" where
  "validate_config config \<longleftrightarrow> \<not>
     (cf_rubric config = []
      \<or> \<not> valid_free_text (cf_rubric config)
      \<or> list_ex (\<lambda>evidence. se_id evidence = [] \<or> list_ex is_ascii_control (se_id evidence)
            \<or> \<not> valid_free_text (se_content evidence)) (cf_evidence config)
      \<or> list_ex (\<lambda>tool. tool = [] \<or> list_ex is_ascii_control tool) (cf_read_only_tools config)
      \<or> (cf_read_only_tools config \<noteq> [] \<and> cf_execution_boundary config = None)
      \<or> (case cf_execution_boundary config of
           None \<Rightarrow> False
         | Some boundary \<Rightarrow>
             list_ex (\<lambda>tool. \<not> List.member (eb_read_only_tools boundary) tool) (cf_read_only_tools config)))"

record ValidationReport =
  vr_valid :: bool
  vr_defects :: "ReviewDefect list"

record ReviewCost =
  co_model_turns :: u64
  co_tool_calls :: u64

definition ReviewCost_default :: ReviewCost where
  "ReviewCost_default = \<lparr>co_model_turns = 0, co_tool_calls = 0\<rparr>"

definition ReviewCost_checked_add :: "ReviewCost \<Rightarrow> ReviewCost \<Rightarrow> ReviewCost option" where
  "ReviewCost_checked_add a b =
     (case checked_add (co_model_turns a) (co_model_turns b) of
        None \<Rightarrow> None
      | Some model_turns \<Rightarrow>
          (case checked_add (co_tool_calls a) (co_tool_calls b) of
             None \<Rightarrow> None
           | Some tool_calls \<Rightarrow> Some \<lparr>co_model_turns = model_turns, co_tool_calls = tool_calls\<rparr>))"

record ReviewerResponse =
  rp_review :: ReviewResult
  rp_cost :: ReviewCost

record RevisionResponse =
  xp_candidate :: CandidateArtifact
  xp_cost :: ReviewCost

record ReviewerRequest =
  rq_candidate :: CandidateArtifact
  rq_validation :: ValidationReport
  rq_selected_evidence :: "SelectedEvidence list"
  rq_rubric :: string
  rq_session_id :: string
  rq_producer_session_id :: string
  rq_authority :: ReviewerAuthority

record RevisionRequest =
  xq_candidate :: CandidateArtifact
  xq_validation :: ValidationReport
  xq_review :: ReviewResult

section \<open>Stages, outcomes, errors\<close>

datatype ReviewLoopStage =
  StProducer | StValidate | StReviewer | StReviser | StFinalValidate | StPublish | StAbstain

datatype ReviewLoopDiagnosticCode =
    ReviewerAbstained | ReviewerOutputRejected | FinalValidationFailed | MaxRevisionsExceeded
  | RepeatedOutputHash | OscillationDetected | RepeatedDefectSet | BudgetExhausted

record ReviewLoopDiagnostic =
  dg_code :: ReviewLoopDiagnosticCode
  dg_stage :: ReviewLoopStage

record ReviewLoopMetrics =
  mt_producer_attempts :: usize
  mt_validation_attempts :: usize
  mt_reviewer_attempts :: usize
  mt_revisions :: usize
  mt_cost :: ReviewCost
  mt_stages :: "ReviewLoopStage list"

datatype ReviewLoopOutcome =
    Published CandidateArtifact ReviewLoopMetrics
  | Abstained ReviewLoopDiagnostic ReviewLoopMetrics

datatype 'e ReviewLoopError =
    ProducerError 'e ReviewLoopMetrics
  | ValidatorError 'e ReviewLoopMetrics
  | ReviewerError 'e ReviewLoopMetrics
  | ReviserError 'e ReviewLoopMetrics
  | InvalidConfiguration
  | InvalidValidationReport
  | SessionIdentity SessionIdentityErrorKind

fun ReviewLoopOutcome_metrics :: "ReviewLoopOutcome \<Rightarrow> ReviewLoopMetrics" where
  "ReviewLoopOutcome_metrics (Published artifact metrics) = metrics"
| "ReviewLoopOutcome_metrics (Abstained diagnostic metrics) = metrics"

fun ReviewLoopError_metrics :: "'e ReviewLoopError \<Rightarrow> ReviewLoopMetrics option" where
  "ReviewLoopError_metrics (ProducerError e metrics) = Some metrics"
| "ReviewLoopError_metrics (ValidatorError e metrics) = Some metrics"
| "ReviewLoopError_metrics (ReviewerError e metrics) = Some metrics"
| "ReviewLoopError_metrics (ReviserError e metrics) = Some metrics"
| "ReviewLoopError_metrics InvalidConfiguration = None"
| "ReviewLoopError_metrics InvalidValidationReport = None"
| "ReviewLoopError_metrics (SessionIdentity e) = None"

definition push_stage :: "ReviewLoopStage \<Rightarrow> ReviewLoopMetrics \<Rightarrow> ReviewLoopMetrics" where
  "push_stage stage metrics = metrics\<lparr>mt_stages := mt_stages metrics @ [stage]\<rparr>"

definition abstain :: "ReviewLoopMetrics \<Rightarrow> ReviewLoopDiagnosticCode \<Rightarrow> ReviewLoopOutcome" where
  "abstain metrics code =
     Abstained \<lparr>dg_code = code, dg_stage = StAbstain\<rparr> (push_stage StAbstain metrics)"

section \<open>Checks of one round\<close>

fun severity_rank :: "ReviewSeverity \<Rightarrow> byte" where
  "severity_rank Info = 0"
| "severity_rank Warning = 1"
| "severity_rank Error = 2"
| "severity_rank Critical = 3"

definition defect_fingerprint :: "ReviewDefect list \<Rightarrow> (string \<times> byte) list" where
  "defect_fingerprint defects = sort (map (\<lambda>defect. (df_code defect, severity_rank (df_severity defect))) defects)"

text \<open>\<open>observe_defects\<close> returns its verdict and the two variables it updates.\<close>

definition observe_defects ::
    "ReviewDefect list \<Rightarrow> (string \<times> byte) list option \<Rightarrow> usize \<Rightarrow> usize
     \<Rightarrow> bool \<times> (string \<times> byte) list option \<times> usize" where
  "observe_defects defects previous repeated_rounds max_same_defect_rounds =
     (let current = defect_fingerprint defects in
      if current = [] then (False, previous, repeated_rounds)
      else
        let same_codes = (case previous of None \<Rightarrow> False
              | Some previous \<Rightarrow> length previous = length current \<and>
                  list_all (\<lambda>((previous_code, _), (current_code, _)). previous_code = current_code) (zip previous current));
            severity_dropped = (case previous of None \<Rightarrow> False
              | Some previous \<Rightarrow>
                  list_ex (\<lambda>((_, previous_rank), (_, current_rank)). current_rank < previous_rank) (zip previous current))
        in
        if same_codes \<and> \<not> severity_dropped then
          (case checked_add repeated_rounds 1 of
             None \<Rightarrow> (True, previous, repeated_rounds)
           | Some next_rounds \<Rightarrow> (next_rounds > max_same_defect_rounds, Some current, next_rounds))
        else (0 > max_same_defect_rounds, Some current, 0))"

definition review_output_is_bound :: "ReviewResult \<Rightarrow> SelectedEvidence list \<Rightarrow> bool" where
  "review_output_is_bound review evidence =
     (let ids = map se_id evidence in
      if rr_verdict review = Revise \<and> rr_defects review = [] then False
      else list_all (\<lambda>defect. (rr_verdict review \<noteq> Revise \<or> df_evidence_refs defect \<noteq> []) \<and>
             list_all (\<lambda>reference. List.member ids reference) (df_evidence_refs defect)) (rr_defects review))"

definition validation_review :: "ValidationReport \<Rightarrow> 'e ReviewLoopError + ReviewResult" where
  "validation_review validation =
     map_err (\<lambda>_. InvalidValidationReport)
       (ReviewResult_new REVIEW_SCHEMA_VERSION_V1 Revise ''deterministic validation requires repair''
          (vr_defects validation) f64_one :: unit ReviewError + ReviewResult)"

text \<open>Returns whether the cost could be recorded, and the metrics.\<close>

definition record_response_cost ::
    "ReviewLoopMetrics \<Rightarrow> ReviewCost \<Rightarrow> ReviewerToolBudget \<Rightarrow> bool \<times> ReviewLoopMetrics" where
  "record_response_cost metrics reported tool_budget =
     (let billed_model_turns = max (co_model_turns reported) 1 in
      case ReviewCost_checked_add (mt_cost metrics) \<lparr>co_model_turns = billed_model_turns, co_tool_calls = 0\<rparr> of
        None \<Rightarrow> (False, metrics)
      | Some cost \<Rightarrow> (True, metrics\<lparr>mt_cost := cost\<lparr>co_tool_calls := tb_consumed tool_budget\<rparr>\<rparr>))"

definition budget_exhausted :: "ReviewLoopMetrics \<Rightarrow> 'b ReviewLoopConfig \<Rightarrow> bool" where
  "budget_exhausted metrics config \<longleftrightarrow>
     co_model_turns (mt_cost metrics) \<ge> cf_max_model_turns config
     \<or> co_tool_calls (mt_cost metrics) \<ge> cf_max_tool_calls config"

definition budget_overrun :: "ReviewLoopMetrics \<Rightarrow> 'b ReviewLoopConfig \<Rightarrow> bool" where
  "budget_overrun metrics config \<longleftrightarrow>
     co_model_turns (mt_cost metrics) > cf_max_model_turns config
     \<or> co_tool_calls (mt_cost metrics) > cf_max_tool_calls config"

section \<open>The loop\<close>

text \<open>The callbacks of the caller, and the tool bridge behind the boundary.\<close>

record ('s, 'e, 'b, 'v, 'env) Callbacks =
  cb_producer :: "'s \<Rightarrow> 's \<times> ('e + CandidateArtifact) option"
  cb_validator :: "'s \<Rightarrow> CandidateArtifact \<Rightarrow> 's \<times> ('e + ValidationReport) option"
  cb_reviewer :: "'s \<Rightarrow> ReviewerRequest \<Rightarrow> ('v, 'env, 's \<times> ('e + ReviewerResponse) option) reviewer_run"
  cb_reviser :: "'s \<Rightarrow> RevisionRequest \<Rightarrow> 's \<times> ('e + RevisionResponse) option"
  cb_bridge :: "('b, 'v, 'env) bridge_invoke"

text \<open>The variables of the loop, with the state of the callbacks and of the tool boundary.\<close>

record ('s, 'b) LoopState =
  ls_candidate :: CandidateArtifact
  ls_metrics :: ReviewLoopMetrics
  ls_hashes :: "string list"
  ls_last_defects :: "(string \<times> byte) list option"
  ls_same_defect_rounds :: usize
  ls_boundary :: "'b ReviewerExecutionBoundary option"
  ls_budget :: ReviewerToolBudget
  ls_world :: 's

type_synonym 'e loop_result = "('e ReviewLoopError + ReviewLoopOutcome) option"

text \<open>
  A step either ends the run, with the state it leaves and its result (\<open>None\<close>: the panic of a
  callback goes on), or the loop continues.
\<close>

datatype ('s, 'e, 'b) progress =
    Done "('s, 'b) LoopState" "'e loop_result"
  | Continue "('s, 'b) LoopState"

abbreviation ended :: "('s, 'b) LoopState \<Rightarrow> ReviewLoopOutcome \<Rightarrow> ('s, 'e, 'b) progress" where
  "ended st outcome \<equiv> Done st (Some (Inr outcome))"

abbreviation failed :: "('s, 'b) LoopState \<Rightarrow> 'e ReviewLoopError \<Rightarrow> ('s, 'e, 'b) progress" where
  "failed st error \<equiv> Done st (Some (Inl error))"

text \<open>The tail of \<open>revise_candidate\<close>: the checks on the hash of the revised candidate.\<close>

definition accept_revision ::
    "'b ReviewLoopConfig \<Rightarrow> CandidateArtifact \<Rightarrow> ('s, 'b) LoopState \<Rightarrow> ('s, 'e, 'b) progress" where
  "accept_revision config next st =
     (let hashes = ls_hashes st in
      if cf_stop_on_two_cycle config \<and> length hashes \<ge> 2 \<and> hashes ! (length hashes - 2) = ca_sha256 next
      then ended st (abstain (ls_metrics st) OscillationDetected)
      else if cf_stop_on_repeated_output_hash config \<and> list_ex (\<lambda>hash. hash = ca_sha256 next) hashes
      then ended st (abstain (ls_metrics st) RepeatedOutputHash)
      else Continue (st\<lparr>ls_hashes := hashes @ [ca_sha256 next], ls_candidate := next\<rparr>))"

definition revise_candidate ::
    "('s, 'e, 'b, 'v, 'env) Callbacks \<Rightarrow> 'b ReviewLoopConfig \<Rightarrow> ('s, 'b) LoopState \<Rightarrow> ValidationReport
     \<Rightarrow> ReviewResult \<Rightarrow> ('s, 'e, 'b) progress" where
  "revise_candidate cb config st validation review =
     (if mt_revisions (ls_metrics st) \<ge> cf_max_revisions config
      then ended st (abstain (ls_metrics st) MaxRevisionsExceeded)
      else if budget_exhausted (ls_metrics st) config then ended st (abstain (ls_metrics st) BudgetExhausted)
      else
        let metrics = push_stage StReviser (ls_metrics st) in
        case checked_add (mt_revisions metrics) 1 of
          None \<Rightarrow> ended st (abstain metrics MaxRevisionsExceeded)
        | Some next_revisions \<Rightarrow>
            let metrics = metrics\<lparr>mt_revisions := next_revisions\<rparr>;
                (world, response) = cb_reviser cb (ls_world st)
                  \<lparr>xq_candidate = ls_candidate st, xq_validation = validation, xq_review = review\<rparr>;
                st = st\<lparr>ls_world := world, ls_metrics := metrics\<rparr>
            in case response of
                 None \<Rightarrow> Done st None
               | Some (Inl error) \<Rightarrow>
                   failed st (ReviserError error (snd (record_response_cost metrics ReviewCost_default (ls_budget st))))
               | Some (Inr response) \<Rightarrow>
                   let (recorded, metrics) = record_response_cost metrics (xp_cost response) (ls_budget st);
                       st = st\<lparr>ls_metrics := metrics\<rparr>
                   in if \<not> recorded then ended st (abstain metrics BudgetExhausted)
                      else if budget_overrun metrics config then ended st (abstain metrics BudgetExhausted)
                      else accept_revision config (xp_candidate response) st)"

text \<open>The branch of an invalid candidate.\<close>

definition repair_round ::
    "('s, 'e, 'b, 'v, 'env) Callbacks \<Rightarrow> 'b ReviewLoopConfig \<Rightarrow> ValidationReport \<Rightarrow> ('s, 'b) LoopState
     \<Rightarrow> ('s, 'e, 'b) progress" where
  "repair_round cb config validation st =
     (let (repeated, last_defects, same_defect_rounds) =
        observe_defects (vr_defects validation) (ls_last_defects st) (ls_same_defect_rounds st)
          (cf_max_same_defect_rounds config);
          st = st\<lparr>ls_last_defects := last_defects, ls_same_defect_rounds := same_defect_rounds\<rparr>
      in if repeated then ended st (abstain (ls_metrics st) RepeatedDefectSet)
         else case validation_review validation of
                Inl error \<Rightarrow> failed st error
              | Inr review \<Rightarrow> revise_candidate cb config st validation review)"

text \<open>The \<open>Pass\<close> branch: the final validation, then publication.\<close>

definition publish_round ::
    "('s, 'e, 'b, 'v, 'env) Callbacks \<Rightarrow> ('s, 'b) LoopState \<Rightarrow> ('s, 'e, 'b) progress" where
  "publish_round cb st =
     (let metrics = push_stage StFinalValidate (ls_metrics st) in
      case checked_add (mt_validation_attempts metrics) 1 of
        None \<Rightarrow> ended st (abstain metrics BudgetExhausted)
      | Some validation_attempts \<Rightarrow>
          let metrics = metrics\<lparr>mt_validation_attempts := validation_attempts\<rparr>;
              (world, reply) = cb_validator cb (ls_world st) (ls_candidate st);
              st = st\<lparr>ls_world := world, ls_metrics := metrics\<rparr>
          in case reply of
               None \<Rightarrow> Done st None
             | Some (Inl error) \<Rightarrow> failed st (ValidatorError error metrics)
             | Some (Inr final_validation) \<Rightarrow>
                 if \<not> vr_valid final_validation then ended st (abstain metrics FinalValidationFailed)
                 else ended st (Published (ls_candidate st) (push_stage StPublish metrics)))"

text \<open>What follows the reviewer's response, from \<open>record_response_cost\<close> to the verdict.\<close>

definition judge_round ::
    "('s, 'e, 'b, 'v, 'env) Callbacks \<Rightarrow> 'b ReviewLoopConfig \<Rightarrow> ValidationReport \<Rightarrow> ReviewerResponse
     \<Rightarrow> ('s, 'b) LoopState \<Rightarrow> ('s, 'e, 'b) progress" where
  "judge_round cb config validation response st =
     (let (recorded, metrics) = record_response_cost (ls_metrics st) (rp_cost response) (ls_budget st);
          st = st\<lparr>ls_metrics := metrics\<rparr>;
          review = rp_review response
      in if \<not> recorded then ended st (abstain metrics BudgetExhausted)
         else if budget_overrun metrics config then ended st (abstain metrics BudgetExhausted)
         else if \<not> review_output_is_bound review (cf_evidence config)
         then ended st (abstain metrics ReviewerOutputRejected)
         else
           let (repeated, last_defects, same_defect_rounds) =
                 observe_defects (rr_defects review) (ls_last_defects st) (ls_same_defect_rounds st)
                   (cf_max_same_defect_rounds config);
               st = st\<lparr>ls_last_defects := last_defects, ls_same_defect_rounds := same_defect_rounds\<rparr>
           in if repeated then ended st (abstain metrics RepeatedDefectSet)
              else case rr_verdict review of
                     Abstain \<Rightarrow> ended st (abstain metrics ReviewerAbstained)
                   | Revise \<Rightarrow> revise_candidate cb config st validation review
                   | Pass \<Rightarrow> publish_round cb st)"

definition reviewer_authority :: "'b ReviewLoopConfig \<Rightarrow> RunSessionIds \<Rightarrow> ReviewerAuthority" where
  "reviewer_authority config ids =
     \<lparr>ra_read_only_tools =
        (if cf_read_only_tools config = [] then
           (case cf_execution_boundary config of None \<Rightarrow> [] | Some boundary \<Rightarrow> eb_read_only_tools boundary)
         else cf_read_only_tools config),
      ra_reviewer_session_id = RunSessionIds_id ids RoleReviewer\<rparr>"

definition reviewer_request ::
    "'b ReviewLoopConfig \<Rightarrow> RunSessionIds \<Rightarrow> CandidateArtifact \<Rightarrow> ValidationReport \<Rightarrow> ReviewerRequest" where
  "reviewer_request config ids candidate validation =
     \<lparr>rq_candidate = candidate, rq_validation = validation, rq_selected_evidence = cf_evidence config,
      rq_rubric = cf_rubric config, rq_session_id = RunSessionIds_id ids RoleReviewer,
      rq_producer_session_id = RunSessionIds_id ids RoleProducer,
      rq_authority = reviewer_authority config ids\<rparr>"

text \<open>The branch of a valid candidate: the reviewer runs with a fresh lease, closed afterwards.\<close>

definition semantic_round ::
    "('s, 'e, 'b, 'v, 'env) Callbacks \<Rightarrow> 'b ReviewLoopConfig \<Rightarrow> RunSessionIds \<Rightarrow> ValidationReport
     \<Rightarrow> ('s, 'b) LoopState \<Rightarrow> ('s, 'e, 'b) progress" where
  "semantic_round cb config ids validation st =
     (if budget_exhausted (ls_metrics st) config then ended st (abstain (ls_metrics st) BudgetExhausted)
      else
        let metrics = push_stage StReviewer (ls_metrics st) in
        case checked_add (mt_reviewer_attempts metrics) 1 of
          None \<Rightarrow> ended st (abstain metrics BudgetExhausted)
        | Some reviewer_attempts \<Rightarrow>
            let metrics = metrics\<lparr>mt_reviewer_attempts := reviewer_attempts\<rparr>;
                request = reviewer_request config ids (ls_candidate st) validation;
                ((world, response), cells) =
                  drive (cb_bridge cb) (rq_authority request) (cb_reviewer cb (ls_world st) request)
                    \<lparr>rc_boundary = ls_boundary st, rc_budget = ls_budget st, rc_lease = LeaseOpen\<rparr>;
                st = st\<lparr>ls_world := world, ls_metrics := metrics, ls_boundary := rc_boundary cells,
                        ls_budget := rc_budget cells\<rparr>
            in case response of
                 None \<Rightarrow> Done st None
               | Some (Inl error) \<Rightarrow>
                   failed st (ReviewerError error (snd (record_response_cost metrics ReviewCost_default (ls_budget st))))
               | Some (Inr response) \<Rightarrow> judge_round cb config validation response st)"

text \<open>One iteration of the loop.\<close>

definition review_round ::
    "('s, 'e, 'b, 'v, 'env) Callbacks \<Rightarrow> 'b ReviewLoopConfig \<Rightarrow> RunSessionIds \<Rightarrow> ('s, 'b) LoopState
     \<Rightarrow> ('s, 'e, 'b) progress" where
  "review_round cb config ids st =
     (let metrics = push_stage StValidate (ls_metrics st) in
      case checked_add (mt_validation_attempts metrics) 1 of
        None \<Rightarrow> ended st (abstain metrics BudgetExhausted)
      | Some validation_attempts \<Rightarrow>
          let metrics = metrics\<lparr>mt_validation_attempts := validation_attempts\<rparr>;
              (world, reply) = cb_validator cb (ls_world st) (ls_candidate st);
              st = st\<lparr>ls_world := world, ls_metrics := metrics\<rparr>
          in case reply of
               None \<Rightarrow> Done st None
             | Some (Inl error) \<Rightarrow> failed st (ValidatorError error metrics)
             | Some (Inr validation) \<Rightarrow>
                 if \<not> vr_valid validation then repair_round cb config validation st
                 else semantic_round cb config ids validation st)"

section \<open>Progress and termination\<close>

lemma checked_add_1: "checked_add (a :: 'w::len word) 1 = Some b \<Longrightarrow> unat b = Suc (unat a)"
  by (drule checked_add_Some_unat) simp

lemma push_stage_simps [simp]:
  "mt_producer_attempts (push_stage s m) = mt_producer_attempts m"
  "mt_validation_attempts (push_stage s m) = mt_validation_attempts m"
  "mt_reviewer_attempts (push_stage s m) = mt_reviewer_attempts m"
  "mt_revisions (push_stage s m) = mt_revisions m"
  "mt_cost (push_stage s m) = mt_cost m"
  "mt_stages (push_stage s m) = mt_stages m @ [s]"
  by (simp_all add: push_stage_def)

lemma record_response_cost_keeps:
  "record_response_cost m reported budget = (b, m') \<Longrightarrow>
     mt_producer_attempts m' = mt_producer_attempts m \<and> mt_validation_attempts m' = mt_validation_attempts m \<and>
     mt_reviewer_attempts m' = mt_reviewer_attempts m \<and> mt_revisions m' = mt_revisions m \<and>
     mt_stages m' = mt_stages m"
  by (auto simp: record_response_cost_def Let_def split: option.splits)

text \<open>A candidate is only replaced by a revision that \<open>revise_candidate\<close> accepted.\<close>

lemma revise_candidate_Continue:
  assumes "revise_candidate cb config st validation review = Continue st'"
  obtains world response n m where
    "mt_revisions (ls_metrics st) < cf_max_revisions config"
    "\<not> budget_exhausted (ls_metrics st) config"
    "checked_add (mt_revisions (ls_metrics st)) 1 = Some n"
    "cb_reviser cb (ls_world st) \<lparr>xq_candidate = ls_candidate st, xq_validation = validation, xq_review = review\<rparr>
       = (world, Some (Inr response))"
    "record_response_cost (push_stage StReviser (ls_metrics st)\<lparr>mt_revisions := n\<rparr>) (xp_cost response) (ls_budget st)
       = (True, m)"
    "\<not> budget_overrun m config"
    "cf_stop_on_two_cycle config \<Longrightarrow> length (ls_hashes st) \<ge> 2 \<Longrightarrow>
       ls_hashes st ! (length (ls_hashes st) - 2) \<noteq> ca_sha256 (xp_candidate response)"
    "cf_stop_on_repeated_output_hash config \<Longrightarrow> ca_sha256 (xp_candidate response) \<notin> set (ls_hashes st)"
    "st' = st\<lparr>ls_world := world, ls_metrics := m, ls_hashes := ls_hashes st @ [ca_sha256 (xp_candidate response)],
              ls_candidate := xp_candidate response\<rparr>"
  using assms
  by (auto simp: revise_candidate_def accept_revision_def Let_def list_ex_iff
      split: if_splits option.splits prod.splits sum.splits)

lemma repair_round_Continue:
  assumes "repair_round cb config validation st = Continue st'"
  obtains last_defects rounds review where
    "revise_candidate cb config (st\<lparr>ls_last_defects := last_defects, ls_same_defect_rounds := rounds\<rparr>) validation review
       = Continue st'"
  using assms by (auto simp: repair_round_def Let_def split: if_splits prod.splits sum.splits)

lemma judge_round_Continue:
  assumes "judge_round cb config validation response st = Continue st'"
  obtains m last_defects rounds where
    "record_response_cost (ls_metrics st) (rp_cost response) (ls_budget st) = (True, m)"
    "\<not> budget_overrun m config"
    "revise_candidate cb config
       (st\<lparr>ls_metrics := m, ls_last_defects := last_defects, ls_same_defect_rounds := rounds\<rparr>) validation
       (rp_review response) = Continue st'"
  using assms
  by (auto simp: judge_round_def publish_round_def Let_def
      split: if_splits prod.splits option.splits sum.splits ReviewVerdict.splits)

text \<open>A round that continues has made one more revision, below the configured maximum.\<close>

lemma revise_candidate_progress:
  assumes "revise_candidate cb config st validation review = Continue st'"
  shows "unat (mt_revisions (ls_metrics st')) = Suc (unat (mt_revisions (ls_metrics st))) \<and>
         unat (mt_revisions (ls_metrics st)) < unat (cf_max_revisions config)"
  using assms
proof (rule revise_candidate_Continue)
  fix world response n m
  assume "mt_revisions (ls_metrics st) < cf_max_revisions config"
    and "checked_add (mt_revisions (ls_metrics st)) 1 = Some n"
    and "record_response_cost (push_stage StReviser (ls_metrics st)\<lparr>mt_revisions := n\<rparr>) (xp_cost response)
           (ls_budget st) = (True, m)"
    and "st' = st\<lparr>ls_world := world, ls_metrics := m, ls_hashes := ls_hashes st @ [ca_sha256 (xp_candidate response)],
           ls_candidate := xp_candidate response\<rparr>"
  then show ?thesis by (simp add: checked_add_1 word_less_nat_alt record_response_cost_keeps)
qed

lemma review_round_progress:
  assumes "review_round cb config ids st = Continue st'"
  shows "unat (mt_revisions (ls_metrics st')) = Suc (unat (mt_revisions (ls_metrics st))) \<and>
         unat (mt_revisions (ls_metrics st)) < unat (cf_max_revisions config)"
  using assms
  by (fastforce simp: review_round_def semantic_round_def Let_def
      split: option.splits prod.splits sum.splits if_splits
      elim!: repair_round_Continue judge_round_Continue
      dest!: revise_candidate_progress record_response_cost_keeps)

function review_loop ::
    "('s, 'e, 'b, 'v, 'env) Callbacks \<Rightarrow> 'b ReviewLoopConfig \<Rightarrow> RunSessionIds \<Rightarrow> ('s, 'b) LoopState
     \<Rightarrow> ('s, 'b) LoopState \<times> 'e loop_result" where
  "review_loop cb config ids st =
     (case review_round cb config ids st of
        Done st' result \<Rightarrow> (st', result)
      | Continue st' \<Rightarrow> review_loop cb config ids st')"
  by pat_completeness auto

termination
  by (relation "measure (\<lambda>(cb, config, ids, st).
        unat (cf_max_revisions config) - unat (mt_revisions (ls_metrics st)))")
     (auto dest: review_round_progress)

declare review_loop.simps [simp del]

text \<open>The rule for the loop: an invariant at its head, a postcondition of its last round.\<close>

lemma review_loop_rule:
  assumes "I st"
    and "\<And>st st'. I st \<Longrightarrow> review_round cb config ids st = Continue st' \<Longrightarrow> I st'"
    and "\<And>st st' r. I st \<Longrightarrow> review_round cb config ids st = Done st' r \<Longrightarrow> Q st' r"
    and "review_loop cb config ids st = (st', r)"
  shows "Q st' r"
  using assms
proof (induction cb config ids st rule: review_loop.induct)
  case (1 cb config ids st0)
  show ?case
  proof (cases "review_round cb config ids st0")
    case (Done st1 r1)
    then show ?thesis using 1(2,4,5) by (simp add: review_loop.simps [of cb config ids st0])
  next
    case (Continue st1)
    then have "I st1" and "review_loop cb config ids st1 = (st', r)"
      using 1(2,3,5) by (simp_all add: review_loop.simps [of cb config ids st0])
    then show ?thesis using 1(1) [OF Continue] 1(3,4) by blast
  qed
qed

definition initial_metrics :: ReviewLoopMetrics where
  "initial_metrics =
     \<lparr>mt_producer_attempts = 1, mt_validation_attempts = 0, mt_reviewer_attempts = 0, mt_revisions = 0,
      mt_cost = ReviewCost_default, mt_stages = [StProducer]\<rparr>"

definition initial_state :: "'b ReviewLoopConfig \<Rightarrow> CandidateArtifact \<Rightarrow> 's \<Rightarrow> ('s, 'b) LoopState" where
  "initial_state config candidate world =
     \<lparr>ls_candidate = candidate, ls_metrics = initial_metrics, ls_hashes = [ca_sha256 candidate],
      ls_last_defects = None, ls_same_defect_rounds = 0, ls_boundary = cf_execution_boundary config,
      ls_budget = ReviewerToolBudget_new (cf_max_tool_calls config), ls_world = world\<rparr>"

text \<open>
  The whole run: the state the callbacks and the tool boundary are left in, and the result.
\<close>

definition run_bounded_review_loop ::
    "('s, 'e, 'b, 'v, 'env) Callbacks \<Rightarrow> 'b ReviewLoopConfig \<Rightarrow> byte list option \<Rightarrow> 's
     \<Rightarrow> ('s \<times> 'b ReviewerExecutionBoundary option) \<times> 'e loop_result" where
  "run_bounded_review_loop cb config entropy world =
     (if \<not> validate_config config
      then ((world, cf_execution_boundary config), Some (Inl InvalidConfiguration))
      else
        let (world, reply) = cb_producer cb world; unchanged = (world, cf_execution_boundary config) in
        case reply of
          None \<Rightarrow> (unchanged, None)
        | Some (Inl error) \<Rightarrow> (unchanged, Some (Inl (ProducerError error initial_metrics)))
        | Some (Inr candidate) \<Rightarrow>
            (case allocate_with entropy of
               Inl error \<Rightarrow> (unchanged, Some (Inl (SessionIdentity error)))
             | Inr ids \<Rightarrow>
                 let (st, result) = review_loop cb config ids (initial_state config candidate world)
                 in ((ls_world st, ls_boundary st), result)))"

end
