(* ===== verification/Review_Correct.thy ===== *)
theory Review_Correct
  imports Review_Loop
begin

text \<open>
  Correctness of the bounded review loop.  An abstract machine on the recorded metrics says which
  stage may follow which and when a callback may be called; the loop refines it, and the bounds on
  attempts, revisions, cost and trace are invariants of the abstract machine.  The conditions of
  publication, the freshness of candidate hashes, the tool dispatches of the reviewer and the
  absence of panics are proved of the loop itself.
\<close>

section \<open>The abstract machine\<close>

text \<open>
  \<open>review_reach config pending m\<close>: metrics \<open>m\<close> can be reached; \<open>pending\<close> says that a reviewer
  or reviser call has been made that is not billed yet.  A counter is incremented, or stays when it
  would overflow.
\<close>

definition counted :: "usize \<Rightarrow> usize \<Rightarrow> bool" where
  "counted a b \<longleftrightarrow> checked_add a 1 = Some b \<or> checked_add a 1 = None \<and> b = a"

lemma counted_le: "counted a b \<Longrightarrow> unat b \<le> Suc (unat a)"
  by (auto simp: counted_def dest: checked_add_1)

inductive review_reach :: "'b ReviewLoopConfig \<Rightarrow> bool \<Rightarrow> ReviewLoopMetrics \<Rightarrow> bool"
  for config where
  start: "review_reach config False initial_metrics"
| validate: "review_reach config False (push_stage StValidate m\<lparr>mt_validation_attempts := v\<rparr>)"
    if "review_reach config False m" "last (mt_stages m) \<in> {StProducer, StReviser}"
       "\<not> budget_overrun m config" "counted (mt_validation_attempts m) v"
| review: "review_reach config True (push_stage StReviewer m\<lparr>mt_reviewer_attempts := r\<rparr>)"
    if "review_reach config False m" "last (mt_stages m) = StValidate"
       "\<not> budget_exhausted m config" "counted (mt_reviewer_attempts m) r"
| revise: "review_reach config True (push_stage StReviser m\<lparr>mt_revisions := r\<rparr>)"
    if "review_reach config False m" "last (mt_stages m) \<in> {StValidate, StReviewer}"
       "\<not> budget_exhausted m config" "mt_revisions m < cf_max_revisions config"
       "checked_add (mt_revisions m) 1 = Some r"
| bill: "review_reach config False (m\<lparr>mt_cost := c\<rparr>)"
    if "review_reach config True m" "unat (co_model_turns (mt_cost m)) < unat (co_model_turns c)"
       "co_tool_calls c \<le> cf_max_tool_calls config"
| final_validate: "review_reach config False (push_stage StFinalValidate m\<lparr>mt_validation_attempts := v\<rparr>)"
    if "review_reach config False m" "last (mt_stages m) = StReviewer"
       "\<not> budget_overrun m config" "counted (mt_validation_attempts m) v"
| publish: "review_reach config False (push_stage StPublish m)"
    if "review_reach config False m" "last (mt_stages m) = StFinalValidate"
| abstain: "review_reach config p (push_stage StAbstain m)"
    if "review_reach config p m" "last (mt_stages m) \<notin> {StPublish, StAbstain}"

text \<open>Which stage may follow which.\<close>

fun legal_next :: "ReviewLoopStage \<Rightarrow> ReviewLoopStage \<Rightarrow> bool" where
  "legal_next StProducer t \<longleftrightarrow> t \<in> {StValidate, StAbstain}"
| "legal_next StValidate t \<longleftrightarrow> t \<in> {StReviewer, StReviser, StAbstain}"
| "legal_next StReviewer t \<longleftrightarrow> t \<in> {StReviser, StFinalValidate, StAbstain}"
| "legal_next StReviser t \<longleftrightarrow> t \<in> {StValidate, StAbstain}"
| "legal_next StFinalValidate t \<longleftrightarrow> t \<in> {StPublish, StAbstain}"
| "legal_next StPublish t \<longleftrightarrow> False"
| "legal_next StAbstain t \<longleftrightarrow> False"

lemma legal_next_abstain: "s \<notin> {StPublish, StAbstain} \<Longrightarrow> legal_next s StAbstain"
  by (cases s) auto

definition legal_trace :: "ReviewLoopStage list \<Rightarrow> bool" where
  "legal_trace stages \<longleftrightarrow> stages \<noteq> [] \<and> hd stages = StProducer \<and> successively legal_next stages"

lemma legal_trace_snoc:
  "legal_trace stages \<Longrightarrow> legal_next (last stages) s \<Longrightarrow> legal_trace (stages @ [s])"
  by (auto simp: legal_trace_def successively_append_iff)

lemma review_reach_trace: "review_reach config p m \<Longrightarrow> legal_trace (mt_stages m)"
proof (induction rule: review_reach.induct)
  case start
  show ?case by (simp add: initial_metrics_def legal_trace_def)
qed (auto intro!: legal_trace_snoc legal_next_abstain)

text \<open>The room a stage leaves in the current round.\<close>

fun validations_in :: "ReviewLoopStage \<Rightarrow> nat" where
  "validations_in StProducer = 0" | "validations_in StReviser = 0"
| "validations_in StValidate = 1" | "validations_in StReviewer = 1"
| "validations_in s = 2"

fun reviews_in :: "ReviewLoopStage \<Rightarrow> nat" where
  "reviews_in StProducer = 0" | "reviews_in StReviser = 0" | "reviews_in StValidate = 0"
| "reviews_in s = 1"

fun stages_in :: "ReviewLoopStage \<Rightarrow> nat" where
  "stages_in StProducer = 1" | "stages_in StReviser = 1" | "stages_in StValidate = 2"
| "stages_in StReviewer = 3" | "stages_in StFinalValidate = 4" | "stages_in s = 5"

lemma stage_room: "s \<notin> {StPublish, StAbstain} \<Longrightarrow> validations_in s \<le> 2 \<and> reviews_in s \<le> 1 \<and> Suc (stages_in s) \<le> 5"
  by (cases s) auto

lemma review_reach_stages:
  "review_reach config p m \<Longrightarrow>
     unat (mt_validation_attempts m) \<le> unat (mt_revisions m) + validations_in (last (mt_stages m)) \<and>
     unat (mt_reviewer_attempts m) \<le> unat (mt_revisions m) + reviews_in (last (mt_stages m)) \<and>
     length (mt_stages m) \<le> 3 * unat (mt_revisions m) + stages_in (last (mt_stages m))"
proof (induction rule: review_reach.induct)
  case start
  show ?case by (simp add: initial_metrics_def)
next
  case (abstain p m)
  then show ?case using stage_room [OF abstain(2)] by auto
qed (auto dest!: counted_le checked_add_1)

lemma exhausted_words:
  "\<not> budget_exhausted m config \<longleftrightarrow>
     unat (co_model_turns (mt_cost m)) < unat (cf_max_model_turns config) \<and>
     unat (co_tool_calls (mt_cost m)) < unat (cf_max_tool_calls config)"
  "\<not> budget_overrun m config \<longleftrightarrow>
     unat (co_model_turns (mt_cost m)) \<le> unat (cf_max_model_turns config) \<and>
     unat (co_tool_calls (mt_cost m)) \<le> unat (cf_max_tool_calls config)"
  by (auto simp: budget_exhausted_def budget_overrun_def word_less_nat_alt word_le_nat_alt)

lemma review_reach_calls:
  "review_reach config p m \<Longrightarrow>
     mt_revisions m \<le> cf_max_revisions config \<and>
     unat (mt_reviewer_attempts m) + unat (mt_revisions m)
       \<le> unat (co_model_turns (mt_cost m)) + (if p then 1 else 0) \<and>
     unat (mt_reviewer_attempts m) + unat (mt_revisions m) \<le> unat (cf_max_model_turns config) \<and>
     co_tool_calls (mt_cost m) \<le> cf_max_tool_calls config"
  by (induction rule: review_reach.induct)
    (auto simp: initial_metrics_def ReviewCost_default_def exhausted_words word_le_nat_alt word_less_nat_alt
      dest!: counted_le checked_add_1)

lemma review_reach_final:
  "review_reach config p m \<Longrightarrow> last (mt_stages m) \<in> {StFinalValidate, StPublish} \<Longrightarrow>
     \<not> p \<and> \<not> budget_overrun m config"
  by (induction rule: review_reach.induct)
    (auto simp: initial_metrics_def budget_overrun_def)

section \<open>The loop refines the abstract machine\<close>

definition budget_ok :: "'b ReviewLoopConfig \<Rightarrow> ReviewerToolBudget \<Rightarrow> bool" where
  "budget_ok config b \<longleftrightarrow> unat (tb_consumed b) + unat (tb_remaining b) = unat (cf_max_tool_calls config)"

definition result_metrics :: "'e loop_result \<Rightarrow> ReviewLoopMetrics option" where
  "result_metrics r =
     (case r of None \<Rightarrow> None | Some (Inr outcome) \<Rightarrow> Some (ReviewLoopOutcome_metrics outcome)
      | Some (Inl error) \<Rightarrow> ReviewLoopError_metrics error)"

lemma result_metrics_simps [simp]:
  "result_metrics None = None"
  "result_metrics (Some (Inr outcome)) = Some (ReviewLoopOutcome_metrics outcome)"
  "result_metrics (Some (Inl error)) = ReviewLoopError_metrics error"
  by (simp_all add: result_metrics_def)

definition reports :: "'b ReviewLoopConfig \<Rightarrow> 'e loop_result \<Rightarrow> bool" where
  "reports config r \<longleftrightarrow>
     (\<forall>m. result_metrics r = Some m \<longrightarrow> (\<exists>p. review_reach config p m)) \<and>
     (\<forall>c m. r = Some (Inr (Published c m)) \<longrightarrow> last (mt_stages m) = StPublish) \<and>
     (\<forall>d m. r = Some (Inr (Abstained d m)) \<longrightarrow> last (mt_stages m) = StAbstain \<and> dg_stage d = StAbstain)"

definition loop_head :: "'b ReviewLoopConfig \<Rightarrow> ('s, 'b) LoopState \<Rightarrow> bool" where
  "loop_head config st \<longleftrightarrow>
     review_reach config False (ls_metrics st) \<and> last (mt_stages (ls_metrics st)) \<in> {StProducer, StReviser} \<and>
     \<not> budget_overrun (ls_metrics st) config \<and> budget_ok config (ls_budget st)"

fun refines :: "'b ReviewLoopConfig \<Rightarrow> ('s, 'e, 'b) progress \<Rightarrow> bool" where
  "refines config (Done st r) \<longleftrightarrow> reports config r"
| "refines config (Continue st) \<longleftrightarrow> loop_head config st"

lemma ReviewLoopOutcome_metrics_abstain [simp]: "ReviewLoopOutcome_metrics (abstain m code) = push_stage StAbstain m"
  by (simp add: abstain_def)

lemma reports_abstain:
  "review_reach config p m \<Longrightarrow> last (mt_stages m) \<notin> {StPublish, StAbstain} \<Longrightarrow>
     reports config (Some (Inr (abstain m code)))"
  unfolding reports_def using review_reach.abstain by (fastforce simp: abstain_def)

lemma reports_error:
  "ReviewLoopError_metrics e = None \<or> (\<exists>p m. ReviewLoopError_metrics e = Some m \<and> review_reach config p m) \<Longrightarrow>
     reports config (Some (Inl e))"
  unfolding reports_def by auto

lemma reports_ValidatorError: "review_reach config p m \<Longrightarrow> reports config (Some (Inl (ValidatorError e m)))"
  by (rule reports_error) auto

lemma reports_panic [simp]: "reports config None"
  by (simp add: reports_def)

lemma record_response_cost_bills:
  assumes "record_response_cost m reported budget = (True, m')"
  obtains c where "m' = m\<lparr>mt_cost := c\<rparr>" "unat (co_model_turns (mt_cost m)) < unat (co_model_turns c)"
    "co_tool_calls c = tb_consumed budget"
proof -
  obtain cost where add: "ReviewCost_checked_add (mt_cost m)
        \<lparr>co_model_turns = max (co_model_turns reported) 1, co_tool_calls = 0\<rparr> = Some cost"
    and m': "m' = m\<lparr>mt_cost := cost\<lparr>co_tool_calls := tb_consumed budget\<rparr>\<rparr>"
    using assms by (auto simp: record_response_cost_def Let_def split: option.splits)
  then have "unat (co_model_turns cost) = unat (co_model_turns (mt_cost m)) + unat (max (co_model_turns reported) 1)"
    by (auto simp: ReviewCost_checked_add_def split: option.splits dest: checked_add_Some_unat)
  moreover have "(1 :: u64) \<le> max (co_model_turns reported) 1" by simp
  then have "1 \<le> unat (max (co_model_turns reported) 1)" by (simp only: word_le_nat_alt) simp
  ultimately show thesis using that m' by simp
qed

lemma billed_reach:
  assumes "review_reach config True m" "record_response_cost m reported budget = (True, m')" "budget_ok config budget"
  shows "review_reach config False m'"
proof -
  have "tb_consumed budget \<le> cf_max_tool_calls config"
    using assms(3) by (simp add: budget_ok_def word_le_nat_alt)
  then show ?thesis using assms(1,2) by (auto elim!: record_response_cost_bills intro!: review_reach.bill)
qed

lemma record_failed: "record_response_cost m reported budget = (False, m') \<Longrightarrow> m' = m"
  by (auto simp: record_response_cost_def Let_def split: option.splits)

lemma recorded_reach:
  assumes "review_reach config True m" "budget_ok config budget"
  shows "\<exists>p. review_reach config p (snd (record_response_cost m reported budget))"
proof (cases "record_response_cost m reported budget")
  case (Pair b m')
  then show ?thesis using assms billed_reach record_failed by (cases b) fastforce+
qed

lemma checked_add_below: "(a :: 'w::len word) < b \<Longrightarrow> checked_add a 1 \<noteq> None"
proof -
  assume "a < b"
  then have "Suc (unat a) \<le> unat b" by (simp add: word_less_nat_alt)
  also have "unat b < 2 ^ LENGTH('w)" by (rule unsigned_less)
  finally show ?thesis by (simp add: checked_add_def)
qed

lemma counted_Some: "checked_add a 1 = Some b \<Longrightarrow> counted a b"
  and counted_None: "checked_add a 1 = None \<Longrightarrow> counted a a"
  by (simp_all add: counted_def)

lemma push_stage_same [simp]:
  "push_stage s m\<lparr>mt_validation_attempts := mt_validation_attempts m\<rparr> = push_stage s m"
  "push_stage s m\<lparr>mt_reviewer_attempts := mt_reviewer_attempts m\<rparr> = push_stage s m"
  by (simp_all add: push_stage_def)

lemma revise_candidate_refines:
  assumes reach: "review_reach config False (ls_metrics st)"
    and stage: "last (mt_stages (ls_metrics st)) \<in> {StValidate, StReviewer}"
    and budget: "budget_ok config (ls_budget st)"
  shows "refines config (revise_candidate cb config st validation review)"
proof (cases "mt_revisions (ls_metrics st) \<ge> cf_max_revisions config \<or> budget_exhausted (ls_metrics st) config")
  case True
  then show ?thesis using reach stage by (auto simp: revise_candidate_def intro!: reports_abstain)
next
  case False
  then have room: "mt_revisions (ls_metrics st) < cf_max_revisions config"
    "\<not> budget_exhausted (ls_metrics st) config" by auto
  obtain n where n: "checked_add (mt_revisions (ls_metrics st)) 1 = Some n"
    using checked_add_below [OF room(1)] by blast
  define m where "m = push_stage StReviser (ls_metrics st)\<lparr>mt_revisions := n\<rparr>"
  have m: "review_reach config True m" "last (mt_stages m) = StReviser"
    unfolding m_def using review_reach.revise [OF reach stage room(2,1) n] by simp_all
  obtain world response where call: "cb_reviser cb (ls_world st)
      \<lparr>xq_candidate = ls_candidate st, xq_validation = validation, xq_review = review\<rparr> = (world, response)"
    by fastforce
  show ?thesis
  proof (cases response)
    case None
    then show ?thesis using room n call by (simp add: revise_candidate_def Let_def not_le [symmetric])
  next
    case (Some r)
    show ?thesis
    proof (cases r)
      case (Inl e)
      then show ?thesis using Some room n call recorded_reach [OF m(1) budget]
        by (auto simp: revise_candidate_def Let_def m_def not_le intro!: reports_error)
    next
      case (Inr resp)
      obtain b m' where rec: "record_response_cost m (xp_cost resp) (ls_budget st) = (b, m')" by fastforce
      have reach': "\<exists>p. review_reach config p m'" using recorded_reach [OF m(1) budget, of "xp_cost resp"] rec by simp
      have last': "last (mt_stages m') = StReviser" using record_response_cost_keeps [OF rec] m(2) by simp
      have billed: "b \<Longrightarrow> review_reach config False m'" using billed_reach [OF m(1) _ budget] rec by simp
      from reach' last' billed show ?thesis using Some Inr room n call rec budget
        by (auto simp: revise_candidate_def accept_revision_def Let_def m_def [symmetric] not_le loop_head_def
            intro!: reports_abstain)
    qed
  qed
qed

lemma repair_round_refines:
  assumes "review_reach config False (ls_metrics st)" "last (mt_stages (ls_metrics st)) = StValidate"
    and "budget_ok config (ls_budget st)"
  shows "refines config (repair_round cb config validation st)"
  using assms
  by (auto simp: repair_round_def Let_def validation_review_def split: prod.splits sum.splits
      simp: map_err_Inl_iff intro!: reports_abstain revise_candidate_refines reports_error)

lemma publish_round_refines:
  assumes "review_reach config False (ls_metrics st)" "last (mt_stages (ls_metrics st)) = StReviewer"
    and "\<not> budget_overrun (ls_metrics st) config"
  shows "refines config (publish_round cb st)"
proof -
  have final: "review_reach config False (push_stage StFinalValidate (ls_metrics st)\<lparr>mt_validation_attempts := v\<rparr>)"
    if "counted (mt_validation_attempts (ls_metrics st)) v" for v
    using review_reach.final_validate [OF assms that] .
  have none: "review_reach config False (push_stage StFinalValidate (ls_metrics st))"
    if "checked_add (mt_validation_attempts (ls_metrics st)) 1 = None"
    using final [OF counted_None [OF that]] by simp
  have pub: "reports config (Some (Inr (Published c (push_stage StPublish
      (push_stage StFinalValidate (ls_metrics st)\<lparr>mt_validation_attempts := v\<rparr>)))))"
    if "counted (mt_validation_attempts (ls_metrics st)) v" for v c
    using review_reach.publish [OF final [OF that]] by (auto simp: reports_def)
  show ?thesis using final none pub
    by (auto simp: publish_round_def Let_def split: option.splits prod.splits sum.splits
        intro!: reports_abstain reports_ValidatorError dest!: counted_Some)
qed

lemma judge_round_refines:
  assumes reach: "review_reach config True (ls_metrics st)"
    and stage: "last (mt_stages (ls_metrics st)) = StReviewer"
    and budget: "budget_ok config (ls_budget st)"
  shows "refines config (judge_round cb config validation response st)"
proof -
  obtain b m where rec: "record_response_cost (ls_metrics st) (rp_cost response) (ls_budget st) = (b, m)" by fastforce
  have m: "\<exists>p. review_reach config p m" "last (mt_stages m) = StReviewer"
    using recorded_reach [OF reach budget, of "rp_cost response"] record_response_cost_keeps [OF rec] stage rec by simp_all
  have billed: "b \<Longrightarrow> review_reach config False m" using billed_reach [OF reach _ budget] rec by simp
  obtain rep d n where obs: "observe_defects (rr_defects (rp_review response)) (ls_last_defects st)
      (ls_same_defect_rounds st) (cf_max_same_defect_rounds config) = (rep, d, n)" by (metis prod_cases3)
  let ?st = "st\<lparr>ls_metrics := m, ls_last_defects := d, ls_same_defect_rounds := n\<rparr>"
  have "refines config (revise_candidate cb config ?st validation (rp_review response))" if b
    by (rule revise_candidate_refines) (use billed m budget that in simp_all)
  moreover have "refines config (publish_round cb ?st)" if b "\<not> budget_overrun m config"
    by (rule publish_round_refines) (use billed m that in simp_all)
  ultimately show ?thesis using m
    by (auto simp: judge_round_def Let_def rec obs split: ReviewVerdict.splits intro!: reports_abstain)
qed

text \<open>
  The tool budget through a run of the reviewer: every call that reaches the bridge has been
  reserved.  \<open>dispatched bridge allowed n b b'\<close>: the bridge went from \<open>b\<close> to \<open>b'\<close> by \<open>n\<close> allowed
  calls.
\<close>

inductive dispatched :: "('b, 'v, 'env) bridge_invoke \<Rightarrow> ('v ToolCall \<Rightarrow> bool) \<Rightarrow> nat \<Rightarrow> 'b \<Rightarrow> 'b \<Rightarrow> bool"
  for bridge allowed where
  idle: "dispatched bridge allowed 0 b b"
| call: "dispatched bridge allowed (Suc n) b b''"
    if "dispatched bridge allowed n b b'" "allowed tool_call" "bridge b' tool_call = (b'', reply)"

definition cells_ok ::
    "('b, 'v, 'env) bridge_invoke \<Rightarrow> ('v ToolCall \<Rightarrow> bool) \<Rightarrow> nat \<Rightarrow> 'b ReviewerExecutionBoundary option
     \<Rightarrow> 'b ReviewerExecutionBoundary option \<Rightarrow> ReviewerToolBudget \<Rightarrow> bool" where
  "cells_ok bridge allowed limit start boundary budget \<longleftrightarrow>
     unat (tb_consumed budget) + unat (tb_remaining budget) = limit \<and>
     rel_option (\<lambda>s b. eb_read_only_tools b = eb_read_only_tools s \<and>
        (\<exists>n \<le> unat (tb_consumed budget). dispatched bridge allowed n (eb_bridge s) (eb_bridge b))) start boundary"

text \<open>A call is allowed if it comes from the reviewer's session and both tool lists name the tool.\<close>

definition allowed_call :: "ReviewerAuthority \<Rightarrow> 'b ReviewerExecutionBoundary option \<Rightarrow> 'v ToolCall \<Rightarrow> bool" where
  "allowed_call authority start call \<longleftrightarrow>
     tc_actor call = ra_reviewer_session_id authority \<and> tc_name call \<in> set (ra_read_only_tools authority) \<and>
     (case start of None \<Rightarrow> False | Some s \<Rightarrow> tc_name call \<in> set (eb_read_only_tools s))"

lemma reserve_True:
  assumes "reserve b = (True, b')"
  shows "unat (tb_consumed b') = Suc (unat (tb_consumed b)) \<and>
         unat (tb_consumed b') + unat (tb_remaining b') = unat (tb_consumed b) + unat (tb_remaining b)"
proof -
  have "tb_remaining b \<noteq> 0" using assms by (auto simp: reserve_def split: if_splits)
  then have "unat (tb_remaining b - 1) = unat (tb_remaining b) - 1" "0 < unat (tb_remaining b)"
    by (simp_all add: unat_minus_one unat_gt_0)
  then show ?thesis using assms
    by (auto simp: reserve_def split: if_splits option.splits dest!: checked_add_1)
qed

lemma reserve_False: "reserve b = (False, b') \<Longrightarrow> b' = b"
  by (auto simp: reserve_def split: if_splits option.splits)

lemma invoke_tool_cells_ok:
  assumes ok: "cells_ok bridge (allowed_call authority start) limit start (rc_boundary cells) (rc_budget cells)"
    and step: "invoke_tool bridge authority call_id tool_name arguments cells = (reply, cells')"
  shows "cells_ok bridge (allowed_call authority start) limit start (rc_boundary cells') (rc_budget cells')"
proof (cases "rc_lease cells = LeaseOpen \<and> tool_name \<in> set (ra_read_only_tools authority)")
  case False
  then have "cells' = cells" using step by (auto simp: invoke_tool_def split: if_splits)
  then show ?thesis using ok by simp
next
  case usable: True
  show ?thesis
  proof (cases "rc_boundary cells")
    case None
    then show ?thesis using usable step ok by (auto simp: invoke_tool_def)
  next
    case (Some bd)
    define tool_call where "tool_call = \<lparr>tc_name = tool_name, tc_call_id = call_id,
      tc_actor = ra_reviewer_session_id authority, tc_arguments = arguments\<rparr>"
    obtain s n where s: "start = Some s" "eb_read_only_tools bd = eb_read_only_tools s"
      and n: "n \<le> unat (tb_consumed (rc_budget cells))"
      and path: "dispatched bridge (allowed_call authority start) n (eb_bridge s) (eb_bridge bd)"
      and total: "unat (tb_consumed (rc_budget cells)) + unat (tb_remaining (rc_budget cells)) = limit"
      using ok Some by (auto simp: cells_ok_def option_rel_Some2)
    obtain r bd' budget' where bi: "boundary_invoke bridge tool_call bd (rc_budget cells) = (r, bd', budget')"
      by (metis prod_cases3)
    have cells': "rc_boundary cells' = Some bd'" "rc_budget cells' = budget'"
      using step usable Some bi by (auto simp: invoke_tool_def tool_call_def split: prod.splits if_splits)
    obtain res budget1 where res: "reserve (rc_budget cells) = (res, budget1)" by fastforce
    consider (same) "bd' = bd" "budget' = rc_budget cells"
      | (reserved) "bd' = bd" "res" "budget' = budget1"
      | (called) b'' where "bridge (eb_bridge bd) tool_call = (b'', r)" "tool_name \<in> set (eb_read_only_tools s)"
          "res" "budget' = budget1" "eb_bridge bd' = b''" "eb_read_only_tools bd' = eb_read_only_tools s"
      using bi res reserve_False [of "rc_budget cells" budget1] s(2)
      by (auto simp: boundary_invoke_def tool_call_def Let_def split: if_splits prod.splits)
    then show ?thesis
    proof cases
      case same
      then show ?thesis using ok Some cells' by simp
    next
      case reserved
      then show ?thesis using res reserve_True [of "rc_budget cells" budget1] n path s total cells'
        by (auto simp: cells_ok_def intro!: exI [of _ n])
    next
      case called
      have "allowed_call authority start tool_call"
        using called(2) usable s(1) by (simp add: allowed_call_def tool_call_def)
      then have "dispatched bridge (allowed_call authority start) (Suc n) (eb_bridge s) b''"
        using path called(1) by (auto intro: dispatched.call)
      then show ?thesis using res reserve_True [of "rc_budget cells" budget1] n s total cells' called
        by (auto simp: cells_ok_def intro!: exI [of _ "Suc n"])
    qed
  qed
qed

lemma drive_cells_ok:
  "cells_ok bridge (allowed_call authority start) limit start (rc_boundary cells) (rc_budget cells) \<Longrightarrow>
   drive bridge authority run cells = (r, cells') \<Longrightarrow>
   cells_ok bridge (allowed_call authority start) limit start (rc_boundary cells') (rc_budget cells')"
proof (induction run arbitrary: cells)
  case (Finish x)
  then show ?case by simp
next
  case (Invoke call_id tool_name arguments k)
  obtain reply cells1 where "invoke_tool bridge authority call_id tool_name arguments cells = (reply, cells1)" by fastforce
  with Invoke.prems Invoke.IH [of "k reply" cells1] invoke_tool_cells_ok [OF Invoke.prems(1)] show ?case by simp
qed

lemma cells_ok_budget:
  "cells_ok bridge allowed (unat (cf_max_tool_calls config)) start boundary budget \<Longrightarrow> budget_ok config budget"
  by (simp add: cells_ok_def budget_ok_def)

text \<open>The state a step leaves behind, and the steps that do not touch the reviewer's tools.\<close>

fun left_in :: "('s, 'e, 'b) progress \<Rightarrow> ('s, 'b) LoopState" where
  "left_in (Done st r) = st"
| "left_in (Continue st) = st"

definition same_tools :: "('s, 'b) LoopState \<Rightarrow> ('s, 'b) LoopState \<Rightarrow> bool" where
  "same_tools st st' \<longleftrightarrow> ls_boundary st' = ls_boundary st \<and> ls_budget st' = ls_budget st"

lemma revise_candidate_tools: "same_tools st (left_in (revise_candidate cb config st validation review))"
  by (auto simp: same_tools_def revise_candidate_def accept_revision_def Let_def
      split: option.splits prod.splits sum.splits)

lemma repair_round_tools: "same_tools st (left_in (repair_round cb config validation st))"
  by (simp add: same_tools_def repair_round_def Let_def revise_candidate_tools [unfolded same_tools_def]
      split: prod.splits sum.splits)

lemma publish_round_tools: "same_tools st (left_in (publish_round cb st))"
  by (auto simp: same_tools_def publish_round_def Let_def split: option.splits prod.splits sum.splits)

lemma judge_round_tools: "same_tools st (left_in (judge_round cb config validation response st))"
  by (simp add: same_tools_def judge_round_def Let_def revise_candidate_tools [unfolded same_tools_def]
      publish_round_tools [unfolded same_tools_def] split: prod.splits ReviewVerdict.splits)

abbreviation tools_ok ::
    "('s, 'e, 'b, 'v, 'env) Callbacks \<Rightarrow> 'b ReviewLoopConfig \<Rightarrow> RunSessionIds \<Rightarrow> ('s, 'b) LoopState \<Rightarrow> bool" where
  "tools_ok cb config ids st \<equiv>
     cells_ok (cb_bridge cb) (allowed_call (reviewer_authority config ids) (cf_execution_boundary config))
       (unat (cf_max_tool_calls config)) (cf_execution_boundary config) (ls_boundary st) (ls_budget st)"

lemma same_tools_ok: "same_tools st st' \<Longrightarrow> tools_ok cb config ids st \<Longrightarrow> tools_ok cb config ids st'"
  by (simp add: same_tools_def)

lemma semantic_round_ok:
  assumes reach: "review_reach config False (ls_metrics st)"
    and stage: "last (mt_stages (ls_metrics st)) = StValidate"
    and tools: "tools_ok cb config ids st"
  shows "refines config (semantic_round cb config ids validation st) \<and>
         tools_ok cb config ids (left_in (semantic_round cb config ids validation st))"
proof (cases "budget_exhausted (ls_metrics st) config")
  case True
  then show ?thesis using reach stage tools by (auto simp: semantic_round_def intro!: reports_abstain)
next
  case room: False
  show ?thesis
  proof (cases "checked_add (mt_reviewer_attempts (ls_metrics st)) 1")
    case None
    have "review_reach config True (push_stage StReviewer (ls_metrics st))"
      using review_reach.review [OF reach stage room counted_None [OF None]] by simp
    then show ?thesis using room None tools by (auto simp: semantic_round_def intro!: reports_abstain)
  next
    case (Some n)
    define m where "m = push_stage StReviewer (ls_metrics st)\<lparr>mt_reviewer_attempts := n\<rparr>"
    have m: "review_reach config True m" "last (mt_stages m) = StReviewer"
      unfolding m_def using review_reach.review [OF reach stage room counted_Some [OF Some]] by simp_all
    let ?rq = "reviewer_request config ids (ls_candidate st) validation"
    obtain world response cells where run: "drive (cb_bridge cb) (rq_authority ?rq) (cb_reviewer cb (ls_world st) ?rq)
        \<lparr>rc_boundary = ls_boundary st, rc_budget = ls_budget st, rc_lease = LeaseOpen\<rparr> = ((world, response), cells)"
      by (metis surj_pair)
    define st1 where "st1 = st\<lparr>ls_world := world, ls_metrics := m, ls_boundary := rc_boundary cells,
        ls_budget := rc_budget cells\<rparr>"
    have st1: "tools_ok cb config ids st1" "ls_metrics st1 = m"
      unfolding st1_def using drive_cells_ok [OF _ run] tools by (simp_all add: reviewer_request_def)
    have budget: "budget_ok config (ls_budget st1)" using cells_ok_budget [OF st1(1)] .
    have eq: "semantic_round cb config ids validation st =
        (case response of None \<Rightarrow> Done st1 None
         | Some (Inl error) \<Rightarrow> failed st1 (ReviewerError error (snd (record_response_cost m ReviewCost_default (ls_budget st1))))
         | Some (Inr response) \<Rightarrow> judge_round cb config validation response st1)"
      using room Some run by (simp add: semantic_round_def Let_def m_def st1_def split: option.split sum.split)
    have "refines config (judge_round cb config validation resp st1)" for resp
      by (rule judge_round_refines) (use m st1 budget in simp_all)
    moreover have "tools_ok cb config ids (left_in (judge_round cb config validation resp st1))" for resp
      using same_tools_ok [OF judge_round_tools st1(1)] .
    moreover have "reports config (Some (Inl (ReviewerError e (snd (record_response_cost m ReviewCost_default (ls_budget st1))))))" for e
      using recorded_reach [OF m(1) budget] by (auto intro!: reports_error)
    ultimately show ?thesis unfolding eq using st1(1) by (auto split: option.splits sum.splits)
  qed
qed

lemma review_round_ok:
  fixes cb :: "('s, 'e, 'b, 'v, 'env) Callbacks"
  assumes head: "loop_head config st" and tools: "tools_ok cb config ids st"
  shows "refines config (review_round cb config ids st) \<and> tools_ok cb config ids (left_in (review_round cb config ids st))"
proof -
  have reach: "review_reach config False (push_stage StValidate (ls_metrics st)\<lparr>mt_validation_attempts := v\<rparr>)"
    if "counted (mt_validation_attempts (ls_metrics st)) v" for v
    using head that by (auto simp: loop_head_def intro!: review_reach.validate)
  have reach_same: "review_reach config False (push_stage StValidate (ls_metrics st))"
    if "checked_add (mt_validation_attempts (ls_metrics st)) 1 = None"
    using reach [OF counted_None [OF that]] by simp
  define m where "m v = push_stage StValidate (ls_metrics st)\<lparr>mt_validation_attempts := v\<rparr>" for v
  define st1 where "st1 w v = st\<lparr>ls_world := w, ls_metrics := m v\<rparr>" for w v
  have tools1: "tools_ok cb config ids (st1 w v)" for w v using tools by (simp add: st1_def)
  have budget: "budget_ok config (ls_budget (st1 w v))" for w v using cells_ok_budget [OF tools1] .
  have rep: "refines config (repair_round cb config validation (st1 w v))"
    and rep_t: "tools_ok cb config ids (left_in (repair_round cb config validation (st1 w v)))"
    and sem: "refines config (semantic_round cb config ids validation (st1 w v))
      \<and> tools_ok cb config ids (left_in (semantic_round cb config ids validation (st1 w v)))"
    if "checked_add (mt_validation_attempts (ls_metrics st)) 1 = Some v" for validation w v
  proof -
    have r: "review_reach config False (ls_metrics (st1 w v))" "last (mt_stages (ls_metrics (st1 w v))) = StValidate"
      using reach [OF counted_Some [OF that]] by (simp_all add: st1_def m_def)
    show "refines config (repair_round cb config validation (st1 w v))"
      using repair_round_refines [OF r budget] .
    show "tools_ok cb config ids (left_in (repair_round cb config validation (st1 w v)))"
      using same_tools_ok [OF repair_round_tools tools1] .
    show "refines config (semantic_round cb config ids validation (st1 w v))
      \<and> tools_ok cb config ids (left_in (semantic_round cb config ids validation (st1 w v)))"
      using semantic_round_ok [OF r tools1] .
  qed
  have err: "reports config (Some (Inl (ValidatorError e (m v))) :: 'e loop_result)"
    if "checked_add (mt_validation_attempts (ls_metrics st)) 1 = Some v" for e v
    unfolding m_def using reports_ValidatorError [OF reach [OF counted_Some [OF that]]] .
  show ?thesis using rep rep_t sem err tools1 tools reach_same
    by (auto simp: review_round_def Let_def m_def [symmetric] st1_def [symmetric]
        split: option.splits prod.splits sum.splits intro!: reports_abstain)
qed

text \<open>At the level of the run: the invariant of the loop head and what a result carries.\<close>

lemma initial_ok:
  "loop_head config (initial_state config candidate world) \<and> tools_ok cb config ids (initial_state config candidate world)"
proof -
  have "review_reach config False initial_metrics" by (rule review_reach.start)
  then show ?thesis
    by (cases "cf_execution_boundary config")
      (auto simp: loop_head_def initial_state_def budget_ok_def cells_ok_def ReviewerToolBudget_new_def
        budget_overrun_def initial_metrics_def ReviewCost_default_def intro: dispatched.idle)
qed

lemma review_loop_ok:
  assumes "review_loop cb config ids (initial_state config candidate world) = (st', r)"
  shows "reports config r \<and> tools_ok cb config ids st'"
proof (rule review_loop_rule [where I = "\<lambda>st. loop_head config st \<and> tools_ok cb config ids st", OF _ _ _ assms])
  show "loop_head config (initial_state config candidate world) \<and> tools_ok cb config ids (initial_state config candidate world)"
    by (rule initial_ok)
next
  fix st st' assume "loop_head config st \<and> tools_ok cb config ids st" "review_round cb config ids st = Continue st'"
  then show "loop_head config st' \<and> tools_ok cb config ids st'" using review_round_ok [of config st cb ids] by simp
next
  fix st st' r assume "loop_head config st \<and> tools_ok cb config ids st" "review_round cb config ids st = Done st' r"
  then show "reports config r \<and> tools_ok cb config ids st'" using review_round_ok [of config st cb ids] by simp
qed

text \<open>How a run comes about: either it ends before the loop, or it is a run of the loop.\<close>

lemma run_cases:
  assumes "run_bounded_review_loop cb config entropy world = ((world', boundary'), r)"
  obtains (early) "boundary' = cf_execution_boundary config"
      "(world' = world \<and> r = Some (Inl InvalidConfiguration)) \<or>
       (\<exists>reply. cb_producer cb world = (world', reply) \<and>
          (reply = None \<and> r = None \<or> (\<exists>e. reply = Some (Inl e) \<and> r = Some (Inl (ProducerError e initial_metrics))) \<or>
           (\<exists>c e. reply = Some (Inr c) \<and> allocate_with entropy = Inl e \<and> r = Some (Inl (SessionIdentity e)))))"
  | (looped) w c ids st where "validate_config config" "cb_producer cb world = (w, Some (Inr c))"
      "allocate_with entropy = Inr ids" "review_loop cb config ids (initial_state config c w) = (st, r)"
      "world' = ls_world st" "boundary' = ls_boundary st"
proof -
  obtain w reply where p: "cb_producer cb world = (w, reply)" by fastforce
  show thesis
  proof (cases "validate_config config \<and> (\<exists>c ids. reply = Some (Inr c) \<and> allocate_with entropy = Inr ids)")
    case True
    then obtain c ids where c: "reply = Some (Inr c)" "allocate_with entropy = Inr ids" by blast
    obtain st r' where loop: "review_loop cb config ids (initial_state config c w) = (st, r')" by fastforce
    then show thesis using looped [of w c ids st] assms True p c
      by (simp add: run_bounded_review_loop_def)
  next
    case False
    show thesis
    proof (cases "validate_config config")
      case True
      then show thesis using False early assms p
        by (cases reply) (auto simp: run_bounded_review_loop_def Let_def split: sum.splits)
    next
      case False
      then show thesis using early assms by (simp add: run_bounded_review_loop_def)
    qed
  qed
qed

lemma run_reports:
  fixes cb :: "('s, 'e, 'b, 'v, 'env) Callbacks"
  assumes "run_bounded_review_loop cb config entropy world = (env, r)"
  shows "reports config r"
proof -
  obtain w b where "env = (w, b)" by fastforce
  then have run: "run_bounded_review_loop cb config entropy world = ((w, b), r)" using assms by simp
  then show ?thesis
  proof (cases rule: run_cases)
    case early
    have "reports config (Some (Inl (ProducerError e initial_metrics)) :: 'e loop_result)" for e
      by (rule reports_error) (auto intro: review_reach.start)
    moreover have "reports config (Some (Inl e) :: 'e loop_result)" if "ReviewLoopError_metrics e = None" for e
      using that by (auto intro!: reports_error)
    ultimately show ?thesis using early(2) by auto
  next
    case (looped w c ids st)
    then show ?thesis using review_loop_ok [OF looped(4)] by simp
  qed
qed

lemma run_reach:
  assumes "run_bounded_review_loop cb config entropy world = (env, r)" "result_metrics r = Some m"
  obtains p where "review_reach config p m"
  using run_reports [OF assms(1)] assms(2) unfolding reports_def by blast

section \<open>Bounds and trace\<close>

text \<open>
  C39: the bounded review loop refines its abstract state machine.  Whatever the callbacks do, the
  metrics that a run reports, in an outcome or in a callback error, are reachable by the rules of
  the machine: a reviewer is called only on a validated candidate with budget left, a reviser only
  below the revision limit with budget left, every call is billed before the next stage,
  publication follows a final validation that follows a review, and nothing follows publication or
  abstention.
\<close>
theorem review_loop_refines:
  assumes "run_bounded_review_loop cb config entropy world = (env, r)" and "result_metrics r = Some m"
  shows "\<exists>pending. review_reach config pending m"
  using run_reach [OF assms] by blast

text \<open>
  a review run is bounded by its configuration, whatever the callbacks answer.  There are at
  most \<open>max_revisions\<close> revisions, at most one more review than revisions and two more validations
  than revisions; reviewer and reviser calls together never exceed \<open>max_model_turns\<close>, since every
  call is billed at least one turn; the tool calls never exceed \<open>max_tool_calls\<close>; and the stage trace
  has at most three entries per revision and five more.
\<close>
theorem review_run_bounded:
  assumes "run_bounded_review_loop cb config entropy world = (env, r)" and "result_metrics r = Some m"
  shows "mt_revisions m \<le> cf_max_revisions config \<and>
         unat (mt_reviewer_attempts m) \<le> unat (mt_revisions m) + 1 \<and>
         unat (mt_validation_attempts m) \<le> unat (mt_revisions m) + 2 \<and>
         unat (mt_reviewer_attempts m) + unat (mt_revisions m) \<le> unat (cf_max_model_turns config) \<and>
         co_tool_calls (mt_cost m) \<le> cf_max_tool_calls config \<and>
         length (mt_stages m) \<le> 3 * unat (mt_revisions m) + 5"
proof -
  obtain p where reach: "review_reach config p m" using run_reach [OF assms] .
  have "validations_in s \<le> 2 \<and> reviews_in s \<le> 1 \<and> stages_in s \<le> 5" for s by (cases s) auto
  from this [of "last (mt_stages m)"] review_reach_stages [OF reach] review_reach_calls [OF reach]
  show ?thesis by linarith
qed

lemma legal_trace_published:
  assumes "legal_trace stages" "last stages = StPublish"
  obtains pre where "stages = pre @ [StReviewer, StFinalValidate, StPublish]"
proof -
  have step: "\<exists>pre'. pre = pre' @ [s]"
    if "successively legal_next (pre @ [t])" "hd (pre @ [t]) = StProducer" "t \<noteq> StProducer" "\<And>x. legal_next x t \<Longrightarrow> x = s"
    for pre s t
    using that by (cases pre rule: rev_cases) (auto simp: successively_append_iff)
  obtain a where a: "stages = a @ [StPublish]"
    using assms unfolding legal_trace_def by (metis append_butlast_last_id)
  have p: "x = StFinalValidate" if "legal_next x StPublish" for x using that by (cases x) auto
  have f: "x = StReviewer" if "legal_next x StFinalValidate" for x using that by (cases x) auto
  obtain b where b: "a = b @ [StFinalValidate]"
    using step [of a StPublish, OF _ _ _ p] assms(1) a by (auto simp: legal_trace_def)
  have "successively legal_next (b @ [StFinalValidate])" "hd (b @ [StFinalValidate]) = StProducer"
    using assms(1) unfolding a b legal_trace_def by (auto simp: successively_append_iff hd_append split: if_splits)
  then obtain c where "b = c @ [StReviewer]" using step [of b StFinalValidate, OF _ _ _ f] by auto
  then show thesis using that a b by simp
qed

text \<open>
  the stage trace of a run follows the closed state machine.  It begins with the producer and
  every stage is followed by one that may follow it; a published outcome ends with a review, a
  final validation and the publication, within the model-turn and tool-call budgets, and an
  abstention ends with the abstain stage, which is also the stage of its diagnostic.
\<close>
theorem review_trace_legal:
  assumes "run_bounded_review_loop cb config entropy world = (env, Some (Inr outcome))"
  shows "legal_trace (mt_stages (ReviewLoopOutcome_metrics outcome)) \<and>
         (case outcome of
            Published artifact m \<Rightarrow>
              (\<exists>pre. mt_stages m = pre @ [StReviewer, StFinalValidate, StPublish]) \<and> \<not> budget_overrun m config
          | Abstained d m \<Rightarrow> last (mt_stages m) = StAbstain \<and> dg_stage d = StAbstain)"
proof -
  obtain p where reach: "review_reach config p (ReviewLoopOutcome_metrics outcome)"
    using run_reach [OF assms] by auto
  have legal: "legal_trace (mt_stages (ReviewLoopOutcome_metrics outcome))" using review_reach_trace [OF reach] .
  show ?thesis
  proof (cases outcome)
    case (Published c m)
    then have "last (mt_stages m) = StPublish" using run_reports [OF assms] by (simp add: reports_def)
    then show ?thesis using legal legal_trace_published review_reach_final [OF reach] Published by simp metis
  next
    case (Abstained d m)
    then show ?thesis using run_reports [OF assms] legal by (simp add: reports_def)
  qed
qed

end
