(* ===== verification/Review_Safety.thy ===== *)
theory Review_Safety
  imports Review_Correct
begin

text \<open>
  What a bounded review run guarantees about candidates, tools and callbacks: the conditions of
  publication, the freshness of candidate hashes, the tool calls of the reviewer, the stop on
  repeated defects, and that a run panics only when a callback does.
\<close>

section \<open>Publication\<close>

lemma revise_candidate_not_published [simp]:
  "revise_candidate cb config st validation review \<noteq> Done st' (Some (Inr (Published c m)))"
  by (auto simp: revise_candidate_def accept_revision_def Let_def abstain_def
      split: option.splits prod.splits sum.splits if_splits)

lemma repair_round_not_published [simp]: "repair_round cb config validation st \<noteq> Done st' (Some (Inr (Published c m)))"
  by (auto simp: repair_round_def Let_def abstain_def split: prod.splits sum.splits if_splits)

lemma publish_round_published:
  assumes "publish_round cb st = Done st' (Some (Inr (Published c m)))"
  obtains v where "c = ls_candidate st" "cb_validator cb (ls_world st) c = (ls_world st', Some (Inr v))" "vr_valid v"
    "mt_stages m = mt_stages (ls_metrics st) @ [StFinalValidate, StPublish]"
  using assms
  by (auto simp: publish_round_def Let_def abstain_def split: option.splits prod.splits sum.splits if_splits)

lemma judge_round_published:
  assumes "judge_round cb config validation response st = Done st' (Some (Inr (Published c m)))"
  obtains v where "c = ls_candidate st" "cb_validator cb (ls_world st) c = (ls_world st', Some (Inr v))" "vr_valid v"
    "rr_verdict (rp_review response) = Pass" "review_output_is_bound (rp_review response) (cf_evidence config)"
proof -
  obtain b m0 where rec: "record_response_cost (ls_metrics st) (rp_cost response) (ls_budget st) = (b, m0)" by fastforce
  obtain rep d n where obs: "observe_defects (rr_defects (rp_review response)) (ls_last_defects st)
      (ls_same_defect_rounds st) (cf_max_same_defect_rounds config) = (rep, d, n)" by (metis prod_cases3)
  have "publish_round cb (st\<lparr>ls_metrics := m0, ls_last_defects := d, ls_same_defect_rounds := n\<rparr>)
      = Done st' (Some (Inr (Published c m)))" "rr_verdict (rp_review response) = Pass"
    "review_output_is_bound (rp_review response) (cf_evidence config)"
    using assms
    by (auto simp: judge_round_def Let_def rec obs abstain_def split: if_splits ReviewVerdict.splits)
  then show thesis using that by (auto elim!: publish_round_published)
qed

text \<open>
  The last round of a run that publishes: the candidate is validated, reviewed in the isolated
  session with verdict \<open>pass\<close>, and validated again, each callback running in the state the
  previous one left.
\<close>

definition publishing_round ::
    "('s, 'e, 'b, 'v, 'env) Callbacks \<Rightarrow> 'b ReviewLoopConfig \<Rightarrow> RunSessionIds \<Rightarrow> CandidateArtifact \<Rightarrow> 's \<Rightarrow> bool" where
  "publishing_round cb config ids c w' \<longleftrightarrow>
     (\<exists>w0 w1 w2 v v' cells cells' response.
        cb_validator cb w0 c = (w1, Some (Inr v)) \<and> vr_valid v \<and>
        drive (cb_bridge cb) (reviewer_authority config ids)
          (cb_reviewer cb w1 (reviewer_request config ids c v)) cells = ((w2, Some (Inr response)), cells') \<and>
        rr_verdict (rp_review response) = Pass \<and>
        review_output_is_bound (rp_review response) (cf_evidence config) \<and>
        cb_validator cb w2 c = (w', Some (Inr v')) \<and> vr_valid v')"

lemma review_round_published:
  assumes "review_round cb config ids st = Done st' (Some (Inr (Published c m)))"
  shows "publishing_round cb config ids c (ls_world st')"
proof -
  obtain w1 v n where val: "cb_validator cb (ls_world st) (ls_candidate st) = (w1, Some (Inr v))" "vr_valid v"
    and sem: "semantic_round cb config ids v (st\<lparr>ls_world := w1,
        ls_metrics := push_stage StValidate (ls_metrics st)\<lparr>mt_validation_attempts := n\<rparr>\<rparr>)
      = Done st' (Some (Inr (Published c m)))" (is "semantic_round _ _ _ _ ?st = _")
    using assms
    by (auto simp: review_round_def Let_def abstain_def split: option.splits prod.splits sum.splits if_splits)
  obtain w2 response cells where run: "drive (cb_bridge cb) (reviewer_authority config ids)
      (cb_reviewer cb w1 (reviewer_request config ids (ls_candidate st) v))
      \<lparr>rc_boundary = ls_boundary st, rc_budget = ls_budget st, rc_lease = LeaseOpen\<rparr> = ((w2, response), cells)"
    by (metis surj_pair)
  have req: "rq_authority (reviewer_request config ids (ls_candidate st) v) = reviewer_authority config ids"
    by (simp add: reviewer_request_def)
  from sem run obtain resp where resp: "response = Some (Inr resp)"
    and j: "\<exists>mm b. judge_round cb config v resp (?st\<lparr>ls_world := w2, ls_metrics := mm,
        ls_boundary := rc_boundary cells, ls_budget := b\<rparr>) = Done st' (Some (Inr (Published c m)))"
    by (auto simp: semantic_round_def Let_def req abstain_def split: option.splits prod.splits sum.splits if_splits)
  then show ?thesis unfolding publishing_round_def using val run
    by (auto elim!: judge_round_published) blast
qed

text \<open>
  C38: nothing is published without a passing review between two successful validations of that very
  candidate.  If a run publishes a candidate, then in its last round the validator accepted that
  candidate, the reviewer, running in its own session on exactly that candidate and that report,
  answered \<open>pass\<close> with evidence bound to the selected evidence, and the validator, called again in
  the state the reviewer left, accepted the same candidate; no callback ran after that.
\<close>
theorem published_only_after_final_validation:
  fixes cb :: "('s, 'e, 'b, 'v, 'env) Callbacks"
  assumes "run_bounded_review_loop cb config entropy world = ((world', boundary'), Some (Inr (Published c m)))"
  shows "\<exists>ids. allocate_with entropy = Inr ids \<and> publishing_round cb config ids c world'"
  using assms
proof (cases rule: run_cases)
  case early
  then show ?thesis by auto
next
  case (looped w c0 ids st)
  have "\<forall>c' m'. Some (Inr (Published c m)) = (Some (Inr (Published c' m')) :: 'e loop_result) \<longrightarrow>
      publishing_round cb config ids c' (ls_world st)"
    by (rule review_loop_rule [where I = "\<lambda>_. True", OF _ _ _ looped(4)]) (auto intro: review_round_published)
  then show ?thesis using looped by simp
qed

section \<open>Fresh candidates\<close>

text \<open>The states in which the head of the loop is reached.\<close>

inductive visited ::
    "('s, 'e, 'b, 'v, 'env) Callbacks \<Rightarrow> 'b ReviewLoopConfig \<Rightarrow> RunSessionIds \<Rightarrow> ('s, 'b) LoopState
     \<Rightarrow> ('s, 'b) LoopState \<Rightarrow> bool"
  for cb config ids st0 where
  first: "visited cb config ids st0 st0"
| again: "visited cb config ids st0 st''"
    if "visited cb config ids st0 st'" "review_round cb config ids st' = Continue st''"

definition fresh_hashes :: "'b ReviewLoopConfig \<Rightarrow> ('s, 'b) LoopState \<Rightarrow> bool" where
  "fresh_hashes config st \<longleftrightarrow>
     ls_hashes st \<noteq> [] \<and> last (ls_hashes st) = ca_sha256 (ls_candidate st) \<and>
     length (ls_hashes st) = Suc (unat (mt_revisions (ls_metrics st))) \<and>
     (cf_stop_on_repeated_output_hash config \<longrightarrow> distinct (ls_hashes st)) \<and>
     (cf_stop_on_two_cycle config \<longrightarrow>
        (\<forall>i. i + 2 < length (ls_hashes st) \<longrightarrow> ls_hashes st ! i \<noteq> ls_hashes st ! (i + 2)))"

lemma revise_candidate_hashes:
  assumes "revise_candidate cb config st validation review = Continue st'"
  obtains h where "ls_hashes st' = ls_hashes st @ [h]" "ca_sha256 (ls_candidate st') = h"
    "cf_stop_on_repeated_output_hash config \<Longrightarrow> h \<notin> set (ls_hashes st)"
    "cf_stop_on_two_cycle config \<Longrightarrow> length (ls_hashes st) \<ge> 2 \<Longrightarrow> ls_hashes st ! (length (ls_hashes st) - 2) \<noteq> h"
  using assms by (rule revise_candidate_Continue) (auto intro!: that)

lemma review_round_hashes:
  assumes "review_round cb config ids st = Continue st'"
  obtains h where "ls_hashes st' = ls_hashes st @ [h]" "ca_sha256 (ls_candidate st') = h"
    "cf_stop_on_repeated_output_hash config \<Longrightarrow> h \<notin> set (ls_hashes st)"
    "cf_stop_on_two_cycle config \<Longrightarrow> length (ls_hashes st) \<ge> 2 \<Longrightarrow> ls_hashes st ! (length (ls_hashes st) - 2) \<noteq> h"
proof -
  consider (repair) validation w m where
      "repair_round cb config validation (st\<lparr>ls_world := w, ls_metrics := m\<rparr>) = Continue st'"
    | (judge) validation response w m b budget where
      "judge_round cb config validation response
         (st\<lparr>ls_world := w, ls_metrics := m, ls_boundary := b, ls_budget := budget\<rparr>) = Continue st'"
    using assms
    by (auto simp: review_round_def semantic_round_def Let_def
        split: option.splits prod.splits sum.splits if_splits)
  then obtain st1 validation review where eq: "ls_hashes st1 = ls_hashes st"
    and rev: "revise_candidate cb config st1 validation review = Continue st'"
  proof cases
    case (repair validation w m)
    then show thesis by (rule repair_round_Continue) (rule that [rotated], assumption, simp)
  next
    case (judge validation response w m b budget)
    then show thesis by (rule judge_round_Continue) (rule that [rotated], assumption, simp)
  qed
  from rev show thesis by (rule revise_candidate_hashes) (use that eq in auto)
qed

lemma fresh_hashes_step:
  assumes fresh: "fresh_hashes config st" and round: "review_round cb config ids st = Continue st'"
  shows "fresh_hashes config st'"
  using round
proof (rule review_round_hashes)
  fix h
  let ?hs = "ls_hashes st"
  assume hs: "ls_hashes st' = ?hs @ [h]" "ca_sha256 (ls_candidate st') = h"
    and new: "cf_stop_on_repeated_output_hash config \<Longrightarrow> h \<notin> set ?hs"
    and two: "cf_stop_on_two_cycle config \<Longrightarrow> length ?hs \<ge> 2 \<Longrightarrow> ?hs ! (length ?hs - 2) \<noteq> h"
  have "(?hs @ [h]) ! i \<noteq> (?hs @ [h]) ! (i + 2)"
    if "cf_stop_on_two_cycle config" "i + 2 < length (?hs @ [h])" for i
  proof (cases "i + 2 = length ?hs")
    case True
    then have "i = length ?hs - 2" "2 \<le> length ?hs" by auto
    then show ?thesis using two [OF that(1)] True by (simp add: nth_append)
  next
    case False
    then have "i + 2 < length ?hs" using that(2) by simp
    then show ?thesis using fresh that(1) by (simp add: fresh_hashes_def nth_append)
  qed
  then show ?thesis using fresh new hs review_round_progress [OF round] by (simp add: fresh_hashes_def)
qed

text \<open>
  the loop never spends a round on a candidate it has seen.  At every head of the loop the
  recorded hashes are those of the initial candidate and of each accepted revision, the last one
  being the hash of the current candidate; with repeated-output detection on they are pairwise
  different, and with two-cycle detection on no candidate equals the one before the last.
\<close>
theorem candidates_never_repeat:
  assumes "visited cb config ids (initial_state config candidate world) st"
  shows "ls_hashes st \<noteq> [] \<and> last (ls_hashes st) = ca_sha256 (ls_candidate st) \<and>
         length (ls_hashes st) = Suc (unat (mt_revisions (ls_metrics st))) \<and>
         (cf_stop_on_repeated_output_hash config \<longrightarrow> distinct (ls_hashes st)) \<and>
         (cf_stop_on_two_cycle config \<longrightarrow>
            (\<forall>i. i + 2 < length (ls_hashes st) \<longrightarrow> ls_hashes st ! i \<noteq> ls_hashes st ! (i + 2)))"
proof -
  have "fresh_hashes config st" using assms
  proof (induction rule: visited.induct)
    case first
    show ?case by (simp add: fresh_hashes_def initial_state_def initial_metrics_def)
  next
    case (again st' st'')
    then show ?case using fresh_hashes_step by blast
  qed
  then show ?thesis by (simp add: fresh_hashes_def)
qed

section \<open>The reviewer's tools\<close>

lemma dispatched_mono:
  "dispatched bridge p n b b' \<Longrightarrow> (\<And>call. p call \<Longrightarrow> q call) \<Longrightarrow> dispatched bridge q n b b'"
  by (induction rule: dispatched.induct) (auto intro: dispatched.intros)

text \<open>
  the reviewer's reach into the tool bridge is bounded and read-only.  Over a whole run, with
  any reviewer, the bridge behind an execution boundary changes only by calls that the boundary
  dispatched; there are at most \<open>max_tool_calls\<close> of them, and each is made under one and the same
  actor, to a tool that was registered as read-only when the boundary was built and that is on the
  configured list if there is one.
\<close>
theorem reviewer_tools_bounded:
  assumes "run_bounded_review_loop cb config entropy world = ((world', boundary'), r)"
    and "cf_execution_boundary config = Some (ReviewerExecutionBoundary_new tool_names registration bridge0)"
  shows "\<exists>b n actor. boundary' = Some b \<and> n \<le> unat (cf_max_tool_calls config) \<and>
           dispatched (cb_bridge cb)
             (\<lambda>call. tc_actor call = actor \<and> registration bridge0 (tc_name call) = Some True \<and>
                (cf_read_only_tools config = [] \<or> tc_name call \<in> set (cf_read_only_tools config)))
             n bridge0 (eb_bridge b)"
  using assms(1)
proof (cases rule: run_cases)
  case early
  then show ?thesis using assms(2) by (auto simp: ReviewerExecutionBoundary_new_def intro!: exI [of _ 0] dispatched.idle)
next
  case (looped w c ids st)
  let ?p = "allowed_call (reviewer_authority config ids) (cf_execution_boundary config)"
  have "tools_ok cb config ids st" using review_loop_ok [OF looped(4)] ..
  then obtain b n where b: "ls_boundary st = Some b" "n \<le> unat (tb_consumed (ls_budget st))"
    "dispatched (cb_bridge cb) ?p n bridge0 (eb_bridge b)"
    and "unat (tb_consumed (ls_budget st)) + unat (tb_remaining (ls_budget st)) = unat (cf_max_tool_calls config)"
    using assms(2) by (auto simp: cells_ok_def option_rel_Some1 ReviewerExecutionBoundary_new_def)
  then have n: "n \<le> unat (cf_max_tool_calls config)" by simp
  let ?q = "\<lambda>call. tc_actor call = RunSessionIds_id ids RoleReviewer \<and> registration bridge0 (tc_name call) = Some True \<and>
      (cf_read_only_tools config = [] \<or> tc_name call \<in> set (cf_read_only_tools config))"
  have "?q call" if "?p call" for call
    using that assms(2)
    by (auto simp: allowed_call_def reviewer_authority_def ReviewerExecutionBoundary_new_def split: if_splits)
  then have "dispatched (cb_bridge cb) ?q n bridge0 (eb_bridge b)" using dispatched_mono [OF b(3), of ?q] by blast
  then show ?thesis using b(1) n looped(6) by blast
qed

text \<open>
  an authority that outlives its review is powerless.  Once the guard has closed the lease of a
  reviewer's authority, every further invocation through it, of any tool and by whomever kept it,
  is denied and changes neither the boundary nor the budget.
\<close>
theorem closed_authority_denied:
  "invoke_tool bridge authority call_id tool_name arguments (cells\<lparr>rc_lease := lease_close (rc_lease cells)\<rparr>)
     = (Some (Inl CapabilityDenied), cells\<lparr>rc_lease := lease_close (rc_lease cells)\<rparr>)"
  by (cases "rc_lease cells") (simp_all add: invoke_tool_def)

section \<open>Repeated defects\<close>

text \<open>The two variables of the loop after \<open>n\<close> rounds that report the defects \<open>ds\<close>.\<close>

fun observed :: "ReviewDefect list \<Rightarrow> usize \<Rightarrow> nat \<Rightarrow> (string \<times> byte) list option \<times> usize" where
  "observed ds limit 0 = (None, 0)"
| "observed ds limit (Suc n) = snd (observe_defects ds (fst (observed ds limit n)) (snd (observed ds limit n)) limit)"

lemma fingerprint_Nil [simp]: "defect_fingerprint ds = [] \<longleftrightarrow> ds = []"
proof -
  have "length (defect_fingerprint ds) = length ds" by (simp add: defect_fingerprint_def)
  then show ?thesis by (metis length_0_conv)
qed

lemma fingerprint_same:
  "list_all (\<lambda>((a, _), (b, _)). a = b) (zip xs xs)" "\<not> list_ex (\<lambda>((_, a), (_, b)). b < (a :: byte)) (zip xs xs)"
  by (induction xs) auto

lemma observe_again:
  assumes "ds \<noteq> []" "unat r < 2 ^ 64 - 1"
  shows "observe_defects ds (Some (defect_fingerprint ds)) r limit = (r + 1 > limit, Some (defect_fingerprint ds), r + 1)"
proof -
  have "checked_add r 1 = Some (r + 1)" using assms(2) by (simp add: checked_add_def)
  then show ?thesis using assms(1) fingerprint_same [of "defect_fingerprint ds"]
    by (simp add: observe_defects_def Let_def)
qed

lemma observed_Suc:
  assumes "ds \<noteq> []" "n < 2 ^ 64"
  shows "observed ds limit (Suc n) = (Some (defect_fingerprint ds), word_of_nat n)"
  using assms(2)
proof (induction n)
  case 0
  show ?case using assms(1) by (simp add: observe_defects_def Let_def)
next
  case (Suc n)
  have n: "unat (word_of_nat n :: usize) = n" using Suc.prems by (simp add: unat_of_nat take_bit_eq_mod)
  have "observed ds limit (Suc (Suc n)) = snd (observe_defects ds (Some (defect_fingerprint ds)) (word_of_nat n) limit)"
    using Suc by simp
  also have "\<dots> = (Some (defect_fingerprint ds), word_of_nat n + 1)"
    using observe_again [OF assms(1), of "word_of_nat n" limit] n Suc.prems by simp
  finally show ?case by (simp add: add.commute)
qed

text \<open>
  an unchanged set of defects is tolerated exactly as often as configured.  When the same
  defects are reported round after round, from the first round on, the loop stops in round
  \<open>n + 1\<close> if and only if \<open>n\<close> exceeds \<open>max_same_defect_rounds\<close>.
\<close>
theorem repeated_defects_stop:
  assumes "ds \<noteq> []" and "n < 2 ^ 64"
  shows "fst (observe_defects ds (fst (observed ds limit n)) (snd (observed ds limit n)) limit) \<longleftrightarrow> unat limit < n"
proof (cases n)
  case 0
  then show ?thesis using assms(1) by (simp add: observe_defects_def Let_def)
next
  case (Suc k)
  have k: "unat (word_of_nat k :: usize) = k" using assms(2) Suc by (simp add: unat_of_nat take_bit_eq_mod)
  have n: "unat (word_of_nat k + 1 :: usize) = n"
  proof -
    have "unat (word_of_nat n :: usize) = n" using assms(2) by (simp add: unat_of_nat take_bit_eq_mod)
    then show ?thesis using Suc by (simp add: add.commute)
  qed
  show ?thesis using observe_again [OF assms(1), of "word_of_nat k" limit] observed_Suc [OF assms(1), of k limit]
      assms(2) Suc k n by (simp add: word_less_nat_alt del: observed.simps)
qed

theorem repeated_defects_stop_witness:
  "fst (observe_defects
      [\<lparr>df_code = ''R1'', df_severity = Error, df_location = None, df_evidence_refs = [], df_message = ''m'',
        df_suggested_action = None\<rparr>]
      (fst (observed [\<lparr>df_code = ''R1'', df_severity = Error, df_location = None, df_evidence_refs = [],
        df_message = ''m'', df_suggested_action = None\<rparr>] 1 2))
      (snd (observed [\<lparr>df_code = ''R1'', df_severity = Error, df_location = None, df_evidence_refs = [],
        df_message = ''m'', df_suggested_action = None\<rparr>] 1 2)) 1)"
  by (rule repeated_defects_stop [THEN iffD2]) simp_all

section \<open>Panics\<close>

primrec never_panics :: "('v, 'env, 's \<times> 'r option) reviewer_run \<Rightarrow> bool" where
  "never_panics (Finish r) \<longleftrightarrow> snd r \<noteq> None"
| "never_panics (Invoke call_id tool_name arguments k) \<longleftrightarrow> (\<forall>reply. never_panics (k reply))"

lemma drive_never_panics:
  "never_panics run \<Longrightarrow> drive bridge authority run cells = ((w, r), cells') \<Longrightarrow> r \<noteq> None"
proof (induction run arbitrary: cells)
  case (Invoke call_id tool_name arguments k)
  then show ?case by (fastforce split: prod.splits)
qed auto

definition callbacks_return :: "('s, 'e, 'b, 'v, 'env) Callbacks \<Rightarrow> bool" where
  "callbacks_return cb \<longleftrightarrow>
     (\<forall>w. snd (cb_producer cb w) \<noteq> None) \<and> (\<forall>w c. snd (cb_validator cb w c) \<noteq> None) \<and>
     (\<forall>w q. never_panics (cb_reviewer cb w q)) \<and> (\<forall>w q. snd (cb_reviser cb w q) \<noteq> None)"

text \<open>With such callbacks no step of the loop ends in a panic.\<close>

lemma returns_Some:
  assumes "callbacks_return cb"
  shows "cb_producer cb w \<noteq> (w', None)" "cb_validator cb w c \<noteq> (w', None)" "cb_reviser cb w q \<noteq> (w', None)"
    "drive bridge authority (cb_reviewer cb w rq) cells \<noteq> ((w', None), cells')"
  using assms unfolding callbacks_return_def by (metis snd_conv, metis snd_conv, metis snd_conv, metis drive_never_panics)

fun no_panic :: "('s, 'e, 'b) progress \<Rightarrow> bool" where
  "no_panic (Done st r) \<longleftrightarrow> r \<noteq> None"
| "no_panic (Continue st) \<longleftrightarrow> True"

lemma no_panic_rounds:
  assumes "callbacks_return cb"
  shows revise_no_panic: "no_panic (revise_candidate cb config st validation review)"
    and publish_no_panic: "no_panic (publish_round cb st)"
  using returns_Some [OF assms]
  by (auto simp: revise_candidate_def accept_revision_def publish_round_def Let_def
      split: option.splits prod.splits sum.splits)

lemma review_round_no_panic:
  assumes "callbacks_return cb"
  shows "no_panic (review_round cb config ids st)"
proof -
  note sub = revise_no_panic [OF assms] publish_no_panic [OF assms]
  have judge: "no_panic (judge_round cb config validation response st)" for validation response st
    using sub by (auto simp: judge_round_def Let_def split: prod.splits ReviewVerdict.splits)
  have repair: "no_panic (repair_round cb config validation st)" for validation st
    using sub by (auto simp: repair_round_def Let_def split: prod.splits sum.splits)
  have semantic: "no_panic (semantic_round cb config ids validation st)" for validation st
    using judge
    by (auto simp: returns_Some(4) [OF assms] semantic_round_def Let_def split: option.splits prod.splits sum.splits)
  show ?thesis using repair semantic returns_Some(2) [OF assms]
    by (auto simp: review_round_def Let_def split: option.splits prod.splits sum.splits)
qed

text \<open>
  C40: a review run always ends, and it ends with an outcome or a typed error unless a callback
  panics.  The loop is a total function of its inputs; if none of the four callbacks ever panics,
  whatever replies the reviewer gets from its tools, the run returns a result.
\<close>
theorem review_run_returns:
  assumes "callbacks_return cb"
  shows "\<exists>env result. run_bounded_review_loop cb config entropy world = (env, Some result)"
proof -
  obtain w b r where run: "run_bounded_review_loop cb config entropy world = ((w, b), r)" by (metis surj_pair)
  then have "r \<noteq> None"
  proof (cases rule: run_cases)
    case early
    then show ?thesis using returns_Some(1) [OF assms] by auto
  next
    case (looped w c ids st)
    show ?thesis
    proof (rule review_loop_rule [where I = "\<lambda>_. True", OF _ _ _ looped(4)])
      fix st st' r assume "review_round cb config ids st = Done st' r"
      then show "r \<noteq> None" using review_round_no_panic [OF assms, of config ids st] by simp
    qed simp_all
  qed
  then show ?thesis using run by auto
qed

section \<open>A sample run\<close>

text \<open>
  A run with a tool: the first candidate is sent back with a defect bound to the evidence, the
  revision passes.  The states of callbacks and bridge count the calls.
\<close>

definition sample_artifact :: "nat \<Rightarrow> CandidateArtifact" where
  "sample_artifact n = \<lparr>ca_bytes = [word_of_nat n], ca_sha256 = replicate n CHR ''a''\<rparr>"

definition sample_review :: "ReviewerRequest \<Rightarrow> ReviewResult" where
  "sample_review q =
     (if ca_bytes (rq_candidate q) = [0] then
        \<lparr>rr_schema_version = 1, rr_verdict = Revise, rr_summary = ''repair'',
         rr_defects = [\<lparr>df_code = ''R1'', df_severity = Error, df_location = None, df_evidence_refs = [''e1''],
                        df_message = ''m'', df_suggested_action = None\<rparr>], rr_confidence = f64_one\<rparr>
      else \<lparr>rr_schema_version = 1, rr_verdict = Pass, rr_summary = ''fine'', rr_defects = [],
            rr_confidence = f64_one\<rparr>)"

definition sample_cb :: "(nat, unit, nat, unit, unit) Callbacks" where
  "sample_cb =
     \<lparr>cb_producer = (\<lambda>w. (w + 1, Some (Inr (sample_artifact 0)))),
      cb_validator = (\<lambda>w c. (w + 1, Some (Inr \<lparr>vr_valid = True, vr_defects = []\<rparr>))),
      cb_reviewer = (\<lambda>w q. Invoke ''c'' ''inspect'' () (\<lambda>reply.
        Finish (w + 1, Some (Inr \<lparr>rp_review = sample_review q, rp_cost = ReviewCost_default\<rparr>)))),
      cb_reviser = (\<lambda>w q. (w + 1, Some (Inr \<lparr>xp_candidate = sample_artifact 1, xp_cost = ReviewCost_default\<rparr>))),
      cb_bridge = (\<lambda>b call. (b + 1, Some (Inr ())))\<rparr>"

definition sample_registration :: "nat \<Rightarrow> string \<Rightarrow> bool option" where
  "sample_registration b name = (if name = ''inspect'' then Some True else if name = ''write'' then Some False else None)"

definition sample_config :: "nat ReviewLoopConfig" where
  "sample_config = ReviewLoopConfig_default
     \<lparr>cf_evidence := [\<lparr>se_id = ''e1'', se_content = ''text''\<rparr>],
      cf_execution_boundary := Some (ReviewerExecutionBoundary_new (\<lambda>_. [''inspect'', ''write'']) sample_registration 0)\<rparr>"

definition sample_entropy :: "byte list option" where
  "sample_entropy = Some (replicate 16 0 @ replicate 16 255)"

definition sample_metrics :: ReviewLoopMetrics where
  "sample_metrics =
     \<lparr>mt_producer_attempts = 1, mt_validation_attempts = 3, mt_reviewer_attempts = 2, mt_revisions = 1,
      mt_cost = \<lparr>co_model_turns = 3, co_tool_calls = 2\<rparr>,
      mt_stages = [StProducer, StValidate, StReviewer, StReviser, StValidate, StReviewer, StFinalValidate, StPublish]\<rparr>"

lemma sample_run:
  "run_bounded_review_loop sample_cb sample_config sample_entropy 0
     = ((7, Some \<lparr>eb_bridge = 2, eb_read_only_tools = [''inspect''], eb_poisoned = False\<rparr>),
        Some (Inr (Published (sample_artifact 1) sample_metrics)))"
  by code_simp

theorem review_loop_refines_witness: "\<exists>pending. review_reach sample_config pending sample_metrics"
  using review_loop_refines [OF sample_run] by simp

theorem review_run_bounded_witness:
  "mt_revisions sample_metrics \<le> cf_max_revisions sample_config \<and> length (mt_stages sample_metrics) \<le> 3 * 1 + 5"
  using review_run_bounded [OF sample_run] by (simp add: sample_metrics_def)

theorem review_trace_legal_witness: "legal_trace (mt_stages sample_metrics)"
  using review_trace_legal [OF sample_run] by simp

theorem published_only_after_final_validation_witness:
  "\<exists>ids. allocate_with sample_entropy = Inr ids \<and> publishing_round sample_cb sample_config ids (sample_artifact 1) 7"
  by (rule published_only_after_final_validation [OF sample_run])

theorem candidates_never_repeat_witness:
  "last (ls_hashes (initial_state sample_config (sample_artifact 0) (1 :: nat))) = []"
  using candidates_never_repeat [OF visited.first, of sample_config "sample_artifact 0" "1 :: nat"]
  by (simp add: initial_state_def sample_artifact_def)

theorem reviewer_tools_bounded_witness:
  "\<exists>n actor. n \<le> unat (cf_max_tool_calls sample_config) \<and>
     dispatched (cb_bridge sample_cb)
       (\<lambda>call. tc_actor call = actor \<and> sample_registration 0 (tc_name call) = Some True \<and>
          (cf_read_only_tools sample_config = [] \<or> tc_name call \<in> set (cf_read_only_tools sample_config))) n 0 2"
  using reviewer_tools_bounded [OF sample_run, of "\<lambda>_. [''inspect'', ''write'']" sample_registration 0]
  by (auto simp: sample_config_def)

theorem review_run_returns_witness:
  "\<exists>env result. run_bounded_review_loop sample_cb sample_config None 0 = (env, Some result)"
  by (rule review_run_returns) (simp add: callbacks_return_def sample_cb_def)

end
