(* ===== verification/Canonical_Json.thy ===== *)
theory Canonical_Json
  imports Security
begin

text \<open>
  JSON values and the canonical spelling that argument fingerprints are made of
  (\<open>argument_fingerprint\<close> and \<open>write_canonical_json\<close> in \<open>workflow-runtime/src/approval.rs\<close>).

  An object is the list of its members in iteration order; a \<open>serde_json\<close> map has no two members
  with one key.  The spelling that \<open>serde_json\<close> gives to a string and to a number is a parameter:
  \<open>json_text\<close> states what the JSON grammar says of it.
\<close>

section \<open>Values\<close>

datatype 'n json =
    JNull
  | JBool bool
  | JNum 'n
  | JStr string
  | JArr "'n json list"
  | JObj "(string \<times> 'n json) list"

fun wf_json :: "'n json \<Rightarrow> bool" where
  "wf_json (JArr vs) \<longleftrightarrow> list_all wf_json vs"
| "wf_json (JObj ms) \<longleftrightarrow> distinct (map fst ms) \<and> list_all (\<lambda>(k, v). wf_json v) ms"
| "wf_json _ \<longleftrightarrow> True"

text \<open>A loop that pushes a separator before every element but the first.\<close>

fun join :: "char \<Rightarrow> string list \<Rightarrow> string" where
  "join sep [] = []"
| "join sep [p] = p"
| "join sep (p # q # r) = p @ sep # join sep (q # r)"

section \<open>The canonical spelling\<close>

fun write_canonical_json :: "(string \<Rightarrow> string) \<Rightarrow> ('n \<Rightarrow> string) \<Rightarrow> 'n json \<Rightarrow> string" where
  "write_canonical_json quote number (JObj object) =
     ''{'' @ join (CHR '','') (map (\<lambda>(key, text). quote key @ '':'' @ text)
       (sort_key fst (map (\<lambda>(key, value). (key, write_canonical_json quote number value)) object))) @ ''}''"
| "write_canonical_json quote number (JArr values) =
     ''['' @ join (CHR '','') (map (write_canonical_json quote number) values) @ '']''"
| "write_canonical_json quote number JNull = ''null''"
| "write_canonical_json quote number (JBool b) = (if b then ''true'' else ''false'')"
| "write_canonical_json quote number (JNum n) = number n"
| "write_canonical_json quote number (JStr s) = quote s"

definition argument_fingerprint ::
    "(byte list \<Rightarrow> byte list) \<Rightarrow> (string \<Rightarrow> string) \<Rightarrow> ('n \<Rightarrow> string) \<Rightarrow> 'n json \<Rightarrow> string" where
  "argument_fingerprint sha256 quote number arguments =
     hex (sha256 (str_bytes (write_canonical_json quote number arguments)))"

section \<open>What the JSON grammar promises\<close>

definition number_char :: "char \<Rightarrow> bool" where
  "number_char c \<longleftrightarrow> is_ascii_digit c \<or> c \<in> set ''+-.eE''"

definition json_text :: "(string \<Rightarrow> string) \<Rightarrow> ('n \<Rightarrow> string) \<Rightarrow> bool" where
  "json_text quote number \<longleftrightarrow>
     (\<forall>s. quote s \<noteq> [] \<and> hd (quote s) = CHR 0x22) \<and>
     (\<forall>s t x y. quote s @ x = quote t @ y \<longrightarrow> s = t \<and> x = y) \<and>
     (\<forall>n. number n \<noteq> [] \<and> list_all number_char (number n)) \<and> inj number"

text \<open>The value with the members of every object sorted by key.\<close>

fun normal :: "'n json \<Rightarrow> 'n json" where
  "normal (JObj object) = JObj (sort_key fst (map (\<lambda>(key, value). (key, normal value)) object))"
| "normal (JArr values) = JArr (map normal values)"
| "normal JNull = JNull"
| "normal (JBool b) = JBool b"
| "normal (JNum n) = JNum n"
| "normal (JStr s) = JStr s"

text \<open>The spelling in the order the members have.\<close>

fun emit :: "(string \<Rightarrow> string) \<Rightarrow> ('n \<Rightarrow> string) \<Rightarrow> 'n json \<Rightarrow> string" where
  "emit quote number (JObj object) =
     CHR ''{'' # join (CHR '','') (map (\<lambda>(key, value). quote key @ CHR '':'' # emit quote number value) object) @ ''}''"
| "emit quote number (JArr values) = CHR ''['' # join (CHR '','') (map (emit quote number) values) @ '']''"
| "emit quote number JNull = ''null''"
| "emit quote number (JBool b) = (if b then ''true'' else ''false'')"
| "emit quote number (JNum n) = number n"
| "emit quote number (JStr s) = quote s"

lemma sort_key_map_snd:
  "sort_key fst (map (\<lambda>(k, v). (k, f v)) ms) = map (\<lambda>(k, v). (k, f v)) (sort_key fst ms)"
proof -
  have ins: "insort_key fst (k, f v) (map (\<lambda>(k, v). (k, f v)) xs) = map (\<lambda>(k, v). (k, f v)) (insort_key fst (k, v) xs)"
    for k v xs by (induction xs) auto
  show ?thesis by (induction ms) (auto simp: ins)
qed

lemma write_canonical_eq_emit: "write_canonical_json quote number v = emit quote number (normal v)"
proof (induction v)
  case (JArr vs)
  then have "map (write_canonical_json quote number) vs = map (\<lambda>v. emit quote number (normal v)) vs" by simp
  then show ?case by (simp only: normal.simps emit.simps write_canonical_json.simps list.map_comp comp_def) simp
next
  case (JObj ms)
  have "map (\<lambda>m. quote (fst m) @ CHR '':'' # write_canonical_json quote number (snd m)) (sort_key fst ms)
      = map (\<lambda>m. quote (fst m) @ CHR '':'' # emit quote number (normal (snd m))) (sort_key fst ms)"
    by (rule map_cong) (use JObj in \<open>force simp: snds.simps\<close>)+
  then show ?case by (simp add: sort_key_map_snd case_prod_beta comp_def del: map_eq_conv)
qed simp_all

section \<open>The spelling is unambiguous\<close>

definition delimited :: "string \<Rightarrow> bool" where
  "delimited x \<longleftrightarrow> x = [] \<or> hd x \<in> set '',]}''"

definition starts_value :: "char \<Rightarrow> bool" where
  "starts_value c \<longleftrightarrow> c \<notin> set '',]}:''"

lemma join_Cons: "join sep (p # ps) = p @ concat (map (\<lambda>q. sep # q) ps)"
  by (induction ps arbitrary: p) auto

lemma delimited_more: "c \<in> set '']}'' \<Longrightarrow> delimited (concat (map (\<lambda>a. CHR '','' # f a) as) @ c # x)"
  by (cases as) (auto simp: delimited_def)

text \<open>Elements separated by commas and closed by a bracket: from one element to the list.\<close>

lemma tail_inj:
  assumes "\<And>a b x y. a \<in> set as \<Longrightarrow> delimited x \<Longrightarrow> delimited y \<Longrightarrow> f a @ x = f b @ y \<Longrightarrow> a = b \<and> x = y"
    and close: "c \<in> set '']}''"
    and "concat (map (\<lambda>a. CHR '','' # f a) as) @ c # x = concat (map (\<lambda>a. CHR '','' # f a) bs) @ c # y"
  shows "as = bs \<and> x = y"
  using assms(1,3)
proof (induction as arbitrary: bs)
  case Nil
  then show ?case using close by (cases bs) auto
next
  case (Cons a as)
  then obtain b bs' where bs: "bs = b # bs'" using close by (cases bs) auto
  have "a = b \<and> concat (map (\<lambda>a. CHR '','' # f a) as) @ c # x = concat (map (\<lambda>a. CHR '','' # f a) bs') @ c # y"
    using Cons.prems bs by (intro Cons.prems(1)) (simp_all add: delimited_more [OF close])
  then show ?case using Cons.IH [of bs'] Cons.prems(1) bs by auto
qed

lemma join_inj:
  assumes each: "\<And>a b x y. a \<in> set as \<Longrightarrow> delimited x \<Longrightarrow> delimited y \<Longrightarrow> f a @ x = f b @ y \<Longrightarrow> a = b \<and> x = y"
    and first: "\<And>b. f b \<noteq> [] \<and> starts_value (hd (f b))"
    and close: "c \<in> set '']}''"
    and eq: "join (CHR '','') (map f as) @ c # x = join (CHR '','') (map f bs) @ c # y"
  shows "as = bs \<and> x = y"
proof -
  have no: "f b @ z \<noteq> c # w" for b z w
    using first [of b] close by (cases "f b") (auto simp: starts_value_def)
  consider "as = []" "bs = []" | a as' b bs' where "as = a # as'" "bs = b # bs'"
    using eq no by (cases as; cases bs) (auto simp: join_Cons, metis)
  then show ?thesis
  proof cases
    case 1
    then show ?thesis using eq by simp
  next
    case 2
    have "f a @ concat (map (\<lambda>a. CHR '','' # f a) as') @ c # x = f b @ concat (map (\<lambda>a. CHR '','' # f a) bs') @ c # y"
      using eq unfolding 2 by (simp add: join_Cons comp_def)
    then have "a = b \<and> concat (map (\<lambda>a. CHR '','' # f a) as') @ c # x = concat (map (\<lambda>a. CHR '','' # f a) bs') @ c # y"
      by (intro each delimited_more [OF close]) (simp_all add: 2(1))
    then show ?thesis using tail_inj [OF _ close, of as' f x bs' y] each 2 by auto
  qed
qed

text \<open>The first character decides the shape of the value.\<close>

lemma not_number_char [simp]:
  "\<not> number_char (CHR ''n'')" "\<not> number_char (CHR ''t'')" "\<not> number_char (CHR ''f'')" "\<not> number_char (CHR 0x22)"
  "\<not> number_char (CHR ''['')" "\<not> number_char (CHR ''{'')" "\<not> number_char (CHR '','')" "\<not> number_char (CHR '']'')"
  "\<not> number_char (CHR ''}'')" "\<not> number_char (CHR '':'')"
  by code_simp+

lemma quote_starts:
  assumes "json_text quote number"
  shows "quote s @ y = c # z \<Longrightarrow> c = CHR 0x22" "c # z = quote s @ y \<Longrightarrow> c = CHR 0x22"
proof -
  have "quote s \<noteq> [] \<and> hd (quote s) = CHR 0x22" using assms unfolding json_text_def by blast
  then show "quote s @ y = c # z \<Longrightarrow> c = CHR 0x22" "c # z = quote s @ y \<Longrightarrow> c = CHR 0x22"
    by (cases "quote s"; simp)+
qed

lemma number_starts:
  assumes "json_text quote number"
  shows "number n @ y = c # z \<Longrightarrow> number_char c" "c # z = number n @ y \<Longrightarrow> number_char c"
proof -
  have "number n \<noteq> [] \<and> list_all number_char (number n)" using assms unfolding json_text_def by blast
  then show "number n @ y = c # z \<Longrightarrow> number_char c" "c # z = number n @ y \<Longrightarrow> number_char c"
    by (cases "number n"; auto)+
qed

lemma quote_number:
  assumes "json_text quote number"
  shows "quote s @ y \<noteq> number n @ z" "number n @ z \<noteq> quote s @ y"
proof -
  have "quote s \<noteq> []" using assms unfolding json_text_def by blast
  then obtain c r where c: "quote s = c # r" by (cases "quote s") auto
  then have "c = CHR 0x22" using quote_starts(1) [OF assms, of s "[]"] by simp
  then show "quote s @ y \<noteq> number n @ z" using number_starts(2) [OF assms, of _ _ n z] c by fastforce
  then show "number n @ z \<noteq> quote s @ y" by metis
qed

lemma emit_first:
  assumes "json_text quote number"
  shows "emit quote number v \<noteq> [] \<and> starts_value (hd (emit quote number v))"
proof -
  have "starts_value c" if "number_char c" for c using that by (auto simp: starts_value_def)
  moreover have "number n \<noteq> [] \<and> number_char (hd (number n))" for n
    using assms number_starts(1) [OF assms, of n "[]"] unfolding json_text_def by (metis append_Nil2 list.collapse)
  moreover have "quote t \<noteq> [] \<and> hd (quote t) = CHR 0x22" for t using assms unfolding json_text_def by blast
  ultimately show ?thesis by (cases v) (simp_all add: starts_value_def)
qed

text \<open>A number is read up to the delimiter.\<close>

lemma number_delimited:
  assumes "list_all number_char a" "list_all number_char b" "delimited x" "delimited y" "a @ x = b @ y"
  shows "a = b \<and> x = y"
proof -
  have stop: "takeWhile number_char (c @ z) = c" if "list_all number_char c" "delimited z" for c z
  proof -
    have "\<not> list_ex number_char '',]}''" by code_simp
    then have "takeWhile number_char z = []" using that(2) by (cases z) (auto simp: delimited_def)
    then show ?thesis using that(1) by (simp add: list_all_iff takeWhile_append)
  qed
  then have "a = b" using assms by metis
  then show ?thesis using assms(5) by simp
qed

lemma emit_inj:
  assumes jt: "json_text quote number"
  shows "delimited x \<Longrightarrow> delimited y \<Longrightarrow> emit quote number v @ x = emit quote number w @ y \<Longrightarrow> v = w \<and> x = y"
proof (induction v arbitrary: w x y)
  case JNull
  then show ?case using jt
    by (cases w) (auto dest: quote_starts [OF jt] number_starts [OF jt] simp: quote_number [OF jt] split: if_splits)
next
  case (JBool b)
  then show ?case
    by (cases w) (auto dest: quote_starts [OF jt] number_starts [OF jt] simp: quote_number [OF jt] split: if_splits)
next
  case (JNum n)
  show ?case
  proof (cases w)
    case (JNum k)
    have "list_all number_char (number n)" "list_all number_char (number k)" "inj number"
      using jt unfolding json_text_def by blast+
    then show ?thesis using number_delimited [of "number n" "number k" x y] JNum.prems JNum by (auto dest: injD)
  qed (use JNum.prems in \<open>auto dest: quote_starts [OF jt] number_starts [OF jt] simp: quote_number [OF jt] split: if_splits\<close>)
next
  case (JStr s)
  show ?case
  proof (cases w)
    case (JStr t)
    then have "quote s @ x = quote t @ y" using JStr.prems by simp
    then have "s = t \<and> x = y" using jt unfolding json_text_def by blast
    then show ?thesis using JStr by simp
  qed (use JStr.prems in \<open>auto dest: quote_starts [OF jt] number_starts [OF jt] simp: quote_number [OF jt] split: if_splits\<close>)
next
  case (JArr vs)
  show ?case
  proof (cases w)
    case (JArr ws)
    then have "join (CHR '','') (map (emit quote number) vs) @ CHR '']'' # x
        = join (CHR '','') (map (emit quote number) ws) @ CHR '']'' # y" using JArr.prems by simp
    then have "vs = ws \<and> x = y"
      by (rule join_inj [rotated -1]) (use JArr.IH emit_first [OF jt] in auto)
    then show ?thesis using JArr by simp
  qed (use JArr.prems in \<open>auto dest: quote_starts [OF jt] number_starts [OF jt] simp: quote_number [OF jt] split: if_splits\<close>)
next
  case (JObj ms)
  let ?f = "\<lambda>(key, value). quote key @ CHR '':'' # emit quote number value"
  show ?case
  proof (cases w)
    case (JObj ns)
    then have eq: "join (CHR '','') (map ?f ms) @ CHR ''}'' # x = join (CHR '','') (map ?f ns) @ CHR ''}'' # y"
      using JObj.prems by simp
    have each: "a = b \<and> x' = y'" if "a \<in> set ms" "delimited x'" "delimited y'" "?f a @ x' = ?f b @ y'" for a b x' y'
    proof -
      obtain k v k' v' where ab: "a = (k, v)" "b = (k', v')" by fastforce
      have "k = k' \<and> CHR '':'' # emit quote number v @ x' = CHR '':'' # emit quote number v' @ y'"
      proof -
        have "quote k @ CHR '':'' # emit quote number v @ x' = quote k' @ CHR '':'' # emit quote number v' @ y'"
          using that(4) ab by simp
        then show ?thesis using jt unfolding json_text_def by blast
      qed
      moreover have "v = v' \<and> x' = y'" if "emit quote number v @ x' = emit quote number v' @ y'"
        using JObj.IH [OF \<open>a \<in> set ms\<close>, of v x' y' v'] \<open>delimited x'\<close> \<open>delimited y'\<close> that ab by (simp add: snds.simps)
      ultimately show ?thesis using ab by simp
    qed
    have q: "quote t \<noteq> [] \<and> hd (quote t) = CHR 0x22" for t using jt unfolding json_text_def by blast
    have first: "?f b \<noteq> [] \<and> starts_value (hd (?f b))" for b
      using q by (cases b) (simp add: starts_value_def)
    have "ms = ns \<and> x = y"
    proof (rule join_inj [where f = ?f and c = "CHR ''}''"])
      show "join (CHR '','') (map ?f ms) @ CHR ''}'' # x = join (CHR '','') (map ?f ns) @ CHR ''}'' # y" by (rule eq)
    qed (rule each | rule first | simp)+
    then show ?thesis using JObj by simp
  qed (use JObj.prems in \<open>auto dest: quote_starts [OF jt] number_starts [OF jt] simp: quote_number [OF jt] split: if_splits\<close>)
qed

section \<open>Fingerprints\<close>

text \<open>
  an argument fingerprint identifies the arguments, and ignores only the order of object
  members.  If strings and numbers are spelled as the JSON grammar says, the canonical bytes of two
  values are equal exactly when the values are equal up to the order of the members of their
  objects, at every depth; in particular reordering members never changes a fingerprint, and any
  other change of the arguments changes the bytes that are hashed.
\<close>
theorem canonical_json_exact:
  fixes a b :: "'n json"
  assumes "json_text quote number"
  shows "write_canonical_json quote number a = write_canonical_json quote number b \<longleftrightarrow> normal a = normal b"
proof
  assume "write_canonical_json quote number a = write_canonical_json quote number b"
  then show "normal a = normal b"
    using emit_inj [OF assms, of "[]" "[]" "normal a" "normal b"]
    by (simp add: write_canonical_eq_emit delimited_def)
qed (simp add: write_canonical_eq_emit)

text \<open>Reordering the members of an object does not change its normal form.\<close>

lemma normal_reordered:
  assumes "mset ms = mset ns" "distinct (map fst ms)"
  shows "normal (JObj ms) = normal (JObj ns)"
proof -
  let ?n = "map (\<lambda>(key, value). (key, normal value))"
  have m: "mset (?n ms) = mset (?n ns)" using assms(1) by simp
  have "distinct (map fst (?n ms))" using assms(2) by (simp add: case_prod_beta comp_def)
  then have "inj_on fst (set (?n ms))" by (simp only: distinct_map)
  then have "sort_key fst (?n ms) = sort_key fst (?n ns)"
    using m by (intro sort_key_inj_key_eq) simp_all
  then show ?thesis by simp
qed

text \<open>A concrete spelling: strings in quotes with escapes, numbers in unary.\<close>

fun escape :: "string \<Rightarrow> string" where
  "escape [] = []"
| "escape (c # s) = (if c = CHR 0x22 \<or> c = CHR 0x5C then [CHR 0x5C, c] else [c]) @ escape s"

definition plain_quote :: "string \<Rightarrow> string" where
  "plain_quote s = CHR 0x22 # escape s @ [CHR 0x22]"

definition unary :: "nat \<Rightarrow> string" where
  "unary n = replicate (Suc n) CHR ''1''"

lemma escape_inj: "escape s @ CHR 0x22 # x = escape t @ CHR 0x22 # y \<Longrightarrow> s = t \<and> x = y"
proof (induction s arbitrary: t)
  case Nil
  then show ?case by (cases t) (auto split: if_splits)
next
  case (Cons c s)
  then show ?case by (cases t) (auto split: if_splits)
qed

lemma plain_json_text: "json_text plain_quote unary"
proof -
  have "list_all number_char (unary n)" for n
  proof -
    have "number_char CHR ''1''" by code_simp
    then show ?thesis by (simp add: unary_def list_all_iff)
  qed
  moreover have "inj unary" by (auto simp: inj_def unary_def dest: arg_cong [where f = length])
  ultimately show ?thesis unfolding json_text_def
    by (auto simp: plain_quote_def unary_def dest: escape_inj)
qed

theorem canonical_json_exact_witness:
  "write_canonical_json plain_quote unary (JObj [(''b'', JNum 1), (''a'', JStr ''x'')])
     = write_canonical_json plain_quote unary (JObj [(''a'', JStr ''x''), (''b'', JNum 1)])"
  by (rule canonical_json_exact [OF plain_json_text, THEN iffD2]) code_simp

end
