(* ===== verification/Approval.thy ===== *)
theory Approval
  imports Canonical_Json
begin

text \<open>
  Call-scoped approvals and the decision of an approval node
  (\<open>workflow-runtime/src/approval.rs\<close>).  A \<open>Duration\<close> is its number of nanoseconds; the library
  type holds whole seconds in a \<open>u64\<close>, so \<open>checked_add\<close> fails from \<open>2^64\<close> seconds on.
\<close>

type_synonym Duration = nat

definition duration_limit :: nat where
  "duration_limit = 18446744073709551616 * 1000000000"

definition duration_checked_add :: "Duration \<Rightarrow> Duration \<Rightarrow> Duration option" where
  "duration_checked_add a b = (if a + b < duration_limit then Some (a + b) else None)"

definition as_millis :: "Duration \<Rightarrow> nat" where
  "as_millis d = d div 1000000"

section \<open>Call-scoped approvals\<close>

record CallScopedApproval =
  ap_tool_name :: string
  ap_call_id :: string
  ap_argument_fingerprint :: string
  ap_actor :: string
  ap_expires_at_ms :: u64

text \<open>\<open>as_millis().try_into().unwrap_or(u64::MAX)\<close>\<close>

definition expiry_ms :: "Duration \<Rightarrow> u64" where
  "expiry_ms d = (if as_millis d < 18446744073709551616 then word_of_nat (as_millis d) else - 1)"

text \<open>\<open>fingerprint\<close> is \<open>argument_fingerprint\<close> with the hash and the spelling of atoms fixed.\<close>

definition CallScopedApproval_new ::
    "('v \<Rightarrow> string) \<Rightarrow> string \<Rightarrow> string \<Rightarrow> 'v \<Rightarrow> string \<Rightarrow> Duration \<Rightarrow> CallScopedApproval" where
  "CallScopedApproval_new fingerprint tool_name call_id arguments actor expires_at =
     \<lparr>ap_tool_name = tool_name, ap_call_id = call_id, ap_argument_fingerprint = fingerprint arguments,
      ap_actor = actor, ap_expires_at_ms = expiry_ms expires_at\<rparr>"

type_synonym ApprovalLedger = "(string \<times> string \<times> string) \<rightharpoonup> CallScopedApproval"

definition ApprovalLedger_grant ::
    "('v \<Rightarrow> string) \<Rightarrow> string \<Rightarrow> string \<Rightarrow> 'v \<Rightarrow> string \<Rightarrow> Duration \<Rightarrow> ApprovalLedger \<Rightarrow> ApprovalLedger" where
  "ApprovalLedger_grant fingerprint tool_name call_id arguments actor expires_at records =
     (let approval = CallScopedApproval_new fingerprint tool_name call_id arguments actor expires_at in
      records((ap_tool_name approval, ap_call_id approval, ap_actor approval) \<mapsto> approval))"

datatype CallApprovalError = ApprovalMissing | ArgumentMismatch | ApprovalExpired

definition ApprovalLedger_authorize ::
    "('v \<Rightarrow> string) \<Rightarrow> ApprovalLedger \<Rightarrow> string \<Rightarrow> string \<Rightarrow> 'v \<Rightarrow> string \<Rightarrow> Duration \<Rightarrow> CallApprovalError + unit" where
  "ApprovalLedger_authorize fingerprint records tool_name call_id arguments actor now =
     (case records (tool_name, call_id, actor) of
        None \<Rightarrow> Inl ApprovalMissing
      | Some record \<Rightarrow>
          if ap_argument_fingerprint record \<noteq> fingerprint arguments then Inl ArgumentMismatch
          else if as_millis now \<ge> unat (ap_expires_at_ms record) then Inl ApprovalExpired
          else Inr ())"

section \<open>Approval nodes\<close>

datatype ApprovalDecision = Grant | Deny

fun ApprovalDecision_as_str :: "ApprovalDecision \<Rightarrow> string" where
  "ApprovalDecision_as_str Grant = ''grant''"
| "ApprovalDecision_as_str Deny = ''deny''"

definition ApprovalDecision_from_str :: "string \<Rightarrow> ApprovalDecision option" where
  "ApprovalDecision_from_str s = (if s = ''grant'' then Some Grant else if s = ''deny'' then Some Deny else None)"

datatype ApprovalTerminalKind = Denied | Expired | InvalidDecision

definition evaluate_approval ::
    "Duration \<Rightarrow> Duration \<Rightarrow> Duration \<Rightarrow> ApprovalDecision option \<Rightarrow> ApprovalTerminalKind + unit" where
  "evaluate_approval timeout started_at now decision =
     (if now < started_at then Inl InvalidDecision
      else case duration_checked_add started_at timeout of
             None \<Rightarrow> Inl InvalidDecision
           | Some deadline \<Rightarrow>
               (case decision of
                  Some Deny \<Rightarrow> Inl Denied
                | Some Grant \<Rightarrow> if now < deadline then Inr () else Inl Expired
                | None \<Rightarrow> Inl Expired))"

section \<open>Properties\<close>

text \<open>A grant as the caller makes it, and a ledger as a sequence of grants.\<close>

record 'v grant =
  gr_tool :: string
  gr_call :: string
  gr_arguments :: 'v
  gr_actor :: string
  gr_expires :: Duration

definition granted :: "('v \<Rightarrow> string) \<Rightarrow> 'v grant list \<Rightarrow> ApprovalLedger" where
  "granted fingerprint gs =
     fold (\<lambda>g. ApprovalLedger_grant fingerprint (gr_tool g) (gr_call g) (gr_arguments g) (gr_actor g) (gr_expires g))
       gs Map.empty"

definition same_call :: "string \<Rightarrow> string \<Rightarrow> string \<Rightarrow> 'v grant \<Rightarrow> bool" where
  "same_call tool call actor g \<longleftrightarrow> gr_tool g = tool \<and> gr_call g = call \<and> gr_actor g = actor"

lemma granted_lookup:
  "granted fingerprint gs (tool, call, actor) =
     (case find (same_call tool call actor) (rev gs) of None \<Rightarrow> None
      | Some g \<Rightarrow> Some (CallScopedApproval_new fingerprint (gr_tool g) (gr_call g) (gr_arguments g) (gr_actor g) (gr_expires g)))"
proof (induction gs rule: rev_induct)
  case Nil
  show ?case by (simp add: granted_def)
next
  case (snoc g gs)
  then show ?case
    by (auto simp: granted_def ApprovalLedger_grant_def CallScopedApproval_new_def Let_def same_call_def)
qed

lemma unat_expiry_ms: "unat (expiry_ms d) = min (as_millis d) (2 ^ 64 - 1)"
proof (cases "as_millis d < 18446744073709551616")
  case True
  then have "unat (word_of_nat (as_millis d) :: u64) = as_millis d" by (simp add: unat_of_nat take_bit_eq_mod)
  then show ?thesis using True by (simp add: expiry_ms_def)
next
  case False
  have "unat (- 1 :: u64) = 2 ^ 64 - 1" by (simp add: unsigned_minus_1_eq_mask mask_eq_exp_minus_1)
  then show ?thesis using False by (simp add: expiry_ms_def)
qed

text \<open>
  a call is authorised only by the latest grant for exactly that call.  After any sequence of
  grants, a call is authorised if and only if the last grant for its tool, call identifier and actor
  was made for arguments with the same fingerprint and has not expired, where an expiry beyond
  what 64-bit milliseconds can hold counts as the largest such time.
\<close>
theorem call_approval_exact:
  "ApprovalLedger_authorize fingerprint (granted fingerprint gs) tool call arguments actor now = Inr () \<longleftrightarrow>
   (\<exists>g. find (same_call tool call actor) (rev gs) = Some g \<and> fingerprint (gr_arguments g) = fingerprint arguments \<and>
        as_millis now < min (as_millis (gr_expires g)) (2 ^ 64 - 1))"
  unfolding ApprovalLedger_authorize_def granted_lookup
  by (auto simp: CallScopedApproval_new_def unat_expiry_ms split: option.splits)

text \<open>
  an approval node passes exactly on a grant that arrives in time.  The node is granted if and
  only if the decision is a grant, the clock has not gone backwards, the deadline is representable
  and has not been reached; a denial is never turned into anything but a denial or an invalid
  clock, and no decision at all never passes.
\<close>
theorem evaluate_approval_exact:
  "(evaluate_approval timeout started now decision = Inr () \<longleftrightarrow>
      decision = Some Grant \<and> started \<le> now \<and> now < started + timeout \<and> started + timeout < duration_limit) \<and>
   evaluate_approval timeout started now (Some Deny) \<in> {Inl Denied, Inl InvalidDecision} \<and>
   evaluate_approval timeout started now None \<in> {Inl Expired, Inl InvalidDecision}"
  by (auto simp: evaluate_approval_def duration_checked_add_def split: option.splits ApprovalDecision.splits)

end
