(* ===== verification/Firewall.thy ===== *)
theory Firewall
  imports Canonical_Json Policy
begin

text \<open>
  The deterministic hard policy of the tool firewall (\<open>workflow-runtime/src/firewall.rs\<close>,
  \<open>firewall_types.rs\<close>), the reduction of semantic evidence (\<open>semantic_firewall.rs\<close>), and the
  test for secret-like keys (\<open>event.rs\<close>).  A \<open>BTreeMap\<close> is its association list in key order, a
  \<open>BTreeSet\<close> its elements in order.  The values that \<open>serde\<close> serialises the types to are written
  out with the field names and renamings of the source; the spelling of JSON atoms and SHA-256 are
  parameters, collected in one record.
\<close>

section \<open>Types\<close>

definition FIREWALL_SCHEMA_VERSION :: u32 where
  "FIREWALL_SCHEMA_VERSION = 1"

definition FIREWALL_IMPLEMENTATION_VERSION :: string where
  "FIREWALL_IMPLEMENTATION_VERSION = ''firewall-hard-policy-v1''"

definition MAX_PROPOSAL_BYTES :: nat where
  "MAX_PROPOSAL_BYTES = 16384"

record TrustedGoal =
  tg_schema_version :: u32
  tg_id :: string
  tg_version :: string
  tg_capabilities :: "SandboxCapability list"
  tg_scopes :: "string list"
  tg_destinations :: "string list"

datatype SideEffectClass = EffectNone | EffectRead | EffectWrite | EffectDestructive

record SideEffectDescriptor =
  sd_schema_version :: u32
  sd_class :: SideEffectClass

record TargetVersion =
  tv_schema_version :: u32
  tv_revision :: string

record TargetState =
  ta_scope :: string
  ta_destination :: string
  ta_resource :: string
  ta_version :: TargetVersion

record ToolIntent =
  ti_schema_version :: u32
  ti_goal_id :: string
  ti_tool_id :: string
  ti_tool_version :: string
  ti_capabilities :: "SandboxCapability list"
  ti_scope :: string
  ti_destination :: string
  ti_resource :: string
  ti_effect :: SideEffectDescriptor
  ti_target_version :: TargetVersion

text \<open>An \<open>i64\<close> is an integer here: it is only compared and printed.\<close>

datatype ToolArgument = ArgInteger int | ArgBoolean bool | ArgToken string

record ProposalProvenance =
  pv_source_digest :: string
  pv_arguments_digest :: string
  pv_trust_domain :: TrustDomain

record ToolProposal =
  tp_schema_version :: u32
  tp_intent :: ToolIntent
  tp_arguments :: "(string \<times> ToolArgument) list"
  tp_provenance :: ProposalProvenance

datatype ArgumentRule = RuleInteger int int | RuleBoolean | RuleToken nat | RuleChoice "string list"

datatype ArgumentBinding = BindLiteral string | BindArgument string

datatype ToolAdmission = LowRiskAdmission | HumanApprovalAdmission

record ToolRule =
  tr_version :: string
  tr_capabilities :: "SandboxCapability list"
  tr_scopes :: "string list"
  tr_destinations :: "string list"
  tr_effect :: SideEffectClass
  tr_admission :: ToolAdmission
  tr_arguments :: "(string \<times> ArgumentRule) list"
  tr_scope :: ArgumentBinding
  tr_destination :: ArgumentBinding
  tr_resource :: ArgumentBinding

record FirewallPolicy =
  fp_schema_version :: u32
  fp_version :: string
  fp_tools :: "(string \<times> ToolRule) list"
  fp_targets :: "TargetState list"
  fp_forbidden_markers :: "string list"

datatype FirewallReason =
    RSchema | RPolicy | RProvenance | RGoal | RTool | RCapability | RScope | RDestination | RArguments
  | RSecret | RSideEffect | RStaleTarget | RLowRisk | RSemantic | RHumanApproval

datatype FirewallDecision = Allow | DenyCall | RequireHumanApproval

record ToolDecision =
  td_decision :: FirewallDecision
  td_reason :: FirewallReason
  td_identity :: string

section \<open>Small functions\<close>

definition token :: "string \<Rightarrow> nat \<Rightarrow> bool" where
  "token value limit \<longleftrightarrow> value \<noteq> [] \<and> length value \<le> limit \<and>
     list_all (\<lambda>byte. is_ascii_alphanumeric byte \<or> byte \<in> set ''._-/:@#'') value"

text \<open>\<open>i64::to_string\<close>\<close>

fun nat_decimal :: "nat \<Rightarrow> string" where
  "nat_decimal n = (if n < 10 then [char_of (48 + n)] else nat_decimal (n div 10) @ [char_of (48 + n mod 10)])"

declare nat_decimal.simps [simp del]

definition int_decimal :: "int \<Rightarrow> string" where
  "int_decimal i = (if i < 0 then CHR ''-'' # nat_decimal (nat (- i)) else nat_decimal (nat i))"

fun accepts :: "ArgumentRule \<Rightarrow> ToolArgument \<Rightarrow> bool" where
  "accepts (RuleInteger lo hi) (ArgInteger value) \<longleftrightarrow> lo \<le> value \<and> value \<le> hi"
| "accepts RuleBoolean (ArgBoolean _) \<longleftrightarrow> True"
| "accepts (RuleToken max_bytes) (ArgToken value) \<longleftrightarrow> token value (min max_bytes 256)"
| "accepts (RuleChoice values) (ArgToken value) \<longleftrightarrow> token value 256 \<and> value \<in> set values"
| "accepts _ _ \<longleftrightarrow> False"

fun argument_text :: "ToolArgument \<Rightarrow> string" where
  "argument_text (ArgToken value) = value"
| "argument_text (ArgInteger value) = int_decimal value"
| "argument_text (ArgBoolean value) = (if value then ''true'' else ''false'')"

fun resolve :: "ArgumentBinding \<Rightarrow> ToolProposal \<Rightarrow> string option" where
  "resolve (BindLiteral value) proposal = Some value"
| "resolve (BindArgument name) proposal = map_option argument_text (map_of (tp_arguments proposal) name)"

text \<open>\<open>sensitive_key\<close> and \<open>contains_sensitive_key\<close> of \<open>event.rs\<close>\<close>

definition sensitive_key :: "string \<Rightarrow> bool" where
  "sensitive_key key =
     (let normalized = to_ascii_lowercase (filter is_ascii_alphanumeric key);
          token_key = contains normalized ''token'' \<and> normalized \<notin> {''inputtokens'', ''outputtokens''}
      in contains normalized ''authorization'' \<or> contains normalized ''apikey'' \<or> contains normalized ''password''
         \<or> contains normalized ''secret'' \<or> token_key \<or> normalized \<in> {''chainofthought'', ''reasoning''})"

fun contains_sensitive_key :: "'n json \<Rightarrow> bool" where
  "contains_sensitive_key (JObj object) \<longleftrightarrow>
     list_ex (\<lambda>(key, value). sensitive_key key \<or> contains_sensitive_key value) object"
| "contains_sensitive_key (JArr values) \<longleftrightarrow> list_ex contains_sensitive_key values"
| "contains_sensitive_key _ \<longleftrightarrow> False"

section \<open>Serialised values\<close>

fun SandboxCapability_serde :: "SandboxCapability \<Rightarrow> string" where
  "SandboxCapability_serde FilesystemRead = ''filesystem_read''"
| "SandboxCapability_serde FilesystemWrite = ''filesystem_write''"
| "SandboxCapability_serde Network = ''network''"
| "SandboxCapability_serde ProcessSpawn = ''process_spawn''"
| "SandboxCapability_serde MaximumPids = ''maximum_pids''"
| "SandboxCapability_serde CpuTime = ''cpu_time''"
| "SandboxCapability_serde WallTime = ''wall_time''"
| "SandboxCapability_serde IdleTime = ''idle_time''"
| "SandboxCapability_serde Memory = ''memory''"
| "SandboxCapability_serde OutputBytes = ''output_bytes''"
| "SandboxCapability_serde OpenFiles = ''open_files''"
| "SandboxCapability_serde EnvironmentVariables = ''environment_variables''"
| "SandboxCapability_serde SyscallProfile = ''syscall_profile''"
| "SandboxCapability_serde UserGroupIdentity = ''user_group_identity''"
| "SandboxCapability_serde DeviceAccess = ''device_access''"

fun TrustDomain_serde :: "TrustDomain \<Rightarrow> string" where
  "TrustDomain_serde TrustedPolicy = ''trusted_policy''"
| "TrustDomain_serde TrustDomain.TrustedGoal = ''trusted_goal''"
| "TrustDomain_serde ConditionallyTrustedContent = ''conditionally_trusted_content''"
| "TrustDomain_serde UntrustedContent = ''untrusted_content''"
| "TrustDomain_serde SyntheticTrap = ''synthetic_trap''"

fun SideEffectClass_serde :: "SideEffectClass \<Rightarrow> string" where
  "SideEffectClass_serde EffectNone = ''none''"
| "SideEffectClass_serde EffectRead = ''read''"
| "SideEffectClass_serde EffectWrite = ''write''"
| "SideEffectClass_serde EffectDestructive = ''destructive''"

fun ToolAdmission_serde :: "ToolAdmission \<Rightarrow> string" where
  "ToolAdmission_serde LowRiskAdmission = ''low_risk''"
| "ToolAdmission_serde HumanApprovalAdmission = ''human_approval''"

fun FirewallReason_serde :: "FirewallReason \<Rightarrow> string" where
  "FirewallReason_serde RSchema = ''sch''" | "FirewallReason_serde RPolicy = ''pol''"
| "FirewallReason_serde RProvenance = ''prv''" | "FirewallReason_serde RGoal = ''gol''"
| "FirewallReason_serde RTool = ''tol''" | "FirewallReason_serde RCapability = ''cap''"
| "FirewallReason_serde RScope = ''scp''" | "FirewallReason_serde RDestination = ''dst''"
| "FirewallReason_serde RArguments = ''arg''" | "FirewallReason_serde RSecret = ''sec''"
| "FirewallReason_serde RSideEffect = ''eff''" | "FirewallReason_serde RStaleTarget = ''stl''"
| "FirewallReason_serde RLowRisk = ''low''" | "FirewallReason_serde RSemantic = ''smt''"
| "FirewallReason_serde RHumanApproval = ''hum''"

type_synonym jvalue = "int json"

definition u32_value :: "u32 \<Rightarrow> jvalue" where
  "u32_value v = JNum (uint v)"

definition strs_value :: "string list \<Rightarrow> jvalue" where
  "strs_value ss = JArr (map JStr ss)"

definition caps_value :: "SandboxCapability list \<Rightarrow> jvalue" where
  "caps_value cs = JArr (map (JStr \<circ> SandboxCapability_serde) cs)"

fun ToolArgument_value :: "ToolArgument \<Rightarrow> jvalue" where
  "ToolArgument_value (ArgInteger i) = JNum i"
| "ToolArgument_value (ArgBoolean b) = JBool b"
| "ToolArgument_value (ArgToken t) = JStr t"

definition arguments_value :: "(string \<times> ToolArgument) list \<Rightarrow> jvalue" where
  "arguments_value arguments = JObj (map (\<lambda>(name, argument). (name, ToolArgument_value argument)) arguments)"

definition TargetVersion_value :: "TargetVersion \<Rightarrow> jvalue" where
  "TargetVersion_value v =
     JObj [(''schema_version'', u32_value (tv_schema_version v)), (''revision'', JStr (tv_revision v))]"

definition ToolIntent_value :: "ToolIntent \<Rightarrow> jvalue" where
  "ToolIntent_value i =
     JObj [(''schema_version'', u32_value (ti_schema_version i)), (''goal_id'', JStr (ti_goal_id i)),
           (''tool_id'', JStr (ti_tool_id i)), (''tool_version'', JStr (ti_tool_version i)),
           (''capabilities'', caps_value (ti_capabilities i)), (''scope'', JStr (ti_scope i)),
           (''destination'', JStr (ti_destination i)), (''resource'', JStr (ti_resource i)),
           (''effect'', JObj [(''schema_version'', u32_value (sd_schema_version (ti_effect i))),
                              (''class'', JStr (SideEffectClass_serde (sd_class (ti_effect i))))]),
           (''target_version'', TargetVersion_value (ti_target_version i))]"

definition ToolProposal_value :: "ToolProposal \<Rightarrow> jvalue" where
  "ToolProposal_value p =
     JObj [(''schema_version'', u32_value (tp_schema_version p)), (''intent'', ToolIntent_value (tp_intent p)),
           (''arguments'', arguments_value (tp_arguments p)),
           (''provenance'', JObj
             [(''source_digest'', JStr (pv_source_digest (tp_provenance p))),
              (''arguments_digest'', JStr (pv_arguments_digest (tp_provenance p))),
              (''trust_domain'', JStr (TrustDomain_serde (pv_trust_domain (tp_provenance p))))])]"

definition TrustedGoal_value :: "TrustedGoal \<Rightarrow> jvalue" where
  "TrustedGoal_value g =
     JObj [(''schema_version'', u32_value (tg_schema_version g)), (''id'', JStr (tg_id g)),
           (''version'', JStr (tg_version g)), (''capabilities'', caps_value (tg_capabilities g)),
           (''scopes'', strs_value (tg_scopes g)), (''destinations'', strs_value (tg_destinations g))]"

fun ArgumentRule_value :: "ArgumentRule \<Rightarrow> jvalue" where
  "ArgumentRule_value (RuleInteger lo hi) = JObj [(''kind'', JStr ''integer''), (''min'', JNum lo), (''max'', JNum hi)]"
| "ArgumentRule_value RuleBoolean = JObj [(''kind'', JStr ''boolean'')]"
| "ArgumentRule_value (RuleToken n) = JObj [(''kind'', JStr ''token''), (''max_bytes'', JNum (int n))]"
| "ArgumentRule_value (RuleChoice vs) = JObj [(''kind'', JStr ''choice''), (''values'', strs_value vs)]"

fun ArgumentBinding_value :: "ArgumentBinding \<Rightarrow> jvalue" where
  "ArgumentBinding_value (BindLiteral v) = JObj [(''kind'', JStr ''literal''), (''value'', JStr v)]"
| "ArgumentBinding_value (BindArgument n) = JObj [(''kind'', JStr ''argument''), (''name'', JStr n)]"

definition ToolRule_value :: "ToolRule \<Rightarrow> jvalue" where
  "ToolRule_value r =
     JObj [(''version'', JStr (tr_version r)), (''capabilities'', caps_value (tr_capabilities r)),
           (''scopes'', strs_value (tr_scopes r)), (''destinations'', strs_value (tr_destinations r)),
           (''effect'', JStr (SideEffectClass_serde (tr_effect r))),
           (''admission'', JStr (ToolAdmission_serde (tr_admission r))),
           (''arguments'', JObj (map (\<lambda>(n, a). (n, ArgumentRule_value a)) (tr_arguments r))),
           (''scope'', ArgumentBinding_value (tr_scope r)),
           (''destination'', ArgumentBinding_value (tr_destination r)),
           (''resource'', ArgumentBinding_value (tr_resource r))]"

definition TargetState_value :: "TargetState \<Rightarrow> jvalue" where
  "TargetState_value t =
     JObj [(''scope'', JStr (ta_scope t)), (''destination'', JStr (ta_destination t)),
           (''resource'', JStr (ta_resource t)), (''version'', TargetVersion_value (ta_version t))]"

definition FirewallPolicy_value :: "FirewallPolicy \<Rightarrow> jvalue" where
  "FirewallPolicy_value p =
     JObj [(''schema_version'', u32_value (fp_schema_version p)), (''version'', JStr (fp_version p)),
           (''tools'', JObj (map (\<lambda>(n, r). (n, ToolRule_value r)) (fp_tools p))),
           (''targets'', JArr (map TargetState_value (fp_targets p))),
           (''forbidden_markers'', strs_value (fp_forbidden_markers p))]"

section \<open>The hard policy\<close>

text \<open>SHA-256 and the spelling of JSON atoms.\<close>

record json_env =
  je_sha256 :: "byte list \<Rightarrow> byte list"
  je_quote :: "string \<Rightarrow> string"
  je_number :: "int \<Rightarrow> string"

definition digest :: "json_env \<Rightarrow> jvalue \<Rightarrow> string" where
  "digest env v = argument_fingerprint (je_sha256 env) (je_quote env) (je_number env) v"

text \<open>\<open>serde_json::to_string\<close> of the sorted argument map\<close>

definition canonical_arguments :: "json_env \<Rightarrow> ToolProposal \<Rightarrow> string" where
  "canonical_arguments env proposal = emit (je_quote env) (je_number env) (arguments_value (tp_arguments proposal))"

definition arguments_digest :: "json_env \<Rightarrow> ToolProposal \<Rightarrow> string" where
  "arguments_digest env proposal = digest env (arguments_value (tp_arguments proposal))"

fun contains_secret :: "FirewallPolicy \<Rightarrow> 'n json \<Rightarrow> bool" where
  "contains_secret policy (JStr text) \<longleftrightarrow>
     contains text SYNTHETIC_HONEYTOKEN_PREFIX \<or> list_ex (\<lambda>marker. contains text marker) (fp_forbidden_markers policy)"
| "contains_secret policy (JArr values) \<longleftrightarrow> list_ex (contains_secret policy) values"
| "contains_secret policy (JObj values) \<longleftrightarrow>
     list_ex (\<lambda>(key, v).
       (contains key SYNTHETIC_HONEYTOKEN_PREFIX \<or> list_ex (\<lambda>marker. contains key marker) (fp_forbidden_markers policy))
       \<or> contains_secret policy v) values"
| "contains_secret policy _ \<longleftrightarrow> False"

definition schema_versions :: "FirewallPolicy \<Rightarrow> TrustedGoal \<Rightarrow> ToolProposal \<Rightarrow> u32 list" where
  "schema_versions policy goal proposal =
     [fp_schema_version policy, tg_schema_version goal, tp_schema_version proposal,
      ti_schema_version (tp_intent proposal), sd_schema_version (ti_effect (tp_intent proposal)),
      tv_schema_version (ti_target_version (tp_intent proposal))]"

definition tool_rule :: "FirewallPolicy \<Rightarrow> ToolIntent \<Rightarrow> ToolRule option" where
  "tool_rule policy intent =
     (case map_of (fp_tools policy) (ti_tool_id intent) of
        None \<Rightarrow> None
      | Some rule \<Rightarrow>
          if token (ti_tool_id intent) 128 \<and> token (tr_version rule) 128 \<and> tr_version rule = ti_tool_version intent
          then Some rule else None)"

definition arguments_rejected :: "json_env \<Rightarrow> ToolRule \<Rightarrow> ToolProposal \<Rightarrow> bool" where
  "arguments_rejected env rule proposal \<longleftrightarrow>
     length (canonical_arguments env proposal) > MAX_PROPOSAL_BYTES
     \<or> length (tr_arguments rule) \<noteq> length (tp_arguments proposal)
     \<or> \<not> list_all (\<lambda>(name, constraint).
          (case map_of (tp_arguments proposal) name of None \<Rightarrow> False | Some argument \<Rightarrow> accepts constraint argument))
          (tr_arguments rule)
     \<or> resolve (tr_scope rule) proposal \<noteq> Some (ti_scope (tp_intent proposal))
     \<or> resolve (tr_destination rule) proposal \<noteq> Some (ti_destination (tp_intent proposal))
     \<or> resolve (tr_resource rule) proposal \<noteq> Some (ti_resource (tp_intent proposal))"

definition matching_targets :: "FirewallPolicy \<Rightarrow> ToolIntent \<Rightarrow> TargetState list" where
  "matching_targets policy intent =
     filter (\<lambda>target. ta_scope target = ti_scope intent \<and> ta_destination target = ti_destination intent
       \<and> ta_resource target = ti_resource intent) (fp_targets policy)"

definition target_stale :: "FirewallPolicy \<Rightarrow> ToolIntent \<Rightarrow> bool" where
  "target_stale policy intent =
     (case matching_targets policy intent of
        [] \<Rightarrow> True
      | target # others \<Rightarrow>
          others \<noteq> [] \<or> \<not> token (ti_resource intent) 256
          \<or> \<not> token (tv_revision (ti_target_version intent)) 256
          \<or> tv_schema_version (ta_version target) \<noteq> FIREWALL_SCHEMA_VERSION
          \<or> ta_version target \<noteq> ti_target_version intent)"

definition check :: "json_env \<Rightarrow> FirewallPolicy \<Rightarrow> TrustedGoal \<Rightarrow> ToolProposal \<Rightarrow> FirewallReason + unit" where
  "check env policy goal proposal =
     (let intent = tp_intent proposal in
      if list_ex (\<lambda>version. version \<noteq> FIREWALL_SCHEMA_VERSION) (schema_versions policy goal proposal) then Inl RSchema
      else if \<not> token (fp_version policy) 128 \<or> list_ex (\<lambda>marker. marker = []) (fp_forbidden_markers policy)
      then Inl RPolicy
      else if \<not> token (tg_id goal) 128 \<or> \<not> token (tg_version goal) 128 \<or> ti_goal_id intent \<noteq> tg_id goal then Inl RGoal
      else if \<not> lower_hex64 (pv_source_digest (tp_provenance proposal))
        \<or> pv_arguments_digest (tp_provenance proposal) \<noteq> arguments_digest env proposal then Inl RProvenance
      else case tool_rule policy intent of
        None \<Rightarrow> Inl RTool
      | Some rule \<Rightarrow>
          if ti_capabilities intent \<noteq> tr_capabilities rule \<or> \<not> set (tr_capabilities rule) \<subseteq> set (tg_capabilities goal)
          then Inl RCapability
          else if \<not> token (ti_scope intent) 256 \<or> ti_scope intent \<notin> set (tr_scopes rule)
            \<or> ti_scope intent \<notin> set (tg_scopes goal) then Inl RScope
          else if \<not> token (ti_destination intent) 256 \<or> ti_destination intent \<notin> set (tr_destinations rule)
            \<or> ti_destination intent \<notin> set (tg_destinations goal) then Inl RDestination
          else if contains_secret policy (ToolProposal_value proposal)
            \<or> isl (sanitize_log (canonical_arguments env proposal))
            \<or> contains_sensitive_key (arguments_value (tp_arguments proposal)) then Inl RSecret
          else if arguments_rejected env rule proposal then Inl RArguments
          else if tr_effect rule \<noteq> sd_class (ti_effect intent)
            \<or> tr_admission rule = LowRiskAdmission \<and> tr_effect rule \<notin> {EffectNone, EffectRead} then Inl RSideEffect
          else if target_stale policy intent then Inl RStaleTarget
          else Inr ())"

definition decision_material :: "FirewallPolicy \<Rightarrow> TrustedGoal \<Rightarrow> ToolProposal \<Rightarrow> FirewallReason \<Rightarrow> jvalue" where
  "decision_material policy goal proposal reason =
     JObj [(''implementation'', JStr FIREWALL_IMPLEMENTATION_VERSION),
           (''schema_version'', u32_value FIREWALL_SCHEMA_VERSION), (''policy'', FirewallPolicy_value policy),
           (''goal'', TrustedGoal_value goal), (''proposal'', ToolProposal_value proposal),
           (''reason'', JStr (FirewallReason_serde reason)), (''security'', JStr SECURITY_MODEL_VERSION),
           (''secrets'', JStr SECRET_POLICY_VERSION)]"

definition evaluate :: "json_env \<Rightarrow> FirewallPolicy \<Rightarrow> TrustedGoal \<Rightarrow> ToolProposal \<Rightarrow> ToolDecision" where
  "evaluate env policy goal proposal =
     (let reason = (case check env policy goal proposal of
            Inl reason \<Rightarrow> reason
          | Inr _ \<Rightarrow>
              (case map_of (fp_tools policy) (ti_tool_id (tp_intent proposal)) of
                 Some rule \<Rightarrow> if tr_admission rule = LowRiskAdmission then RLowRisk else RHumanApproval
               | None \<Rightarrow> RHumanApproval));
          decision = (case reason of RLowRisk \<Rightarrow> Allow | RHumanApproval \<Rightarrow> RequireHumanApproval | _ \<Rightarrow> DenyCall)
      in \<lparr>td_decision = decision, td_reason = reason,
          td_identity = digest env (decision_material policy goal proposal reason)\<rparr>)"

definition FirewallPolicy_identity :: "json_env \<Rightarrow> FirewallPolicy \<Rightarrow> string" where
  "FirewallPolicy_identity env policy = digest env (FirewallPolicy_value policy)"

text \<open>The report stamp; decoding it from its wire form validates it.\<close>

record FirewallStamp =
  fs_schema_version :: u32
  fs_reason :: FirewallReason
  fs_identity :: string

datatype InvalidStamp = InvalidStamp

definition FirewallStamp_try_from :: "u32 \<Rightarrow> FirewallReason \<Rightarrow> string \<Rightarrow> InvalidStamp + FirewallStamp" where
  "FirewallStamp_try_from schema_version reason identity =
     (if schema_version \<noteq> FIREWALL_SCHEMA_VERSION \<or> \<not> lower_hex64 identity then Inl InvalidStamp
      else Inr \<lparr>fs_schema_version = schema_version, fs_reason = reason, fs_identity = identity\<rparr>)"

text \<open>The stamp that \<open>typed_output\<close> puts into a report.\<close>

definition ToolDecision_stamp :: "ToolDecision \<Rightarrow> FirewallStamp" where
  "ToolDecision_stamp d =
     \<lparr>fs_schema_version = FIREWALL_SCHEMA_VERSION, fs_reason = td_reason d, fs_identity = td_identity d\<rparr>"

section \<open>Semantic evidence\<close>

definition SEMANTIC_FIREWALL_VERSION :: string where
  "SEMANTIC_FIREWALL_VERSION = ''semantic-firewall-v1''"

datatype JudgeKind = TaskAlignment | PrivilegeScope | DestinationJudge | DataFlow

definition JudgeKind_ALL :: "JudgeKind list" where
  "JudgeKind_ALL = [TaskAlignment, PrivilegeScope, DestinationJudge, DataFlow]"

fun JudgeKind_id :: "JudgeKind \<Rightarrow> string" where
  "JudgeKind_id TaskAlignment = ''task_alignment''"
| "JudgeKind_id PrivilegeScope = ''privilege_scope''"
| "JudgeKind_id DestinationJudge = ''destination''"
| "JudgeKind_id DataFlow = ''data_flow''"

text \<open>The derived order: by declaration.\<close>

fun JudgeKind_rank :: "JudgeKind \<Rightarrow> nat" where
  "JudgeKind_rank TaskAlignment = 0"
| "JudgeKind_rank PrivilegeScope = 1"
| "JudgeKind_rank DestinationJudge = 2"
| "JudgeKind_rank DataFlow = 3"

datatype Impact = LowImpact | HighImpact

record JudgeOutput =
  jo_judge :: JudgeKind
  jo_decision :: FirewallDecision

definition reduce :: "ToolDecision \<Rightarrow> Impact \<Rightarrow> JudgeOutput list \<Rightarrow> FirewallDecision" where
  "reduce hard impact reports =
     (if td_decision hard \<noteq> Allow then td_decision hard
      else
        let axes = remdups (map jo_judge reports) in
        if length reports \<noteq> length JudgeKind_ALL \<or> length axes \<noteq> length JudgeKind_ALL then DenyCall
        else
          let denied = length (filter (\<lambda>r. jo_decision r = DenyCall) reports) in
          if denied = length reports then DenyCall
          else if impact = HighImpact \<and> denied > 0 then RequireHumanApproval
          else if denied > 0 then DenyCall
          else if list_ex (\<lambda>r. jo_decision r = RequireHumanApproval) reports then RequireHumanApproval
          else Allow)"

text \<open>\<open>format!("{:?}", decision)\<close>\<close>

fun FirewallDecision_debug :: "FirewallDecision \<Rightarrow> string" where
  "FirewallDecision_debug Allow = ''Allow''"
| "FirewallDecision_debug DenyCall = ''Deny''"
| "FirewallDecision_debug RequireHumanApproval = ''RequireHumanApproval''"

fun Impact_serde :: "Impact \<Rightarrow> string" where
  "Impact_serde LowImpact = ''low''"
| "Impact_serde HighImpact = ''high''"

text \<open>The judge reports in the derived order of the pairs, so that their arrival order is not seen.\<close>

definition semantic_evidence :: "JudgeOutput list \<Rightarrow> (JudgeKind \<times> string) list" where
  "semantic_evidence reports =
     sort_key (\<lambda>(judge, decision). (JudgeKind_rank judge, decision))
       (map (\<lambda>report. (jo_judge report, FirewallDecision_debug (jo_decision report))) reports)"

definition semantic_material :: "ToolDecision \<Rightarrow> Impact \<Rightarrow> JudgeOutput list \<Rightarrow> string \<Rightarrow> jvalue" where
  "semantic_material hard impact reports binding_identity =
     JObj [(''hard'', JStr (td_identity hard)), (''semantic'', JStr binding_identity),
           (''impact'', JStr (Impact_serde impact)),
           (''evidence'', JArr (map (\<lambda>(judge, decision). JArr [JStr (JudgeKind_id judge), JStr decision])
              (semantic_evidence reports))),
           (''implementation'', JStr SEMANTIC_FIREWALL_VERSION)]"

definition with_semantic_evidence ::
    "json_env \<Rightarrow> ToolDecision \<Rightarrow> Impact \<Rightarrow> JudgeOutput list \<Rightarrow> string \<Rightarrow> ToolDecision" where
  "with_semantic_evidence env hard impact reports binding_identity =
     (if td_decision hard \<noteq> Allow then hard
      else \<lparr>td_decision = reduce hard impact reports, td_reason = RSemantic,
            td_identity = digest env (semantic_material hard impact reports binding_identity)\<rparr>)"

text \<open>The features a judge sees.\<close>

datatype DataClass = DataPublic | DataInternal | DataConfidential | DataRestricted

record SemanticFacts =
  sf_schema_version :: u32
  sf_trusted_goal :: string
  sf_action :: string
  sf_scope :: string
  sf_destination :: string
  sf_data_class :: DataClass
  sf_provenance :: TrustDomain
  sf_argument_summary :: string
  sf_impact :: Impact

datatype JudgeFeatures =
    TaskAlignmentFeatures string string
  | PrivilegeScopeFeatures string string string
  | DestinationFeatures string string string
  | DataFlowFeatures string string DataClass TrustDomain string

record JudgeInput =
  ji_schema_version :: u32
  ji_features :: JudgeFeatures

datatype SemanticError = UnknownSchemaVersion | SemanticInvalidJson

text \<open>\<open>chars().any(char::is_control)\<close>: U+0000..U+001F and U+007F..U+009F, in UTF-8.\<close>

fun has_control :: "string \<Rightarrow> bool" where
  "has_control [] \<longleftrightarrow> False"
| "has_control (a # s) \<longleftrightarrow>
     is_ascii_control a
     \<or> (of_char a :: nat) = 0xC2 \<and> (case s of b # _ \<Rightarrow> 0x80 \<le> (of_char b :: nat) \<and> (of_char b :: nat) \<le> 0x9F | [] \<Rightarrow> False)
     \<or> has_control s"

definition summary_text :: "string \<Rightarrow> bool" where
  "summary_text s \<longleftrightarrow> \<not> blank s \<and> length s \<le> 512 \<and> \<not> has_control s
     \<and> \<not> contains s SYNTHETIC_HONEYTOKEN_PREFIX \<and> \<not> isl (sanitize_log s)"

definition SemanticFacts_validate :: "SemanticFacts \<Rightarrow> SemanticError + unit" where
  "SemanticFacts_validate facts =
     (if sf_schema_version facts \<noteq> 1 then Inl UnknownSchemaVersion
      else if \<not> list_all summary_text
        [sf_trusted_goal facts, sf_action facts, sf_scope facts, sf_destination facts, sf_argument_summary facts]
      then Inl SemanticInvalidJson
      else Inr ())"

fun judge_features :: "SemanticFacts \<Rightarrow> JudgeKind \<Rightarrow> JudgeFeatures" where
  "judge_features facts TaskAlignment = TaskAlignmentFeatures (sf_trusted_goal facts) (sf_action facts)"
| "judge_features facts PrivilegeScope =
     PrivilegeScopeFeatures (sf_trusted_goal facts) (sf_action facts) (sf_scope facts)"
| "judge_features facts DestinationJudge =
     DestinationFeatures (sf_trusted_goal facts) (sf_action facts) (sf_destination facts)"
| "judge_features facts DataFlow =
     DataFlowFeatures (sf_action facts) (sf_destination facts) (sf_data_class facts) (sf_provenance facts)
       (sf_argument_summary facts)"

definition SemanticFacts_input :: "SemanticFacts \<Rightarrow> JudgeKind \<Rightarrow> SemanticError + JudgeInput" where
  "SemanticFacts_input facts judge =
     res_bind (SemanticFacts_validate facts) (\<lambda>_.
       Inr \<lparr>ji_schema_version = 1, ji_features = judge_features facts judge\<rparr>)"

end
