(* ===== verification/Firewall_Correct.thy ===== *)
theory Firewall_Correct
  imports Firewall
begin

text \<open>
  What a tool call must satisfy to pass the hard policy, and that semantic evidence can only
  restrict the decision.
\<close>

section \<open>Admission by the hard policy\<close>

text \<open>
  The admission contract, in terms of the trusted inputs: authority comes from the registered rule
  and from the goal, the arguments are exactly the registered ones, and the target is the one
  snapshot the policy holds.
\<close>

definition admissible :: "json_env \<Rightarrow> FirewallPolicy \<Rightarrow> TrustedGoal \<Rightarrow> ToolProposal \<Rightarrow> ToolRule \<Rightarrow> bool" where
  "admissible env policy goal proposal rule \<longleftrightarrow>
     (let intent = tp_intent proposal in
      map_of (fp_tools policy) (ti_tool_id intent) = Some rule \<and> tr_version rule = ti_tool_version intent
      \<and> ti_goal_id intent = tg_id goal
      \<and> ti_capabilities intent = tr_capabilities rule \<and> set (ti_capabilities intent) \<subseteq> set (tg_capabilities goal)
      \<and> ti_scope intent \<in> set (tr_scopes rule) \<inter> set (tg_scopes goal)
      \<and> ti_destination intent \<in> set (tr_destinations rule) \<inter> set (tg_destinations goal)
      \<and> pv_arguments_digest (tp_provenance proposal) = arguments_digest env proposal
      \<and> dom (map_of (tp_arguments proposal)) = dom (map_of (tr_arguments rule))
      \<and> (\<forall>name argument constraint. map_of (tp_arguments proposal) name = Some argument \<longrightarrow>
           map_of (tr_arguments rule) name = Some constraint \<longrightarrow> accepts constraint argument)
      \<and> resolve (tr_scope rule) proposal = Some (ti_scope intent)
      \<and> resolve (tr_destination rule) proposal = Some (ti_destination intent)
      \<and> resolve (tr_resource rule) proposal = Some (ti_resource intent)
      \<and> sd_class (ti_effect intent) = tr_effect rule
      \<and> (\<exists>target. matching_targets policy intent = [target] \<and> ta_version target = ti_target_version intent)
      \<and> \<not> contains_secret policy (ToolProposal_value proposal)
      \<and> \<not> contains_sensitive_key (arguments_value (tp_arguments proposal)))"

text \<open>A map with as many keys as another, defined on all of the other's keys, has the same keys.\<close>

lemma dom_eq_by_length:
  assumes "distinct (map fst xs)" "distinct (map fst ys)" "length xs = length ys"
    and "dom (map_of xs) \<subseteq> dom (map_of ys)"
  shows "dom (map_of xs) = dom (map_of ys)"
proof -
  have "card (dom (map_of zs)) = length zs" if "distinct (map fst zs)" for zs :: "('a \<times> 'c) list"
    using that by (metis distinct_card dom_map_of_conv_image_fst length_map list.set_map)
  moreover have "card (dom (map_of zs)) = length zs" if "distinct (map fst zs)" for zs :: "('a \<times> 'b) list"
    using that by (metis distinct_card dom_map_of_conv_image_fst length_map list.set_map)
  ultimately show ?thesis using assms by (metis card_subset_eq finite_dom_map_of)
qed

lemma tool_rule_Some:
  "tool_rule policy intent = Some rule \<Longrightarrow>
     map_of (fp_tools policy) (ti_tool_id intent) = Some rule \<and> tr_version rule = ti_tool_version intent"
  by (auto simp: tool_rule_def split: option.splits if_splits)

lemma target_fresh:
  "\<not> target_stale policy intent \<Longrightarrow>
     \<exists>target. matching_targets policy intent = [target] \<and> ta_version target = ti_target_version intent"
  by (auto simp: target_stale_def split: list.splits)

lemma arguments_accepted:
  assumes "\<not> arguments_rejected env rule proposal"
    and "distinct (map fst (tp_arguments proposal))" "distinct (map fst (tr_arguments rule))"
  shows "dom (map_of (tp_arguments proposal)) = dom (map_of (tr_arguments rule))"
    and "map_of (tp_arguments proposal) name = Some argument \<Longrightarrow>
      map_of (tr_arguments rule) name = Some constraint \<Longrightarrow> accepts constraint argument"
proof -
  have len: "length (tr_arguments rule) = length (tp_arguments proposal)"
    and all: "\<And>n c. (n, c) \<in> set (tr_arguments rule) \<Longrightarrow>
      (case map_of (tp_arguments proposal) n of None \<Rightarrow> False | Some a \<Rightarrow> accepts c a)"
    using assms(1) by (auto simp: arguments_rejected_def list_all_iff)
  have "dom (map_of (tr_arguments rule)) \<subseteq> dom (map_of (tp_arguments proposal))"
    using all by (force dest: map_of_SomeD split: option.splits)
  then show "dom (map_of (tp_arguments proposal)) = dom (map_of (tr_arguments rule))"
    using dom_eq_by_length [OF assms(3,2)] len by simp
  show "map_of (tp_arguments proposal) name = Some argument \<Longrightarrow>
      map_of (tr_arguments rule) name = Some constraint \<Longrightarrow> accepts constraint argument"
    using all by (force dest: map_of_SomeD)
qed

lemma check_admissible:
  assumes "check env policy goal proposal = Inr u"
    and dp: "distinct (map fst (tp_arguments proposal))"
    and dr: "\<forall>(tool, rule) \<in> set (fp_tools policy). distinct (map fst (tr_arguments rule))"
  obtains rule where "admissible env policy goal proposal rule"
    and "tr_admission rule = LowRiskAdmission \<longrightarrow> tr_effect rule \<in> {EffectNone, EffectRead}"
proof -
  let ?i = "tp_intent proposal"
  obtain rule where rule: "tool_rule policy ?i = Some rule"
    using assms(1) by (auto simp: check_def Let_def split: if_splits option.splits)
  note r = tool_rule_Some [OF rule]
  have "distinct (map fst (tr_arguments rule))" using dr r by (fastforce dest: map_of_SomeD)
  note args = arguments_accepted [OF _ dp this]
  have guards: "ti_goal_id ?i = tg_id goal" "pv_arguments_digest (tp_provenance proposal) = arguments_digest env proposal"
    "ti_capabilities ?i = tr_capabilities rule" "set (tr_capabilities rule) \<subseteq> set (tg_capabilities goal)"
    "ti_scope ?i \<in> set (tr_scopes rule)" "ti_scope ?i \<in> set (tg_scopes goal)"
    "ti_destination ?i \<in> set (tr_destinations rule)" "ti_destination ?i \<in> set (tg_destinations goal)"
    "\<not> contains_secret policy (ToolProposal_value proposal)"
    "\<not> contains_sensitive_key (arguments_value (tp_arguments proposal))"
    "\<not> arguments_rejected env rule proposal" "tr_effect rule = sd_class (ti_effect ?i)"
    "tr_admission rule = LowRiskAdmission \<longrightarrow> tr_effect rule \<in> {EffectNone, EffectRead}" "\<not> target_stale policy ?i"
    using assms(1) rule by (simp_all add: check_def Let_def split: if_splits)
  show thesis
    by (rule that [of rule])
      (use guards r args [OF guards(11)] target_fresh [OF guards(14)] in
        \<open>auto simp: admissible_def Let_def arguments_rejected_def\<close>)
qed

text \<open>
  C12: the hard policy denies by default.  A proposal that is not denied satisfies the whole
  admission contract: the tool is registered at that version, its capabilities are within the
  goal's, scope and destination are granted by both the rule and the goal, the arguments are
  exactly the registered ones and each is accepted, scope, destination and resource are those the
  arguments resolve to, exactly one target snapshot matches and its version is the claimed one, and
  nothing secret is carried.  A call allowed without a human is registered as low risk and has no
  effect beyond reading.
\<close>
theorem firewall_admission_sound:
  assumes "td_decision (evaluate env policy goal proposal) \<noteq> DenyCall"
    and "distinct (map fst (tp_arguments proposal))"
    and "\<forall>(tool, rule) \<in> set (fp_tools policy). distinct (map fst (tr_arguments rule))"
  shows "\<exists>rule. admissible env policy goal proposal rule \<and>
    (td_decision (evaluate env policy goal proposal) = Allow \<longrightarrow>
       tr_admission rule = LowRiskAdmission \<and> tr_effect rule \<in> {EffectNone, EffectRead})"
proof (cases "check env policy goal proposal")
  case (Inl reason)
  moreover have "reason \<noteq> RLowRisk \<and> reason \<noteq> RHumanApproval"
    using Inl by (auto simp: check_def Let_def split: if_splits option.splits)
  ultimately show ?thesis using assms(1) by (cases reason) (simp_all add: evaluate_def Let_def)
next
  case (Inr u)
  then obtain rule where "admissible env policy goal proposal rule"
    "tr_admission rule = LowRiskAdmission \<longrightarrow> tr_effect rule \<in> {EffectNone, EffectRead}"
    using check_admissible assms(2,3) by blast
  moreover from this(1) have "map_of (fp_tools policy) (ti_tool_id (tp_intent proposal)) = Some rule"
    by (simp add: admissible_def Let_def)
  ultimately show ?thesis using Inr
    by (intro exI [of _ rule]) (simp add: evaluate_def Let_def split: if_splits)
qed

text \<open>A registered read-only tool, a goal that grants it, and a proposal for one file.\<close>

definition demo_env :: json_env where
  "demo_env = \<lparr>je_sha256 = (\<lambda>_. replicate 32 0), je_quote = (\<lambda>s. CHR 0x22 # s @ [CHR 0x22]), je_number = int_decimal\<rparr>"

definition demo_version :: TargetVersion where
  "demo_version = \<lparr>tv_schema_version = 1, tv_revision = ''r1''\<rparr>"

definition demo_rule :: ToolRule where
  "demo_rule = \<lparr>tr_version = ''v1'', tr_capabilities = [FilesystemRead], tr_scopes = [''repo''],
     tr_destinations = [''local''], tr_effect = EffectRead, tr_admission = LowRiskAdmission,
     tr_arguments = [(''path'', RuleToken 64)], tr_scope = BindLiteral ''repo'',
     tr_destination = BindLiteral ''local'', tr_resource = BindArgument ''path''\<rparr>"

definition demo_policy :: FirewallPolicy where
  "demo_policy = \<lparr>fp_schema_version = 1, fp_version = ''p1'', fp_tools = [(''read'', demo_rule)],
     fp_targets = [\<lparr>ta_scope = ''repo'', ta_destination = ''local'', ta_resource = ''a.rs'', ta_version = demo_version\<rparr>],
     fp_forbidden_markers = []\<rparr>"

definition demo_goal :: TrustedGoal where
  "demo_goal = \<lparr>tg_schema_version = 1, tg_id = ''g1'', tg_version = ''v1'', tg_capabilities = [FilesystemRead],
     tg_scopes = [''repo''], tg_destinations = [''local'']\<rparr>"

definition demo_proposal :: ToolProposal where
  "demo_proposal = \<lparr>tp_schema_version = 1,
     tp_intent = \<lparr>ti_schema_version = 1, ti_goal_id = ''g1'', ti_tool_id = ''read'', ti_tool_version = ''v1'',
       ti_capabilities = [FilesystemRead], ti_scope = ''repo'', ti_destination = ''local'', ti_resource = ''a.rs'',
       ti_effect = \<lparr>sd_schema_version = 1, sd_class = EffectRead\<rparr>, ti_target_version = demo_version\<rparr>,
     tp_arguments = [(''path'', ArgToken ''a.rs'')],
     tp_provenance = \<lparr>pv_source_digest = replicate 64 (CHR ''0''), pv_arguments_digest = replicate 64 (CHR ''0''),
       pv_trust_domain = UntrustedContent\<rparr>\<rparr>"

lemma demo_check: "check demo_env demo_policy demo_goal demo_proposal = Inr ()"
  by code_simp

lemma evaluate_low_risk:
  assumes "check env policy goal proposal = Inr ()" "map_of (fp_tools policy) (ti_tool_id (tp_intent proposal)) = Some rule"
    and "tr_admission rule = LowRiskAdmission"
  shows "td_decision (evaluate env policy goal proposal) = Allow"
  using assms by (simp add: evaluate_def)

lemma demo_allowed: "td_decision (evaluate demo_env demo_policy demo_goal demo_proposal) = Allow"
  by (rule evaluate_low_risk [OF demo_check, of demo_rule]) (simp_all add: demo_proposal_def demo_policy_def demo_rule_def)

theorem firewall_admission_sound_witness:
  "\<exists>rule. admissible demo_env demo_policy demo_goal demo_proposal rule \<and> tr_effect rule \<in> {EffectNone, EffectRead}"
  using firewall_admission_sound [of demo_env demo_policy demo_goal demo_proposal] demo_allowed
  by (auto simp: demo_proposal_def demo_policy_def demo_rule_def)

section \<open>Semantic evidence\<close>

lemma four_axes:
  assumes "length reports = length JudgeKind_ALL"
  shows "length (remdups (map jo_judge reports)) = length JudgeKind_ALL \<longleftrightarrow>
    (\<forall>judge. \<exists>!i. i < length reports \<and> jo_judge (reports ! i) = judge)"
proof -
  have univ: "(UNIV :: JudgeKind set) = set JudgeKind_ALL"
    using JudgeKind.exhaust by (auto simp: JudgeKind_ALL_def)
  have card: "card (UNIV :: JudgeKind set) = length JudgeKind_ALL"
    unfolding univ by (simp add: JudgeKind_ALL_def)
  have "length (remdups (map jo_judge reports)) = length JudgeKind_ALL \<longleftrightarrow>
      distinct (map jo_judge reports) \<and> set (map jo_judge reports) = UNIV"
    using assms card univ
    by (metis List.finite_set card_subset_eq distinct_card length_map length_remdups_card_conv
        remdups_id_iff_distinct subset_UNIV card_distinct)
  also have "\<dots> \<longleftrightarrow> (\<forall>judge. \<exists>!i. i < length reports \<and> jo_judge (reports ! i) = judge)"
  proof
    assume "distinct (map jo_judge reports) \<and> set (map jo_judge reports) = UNIV"
    then show "\<forall>judge. \<exists>!i. i < length reports \<and> jo_judge (reports ! i) = judge"
      by (metis UNIV_I distinct_Ex1 length_map nth_map)
  next
    assume ex: "\<forall>judge. \<exists>!i. i < length reports \<and> jo_judge (reports ! i) = judge"
    then have "set (map jo_judge reports) = UNIV" by (auto simp: image_iff) (metis nth_mem)
    moreover have "distinct (map jo_judge reports)" using ex by (auto simp: distinct_conv_nth) 
    ultimately show "distinct (map jo_judge reports) \<and> set (map jo_judge reports) = UNIV" by simp
  qed
  finally show ?thesis .
qed

lemma reduce_Allow_iff:
  "reduce hard impact reports = Allow \<longleftrightarrow>
     td_decision hard = Allow \<and> length reports = length JudgeKind_ALL
     \<and> length (remdups (map jo_judge reports)) = length JudgeKind_ALL
     \<and> (\<forall>r \<in> set reports. jo_decision r = Allow)"
proof -
  have allow_iff: "d = Allow \<longleftrightarrow> d \<noteq> DenyCall \<and> d \<noteq> RequireHumanApproval" for d by (cases d) simp_all
  have "(\<forall>r \<in> set reports. jo_decision r = Allow) \<longleftrightarrow>
      filter (\<lambda>r. jo_decision r = DenyCall) reports = [] \<and> \<not> list_ex (\<lambda>r. jo_decision r = RequireHumanApproval) reports"
    unfolding allow_iff by (auto simp: filter_empty_conv list_ex_iff)
  moreover have "length reports = length JudgeKind_ALL \<Longrightarrow> reports \<noteq> []" by (auto simp: JudgeKind_ALL_def)
  ultimately show ?thesis by (auto simp: reduce_def Let_def)
qed

lemma semantic_evidence_perm:
  assumes "mset reports = mset reports'"
  shows "semantic_evidence reports = semantic_evidence reports'"
proof -
  let ?k = "\<lambda>(judge, decision :: string). (JudgeKind_rank judge, decision)"
  let ?f = "\<lambda>report. (jo_judge report, FirewallDecision_debug (jo_decision report))"
  have "JudgeKind_rank a = JudgeKind_rank b \<Longrightarrow> a = b" for a b by (cases a; cases b) simp_all
  then have "inj ?k" by (auto intro!: injI)
  moreover have "mset (map ?f reports) = mset (map ?f reports')" using assms by (metis mset_map)
  ultimately show ?thesis unfolding semantic_evidence_def
    by (intro sort_key_inj_key_eq) (simp_all add: inj_on_subset [OF _ subset_UNIV])
qed

text \<open>
  C16: semantic evidence can only restrict.  The decision of the hard policy is kept unless it was to
  allow; it then stays an allow exactly when each of the four judges reported once and every one of
  them allowed the call, whatever the impact; and the whole decision, its identity included, does
  not depend on the order in which the judges reported.
\<close>
theorem semantic_evidence_only_restricts:
  "(td_decision hard \<noteq> Allow \<longrightarrow> with_semantic_evidence env hard impact reports binding = hard)
   \<and> (td_decision (with_semantic_evidence env hard impact reports binding) = Allow \<longleftrightarrow>
        td_decision hard = Allow \<and> length reports = length JudgeKind_ALL
        \<and> (\<forall>judge. \<exists>!i. i < length reports \<and> jo_judge (reports ! i) = judge)
        \<and> (\<forall>r \<in> set reports. jo_decision r = Allow))
   \<and> (mset reports = mset reports' \<longrightarrow>
        with_semantic_evidence env hard impact reports binding = with_semantic_evidence env hard impact reports' binding)"
proof (intro conjI impI)
  assume m: "mset reports = mset reports'"
  have "size (mset (filter P reports)) = size (mset (filter P reports'))" for P
    using m by (simp only: mset_filter)
  then have "length (filter P reports) = length (filter P reports')" for P by (simp only: size_mset)
  moreover have "set reports = set reports'" "length reports = length reports'"
    using m by (metis mset_eq_setD, metis mset_eq_length)
  ultimately have "reduce hard impact reports = reduce hard impact reports'"
    by (simp add: reduce_def Let_def length_remdups_card_conv list_ex_iff)
  then show "with_semantic_evidence env hard impact reports binding = with_semantic_evidence env hard impact reports' binding"
    using semantic_evidence_perm [OF m] by (simp add: with_semantic_evidence_def semantic_material_def)
next
  have "td_decision (with_semantic_evidence env hard impact reports binding) = Allow \<longleftrightarrow> reduce hard impact reports = Allow"
    by (simp add: with_semantic_evidence_def reduce_def)
  then show "td_decision (with_semantic_evidence env hard impact reports binding) = Allow \<longleftrightarrow>
      td_decision hard = Allow \<and> length reports = length JudgeKind_ALL
      \<and> (\<forall>judge. \<exists>!i. i < length reports \<and> jo_judge (reports ! i) = judge)
      \<and> (\<forall>r \<in> set reports. jo_decision r = Allow)"
    unfolding reduce_Allow_iff using four_axes [of reports] by blast
qed (simp add: with_semantic_evidence_def)

text \<open>Four judges that all allow, in two orders.\<close>

definition demo_judges :: "JudgeOutput list" where
  "demo_judges = map (\<lambda>judge. \<lparr>jo_judge = judge, jo_decision = Allow\<rparr>) JudgeKind_ALL"

theorem semantic_evidence_only_restricts_witness:
  "with_semantic_evidence demo_env (evaluate demo_env demo_policy demo_goal demo_proposal) HighImpact demo_judges []
     = with_semantic_evidence demo_env (evaluate demo_env demo_policy demo_goal demo_proposal) HighImpact (rev demo_judges) []
   \<and> with_semantic_evidence demo_env \<lparr>td_decision = DenyCall, td_reason = RScope, td_identity = []\<rparr> LowImpact demo_judges []
     = \<lparr>td_decision = DenyCall, td_reason = RScope, td_identity = []\<rparr>"
  using semantic_evidence_only_restricts
    [of "evaluate demo_env demo_policy demo_goal demo_proposal" demo_env HighImpact demo_judges "[]" "rev demo_judges"]
    semantic_evidence_only_restricts
    [of "\<lparr>td_decision = DenyCall, td_reason = RScope, td_identity = []\<rparr>" demo_env LowImpact demo_judges "[]" demo_judges]
  by simp

end
