(* ===== verification/Effect_Ledger.thy ===== *)
theory Effect_Ledger
  imports Firewall_Correct Tool_Types
begin

text \<open>
  The durable effect ledger (\<open>workflow-runtime/src/effect_ledger.rs\<close>, \<open>effect_ledger/executor.rs\<close>):
  requests bound to digests, the append-only history of every effect, and the executor that advances
  an effect one durable phase at a time.

  The two tables of the database are explicit state.  Every statement may fail: the outcomes of the
  statements to come are a list in the state, and a failed statement or transaction changes nothing.
  The executors are host code behind a trait: their three methods are parameters that see and change
  a state of their own, and each call they receive is recorded in the order it is made.
\<close>

section \<open>Requests\<close>

record ApprovalContext =
  ac_operation_id :: string
  ac_workflow_lock :: string
  ac_approver :: string
  ac_expires_at_unix_ms :: u64

record ApprovalRequest =
  aq_approval_digest :: string
  aq_effect_key :: string
  aq_context :: ApprovalContext
  aq_proposal :: ToolProposal
  aq_rule_digest :: string

datatype LedgerError =
    LInvalidInput | LDenied | LApprovalMismatch | LApprovalRequired | LExpired | LMissing | LBusy | LStorage
  | LCorrupt | LExecutorMismatch

definition ApprovalContext_value :: "ApprovalContext \<Rightarrow> jvalue" where
  "ApprovalContext_value c =
     JObj [(''operation_id'', JStr (ac_operation_id c)), (''workflow_lock'', JStr (ac_workflow_lock c)),
           (''approver'', JStr (ac_approver c)), (''expires_at_unix_ms'', JNum (uint (ac_expires_at_unix_ms c)))]"

definition effect_material :: "TrustedGoal \<Rightarrow> ApprovalContext \<Rightarrow> ToolProposal \<Rightarrow> jvalue" where
  "effect_material goal context proposal =
     JObj [(''domain'', JStr ''effect-v1''), (''goal'', JStr (tg_id goal)),
           (''operation'', JStr (ac_operation_id context)), (''workflow_lock'', JStr (ac_workflow_lock context)),
           (''intent'', ToolIntent_value (tp_intent proposal)), (''arguments'', arguments_value (tp_arguments proposal))]"

definition approval_material :: "ToolDecision \<Rightarrow> string \<Rightarrow> ApprovalContext \<Rightarrow> jvalue" where
  "approval_material decision effect_key context =
     JObj [(''domain'', JStr ''approval-v1''), (''hard_policy'', JStr (td_identity decision)),
           (''effect_key'', JStr effect_key), (''context'', ApprovalContext_value context)]"

definition ApprovalRequest_bind ::
    "json_env \<Rightarrow> TrustedGoal \<Rightarrow> FirewallPolicy \<Rightarrow> ToolProposal \<Rightarrow> ApprovalContext \<Rightarrow> LedgerError + ApprovalRequest" where
  "ApprovalRequest_bind env goal policy proposal context =
     (if \<not> token (ac_operation_id context) 256 \<or> \<not> token (ac_approver context) 128
        \<or> ac_expires_at_unix_ms context = 0 \<or> \<not> lower_hex64 (ac_workflow_lock context) then Inl LInvalidInput
      else
        let decision = evaluate env policy goal proposal in
        if td_decision decision = DenyCall then Inl LDenied
        else
          let effect_key = digest env (effect_material goal context proposal);
              approval_digest = digest env (approval_material decision effect_key context)
          in case map_of (fp_tools policy) (ti_tool_id (tp_intent proposal)) of
               None \<Rightarrow> Inl LDenied
             | Some rule \<Rightarrow>
                 Inr \<lparr>aq_approval_digest = approval_digest, aq_effect_key = effect_key, aq_context = context,
                      aq_proposal = proposal, aq_rule_digest = digest env (ToolRule_value rule)\<rparr>)"

section \<open>The ledger\<close>

datatype EffectState = Proposed | Approved | Started | Committed | Verified | Failed | Indeterminate

text \<open>
  A history row holds a key and a state, or \<open>None\<close> for a text that does not decode to a state.
\<close>

record EffectLedger =
  el_approvals :: "string \<rightharpoonup> string"
  el_history :: "(string \<times> EffectState option) list"
  el_faults :: "bool list"

definition EffectLedger_empty :: "bool list \<Rightarrow> EffectLedger" where
  "EffectLedger_empty faults = \<lparr>el_approvals = Map.empty, el_history = [], el_faults = faults\<rparr>"

text \<open>The next statement: whether it succeeds.\<close>

definition statement :: "EffectLedger \<Rightarrow> bool \<times> EffectLedger" where
  "statement l = (case el_faults l of [] \<Rightarrow> (True, l) | fault # rest \<Rightarrow> (\<not> fault, l\<lparr>el_faults := rest\<rparr>))"

definition rows :: "EffectLedger \<Rightarrow> string \<Rightarrow> EffectState option list" where
  "rows l key = map snd (filter (\<lambda>row. fst row = key) (el_history l))"

type_synonym 'a ledger_result = "(LedgerError + 'a) \<times> EffectLedger"

fun led_bind :: "'a ledger_result \<Rightarrow> ('a \<Rightarrow> EffectLedger \<Rightarrow> 'b ledger_result) \<Rightarrow> 'b ledger_result" where
  "led_bind (Inl e, l) f = (Inl e, l)"
| "led_bind (Inr a, l) f = f a l"

definition binding :: "ApprovalRequest \<Rightarrow> EffectLedger \<Rightarrow> string option ledger_result" where
  "binding request l =
     (let (ok, l) = statement l; stored = el_approvals l (aq_effect_key request) in
      if \<not> ok then (Inl LStorage, l)
      else if stored \<noteq> None \<and> stored \<noteq> Some (aq_approval_digest request) then (Inl LApprovalMismatch, l)
      else (Inr stored, l))"

fun transition :: "EffectState \<Rightarrow> EffectState \<Rightarrow> bool" where
  "transition Proposed next \<longleftrightarrow> next = Approved"
| "transition Approved next \<longleftrightarrow> next \<in> {Started, Failed}"
| "transition Started next \<longleftrightarrow> next \<in> {Committed, Failed, Indeterminate}"
| "transition Indeterminate next \<longleftrightarrow> next \<in> {Committed, Failed}"
| "transition Committed next \<longleftrightarrow> next \<in> {Verified, Failed}"
| "transition Verified next \<longleftrightarrow> False"
| "transition Failed next \<longleftrightarrow> False"

definition legal_history :: "EffectState list \<Rightarrow> bool" where
  "legal_history history \<longleftrightarrow> history \<noteq> [] \<and> hd history = Proposed \<and> successively transition history"

definition history :: "ApprovalRequest \<Rightarrow> EffectLedger \<Rightarrow> EffectState list ledger_result" where
  "history request l =
     led_bind (binding request l) (\<lambda>stored l.
       if stored = None then (Inl LMissing, l)
       else
         let (ok, l) = statement l; found = rows l (aq_effect_key request) in
         if \<not> ok then (Inl LStorage, l)
         else if None \<in> set found then (Inl LCorrupt, l)
         else if \<not> legal_history (map the found) then (Inl LCorrupt, l)
         else (Inr (map the found), l))"

definition state :: "ApprovalRequest \<Rightarrow> EffectLedger \<Rightarrow> EffectState ledger_result" where
  "state request l =
     led_bind (history request l) (\<lambda>found l. if found = [] then (Inl LCorrupt, l) else (Inr (last found), l))"

text \<open>The row inserted refers to a row of \<open>approvals\<close>.\<close>

definition append_state :: "ApprovalRequest \<Rightarrow> EffectState \<Rightarrow> EffectLedger \<Rightarrow> EffectState ledger_result" where
  "append_state request new l =
     (let (ok, l) = statement l in
      if \<not> ok \<or> el_approvals l (aq_effect_key request) = None then (Inl LStorage, l)
      else (Inr new, l\<lparr>el_history := el_history l @ [(aq_effect_key request, Some new)]\<rparr>))"

text \<open>One transaction inserts the approval, whose key is unique, and the first history row.\<close>

definition propose :: "ApprovalRequest \<Rightarrow> EffectLedger \<Rightarrow> EffectState ledger_result" where
  "propose request l =
     led_bind (binding request l) (\<lambda>stored l.
       if stored \<noteq> None then state request l
       else
         let (ok, l) = statement l in
         if \<not> ok \<or> el_approvals l (aq_effect_key request) \<noteq> None then (Inl LStorage, l)
         else (Inr Proposed,
               l\<lparr>el_approvals := (el_approvals l)(aq_effect_key request \<mapsto> aq_approval_digest request),
                 el_history := el_history l @ [(aq_effect_key request, Some Proposed)]\<rparr>))"

definition approve :: "ApprovalRequest \<Rightarrow> string \<Rightarrow> string \<Rightarrow> u64 \<Rightarrow> EffectLedger \<Rightarrow> EffectState ledger_result" where
  "approve request given actor now_unix_ms l =
     (if given \<noteq> aq_approval_digest request \<or> actor \<noteq> ac_approver (aq_context request) then (Inl LApprovalMismatch, l)
      else if now_unix_ms \<ge> ac_expires_at_unix_ms (aq_context request) then (Inl LExpired, l)
      else led_bind (state request l) (\<lambda>current l.
        case current of Proposed \<Rightarrow> append_state request Approved l | other \<Rightarrow> (Inr other, l)))"

section \<open>Executors\<close>

datatype RemoteObservation = RemoteAbsent | RemoteCommitted | RemoteUnknown
datatype ExecutionOutcome = OutcomeCommitted | OutcomeRejected | OutcomeUnknown
datatype Postcondition = Satisfied | Violated | PostUnknown

text \<open>The trait: every method may change the executor.\<close>

record 'x EffectExecutor =
  ee_reconcile :: "'x \<Rightarrow> ApprovalRequest \<Rightarrow> RemoteObservation \<times> 'x"
  ee_execute :: "'x \<Rightarrow> ApprovalRequest \<Rightarrow> ExecutionOutcome \<times> 'x"
  ee_verify :: "'x \<Rightarrow> ApprovalRequest \<Rightarrow> Postcondition \<times> 'x"

text \<open>The calls an executor receives, with their answers.\<close>

datatype io = Reconciled RemoteObservation | Executed ExecutionOutcome | Checked Postcondition

type_synonym 'x ExecutorRegistry = "(string \<times> string) \<rightharpoonup> (string \<times> 'x)"

definition register ::
    "json_env \<Rightarrow> string \<Rightarrow> ToolRule \<Rightarrow> 'x \<Rightarrow> 'x ExecutorRegistry \<Rightarrow> LedgerError + 'x ExecutorRegistry" where
  "register env tool_id rule executor registry =
     (if \<not> token tool_id 128 \<or> \<not> token (tr_version rule) 128 then Inl LInvalidInput
      else if registry (tool_id, tr_version rule) \<noteq> None then Inl LExecutorMismatch
      else Inr (registry((tool_id, tr_version rule) \<mapsto> (digest env (ToolRule_value rule), executor))))"

definition executor_key :: "ApprovalRequest \<Rightarrow> string \<times> string" where
  "executor_key request = (ti_tool_id (tp_intent (aq_proposal request)), ti_tool_version (tp_intent (aq_proposal request)))"

definition get_executor :: "'x ExecutorRegistry \<Rightarrow> ApprovalRequest \<Rightarrow> LedgerError + 'x" where
  "get_executor registry request =
     (case registry (executor_key request) of
        None \<Rightarrow> Inl LExecutorMismatch
      | Some (bound, executor) \<Rightarrow> if bound = aq_rule_digest request then Inr executor else Inl LExecutorMismatch)"

definition put_executor :: "'x ExecutorRegistry \<Rightarrow> ApprovalRequest \<Rightarrow> 'x \<Rightarrow> 'x ExecutorRegistry" where
  "put_executor registry request executor = registry(executor_key request \<mapsto> (aq_rule_digest request, executor))"

section \<open>Advancing an effect\<close>

definition u64_try_from :: "nat \<Rightarrow> u64 option" where
  "u64_try_from n = (if n \<le> unat (- 1 :: u64) then Some (of_nat n) else None)"

text \<open>
  The phase after \<open>current\<close>: the calls made, their effect on the executor, and the next state.
  The milliseconds that passed since entry are a parameter.
\<close>

definition next_phase ::
    "'x EffectExecutor \<Rightarrow> ApprovalRequest \<Rightarrow> u64 \<Rightarrow> nat \<Rightarrow> EffectState \<Rightarrow> 'x \<Rightarrow> EffectState \<times> 'x \<times> io list" where
  "next_phase ops request now_unix_ms elapsed_ms current x =
     (case current of
        Approved \<Rightarrow>
          (if now_unix_ms \<ge> ac_expires_at_unix_ms (aq_context request) then Failed else Started, x, [])
      | Committed \<Rightarrow>
          (case ee_verify ops x request of (post, x) \<Rightarrow>
             (case post of Satisfied \<Rightarrow> Verified | Violated \<Rightarrow> Failed | PostUnknown \<Rightarrow> Committed, x, [Checked post]))
      | _ \<Rightarrow>
          (case ee_reconcile ops x request of (seen, x) \<Rightarrow>
             (case seen of
                RemoteCommitted \<Rightarrow> (Committed, x, [Reconciled seen])
              | RemoteUnknown \<Rightarrow> (Indeterminate, x, [Reconciled seen])
              | RemoteAbsent \<Rightarrow>
                  let elapsed = (case u64_try_from elapsed_ms of Some e \<Rightarrow> e | None \<Rightarrow> - 1) in
                  if saturating_add now_unix_ms elapsed \<ge> ac_expires_at_unix_ms (aq_context request)
                  then (Indeterminate, x, [Reconciled seen])
                  else case ee_execute ops x request of (outcome, x) \<Rightarrow>
                    (case outcome of OutcomeCommitted \<Rightarrow> Committed | _ \<Rightarrow> Indeterminate, x,
                     [Reconciled seen, Executed outcome]))))"

definition advance ::
    "'x EffectExecutor \<Rightarrow> ApprovalRequest \<Rightarrow> u64 \<Rightarrow> nat \<Rightarrow> 'x ExecutorRegistry \<Rightarrow> EffectLedger
       \<Rightarrow> EffectState ledger_result \<times> 'x ExecutorRegistry \<times> io list" where
  "advance ops request now_unix_ms elapsed_ms registry l =
     (case state request l of
        (Inl e, l) \<Rightarrow> ((Inl e, l), registry, [])
      | (Inr current, l) \<Rightarrow>
          if current \<in> {Verified, Failed} then ((Inr current, l), registry, [])
          else if current = Proposed then ((Inl LApprovalRequired, l), registry, [])
          else case get_executor registry request of
            Inl e \<Rightarrow> ((Inl e, l), registry, [])
          | Inr x \<Rightarrow>
              (case next_phase ops request now_unix_ms elapsed_ms current x of (new, x, calls) \<Rightarrow>
                 (if current = new then (Inr current, l) else append_state request new l,
                  put_executor registry request x, calls)))"

section \<open>The tool handler\<close>

fun bridge_error :: "LedgerError \<Rightarrow> ToolBridgeErrorKind" where
  "bridge_error LInvalidInput = InvalidInput"
| "bridge_error LApprovalMismatch = ApprovalDenied"
| "bridge_error LApprovalRequired = ApprovalDenied"
| "bridge_error LDenied = ApprovalDenied"
| "bridge_error LExpired = ApprovalDenied"
| "bridge_error LMissing = ApprovalDenied"
| "bridge_error LBusy = HandlerFailed"
| "bridge_error LStorage = HandlerFailed"
| "bridge_error LCorrupt = HandlerFailed"
| "bridge_error LExecutorMismatch = HandlerFailed"

text \<open>The type of JSON schemas is a parameter.\<close>

record 's DurableEffectHandler =
  dh_request :: ApprovalRequest
  dh_registration :: "'s ToolRegistration"

definition DurableEffectHandler_new :: "ApprovalRequest \<Rightarrow> 's ToolRegistration \<Rightarrow> LedgerError + 's DurableEffectHandler" where
  "DurableEffectHandler_new request registration =
     (if rg_name registration \<noteq> ti_tool_id (tp_intent (aq_proposal request))
        \<or> pr_tool_version (rg_provenance registration) \<noteq> ti_tool_version (tp_intent (aq_proposal request))
      then Inl LExecutorMismatch
      else Inr \<lparr>dh_request = request, dh_registration = registration\<rparr>)"

text \<open>
  \<open>for _ in 0..4\<close>: the clock gives the wall time and the time that passes inside each call.
\<close>

fun advance_loop ::
    "nat \<Rightarrow> 'x EffectExecutor \<Rightarrow> ApprovalRequest \<Rightarrow> (nat \<Rightarrow> u64 \<times> nat) \<Rightarrow> EffectState \<Rightarrow> 'x ExecutorRegistry \<Rightarrow> EffectLedger
       \<Rightarrow> EffectState ledger_result \<times> 'x ExecutorRegistry \<times> io list" where
  "advance_loop 0 ops request clock current registry l = ((Inr current, l), registry, [])"
| "advance_loop (Suc n) ops request clock current registry l =
     (if current \<in> {Verified, Failed} then ((Inr current, l), registry, [])
      else case advance ops request (fst (clock n)) (snd (clock n)) registry l of
        ((Inl e, l), registry, calls) \<Rightarrow> ((Inl e, l), registry, calls)
      | ((Inr new, l), registry, calls) \<Rightarrow>
          (case advance_loop n ops request clock new registry l of
             (result, registry, later) \<Rightarrow> (result, registry, calls @ later)))"

definition handler_result :: "'s DurableEffectHandler \<Rightarrow> LedgerError + EffectState \<Rightarrow> ToolBridgeErrorKind + jvalue ToolEnvelope" where
  "handler_result handler result =
     (case result of
        Inl e \<Rightarrow> Inl (bridge_error e)
      | Inr Verified \<Rightarrow>
          Inr (envelope_success (JObj [(''effect_key'', JStr (aq_effect_key (dh_request handler))), (''state'', JStr ''verified'')])
            (rg_provenance (dh_registration handler)))
      | Inr Failed \<Rightarrow> Inr (envelope_failure FailInternal (rg_provenance (dh_registration handler)))
      | Inr _ \<Rightarrow> Inl HandlerFailed)"

text \<open>The equality of two JSON values ignores the order of members.\<close>

definition handler_execute ::
    "'x EffectExecutor \<Rightarrow> 's DurableEffectHandler \<Rightarrow> (nat \<Rightarrow> u64 \<times> nat) \<Rightarrow> jvalue \<Rightarrow> 'x ExecutorRegistry \<Rightarrow> EffectLedger
       \<Rightarrow> (ToolBridgeErrorKind + jvalue ToolEnvelope) \<times> EffectLedger \<times> 'x ExecutorRegistry \<times> io list" where
  "handler_execute ops handler clock arguments registry l =
     (let request = dh_request handler in
      if normal arguments \<noteq> normal (arguments_value (tp_arguments (aq_proposal request))) then (Inl InvalidInput, l, registry, [])
      else case state request l of
        (Inl e, l) \<Rightarrow> (Inl (bridge_error e), l, registry, [])
      | (Inr current, l) \<Rightarrow>
          (case advance_loop 4 ops request clock current registry l of
             ((result, l), registry, calls) \<Rightarrow> (handler_result handler result, l, registry, calls)))"

record EffectAuditReceipt =
  er_schema_version :: u16
  er_effect_key :: string
  er_approval_digest :: string
  er_target_digest :: string
  er_policy_digest :: string
  er_workflow_lock :: string
  er_executor_digest :: string
  er_history :: "EffectState list"

definition effect_audit ::
    "json_env \<Rightarrow> 's DurableEffectHandler \<Rightarrow> string \<Rightarrow> EffectLedger
       \<Rightarrow> (ToolBridgeErrorKind + EffectAuditReceipt option) \<times> EffectLedger" where
  "effect_audit env handler fingerprint l =
     (let request = dh_request handler in
      if fingerprint \<noteq> digest env (arguments_value (tp_arguments (aq_proposal request))) then (Inr None, l)
      else case history request l of
        (Inl LMissing, l) \<Rightarrow> (Inr None, l)
      | (Inl e, l) \<Rightarrow> (Inl (bridge_error e), l)
      | (Inr found, l) \<Rightarrow>
          (Inr (Some \<lparr>er_schema_version = 1, er_effect_key = aq_effect_key request,
             er_approval_digest = aq_approval_digest request,
             er_target_digest = digest env (JObj [(''domain'', JStr ''effect-target-v1''),
               (''intent'', ToolIntent_value (tp_intent (aq_proposal request)))]),
             er_policy_digest = aq_rule_digest request, er_workflow_lock = ac_workflow_lock (aq_context request),
             er_executor_digest = digest env (JStr (rg_implementation_digest (dh_registration handler))),
             er_history = found\<rparr>), l))"

end
