(* ===== verification/Effect_Machine.thy ===== *)
theory Effect_Machine
  imports Effect_Ledger
begin

text \<open>
  The effect ledger as a state machine.  Every operation is one step of an abstract ledger that only
  appends: it reads, opens a new effect, or adds a legal successor to the history of one effect.
\<close>

section \<open>The abstract ledger\<close>

inductive ledger_step :: "ApprovalRequest \<Rightarrow> EffectLedger \<Rightarrow> EffectLedger \<Rightarrow> bool" for request where
  read: "el_approvals l' = el_approvals l \<Longrightarrow> el_history l' = el_history l \<Longrightarrow> ledger_step request l l'"
| opened: "el_approvals l (aq_effect_key request) = None \<Longrightarrow>
    el_approvals l' = (el_approvals l)(aq_effect_key request \<mapsto> aq_approval_digest request) \<Longrightarrow>
    el_history l' = el_history l @ [(aq_effect_key request, Some Proposed)] \<Longrightarrow> ledger_step request l l'"
| moved: "el_approvals l (aq_effect_key request) = Some (aq_approval_digest request) \<Longrightarrow>
    rows l (aq_effect_key request) = map Some h \<Longrightarrow> legal_history h \<Longrightarrow> transition (last h) new \<Longrightarrow>
    el_approvals l' = el_approvals l \<Longrightarrow>
    el_history l' = el_history l @ [(aq_effect_key request, Some new)] \<Longrightarrow> ledger_step request l l'"

inductive_cases ledger_stepE: "ledger_step request l l'"

fun history_ok :: "string option \<Rightarrow> EffectState option list \<Rightarrow> bool" where
  "history_ok None found \<longleftrightarrow> found = []"
| "history_ok (Some _) found \<longleftrightarrow> (\<exists>h. found = map Some h \<and> legal_history h)"

definition ledger_ok :: "EffectLedger \<Rightarrow> bool" where
  "ledger_ok l \<longleftrightarrow> (\<forall>key. history_ok (el_approvals l key) (rows l key))"

definition ledger_extends :: "EffectLedger \<Rightarrow> EffectLedger \<Rightarrow> bool" where
  "ledger_extends l l' \<longleftrightarrow> el_approvals l \<subseteq>\<^sub>m el_approvals l' \<and> (\<exists>added. el_history l' = el_history l @ added)"

lemma rows_append: "el_history l' = el_history l @ [(k, s)] \<Longrightarrow> rows l' key = rows l key @ (if k = key then [s] else [])"
  by (simp add: rows_def)

lemma rows_same: "el_history l' = el_history l \<Longrightarrow> rows l' key = rows l key"
  by (simp add: rows_def)

lemma legal_history_snoc: "legal_history h \<Longrightarrow> transition (last h) s \<Longrightarrow> legal_history (h @ [s])"
  by (auto simp: legal_history_def successively_append_iff)

lemma map_Some_snoc: "map Some h @ [Some s] = map Some (h @ [s])"
  by simp

lemma ledger_step_ok:
  assumes "ledger_step request l l'" "ledger_ok l"
  shows "ledger_ok l'"
  unfolding ledger_ok_def
proof
  fix key
  have old: "history_ok (el_approvals l key) (rows l key)" using assms(2) by (simp add: ledger_ok_def)
  from assms(1) show "history_ok (el_approvals l' key) (rows l' key)"
  proof cases
    case read
    then show ?thesis using old by (simp add: rows_same [OF read(2)])
  next
    case opened
    have "rows l' key = map Some [Proposed]" if "key = aq_effect_key request"
      using old opened that by (simp add: rows_append [OF opened(3)])
    moreover have "legal_history [Proposed]" by (simp add: legal_history_def)
    ultimately show ?thesis using old opened(2)
      by (cases "key = aq_effect_key request") (auto simp: rows_append [OF opened(3)] simp del: list.map)
  next
    case (moved h new)
    have "rows l' key = map Some (h @ [new])" if "key = aq_effect_key request"
      using moved that by (simp add: rows_append [OF moved(6)])
    then show ?thesis using old moved(1,5) legal_history_snoc [OF moved(3,4)]
      by (cases "key = aq_effect_key request") (auto simp: rows_append [OF moved(6)] simp del: map_append)
  qed
qed

lemma ledger_step_extends: "ledger_step request l l' \<Longrightarrow> ledger_extends l l'"
  by (erule ledger_stepE) (simp_all add: ledger_extends_def map_le_def dom_def)

lemma ledger_step_other: "ledger_step request l l' \<Longrightarrow> key \<noteq> aq_effect_key request \<Longrightarrow> rows l' key = rows l key"
  by (erule ledger_stepE) (simp_all add: rows_def)

lemma ledger_extends_refl: "ledger_extends l l"
  by (simp add: ledger_extends_def)

lemma ledger_extends_trans: "ledger_extends l m \<Longrightarrow> ledger_extends m n \<Longrightarrow> ledger_extends l n"
  by (auto simp: ledger_extends_def intro: map_le_trans)

text \<open>The contract of a ledger operation, and what its clients get from it.\<close>

locale ledger_operation =
  fixes request :: ApprovalRequest and run :: "EffectLedger \<Rightarrow> EffectLedger"
  assumes step: "ledger_step request l (run l)"
begin

lemma keeps_ok: "ledger_ok l \<Longrightarrow> ledger_ok (run l)"
  using step by (rule ledger_step_ok)

lemma only_grows: "ledger_extends l (run l)"
  using step by (rule ledger_step_extends)

lemma leaves_others: "key \<noteq> aq_effect_key request \<Longrightarrow> rows (run l) key = rows l key"
  using step by (rule ledger_step_other)

end

section \<open>Every operation is a step\<close>

lemma statement_same:
  "statement l = (ok, l') \<Longrightarrow> el_approvals l' = el_approvals l \<and> el_history l' = el_history l"
  by (auto simp: statement_def split: list.splits)

lemma binding_spec:
  assumes "binding request l = (result, l')"
  shows "el_approvals l' = el_approvals l \<and> el_history l' = el_history l \<and>
    (\<forall>stored. result = Inr stored \<longrightarrow> stored = el_approvals l (aq_effect_key request) \<and>
       (stored \<noteq> None \<longrightarrow> stored = Some (aq_approval_digest request)))"
  using assms statement_same by (auto simp: binding_def Let_def split: prod.splits if_splits)

lemma history_spec:
  assumes "history request l = (result, l')"
  shows "el_approvals l' = el_approvals l \<and> el_history l' = el_history l \<and>
    (\<forall>h. result = Inr h \<longrightarrow> el_approvals l (aq_effect_key request) = Some (aq_approval_digest request) \<and>
       rows l (aq_effect_key request) = map Some h \<and> legal_history h)"
proof -
  obtain r l1 where b: "binding request l = (r, l1)" by fastforce
  note bs = binding_spec [OF b]
  show ?thesis
  proof (cases r)
    case (Inl e)
    then show ?thesis using assms b bs by (auto simp: history_def)
  next
    case (Inr stored)
    obtain ok l2 where s: "statement l1 = (ok, l2)" by fastforce
    have same: "rows l2 key = rows l key" for key using bs statement_same [OF s] by (simp add: rows_def)
    have "map Some (map the xs) = xs" if "None \<notin> set xs" for xs :: "EffectState option list"
      using that by (induction xs) auto
    then show ?thesis
      using assms b bs Inr s statement_same [OF s] same
      by (auto simp: history_def Let_def split: if_splits simp del: map_map)
  qed
qed

lemma state_spec:
  assumes "state request l = (result, l')"
  shows "el_approvals l' = el_approvals l \<and> el_history l' = el_history l \<and>
    (\<forall>s. result = Inr s \<longrightarrow> (\<exists>h. el_approvals l (aq_effect_key request) = Some (aq_approval_digest request) \<and>
       rows l (aq_effect_key request) = map Some h \<and> legal_history h \<and> last h = s))"
proof -
  obtain r l1 where h: "history request l = (r, l1)" by fastforce
  show ?thesis using history_spec [OF h] assms h by (cases r) (auto simp: state_def split: if_splits)
qed

lemma append_state_spec:
  assumes "append_state request new l = (result, l')"
  shows "el_approvals l' = el_approvals l \<and>
    (el_history l' = el_history l \<and> isl result
     \<or> el_history l' = el_history l @ [(aq_effect_key request, Some new)] \<and> result = Inr new)"
  using assms statement_same by (auto simp: append_state_def Let_def split: prod.splits if_splits)

lemma append_state_step:
  assumes "state request l = (Inr current, l1)" "transition current new" "append_state request new l1 = (result, l')"
  shows "ledger_step request l l'"
  using state_spec [OF assms(1)] append_state_spec [OF assms(3)] assms(2)
  by (auto intro: ledger_step.intros)

interpretation reading: ledger_operation request "\<lambda>l. snd (state request l)" for request
proof
  fix l
  obtain r l1 where "state request l = (r, l1)" by fastforce
  then show "ledger_step request l (snd (state request l))" using state_spec by (auto intro: ledger_step.read)
qed

interpretation proposing: ledger_operation request "\<lambda>l. snd (propose request l)" for request
proof
  fix l
  obtain r l1 where b: "binding request l = (r, l1)" by fastforce
  note bs = binding_spec [OF b]
  show "ledger_step request l (snd (propose request l))"
  proof (cases r)
    case (Inl e)
    then show ?thesis using b bs by (auto simp: propose_def intro: ledger_step.read)
  next
    case (Inr stored)
    obtain ok l2 where s: "statement l1 = (ok, l2)" by fastforce
    obtain r' l3 where t: "state request l1 = (r', l3)" by fastforce
    show ?thesis
    proof (cases stored)
      case None
      then show ?thesis using b bs Inr s statement_same [OF s]
        by (auto simp: propose_def intro: ledger_step.read ledger_step.opened)
    next
      case (Some d)
      then show ?thesis using b bs Inr t state_spec [OF t] by (auto simp: propose_def intro: ledger_step.read)
    qed
  qed
qed

interpretation approving: ledger_operation request "\<lambda>l. snd (approve request given actor now l)"
  for request given actor now
proof
  fix l
  obtain r l1 where t: "state request l = (r, l1)" by fastforce
  obtain r' l2 where a: "append_state request Approved l1 = (r', l2)" by fastforce
  have read: "ledger_step request l l1" using state_spec [OF t] by (auto intro: ledger_step.read)
  show "ledger_step request l (snd (approve request given actor now l))"
  proof (cases r)
    case (Inl e)
    then show ?thesis using read t by (auto simp: approve_def intro: ledger_step.read)
  next
    case (Inr current)
    then show ?thesis using read t a append_state_step [of request l current l1 Approved r' l2]
      by (cases current) (auto simp: approve_def intro: ledger_step.read)
  qed
qed

lemma next_phase_transition:
  assumes "next_phase ops request now elapsed current x = (new, x', calls)" "current \<notin> {Proposed, Verified, Failed}"
    "new \<noteq> current"
  shows "transition current new"
  using assms
  by (cases current) (auto simp: next_phase_def Let_def split: prod.splits RemoteObservation.splits
      ExecutionOutcome.splits Postcondition.splits if_splits)

text \<open>The cases of \<open>advance\<close>: nothing to do or an error, or one phase.\<close>

lemma advance_cases:
  assumes "advance ops request now elapsed registry l = ((result, l'), registry', calls)"
  obtains (idle) "ledger_step request l l'" "el_history l' = el_history l" "registry' = registry" "calls = []"
    "\<And>s. result = Inr s \<Longrightarrow> s \<in> {Verified, Failed}"
  | (phase) current l1 x new x' where "state request l = (Inr current, l1)" "current \<notin> {Proposed, Verified, Failed}"
    "get_executor registry request = Inr x" "next_phase ops request now elapsed current x = (new, x', calls)"
    "registry' = put_executor registry request x'"
    "(result, l') = (if current = new then (Inr current, l1) else append_state request new l1)"
proof -
  obtain r l1 where t: "state request l = (r, l1)" by fastforce
  have read: "ledger_step request l l1" "el_history l1 = el_history l"
    using state_spec [OF t] by (auto intro: ledger_step.read)
  show thesis
  proof (cases r)
    case (Inl e)
    then show ?thesis using idle assms t read by (auto simp: advance_def)
  next
    case (Inr current)
    show ?thesis
    proof (cases "current \<in> {Proposed, Verified, Failed} \<or> isl (get_executor registry request)")
      case True
      then show ?thesis using idle assms t read Inr by (auto simp: advance_def split: if_splits sum.splits)
    next
      case False
      then obtain x where x: "get_executor registry request = Inr x" by (cases "get_executor registry request") auto
      obtain new x' cs where n: "next_phase ops request now elapsed current x = (new, x', cs)" by (metis prod_cases3)
      show ?thesis using phase [OF t [unfolded Inr] _ x, of new x'] n assms t Inr False x
        by (auto simp: advance_def split: if_splits)
    qed
  qed
qed

lemma advance_step: "advance ops request now elapsed registry l = ((result, l'), registry', calls) \<Longrightarrow> ledger_step request l l'"
proof (erule advance_cases)
  fix current l1 x new x'
  assume a: "state request l = (Inr current, l1)" "current \<notin> {Proposed, Verified, Failed}"
    "next_phase ops request now elapsed current x = (new, x', calls)"
    "(result, l') = (if current = new then (Inr current, l1) else append_state request new l1)"
  show "ledger_step request l l'"
  proof (cases "current = new")
    case True
    then show ?thesis using a(4) state_spec [OF a(1)] by (auto intro: ledger_step.read)
  next
    case False
    then show ?thesis using append_state_step [OF a(1) next_phase_transition [OF a(3,2)]] a(4) by (metis (full_types))
  qed
qed

interpretation advancing: ledger_operation request "\<lambda>l. snd (fst (advance ops request now elapsed registry l))"
  for request ops now elapsed registry
proof
  fix l
  show "ledger_step request l (snd (fst (advance ops request now elapsed registry l)))"
    by (rule advance_step [of ops request now elapsed registry l
          "fst (fst (advance ops request now elapsed registry l))" _
          "fst (snd (advance ops request now elapsed registry l))"
          "snd (snd (advance ops request now elapsed registry l))"]) simp
qed

end
