(* ===== verification/Effect_Safety.thy ===== *)
theory Effect_Safety
  imports Effect_Machine
begin

text \<open>
  Runs of the effect ledger: any interleaving of its operations, with storage failures and restarts.
  No effect is dispatched that was not approved, a durable commit ends dispatch, and the handler
  reports success exactly for verified effects.
\<close>

section \<open>Runs\<close>

datatype log_entry = LogApproved ApprovalRequest string u64 | LogIo ApprovalRequest io

text \<open>
  Any interleaving of proposals, approvals and advances of any requests, with the registry changed by
  the host and the outcomes of future statements replaced at will (a restart).  The log holds the
  approvals that were accepted and the calls that executors received.
\<close>

inductive ledger_run :: "'x EffectExecutor \<Rightarrow> EffectLedger \<Rightarrow> log_entry list \<Rightarrow> bool" for ops where
  start: "ledger_run ops (EffectLedger_empty faults) []"
| restart: "ledger_run ops l log \<Longrightarrow> ledger_run ops (l\<lparr>el_faults := faults\<rparr>) log"
| propose: "ledger_run ops l log \<Longrightarrow> propose request l = (result, l') \<Longrightarrow> ledger_run ops l' log"
| approve: "ledger_run ops l log \<Longrightarrow> approve request given actor now l = (Inr s, l') \<Longrightarrow>
    ledger_run ops l' (log @ [LogApproved request actor now])"
| refused: "ledger_run ops l log \<Longrightarrow> approve request given actor now l = (Inl e, l') \<Longrightarrow> ledger_run ops l' log"
| advance: "ledger_run ops l log \<Longrightarrow>
    advance ops request now elapsed registry l = ((result, l'), registry', calls) \<Longrightarrow>
    ledger_run ops l' (log @ map (LogIo request) calls)"

lemma ledger_run_ok: "ledger_run ops l log \<Longrightarrow> ledger_ok l"
proof (induction rule: ledger_run.induct)
  case (start faults)
  then show ?case by (simp add: ledger_ok_def EffectLedger_empty_def rows_def)
next
  case (restart l log faults)
  then show ?case by (simp add: ledger_ok_def rows_def)
next
  case (propose l log request result l')
  then show ?case using proposing.keeps_ok [of l request] by simp
next
  case (approve l log request given actor now s l')
  then show ?case using approving.keeps_ok [of l request given actor now] by simp
next
  case (refused l log request given actor now e l')
  then show ?case using approving.keeps_ok [of l request given actor now] by simp
next
  case (advance l log request now elapsed registry result l' registry' calls)
  then show ?case using ledger_step_ok [OF advance_step] by blast
qed

text \<open>What past approvals a history shows.\<close>

lemma legal_history_approved:
  assumes "legal_history h" "last h \<noteq> Proposed"
  shows "Approved \<in> set h"
proof -
  have "last h = Proposed \<or> Approved \<in> set h" if "successively transition h" "h \<noteq> []" "hd h = Proposed" for h
    using that
  proof (induction h rule: rev_induct)
    case (snoc s h)
    then show ?case by (cases "last h"; cases s; cases "h = []") (auto simp: successively_append_iff)
  qed simp
  then show ?thesis using assms unfolding legal_history_def by blast
qed

lemma legal_history_committed:
  assumes "legal_history h" "Committed \<in> set h"
  shows "last h \<in> {Committed, Verified, Failed}"
proof -
  have "Committed \<in> set h \<longrightarrow> last h \<in> {Committed, Verified, Failed}" if "successively transition h" "h \<noteq> []" for h
    using that
  proof (induction h rule: rev_induct)
    case (snoc s h)
    then show ?case by (cases "last h"; cases s; cases "h = []") (auto simp: successively_append_iff)
  qed simp
  then show ?thesis using assms unfolding legal_history_def by blast
qed

lemma legal_history_final:
  assumes "legal_history h" "Verified \<in> set h \<or> Failed \<in> set h"
  shows "last h \<in> {Verified, Failed}"
proof -
  have "Verified \<in> set h \<or> Failed \<in> set h \<longrightarrow> last h \<in> {Verified, Failed}" if "successively transition h" "h \<noteq> []" for h
    using that
  proof (induction h rule: rev_induct)
    case (snoc s h)
    then show ?case by (cases "last h"; cases s; cases "h = []") (auto simp: successively_append_iff)
  qed simp
  then show ?thesis using assms unfolding legal_history_def by blast
qed

definition approved_in :: "log_entry list \<Rightarrow> string \<Rightarrow> string \<Rightarrow> bool" where
  "approved_in log key given \<longleftrightarrow> (\<exists>request now.
     LogApproved request (ac_approver (aq_context request)) now \<in> set log
     \<and> aq_effect_key request = key \<and> aq_approval_digest request = given
     \<and> now < ac_expires_at_unix_ms (aq_context request))"

lemma approved_in_append: "approved_in log key given \<Longrightarrow> approved_in (log @ more_log) key given"
  by (auto simp: approved_in_def)

definition approvals_logged :: "EffectLedger \<Rightarrow> log_entry list \<Rightarrow> bool" where
  "approvals_logged l log \<longleftrightarrow>
     (\<forall>key given. el_approvals l key = Some given \<longrightarrow> Some Approved \<in> set (rows l key) \<longrightarrow> approved_in log key given)"

lemma approvals_logged_keep:
  assumes "ledger_step request l l'" "approvals_logged l log" "ledger_ok l"
    and "Some Approved \<in> set (rows l' (aq_effect_key request)) \<Longrightarrow> Some Approved \<in> set (rows l (aq_effect_key request))"
  shows "approvals_logged l' (log @ more_log)"
  unfolding approvals_logged_def
proof (intro allI impI)
  fix key given
  assume key: "el_approvals l' key = Some given" "Some Approved \<in> set (rows l' key)"
  have old: "Some Approved \<in> set (rows l key)"
    using assms(4) key(2) ledger_step_other [OF assms(1), of key] by (cases "key = aq_effect_key request") auto
  from assms(1) have "el_approvals l key = Some given"
  proof cases
    case opened
    have "history_ok (el_approvals l key) (rows l key)" using assms(3) by (simp add: ledger_ok_def)
    then have "key \<noteq> aq_effect_key request" using old opened(1) by auto
    then show ?thesis using key(1) opened(2) by simp
  qed (use key in simp_all)
  then show "approved_in (log @ more_log) key given"
    using assms(2) old approved_in_append unfolding approvals_logged_def by blast
qed

text \<open>What each operation writes.\<close>

lemma propose_writes:
  assumes "propose request l = (result, l')"
  shows "rows l' key = rows l key \<or> rows l' key = rows l key @ [Some Proposed]"
proof -
  obtain r l1 where b: "binding request l = (r, l1)" by fastforce
  obtain ok l2 where s: "statement l1 = (ok, l2)" by fastforce
  obtain r' l3 where t: "state request l1 = (r', l3)" by fastforce
  show ?thesis
    using assms b s t binding_spec [OF b] statement_same [OF s] state_spec [OF t]
    by (cases r) (auto simp: propose_def rows_def split: if_splits)
qed

lemma approve_writes:
  assumes "approve request given actor now l = (result, l')"
  shows "el_history l' = el_history l \<or>
    el_history l' = el_history l @ [(aq_effect_key request, Some Approved)] \<and> result = Inr Approved"
    and "result = Inr s \<Longrightarrow> actor = ac_approver (aq_context request) \<and> now < ac_expires_at_unix_ms (aq_context request)
      \<and> el_approvals l' (aq_effect_key request) = Some (aq_approval_digest request)"
proof -
  obtain r l1 where t: "state request l = (r, l1)" by fastforce
  obtain r' l2 where a: "append_state request Approved l1 = (r', l2)" by fastforce
  note facts = state_spec [OF t] append_state_spec [OF a] t a assms
  show "el_history l' = el_history l \<or>
      el_history l' = el_history l @ [(aq_effect_key request, Some Approved)] \<and> result = Inr Approved"
    using facts by (cases r) (auto simp: approve_def split: if_splits EffectState.splits)
  show "result = Inr s \<Longrightarrow> actor = ac_approver (aq_context request) \<and> now < ac_expires_at_unix_ms (aq_context request)
      \<and> el_approvals l' (aq_effect_key request) = Some (aq_approval_digest request)"
    using facts by (cases r) (auto simp: approve_def split: if_splits EffectState.splits)
qed

lemma advance_writes:
  assumes "advance ops request now elapsed registry l = ((result, l'), registry', calls)"
  shows "Some Approved \<in> set (rows l' key) \<longleftrightarrow> Some Approved \<in> set (rows l key)"
  using assms
proof (cases rule: advance_cases)
  case idle
  then show ?thesis by (simp add: rows_def)
next
  case (phase current l1 x new x')
  note same = state_spec [OF phase(1)]
  show ?thesis
  proof (cases "current = new")
    case True
    then show ?thesis using same phase(6) by (simp add: rows_def)
  next
    case False
    then have "transition current new" using next_phase_transition [OF phase(4,2)] by simp
    then have "new \<noteq> Approved" using phase(2) by (cases current) auto
    then show ?thesis using append_state_spec [of request new l1 result l'] same phase(6) False
      by (auto simp: rows_def)
  qed
qed

lemma ledger_run_logged: "ledger_run ops l log \<Longrightarrow> approvals_logged l log"
proof (induction rule: ledger_run.induct)
  case (start faults)
  then show ?case by (simp add: approvals_logged_def EffectLedger_empty_def)
next
  case (restart l log faults)
  then show ?case by (simp add: approvals_logged_def rows_def)
next
  case (propose l log request result l')
  have "ledger_step request l l'" using proposing.step [of request l] propose(2) by simp
  from approvals_logged_keep [OF this propose(3) ledger_run_ok [OF propose(1)], of "[]"]
  show ?case using propose_writes [OF propose(2), of "aq_effect_key request"] by auto
next
  case (approve l log request given actor now s l')
  have step: "ledger_step request l l'" using approving.step [of request l given actor now] approve(2) by simp
  note w = approve_writes [OF approve(2)]
  show ?case unfolding approvals_logged_def
  proof (intro allI impI)
    fix key d
    assume key: "el_approvals l' key = Some d" "Some Approved \<in> set (rows l' key)"
    show "approved_in (log @ [LogApproved request actor now]) key d"
    proof (cases "key = aq_effect_key request")
      case True
      then show ?thesis using w(2) key(1) by (auto simp: approved_in_def)
    next
      case False
      from step have "el_approvals l key = Some d" by cases (use key False in auto)
      then show ?thesis using approve(3) key ledger_step_other [OF step False] approved_in_append
        unfolding approvals_logged_def by metis
    qed
  qed
next
  case (refused l log request given actor now e l')
  have "ledger_step request l l'" using approving.step [of request l given actor now] refused(2) by simp
  from approvals_logged_keep [OF this refused(3) ledger_run_ok [OF refused(1)], of "[]"]
  show ?case using approve_writes(1) [OF refused(2)] by (simp add: rows_def)
next
  case (advance l log request now elapsed registry result l' registry' calls)
  show ?case
    by (rule approvals_logged_keep [OF advance_step [OF advance(2)] advance(3) ledger_run_ok [OF advance(1)]])
      (simp add: advance_writes [OF advance(2)])
qed

section \<open>Dispatch\<close>

lemma next_phase_calls:
  assumes "next_phase ops request now elapsed current x = (new, x', calls)" "current \<notin> {Proposed, Verified, Failed}"
  shows "calls = [] \<and> current = Approved
    \<or> (\<exists>post. calls = [Checked post] \<and> current = Committed \<and> (new = Verified \<longleftrightarrow> post = Satisfied))
    \<or> (\<exists>seen. calls = [Reconciled seen] \<and> current \<in> {Started, Indeterminate})
    \<or> (\<exists>outcome. calls = [Reconciled RemoteAbsent, Executed outcome] \<and> current \<in> {Started, Indeterminate})"
  using assms
  by (cases current) (auto simp: next_phase_def Let_def split: prod.splits RemoteObservation.splits Postcondition.splits if_splits)

lemma advance_dispatch:
  assumes "advance ops request now elapsed registry l = ((result, l'), registry', calls)" "Executed outcome \<in> set calls"
  obtains h where "calls = [Reconciled RemoteAbsent, Executed outcome]"
    "el_approvals l (aq_effect_key request) = Some (aq_approval_digest request)"
    "rows l (aq_effect_key request) = map Some h" "legal_history h" "last h \<in> {Started, Indeterminate}"
  using assms(1)
proof (cases rule: advance_cases)
  case idle
  then show ?thesis using assms(2) by simp
next
  case (phase current l1 x new x')
  obtain h where h: "el_approvals l (aq_effect_key request) = Some (aq_approval_digest request)"
    "rows l (aq_effect_key request) = map Some h" "legal_history h" "last h = current"
    using state_spec [OF phase(1)] by blast
  from next_phase_calls [OF phase(4,2)] assms(2)
  have "calls = [Reconciled RemoteAbsent, Executed outcome]" "current \<in> {Started, Indeterminate}" by auto
  then show ?thesis using that h by blast
qed

definition dispatch_ok :: "log_entry list \<Rightarrow> bool" where
  "dispatch_ok log \<longleftrightarrow> (\<forall>i request outcome. i < length log \<longrightarrow> log ! i = LogIo request (Executed outcome) \<longrightarrow>
     approved_in (take i log) (aq_effect_key request) (aq_approval_digest request)
     \<and> i > 0 \<and> log ! (i - 1) = LogIo request (Reconciled RemoteAbsent))"

lemma dispatch_ok_append:
  assumes "dispatch_ok log" "\<And>request outcome. LogIo request (Executed outcome) \<notin> set added"
  shows "dispatch_ok (log @ added)"
  unfolding dispatch_ok_def
proof (intro allI impI)
  fix i request outcome
  assume i: "i < length (log @ added)" "(log @ added) ! i = LogIo request (Executed outcome)"
  have "i < length log"
    using i assms(2) [of request outcome] by (cases "i < length log") (auto simp: nth_append in_set_conv_nth)
  then show "approved_in (take i (log @ added)) (aq_effect_key request) (aq_approval_digest request)
      \<and> i > 0 \<and> (log @ added) ! (i - 1) = LogIo request (Reconciled RemoteAbsent)"
    using assms(1) i(2) by (auto simp: dispatch_ok_def nth_append)
qed

lemma dispatch_ok_dispatch:
  assumes "dispatch_ok log" "approved_in log (aq_effect_key request) (aq_approval_digest request)"
  shows "dispatch_ok (log @ [LogIo request (Reconciled RemoteAbsent), LogIo request (Executed outcome)])"
proof -
  have "dispatch_ok (log @ [LogIo request (Reconciled RemoteAbsent)])"
    using assms(1) by (rule dispatch_ok_append) simp
  then show ?thesis using assms(2) approved_in_append
    by (auto simp: dispatch_ok_def nth_append less_Suc_eq)
qed

lemma ledger_run_dispatch: "ledger_run ops l log \<Longrightarrow> dispatch_ok log"
proof (induction rule: ledger_run.induct)
  case (approve l log request given actor now s l')
  then show ?case by (intro dispatch_ok_append) auto
next
  case (advance l log request now elapsed registry result l' registry' calls)
  show ?case
  proof (cases "\<exists>outcome. Executed outcome \<in> set calls")
    case True
    then obtain outcome h where o: "calls = [Reconciled RemoteAbsent, Executed outcome]"
      "el_approvals l (aq_effect_key request) = Some (aq_approval_digest request)"
      "rows l (aq_effect_key request) = map Some h" "legal_history h" "last h \<in> {Started, Indeterminate}"
      using advance_dispatch [OF advance(2)] by metis
    then have "Some Approved \<in> set (rows l (aq_effect_key request))"
      using legal_history_approved [of h] by auto
    then have "approved_in log (aq_effect_key request) (aq_approval_digest request)"
      using ledger_run_logged [OF advance(1)] o(2) by (simp add: approvals_logged_def)
    then show ?thesis using dispatch_ok_dispatch [OF advance(3)] o(1) by simp
  next
    case False
    then show ?thesis using advance(3) by (intro dispatch_ok_append) auto
  qed
qed (simp_all add: dispatch_ok_def)

text \<open>
  C10: no effect is dispatched without approval.  In every run of the ledger, whatever the order of
  proposals, approvals and advances, whatever statements fail and however often the process
  restarts, a call that asks an executor to perform an effect comes after an approval of that very
  effect, under the same approval digest, given by the approver the request names and before the
  request expires; and the call made just before it asked the remote side about that effect and was
  told that it is absent.
\<close>
theorem dispatch_was_approved:
  assumes "ledger_run ops l log" "i < length log" "log ! i = LogIo request (Executed outcome)"
  shows "approved_in (take i log) (aq_effect_key request) (aq_approval_digest request)
    \<and> 0 < i \<and> log ! (i - 1) = LogIo request (Reconciled RemoteAbsent)"
  using ledger_run_dispatch [OF assms(1)] assms(2,3) unfolding dispatch_ok_def by blast

text \<open>
  C11: a durable commit ends dispatch.  Once the history of an effect shows a commit, advancing it makes
  no call but the read-only check of its postcondition, and none at all when the effect is verified
  or failed: neither the remote lookup nor the effect itself is ever requested again.
\<close>
theorem committed_never_redispatched:
  assumes "ledger_run ops l log" "Some Committed \<in> set (rows l (aq_effect_key request))"
    and "advance ops request now elapsed registry l = ((result, l'), registry', calls)"
  shows "set calls \<subseteq> range Checked
    \<and> (Some Verified \<in> set (rows l (aq_effect_key request)) \<or> Some Failed \<in> set (rows l (aq_effect_key request)) \<longrightarrow> calls = [])"
  using assms(3)
proof (cases rule: advance_cases)
  case idle
  then show ?thesis by simp
next
  case (phase current l1 x new x')
  obtain h where h: "rows l (aq_effect_key request) = map Some h" "legal_history h" "last h = current"
    using state_spec [OF phase(1)] by blast
  have "last h \<in> {Committed, Verified, Failed}" using legal_history_committed [OF h(2)] assms(2) h(1) by auto
  then have "current = Committed" using phase(2) h(3) by auto
  moreover have "Verified \<notin> set h \<and> Failed \<notin> set h"
    using legal_history_final [OF h(2)] h(3) phase(2) by auto
  ultimately show ?thesis using next_phase_calls [OF phase(4,2)] h(1) by auto
qed

text \<open>
  C13: the ledger only grows, and stays legal.  After any run, every operation leaves a ledger in which
  the history of each effect starts as proposed and takes only legal transitions; it adds at the
  end of the history table and never replaces the approval digest of an effect; and it does not
  touch the history of any other effect.
\<close>
theorem ledger_append_only:
  assumes "ledger_run ops l log"
    and "l' \<in> {snd (propose request l), snd (approve request given actor now l),
               snd (fst (advance ops request now elapsed registry l))}"
  shows "ledger_ok l' \<and> ledger_extends l l' \<and> (\<forall>key. key \<noteq> aq_effect_key request \<longrightarrow> rows l' key = rows l key)"
  using assms(2) ledger_run_ok [OF assms(1)]
  by (elim insertE emptyE)
    (simp_all add: proposing.keeps_ok proposing.only_grows proposing.leaves_others
      approving.keeps_ok approving.only_grows approving.leaves_others
      advancing.keeps_ok advancing.only_grows advancing.leaves_others)

section \<open>The handler\<close>

text \<open>The state an operation returns is the durable one.\<close>

definition durable :: "ApprovalRequest \<Rightarrow> EffectState \<Rightarrow> EffectLedger \<Rightarrow> bool" where
  "durable request s l \<longleftrightarrow> el_approvals l (aq_effect_key request) = Some (aq_approval_digest request)
     \<and> (\<exists>h. rows l (aq_effect_key request) = map Some h \<and> legal_history h \<and> last h = s)"

lemma state_durable: "state request l = (Inr s, l') \<Longrightarrow> durable request s l'"
  using state_spec [of request l "Inr s" l'] by (auto simp: durable_def rows_def)

lemma append_durable:
  assumes "durable request current l" "transition current new" "append_state request new l = (Inr s, l')"
  shows "durable request s l'"
proof -
  obtain h where h: "rows l (aq_effect_key request) = map Some h" "legal_history h" "last h = current"
    using assms(1) by (auto simp: durable_def)
  have w: "el_approvals l' = el_approvals l" "el_history l' = el_history l @ [(aq_effect_key request, Some new)]" "s = new"
    using append_state_spec [OF assms(3)] by auto
  have "rows l' (aq_effect_key request) = map Some (h @ [new])" using h(1) by (simp add: rows_append [OF w(2)])
  moreover have "legal_history (h @ [new])" using legal_history_snoc [OF h(2)] h(3) assms(2) by simp
  ultimately show ?thesis using assms(1) w(1,3) unfolding durable_def by (metis last_snoc)
qed

lemma advance_durable:
  assumes "advance ops request now elapsed registry l = ((Inr s, l'), registry', calls)"
  shows "durable request s l' \<and> (s = Verified \<longrightarrow> Some Verified \<in> set (rows l (aq_effect_key request)) \<or> Checked Satisfied \<in> set calls)"
proof -
  obtain r l1 where t: "state request l = (r, l1)" by fastforce
  show ?thesis using assms
  proof (cases rule: advance_cases)
    case idle
    obtain e where e: "r = Inr e" "s = e" "l' = l1"
      using assms t idle(2) state_spec [OF t] by (cases r)
        (auto simp: advance_def dest!: append_state_spec split: if_splits sum.splits prod.splits)
    then have "durable request s l'" using state_durable t by blast
    moreover have "Some s \<in> set (rows l (aq_effect_key request))"
      using state_spec [of request l "Inr e" l1] t e by (force simp: legal_history_def)
    ultimately show ?thesis by auto
  next
    case (phase current l1 x new x')
    note d = state_durable [OF phase(1)]
    have "durable request s l'"
      using d append_durable [OF d] next_phase_transition [OF phase(4,2)] phase(6) by (metis Inr_inject Pair_inject)
    moreover have "Checked Satisfied \<in> set calls" if "s = Verified"
    proof -
      have "new = Verified"
        using phase(2,6) that append_state_spec [of request new l1 "Inr s" l'] by (auto split: if_splits)
      then show ?thesis using next_phase_calls [OF phase(4,2)] next_phase_transition [OF phase(4,2)] phase(2)
        by (cases current) auto
    qed
    ultimately show ?thesis by simp
  qed
qed

lemma advance_loop_durable:
  assumes "durable request current l"
    "advance_loop n ops request clock current registry l = ((Inr s, l'), registry', calls)"
  shows "durable request s l' \<and> (s = Verified \<longrightarrow> current = Verified \<or> Checked Satisfied \<in> set calls)"
  using assms
proof (induction n arbitrary: current registry l calls)
  case (Suc n)
  show ?case
  proof (cases "current \<in> {Verified, Failed}")
    case False
    then obtain new l1 reg1 c1 c2 where
      a: "advance ops request (fst (clock n)) (snd (clock n)) registry l = ((Inr new, l1), reg1, c1)"
      and b: "advance_loop n ops request clock new reg1 l1 = ((Inr s, l'), registry', c2)" and c: "calls = c1 @ c2"
      using Suc.prems(2) by (auto split: prod.splits sum.splits)
    note da = advance_durable [OF a]
    have "Verified \<notin> set h" if "rows l (aq_effect_key request) = map Some h" for h
    proof -
      obtain h' where "rows l (aq_effect_key request) = map Some h'" "legal_history h'" "last h' = current"
        using Suc.prems(1) by (auto simp: durable_def)
      moreover have "h' = h" using calculation(1) that by (simp add: inj_map_eq_map)
      ultimately show ?thesis using legal_history_final [of h'] False by auto
    qed
    then have "Some Verified \<notin> set (rows l (aq_effect_key request))" using Suc.prems(1) by (force simp: durable_def)
    then show ?thesis using da Suc.IH [OF _ b] c by auto
  qed (use Suc.prems in auto)
qed simp

text \<open>
  the handler reports success for verified effects only.  When it answers with a success, the
  durable history of the effect ends as verified under the approval digest of the request, and
  either the history already said so or an executor confirmed the postcondition during this call.
\<close>
theorem handler_success_verified:
  assumes "handler_execute ops handler clock arguments registry l = (Inr (EnvelopeSuccess payload provenance offset artifact), l', registry', calls)"
  shows "durable (dh_request handler) Verified l'
    \<and> (Some Verified \<in> set (rows l (aq_effect_key (dh_request handler))) \<or> Checked Satisfied \<in> set calls)"
proof -
  let ?q = "dh_request handler"
  obtain current l1 where t: "state ?q l = (Inr current, l1)"
    using assms by (auto simp: handler_execute_def Let_def split: if_splits prod.splits sum.splits)
  obtain result l2 reg2 cs where loop: "advance_loop 4 ops ?q clock current registry l1 = ((result, l2), reg2, cs)"
    by (metis prod.collapse)
  have "handler_result handler result = Inr (EnvelopeSuccess payload provenance offset artifact)" "l2 = l'" "cs = calls"
    using assms t loop by (auto simp: handler_execute_def Let_def split: if_splits)
  moreover from this(1) have "result = Inr Verified"
    by (auto simp: handler_result_def envelope_failure_def split: sum.splits EffectState.splits)
  ultimately have "durable ?q Verified l' \<and> (current = Verified \<or> Checked Satisfied \<in> set calls)"
    using advance_loop_durable [OF state_durable [OF t], of 4 ops clock registry Verified l' reg2 cs] loop by simp
  moreover have "Some current \<in> set (rows l (aq_effect_key ?q))"
    using state_spec [OF t] by (force simp: legal_history_def)
  ultimately show ?thesis by auto
qed

text \<open>Without storage failures every phase is recorded.\<close>

lemma state_clean: "durable request s l \<Longrightarrow> el_faults l = [] \<Longrightarrow> state request l = (Inr s, l)"
  by (auto simp: durable_def state_def history_def binding_def statement_def legal_history_def comp_def)

lemma append_clean:
  assumes "durable request current l" "el_faults l = []" "transition current new"
  obtains l' where "append_state request new l = (Inr new, l')" "durable request new l'" "el_faults l' = []"
proof -
  let ?l' = "l\<lparr>el_history := el_history l @ [(aq_effect_key request, Some new)]\<rparr>"
  have "append_state request new l = (Inr new, ?l')"
    using assms by (auto simp: append_state_def statement_def durable_def)
  then show ?thesis using that append_durable [OF assms(1,3)] assms(2) by simp
qed

lemma get_put_executor: "get_executor (put_executor registry request x) request = Inr x"
  by (simp add: get_executor_def put_executor_def)

lemma advance_clean:
  assumes "durable request current l" "el_faults l = []" "current \<notin> {Proposed, Verified, Failed}"
    "get_executor registry request = Inr x" "next_phase ops request now elapsed current x = (new, x', calls)" "new \<noteq> current"
  shows "\<exists>l'. advance ops request now elapsed registry l = ((Inr new, l'), put_executor registry request x', calls)
    \<and> durable request new l' \<and> el_faults l' = []"
proof -
  obtain l' where "append_state request new l = (Inr new, l')" "durable request new l'" "el_faults l' = []"
    using append_clean [OF assms(1,2) next_phase_transition [OF assms(5,3,6)]] .
  then show ?thesis using assms state_clean [OF assms(1,2)] by (auto simp: advance_def)
qed

text \<open>
  C15: an approved effect is carried out.  If the effect is approved, storage works, the clock stays
  before the expiry, the arguments are the approved ones and the executor registered for the exact
  rule finds the effect absent, commits it and confirms it, then one call of the handler performs
  the effect once and answers with a success that names it, and the ledger shows it verified.
\<close>
theorem handler_completes:
  assumes "durable (dh_request handler) Approved l" "el_faults l = []"
    and "normal arguments = normal (arguments_value (tp_arguments (aq_proposal (dh_request handler))))"
    and "get_executor registry (dh_request handler) = Inr x"
    and "ee_reconcile ops x (dh_request handler) = (RemoteAbsent, x1)"
    and "ee_execute ops x1 (dh_request handler) = (OutcomeCommitted, x2)"
    and "ee_verify ops x2 (dh_request handler) = (Satisfied, x3)"
    and "fst (clock 3) < ac_expires_at_unix_ms (aq_context (dh_request handler))"
    and "saturating_add (fst (clock 2)) (case u64_try_from (snd (clock 2)) of Some e \<Rightarrow> e | None \<Rightarrow> - 1)
           < ac_expires_at_unix_ms (aq_context (dh_request handler))"
  shows "\<exists>l' registry'. handler_execute ops handler clock arguments registry l =
      (Inr (envelope_success
         (JObj [(''effect_key'', JStr (aq_effect_key (dh_request handler))), (''state'', JStr ''verified'')])
         (rg_provenance (dh_registration handler))), l', registry',
       [Reconciled RemoteAbsent, Executed OutcomeCommitted, Checked Satisfied])
    \<and> durable (dh_request handler) Verified l'"
proof -
  let ?q = "dh_request handler"
  have p1: "next_phase ops ?q (fst (clock 3)) (snd (clock 3)) Approved x = (Started, x, [])"
    using assms(8) by (simp add: next_phase_def not_le)
  obtain l1 where a1: "advance ops ?q (fst (clock 3)) (snd (clock 3)) registry l = ((Inr Started, l1), put_executor registry ?q x, [])"
    "durable ?q Started l1" "el_faults l1 = []"
    using advance_clean [OF assms(1,2) _ assms(4) p1] by auto
  have p2: "next_phase ops ?q (fst (clock 2)) (snd (clock 2)) Started x
      = (Committed, x2, [Reconciled RemoteAbsent, Executed OutcomeCommitted])"
    using assms(5,6,9) by (simp add: next_phase_def Let_def not_le)
  obtain l2 where a2: "advance ops ?q (fst (clock 2)) (snd (clock 2)) (put_executor registry ?q x) l1
      = ((Inr Committed, l2), put_executor (put_executor registry ?q x) ?q x2, [Reconciled RemoteAbsent, Executed OutcomeCommitted])"
    "durable ?q Committed l2" "el_faults l2 = []"
    using advance_clean [OF a1(2,3) _ get_put_executor p2] by auto
  have p3: "next_phase ops ?q (fst (clock 1)) (snd (clock 1)) Committed x2 = (Verified, x3, [Checked Satisfied])"
    using assms(7) by (simp add: next_phase_def)
  obtain l3 registry3 where a3: "advance ops ?q (fst (clock 1)) (snd (clock 1)) (put_executor (put_executor registry ?q x) ?q x2) l2
      = ((Inr Verified, l3), registry3, [Checked Satisfied])" "durable ?q Verified l3"
    using advance_clean [OF a2(2,3) _ get_put_executor [of "put_executor registry ?q x"] p3] by auto
  have "advance_loop 4 ops ?q clock Approved registry l
      = ((Inr Verified, l3), registry3, [Reconciled RemoteAbsent, Executed OutcomeCommitted, Checked Satisfied])"
    using a1(1) a2(1) a3(1) by (simp add: numeral_eq_Suc)
  then show ?thesis using assms(3) state_clean [OF assms(1,2)] a3(2)
    by (simp add: handler_execute_def handler_result_def)
qed

section \<open>A sample effect\<close>

text \<open>The request for the sample proposal, an executor that counts its calls, and a whole run.\<close>

definition demo_request :: ApprovalRequest where
  "demo_request = \<lparr>aq_approval_digest = ''a1'', aq_effect_key = ''k1'',
     aq_context = \<lparr>ac_operation_id = ''op'', ac_workflow_lock = [], ac_approver = ''ann'', ac_expires_at_unix_ms = 100\<rparr>,
     aq_proposal = demo_proposal, aq_rule_digest = ''d1''\<rparr>"

definition demo_executor :: "nat EffectExecutor" where
  "demo_executor = \<lparr>ee_reconcile = (\<lambda>n _. (if n = 0 then RemoteAbsent else RemoteCommitted, n)),
     ee_execute = (\<lambda>n _. (OutcomeCommitted, n + 1)), ee_verify = (\<lambda>n _. (Satisfied, n))\<rparr>"

definition demo_registry :: "nat ExecutorRegistry" where
  "demo_registry = [(''read'', ''v1'') \<mapsto> (''d1'', 0)]"

definition demo_handler :: "unit DurableEffectHandler" where
  "demo_handler = \<lparr>dh_request = demo_request, dh_registration = \<lparr>rg_name = ''read'',
     rg_provenance = \<lparr>pr_tool_id = ''read'', pr_tool_version = ''v1''\<rparr>, rg_input_schema = (),
     rg_handler_output_schema = (), rg_output_schema = (),
     rg_flags = \<lparr>tf_read_only = True, tf_concurrency_safe = True, tf_idempotent = True\<rparr>,
     rg_required_capabilities = [FilesystemRead], rg_required_scopes = [], rg_timeout_ms = 30000,
     rg_inline_output_limit_bytes = 65536, rg_paging = False, rg_idempotency = NotRequired,
     rg_implementation_digest = []\<rparr>\<rparr>"

definition demo_ledger :: "EffectState list \<Rightarrow> EffectLedger" where
  "demo_ledger states = \<lparr>el_approvals = [''k1'' \<mapsto> ''a1''], el_history = map (\<lambda>s. (''k1'', Some s)) states, el_faults = []\<rparr>"

lemmas demo_effect_defs = demo_request_def demo_executor_def demo_registry_def demo_handler_def demo_ledger_def
  demo_proposal_def EffectLedger_empty_def

lemma demo_durable: "legal_history h \<Longrightarrow> durable demo_request (last h) (demo_ledger h)"
  by (simp add: durable_def rows_def demo_ledger_def demo_request_def filter_map comp_def)

lemma demo_propose: "propose demo_request (EffectLedger_empty []) = (Inr Proposed, demo_ledger [Proposed])"
  by (simp add: demo_effect_defs propose_def binding_def statement_def)

lemma demo_approve: "approve demo_request ''a1'' ''ann'' 5 (demo_ledger [Proposed]) = (Inr Approved, demo_ledger [Proposed, Approved])"
  using state_clean [OF demo_durable [of "[Proposed]"]]
  by (simp add: approve_def append_state_def statement_def demo_effect_defs legal_history_def)

lemma demo_start:
  "advance demo_executor demo_request 6 0 demo_registry (demo_ledger [Proposed, Approved])
     = ((Inr Started, demo_ledger [Proposed, Approved, Started]), demo_registry, [])"
  using state_clean [OF demo_durable [of "[Proposed, Approved]"]]
  by (simp add: advance_def append_state_def statement_def demo_effect_defs legal_history_def next_phase_def
      get_executor_def put_executor_def executor_key_def)

lemma demo_dispatch:
  "advance demo_executor demo_request 7 0 demo_registry (demo_ledger [Proposed, Approved, Started])
     = ((Inr Committed, demo_ledger [Proposed, Approved, Started, Committed]), [(''read'', ''v1'') \<mapsto> (''d1'', 1)],
        [Reconciled RemoteAbsent, Executed OutcomeCommitted])"
proof -
  have "saturating_add (7 :: u64) 0 = 7" "u64_try_from 0 = Some 0"
    by (simp_all add: saturating_add_def u64_try_from_def checked_add_code)
  then show ?thesis
    using state_clean [OF demo_durable [of "[Proposed, Approved, Started]"]]
    by (simp add: advance_def append_state_def statement_def demo_effect_defs legal_history_def next_phase_def
      get_executor_def put_executor_def executor_key_def)
qed

lemma demo_run:
  "ledger_run demo_executor (demo_ledger [Proposed, Approved, Started, Committed])
     [LogApproved demo_request ''ann'' 5, LogIo demo_request (Reconciled RemoteAbsent),
      LogIo demo_request (Executed OutcomeCommitted)]"
proof -
  have "ledger_run demo_executor (demo_ledger [Proposed]) []"
    using ledger_run.propose [OF ledger_run.start demo_propose] .
  from ledger_run.approve [OF this demo_approve]
  have "ledger_run demo_executor (demo_ledger [Proposed, Approved]) [LogApproved demo_request ''ann'' 5]" by simp
  from ledger_run.advance [OF this demo_start]
  have "ledger_run demo_executor (demo_ledger [Proposed, Approved, Started]) [LogApproved demo_request ''ann'' 5]" by simp
  from ledger_run.advance [OF this demo_dispatch] show ?thesis by simp
qed

theorem dispatch_was_approved_witness:
  "approved_in [LogApproved demo_request ''ann'' 5, LogIo demo_request (Reconciled RemoteAbsent)] ''k1'' ''a1''"
  using dispatch_was_approved [OF demo_run, of 2 demo_request OutcomeCommitted]
  by (simp add: demo_request_def numeral_2_eq_2)

lemma demo_verify:
  "advance demo_executor demo_request now 0 demo_registry (demo_ledger [Proposed, Approved, Started, Committed])
     = ((Inr Verified, demo_ledger [Proposed, Approved, Started, Committed, Verified]), demo_registry, [Checked Satisfied])"
  using state_clean [OF demo_durable [of "[Proposed, Approved, Started, Committed]"]]
  by (simp add: advance_def append_state_def statement_def demo_effect_defs legal_history_def next_phase_def
      get_executor_def put_executor_def executor_key_def)

theorem committed_never_redispatched_witness:
  "set (snd (snd (advance demo_executor demo_request 200 0 demo_registry (demo_ledger [Proposed, Approved, Started, Committed]))))
     \<subseteq> range Checked"
  using committed_never_redispatched [OF demo_run _ demo_verify] demo_verify [of 200]
  by (simp add: rows_def demo_ledger_def demo_request_def)

theorem ledger_append_only_witness:
  "ledger_ok (demo_ledger [Proposed, Approved, Started, Committed, Verified])
   \<and> ledger_extends (demo_ledger [Proposed, Approved, Started, Committed]) (demo_ledger [Proposed, Approved, Started, Committed, Verified])"
  using ledger_append_only [OF demo_run, of "demo_ledger [Proposed, Approved, Started, Committed, Verified]"
      demo_request "[]" "[]" 200 0 demo_registry] demo_verify [of 200] by simp

theorem handler_completes_witness:
  "\<exists>l'. durable demo_request Verified l'"
proof -
  have "durable (dh_request demo_handler) Approved (demo_ledger [Proposed, Approved])"
    using demo_durable [of "[Proposed, Approved]"] by (simp add: demo_handler_def legal_history_def)
  moreover have "saturating_add (5 :: u64) 0 = 5" "u64_try_from 0 = Some 0"
    by (simp_all add: saturating_add_def u64_try_from_def checked_add_code)
  ultimately show ?thesis
    using handler_completes [of demo_handler "demo_ledger [Proposed, Approved]" "arguments_value (tp_arguments demo_proposal)"
      demo_registry 0 demo_executor 0 1 1 "\<lambda>_. (5, 0)"]
    by (auto simp: demo_effect_defs get_executor_def executor_key_def)
qed

lemma demo_handled:
  "handler_execute demo_executor demo_handler (\<lambda>_. (200, 0)) (arguments_value (tp_arguments demo_proposal)) demo_registry
     (demo_ledger [Proposed, Approved, Started, Committed])
   = (Inr (envelope_success (JObj [(''effect_key'', JStr ''k1''), (''state'', JStr ''verified'')])
        \<lparr>pr_tool_id = ''read'', pr_tool_version = ''v1''\<rparr>),
      demo_ledger [Proposed, Approved, Started, Committed, Verified], demo_registry, [Checked Satisfied])"
proof -
  have "state demo_request (demo_ledger [Proposed, Approved, Started, Committed])
      = (Inr Committed, demo_ledger [Proposed, Approved, Started, Committed])"
    using state_clean [OF demo_durable [of "[Proposed, Approved, Started, Committed]"]]
    by (simp add: demo_ledger_def legal_history_def)
  moreover have "dh_request demo_handler = demo_request" "aq_proposal demo_request = demo_proposal"
    "rg_provenance (dh_registration demo_handler) = \<lparr>pr_tool_id = ''read'', pr_tool_version = ''v1''\<rparr>"
    "aq_effect_key demo_request = ''k1''"
    by (simp_all add: demo_handler_def demo_request_def)
  ultimately show ?thesis
    using demo_verify [of 200] by (simp add: handler_execute_def handler_result_def numeral_eq_Suc)
qed

theorem handler_success_verified_witness:
  "durable demo_request Verified (demo_ledger [Proposed, Approved, Started, Committed, Verified])"
  using handler_success_verified [OF demo_handled [unfolded envelope_success_def]] by (simp add: demo_handler_def)

end
