(* ===== verification/Effect_Binding.thy ===== *)
theory Effect_Binding
  imports Effect_Safety Session
begin

text \<open>
  What the two digests of an approval request bind: the values that are hashed determine the call, the
  operation and the approval they were made for.
\<close>

section \<open>Members of a normal object\<close>

lemma map_of_sort_key: "distinct (map fst ms) \<Longrightarrow> map_of (sort_key fst ms) = map_of ms"
  by (subst map_of_inject_set) (simp_all add: distinct_map)

lemma normal_member:
  assumes "normal (JObj ms) = normal (JObj ns)" "distinct (map fst ms)" "distinct (map fst ns)"
    and "map_of ms k = Some v" "map_of ns k = Some w"
  shows "normal v = normal w"
proof -
  let ?n = "map (\<lambda>(key, value). (key, normal value))"
  have d: "distinct (map fst (?n xs))" if "distinct (map fst xs)" for xs
    using that by (simp add: case_prod_beta comp_def)
  have m: "map_of (?n xs) k = map_option normal (map_of xs k)" for xs by (induction xs) auto
  have "sort_key fst (?n ms) = sort_key fst (?n ns)" using assms(1) by simp
  then have "map_of (?n ms) k = map_of (?n ns) k"
    using map_of_sort_key [OF d [OF assms(2)]] map_of_sort_key [OF d [OF assms(3)]] by metis
  then show ?thesis using assms(4,5) by (simp only: m) simp
qed

text \<open>An object with the fields of a record: equal normal forms give equal normal fields.\<close>

lemma normal_fields:
  assumes "normal (JObj ms) = normal (JObj ns)" "map fst ms = map fst ns" "distinct (map fst ms)"
  shows "map (normal \<circ> snd) ms = map (normal \<circ> snd) ns"
proof (rule nth_equalityI)
  show "length (map (normal \<circ> snd) ms) = length (map (normal \<circ> snd) ns)"
    using assms(2) by (metis length_map)
  fix i assume "i < length (map (normal \<circ> snd) ms)"
  then have i: "i < length ms" "i < length ns" using assms(2) by (metis length_map)+
  have "fst (ms ! i) = fst (ns ! i)" using i assms(2) by (metis nth_map)
  then have "map_of ms (fst (ms ! i)) = Some (snd (ms ! i))" "map_of ns (fst (ms ! i)) = Some (snd (ns ! i))"
    using i assms by (metis map_of_is_SomeI nth_mem prod.collapse)+
  then show "map (normal \<circ> snd) ms ! i = map (normal \<circ> snd) ns ! i"
    using normal_member [OF assms(1,3) assms(3) [unfolded assms(2)]] i by simp
qed

section \<open>The serialised values are faithful\<close>

lemma SandboxCapability_serde_inj: "SandboxCapability_serde a = SandboxCapability_serde b \<Longrightarrow> a = b"
  by (cases a; cases b) simp_all

lemma SideEffectClass_serde_inj: "SideEffectClass_serde a = SideEffectClass_serde b \<Longrightarrow> a = b"
  by (cases a; cases b) simp_all

lemma normal_caps: "normal (caps_value a) = normal (caps_value b) \<Longrightarrow> a = b"
proof -
  have "inj (JStr \<circ> SandboxCapability_serde)" using SandboxCapability_serde_inj by (auto intro: injI)
  moreover assume "normal (caps_value a) = normal (caps_value b)"
  ultimately show "a = b" by (auto simp: caps_value_def comp_def dest: map_injective)
qed

lemma normal_u32: "normal (u32_value a) = normal (u32_value b) \<Longrightarrow> a = b"
  by (simp add: u32_value_def word_uint_eq_iff)

lemma normal_TargetVersion:
  assumes "normal (TargetVersion_value a) = normal (TargetVersion_value b)"
  shows "a = b"
  using normal_fields [OF assms [unfolded TargetVersion_value_def]]
  by (cases a; cases b) (auto dest: normal_u32 simp del: normal.simps(1))

lemma normal_SideEffectDescriptor:
  assumes "normal (JObj [(''schema_version'', u32_value (sd_schema_version a)), (''class'', JStr (SideEffectClass_serde (sd_class a)))])
    = normal (JObj [(''schema_version'', u32_value (sd_schema_version b)), (''class'', JStr (SideEffectClass_serde (sd_class b)))])"
  shows "a = (b :: SideEffectDescriptor)"
  using normal_fields [OF assms] SideEffectClass_serde_inj
  by (cases a; cases b) (auto dest: normal_u32 simp del: normal.simps(1))

lemma normal_ToolIntent:
  assumes "normal (ToolIntent_value a) = normal (ToolIntent_value b)"
  shows "a = b"
proof -
  note fields = normal_fields [OF assms [unfolded ToolIntent_value_def]]
  have "ti_effect a = ti_effect b"
    by (rule normal_SideEffectDescriptor) (use fields in \<open>simp del: normal.simps(1)\<close>)
  moreover have "ti_target_version a = ti_target_version b" "ti_capabilities a = ti_capabilities b"
    "ti_schema_version a = ti_schema_version b"
    using fields by (auto dest: normal_TargetVersion normal_caps normal_u32 simp del: normal.simps(1))
  ultimately show ?thesis using fields by (cases a; cases b) (simp del: normal.simps(1))
qed

lemma ToolArgument_value_inj: "ToolArgument_value a = ToolArgument_value b \<Longrightarrow> a = b"
  by (cases a; cases b) simp_all

lemma normal_arguments:
  assumes "normal (arguments_value a) = normal (arguments_value b)" "sorted (map fst a)" "sorted (map fst b)"
  shows "a = b"
proof -
  let ?f = "\<lambda>(name, argument). (name :: string, ToolArgument_value argument)"
  have atom: "normal (ToolArgument_value t) = ToolArgument_value t" for t by (cases t) simp_all
  have "normal (arguments_value xs) = JObj (map ?f xs)" if "sorted (map fst xs)" for xs
  proof -
    have "sorted (map fst (map ?f xs))" using that by (simp add: comp_def case_prod_beta)
    then show ?thesis
      by (simp add: arguments_value_def comp_def case_prod_beta atom sort_key_id_if_sorted)
  qed
  then have "map ?f a = map ?f b" using assms by simp
  moreover have "inj ?f" using ToolArgument_value_inj by (auto intro!: injI)
  ultimately show ?thesis by (rule map_injective)
qed

text \<open>A \<open>BTreeMap\<close> is serialised with its members in order.\<close>

lemma normal_btree:
  fixes f :: "'v \<Rightarrow> jvalue"
  assumes "normal (JObj (map (\<lambda>(n, v). (n, f v)) a)) = normal (JObj (map (\<lambda>(n, v). (n, f v)) b))"
    and sorted: "sorted (map fst a)" "sorted (map fst b)"
    and inj: "\<And>x y. x \<in> set a \<Longrightarrow> y \<in> set b \<Longrightarrow> normal (f (snd x)) = normal (f (snd y)) \<Longrightarrow> snd x = snd y"
  shows "a = b"
proof -
  let ?f = "\<lambda>p. (fst p, normal (f (snd p)))"
  have n: "normal (JObj (map (\<lambda>(n, v). (n, f v)) xs)) = JObj (map ?f xs)" if "sorted (map fst xs)" for xs :: "(string \<times> 'v) list"
  proof -
    have "sorted (map fst (map ?f xs))" using that by (simp add: comp_def)
    then show ?thesis by (simp add: comp_def case_prod_beta sort_key_id_if_sorted)
  qed
  have maps: "map ?f a = map ?f b" using assms(1) unfolding n [OF sorted(1)] n [OF sorted(2)] json.inject .
  show ?thesis
  proof (rule nth_equalityI)
    show len: "length a = length b" using maps by (rule map_eq_imp_length_eq)
    fix k assume k: "k < length a"
    then have "?f (a ! k) = ?f (b ! k)" using arg_cong [OF maps, of "\<lambda>xs. xs ! k"] len by simp
    then show "a ! k = b ! k" using inj [of "a ! k" "b ! k"] k len by (simp add: prod_eq_iff)
  qed
qed

lemma TrustDomain_serde_inj: "TrustDomain_serde a = TrustDomain_serde b \<Longrightarrow> a = b"
  by (cases a; cases b) simp_all

lemma ToolAdmission_serde_inj: "ToolAdmission_serde a = ToolAdmission_serde b \<Longrightarrow> a = b"
  by (cases a; cases b) simp_all

lemma FirewallReason_serde_inj: "FirewallReason_serde a = FirewallReason_serde b \<Longrightarrow> a = b"
  by (cases a; cases b) simp_all

lemma normal_strs: "normal (strs_value a) = normal (strs_value b) \<Longrightarrow> a = b"
proof -
  assume "normal (strs_value a) = normal (strs_value b)"
  moreover have "inj JStr" by (auto intro: injI)
  ultimately show "a = b" by (auto simp: strs_value_def comp_def dest: map_injective)
qed

lemmas normal_atoms = normal_u32 normal_caps normal_strs normal_TargetVersion

lemma normal_TrustedGoal:
  assumes "normal (TrustedGoal_value a) = normal (TrustedGoal_value b)"
  shows "a = b"
  using normal_fields [OF assms [unfolded TrustedGoal_value_def]]
  by (cases a; cases b) (auto dest: normal_atoms simp del: normal.simps(1))

lemma normal_ToolProposal:
  assumes "normal (ToolProposal_value a) = normal (ToolProposal_value b)"
    and "sorted (map fst (tp_arguments a))" "sorted (map fst (tp_arguments b))"
  shows "a = b"
proof -
  note fields = normal_fields [OF assms(1) [unfolded ToolProposal_value_def]]
  have "tp_intent a = tp_intent b" by (rule normal_ToolIntent) (use fields in \<open>simp del: normal.simps(1)\<close>)
  moreover have "tp_arguments a = tp_arguments b"
    by (rule normal_arguments) (use fields assms(2,3) in \<open>simp_all del: normal.simps(1)\<close>)
  moreover have "tp_schema_version a = tp_schema_version b" using fields by (auto dest: normal_u32 simp del: normal.simps(1))
  moreover have "tp_provenance a = tp_provenance b"
  proof -
    have "normal (JObj [(''source_digest'', JStr (pv_source_digest (tp_provenance a)) :: jvalue),
          (''arguments_digest'', JStr (pv_arguments_digest (tp_provenance a))),
          (''trust_domain'', JStr (TrustDomain_serde (pv_trust_domain (tp_provenance a))))])
      = normal (JObj [(''source_digest'', JStr (pv_source_digest (tp_provenance b))),
          (''arguments_digest'', JStr (pv_arguments_digest (tp_provenance b))),
          (''trust_domain'', JStr (TrustDomain_serde (pv_trust_domain (tp_provenance b))))])"
      using fields by (simp del: normal.simps(1))
    from normal_fields [OF this] show ?thesis
      by (cases "tp_provenance a"; cases "tp_provenance b") (auto dest: TrustDomain_serde_inj simp del: normal.simps(1))
  qed
  ultimately show ?thesis by (cases a; cases b) simp
qed

text \<open>The values of a policy.  Enums carry their \<open>kind\<close>.\<close>

lemma normal_kind:
  assumes "normal (JObj ((''kind'', JStr k) # ms)) = normal (JObj ((''kind'', JStr k') # ns))"
    and "distinct (''kind'' # map fst ms)" "distinct (''kind'' # map fst ns)"
  shows "k = k'"
  using normal_member [OF assms(1), of "''kind''" "JStr k" "JStr k'"] assms(2,3) by simp

lemma normal_ArgumentRule: "normal (ArgumentRule_value a) = normal (ArgumentRule_value b) \<Longrightarrow> a = b"
proof (cases a; cases b)
  fix lo hi lo' hi'
  assume "normal (ArgumentRule_value a) = normal (ArgumentRule_value b)" and ab: "a = RuleInteger lo hi" "b = RuleInteger lo' hi'"
  then show "a = b" using normal_fields [of "[(''kind'', JStr ''integer''), (''min'', JNum lo), (''max'', JNum hi)]"
    "[(''kind'', JStr ''integer''), (''min'', JNum lo'), (''max'', JNum hi')]"] by (simp del: normal.simps(1))
next
  fix n m
  assume "normal (ArgumentRule_value a) = normal (ArgumentRule_value b)" and ab: "a = RuleToken n" "b = RuleToken m"
  then show "a = b" using normal_fields [of "[(''kind'', JStr ''token''), (''max_bytes'', JNum (int n))]"
    "[(''kind'', JStr ''token''), (''max_bytes'', JNum (int m))]"] by (simp del: normal.simps(1))
next
  fix vs ws
  assume "normal (ArgumentRule_value a) = normal (ArgumentRule_value b)" and ab: "a = RuleChoice vs" "b = RuleChoice ws"
  then show "a = b" using normal_fields [of "[(''kind'', JStr ''choice''), (''values'', strs_value vs)]"
    "[(''kind'', JStr ''choice''), (''values'', strs_value ws)]"] by (auto dest: normal_strs simp del: normal.simps(1))
qed (auto dest!: normal_kind simp del: normal.simps(1))

lemma normal_ArgumentBinding: "normal (ArgumentBinding_value a) = normal (ArgumentBinding_value b) \<Longrightarrow> a = b"
proof (cases a; cases b)
  fix v w
  assume "normal (ArgumentBinding_value a) = normal (ArgumentBinding_value b)" and ab: "a = BindLiteral v" "b = BindLiteral w"
  then show "a = b" using normal_fields [of "[(''kind'', JStr ''literal''), (''value'', JStr v)]"
    "[(''kind'', JStr ''literal''), (''value'', JStr w)]"] by (simp del: normal.simps(1))
next
  fix v w
  assume "normal (ArgumentBinding_value a) = normal (ArgumentBinding_value b)" and ab: "a = BindArgument v" "b = BindArgument w"
  then show "a = b" using normal_fields [of "[(''kind'', JStr ''argument''), (''name'', JStr v)]"
    "[(''kind'', JStr ''argument''), (''name'', JStr w)]"] by (simp del: normal.simps(1))
qed (auto dest!: normal_kind simp del: normal.simps(1))

text \<open>The maps of a policy, as \<open>BTreeMap\<close>s, list their keys in order.\<close>

definition policy_sorted :: "FirewallPolicy \<Rightarrow> bool" where
  "policy_sorted policy \<longleftrightarrow> sorted (map fst (fp_tools policy)) \<and> list_all (\<lambda>(n, r). sorted (map fst (tr_arguments r))) (fp_tools policy)"

lemma normal_ToolRule:
  assumes "normal (ToolRule_value a) = normal (ToolRule_value b)"
    and sorted: "sorted (map fst (tr_arguments a))" "sorted (map fst (tr_arguments b))"
  shows "a = b"
proof -
  note fields = normal_fields [OF assms(1) [unfolded ToolRule_value_def]]
  have "tr_arguments a = tr_arguments b"
    by (rule normal_btree [OF _ sorted, of ArgumentRule_value])
      (use fields normal_ArgumentRule in \<open>auto simp del: normal.simps(1)\<close>)
  moreover have "tr_version a = tr_version b" "tr_capabilities a = tr_capabilities b" "tr_scopes a = tr_scopes b"
    "tr_destinations a = tr_destinations b" "tr_effect a = tr_effect b" "tr_admission a = tr_admission b"
    "tr_scope a = tr_scope b" "tr_destination a = tr_destination b" "tr_resource a = tr_resource b"
    using fields by (auto dest: normal_atoms normal_ArgumentBinding SideEffectClass_serde_inj ToolAdmission_serde_inj simp del: normal.simps(1))
  ultimately show ?thesis by (cases a; cases b) simp
qed

lemma normal_TargetState:
  assumes "normal (TargetState_value a) = normal (TargetState_value b)"
  shows "a = b"
  using normal_fields [OF assms [unfolded TargetState_value_def]]
  by (cases a; cases b) (auto dest: normal_TargetVersion simp del: normal.simps(1))

lemma normal_FirewallPolicy:
  assumes "normal (FirewallPolicy_value a) = normal (FirewallPolicy_value b)" "policy_sorted a" "policy_sorted b"
  shows "a = b"
proof -
  note fields = normal_fields [OF assms(1) [unfolded FirewallPolicy_value_def]]
  have "fp_tools a = fp_tools b"
  proof (rule normal_btree [of ToolRule_value])
    show "snd x = snd y" if "x \<in> set (fp_tools a)" "y \<in> set (fp_tools b)" "normal (ToolRule_value (snd x)) = normal (ToolRule_value (snd y))" for x y
      using that assms(2,3) normal_ToolRule [OF that(3)] by (simp add: policy_sorted_def list_all_iff case_prod_beta)
  qed (use fields assms(2,3) in \<open>simp_all add: policy_sorted_def del: normal.simps(1)\<close>)
  moreover have "map (normal \<circ> TargetState_value) (fp_targets a) = map (normal \<circ> TargetState_value) (fp_targets b)"
    using fields by (simp del: normal.simps(1))
  then have "fp_targets a = fp_targets b" by (rule map_injective) (auto intro!: injI dest: normal_TargetState)
  moreover have "fp_schema_version a = fp_schema_version b" "fp_version a = fp_version b"
    "fp_forbidden_markers a = fp_forbidden_markers b"
    using fields by (auto dest: normal_atoms simp del: normal.simps(1))
  ultimately show ?thesis by (cases a; cases b) simp
qed

lemma decision_material_inj:
  assumes "normal (decision_material policy goal proposal reason) = normal (decision_material policy' goal' proposal' reason')"
    and "policy_sorted policy" "policy_sorted policy'"
    and "sorted (map fst (tp_arguments proposal))" "sorted (map fst (tp_arguments proposal'))"
  shows "policy = policy' \<and> goal = goal' \<and> proposal = proposal' \<and> reason = reason'"
proof -
  note fields = normal_fields [OF assms(1) [unfolded decision_material_def]]
  have "policy = policy'"
    by (rule normal_FirewallPolicy [OF _ assms(2,3)]) (use fields in \<open>simp del: normal.simps(1)\<close>)
  moreover have "goal = goal'"
    by (rule normal_TrustedGoal) (use fields in \<open>simp del: normal.simps(1)\<close>)
  moreover have "proposal = proposal'"
    by (rule normal_ToolProposal [OF _ assms(4,5)]) (use fields in \<open>simp del: normal.simps(1)\<close>)
  moreover have "reason = reason'"
    by (rule FirewallReason_serde_inj) (use fields in \<open>simp del: normal.simps(1)\<close>)
  ultimately show ?thesis by blast
qed

section \<open>Digests\<close>

definition hashed :: "json_env \<Rightarrow> jvalue \<Rightarrow> byte list" where
  "hashed env v = str_bytes (write_canonical_json (je_quote env) (je_number env) v)"

text \<open>Two values with one digest are equal up to the order of members, unless SHA-256 collides on them.\<close>

lemma digest_inj:
  assumes "json_text (je_quote env) (je_number env)" "inj_on (je_sha256 env) S" "hashed env v \<in> S" "hashed env w \<in> S"
    and "digest env v = digest env w"
  shows "normal v = normal w"
proof -
  have "je_sha256 env (hashed env v) = je_sha256 env (hashed env w)"
    using assms(5) hex_inj unfolding digest_def argument_fingerprint_def hashed_def by blast
  then have "hashed env v = hashed env w" using assms(2-4) by (meson inj_onD)
  then have "emit (je_quote env) (je_number env) (normal v) = emit (je_quote env) (je_number env) (normal w)"
    by (simp add: hashed_def write_canonical_eq_emit)
  then show ?thesis using emit_inj [OF assms(1), of "[]" "[]" "normal v" "normal w"] by (simp add: delimited_def)
qed

lemma effect_material_inj:
  assumes "normal (effect_material goal context proposal) = normal (effect_material goal' context' proposal')"
    and "sorted (map fst (tp_arguments proposal))" "sorted (map fst (tp_arguments proposal'))"
  shows "tg_id goal = tg_id goal' \<and> ac_operation_id context = ac_operation_id context'
    \<and> ac_workflow_lock context = ac_workflow_lock context' \<and> tp_intent proposal = tp_intent proposal'
    \<and> tp_arguments proposal = tp_arguments proposal'"
proof -
  note fields = normal_fields [OF assms(1) [unfolded effect_material_def]]
  have "tp_intent proposal = tp_intent proposal'"
    by (rule normal_ToolIntent) (use fields in \<open>simp del: normal.simps(1)\<close>)
  moreover have "tp_arguments proposal = tp_arguments proposal'"
    by (rule normal_arguments) (use fields assms(2,3) in \<open>simp_all del: normal.simps(1)\<close>)
  ultimately show ?thesis using fields by (simp del: normal.simps(1))
qed

lemma normal_ApprovalContext:
  assumes "normal (ApprovalContext_value a) = normal (ApprovalContext_value b)"
  shows "a = b"
  using normal_fields [OF assms [unfolded ApprovalContext_value_def]]
  by (cases a; cases b) (simp add: word_uint_eq_iff del: normal.simps(1))

lemma approval_material_inj:
  assumes "normal (approval_material decision key context) = normal (approval_material decision' key' context')"
  shows "td_identity decision = td_identity decision' \<and> key = key' \<and> context = context'"
proof -
  note fields = normal_fields [OF assms [unfolded approval_material_def]]
  have "context = context'"
    by (rule normal_ApprovalContext) (use fields in \<open>simp del: normal.simps(1)\<close>)
  then show ?thesis using fields by (simp del: normal.simps(1))
qed

text \<open>The three values that are hashed for a request: of the decision, of the effect, of the approval.\<close>

definition bound_material :: "json_env \<Rightarrow> TrustedGoal \<Rightarrow> FirewallPolicy \<Rightarrow> ToolProposal \<Rightarrow> ApprovalContext \<Rightarrow> byte list set" where
  "bound_material env goal policy proposal context =
     (let decision = evaluate env policy goal proposal; e = effect_material goal context proposal in
      {hashed env (decision_material policy goal proposal (td_reason decision)), hashed env e,
       hashed env (approval_material decision (digest env e) context)})"

lemma bind_Inr:
  assumes "ApprovalRequest_bind env goal policy proposal context = Inr request"
  shows "aq_effect_key request = digest env (effect_material goal context proposal)"
    "aq_approval_digest request = digest env (approval_material (evaluate env policy goal proposal) (aq_effect_key request) context)"
    "aq_context request = context" "aq_proposal request = proposal"
    "td_decision (evaluate env policy goal proposal) \<noteq> DenyCall"
  using assms by (auto simp: ApprovalRequest_bind_def Let_def split: if_splits option.splits)

lemma evaluate_identity:
  "td_identity (evaluate env policy goal proposal)
     = digest env (decision_material policy goal proposal (td_reason (evaluate env policy goal proposal)))"
  by (simp add: evaluate_def Let_def)

text \<open>
  C14: an approval is good for one exact call.  If JSON atoms are spelled as the grammar says, SHA-256 does
  not collide on the six values that are hashed for two requests (decision, effect and approval of each),
  and the maps of the policies and proposals list their keys in order, then two requests with one approval
  digest have the same effect key, the same approver, expiry, operation and workflow lock, and were decided
  under the same firewall policy, for the same goal (version, capabilities, scopes and destinations
  included) and the same proposal (arguments and provenance included), with the same decision for the same
  reason; and two requests with one effect key propose the same tool intent with the same arguments under
  the same goal id, operation id and workflow lock, whatever their approver, expiry and policy.
\<close>
theorem approval_digest_binds_call:
  assumes "json_text (je_quote env) (je_number env)"
    and "inj_on (je_sha256 env) (bound_material env goal policy proposal context
           \<union> bound_material env goal' policy' proposal' context')"
    and "ApprovalRequest_bind env goal policy proposal context = Inr request"
    and "ApprovalRequest_bind env goal' policy' proposal' context' = Inr request'"
    and "sorted (map fst (tp_arguments proposal))" "sorted (map fst (tp_arguments proposal'))"
    and "policy_sorted policy" "policy_sorted policy'"
  shows "(aq_approval_digest request = aq_approval_digest request' \<longrightarrow>
      aq_effect_key request = aq_effect_key request' \<and> aq_context request = aq_context request'
      \<and> policy = policy' \<and> goal = goal' \<and> proposal = proposal'
      \<and> evaluate env policy goal proposal = evaluate env policy' goal' proposal')
    \<and> (aq_effect_key request = aq_effect_key request' \<longrightarrow>
      tg_id goal = tg_id goal' \<and> ac_operation_id context = ac_operation_id context'
      \<and> ac_workflow_lock context = ac_workflow_lock context'
      \<and> tp_intent proposal = tp_intent proposal' \<and> tp_arguments proposal = tp_arguments proposal')"
proof (intro conjI [of "_ \<longrightarrow> _"] impI)
  note b = bind_Inr [OF assms(3)] and b' = bind_Inr [OF assms(4)]
  note inj = digest_inj [OF assms(1,2)]
  {
    assume "aq_approval_digest request = aq_approval_digest request'"
    then have "normal (approval_material (evaluate env policy goal proposal) (aq_effect_key request) context)
        = normal (approval_material (evaluate env policy' goal' proposal') (aq_effect_key request') context')"
      by (intro inj) (simp_all add: bound_material_def Let_def b(1,2) b'(1,2))
    then have same: "aq_effect_key request = aq_effect_key request'" "aq_context request = aq_context request'"
      "td_identity (evaluate env policy goal proposal) = td_identity (evaluate env policy' goal' proposal')"
      using approval_material_inj b(3) b'(3) by metis+
    have "normal (decision_material policy goal proposal (td_reason (evaluate env policy goal proposal)))
        = normal (decision_material policy' goal' proposal' (td_reason (evaluate env policy' goal' proposal')))"
      using same(3) by (intro inj) (simp_all add: bound_material_def Let_def evaluate_identity)
    then show "aq_effect_key request = aq_effect_key request' \<and> aq_context request = aq_context request'
      \<and> policy = policy' \<and> goal = goal' \<and> proposal = proposal'
      \<and> evaluate env policy goal proposal = evaluate env policy' goal' proposal'"
      using same decision_material_inj assms(5-8) by metis
  next
    assume "aq_effect_key request = aq_effect_key request'"
    then have "normal (effect_material goal context proposal) = normal (effect_material goal' context' proposal')"
      by (intro inj) (simp_all add: bound_material_def Let_def b(1) b'(1))
    then show "tg_id goal = tg_id goal' \<and> ac_operation_id context = ac_operation_id context'
      \<and> ac_workflow_lock context = ac_workflow_lock context'
      \<and> tp_intent proposal = tp_intent proposal' \<and> tp_arguments proposal = tp_arguments proposal'"
      using effect_material_inj assms(5,6) by metis
  }
qed

text \<open>An instance: escaped strings, integers in signed unary, and an injective digest.\<close>

definition unary_int :: "int \<Rightarrow> string" where
  "unary_int i = (if i < 0 then CHR ''-'' # unary (nat (- i)) else unary (nat i))"

definition plain_env :: json_env where
  "plain_env = \<lparr>je_sha256 = id, je_quote = plain_quote, je_number = unary_int\<rparr>"

lemma unary_int_inj: "inj unary_int"
proof (rule injI)
  fix i j assume "unary_int i = unary_int j"
  moreover have "inj unary" by (auto simp: inj_def unary_def dest: arg_cong [where f = length])
  moreover have "unary n \<noteq> CHR ''-'' # s" for n s by (simp add: unary_def)
  ultimately show "i = j" by (auto simp: unary_int_def dest: injD split: if_splits) (metis nat_eq_iff not_less)+
qed

lemma plain_env_json_text: "json_text plain_quote unary_int"
proof -
  have "number_char CHR ''1''" "number_char CHR ''-''" by code_simp+
  then have "unary_int i \<noteq> [] \<and> list_all number_char (unary_int i)" for i
    by (simp add: unary_int_def unary_def list_all_iff)
  then show ?thesis using unary_int_inj plain_json_text unfolding json_text_def by blast
qed

definition bound_proposal :: ToolProposal where
  "bound_proposal = \<lparr>tp_schema_version = 1, tp_intent = tp_intent demo_proposal, tp_arguments = tp_arguments demo_proposal,
     tp_provenance = \<lparr>pv_source_digest = replicate 64 (CHR ''0''), pv_arguments_digest = ''7b2270617468223a22612e7273227d'',
       pv_trust_domain = UntrustedContent\<rparr>\<rparr>"

definition bound_context :: "string \<Rightarrow> ApprovalContext" where
  "bound_context approver = \<lparr>ac_operation_id = ''op1'', ac_workflow_lock = replicate 64 (CHR ''a''),
     ac_approver = approver, ac_expires_at_unix_ms = 100\<rparr>"

lemma bound_check: "check plain_env demo_policy demo_goal bound_proposal = Inr ()"
  by code_simp

lemma bound_request:
  assumes "token approver 128"
  obtains request
  where "ApprovalRequest_bind plain_env demo_goal demo_policy bound_proposal (bound_context approver) = Inr request"
proof -
  have "td_decision (evaluate plain_env demo_policy demo_goal bound_proposal) = Allow"
    by (rule evaluate_low_risk [OF bound_check, of demo_rule]) (simp_all add: bound_proposal_def demo_proposal_def demo_policy_def demo_rule_def)
  moreover have "map_of (fp_tools demo_policy) (ti_tool_id (tp_intent bound_proposal)) = Some demo_rule"
    by (simp add: bound_proposal_def demo_proposal_def demo_policy_def)
  moreover have "token ''op1'' 256 \<and> lower_hex64 (replicate 64 (CHR ''a''))" by code_simp
  ultimately show ?thesis using that assms by (simp add: ApprovalRequest_bind_def Let_def bound_context_def)
qed

text \<open>Two approvers of one call: the effect key is shared, the approvals are not.\<close>

theorem approval_digest_binds_call_witness:
  "\<exists>request request'.
     ApprovalRequest_bind plain_env demo_goal demo_policy bound_proposal (bound_context ''ann'') = Inr request
     \<and> ApprovalRequest_bind plain_env demo_goal demo_policy bound_proposal (bound_context ''bob'') = Inr request'
     \<and> aq_effect_key request = aq_effect_key request' \<and> aq_approval_digest request \<noteq> aq_approval_digest request'"
proof -
  have "token ''ann'' 128" "token ''bob'' 128" by code_simp+
  then obtain r r' where
    r: "ApprovalRequest_bind plain_env demo_goal demo_policy bound_proposal (bound_context ''ann'') = Inr r"
    and r': "ApprovalRequest_bind plain_env demo_goal demo_policy bound_proposal (bound_context ''bob'') = Inr r'"
    by (metis bound_request)
  have "sorted (map fst (tp_arguments bound_proposal))" by (simp add: bound_proposal_def demo_proposal_def)
  moreover have "policy_sorted demo_policy" by (simp add: policy_sorted_def demo_policy_def demo_rule_def)
  moreover have "inj_on (je_sha256 plain_env) S" for S by (simp add: plain_env_def)
  moreover have "json_text (je_quote plain_env) (je_number plain_env)" using plain_env_json_text by (simp add: plain_env_def)
  ultimately have "aq_approval_digest r = aq_approval_digest r' \<longrightarrow> aq_context r = aq_context r'"
    using approval_digest_binds_call [OF _ _ r r'] by blast
  moreover have "aq_context r \<noteq> aq_context r'" using bind_Inr(3) [OF r] bind_Inr(3) [OF r'] by (simp add: bound_context_def)
  moreover have "aq_effect_key r = aq_effect_key r'"
    using bind_Inr(1) [OF r] bind_Inr(1) [OF r'] by (simp add: effect_material_def bound_context_def)
  ultimately show ?thesis using r r' by blast
qed

end
