(* ===== verification/Compact_State.thy ===== *)
theory Compact_State
  imports Firewall
begin

text \<open>
  The continuation state (\<open>workflow-ir/src/compact_state.rs\<close>): additive deltas of source-addressed
  entries, applied atomically, and the union of two states.

  A \<open>BTreeMap\<close> is its association list in key order, a \<open>BTreeSet\<close> a finite set, iterated in order.
  SHA-256 and the spelling of JSON atoms are parameters.
\<close>

section \<open>Ordered maps\<close>

fun bt_insert :: "'k::linorder \<Rightarrow> 'v \<Rightarrow> ('k \<times> 'v) list \<Rightarrow> ('k \<times> 'v) list" where
  "bt_insert k v [] = [(k, v)]"
| "bt_insert k v ((k', v') # m) =
     (if k < k' then (k, v) # (k', v') # m else if k = k' then (k, v) # m else (k', v') # bt_insert k v m)"

definition bt_ok :: "('k::linorder \<times> 'v) list \<Rightarrow> bool" where
  "bt_ok m \<longleftrightarrow> sorted_wrt (<) (map fst m)"

section \<open>Types\<close>

record SourceRecord =
  sr_artifact_id :: string
  sr_byte_len :: u64

type_synonym SourceIndex = "(string \<times> SourceRecord) list"

datatype SourceRef = SourceRef (rf_source: string) (rf_artifact_id: string) (rf_start: u64) (rf_end: u64)

text \<open>The derived order: field by field.\<close>

definition SourceRef_key :: "SourceRef \<Rightarrow> string \<times> string \<times> u64 \<times> u64" where
  "SourceRef_key r = (rf_source r, rf_artifact_id r, rf_start r, rf_end r)"

instantiation SourceRef :: linorder
begin

definition less_eq_SourceRef :: "SourceRef \<Rightarrow> SourceRef \<Rightarrow> bool" where
  "a \<le> b \<longleftrightarrow> SourceRef_key a \<le> SourceRef_key b"

definition less_SourceRef :: "SourceRef \<Rightarrow> SourceRef \<Rightarrow> bool" where
  "a < b \<longleftrightarrow> SourceRef_key a < SourceRef_key b"

instance
proof
  fix a b :: SourceRef
  assume "a \<le> b" "b \<le> a"
  then have "SourceRef_key a = SourceRef_key b" unfolding less_eq_SourceRef_def by (rule order_antisym)
  then show "a = b" by (cases a; cases b) (simp add: SourceRef_key_def)
qed (auto simp: less_eq_SourceRef_def less_SourceRef_def)

end

datatype EntryKind =
    Objective | Fact | Decision | Constraint | PendingTask | CompletedTask | FailedApproach | ArtifactEntry
  | OpenQuestion | EnvironmentBinding | Proposal | Alternative

fun EntryKind_serde :: "EntryKind \<Rightarrow> string" where
  "EntryKind_serde Objective = ''objective''"
| "EntryKind_serde Fact = ''fact''"
| "EntryKind_serde Decision = ''decision''"
| "EntryKind_serde Constraint = ''constraint''"
| "EntryKind_serde PendingTask = ''pending_task''"
| "EntryKind_serde CompletedTask = ''completed_task''"
| "EntryKind_serde FailedApproach = ''failed_approach''"
| "EntryKind_serde ArtifactEntry = ''artifact''"
| "EntryKind_serde OpenQuestion = ''open_question''"
| "EntryKind_serde EnvironmentBinding = ''environment_binding''"
| "EntryKind_serde Proposal = ''proposal''"
| "EntryKind_serde Alternative = ''alternative''"

record StateEntry =
  st_kind :: EntryKind
  st_scope :: string
  st_key :: string
  st_text :: string
  st_provenance :: "SourceRef set"
  st_supersedes :: "string set"
  st_contradicts :: "string set"

record StateDelta =
  de_sources :: SourceIndex
  de_entries :: "StateEntry list"

datatype StateError = DocumentError | EntryError | SourceError | IdentityError

record CompactState =
  cs_sources :: SourceIndex
  cs_entries :: "(string \<times> StateEntry) list"

definition CompactState_default :: CompactState where
  "CompactState_default = \<lparr>cs_sources = [], cs_entries = []\<rparr>"

definition StateDelta_from :: "CompactState \<Rightarrow> StateDelta" where
  "StateDelta_from state = \<lparr>de_sources = cs_sources state, de_entries = map snd (cs_entries state)\<rparr>"

section \<open>The reducer\<close>

definition entry_content :: "StateEntry \<Rightarrow> EntryKind \<times> string \<times> string \<times> string" where
  "entry_content entry = (st_kind entry, st_scope entry, st_key entry, st_text entry)"

definition entry_id :: "json_env \<Rightarrow> StateEntry \<Rightarrow> string" where
  "entry_id env entry =
     hex (je_sha256 env (str_bytes (emit (je_quote env) (je_number env)
       (JArr [JNum 1, JStr (EntryKind_serde (st_kind entry)), JStr (st_scope entry), JStr (st_key entry),
              JStr (st_text entry)]))))"

definition source_rejected :: "SourceIndex \<Rightarrow> string \<Rightarrow> SourceRecord \<Rightarrow> bool" where
  "source_rejected sources source_id source \<longleftrightarrow>
     blank source_id \<or> \<not> lower_hex64 (sr_artifact_id source) \<or> sr_byte_len source = 0
     \<or> (case map_of sources source_id of Some existing \<Rightarrow> existing \<noteq> source | None \<Rightarrow> False)"

fun apply_sources :: "SourceIndex \<Rightarrow> SourceIndex \<Rightarrow> StateError + SourceIndex" where
  "apply_sources sources [] = Inr sources"
| "apply_sources sources ((source_id, source) # rest) =
     (if source_rejected sources source_id source then Inl SourceError
      else apply_sources (bt_insert source_id source sources) rest)"

definition provenance_ok :: "SourceIndex \<Rightarrow> SourceIndex \<Rightarrow> SourceRef \<Rightarrow> bool" where
  "provenance_ok delta_sources sources ref \<longleftrightarrow>
     map_of delta_sources (rf_source ref) \<noteq> None
     \<and> (case map_of sources (rf_source ref) of
          None \<Rightarrow> False
        | Some source \<Rightarrow>
            \<not> blank (rf_source ref) \<and> rf_artifact_id ref = sr_artifact_id source \<and> rf_start ref < rf_end ref
            \<and> rf_end ref \<le> sr_byte_len source)"

definition merge_entry :: "StateEntry \<Rightarrow> StateEntry \<Rightarrow> StateEntry" where
  "merge_entry existing entry =
     existing\<lparr>st_provenance := st_provenance existing \<union> st_provenance entry,
       st_supersedes := st_supersedes existing \<union> st_supersedes entry,
       st_contradicts := st_contradicts existing \<union> st_contradicts entry\<rparr>"

definition apply_entry :: "json_env \<Rightarrow> SourceIndex \<Rightarrow> CompactState \<Rightarrow> StateEntry \<Rightarrow> StateError + CompactState" where
  "apply_entry env delta_sources next entry =
     (if blank (st_scope entry) \<or> blank (st_key entry) \<or> st_text entry = [] \<or> st_provenance entry = {} then Inl EntryError
      else if \<not> (\<forall>ref \<in> st_provenance entry. provenance_ok delta_sources (cs_sources next) ref) then Inl SourceError
      else
        let id = entry_id env entry in
        if \<exists>target \<in> st_supersedes entry \<union> st_contradicts entry. \<not> lower_hex64 target \<or> target = id then Inl EntryError
        else case map_of (cs_entries next) id of
          Some existing \<Rightarrow>
            if entry_content existing \<noteq> entry_content entry then Inl IdentityError
            else Inr (next\<lparr>cs_entries := bt_insert id (merge_entry existing entry) (cs_entries next)\<rparr>)
        | None \<Rightarrow> Inr (next\<lparr>cs_entries := bt_insert id entry (cs_entries next)\<rparr>))"

fun apply_entries :: "json_env \<Rightarrow> SourceIndex \<Rightarrow> CompactState \<Rightarrow> StateEntry list \<Rightarrow> StateError + CompactState" where
  "apply_entries env delta_sources next [] = Inr next"
| "apply_entries env delta_sources next (entry # rest) =
     res_bind (apply_entry env delta_sources next entry) (\<lambda>next. apply_entries env delta_sources next rest)"

definition apply_delta :: "json_env \<Rightarrow> CompactState \<Rightarrow> StateDelta \<Rightarrow> StateError + CompactState" where
  "apply_delta env state delta =
     res_bind (apply_sources (cs_sources state) (de_sources delta)) (\<lambda>sources.
       apply_entries env (de_sources delta) (state\<lparr>cs_sources := sources\<rparr>) (de_entries delta))"

definition CompactState_union :: "json_env \<Rightarrow> CompactState \<Rightarrow> CompactState \<Rightarrow> StateError + CompactState" where
  "CompactState_union env state other = apply_delta env state (StateDelta_from other)"

definition CompactState_try_from :: "json_env \<Rightarrow> StateDelta \<Rightarrow> StateError + CompactState" where
  "CompactState_try_from env delta = apply_delta env CompactState_default delta"

text \<open>A decoded document with repeated source keys: the last record wins in the map, then it is refused.\<close>

definition StateDelta_from_wire :: "SourceIndex \<Rightarrow> StateEntry list \<Rightarrow> StateError + StateDelta" where
  "StateDelta_from_wire sources entries =
     (if \<not> distinct (map fst sources) then Inl SourceError
      else Inr \<lparr>de_sources = fold (\<lambda>(k, v). bt_insert k v) sources [], de_entries = entries\<rparr>)"

section \<open>Views\<close>

datatype RelationKind = Contradicts | Supersedes

record StateRelation =
  re_source :: string
  re_kind :: RelationKind
  re_target :: string
  re_target_present :: bool

definition state_relation :: "CompactState \<Rightarrow> string \<Rightarrow> RelationKind \<Rightarrow> string \<Rightarrow> StateRelation" where
  "state_relation state source kind target =
     \<lparr>re_source = source, re_kind = kind, re_target = target, re_target_present = map_of (cs_entries state) target \<noteq> None\<rparr>"

fun RelationKind_rank :: "RelationKind \<Rightarrow> nat" where
  "RelationKind_rank Contradicts = 0"
| "RelationKind_rank Supersedes = 1"

definition relations :: "CompactState \<Rightarrow> StateRelation list" where
  "relations state =
     sort_key (\<lambda>r. (re_source r, RelationKind_rank (re_kind r), re_target r))
       (concat (map (\<lambda>(source, entry).
          map (state_relation state source Contradicts) (sorted_list_of_set (st_contradicts entry))
          @ map (state_relation state source Supersedes) (sorted_list_of_set (st_supersedes entry)))
        (cs_entries state)))"

fun RelationKind_serde :: "RelationKind \<Rightarrow> string" where
  "RelationKind_serde Contradicts = ''contradicts''"
| "RelationKind_serde Supersedes = ''supersedes''"

fun join_lines :: "string \<Rightarrow> string list \<Rightarrow> string" where
  "join_lines sep [] = []"
| "join_lines sep [l] = l"
| "join_lines sep (l # m # ls) = l @ sep @ join_lines sep (m # ls)"

definition u64_decimal :: "u64 \<Rightarrow> string" where
  "u64_decimal v = nat_decimal (unat v)"

definition entry_lines :: "json_env \<Rightarrow> CompactState \<Rightarrow> string \<Rightarrow> StateEntry \<Rightarrow> string list" where
  "entry_lines env state ident entry =
     (''entry '' @ ident @ '' '' @ je_quote env (EntryKind_serde (st_kind entry)))
     # map (\<lambda>source. ''ref '' @ ident @ '' '' @ je_quote env (rf_source source) @ ''#'' @ u64_decimal (rf_start source)
              @ ''-'' @ u64_decimal (rf_end source)) (sorted_list_of_set (st_provenance entry))
     @ concat (map (\<lambda>(kind, targets).
         map (\<lambda>target. ''link '' @ ident @ '' '' @ je_quote env (RelationKind_serde kind) @ '' '' @ target @ '' ''
           @ (if map_of (cs_entries state) target \<noteq> None then ''1'' else ''0'')) (sorted_list_of_set targets))
       [(Contradicts, st_contradicts entry), (Supersedes, st_supersedes entry)])"

definition render :: "json_env \<Rightarrow> CompactState \<Rightarrow> string" where
  "render env state =
     ''    '' @ join_lines (CHR 0x0A # ''    '')
       (''CompactState v1''
        # map (\<lambda>(source_id, source). ''source '' @ je_quote env source_id @ '' '' @ sr_artifact_id source @ '' ''
             @ u64_decimal (sr_byte_len source)) (cs_sources state)
        @ concat (map (\<lambda>(id, entry). entry_lines env state id entry) (cs_entries state)))"

end
