(* ===== verification/Compact_Union.thy ===== *)
theory Compact_Union
  imports Compact_State
begin

text \<open>
  The union of continuation states is a partial join: it is defined exactly when two states have a
  common extension, and then it is the least one.  Commutativity, idempotence and associativity are
  proved once from that contract.
\<close>

section \<open>Partial joins\<close>

locale partial_join =
  fixes ok :: "'a \<Rightarrow> bool" and le :: "'a \<Rightarrow> 'a \<Rightarrow> bool" and join :: "'a \<Rightarrow> 'a \<Rightarrow> 'e + 'a"
  assumes refl: "ok a \<Longrightarrow> le a a"
    and trans: "le a b \<Longrightarrow> le b c \<Longrightarrow> le a c"
    and antisym: "ok a \<Longrightarrow> ok b \<Longrightarrow> le a b \<Longrightarrow> le b a \<Longrightarrow> a = b"
    and least: "ok a \<Longrightarrow> ok b \<Longrightarrow> join a b = Inr c \<Longrightarrow>
      ok c \<and> le a c \<and> le b c \<and> (\<forall>d. ok d \<longrightarrow> le a d \<longrightarrow> le b d \<longrightarrow> le c d)"
    and bounded: "ok a \<Longrightarrow> ok b \<Longrightarrow> ok d \<Longrightarrow> le a d \<Longrightarrow> le b d \<Longrightarrow> \<exists>c. join a b = Inr c"
begin

definition lub :: "'a set \<Rightarrow> 'a \<Rightarrow> bool" where
  "lub S c \<longleftrightarrow> ok c \<and> (\<forall>a \<in> S. le a c) \<and> (\<forall>d. ok d \<longrightarrow> (\<forall>a \<in> S. le a d) \<longrightarrow> le c d)"

lemma lub_unique: "lub S c \<Longrightarrow> lub S d \<Longrightarrow> c = d"
  unfolding lub_def by (meson antisym)

lemma join_lub:
  assumes "ok a" "ok b"
  shows "join a b = Inr c \<longleftrightarrow> lub {a, b} c"
proof
  assume "join a b = Inr c"
  then show "lub {a, b} c" using least [OF assms] by (simp add: lub_def)
next
  assume c: "lub {a, b} c"
  then obtain c' where c': "join a b = Inr c'" using bounded [OF assms, of c] by (auto simp: lub_def)
  then have "lub {a, b} c'" using least [OF assms] by (simp add: lub_def)
  then show "join a b = Inr c" using lub_unique [OF c] c' by simp
qed

lemma idempotent: "ok a \<Longrightarrow> join a a = Inr a"
  by (simp add: join_lub lub_def refl)

lemma lub_nested:
  assumes abc: "ok a" "ok b" "ok c"
  shows "(\<exists>ab. join a b = Inr ab \<and> join ab c = Inr x) \<longleftrightarrow> lub {a, b, c} x"
proof
  assume "\<exists>ab. join a b = Inr ab \<and> join ab c = Inr x"
  then obtain ab where ab: "join a b = Inr ab" "join ab c = Inr x" by blast
  note l = least [OF abc(1,2) ab(1)]
  then have "lub {ab, c} x" using ab(2) join_lub abc(3) by blast
  then show "lub {a, b, c} x" using l trans by (simp add: lub_def) blast
next
  assume x: "lub {a, b, c} x"
  then obtain ab where ab: "join a b = Inr ab" using bounded [OF abc(1,2), of x] by (auto simp: lub_def)
  note l = least [OF abc(1,2) ab]
  then have "le ab x" using x by (simp add: lub_def)
  moreover have "le x d" if "ok d" "le ab d" "le c d" for d
    using x that trans [of a ab d] trans [of b ab d] l by (simp add: lub_def)
  ultimately have "lub {ab, c} x" using x by (simp add: lub_def)
  then show "\<exists>ab. join a b = Inr ab \<and> join ab c = Inr x" using ab join_lub [of ab c x] l abc(3) by blast
qed

lemma associative:
  assumes "ok a" "ok b" "ok c"
  shows "(\<exists>ab. join a b = Inr ab \<and> join ab c = Inr x) \<longleftrightarrow> (\<exists>bc. join b c = Inr bc \<and> join bc a = Inr x)"
  unfolding lub_nested [OF assms] lub_nested [OF assms(2,3,1)] by (simp add: insert_commute)

end

section \<open>Ordered maps\<close>

lemma map_of_bt_insert [simp]: "map_of (bt_insert k v m) = (map_of m)(k \<mapsto> v)"
  by (induction m) (auto simp: fun_eq_iff)

lemma keys_bt_insert: "fst ` set (bt_insert k v m) = insert k (fst ` set m)"
  by (induction k v m rule: bt_insert.induct) (simp_all add: insert_commute)

lemma bt_ok_Cons: "bt_ok (p # m) \<longleftrightarrow> (\<forall>k \<in> fst ` set m. fst p < k) \<and> bt_ok m"
  by (simp add: bt_ok_def)

lemma bt_ok_insert [simp]: "bt_ok m \<Longrightarrow> bt_ok (bt_insert k v m)"
proof (induction m)
  case Nil
  then show ?case by (simp add: bt_ok_def)
next
  case (Cons p m)
  obtain k' v' where p: "p = (k', v')" by fastforce
  have m: "\<forall>x \<in> fst ` set m. k' < x" "bt_ok m" using Cons.prems by (simp_all add: p bt_ok_Cons)
  have "\<forall>x \<in> fst ` set m. k < x" if "k < k'" using m(1) that less_trans by blast
  moreover have "\<forall>x \<in> fst ` set (bt_insert k v m). k' < x" if "\<not> k < k'" "k \<noteq> k'"
    using m(1) that unfolding keys_bt_insert by auto
  ultimately show ?case using m Cons.IH by (simp add: p bt_ok_Cons)
qed

lemma bt_ok_distinct: "bt_ok m \<Longrightarrow> distinct (map fst m)"
  unfolding bt_ok_def using strict_sorted_iff by blast

lemma bt_ext:
  assumes "bt_ok m" "bt_ok n" "map_of m = map_of n"
  shows "m = n"
proof -
  have d: "distinct (map fst m)" "distinct (map fst n)" using assms by (auto dest: bt_ok_distinct)
  then have "set m = set n" using assms(3) map_of_inject_set by blast
  then have keys: "map fst m = map fst n"
    using assms(1,2) unfolding bt_ok_def by (intro strict_sorted_equal) (auto simp: strict_sorted_iff)
  have "map snd p = map (the \<circ> map_of p) (map fst p)" if "distinct (map fst p)" for p :: "('a \<times> 'b) list"
    using that by (auto simp: map_of_is_SomeI)
  then have "map snd m = map snd n" using d keys assms(3) by metis
  then show ?thesis using keys by (metis zip_map_fst_snd)
qed

section \<open>States\<close>

definition entry_ok :: "json_env \<Rightarrow> SourceIndex \<Rightarrow> string \<Rightarrow> StateEntry \<Rightarrow> bool" where
  "entry_ok env sources ident entry \<longleftrightarrow>
     ident = entry_id env entry \<and> \<not> blank (st_scope entry) \<and> \<not> blank (st_key entry) \<and> st_text entry \<noteq> []
     \<and> st_provenance entry \<noteq> {} \<and> (\<forall>ref \<in> st_provenance entry. provenance_ok sources sources ref)
     \<and> (\<forall>target \<in> st_supersedes entry \<union> st_contradicts entry. lower_hex64 target \<and> target \<noteq> ident)"

definition source_ok :: "string \<Rightarrow> SourceRecord \<Rightarrow> bool" where
  "source_ok source_id source \<longleftrightarrow> \<not> blank source_id \<and> lower_hex64 (sr_artifact_id source) \<and> sr_byte_len source \<noteq> 0"

definition state_ok :: "json_env \<Rightarrow> CompactState \<Rightarrow> bool" where
  "state_ok env state \<longleftrightarrow> bt_ok (cs_sources state) \<and> bt_ok (cs_entries state)
     \<and> (\<forall>k r. map_of (cs_sources state) k = Some r \<longrightarrow> source_ok k r)
     \<and> (\<forall>id e. map_of (cs_entries state) id = Some e \<longrightarrow> entry_ok env (cs_sources state) id e)"

definition entry_le :: "StateEntry \<Rightarrow> StateEntry \<Rightarrow> bool" where
  "entry_le e e' \<longleftrightarrow> entry_content e = entry_content e' \<and> st_provenance e \<subseteq> st_provenance e'
     \<and> st_supersedes e \<subseteq> st_supersedes e' \<and> st_contradicts e \<subseteq> st_contradicts e'"

text \<open>A state contains another: every source is bound as before, every entry is there with its history.\<close>

definition state_le :: "CompactState \<Rightarrow> CompactState \<Rightarrow> bool" where
  "state_le s s' \<longleftrightarrow> map_of (cs_sources s) \<subseteq>\<^sub>m map_of (cs_sources s')
     \<and> (\<forall>id e. map_of (cs_entries s) id = Some e \<longrightarrow> (\<exists>e'. map_of (cs_entries s') id = Some e' \<and> entry_le e e'))"

lemma entry_le_trans: "entry_le a b \<Longrightarrow> entry_le b c \<Longrightarrow> entry_le a c"
  by (auto simp: entry_le_def)

lemma entry_le_antisym: "entry_le a b \<Longrightarrow> entry_le b a \<Longrightarrow> a = b"
  by (cases a; cases b) (auto simp: entry_le_def entry_content_def)

lemma state_le_refl: "state_le s s"
  by (auto simp: state_le_def entry_le_def)

lemma state_le_trans: "state_le a b \<Longrightarrow> state_le b c \<Longrightarrow> state_le a c"
  unfolding state_le_def by (meson entry_le_trans map_le_trans)

lemma state_le_antisym:
  assumes "state_ok env a" "state_ok env b" "state_le a b" "state_le b a"
  shows "a = b"
proof -
  have "map_of (cs_sources a) = map_of (cs_sources b)" using assms(3,4) by (simp add: state_le_def map_le_antisym)
  moreover have "map_of (cs_entries a) = map_of (cs_entries b)"
  proof
    fix i
    have ab: "\<exists>e'. map_of (cs_entries b) i = Some e' \<and> entry_le e e'" if "map_of (cs_entries a) i = Some e" for e
      using that assms(3) by (simp add: state_le_def)
    have ba: "\<exists>e'. map_of (cs_entries a) i = Some e' \<and> entry_le e e'" if "map_of (cs_entries b) i = Some e" for e
      using that assms(4) by (simp add: state_le_def)
    show "map_of (cs_entries a) i = map_of (cs_entries b) i"
    proof (cases "map_of (cs_entries a) i")
      case None
      then show ?thesis using ba by (cases "map_of (cs_entries b) i") auto
    next
      case (Some e)
      then obtain e' where e': "map_of (cs_entries b) i = Some e'" "entry_le e e'" using ab by blast
      then have "entry_le e' e" using ba Some by force
      then show ?thesis using entry_le_antisym e' Some by simp
    qed
  qed
  ultimately show ?thesis using assms(1,2) by (cases a; cases b) (simp add: state_ok_def bt_ext)
qed

section \<open>The union, in closed form\<close>

definition put_source :: "string \<times> SourceRecord \<Rightarrow> SourceIndex \<Rightarrow> SourceIndex" where
  "put_source p sources = bt_insert (fst p) (snd p) sources"

fun merged :: "StateEntry option \<Rightarrow> StateEntry \<Rightarrow> StateEntry" where
  "merged None e = e"
| "merged (Some existing) e = merge_entry existing e"

fun agrees :: "StateEntry option \<Rightarrow> StateEntry \<Rightarrow> bool" where
  "agrees None e \<longleftrightarrow> True"
| "agrees (Some existing) e \<longleftrightarrow> entry_content existing = entry_content e"

definition put_entry :: "string \<times> StateEntry \<Rightarrow> (string \<times> StateEntry) list \<Rightarrow> (string \<times> StateEntry) list" where
  "put_entry p m = bt_insert (fst p) (merged (map_of m (fst p)) (snd p)) m"

lemma source_rejected_other: "k \<noteq> k' \<Longrightarrow> source_rejected (bt_insert k r S) k' r' = source_rejected S k' r'"
  by (simp add: source_rejected_def)

lemma apply_sources_eq:
  "distinct (map fst D) \<Longrightarrow>
     apply_sources S D = (if \<forall>p \<in> set D. \<not> source_rejected S (fst p) (snd p) then Inr (fold put_source D S) else Inl SourceError)"
proof (induction D arbitrary: S)
  case (Cons p D)
  obtain k r where p: "p = (k, r)" by fastforce
  have "\<forall>q \<in> set D. source_rejected (bt_insert k r S) (fst q) (snd q) = source_rejected S (fst q) (snd q)"
    using Cons.prems p by (auto intro!: source_rejected_other simp: image_iff)
  then show ?case using Cons by (auto simp: p put_source_def [of "(k, r)"])
qed simp

lemma map_of_put_sources:
  "distinct (map fst D) \<Longrightarrow> map_of (fold put_source D S) = map_of S ++ map_of D"
proof (induction D arbitrary: S)
  case (Cons p D)
  then have "map_of D (fst p) = None" by (simp add: map_of_eq_None_iff)
  then show ?case using Cons by (cases p) (auto simp: put_source_def map_add_def fun_eq_iff split: option.splits)
qed simp

lemma bt_ok_put_sources: "bt_ok S \<Longrightarrow> bt_ok (fold put_source D S)"
  by (induction D arbitrary: S) (simp_all add: put_source_def)

lemma bt_ok_put_entries: "bt_ok m \<Longrightarrow> bt_ok (fold put_entry M m)"
  by (induction M arbitrary: m) (simp_all add: put_entry_def)

lemma map_of_put_entries:
  "distinct (map fst M) \<Longrightarrow>
     map_of (fold put_entry M m) k = (case map_of M k of None \<Rightarrow> map_of m k | Some e \<Rightarrow> Some (merged (map_of m k) e))"
proof (induction M arbitrary: m)
  case (Cons p M)
  then have "map_of M (fst p) = None" by (simp add: map_of_eq_None_iff)
  then show ?case using Cons by (cases p) (auto simp: put_entry_def split: option.splits)
qed simp

lemma provenance_ok_mono:
  assumes "map_of D \<subseteq>\<^sub>m map_of S" "provenance_ok D D r"
  shows "provenance_ok D S r \<and> provenance_ok S S r"
proof -
  obtain source where D: "map_of D (rf_source r) = Some source" using assms(2) by (auto simp: provenance_ok_def)
  then have "map_of S (rf_source r) = Some source" using assms(1) by (metis domI map_le_def)
  then show ?thesis using assms(2) D by (simp add: provenance_ok_def)
qed

lemma apply_entry_eq:
  assumes "entry_ok env D k e" "map_of D \<subseteq>\<^sub>m map_of (cs_sources next)"
  shows "apply_entry env D next e = (if agrees (map_of (cs_entries next) k) e
    then Inr (next\<lparr>cs_entries := put_entry (k, e) (cs_entries next)\<rparr>) else Inl IdentityError)"
proof -
  have "\<forall>r \<in> st_provenance e. provenance_ok D (cs_sources next) r"
    using assms provenance_ok_mono by (auto simp: entry_ok_def)
  then show ?thesis using assms(1)
    by (cases "map_of (cs_entries next) k") (auto simp: apply_entry_def entry_ok_def Let_def put_entry_def)
qed

lemma apply_entries_eq:
  assumes "\<forall>p \<in> set M. entry_ok env D (fst p) (snd p)" "distinct (map fst M)" "map_of D \<subseteq>\<^sub>m map_of (cs_sources next)"
  shows "apply_entries env D next (map snd M) =
    (if \<forall>p \<in> set M. agrees (map_of (cs_entries next) (fst p)) (snd p)
     then Inr (next\<lparr>cs_entries := fold put_entry M (cs_entries next)\<rparr>) else Inl IdentityError)"
  using assms
proof (induction M arbitrary: "next")
  case (Cons p M)
  obtain k e where p: "p = (k, e)" by fastforce
  let ?n = "next\<lparr>cs_entries := put_entry p (cs_entries next)\<rparr>"
  have "map_of (cs_entries ?n) (fst q) = map_of (cs_entries next) (fst q)" if "q \<in> set M" for q
    using that Cons.prems(2) p by (auto simp: put_entry_def image_iff)
  then have "(\<forall>q \<in> set M. agrees (map_of (cs_entries ?n) (fst q)) (snd q)) \<longleftrightarrow>
      (\<forall>q \<in> set M. agrees (map_of (cs_entries next) (fst q)) (snd q))" by simp
  moreover have "apply_entries env D ?n (map snd M) =
    (if \<forall>q \<in> set M. agrees (map_of (cs_entries ?n) (fst q)) (snd q)
     then Inr (?n\<lparr>cs_entries := fold put_entry M (cs_entries ?n)\<rparr>) else Inl IdentityError)"
    using Cons.prems by (intro Cons.IH) simp_all
  moreover have "apply_entry env D next e = (if agrees (map_of (cs_entries next) k) e then Inr ?n else Inl IdentityError)"
    using apply_entry_eq [of env D k e "next"] Cons.prems(1,3) p by simp
  ultimately show ?case by (simp add: p)
qed simp

text \<open>Two states conflict when they bind one name to different sources, or one identity to different entries.\<close>

definition sources_conflict :: "CompactState \<Rightarrow> CompactState \<Rightarrow> bool" where
  "sources_conflict a b \<longleftrightarrow>
     (\<exists>k r r'. map_of (cs_sources a) k = Some r \<and> map_of (cs_sources b) k = Some r' \<and> r \<noteq> r')"

definition entries_conflict :: "CompactState \<Rightarrow> CompactState \<Rightarrow> bool" where
  "entries_conflict a b \<longleftrightarrow> (\<exists>k e e'. map_of (cs_entries a) k = Some e \<and> map_of (cs_entries b) k = Some e'
     \<and> entry_content e \<noteq> entry_content e')"

definition joined :: "CompactState \<Rightarrow> CompactState \<Rightarrow> CompactState" where
  "joined a b = \<lparr>cs_sources = fold put_source (cs_sources b) (cs_sources a),
     cs_entries = fold put_entry (cs_entries b) (cs_entries a)\<rparr>"

lemma state_ok_mem:
  assumes "state_ok env s"
  shows "\<And>p. p \<in> set (cs_sources s) \<Longrightarrow> map_of (cs_sources s) (fst p) = Some (snd p) \<and> source_ok (fst p) (snd p)"
    and "\<And>p. p \<in> set (cs_entries s) \<Longrightarrow> map_of (cs_entries s) (fst p) = Some (snd p) \<and> entry_ok env (cs_sources s) (fst p) (snd p)"
  using assms by (auto simp: state_ok_def map_of_is_SomeI dest!: bt_ok_distinct)

lemma distinct_keys: "state_ok env s \<Longrightarrow> distinct (map fst (cs_sources s)) \<and> distinct (map fst (cs_entries s))"
  by (simp add: state_ok_def bt_ok_distinct)

lemma mem_keys:
  assumes "state_ok env s"
  shows "p \<in> set (cs_sources s) \<longleftrightarrow> map_of (cs_sources s) (fst p) = Some (snd p)"
    and "q \<in> set (cs_entries s) \<longleftrightarrow> map_of (cs_entries s) (fst q) = Some (snd q)"
  using distinct_keys [OF assms] by (cases p, simp, cases q, simp)

lemma sources_accepted:
  assumes "state_ok env a" "state_ok env b"
  shows "(\<forall>p \<in> set (cs_sources b). \<not> source_rejected (cs_sources a) (fst p) (snd p)) \<longleftrightarrow> \<not> sources_conflict a b"
proof -
  have "source_rejected (cs_sources a) (fst p) (snd p) \<longleftrightarrow>
      (\<exists>r. map_of (cs_sources a) (fst p) = Some r \<and> r \<noteq> snd p)" if "p \<in> set (cs_sources b)" for p
    using state_ok_mem(1) [OF assms(2) that] by (auto simp: source_rejected_def source_ok_def split: option.splits)
  then show ?thesis
    by (simp add: sources_conflict_def Ball_def mem_keys [OF assms(2)] split_paired_All) blast
qed

lemma entries_accepted:
  assumes "state_ok env b"
  shows "(\<forall>p \<in> set (cs_entries b). agrees (map_of (cs_entries a) (fst p)) (snd p)) \<longleftrightarrow> \<not> entries_conflict a b"
proof -
  have "agrees x e \<longleftrightarrow> (\<forall>e'. x = Some e' \<longrightarrow> entry_content e' = entry_content e)" for x e by (cases x) auto
  then show ?thesis
    by (simp add: entries_conflict_def Ball_def mem_keys [OF assms] split_paired_All) blast
qed

lemma union_eq:
  assumes "state_ok env a" "state_ok env b"
  shows "CompactState_union env a b =
    (if sources_conflict a b then Inl SourceError else if entries_conflict a b then Inl IdentityError else Inr (joined a b))"
proof -
  note d = distinct_keys [OF assms(2)]
  let ?S = "fold put_source (cs_sources b) (cs_sources a)"
  have "map_of (cs_sources b) \<subseteq>\<^sub>m map_of ?S"
    unfolding map_of_put_sources [OF conjunct1 [OF d]] by (simp add: map_le_map_add)
  then have "apply_entries env (cs_sources b) (a\<lparr>cs_sources := ?S\<rparr>) (map snd (cs_entries b)) =
      (if \<not> entries_conflict a b then Inr (joined a b) else Inl IdentityError)"
    using apply_entries_eq [of "cs_entries b" env "cs_sources b" "a\<lparr>cs_sources := ?S\<rparr>"] d state_ok_mem(2) [OF assms(2)]
      entries_accepted [OF assms(2), of a] by (simp add: joined_def)
  then show ?thesis
    using apply_sources_eq [OF conjunct1 [OF d], of "cs_sources a"] sources_accepted [OF assms]
    by (simp add: CompactState_union_def apply_delta_def StateDelta_from_def)
qed

section \<open>The union is the least common extension\<close>

lemma joined_sources:
  assumes "state_ok env b"
  shows "map_of (cs_sources (joined a b)) = map_of (cs_sources a) ++ map_of (cs_sources b)"
  using distinct_keys [OF assms] by (simp add: joined_def map_of_put_sources)

lemma joined_entries:
  assumes "state_ok env b"
  shows "map_of (cs_entries (joined a b)) k = (case map_of (cs_entries b) k of
    None \<Rightarrow> map_of (cs_entries a) k | Some e \<Rightarrow> Some (merged (map_of (cs_entries a) k) e))"
  using distinct_keys [OF assms] by (simp add: joined_def map_of_put_entries)

lemma merged_upper: "agrees x e \<Longrightarrow> entry_le e (merged x e)" "agrees (Some e') e \<Longrightarrow> entry_le e' (merged (Some e') e)"
  by (cases x) (auto simp: entry_le_def merge_entry_def entry_content_def)

lemma merged_least: "entry_le e d \<Longrightarrow> (\<And>e'. x = Some e' \<Longrightarrow> entry_le e' d) \<Longrightarrow> entry_le (merged x e) d"
  by (cases x) (auto simp: entry_le_def merge_entry_def entry_content_def)

lemma conflict_agrees: "\<not> entries_conflict a b \<Longrightarrow> map_of (cs_entries b) k = Some e \<Longrightarrow> agrees (map_of (cs_entries a) k) e"
  by (cases "map_of (cs_entries a) k") (auto simp: entries_conflict_def)

lemma joined_upper:
  assumes "state_ok env b" "\<not> sources_conflict a b" "\<not> entries_conflict a b"
  shows "state_le a (joined a b) \<and> state_le b (joined a b)"
proof
  note s = joined_sources [OF assms(1), of a] and e = joined_entries [OF assms(1), of a]
  have "map_of (cs_sources a) \<subseteq>\<^sub>m map_of (cs_sources a) ++ map_of (cs_sources b)"
    using assms(2) by (auto simp: map_le_def map_add_def sources_conflict_def split: option.splits)
  moreover have "\<exists>d. map_of (cs_entries (joined a b)) k = Some d \<and> entry_le x d" if "map_of (cs_entries a) k = Some x" for k x
    using that conflict_agrees [OF assms(3), of k] merged_upper(2) [of x]
    by (cases "map_of (cs_entries b) k") (auto simp: e entry_le_def)
  ultimately show "state_le a (joined a b)" by (simp add: state_le_def s)
  show "state_le b (joined a b)"
    using conflict_agrees [OF assms(3)] merged_upper(1) by (auto simp: state_le_def s e map_le_map_add)
qed

lemma joined_least:
  assumes "state_ok env b" "state_le a d" "state_le b d"
  shows "state_le (joined a b) d"
proof -
  have "map_of (cs_sources a) ++ map_of (cs_sources b) \<subseteq>\<^sub>m map_of (cs_sources d)"
    using assms(2,3) by (auto simp: state_le_def map_le_def map_add_def dom_def split: option.splits) 
  moreover have "\<exists>e'. map_of (cs_entries d) k = Some e' \<and> entry_le x e'" if "map_of (cs_entries (joined a b)) k = Some x" for k x
  proof (cases "map_of (cs_entries b) k")
    case None
    then show ?thesis using that assms(2) by (simp add: joined_entries [OF assms(1)] state_le_def)
  next
    case (Some e)
    then obtain e' where e': "map_of (cs_entries d) k = Some e'" "entry_le e e'" using assms(3) by (auto simp: state_le_def)
    have "entry_le y e'" if "map_of (cs_entries a) k = Some y" for y
      using that assms(2) e'(1) by (force simp: state_le_def)
    then have "entry_le (merged (map_of (cs_entries a) k) e) e'" using merged_least e'(2) by blast
    then show ?thesis using that Some e'(1) by (simp add: joined_entries [OF assms(1)])
  qed
  ultimately show ?thesis by (simp add: state_le_def joined_sources [OF assms(1)])
qed

lemma entry_ok_mono:
  assumes "map_of S \<subseteq>\<^sub>m map_of T" "entry_ok env S k e"
  shows "entry_ok env T k e"
  using assms(2) provenance_ok_mono [OF assms(1)] unfolding entry_ok_def by blast

lemma entry_ok_merge:
  assumes "entry_ok env S k x" "entry_ok env S k e" "entry_content x = entry_content e"
  shows "entry_ok env S k (merge_entry x e)"
proof -
  have "entry_id env (merge_entry x e) = entry_id env x" by (simp add: entry_id_def merge_entry_def)
  then show ?thesis using assms by (auto simp: entry_ok_def merge_entry_def)
qed

lemma joined_ok:
  assumes "state_ok env a" "state_ok env b" "\<not> sources_conflict a b" "\<not> entries_conflict a b"
  shows "state_ok env (joined a b)"
proof -
  note up = joined_upper [OF assms(2,3,4)]
  let ?S = "cs_sources (joined a b)"
  have sub: "map_of (cs_sources a) \<subseteq>\<^sub>m map_of ?S" "map_of (cs_sources b) \<subseteq>\<^sub>m map_of ?S" using up by (auto simp: state_le_def)
  have a: "entry_ok env ?S k e" if "map_of (cs_entries a) k = Some e" for k e
    using that assms(1) entry_ok_mono [OF sub(1)] by (auto simp: state_ok_def)
  have b: "entry_ok env ?S k e" if "map_of (cs_entries b) k = Some e" for k e
    using that assms(2) entry_ok_mono [OF sub(2)] by (auto simp: state_ok_def)
  have "entry_ok env ?S k x" if "map_of (cs_entries (joined a b)) k = Some x" for k x
  proof (cases "map_of (cs_entries b) k")
    case None
    then show ?thesis using that a by (simp add: joined_entries [OF assms(2)])
  next
    case (Some e)
    then have x: "x = merged (map_of (cs_entries a) k) e" using that by (simp add: joined_entries [OF assms(2)])
    show ?thesis
    proof (cases "map_of (cs_entries a) k")
      case None
      then show ?thesis using b [OF Some] x by simp
    next
      case (Some y)
      then show ?thesis
        using x a [OF Some] b [OF \<open>map_of (cs_entries b) k = Some e\<close>] conflict_agrees [OF assms(4) \<open>map_of (cs_entries b) k = Some e\<close>]
          entry_ok_merge by simp
    qed
  qed
  moreover have "source_ok k r" if "map_of ?S k = Some r" for k r
    using that assms(1,2) by (auto simp: joined_sources [OF assms(2)] map_add_def state_ok_def split: option.splits)
  moreover have "bt_ok ?S" "bt_ok (cs_entries (joined a b))"
    using assms(1) by (simp_all add: joined_def state_ok_def bt_ok_put_sources bt_ok_put_entries)
  ultimately show ?thesis by (simp add: state_ok_def)
qed

lemma bounded_no_conflict:
  assumes "state_le a d" "state_le b d"
  shows "\<not> sources_conflict a b" "\<not> entries_conflict a b"
proof -
  show "\<not> sources_conflict a b"
    using assms by (auto simp: sources_conflict_def state_le_def map_le_def dom_def)
  show "\<not> entries_conflict a b"
  proof
    assume "entries_conflict a b"
    then obtain k e e' where k: "map_of (cs_entries a) k = Some e" "map_of (cs_entries b) k = Some e'"
      "entry_content e \<noteq> entry_content e'" by (auto simp: entries_conflict_def)
    obtain x where "map_of (cs_entries d) k = Some x" "entry_le e x" using assms(1) k(1) by (auto simp: state_le_def)
    moreover obtain y where "map_of (cs_entries d) k = Some y" "entry_le e' y" using assms(2) k(2) by (auto simp: state_le_def)
    ultimately show False using k(3) by (simp add: entry_le_def)
  qed
qed

interpretation union: partial_join "state_ok env" state_le "CompactState_union env" for env
proof
  show "state_le a a" for a by (rule state_le_refl)
  show "state_le a b \<Longrightarrow> state_le b c \<Longrightarrow> state_le a c" for a b c by (rule state_le_trans)
  show "state_ok env a \<Longrightarrow> state_ok env b \<Longrightarrow> state_le a b \<Longrightarrow> state_le b a \<Longrightarrow> a = b" for a b
    by (rule state_le_antisym)
  show "state_ok env c \<and> state_le a c \<and> state_le b c \<and> (\<forall>d. state_ok env d \<longrightarrow> state_le a d \<longrightarrow> state_le b d \<longrightarrow> state_le c d)"
    if "state_ok env a" "state_ok env b" "CompactState_union env a b = Inr c" for a b c
  proof -
    have "\<not> sources_conflict a b" "\<not> entries_conflict a b" "c = joined a b"
      using that(3) by (auto simp: union_eq [OF that(1,2)] split: if_splits)
    then show ?thesis using joined_ok joined_upper joined_least that(1,2) by blast
  qed
  show "\<exists>c. CompactState_union env a b = Inr c"
    if "state_ok env a" "state_ok env b" "state_ok env d" "state_le a d" "state_le b d" for a b d
    using bounded_no_conflict [OF that(4,5)] by (simp add: union_eq [OF that(1,2)])
qed

section \<open>Properties of the reducer\<close>

text \<open>Every accepted delta leads to a well-formed state that contains the old one.\<close>

lemma put_sources_self: "bt_ok S \<Longrightarrow> fold put_source S S = S"
  by (rule bt_ext) (auto simp: bt_ok_put_sources map_of_put_sources bt_ok_distinct map_add_def split: option.splits)

lemma apply_entry_accepted:
  assumes "map_of D \<subseteq>\<^sub>m map_of (cs_sources s)" "apply_entry env D s e = Inr s'"
  shows "entry_ok env D (entry_id env e) e"
proof -
  have "provenance_ok D D r" if r: "provenance_ok D (cs_sources s) r" for r
  proof -
    obtain x where "map_of D (rf_source r) = Some x" using r by (auto simp: provenance_ok_def)
    moreover from this have "map_of (cs_sources s) (rf_source r) = Some x" using assms(1) by (metis domI map_le_def)
    ultimately show ?thesis using r by (simp add: provenance_ok_def)
  qed
  then show ?thesis using assms(2) by (auto simp: apply_entry_def entry_ok_def Let_def split: if_splits)
qed

lemma apply_entry_grows:
  assumes "state_ok env s" "map_of D \<subseteq>\<^sub>m map_of (cs_sources s)" "apply_entry env D s e = Inr s'"
  shows "state_ok env s' \<and> state_le s s' \<and> cs_sources s' = cs_sources s
    \<and> (\<exists>d. map_of (cs_entries s') (entry_id env e) = Some d \<and> entry_le e d)"
proof -
  let ?k = "entry_id env e" and ?S = "cs_sources s"
  note ok = apply_entry_accepted [OF assms(2,3)]
  have ag: "agrees (map_of (cs_entries s) ?k) e" and s': "s' = s\<lparr>cs_entries := put_entry (?k, e) (cs_entries s)\<rparr>"
    using apply_entry_eq [OF ok assms(2)] assms(3) by (auto split: if_splits)
  let ?o = "\<lparr>cs_sources = ?S, cs_entries = [(?k, e)]\<rparr>"
  have o: "state_ok env ?o"
    using entry_ok_mono [OF assms(2) ok] assms(1) by (auto simp: state_ok_def bt_ok_def)
  have c: "\<not> sources_conflict s ?o" "\<not> entries_conflict s ?o"
    using ag by (auto simp: sources_conflict_def entries_conflict_def split: if_splits)
  have j: "s' = joined s ?o"
    using assms(1) by (simp add: s' joined_def put_sources_self state_ok_def)
  then have "state_le ?o s'" using joined_upper [OF o c] by simp
  then have "\<exists>d. map_of (cs_entries s') ?k = Some d \<and> entry_le e d" by (simp add: state_le_def)
  moreover have "cs_sources s' = ?S" by (simp add: s')
  ultimately show ?thesis using joined_ok [OF assms(1) o c] joined_upper [OF o c] j by simp
qed

lemma apply_entries_grows:
  assumes "state_ok env s" "map_of D \<subseteq>\<^sub>m map_of (cs_sources s)" "apply_entries env D s es = Inr s'"
  shows "state_ok env s' \<and> state_le s s' \<and> cs_sources s' = cs_sources s
    \<and> (\<forall>e \<in> set es. \<exists>d. map_of (cs_entries s') (entry_id env e) = Some d \<and> entry_le e d)"
  using assms
proof (induction es arbitrary: s)
  case Nil
  then show ?case by (simp add: state_le_refl)
next
  case (Cons e es)
  obtain m where m: "apply_entry env D s e = Inr m" "apply_entries env D m es = Inr s'"
    using Cons.prems(3) by (auto simp: res_iffs)
  note g = apply_entry_grows [OF Cons.prems(1,2) m(1)]
  have h: "state_ok env s' \<and> state_le m s' \<and> cs_sources s' = cs_sources m
    \<and> (\<forall>e \<in> set es. \<exists>d. map_of (cs_entries s') (entry_id env e) = Some d \<and> entry_le e d)"
    using g Cons.prems(2) by (intro Cons.IH m(2)) simp_all
  obtain d where "map_of (cs_entries m) (entry_id env e) = Some d" "entry_le e d" using g by blast
  moreover from this(1) obtain d' where "map_of (cs_entries s') (entry_id env e) = Some d'" "entry_le d d'"
    using h by (auto simp: state_le_def) blast
  ultimately show ?case using g h state_le_trans [of s m s'] entry_le_trans [of e d d'] by auto
qed

lemma apply_sources_grows:
  assumes "state_ok env s" "bt_ok D" "apply_sources (cs_sources s) D = Inr S"
  shows "state_ok env (s\<lparr>cs_sources := S\<rparr>) \<and> state_le s (s\<lparr>cs_sources := S\<rparr>) \<and> map_of D \<subseteq>\<^sub>m map_of S"
proof -
  note d = bt_ok_distinct [OF assms(2)]
  have acc: "\<forall>p \<in> set D. \<not> source_rejected (cs_sources s) (fst p) (snd p)" and S: "S = fold put_source D (cs_sources s)"
    using assms(3) by (auto simp: apply_sources_eq [OF d] split: if_splits)
  have m: "map_of S = map_of (cs_sources s) ++ map_of D" by (simp add: S map_of_put_sources [OF d])
  have D: "source_ok k r \<and> (\<forall>x. map_of (cs_sources s) k = Some x \<longrightarrow> x = r)" if "map_of D k = Some r" for k r
    using acc map_of_SomeD [OF that] by (force simp: source_rejected_def source_ok_def split: option.splits)
  have sub: "map_of (cs_sources s) \<subseteq>\<^sub>m map_of S" using D by (auto simp: m map_le_def map_add_def split: option.splits)
  have "source_ok k r" if "map_of S k = Some r" for k r
    using that D assms(1) by (auto simp: m map_add_def state_ok_def split: option.splits)
  then have "state_ok env (s\<lparr>cs_sources := S\<rparr>)"
    using assms(1) entry_ok_mono [OF sub] by (auto simp: state_ok_def S bt_ok_put_sources)
  moreover have "state_le s (s\<lparr>cs_sources := S\<rparr>)" using sub by (auto simp: state_le_def entry_le_def)
  ultimately show ?thesis by (simp add: m map_le_map_add)
qed

text \<open>
  the reducer only adds.  An accepted delta turns a well-formed state into a well-formed state that
  contains the old one, with every source bound as before and every entry kept with all its history,
  and that contains every source and every entry of the delta under its content identity; the empty
  state is well-formed, so every state built from deltas is.
\<close>
theorem apply_delta_grows:
  assumes "state_ok env s" "bt_ok (de_sources delta)" "apply_delta env s delta = Inr s'"
  shows "state_ok env s' \<and> state_le s s' \<and> map_of (de_sources delta) \<subseteq>\<^sub>m map_of (cs_sources s')
    \<and> (\<forall>e \<in> set (de_entries delta). \<exists>d. map_of (cs_entries s') (entry_id env e) = Some d \<and> entry_le e d)
    \<and> state_ok env CompactState_default"
proof -
  obtain S where S: "apply_sources (cs_sources s) (de_sources delta) = Inr S"
    "apply_entries env (de_sources delta) (s\<lparr>cs_sources := S\<rparr>) (de_entries delta) = Inr s'"
    using assms(3) by (auto simp: apply_delta_def res_iffs)
  note g = apply_sources_grows [OF assms(1,2) S(1)]
  have "state_ok env CompactState_default" by (simp add: state_ok_def CompactState_default_def bt_ok_def)
  then show ?thesis using apply_entries_grows [OF _ _ S(2)] g state_le_trans by auto
qed

text \<open>The least well-formed state that contains the given ones.\<close>

definition least_state :: "json_env \<Rightarrow> CompactState list \<Rightarrow> CompactState \<Rightarrow> bool" where
  "least_state env ss x \<longleftrightarrow> state_ok env x \<and> (\<forall>s \<in> set ss. state_le s x)
     \<and> (\<forall>d. state_ok env d \<longrightarrow> (\<forall>s \<in> set ss. state_le s d) \<longrightarrow> state_le x d)"

lemma conflict_sym: "sources_conflict a b = sources_conflict b a" "entries_conflict a b = entries_conflict b a"
  unfolding sources_conflict_def entries_conflict_def by (metis+)

lemma union_commute:
  assumes "state_ok env a" "state_ok env b"
  shows "CompactState_union env a b = CompactState_union env b a"
proof (cases "CompactState_union env a b")
  case (Inl e)
  then show ?thesis
    by (simp add: union_eq [OF assms] union_eq [OF assms(2,1)] conflict_sym [of b a] split: if_splits)
next
  case (Inr d)
  then have "CompactState_union env b a = Inr d"
    using union.join_lub [OF assms] union.join_lub [OF assms(2,1)] by (simp add: insert_commute)
  then show ?thesis using Inr by simp
qed

lemma union_least:
  assumes "state_ok env a" "state_ok env b" "state_ok env c"
  shows "CompactState_union env a b = Inr x \<longleftrightarrow> least_state env [a, b] x"
    and "res_bind (CompactState_union env a b) (\<lambda>ab. CompactState_union env ab c) = Inr x \<longleftrightarrow> least_state env [a, b, c] x"
    and "res_bind (CompactState_union env b c) (\<lambda>bc. CompactState_union env a bc) = Inr x \<longleftrightarrow> least_state env [a, b, c] x"
proof -
  show "CompactState_union env a b = Inr x \<longleftrightarrow> least_state env [a, b] x"
    unfolding union.join_lub [OF assms(1,2)] by (simp add: union.lub_def least_state_def)
  have nested: "res_bind (CompactState_union env a b) (\<lambda>ab. CompactState_union env ab c) = Inr x \<longleftrightarrow> union.lub env {a, b, c} x"
    using union.lub_nested [OF assms, of x] by (simp add: res_bind_Inr_iff)
  have lub3: "union.lub env {a, b, c} x \<longleftrightarrow> least_state env [a, b, c] x" by (simp add: union.lub_def least_state_def)
  show "res_bind (CompactState_union env a b) (\<lambda>ab. CompactState_union env ab c) = Inr x \<longleftrightarrow> least_state env [a, b, c] x"
    using nested lub3 by blast
  have "CompactState_union env bc a = CompactState_union env a bc" if "CompactState_union env b c = Inr bc" for bc
    using union.least [OF assms(2,3) that] union_commute assms(1) by blast
  then show "res_bind (CompactState_union env b c) (\<lambda>bc. CompactState_union env a bc) = Inr x \<longleftrightarrow> least_state env [a, b, c] x"
    using union.associative [OF assms, of x] nested lub3 by (auto simp: res_bind_Inr_iff)
qed

text \<open>
  C19: the union is order-free, and it is the least common extension.  On well-formed states it fails
  exactly when one name is bound to two different sources (\<open>SourceError\<close>) or, where that is not so, when
  one identity carries two different contents (\<open>IdentityError\<close>); otherwise its result is the least
  well-formed state that contains both.  It is commutative, errors included, and idempotent; and grouping
  does not matter: three states united from the left and from the right give a result in the same cases,
  and then it is the least well-formed state that contains all three.
\<close>
theorem compact_union_order_free:
  assumes "state_ok env a" "state_ok env b" "state_ok env c"
  shows "(CompactState_union env a b = Inl SourceError \<longleftrightarrow>
        (\<exists>k r r'. map_of (cs_sources a) k = Some r \<and> map_of (cs_sources b) k = Some r' \<and> r \<noteq> r'))
    \<and> (CompactState_union env a b = Inl IdentityError \<longleftrightarrow>
        \<not> (\<exists>k r r'. map_of (cs_sources a) k = Some r \<and> map_of (cs_sources b) k = Some r' \<and> r \<noteq> r')
        \<and> (\<exists>k e e'. map_of (cs_entries a) k = Some e \<and> map_of (cs_entries b) k = Some e' \<and> entry_content e \<noteq> entry_content e'))
    \<and> (\<forall>err. CompactState_union env a b = Inl err \<longrightarrow> err \<in> {SourceError, IdentityError})
    \<and> (CompactState_union env a b = Inr x \<longleftrightarrow> least_state env [a, b] x)
    \<and> CompactState_union env a b = CompactState_union env b a
    \<and> CompactState_union env a a = Inr a
    \<and> (res_bind (CompactState_union env a b) (\<lambda>ab. CompactState_union env ab c) = Inr x \<longleftrightarrow> least_state env [a, b, c] x)
    \<and> (res_bind (CompactState_union env b c) (\<lambda>bc. CompactState_union env a bc) = Inr x \<longleftrightarrow> least_state env [a, b, c] x)"
  unfolding sources_conflict_def [symmetric] entries_conflict_def [symmetric]
  using union_eq [OF assms(1,2)] union_least [OF assms, of x] union_commute [OF assms(1,2)] union.idempotent [OF assms(1)]
  by (intro conjI) auto

section \<open>A sample state\<close>

definition sample_env :: json_env where
  "sample_env = \<lparr>je_sha256 = (\<lambda>bs. [word_of_nat (length bs)]), je_quote = (\<lambda>s. CHR 0x22 # s @ [CHR 0x22]), je_number = int_decimal\<rparr>"

definition sample_entry :: "string \<Rightarrow> StateEntry" where
  "sample_entry key = \<lparr>st_kind = Fact, st_scope = ''build'', st_key = key, st_text = ''ok'',
     st_provenance = {SourceRef ''notes'' (replicate 64 (CHR ''a'')) 0 16}, st_supersedes = {}, st_contradicts = {}\<rparr>"

definition sample_delta :: "string \<Rightarrow> StateDelta" where
  "sample_delta key = \<lparr>de_sources = [(''notes'', \<lparr>sr_artifact_id = replicate 64 (CHR ''a''), sr_byte_len = 128\<rparr>)],
     de_entries = [sample_entry key]\<rparr>"

definition sample_state :: "string \<Rightarrow> CompactState" where
  "sample_state key = \<lparr>cs_sources = de_sources (sample_delta key),
     cs_entries = [(entry_id sample_env (sample_entry key), sample_entry key)]\<rparr>"

lemma sample_applied:
  assumes "\<not> blank key"
  shows "apply_delta sample_env CompactState_default (sample_delta key) = Inr (sample_state key)"
proof -
  have "\<not> blank ''notes''" "\<not> blank ''build''" "lower_hex64 (replicate 64 (CHR ''a''))" by code_simp+
  then show ?thesis using assms
    by (simp add: apply_delta_def CompactState_default_def sample_delta_def sample_state_def source_rejected_def
        apply_entry_def sample_entry_def provenance_ok_def Let_def)
qed

lemma sample_ok:
  assumes "\<not> blank key"
  shows "state_ok sample_env (sample_state key)"
proof -
  have "state_ok sample_env CompactState_default" by (simp add: state_ok_def CompactState_default_def bt_ok_def)
  moreover have "bt_ok (de_sources (sample_delta key))" by (simp add: sample_delta_def bt_ok_def)
  moreover obtain S where "apply_sources [] (de_sources (sample_delta key)) = Inr S"
    "apply_entries sample_env (de_sources (sample_delta key)) (CompactState_default\<lparr>cs_sources := S\<rparr>)
       (de_entries (sample_delta key)) = Inr (sample_state key)"
    using sample_applied [OF assms] by (auto simp: apply_delta_def res_iffs CompactState_default_def)
  ultimately show ?thesis
    using apply_sources_grows [of sample_env CompactState_default "de_sources (sample_delta key)" S] apply_entries_grows
    by (auto simp: CompactState_default_def)
qed

theorem apply_delta_grows_witness:
  "state_ok sample_env (sample_state ''a'') \<and> state_le CompactState_default (sample_state ''a'')"
proof -
  have "\<not> blank ''a''" by code_simp
  moreover have "state_ok sample_env CompactState_default" by (simp add: state_ok_def CompactState_default_def bt_ok_def)
  moreover have "bt_ok (de_sources (sample_delta ''a''))" by (simp add: sample_delta_def bt_ok_def)
  ultimately show ?thesis using apply_delta_grows sample_applied by blast
qed

theorem compact_union_order_free_witness:
  "CompactState_union sample_env (sample_state ''a'') (sample_state ''bc'')
     = CompactState_union sample_env (sample_state ''bc'') (sample_state ''a'')
   \<and> CompactState_union sample_env (sample_state ''a'') (sample_state ''bc'') \<noteq> Inl SourceError"
proof -
  have "\<not> blank ''a''" "\<not> blank ''bc''" by code_simp+
  note union = compact_union_order_free [OF sample_ok sample_ok sample_ok, of "''a''" "''bc''" "''a''", OF this(1,2,1)]
  have "cs_sources (sample_state ''bc'') = cs_sources (sample_state ''a'')"
    by (simp add: sample_state_def sample_delta_def)
  then have "\<not> (\<exists>k r r'. map_of (cs_sources (sample_state ''a'')) k = Some r
      \<and> map_of (cs_sources (sample_state ''bc'')) k = Some r' \<and> r \<noteq> r')" by simp
  then show ?thesis using union by blast
qed

end
