(* ===== verification/Tool_Bridge.thy ===== *)
theory Tool_Bridge
  imports Approval Firewall Tool_Types
begin

text \<open>
  The tool bridge (\<open>workflow-runtime/src/bridge.rs\<close>): the intersection of authority layers, the
  registry of tools, the dispatch of a call with its approval, idempotency and output bounds.

  A handler runs on a thread of its own.  What the bridge sees of it is a parameter of each call:
  whether the thread could be started, and what the wait on its channel returned (\<open>None\<close> when the
  time ran out or the thread died).  The executions that were started are recorded.  JSON schema
  validation is third-party code, the artifact store a trait: both are parameters.
\<close>

section \<open>Authority\<close>

record CapabilityIntersection =
  ci_runtime_capabilities :: "SandboxCapability list"
  ci_sandbox_capabilities :: "SandboxCapability list"
  ci_workflow_tools :: "string list"
  ci_skill_tools :: "string list"
  ci_caller_scopes :: "string list"
  ci_tenant_tools :: "string list"
  ci_role_tools :: "string list"

definition CapabilityIntersection_empty :: CapabilityIntersection where
  "CapabilityIntersection_empty =
     \<lparr>ci_runtime_capabilities = [], ci_sandbox_capabilities = [], ci_workflow_tools = [], ci_skill_tools = [],
      ci_caller_scopes = [], ci_tenant_tools = [], ci_role_tools = []\<rparr>"

definition all_for_tool :: "string \<Rightarrow> SandboxCapability list \<Rightarrow> CapabilityIntersection" where
  "all_for_tool name capabilities =
     \<lparr>ci_runtime_capabilities = capabilities, ci_sandbox_capabilities = capabilities, ci_workflow_tools = [name],
      ci_skill_tools = [name], ci_caller_scopes = [], ci_tenant_tools = [name], ci_role_tools = [name]\<rparr>"

datatype CapabilityIntersectionError = ToolNotAllowed | IntersectionDenied | ScopeDenied

record EffectiveToolCapabilities =
  ec_tool_name :: string
  ec_capabilities :: "SandboxCapability list"

definition capability_missing :: "CapabilityIntersection \<Rightarrow> SandboxCapability \<Rightarrow> bool" where
  "capability_missing authority capability \<longleftrightarrow>
     capability \<notin> set (ci_runtime_capabilities authority) \<or> capability \<notin> set (ci_sandbox_capabilities authority)"

definition authorize_tool ::
    "CapabilityIntersection \<Rightarrow> 's ToolRegistration \<Rightarrow> CapabilityIntersectionError + EffectiveToolCapabilities" where
  "authorize_tool authority registration =
     (let name = rg_name registration in
      if name \<notin> set (ci_workflow_tools authority) \<or> name \<notin> set (ci_skill_tools authority)
        \<or> name \<notin> set (ci_tenant_tools authority) \<or> name \<notin> set (ci_role_tools authority) then Inl ToolNotAllowed
      else if list_ex (\<lambda>scope. scope \<notin> set (ci_caller_scopes authority)) (rg_required_scopes registration)
      then Inl ScopeDenied
      else if list_ex (capability_missing authority) (rg_required_capabilities registration) then Inl IntersectionDenied
      else Inr \<lparr>ec_tool_name = name, ec_capabilities = rg_required_capabilities registration\<rparr>)"

definition authorize_capabilities :: "CapabilityIntersection \<Rightarrow> SandboxCapability list \<Rightarrow> ToolBridgeErrorKind + unit" where
  "authorize_capabilities authority capabilities =
     (if list_ex (capability_missing authority) capabilities then Inl SandboxDenied else Inr ())"

section \<open>The registry\<close>

text \<open>What a handler declares; what it does is seen through its replies.\<close>

record ToolHandler =
  th_required_capabilities :: "jvalue \<Rightarrow> ToolBridgeErrorKind + SandboxCapability list"
  th_requires_approval :: "jvalue \<Rightarrow> ToolBridgeErrorKind + bool"

type_synonym 's RegisteredTool = "'s ToolRegistration \<times> ToolHandler"

text \<open>\<open>tb_in_flight\<close> holds the keys of the executions whose reply has not been received.\<close>

record 's ToolBridge =
  tb_tools :: "string \<rightharpoonup> 's RegisteredTool"
  tb_idempotent_results :: "string \<rightharpoonup> jvalue ToolEnvelope"
  tb_in_flight :: "string set"

definition ToolBridge_new :: "'s ToolBridge" where
  "ToolBridge_new = \<lparr>tb_tools = Map.empty, tb_idempotent_results = Map.empty, tb_in_flight = {}\<rparr>"

definition register_shared ::
    "'s ToolRegistration \<Rightarrow> ToolHandler \<Rightarrow> 's ToolBridge \<Rightarrow> ToolBridgeErrorKind + 's ToolBridge" where
  "register_shared registration handler bridge =
     (if tb_tools bridge (rg_name registration) \<noteq> None then Inl DuplicateTool
      else Inr (bridge\<lparr>tb_tools := (tb_tools bridge)(rg_name registration \<mapsto> (registration, handler))\<rparr>))"

fun select_tools :: "(string \<rightharpoonup> 't) \<Rightarrow> string list \<Rightarrow> (string \<rightharpoonup> 't) \<Rightarrow> ToolBridgeErrorKind + (string \<rightharpoonup> 't)" where
  "select_tools all [] tools = Inr tools"
| "select_tools all (name # names) tools =
     (case all name of None \<Rightarrow> Inl UnknownTool | Some tool \<Rightarrow> select_tools all names (tools(name \<mapsto> tool)))"

definition select :: "string list \<Rightarrow> 's ToolBridge \<Rightarrow> ToolBridgeErrorKind + 's ToolBridge" where
  "select names bridge =
     res_bind (select_tools (tb_tools bridge) names Map.empty) (\<lambda>tools.
       Inr \<lparr>tb_tools = tools, tb_idempotent_results = Map.empty, tb_in_flight = {}\<rparr>)"

section \<open>Output\<close>

definition optional :: "string \<Rightarrow> jvalue option \<Rightarrow> (string \<times> jvalue) list" where
  "optional name v = (case v of None \<Rightarrow> [] | Some value \<Rightarrow> [(name, value)])"

definition ToolProvenance_value :: "ToolProvenance \<Rightarrow> jvalue" where
  "ToolProvenance_value p = JObj [(''tool_id'', JStr (pr_tool_id p)), (''tool_version'', JStr (pr_tool_version p))]"

fun ToolFailure_serde :: "ToolFailure \<Rightarrow> string" where
  "ToolFailure_serde FailInvalidInput = ''invalid_input''"
| "ToolFailure_serde FailNotFound = ''not_found''"
| "ToolFailure_serde FailUnavailable = ''unavailable''"
| "ToolFailure_serde FailInternal = ''internal''"

fun ToolEnvelope_value :: "jvalue ToolEnvelope \<Rightarrow> jvalue" where
  "ToolEnvelope_value (EnvelopeSuccess payload provenance offset artifact) =
     JObj ([(''status'', JStr ''success''), (''payload'', payload), (''provenance'', ToolProvenance_value provenance)]
       @ optional ''next_offset'' (map_option (\<lambda>n. JNum (uint n)) offset) @ optional ''artifact_id'' (map_option JStr artifact))"
| "ToolEnvelope_value (EnvelopeEmpty provenance) =
     JObj [(''status'', JStr ''empty''), (''provenance'', ToolProvenance_value provenance)]"
| "ToolEnvelope_value (EnvelopeFailure failure provenance) =
     JObj [(''status'', JStr ''failure''), (''failure'', JStr (ToolFailure_serde failure)),
           (''provenance'', ToolProvenance_value provenance)]"

definition envelope_bytes :: "json_env \<Rightarrow> jvalue ToolEnvelope \<Rightarrow> string" where
  "envelope_bytes env result = emit (je_quote env) (je_number env) (ToolEnvelope_value result)"

fun map_payload :: "('v \<Rightarrow> 'w) \<Rightarrow> 'v ToolEnvelope \<Rightarrow> 'w ToolEnvelope" where
  "map_payload f (EnvelopeSuccess payload provenance offset artifact) = EnvelopeSuccess (f payload) provenance offset artifact"
| "map_payload f (EnvelopeEmpty provenance) = EnvelopeEmpty provenance"
| "map_payload f (EnvelopeFailure failure provenance) = EnvelopeFailure failure provenance"

text \<open>
  \<open>String::from_utf8_lossy\<close>: the length of the next sequence and whether it is valid; an invalid
  sequence is its longest valid prefix, at least one byte, and becomes U+FFFD.
\<close>

definition cont_byte :: "string \<Rightarrow> nat \<Rightarrow> nat \<Rightarrow> nat \<Rightarrow> bool" where
  "cont_byte s i lo hi \<longleftrightarrow> i < length s \<and> lo \<le> (of_char (s ! i) :: nat) \<and> (of_char (s ! i) :: nat) \<le> hi"

definition utf8_step :: "string \<Rightarrow> nat \<times> bool" where
  "utf8_step s =
     (let b = (of_char (hd s) :: nat) in
      if b < 0x80 then (1, True)
      else if 0xC2 \<le> b \<and> b \<le> 0xDF then (if cont_byte s 1 0x80 0xBF then (2, True) else (1, False))
      else if 0xE0 \<le> b \<and> b \<le> 0xEF then
        (if \<not> cont_byte s 1 (if b = 0xE0 then 0xA0 else 0x80) (if b = 0xED then 0x9F else 0xBF) then (1, False)
         else if \<not> cont_byte s 2 0x80 0xBF then (2, False) else (3, True))
      else if 0xF0 \<le> b \<and> b \<le> 0xF4 then
        (if \<not> cont_byte s 1 (if b = 0xF0 then 0x90 else 0x80) (if b = 0xF4 then 0x8F else 0xBF) then (1, False)
         else if \<not> cont_byte s 2 0x80 0xBF then (2, False)
         else if \<not> cont_byte s 3 0x80 0xBF then (3, False) else (4, True))
      else (1, False))"

lemma utf8_step_pos: "0 < fst (utf8_step s)"
  by (simp add: utf8_step_def Let_def)

function from_utf8_lossy :: "string \<Rightarrow> string" where
  "from_utf8_lossy s =
     (if s = [] then []
      else case utf8_step s of (n, valid) \<Rightarrow>
        (if valid then take n s else [CHR 0xEF, CHR 0xBF, CHR 0xBD]) @ from_utf8_lossy (drop n s))"
  by pat_completeness auto
termination
proof (relation "measure length", goal_cases)
  case (2 s n valid)
  have "0 < n" using utf8_step_pos [of s] 2(2) by (metis fst_conv)
  then show ?case using 2(1) by (cases s) simp_all
qed simp

declare from_utf8_lossy.simps [simp del]

definition paged_candidate :: "string \<Rightarrow> jvalue ToolEnvelope \<Rightarrow> string \<Rightarrow> nat \<Rightarrow> jvalue ToolEnvelope" where
  "paged_candidate bytes result handle preview_len =
     with_artifact (map_payload (\<lambda>_. JObj [(''preview'', JStr (from_utf8_lossy (take preview_len bytes)))]) result)
       handle (Some (word_of_nat preview_len))"

text \<open>The loop that shortens the preview; every round removes at least one byte.\<close>

function page_loop ::
    "json_env \<Rightarrow> string \<Rightarrow> nat \<Rightarrow> jvalue ToolEnvelope \<Rightarrow> string \<Rightarrow> nat \<Rightarrow> ToolBridgeErrorKind + jvalue ToolEnvelope" where
  "page_loop env bytes limit result handle preview_len =
     (let candidate = paged_candidate bytes result handle preview_len;
          candidate_len = length (envelope_bytes env candidate)
      in if candidate_len \<le> limit then Inr candidate
         else if preview_len = 0 then Inl OutputTooLarge
         else page_loop env bytes limit result handle (preview_len - max (candidate_len - limit) 1))"
  by pat_completeness auto
termination
  by (relation "measure (\<lambda>(env, bytes, limit, result, handle, preview_len). preview_len)") auto

declare page_loop.simps [simp del]

text \<open>The artifact store: \<open>put\<close> returns a handle or fails.\<close>

type_synonym 'a artifact_put = "'a \<Rightarrow> byte list \<Rightarrow> string option \<times> 'a"

definition bound_output ::
    "json_env \<Rightarrow> 'a artifact_put \<Rightarrow> jvalue ToolEnvelope \<Rightarrow> 's ToolRegistration \<Rightarrow> 'a
       \<Rightarrow> (ToolBridgeErrorKind + jvalue ToolEnvelope) \<times> 'a" where
  "bound_output env put result registration artifacts =
     (let bytes = envelope_bytes env result; limit = unat (rg_inline_output_limit_bytes registration) in
      if length bytes \<le> limit then (Inr result, artifacts)
      else if \<not> rg_paging registration then (Inl OutputTooLarge, artifacts)
      else case put artifacts (str_bytes bytes) of
        (None, artifacts) \<Rightarrow> (Inl ArtifactFailed, artifacts)
      | (Some handle, artifacts) \<Rightarrow> (page_loop env bytes limit result handle (min (length bytes) limit), artifacts))"

text \<open>\<open>jsonschema\<close>: \<open>None\<close> when the schema itself does not compile.\<close>

type_synonym 's schema_check = "'s \<Rightarrow> jvalue \<Rightarrow> bool option"

definition validate_against :: "'s schema_check \<Rightarrow> jvalue ToolEnvelope \<Rightarrow> 's \<Rightarrow> ToolBridgeErrorKind + unit" where
  "validate_against valid result schema =
     (if valid schema (ToolEnvelope_value result) = Some True then Inr () else Inl HandlerFailed)"

definition validate_handler_output :: "'s schema_check \<Rightarrow> jvalue ToolEnvelope \<Rightarrow> 's ToolRegistration \<Rightarrow> ToolBridgeErrorKind + unit" where
  "validate_handler_output valid result registration =
     (if artifact_id result \<noteq> None \<or> next_offset result \<noteq> None then Inl HandlerFailed
      else validate_against valid result (rg_handler_output_schema registration))"

section \<open>Dispatch\<close>

definition preflight ::
    "'s schema_check \<Rightarrow> 's ToolBridge \<Rightarrow> string \<Rightarrow> jvalue \<Rightarrow> CapabilityIntersection
       \<Rightarrow> ToolBridgeErrorKind + EffectiveToolCapabilities" where
  "preflight valid bridge name arguments authority =
     (case tb_tools bridge name of
        None \<Rightarrow> Inl UnknownTool
      | Some (registration, handler) \<Rightarrow>
          (case authorize_tool authority registration of
             Inl _ \<Rightarrow> Inl ToolBridgeErrorKind.CapabilityDenied
           | Inr effective \<Rightarrow>
               if \<not> tf_read_only (rg_flags registration) \<and> rg_idempotency registration \<noteq> StableKey
               then Inl IdempotencyRequired
               else if valid (rg_input_schema registration) arguments \<noteq> Some True then Inl InvalidInput
               else Inr effective))"

definition key_material :: "string \<Rightarrow> string \<Rightarrow> string \<Rightarrow> string \<Rightarrow> byte list" where
  "key_material tool_name actor call_id fingerprint =
     str_bytes tool_name @ [0] @ str_bytes actor @ [0] @ str_bytes call_id @ [0] @ str_bytes fingerprint"

definition stable_idempotency_key :: "json_env \<Rightarrow> string \<Rightarrow> string \<Rightarrow> string \<Rightarrow> string \<Rightarrow> string" where
  "stable_idempotency_key env tool_name actor call_id fingerprint =
     hex (je_sha256 env (key_material tool_name actor call_id fingerprint))"

record ToolCallContext =
  cx_call_id :: string
  cx_actor :: string
  cx_argument_fingerprint :: string
  cx_idempotency_key :: string
  cx_implementation_digest :: string
  cx_deadline :: Duration

definition duration_saturating_add :: "Duration \<Rightarrow> Duration \<Rightarrow> Duration" where
  "duration_saturating_add a b = (case duration_checked_add a b of Some d \<Rightarrow> d | None \<Rightarrow> duration_limit - 1)"

text \<open>What the host does during one call.\<close>

record host =
  ho_spawned :: bool
  ho_reply :: "(ToolBridgeErrorKind + jvalue ToolEnvelope) option"

text \<open>An execution that was started: the tool, the capabilities of its sandbox, and its context.\<close>

type_synonym execution = "string \<times> SandboxCapability list \<times> ToolCallContext"

text \<open>The gates before a handler may run: the capabilities, and whether the call is effectful.\<close>

definition call_gates ::
    "json_env \<Rightarrow> 's schema_check \<Rightarrow> 's ToolBridge \<Rightarrow> jvalue ToolCall \<Rightarrow> CapabilityIntersection \<Rightarrow> ApprovalLedger option \<Rightarrow> Duration
       \<Rightarrow> ToolBridgeErrorKind + 's ToolRegistration \<times> SandboxCapability list \<times> bool" where
  "call_gates env valid bridge call authority approvals now =
     res_bind (preflight valid bridge (tc_name call) (tc_arguments call) authority) (\<lambda>effective.
       case tb_tools bridge (tc_name call) of
         None \<Rightarrow> Inl UnknownTool
       | Some (registration, handler) \<Rightarrow>
           res_bind (th_required_capabilities handler (tc_arguments call)) (\<lambda>needed.
           let capabilities = remdups_adj (sort_key SandboxCapability_as_str (ec_capabilities effective @ needed)) in
           res_bind (authorize_capabilities authority capabilities) (\<lambda>_.
           res_bind (if tf_read_only (rg_flags registration) then th_requires_approval handler (tc_arguments call) else Inr True)
             (\<lambda>effectful.
             if \<not> effectful then Inr (registration, capabilities, False)
             else case approvals of
               None \<Rightarrow> Inl ApprovalDenied
             | Some ledger \<Rightarrow>
                 (case ApprovalLedger_authorize (digest env) ledger (tc_name call) (tc_call_id call) (tc_arguments call)
                         (tc_actor call) now of
                    Inl _ \<Rightarrow> Inl ApprovalDenied
                  | Inr _ \<Rightarrow> Inr (registration, capabilities, True))))))"

definition call_context :: "json_env \<Rightarrow> jvalue ToolCall \<Rightarrow> 's ToolRegistration \<Rightarrow> Duration \<Rightarrow> ToolCallContext" where
  "call_context env call registration now =
     (let fingerprint = digest env (tc_arguments call) in
      \<lparr>cx_call_id = tc_call_id call, cx_actor = tc_actor call, cx_argument_fingerprint = fingerprint,
       cx_idempotency_key = stable_idempotency_key env (tc_name call) (tc_actor call) (tc_call_id call) fingerprint,
       cx_implementation_digest = rg_implementation_digest registration,
       cx_deadline = duration_saturating_add now (unat (rg_timeout_ms registration) * 1000000)\<rparr>)"

text \<open>The checks on a reply, before it is returned.\<close>

definition check_reply ::
    "json_env \<Rightarrow> 's schema_check \<Rightarrow> 'a artifact_put \<Rightarrow> 's ToolRegistration \<Rightarrow> jvalue ToolEnvelope \<Rightarrow> 'a
       \<Rightarrow> (ToolBridgeErrorKind + jvalue ToolEnvelope) \<times> 'a" where
  "check_reply env valid put registration result artifacts =
     (if envelope_provenance result \<noteq> rg_provenance registration then (Inl ProvenanceMismatch, artifacts)
      else case validate_handler_output valid result registration of
        Inl e \<Rightarrow> (Inl e, artifacts)
      | Inr _ \<Rightarrow>
          (case bound_output env put result registration artifacts of
             (Inl e, artifacts) \<Rightarrow> (Inl e, artifacts)
           | (Inr result, artifacts) \<Rightarrow>
               (res_bind (validate_against valid result (rg_output_schema registration)) (\<lambda>_. Inr result), artifacts)))"

text \<open>\<open>wait_for_in_flight\<close>: a reply that arrives, whatever it is, ends the execution.\<close>

definition wait_for_in_flight ::
    "host \<Rightarrow> string \<Rightarrow> 's ToolBridge \<Rightarrow> (ToolBridgeErrorKind + jvalue ToolEnvelope) \<times> 's ToolBridge" where
  "wait_for_in_flight host key bridge =
     (case ho_reply host of
        None \<Rightarrow> (Inl HandlerFailed, bridge)
      | Some reply \<Rightarrow> (reply, bridge\<lparr>tb_in_flight := tb_in_flight bridge - {key}\<rparr>))"

definition invoke_effectful ::
    "json_env \<Rightarrow> 's schema_check \<Rightarrow> 'a artifact_put \<Rightarrow> host \<Rightarrow> jvalue ToolCall \<Rightarrow> 's ToolRegistration \<Rightarrow> SandboxCapability list
       \<Rightarrow> ToolCallContext \<Rightarrow> 's ToolBridge \<Rightarrow> 'a
       \<Rightarrow> (ToolBridgeErrorKind + jvalue ToolEnvelope) \<times> 's ToolBridge \<times> 'a \<times> execution list" where
  "invoke_effectful env valid put host call registration capabilities context bridge artifacts =
     (let key = cx_idempotency_key context in
      case tb_idempotent_results bridge key of
        Some result \<Rightarrow> (Inr result, bridge, artifacts, [])
      | None \<Rightarrow>
          let fresh = key \<notin> tb_in_flight bridge in
          if fresh \<and> \<not> ho_spawned host then (Inl HandlerFailed, bridge, artifacts, [])
          else
            let started = (if fresh then [(tc_name call, capabilities, context)] else []);
                (reply, bridge) = wait_for_in_flight host key (bridge\<lparr>tb_in_flight := insert key (tb_in_flight bridge)\<rparr>)
            in case reply of
                 Inl e \<Rightarrow> (Inl e, bridge, artifacts, started)
               | Inr result \<Rightarrow>
                   (case check_reply env valid put registration result artifacts of
                      (Inl e, artifacts) \<Rightarrow> (Inl e, bridge, artifacts, started)
                    | (Inr result, artifacts) \<Rightarrow>
                        (Inr result,
                         bridge\<lparr>tb_idempotent_results := (tb_idempotent_results bridge)(key \<mapsto> result)\<rparr>,
                         artifacts, started)))"

definition invoke_read ::
    "json_env \<Rightarrow> 's schema_check \<Rightarrow> 'a artifact_put \<Rightarrow> host \<Rightarrow> jvalue ToolCall \<Rightarrow> 's ToolRegistration \<Rightarrow> SandboxCapability list
       \<Rightarrow> ToolCallContext \<Rightarrow> 's ToolBridge \<Rightarrow> 'a
       \<Rightarrow> (ToolBridgeErrorKind + jvalue ToolEnvelope) \<times> 's ToolBridge \<times> 'a \<times> execution list" where
  "invoke_read env valid put host call registration capabilities context bridge artifacts =
     (if \<not> ho_spawned host then (Inl HandlerFailed, bridge, artifacts, [])
      else
        let started = [(tc_name call, capabilities, context)] in
        case ho_reply host of
          None \<Rightarrow> (Inl HandlerFailed, bridge, artifacts, started)
        | Some (Inl e) \<Rightarrow> (Inl e, bridge, artifacts, started)
        | Some (Inr result) \<Rightarrow>
            (case check_reply env valid put registration result artifacts of
               (checked, artifacts) \<Rightarrow> (checked, bridge, artifacts, started)))"

definition invoke ::
    "json_env \<Rightarrow> 's schema_check \<Rightarrow> 'a artifact_put \<Rightarrow> host \<Rightarrow> jvalue ToolCall \<Rightarrow> CapabilityIntersection
       \<Rightarrow> ApprovalLedger option \<Rightarrow> Duration \<Rightarrow> 's ToolBridge \<Rightarrow> 'a
       \<Rightarrow> (ToolBridgeErrorKind + jvalue ToolEnvelope) \<times> 's ToolBridge \<times> 'a \<times> execution list" where
  "invoke env valid put host call authority approvals now bridge artifacts =
     (case call_gates env valid bridge call authority approvals now of
        Inl e \<Rightarrow> (Inl e, bridge, artifacts, [])
      | Inr (registration, capabilities, effectful) \<Rightarrow>
          let context = call_context env call registration now in
          (if effectful then invoke_effectful else invoke_read) env valid put host call registration capabilities context bridge artifacts)"

end
