(* ===== verification/Bridge_Safety.thy ===== *)
theory Bridge_Safety
  imports Tool_Bridge Session
begin

text \<open>
  What the tool bridge guarantees: no handler runs without authority and approval, an effectful call
  is not repeated, and a result is bounded.
\<close>

section \<open>Gates\<close>

lemma authorize_tool_Inr:
  assumes "authorize_tool authority registration = Inr effective"
  shows "rg_name registration \<in> set (ci_workflow_tools authority) \<inter> set (ci_skill_tools authority)
      \<inter> set (ci_tenant_tools authority) \<inter> set (ci_role_tools authority)"
    and "set (rg_required_scopes registration) \<subseteq> set (ci_caller_scopes authority)"
    and "ec_capabilities effective = rg_required_capabilities registration"
  using assms by (auto simp: authorize_tool_def Let_def list_ex_iff split: if_splits)

text \<open>The contract a call has to meet before its handler may run.\<close>

definition authorised ::
    "json_env \<Rightarrow> 's schema_check \<Rightarrow> 's ToolBridge \<Rightarrow> jvalue ToolCall \<Rightarrow> CapabilityIntersection \<Rightarrow> ApprovalLedger option \<Rightarrow> Duration
       \<Rightarrow> 's ToolRegistration \<Rightarrow> SandboxCapability list \<Rightarrow> bool" where
  "authorised env valid bridge call authority approvals now registration capabilities \<longleftrightarrow>
     (\<exists>handler needed.
        tb_tools bridge (tc_name call) = Some (registration, handler)
        \<and> rg_name registration \<in> set (ci_workflow_tools authority) \<inter> set (ci_skill_tools authority)
            \<inter> set (ci_tenant_tools authority) \<inter> set (ci_role_tools authority)
        \<and> set (rg_required_scopes registration) \<subseteq> set (ci_caller_scopes authority)
        \<and> valid (rg_input_schema registration) (tc_arguments call) = Some True
        \<and> th_required_capabilities handler (tc_arguments call) = Inr needed
        \<and> set capabilities = set (rg_required_capabilities registration) \<union> set needed
        \<and> set capabilities \<subseteq> set (ci_runtime_capabilities authority) \<inter> set (ci_sandbox_capabilities authority)
        \<and> (tf_read_only (rg_flags registration) \<or> rg_idempotency registration = StableKey)
        \<and> (\<not> tf_read_only (rg_flags registration) \<or> th_requires_approval handler (tc_arguments call) = Inr True \<longrightarrow>
             (\<exists>ledger. approvals = Some ledger \<and>
                ApprovalLedger_authorize (digest env) ledger (tc_name call) (tc_call_id call) (tc_arguments call)
                  (tc_actor call) now = Inr ())))"

lemma call_gates_Inr:
  assumes "call_gates env valid bridge call authority approvals now = Inr (registration, capabilities, effectful)"
  shows "authorised env valid bridge call authority approvals now registration capabilities"
proof -
  obtain effective where pre: "preflight valid bridge (tc_name call) (tc_arguments call) authority = Inr effective"
    using assms by (auto simp: call_gates_def res_iffs)
  then obtain reg handler where t: "tb_tools bridge (tc_name call) = Some (reg, handler)"
    and a: "authorize_tool authority reg = Inr effective"
    and i: "tf_read_only (rg_flags reg) \<or> rg_idempotency reg = StableKey"
    and v: "valid (rg_input_schema reg) (tc_arguments call) = Some True"
    by (auto simp: preflight_def split: option.splits sum.splits if_splits)
  obtain needed where n: "th_required_capabilities handler (tc_arguments call) = Inr needed"
    and c: "authorize_capabilities authority
        (remdups_adj (sort_key SandboxCapability_as_str (ec_capabilities effective @ needed))) = Inr ()"
    and r: "reg = registration" "capabilities = remdups_adj (sort_key SandboxCapability_as_str (ec_capabilities effective @ needed))"
    using assms pre t
    by (auto simp: call_gates_def res_iffs Let_def split: if_splits option.splits sum.splits)
  have caps: "set capabilities \<subseteq> set (ci_runtime_capabilities authority) \<inter> set (ci_sandbox_capabilities authority)"
    using c r(2) by (auto simp: authorize_capabilities_def list_ex_iff capability_missing_def split: if_splits)
  have appr: "\<exists>ledger. approvals = Some ledger \<and> ApprovalLedger_authorize (digest env) ledger (tc_name call)
      (tc_call_id call) (tc_arguments call) (tc_actor call) now = Inr ()"
    if "\<not> tf_read_only (rg_flags registration) \<or> th_requires_approval handler (tc_arguments call) = Inr True"
    using assms pre t n c r that
    by (auto simp: call_gates_def res_iffs Let_def split: if_splits option.splits sum.splits)
  show ?thesis unfolding authorised_def
    by (rule exI [of _ handler], rule exI [of _ needed])
      (use t i v n r caps appr authorize_tool_Inr [OF a] in auto)
qed

text \<open>
  C17: no tool runs without authority.  Whenever the bridge starts a handler, the tool is registered under
  the name that was called, every policy layer allows that name, the caller has the scopes the tool
  requires, the arguments satisfy its input schema, and the sandbox of the execution gets exactly the
  capabilities that the registration and the handler ask for, all of them granted by the runtime and
  the sandbox layer; a tool that is not read-only, or whose handler asks for approval, runs only with
  an approval for exactly this tool, call, actor and arguments that has not expired; the same holds
  for every result that is returned without running the handler.
\<close>
theorem bridge_runs_only_authorised:
  assumes "invoke env valid put host call authority approvals now bridge artifacts = (result, bridge', artifacts', started)"
    and "started \<noteq> [] \<or> (\<exists>r. result = Inr r)"
  shows "\<exists>registration capabilities.
    authorised env valid bridge call authority approvals now registration capabilities
    \<and> started \<in> {[], [(tc_name call, capabilities, call_context env call registration now)]}"
proof (cases "call_gates env valid bridge call authority approvals now")
  case (Inl e)
  then show ?thesis using assms by (auto simp: invoke_def)
next
  case (Inr g)
  obtain registration capabilities effectful where g: "g = (registration, capabilities, effectful)" by (metis prod_cases3)
  have "started \<in> {[], [(tc_name call, capabilities, call_context env call registration now)]}"
    using assms(1) Inr g
    by (auto simp: invoke_def Let_def invoke_effectful_def invoke_read_def
        split: if_splits option.splits sum.splits prod.splits)
  then show ?thesis using call_gates_Inr Inr g by blast
qed

section \<open>Bounded results\<close>

lemma page_loop_Inr:
  assumes "page_loop env bytes limit result handle n = Inr page"
  shows "\<exists>m \<le> n. page = paged_candidate bytes result handle m \<and> length (envelope_bytes env page) \<le> limit"
  using assms
proof (induction env bytes limit result handle n rule: page_loop.induct)
  case (1 env bytes limit result handle n)
  show ?case
  proof (cases "length (envelope_bytes env (paged_candidate bytes result handle n)) \<le> limit \<or> n = 0")
    case True
    then show ?thesis using "1.prems" by (auto simp: page_loop.simps [of _ _ _ _ _ n] Let_def split: if_splits)
  next
    case False
    let ?m = "n - max (length (envelope_bytes env (paged_candidate bytes result handle n)) - limit) 1"
    have loop: "page_loop env bytes limit result handle ?m = Inr page"
      using "1.prems" False by (simp add: page_loop.simps [of _ _ _ _ _ n] Let_def)
    have big: "\<not> length (envelope_bytes env (paged_candidate bytes result handle n)) \<le> limit" and "n \<noteq> 0" using False by blast+
    obtain m where "m \<le> ?m" "page = paged_candidate bytes result handle m \<and> length (envelope_bytes env page) \<le> limit"
      using "1.IH" [OF refl refl big \<open>n \<noteq> 0\<close> loop] by blast
    moreover from this have "m \<le> n" by (meson diff_le_self le_trans)
    ultimately show ?thesis by blast
  qed
qed

lemma paged_provenance: "envelope_provenance (paged_candidate bytes result handle n) = envelope_provenance result"
  by (cases result) (simp_all add: paged_candidate_def)

lemma check_reply_Inr:
  assumes "check_reply env valid put registration result artifacts = (Inr r, artifacts')"
  defines "full \<equiv> envelope_bytes env result"
  shows "envelope_provenance r = rg_provenance registration"
    and "length (envelope_bytes env r) \<le> unat (rg_inline_output_limit_bytes registration)"
    and "valid (rg_output_schema registration) (ToolEnvelope_value r) = Some True"
    and "valid (rg_handler_output_schema registration) (ToolEnvelope_value result) = Some True"
    and "r = result \<and> artifacts' = artifacts
      \<or> (\<exists>handle m. rg_paging registration \<and> put artifacts (str_bytes full) = (Some handle, artifacts')
          \<and> m \<le> length full \<and> r = paged_candidate full result handle m)"
proof -
  have prov: "envelope_provenance result = rg_provenance registration"
    and out: "validate_handler_output valid result registration = Inr ()"
    and bound: "bound_output env put result registration artifacts = (Inr r, artifacts')"
    and final: "validate_against valid r (rg_output_schema registration) = Inr ()"
    using assms(1) by (auto simp: check_reply_def res_iffs split: if_splits sum.splits prod.splits)
  have b: "(r = result \<and> artifacts' = artifacts
      \<or> (\<exists>handle m. rg_paging registration \<and> put artifacts (str_bytes full) = (Some handle, artifacts')
          \<and> m \<le> length full \<and> r = paged_candidate full result handle m))
      \<and> length (envelope_bytes env r) \<le> unat (rg_inline_output_limit_bytes registration)"
  proof (cases "length full \<le> unat (rg_inline_output_limit_bytes registration)")
    case True
    then show ?thesis using bound by (simp add: bound_output_def Let_def full_def)
  next
    case False
    then obtain handle where p: "rg_paging registration" "put artifacts (str_bytes full) = (Some handle, artifacts')"
      and "page_loop env full (unat (rg_inline_output_limit_bytes registration)) result handle
        (min (length full) (unat (rg_inline_output_limit_bytes registration))) = Inr r"
      using bound by (auto simp: bound_output_def Let_def full_def split: if_splits prod.splits option.splits)
    from page_loop_Inr [OF this(3)] p show ?thesis by auto
  qed
  show "envelope_provenance r = rg_provenance registration" using b prov paged_provenance by metis
  show "length (envelope_bytes env r) \<le> unat (rg_inline_output_limit_bytes registration)" using b by blast
  show "valid (rg_output_schema registration) (ToolEnvelope_value r) = Some True"
    using final by (simp add: validate_against_def split: if_splits)
  show "valid (rg_handler_output_schema registration) (ToolEnvelope_value result) = Some True"
    using out by (simp add: validate_handler_output_def validate_against_def split: if_splits)
  show "r = result \<and> artifacts' = artifacts
      \<or> (\<exists>handle m. rg_paging registration \<and> put artifacts (str_bytes full) = (Some handle, artifacts')
          \<and> m \<le> length full \<and> r = paged_candidate full result handle m)" using b by blast
qed

section \<open>Idempotency\<close>

text \<open>
  The log of a bridge has one entry for every call: the call and its key, how the gates classed it, whether
  it started the handler, whether a reply of the handler for its key was received, and what the caller got.
\<close>

datatype call_class = GateRefused | ReadCall | EffectCall

record call_entry =
  ce_call :: "jvalue ToolCall"
  ce_key :: string
  ce_class :: call_class
  ce_started :: bool
  ce_replied :: bool
  ce_result :: "ToolBridgeErrorKind + jvalue ToolEnvelope"

type_synonym request = "host \<times> jvalue ToolCall \<times> CapabilityIntersection \<times> ApprovalLedger option \<times> Duration"

definition call_key :: "json_env \<Rightarrow> jvalue ToolCall \<Rightarrow> string" where
  "call_key env call = stable_idempotency_key env (tc_name call) (tc_actor call) (tc_call_id call) (digest env (tc_arguments call))"

fun class_of :: "'e + 'r \<times> 'c \<times> bool \<Rightarrow> call_class" where
  "class_of (Inl e) = GateRefused"
| "class_of (Inr (registration, capabilities, effectful)) = (if effectful then EffectCall else ReadCall)"

fun serve ::
    "json_env \<Rightarrow> 's schema_check \<Rightarrow> 'a artifact_put \<Rightarrow> request list \<Rightarrow> 's ToolBridge \<Rightarrow> 'a \<Rightarrow> call_entry list" where
  "serve env valid put [] bridge artifacts = []"
| "serve env valid put ((host, call, authority, approvals, now) # requests) bridge artifacts =
     (case invoke env valid put host call authority approvals now bridge artifacts of
        (result, bridge', artifacts', started) \<Rightarrow>
          \<lparr>ce_call = call, ce_key = call_key env call,
           ce_class = class_of (call_gates env valid bridge call authority approvals now), ce_started = started \<noteq> [],
           ce_replied = tb_idempotent_results bridge (call_key env call) = None \<and> (started \<noteq> [] \<or> call_key env call \<in> tb_in_flight bridge)
             \<and> ho_reply host \<noteq> None,
           ce_result = result\<rparr> # serve env valid put requests bridge' artifacts')"

text \<open>A call is effectful when its tool is not read-only or its handler asks for approval of the arguments.\<close>

definition asks_approval :: "'s ToolBridge \<Rightarrow> jvalue ToolCall \<Rightarrow> bool" where
  "asks_approval bridge call \<longleftrightarrow>
     (case tb_tools bridge (tc_name call) of
        None \<Rightarrow> False
      | Some (registration, handler) \<Rightarrow>
          \<not> tf_read_only (rg_flags registration) \<or> th_requires_approval handler (tc_arguments call) = Inr True)"

text \<open>What one call does to the bridge.\<close>

definition effect_step :: "call_entry \<Rightarrow> 's ToolBridge \<Rightarrow> 's ToolBridge \<Rightarrow> bool" where
  "effect_step e bridge bridge' \<longleftrightarrow>
     (\<forall>k. k \<noteq> ce_key e \<longrightarrow> tb_idempotent_results bridge' k = tb_idempotent_results bridge k
         \<and> (k \<in> tb_in_flight bridge' \<longleftrightarrow> k \<in> tb_in_flight bridge))
     \<and> (case tb_idempotent_results bridge (ce_key e) of
          Some r \<Rightarrow> ce_result e = Inr r \<and> \<not> ce_started e \<and> bridge' = bridge
        | None \<Rightarrow>
            (ce_started e \<longrightarrow> ce_key e \<notin> tb_in_flight bridge)
            \<and> (\<forall>r. ce_result e = Inr r \<longrightarrow> tb_idempotent_results bridge' (ce_key e) = Some r)
            \<and> (ce_started e \<or> ce_key e \<in> tb_in_flight bridge \<longrightarrow>
                 ce_replied e \<or> ce_key e \<in> tb_in_flight bridge'))"

definition bridge_step :: "call_entry \<Rightarrow> 's ToolBridge \<Rightarrow> 's ToolBridge \<Rightarrow> bool" where
  "bridge_step e bridge bridge' \<longleftrightarrow>
     tb_tools bridge' = tb_tools bridge
     \<and> (ce_class e \<noteq> GateRefused \<longrightarrow> (ce_class e = EffectCall \<longleftrightarrow> asks_approval bridge (ce_call e)))
     \<and> (ce_class e = GateRefused \<longrightarrow> \<not> ce_started e \<and> (\<exists>err. ce_result e = Inl err))
     \<and> (if ce_class e = EffectCall then effect_step e bridge bridge' else bridge' = bridge)"

lemma call_gates_effectful:
  assumes "call_gates env valid bridge call authority approvals now = Inr (registration, capabilities, effectful)"
  shows "effectful \<longleftrightarrow> asks_approval bridge call"
proof -
  obtain reg handler where t: "tb_tools bridge (tc_name call) = Some (reg, handler)"
    using assms by (cases "tb_tools bridge (tc_name call)") (auto simp: call_gates_def res_iffs)
  then have "(if tf_read_only (rg_flags reg) then th_requires_approval handler (tc_arguments call) else Inr True) = Inr effectful"
    using assms by (auto simp: call_gates_def res_iffs Let_def split: if_splits option.splits sum.splits)
  then show ?thesis by (auto simp: asks_approval_def t split: if_splits)
qed

lemma invoke_step:
  assumes inv: "invoke env valid put host call authority approvals now bridge artifacts = (result, bridge', artifacts', started)"
  shows "bridge_step \<lparr>ce_call = call, ce_key = call_key env call,
      ce_class = class_of (call_gates env valid bridge call authority approvals now), ce_started = started \<noteq> [],
      ce_replied = tb_idempotent_results bridge (call_key env call) = None \<and> (started \<noteq> [] \<or> call_key env call \<in> tb_in_flight bridge)
        \<and> ho_reply host \<noteq> None,
      ce_result = result\<rparr> bridge bridge'"
proof (cases "call_gates env valid bridge call authority approvals now")
  case (Inl e)
  then show ?thesis using inv by (auto simp: invoke_def bridge_step_def)
next
  case (Inr g)
  obtain registration capabilities effectful where g: "g = (registration, capabilities, effectful)" by (metis prod_cases3)
  note asks = call_gates_effectful [OF Inr [unfolded g]]
  have key: "cx_idempotency_key (call_context env call registration now) = call_key env call"
    by (simp add: call_context_def call_key_def Let_def)
  show ?thesis
  proof (cases effectful)
    case False
    then have "bridge' = bridge"
      using inv Inr g by (auto simp: invoke_def Let_def invoke_read_def split: sum.splits prod.splits if_splits option.splits)
    then show ?thesis using Inr g False asks by (simp add: bridge_step_def)
  next
    case True
    then have i: "invoke_effectful env valid put host call registration capabilities (call_context env call registration now)
        bridge artifacts = (result, bridge', artifacts', started)"
      using inv Inr g by (simp add: invoke_def Let_def)
    have "tb_tools bridge' = tb_tools bridge"
      using i by (auto simp: invoke_effectful_def key Let_def wait_for_in_flight_def
          split: if_splits option.splits sum.splits prod.splits)
    moreover have "effect_step \<lparr>ce_call = call, ce_key = call_key env call, ce_class = EffectCall, ce_started = started \<noteq> [],
        ce_replied = tb_idempotent_results bridge (call_key env call) = None
          \<and> (started \<noteq> [] \<or> call_key env call \<in> tb_in_flight bridge) \<and> ho_reply host \<noteq> None,
        ce_result = result\<rparr> bridge bridge'"
      using i
      by (cases "tb_idempotent_results bridge (call_key env call)")
        (auto simp: effect_step_def invoke_effectful_def key Let_def wait_for_in_flight_def
          split: if_splits option.splits sum.splits prod.splits)
    ultimately show ?thesis using Inr g True asks by (simp add: bridge_step_def)
  qed
qed

lemma serve_Cons:
  obtains x bridge' artifacts' where "bridge_step x bridge bridge'" "ce_call x = fst (snd request)" "ce_key x = call_key env (ce_call x)"
    and "serve env valid put (request # requests) bridge artifacts = x # serve env valid put requests bridge' artifacts'"
proof -
  obtain host call authority approvals now where r: "request = (host, call, authority, approvals, now)" by (cases request)
  obtain result bridge' artifacts' started where
    inv: "invoke env valid put host call authority approvals now bridge artifacts = (result, bridge', artifacts', started)"
    by (metis prod_cases4)
  show thesis using that [OF invoke_step [OF inv]] r inv by simp
qed

lemma serve_complete:
  "map ce_call (serve env valid put requests bridge artifacts) = map (fst \<circ> snd) requests
   \<and> (\<forall>e \<in> set (serve env valid put requests bridge artifacts). ce_key e = call_key env (ce_call e)
        \<and> (ce_class e \<noteq> GateRefused \<longrightarrow> (ce_class e = EffectCall \<longleftrightarrow> asks_approval bridge (ce_call e)))
        \<and> (ce_class e = GateRefused \<longrightarrow> \<not> ce_started e \<and> (\<exists>err. ce_result e = Inl err)))"
proof (induction requests arbitrary: bridge artifacts)
  case (Cons request requests)
  obtain x bridge' artifacts' where step: "bridge_step x bridge bridge'"
    and x: "ce_call x = fst (snd request)" "ce_key x = call_key env (ce_call x)"
    and s: "serve env valid put (request # requests) bridge artifacts = x # serve env valid put requests bridge' artifacts'"
    by (rule serve_Cons)
  have tools: "asks_approval bridge' call \<longleftrightarrow> asks_approval bridge call" for call
    using step by (simp add: asks_approval_def bridge_step_def)
  have "(ce_class x \<noteq> GateRefused \<longrightarrow> (ce_class x = EffectCall \<longleftrightarrow> asks_approval bridge (ce_call x)))
      \<and> (ce_class x = GateRefused \<longrightarrow> \<not> ce_started x \<and> (\<exists>err. ce_result x = Inl err))"
    using step by (simp add: bridge_step_def)
  then show ?case using Cons.IH [of bridge' artifacts'] x unfolding s tools by simp
qed simp

text \<open>A cached result stays cached, and is what every later effectful call for its key returns.\<close>

lemma serve_cached:
  "tb_idempotent_results bridge key = Some r \<Longrightarrow> e \<in> set (serve env valid put requests bridge artifacts) \<Longrightarrow> ce_key e = key
    \<Longrightarrow> ce_class e = EffectCall \<Longrightarrow> ce_result e = Inr r \<and> \<not> ce_started e"
proof (induction requests arbitrary: bridge artifacts)
  case (Cons request requests)
  obtain x bridge' artifacts' where step: "bridge_step x bridge bridge'"
    and s: "serve env valid put (request # requests) bridge artifacts = x # serve env valid put requests bridge' artifacts'"
    by (rule serve_Cons)
  have "tb_idempotent_results bridge' key = Some r"
    using step Cons.prems(1) by (cases "ce_key x = key") (auto simp: bridge_step_def effect_step_def split: if_splits)
  moreover have "ce_result e = Inr r \<and> \<not> ce_started e" if "x = e"
    using step Cons.prems(1,3,4) that by (auto simp: bridge_step_def effect_step_def)
  ultimately show ?case using Cons.IH Cons.prems(2-4) s by auto
qed simp

lemma serve_returned:
  "serve env valid put requests bridge artifacts = before @ e # between @ e' # rest \<Longrightarrow> ce_key e = ce_key e'
    \<Longrightarrow> ce_class e = EffectCall \<Longrightarrow> ce_class e' = EffectCall \<Longrightarrow> ce_result e = Inr r \<Longrightarrow> ce_result e' = Inr r \<and> \<not> ce_started e'"
proof (induction requests arbitrary: bridge artifacts before)
  case (Cons request requests)
  obtain x bridge' artifacts' where step: "bridge_step x bridge bridge'"
    and s: "serve env valid put (request # requests) bridge artifacts = x # serve env valid put requests bridge' artifacts'"
    by (rule serve_Cons)
  show ?case
  proof (cases before)
    case Nil
    then have "x = e" and rest: "serve env valid put requests bridge' artifacts' = between @ e' # rest" using s Cons.prems(1) by simp_all
    have e': "e' \<in> set (serve env valid put requests bridge' artifacts')" unfolding rest by simp
    have "tb_idempotent_results bridge' (ce_key e) = Some r"
      using step Cons.prems(3,5) \<open>x = e\<close> by (auto simp: bridge_step_def effect_step_def split: option.splits)
    then show ?thesis using serve_cached [OF _ e'] Cons.prems(2,4) by simp
  next
    case (Cons y before')
    then show ?thesis using Cons.IH [of bridge' artifacts' before'] Cons.prems s by simp
  qed
qed simp

text \<open>An execution in flight is not started again before its reply was received, and refused.\<close>

definition refused :: "string \<Rightarrow> call_entry \<Rightarrow> bool" where
  "refused key e \<longleftrightarrow> ce_class e = EffectCall \<and> ce_key e = key \<and> ce_replied e \<and> (\<exists>err. ce_result e = Inl err)"

text \<open>After one effectful call for a key that is, or gets, in flight.\<close>

lemma effect_step_in_flight:
  assumes "bridge_step x bridge bridge'" "ce_class x = EffectCall" "ce_started x \<or> ce_key x \<in> tb_in_flight bridge"
  shows "ce_key x \<in> tb_in_flight bridge' \<or> refused (ce_key x) x \<or> (\<exists>r. tb_idempotent_results bridge' (ce_key x) = Some r)"
  using assms by (cases "ce_result x") (auto simp: bridge_step_def effect_step_def refused_def split: option.splits)

lemma serve_in_flight:
  "key \<in> tb_in_flight bridge \<Longrightarrow> serve env valid put requests bridge artifacts = between @ e # rest \<Longrightarrow> ce_key e = key
    \<Longrightarrow> ce_class e = EffectCall \<Longrightarrow> ce_started e \<Longrightarrow> list_ex (refused key) between"
proof (induction requests arbitrary: bridge artifacts between)
  case (Cons request requests)
  obtain x bridge' artifacts' where step: "bridge_step x bridge bridge'"
    and s: "serve env valid put (request # requests) bridge artifacts = x # serve env valid put requests bridge' artifacts'"
    by (rule serve_Cons)
  have "\<not> (ce_key x = key \<and> ce_class x = EffectCall \<and> ce_started x)"
    using step Cons.prems(1) by (auto simp: bridge_step_def effect_step_def split: option.splits)
  then obtain between' where b: "between = x # between'"
    using s Cons.prems(2-5) by (cases between) auto
  then have rest: "serve env valid put requests bridge' artifacts' = between' @ e # rest" using s Cons.prems(2) by simp
  have "key \<in> tb_in_flight bridge' \<or> refused key x \<or> (\<exists>r. tb_idempotent_results bridge' key = Some r)"
  proof (cases "ce_class x = EffectCall \<and> ce_key x = key")
    case True
    then show ?thesis using effect_step_in_flight [OF step] Cons.prems(1) by blast
  next
    case False
    then show ?thesis using step Cons.prems(1) by (auto simp: bridge_step_def effect_step_def split: if_splits)
  qed
  then consider "key \<in> tb_in_flight bridge'" | "refused key x" | r where "tb_idempotent_results bridge' key = Some r" by blast
  then show ?case
  proof cases
    case 1
    then show ?thesis using Cons.IH [OF 1 rest Cons.prems(3-5)] b by simp
  next
    case 3
    have "e \<in> set (serve env valid put requests bridge' artifacts')" unfolding rest by simp
    from serve_cached [OF 3 this Cons.prems(3,4)] Cons.prems(5) show ?thesis by simp
  qed (simp add: b)
qed simp

lemma serve_started_twice:
  "serve env valid put requests bridge artifacts = before @ e # between @ e' # rest \<Longrightarrow> ce_key e = ce_key e'
    \<Longrightarrow> ce_class e = EffectCall \<Longrightarrow> ce_class e' = EffectCall \<Longrightarrow> ce_started e \<Longrightarrow> ce_started e'
    \<Longrightarrow> list_ex (refused (ce_key e)) (e # between)"
proof (induction requests arbitrary: bridge artifacts before)
  case (Cons request requests)
  obtain x bridge' artifacts' where step: "bridge_step x bridge bridge'"
    and s: "serve env valid put (request # requests) bridge artifacts = x # serve env valid put requests bridge' artifacts'"
    by (rule serve_Cons)
  show ?case
  proof (cases before)
    case Nil
    then have x: "x = e" and rest: "serve env valid put requests bridge' artifacts' = between @ e' # rest"
      using s Cons.prems(1) by simp_all
    consider "ce_key e \<in> tb_in_flight bridge'" | "refused (ce_key e) e" | r where "tb_idempotent_results bridge' (ce_key e) = Some r"
      using effect_step_in_flight [OF step] x Cons.prems(3,5) by blast
    then show ?thesis
    proof cases
      case 1
      then show ?thesis using serve_in_flight [OF 1 rest] Cons.prems by simp
    next
      case 3
      have "e' \<in> set (serve env valid put requests bridge' artifacts')" unfolding rest by simp
      then show ?thesis using serve_cached [OF 3] Cons.prems(2,4,6) by metis
    qed simp
  next
    case (Cons y before')
    then show ?thesis using Cons.IH [of bridge' artifacts' before'] Cons.prems s by simp
  qed
qed simp


text \<open>
  C18: an effect is not repeated behind the caller's back.  The log has one entry for every call of any
  sequence of calls, on any bridge, with any approvals, clocks and replies of the handlers, and every call is
  either refused at the gates, a read or an effectful call.  A call that is refused at the gates starts
  nothing and returns an error.  When an effectful call returned a result, every later effectful call with
  the same idempotency key returns that same result without starting the handler; so a repetition of the very
  same call, under whatever authority, approvals and clock, is either refused at the gates or returns the
  same result, and starts nothing in both cases.  When two effectful calls with one key both started the
  handler, then in between a reply of the handler was received for that key and the call that received it
  was refused with an error (the handler failed, or its output did not pass the checks): a call that merely
  timed out never leads to a second start.
\<close>
theorem effect_not_repeated:
  assumes "serve env valid put requests bridge artifacts = before @ e # between @ e' # rest"
  shows "map ce_call (serve env valid put requests bridge artifacts) = map (fst \<circ> snd) requests
       \<and> ce_key e = call_key env (ce_call e) \<and> ce_key e' = call_key env (ce_call e')
       \<and> (ce_class e' = GateRefused \<longrightarrow> \<not> ce_started e' \<and> (\<exists>err. ce_result e' = Inl err))
       \<and> (\<forall>r. ce_class e = EffectCall \<and> ce_result e = Inr r \<and> ce_class e' = EffectCall \<and> ce_key e' = ce_key e \<longrightarrow>
            ce_result e' = Inr r \<and> \<not> ce_started e')
       \<and> (\<forall>r. ce_class e = EffectCall \<and> ce_result e = Inr r \<and> ce_call e' = ce_call e \<longrightarrow>
            \<not> ce_started e' \<and> (ce_result e' = Inr r \<or> ce_class e' = GateRefused))
       \<and> (ce_class e = EffectCall \<and> ce_class e' = EffectCall \<and> ce_key e' = ce_key e \<and> ce_started e \<and> ce_started e' \<longrightarrow>
            (\<exists>x \<in> set (e # between). ce_class x = EffectCall \<and> ce_key x = ce_key e \<and> ce_replied x \<and> (\<exists>err. ce_result x = Inl err)))"
proof -
  note log = serve_complete [of env valid put requests bridge artifacts]
  have mem: "e \<in> set (serve env valid put requests bridge artifacts)" "e' \<in> set (serve env valid put requests bridge artifacts)"
    using assms by simp_all
  then have keys: "ce_key e = call_key env (ce_call e)" "ce_key e' = call_key env (ce_call e')"
    and gate: "ce_class e' = GateRefused \<longrightarrow> \<not> ce_started e' \<and> (\<exists>err. ce_result e' = Inl err)"
    and same: "ce_class e = EffectCall \<longrightarrow> ce_call e' = ce_call e \<longrightarrow> ce_class e' = GateRefused \<or> ce_class e' = EffectCall"
    using log by (blast, blast, blast, metis call_class.distinct)
  have returned: "ce_result e' = Inr r \<and> \<not> ce_started e'"
    if "ce_class e = EffectCall" "ce_result e = Inr r" "ce_class e' = EffectCall" "ce_key e' = ce_key e" for r
    using serve_returned [OF assms] that by metis
  have again: "\<not> ce_started e' \<and> (ce_result e' = Inr r \<or> ce_class e' = GateRefused)"
    if "ce_class e = EffectCall" "ce_result e = Inr r" "ce_call e' = ce_call e" for r
    using that same gate keys returned [of r] by metis
  have twice: "\<exists>x \<in> set (e # between). ce_class x = EffectCall \<and> ce_key x = ce_key e \<and> ce_replied x \<and> (\<exists>err. ce_result x = Inl err)"
    if "ce_class e = EffectCall" "ce_class e' = EffectCall" "ce_key e' = ce_key e" "ce_started e" "ce_started e'"
    using serve_started_twice [OF assms] that by (auto simp: list_ex_iff refused_def)
  show ?thesis using conjunct1 [OF log] keys gate returned again twice by blast
qed


text \<open>
  results are bounded.  Whenever the bridge returns a result that was not cached, the
  result carries the provenance that was registered for the tool, its serialised form is no longer
  than the registered inline limit, and it satisfies the registered output schema; either it is
  exactly what the handler replied, or paging is on, the complete reply was stored in the artifact
  store, and the result is a page that carries the artifact's handle and a prefix of the reply.
\<close>
theorem bridge_result_bounded:
  assumes "call_gates env valid bridge call authority approvals now = Inr (registration, capabilities, effectful)"
    and "invoke env valid put host call authority approvals now bridge artifacts = (Inr r, bridge', artifacts', started)"
    and "effectful \<longrightarrow> tb_idempotent_results bridge (call_key env call) = None"
  shows "\<exists>reply. ho_reply host = Some (Inr reply)
    \<and> envelope_provenance r = rg_provenance registration
    \<and> length (envelope_bytes env r) \<le> unat (rg_inline_output_limit_bytes registration)
    \<and> valid (rg_output_schema registration) (ToolEnvelope_value r) = Some True
    \<and> (r = reply \<and> artifacts' = artifacts
       \<or> (\<exists>handle n. rg_paging registration
            \<and> put artifacts (str_bytes (envelope_bytes env reply)) = (Some handle, artifacts')
            \<and> n \<le> length (envelope_bytes env reply)
            \<and> r = paged_candidate (envelope_bytes env reply) reply handle n))"
proof -
  have key: "cx_idempotency_key (call_context env call registration now) = call_key env call"
    by (simp add: call_context_def call_key_def Let_def)
  obtain reply where reply: "ho_reply host = Some (Inr reply)"
    and ok: "check_reply env valid put registration reply artifacts = (Inr r, artifacts')"
  proof (cases effectful)
    case True
    then show thesis using assms that
      by (auto simp: invoke_def Let_def invoke_effectful_def key wait_for_in_flight_def
          split: if_splits option.splits sum.splits prod.splits)
  next
    case False
    then show thesis using assms(1,2) that
      by (auto simp: invoke_def Let_def invoke_read_def split: if_splits option.splits sum.splits prod.splits)
  qed
  show ?thesis using reply check_reply_Inr [OF ok] by blast
qed

section \<open>Idempotency keys\<close>

definition nul_free :: "string \<Rightarrow> bool" where
  "nul_free s \<longleftrightarrow> CHR 0x00 \<notin> set s"

lemma nul_free_bytes: "nul_free s \<longleftrightarrow> 0 \<notin> set (str_bytes s)"
proof -
  have "(of_char c :: byte) = 0 \<longleftrightarrow> c = CHR 0x00" for c
    using of_char_byte_inj [of c "CHR 0x00"] by simp
  then show ?thesis by (force simp: nul_free_def str_bytes_def)
qed

lemma append_marker_cancel:
  assumes "x \<notin> set xs" and "x \<notin> set ys" and "xs @ x # xs' = ys @ x # ys'"
  shows "xs = ys \<and> xs' = ys'"
  using assms
proof (induction xs arbitrary: ys)
  case Nil
  then show ?case by (cases ys) auto
next
  case (Cons z xs)
  then show ?case by (cases ys) auto
qed

text \<open>
  the idempotency key separates calls whose names hold no NUL byte.  For tool names, actors and
  call identifiers without a NUL byte, two calls hash the same bytes if and only if tool, actor,
  call identifier and argument fingerprint agree.
\<close>
theorem key_material_separates:
  assumes "nul_free tool" "nul_free actor" "nul_free call" "nul_free tool'" "nul_free actor'" "nul_free call'"
  shows "key_material tool actor call fingerprint = key_material tool' actor' call' fingerprint' \<longleftrightarrow>
         (tool, actor, call, fingerprint) = (tool', actor', call', fingerprint')"
proof
  assume "key_material tool actor call fingerprint = key_material tool' actor' call' fingerprint'"
  then have eq: "str_bytes tool @ 0 # str_bytes actor @ 0 # str_bytes call @ 0 # str_bytes fingerprint
      = str_bytes tool' @ 0 # str_bytes actor' @ 0 # str_bytes call' @ 0 # str_bytes fingerprint'"
    by (simp add: key_material_def)
  note free = assms [unfolded nul_free_bytes]
  have 1: "str_bytes tool = str_bytes tool' \<and> str_bytes actor @ 0 # str_bytes call @ 0 # str_bytes fingerprint
      = str_bytes actor' @ 0 # str_bytes call' @ 0 # str_bytes fingerprint'"
    by (rule append_marker_cancel [OF free(1,4) eq])
  then have 2: "str_bytes actor = str_bytes actor' \<and> str_bytes call @ 0 # str_bytes fingerprint = str_bytes call' @ 0 # str_bytes fingerprint'"
    using append_marker_cancel [OF free(2,5)] by blast
  then have "str_bytes call = str_bytes call' \<and> str_bytes fingerprint = str_bytes fingerprint'"
    using append_marker_cancel [OF free(3,6)] by blast
  with 1 2 show "(tool, actor, call, fingerprint) = (tool', actor', call', fingerprint')" by simp
qed simp

theorem key_material_separates_witness:
  "nul_free ''write'' \<and> nul_free ''alice'' \<and> nul_free ''1'' \<and>
   key_material ''write'' ''alice'' ''1'' ''ab'' \<noteq> key_material ''write'' ''alice'' ''2'' ''ab''"
  using key_material_separates [of "''write''" "''alice''" "''1''" "''write''" "''alice''" "''2''" "''ab''" "''ab''"]
  by (simp add: nul_free_def)

text \<open>
  Nothing keeps a NUL byte out of an actor or a call identifier, and there the key does not
  separate two calls: the result of one is then replayed for the other.
\<close>

theorem idempotency_key_collision:
  "stable_idempotency_key env tool [CHR 0x61, CHR 0x00, CHR 0x62] ''c'' fingerprint
     = stable_idempotency_key env tool ''a'' [CHR 0x62, CHR 0x00, CHR 0x63] fingerprint"
  by (simp add: stable_idempotency_key_def key_material_def str_bytes_def)


section \<open>An example bridge\<close>

definition demo_env :: json_env where
  "demo_env = \<lparr>je_sha256 = (\<lambda>bytes. []), je_quote = (\<lambda>s. [CHR 0x22] @ s @ [CHR 0x22]), je_number = (\<lambda>_. ''0'')\<rparr>"

definition demo_registration :: "unit ToolRegistration" where
  "demo_registration =
     \<lparr>rg_name = ''write'', rg_provenance = \<lparr>pr_tool_id = ''w'', pr_tool_version = ''1''\<rparr>, rg_input_schema = (),
      rg_handler_output_schema = (), rg_output_schema = (),
      rg_flags = \<lparr>tf_read_only = False, tf_concurrency_safe = False, tf_idempotent = True\<rparr>,
      rg_required_capabilities = [], rg_required_scopes = [], rg_timeout_ms = 5, rg_inline_output_limit_bytes = 200,
      rg_paging = True, rg_idempotency = StableKey, rg_implementation_digest = ''d''\<rparr>"

definition demo_handler :: ToolHandler where
  "demo_handler = \<lparr>th_required_capabilities = (\<lambda>_. Inr []), th_requires_approval = (\<lambda>_. Inr False)\<rparr>"

definition demo_bridge :: "unit ToolBridge" where
  "demo_bridge = (case register_shared demo_registration demo_handler ToolBridge_new of Inr b \<Rightarrow> b | Inl _ \<Rightarrow> ToolBridge_new)"

definition demo_call :: "jvalue ToolCall" where
  "demo_call = \<lparr>tc_name = ''write'', tc_call_id = ''1'', tc_actor = ''ann'', tc_arguments = JNull\<rparr>"

definition demo_ledger :: ApprovalLedger where
  "demo_ledger = ApprovalLedger_grant (digest demo_env) ''write'' ''1'' JNull ''ann'' 9000000 Map.empty"

definition demo_reply :: "jvalue ToolEnvelope" where
  "demo_reply = envelope_success (JStr ''ok'') (rg_provenance demo_registration)"

definition demo_request :: "(ToolBridgeErrorKind + jvalue ToolEnvelope) option \<Rightarrow> request" where
  "demo_request reply =
     (\<lparr>ho_spawned = True, ho_reply = reply\<rparr>, demo_call, all_for_tool ''write'' [], Some demo_ledger, 1000000)"

definition demo_store :: "byte list list \<Rightarrow> byte list \<Rightarrow> string option \<times> byte list list" where
  "demo_store stored bytes = (Some ''a1'', bytes # stored)"

definition always_valid :: "unit \<Rightarrow> jvalue \<Rightarrow> bool option" where
  "always_valid _ _ = Some True"

lemma demo_key: "call_key demo_env call = []"
  by (simp add: call_key_def stable_idempotency_key_def demo_env_def hex_def)

lemma demo_context: "cx_idempotency_key (call_context demo_env call registration now) = []"
  using demo_key by (simp add: call_context_def call_key_def Let_def)

lemma demo_digest: "digest demo_env v = []"
  by (simp add: digest_def argument_fingerprint_def demo_env_def hex_def)

lemma demo_approved: "ApprovalLedger_authorize (digest demo_env) demo_ledger ''write'' ''1'' JNull ''ann'' 1000000 = Inr ()"
  by (simp add: ApprovalLedger_authorize_def demo_ledger_def ApprovalLedger_grant_def CallScopedApproval_new_def demo_digest
      expiry_ms_def as_millis_def unat_of_nat take_bit_eq_mod Let_def)

lemma demo_tools: "tb_tools demo_bridge = [''write'' \<mapsto> (demo_registration, demo_handler)]"
  "tb_idempotent_results demo_bridge = Map.empty" "tb_in_flight demo_bridge = {}"
  by (simp_all add: demo_bridge_def register_shared_def ToolBridge_new_def demo_registration_def)

lemma demo_gates:
  "tb_tools bridge = tb_tools demo_bridge \<Longrightarrow>
   call_gates demo_env always_valid bridge demo_call (all_for_tool ''write'' []) (Some demo_ledger) 1000000
     = Inr (demo_registration, [], True)"
  by (simp add: call_gates_def preflight_def demo_tools authorize_tool_def authorize_capabilities_def demo_approved Let_def)
    (simp add: demo_call_def demo_registration_def demo_handler_def all_for_tool_def always_valid_def demo_approved demo_ledger_def [symmetric])

lemma demo_checked: "check_reply demo_env always_valid demo_store demo_registration demo_reply artifacts = (Inr demo_reply, artifacts)"
proof -
  have "length (envelope_bytes demo_env demo_reply) \<le> 200" by code_simp
  then have "bound_output demo_env demo_store demo_reply demo_registration artifacts = (Inr demo_reply, artifacts)"
    by (simp add: bound_output_def demo_registration_def)
  moreover have "validate_handler_output always_valid demo_reply demo_registration = Inr ()"
    "validate_against always_valid demo_reply s = Inr ()" for s
    by (simp_all add: validate_handler_output_def validate_against_def always_valid_def demo_reply_def envelope_success_def)
  ultimately show ?thesis by (simp add: check_reply_def) (simp add: demo_reply_def envelope_success_def)
qed

lemmas demo_invoke = invoke_def invoke_effectful_def demo_gates demo_context wait_for_in_flight_def demo_tools demo_checked

theorem bridge_runs_only_authorised_witness:
  "\<exists>result bridge' artifacts' started.
     invoke demo_env always_valid demo_store \<lparr>ho_spawned = True, ho_reply = None\<rparr> demo_call (all_for_tool ''write'' [])
       (Some demo_ledger) 1000000 demo_bridge [] = (result, bridge', artifacts', started)
     \<and> (\<exists>registration capabilities.
          authorised demo_env always_valid demo_bridge demo_call (all_for_tool ''write'' []) (Some demo_ledger) 1000000
            registration capabilities
          \<and> started = [(''write'', capabilities, call_context demo_env demo_call registration 1000000)])"
proof -
  obtain result bridge' artifacts' started where
    i: "invoke demo_env always_valid demo_store \<lparr>ho_spawned = True, ho_reply = None\<rparr> demo_call (all_for_tool ''write'' [])
       (Some demo_ledger) 1000000 demo_bridge [] = (result, bridge', artifacts', started)" by (metis prod_cases4)
  have "snd (snd (snd (invoke demo_env always_valid demo_store \<lparr>ho_spawned = True, ho_reply = None\<rparr> demo_call (all_for_tool ''write'' [])
       (Some demo_ledger) 1000000 demo_bridge []))) \<noteq> []" by (simp add: demo_invoke)
  then have "started \<noteq> []" using i by simp
  with bridge_runs_only_authorised [OF i] i show ?thesis by (auto simp: demo_call_def)
qed

theorem effect_not_repeated_witness:
  "\<exists>e e' between.
     serve demo_env always_valid demo_store
       [demo_request None, demo_request (Some (Inl HandlerFailed)), demo_request (Some (Inr demo_reply))] demo_bridge [] = e # between @ [e']
     \<and> ce_started e \<and> ce_started e' \<and> ce_result e' = Inr demo_reply
     \<and> (\<exists>x \<in> set (e # between). ce_key x = ce_key e \<and> ce_replied x \<and> (\<exists>err. ce_result x = Inl err))"
proof -
  let ?key = "call_key demo_env demo_call"
  let ?e = "\<lparr>ce_call = demo_call, ce_key = ?key, ce_class = EffectCall, ce_started = True, ce_replied = False, ce_result = Inl HandlerFailed\<rparr>"
  let ?x = "\<lparr>ce_call = demo_call, ce_key = ?key, ce_class = EffectCall, ce_started = False, ce_replied = True, ce_result = Inl HandlerFailed\<rparr>"
  let ?e' = "\<lparr>ce_call = demo_call, ce_key = ?key, ce_class = EffectCall, ce_started = True, ce_replied = True, ce_result = Inr demo_reply\<rparr>"
  have "serve demo_env always_valid demo_store
       [demo_request None, demo_request (Some (Inl HandlerFailed)), demo_request (Some (Inr demo_reply))] demo_bridge []
     = [] @ ?e # [?x] @ ?e' # []" by (simp add: demo_invoke demo_request_def demo_key)
  from effect_not_repeated [OF this] this show ?thesis
    by (intro exI [of _ ?e] exI [of _ ?e'] exI [of _ "[?x]"]) auto
qed

theorem bridge_result_bounded_witness:
  "\<exists>r bridge' artifacts' started.
     invoke demo_env always_valid demo_store \<lparr>ho_spawned = True, ho_reply = Some (Inr demo_reply)\<rparr> demo_call
       (all_for_tool ''write'' []) (Some demo_ledger) 1000000 demo_bridge [] = (Inr r, bridge', artifacts', started)
     \<and> length (envelope_bytes demo_env r) \<le> 200"
proof -
  let ?i = "invoke demo_env always_valid demo_store \<lparr>ho_spawned = True, ho_reply = Some (Inr demo_reply)\<rparr> demo_call
       (all_for_tool ''write'' []) (Some demo_ledger) 1000000 demo_bridge []"
  have gates: "call_gates demo_env always_valid demo_bridge demo_call (all_for_tool ''write'' []) (Some demo_ledger) 1000000
      = Inr (demo_registration, [], True)"
    by (simp add: demo_gates)
  have "fst ?i = Inr demo_reply" by (simp add: demo_invoke)
  then obtain bridge' artifacts' started where i: "?i = (Inr demo_reply, bridge', artifacts', started)"
    by (metis prod.collapse)
  have "unat (rg_inline_output_limit_bytes demo_registration) = 200" by (simp add: demo_registration_def)
  moreover have "tb_idempotent_results demo_bridge (call_key demo_env demo_call) = None" by (simp add: demo_tools)
  ultimately show ?thesis using bridge_result_bounded [OF gates i] i by auto
qed

end
