(* ===== verification/Run_Control.thy ===== *)
theory Run_Control
  imports Approval
begin

text \<open>
  The run controller of a host (\<open>workflow-runtime/src/controller.rs\<close>) and the contract of a run
  (\<open>workflow-runtime/src/lib.rs\<close>): the ceilings of a run, the budget of model turns, tool calls and
  output bytes, the three deadlines, and the terminal cause with its one-shot cleanup.

  The clock is a parameter of every operation, as in the code.  The counters are \<open>u64\<close> words; that
  their additions and the one subtraction do not wrap is part of what is proved.
\<close>

section \<open>The contract of a run\<close>

definition RunId_new :: "string \<Rightarrow> unit + string" where
  "RunId_new value = (if value = [] then Inl () else Inr value)"

record RunLimits =
  rl_max_model_turns :: u64
  rl_max_tool_calls :: u64
  rl_max_calls_per_tool :: u64
  rl_max_wall_time_ms :: u64
  rl_max_idle_time_ms :: u64
  rl_max_tool_time_ms :: u64
  rl_max_tool_output_bytes :: u64

record RunContext =
  rx_run_id :: string
  rx_limits :: RunLimits

datatype RunStatus =
    StatusCompleted | StatusAbstained | StatusIncomplete | StatusFailed | StatusCancelled | StatusTimedOut
  | StatusLimitExceeded | StatusPolicyDenied

datatype RunTimeoutKind = TimeoutWall | TimeoutIdle | TimeoutTool

datatype RunLimitKind = LimitModelTurns | LimitTotalToolCalls | LimitToolCallsPerTool | LimitToolOutputBytes

datatype ('t, 'd) RunOutcome =
    OutCompleted 't | OutAbstained 'd | OutIncomplete 'd | OutFailed 'd | OutCancelled 'd
  | OutTimedOut RunTimeoutKind 'd | OutLimitExceeded RunLimitKind 'd | OutPolicyDenied 'd

fun RunOutcome_status :: "('t, 'd) RunOutcome \<Rightarrow> RunStatus" where
  "RunOutcome_status (OutCompleted output) = StatusCompleted"
| "RunOutcome_status (OutAbstained diagnostic) = StatusAbstained"
| "RunOutcome_status (OutIncomplete diagnostic) = StatusIncomplete"
| "RunOutcome_status (OutFailed diagnostic) = StatusFailed"
| "RunOutcome_status (OutCancelled diagnostic) = StatusCancelled"
| "RunOutcome_status (OutTimedOut timeout diagnostic) = StatusTimedOut"
| "RunOutcome_status (OutLimitExceeded limit diagnostic) = StatusLimitExceeded"
| "RunOutcome_status (OutPolicyDenied diagnostic) = StatusPolicyDenied"

record ('t, 'd) RunResult =
  rr_run_id :: string
  rr_outcome :: "('t, 'd) RunOutcome"

section \<open>The controller\<close>

datatype RunControlError =
    ClockRegressed | ModelTurnWhileToolCallActive | ToolCallAlreadyActive | ToolOutputWithoutActiveCall
  | ToolFinishWithoutActiveCall | RunFinishWithActiveToolCall

datatype RunTerminalCause =
    CauseCancelled | CauseTimedOut RunTimeoutKind | CauseLimitExceeded RunLimitKind | CauseFailed RunControlError

fun RunTerminalCause_status :: "RunTerminalCause \<Rightarrow> RunStatus" where
  "RunTerminalCause_status CauseCancelled = StatusCancelled"
| "RunTerminalCause_status (CauseTimedOut timeout) = StatusTimedOut"
| "RunTerminalCause_status (CauseLimitExceeded limit) = StatusLimitExceeded"
| "RunTerminalCause_status (CauseFailed error) = StatusFailed"

fun into_outcome :: "RunTerminalCause \<Rightarrow> 'd \<Rightarrow> ('t, 'd) RunOutcome" where
  "into_outcome CauseCancelled diagnostic = OutCancelled diagnostic"
| "into_outcome (CauseTimedOut timeout) diagnostic = OutTimedOut timeout diagnostic"
| "into_outcome (CauseLimitExceeded limit) diagnostic = OutLimitExceeded limit diagnostic"
| "into_outcome (CauseFailed error) diagnostic = OutFailed diagnostic"

record ToolCallCleanup =
  cl_exact_tool_id :: string
  cl_exact_version :: string

record RunTermination =
  rt_cause :: RunTerminalCause
  rt_cleanup :: "ToolCallCleanup option"
  rt_source_context :: RunContext

record ActiveToolCall =
  at_cleanup :: ToolCallCleanup
  at_started_at :: Duration

record RunController =
  ct_run_id :: string
  ct_limits :: RunLimits
  ct_model_turn_count :: u64
  ct_total_tool_call_count :: u64
  ct_tool_call_counts :: "string \<rightharpoonup> string \<rightharpoonup> u64"
  ct_accepted_tool_output_bytes :: u64
  ct_last_elapsed :: Duration
  ct_idle_started_at :: Duration
  ct_active_tool_call :: "ActiveToolCall option"
  ct_terminal_cause :: "RunTerminalCause option"

definition RunController_new :: "RunContext \<Rightarrow> RunController" where
  "RunController_new context =
     \<lparr>ct_run_id = rx_run_id context, ct_limits = rx_limits context, ct_model_turn_count = 0,
      ct_total_tool_call_count = 0, ct_tool_call_counts = Map.empty, ct_accepted_tool_output_bytes = 0,
      ct_last_elapsed = 0, ct_idle_started_at = 0, ct_active_tool_call = None, ct_terminal_cause = None\<rparr>"

definition belongs_to :: "RunController \<Rightarrow> RunContext \<Rightarrow> bool" where
  "belongs_to c context \<longleftrightarrow> ct_run_id c = rx_run_id context \<and> ct_limits c = rx_limits context"

definition tool_call_count :: "RunController \<Rightarrow> string \<Rightarrow> string \<Rightarrow> u64" where
  "tool_call_count c tool_id version =
     (case Option.bind (ct_tool_call_counts c tool_id) (\<lambda>versions. versions version) of Some n \<Rightarrow> n | None \<Rightarrow> 0)"

definition from_millis :: "u64 \<Rightarrow> Duration" where
  "from_millis ms = unat ms * 1000000"

text \<open>The closure \<open>consider\<close>: an earlier deadline wins, the first one on a tie.\<close>

definition consider_deadline ::
    "Duration \<Rightarrow> Duration option \<Rightarrow> RunTimeoutKind \<Rightarrow> (Duration \<times> RunTimeoutKind) option \<Rightarrow> (Duration \<times> RunTimeoutKind) option" where
  "consider_deadline elapsed deadline kind winner =
     (case deadline of
        None \<Rightarrow> winner
      | Some deadline \<Rightarrow>
          if elapsed \<ge> deadline \<and> (case winner of Some (earliest, _) \<Rightarrow> deadline < earliest | None \<Rightarrow> True)
          then Some (deadline, kind) else winner)"

definition reached_timeout :: "RunController \<Rightarrow> Duration \<Rightarrow> RunTimeoutKind option" where
  "reached_timeout c elapsed =
     (let limits = ct_limits c;
          wall = consider_deadline elapsed (Some (from_millis (rl_max_wall_time_ms limits))) TimeoutWall None;
          idle = consider_deadline elapsed
            (duration_checked_add (ct_idle_started_at c) (from_millis (rl_max_idle_time_ms limits))) TimeoutIdle wall;
          winner = consider_deadline elapsed
            (Option.bind (ct_active_tool_call c) (\<lambda>active.
               duration_checked_add (at_started_at active) (from_millis (rl_max_tool_time_ms limits)))) TimeoutTool idle
      in map_option snd winner)"

definition run_termination :: "RunController \<Rightarrow> RunTerminalCause \<Rightarrow> ToolCallCleanup option \<Rightarrow> RunTermination" where
  "run_termination c cause cleanup =
     \<lparr>rt_cause = cause, rt_cleanup = cleanup, rt_source_context = \<lparr>rx_run_id = ct_run_id c, rx_limits = ct_limits c\<rparr>\<rparr>"

definition terminate :: "RunTerminalCause \<Rightarrow> RunController \<Rightarrow> RunTermination \<times> RunController" where
  "terminate cause c =
     (case ct_terminal_cause c of
        Some latched \<Rightarrow> (run_termination c latched None, c)
      | None \<Rightarrow>
          (run_termination c cause (map_option at_cleanup (ct_active_tool_call c)),
           c\<lparr>ct_terminal_cause := Some cause, ct_active_tool_call := None\<rparr>))"

type_synonym control_result = "(RunTermination + unit) \<times> RunController"

definition refuse :: "RunTerminalCause \<Rightarrow> RunController \<Rightarrow> control_result" where
  "refuse cause c = (case terminate cause c of (t, c) \<Rightarrow> (Inl t, c))"

definition check_boundary :: "Duration \<Rightarrow> RunController \<Rightarrow> control_result" where
  "check_boundary elapsed c =
     (case ct_terminal_cause c of
        Some cause \<Rightarrow> (Inl (run_termination c cause None), c)
      | None \<Rightarrow>
          if elapsed < ct_last_elapsed c then refuse (CauseFailed ClockRegressed) c
          else
            let c = c\<lparr>ct_last_elapsed := elapsed\<rparr> in
            case reached_timeout c elapsed of
              Some timeout \<Rightarrow> refuse (CauseTimedOut timeout) c
            | None \<Rightarrow> (Inr (), c))"

definition and_then :: "control_result \<Rightarrow> (RunController \<Rightarrow> control_result) \<Rightarrow> control_result" where
  "and_then r f = (case r of (Inl t, c) \<Rightarrow> (Inl t, c) | (Inr _, c) \<Rightarrow> f c)"

definition controller_poll :: "Duration \<Rightarrow> RunController \<Rightarrow> control_result" where
  "controller_poll elapsed c = check_boundary elapsed c"

definition preflight_finish :: "Duration \<Rightarrow> RunController \<Rightarrow> control_result" where
  "preflight_finish elapsed c =
     and_then (check_boundary elapsed c) (\<lambda>c.
       if ct_active_tool_call c \<noteq> None then refuse (CauseFailed RunFinishWithActiveToolCall) c else (Inr (), c))"

definition controller_finish :: "Duration \<Rightarrow> RunController \<Rightarrow> RunTermination + unit" where
  "controller_finish elapsed c = fst (preflight_finish elapsed c)"

definition into_rejection_termination :: "RunController \<Rightarrow> RunTermination option" where
  "into_rejection_termination c =
     (case ct_terminal_cause c of
        Some cause \<Rightarrow> Some (run_termination c cause None)
      | None \<Rightarrow>
          if ct_active_tool_call c = None then None
          else Some (fst (terminate (CauseFailed RunFinishWithActiveToolCall) c)))"

definition admit_model_turn :: "Duration \<Rightarrow> RunController \<Rightarrow> control_result" where
  "admit_model_turn elapsed c =
     and_then (check_boundary elapsed c) (\<lambda>c.
       if ct_active_tool_call c \<noteq> None then refuse (CauseFailed ModelTurnWhileToolCallActive) c
       else if ct_model_turn_count c \<ge> rl_max_model_turns (ct_limits c) then refuse (CauseLimitExceeded LimitModelTurns) c
       else (Inr (), c\<lparr>ct_model_turn_count := ct_model_turn_count c + 1, ct_idle_started_at := elapsed\<rparr>))"

definition begin_tool_call :: "Duration \<Rightarrow> string \<Rightarrow> string \<Rightarrow> RunController \<Rightarrow> control_result" where
  "begin_tool_call elapsed tool_id version c =
     and_then (check_boundary elapsed c) (\<lambda>c.
       if ct_active_tool_call c \<noteq> None then refuse (CauseFailed ToolCallAlreadyActive) c
       else if ct_total_tool_call_count c \<ge> rl_max_tool_calls (ct_limits c)
       then refuse (CauseLimitExceeded LimitTotalToolCalls) c
       else if tool_call_count c tool_id version \<ge> rl_max_calls_per_tool (ct_limits c)
       then refuse (CauseLimitExceeded LimitToolCallsPerTool) c
       else
         let versions = (case ct_tool_call_counts c tool_id of Some versions \<Rightarrow> versions | None \<Rightarrow> Map.empty);
             calls = (case versions version of Some n \<Rightarrow> n | None \<Rightarrow> 0)
         in (Inr (), c\<lparr>ct_total_tool_call_count := ct_total_tool_call_count c + 1,
              ct_tool_call_counts := (ct_tool_call_counts c)(tool_id \<mapsto> versions(version \<mapsto> calls + 1)),
              ct_active_tool_call := Some \<lparr>at_cleanup = \<lparr>cl_exact_tool_id = tool_id, cl_exact_version = version\<rparr>, at_started_at = elapsed\<rparr>,
              ct_idle_started_at := elapsed\<rparr>))"

definition accept_tool_output :: "Duration \<Rightarrow> u64 \<Rightarrow> RunController \<Rightarrow> control_result" where
  "accept_tool_output elapsed bytes c =
     and_then (check_boundary elapsed c) (\<lambda>c.
       if ct_active_tool_call c = None then refuse (CauseFailed ToolOutputWithoutActiveCall) c
       else
         let remaining = rl_max_tool_output_bytes (ct_limits c) - ct_accepted_tool_output_bytes c in
         if bytes > remaining then refuse (CauseLimitExceeded LimitToolOutputBytes) c
         else
           let c = c\<lparr>ct_accepted_tool_output_bytes := ct_accepted_tool_output_bytes c + bytes\<rparr> in
           (Inr (), if bytes \<noteq> 0 then c\<lparr>ct_idle_started_at := elapsed\<rparr> else c))"

definition finish_tool_call :: "Duration \<Rightarrow> RunController \<Rightarrow> control_result" where
  "finish_tool_call elapsed c =
     and_then (check_boundary elapsed c) (\<lambda>c.
       if ct_active_tool_call c = None then refuse (CauseFailed ToolFinishWithoutActiveCall) c
       else (Inr (), c\<lparr>ct_active_tool_call := None, ct_idle_started_at := elapsed\<rparr>))"

definition mark_progress :: "Duration \<Rightarrow> RunController \<Rightarrow> control_result" where
  "mark_progress elapsed c = and_then (check_boundary elapsed c) (\<lambda>c. (Inr (), c\<lparr>ct_idle_started_at := elapsed\<rparr>))"

definition request_cancel :: "Duration \<Rightarrow> RunController \<Rightarrow> RunTermination \<times> RunController" where
  "request_cancel elapsed c =
     (case check_boundary elapsed c of (Inl t, c) \<Rightarrow> (t, c) | (Inr _, c) \<Rightarrow> terminate CauseCancelled c)"

section \<open>Sequences of operations\<close>

datatype control =
    Poll Duration
  | AdmitModelTurn Duration
  | BeginToolCall Duration string string
  | AcceptToolOutput Duration u64
  | FinishToolCall Duration
  | MarkProgress Duration
  | RequestCancel Duration
  | PreflightFinish Duration

fun control_step :: "control \<Rightarrow> RunController \<Rightarrow> control_result" where
  "control_step (Poll e) c = controller_poll e c"
| "control_step (AdmitModelTurn e) c = admit_model_turn e c"
| "control_step (BeginToolCall e t v) c = begin_tool_call e t v c"
| "control_step (AcceptToolOutput e n) c = accept_tool_output e n c"
| "control_step (FinishToolCall e) c = finish_tool_call e c"
| "control_step (MarkProgress e) c = mark_progress e c"
| "control_step (RequestCancel e) c = (case request_cancel e c of (t, c) \<Rightarrow> (Inl t, c))"
| "control_step (PreflightFinish e) c = preflight_finish e c"

fun control_run :: "control list \<Rightarrow> RunController \<Rightarrow> (control \<times> (RunTermination + unit)) list \<times> RunController" where
  "control_run [] c = ([], c)"
| "control_run (op # ops) c =
     (case control_step op c of (r, c) \<Rightarrow> (case control_run ops c of (log, c) \<Rightarrow> ((op, r) # log, c)))"

lemma control_run_append:
  "control_run (ops @ ops') c =
     (case control_run ops c of (log, c) \<Rightarrow> (case control_run ops' c of (log', c) \<Rightarrow> (log @ log', c)))"
  by (induction ops arbitrary: c) (simp_all split: prod.splits)

end
