(* ===== verification/Run_Control_Correct.thy ===== *)
theory Run_Control_Correct
  imports Run_Control
begin

text \<open>
  What the run controller guarantees over any sequence of operations: its counters are exact and
  never pass a ceiling, nothing is accepted at or after a deadline, and the first terminal cause
  is final and delivers the cleanup of the open tool call exactly once.
\<close>

section \<open>One operation\<close>

fun at_time :: "control \<Rightarrow> Duration" where
  "at_time (Poll e) = e"
| "at_time (AdmitModelTurn e) = e"
| "at_time (BeginToolCall e _ _) = e"
| "at_time (AcceptToolOutput e _) = e"
| "at_time (FinishToolCall e) = e"
| "at_time (MarkProgress e) = e"
| "at_time (RequestCancel e) = e"
| "at_time (PreflightFinish e) = e"

text \<open>The condition of an operation besides the clock and the deadlines.\<close>

fun within_budget :: "control \<Rightarrow> RunController \<Rightarrow> bool" where
  "within_budget (AdmitModelTurn _) c \<longleftrightarrow>
     ct_active_tool_call c = None \<and> ct_model_turn_count c < rl_max_model_turns (ct_limits c)"
| "within_budget (BeginToolCall _ t v) c \<longleftrightarrow>
     ct_active_tool_call c = None \<and> ct_total_tool_call_count c < rl_max_tool_calls (ct_limits c)
     \<and> tool_call_count c t v < rl_max_calls_per_tool (ct_limits c)"
| "within_budget (AcceptToolOutput _ n) c \<longleftrightarrow>
     ct_active_tool_call c \<noteq> None \<and> n \<le> rl_max_tool_output_bytes (ct_limits c) - ct_accepted_tool_output_bytes c"
| "within_budget (FinishToolCall _) c \<longleftrightarrow> ct_active_tool_call c \<noteq> None"
| "within_budget (RequestCancel _) c \<longleftrightarrow> False"
| "within_budget (PreflightFinish _) c \<longleftrightarrow> ct_active_tool_call c = None"
| "within_budget _ c \<longleftrightarrow> True"

text \<open>What an accepted operation charges.\<close>

fun charge :: "control \<Rightarrow> RunController \<Rightarrow> RunController" where
  "charge (AdmitModelTurn e) c = c\<lparr>ct_model_turn_count := ct_model_turn_count c + 1, ct_idle_started_at := e\<rparr>"
| "charge (BeginToolCall e t v) c =
     c\<lparr>ct_total_tool_call_count := ct_total_tool_call_count c + 1,
       ct_tool_call_counts := (ct_tool_call_counts c)(t \<mapsto>
         (case ct_tool_call_counts c t of Some versions \<Rightarrow> versions | None \<Rightarrow> Map.empty)(v \<mapsto> tool_call_count c t v + 1)),
       ct_active_tool_call := Some \<lparr>at_cleanup = \<lparr>cl_exact_tool_id = t, cl_exact_version = v\<rparr>, at_started_at = e\<rparr>,
       ct_idle_started_at := e\<rparr>"
| "charge (AcceptToolOutput e n) c =
     c\<lparr>ct_accepted_tool_output_bytes := ct_accepted_tool_output_bytes c + n,
       ct_idle_started_at := (if n = 0 then ct_idle_started_at c else e)\<rparr>"
| "charge (FinishToolCall e) c = c\<lparr>ct_active_tool_call := None, ct_idle_started_at := e\<rparr>"
| "charge (MarkProgress e) c = c\<lparr>ct_idle_started_at := e\<rparr>"
| "charge _ c = c"

definition on_time :: "Duration \<Rightarrow> RunController \<Rightarrow> bool" where
  "on_time e c \<longleftrightarrow> ct_last_elapsed c \<le> e \<and> reached_timeout c e = None"

lemma reached_timeout_last [simp]: "reached_timeout (c\<lparr>ct_last_elapsed := e\<rparr>) = reached_timeout c"
  by (rule ext) (simp add: reached_timeout_def)

lemma tool_call_count_last [simp]: "tool_call_count (c\<lparr>ct_last_elapsed := e\<rparr>) = tool_call_count c"
  by (intro ext) (simp add: tool_call_count_def)

lemma boundary_Some: "ct_terminal_cause c = Some cause \<Longrightarrow> check_boundary e c = (Inl (run_termination c cause None), c)"
  by (simp add: check_boundary_def)

lemma boundary_on_time: "ct_terminal_cause c = None \<Longrightarrow> on_time e c \<Longrightarrow> check_boundary e c = (Inr (), c\<lparr>ct_last_elapsed := e\<rparr>)"
  by (simp add: check_boundary_def on_time_def Let_def)

text \<open>The controller after it has ended with \<open>cause\<close> at time \<open>e\<close>.\<close>

definition ended_with :: "RunTerminalCause \<Rightarrow> RunController \<Rightarrow> Duration \<Rightarrow> RunController" where
  "ended_with cause c e = c\<lparr>ct_last_elapsed := e, ct_active_tool_call := None, ct_terminal_cause := Some cause\<rparr>"

lemma terminate_healthy:
  "ct_terminal_cause c = None \<Longrightarrow>
   terminate cause c = (run_termination c cause (map_option at_cleanup (ct_active_tool_call c)),
     ended_with cause c (ct_last_elapsed c))"
  by (simp add: terminate_def ended_with_def)

lemma refuse_healthy:
  "ct_terminal_cause c = None \<Longrightarrow>
   refuse cause c = (Inl (run_termination c cause (map_option at_cleanup (ct_active_tool_call c))),
     ended_with cause c (ct_last_elapsed c))"
  by (simp add: refuse_def terminate_healthy)

lemma run_termination_simps [simp]:
  "run_termination (c\<lparr>ct_last_elapsed := e\<rparr>) = run_termination c"
  "run_termination (ended_with cause c e) = run_termination c"
  by (intro ext; simp add: run_termination_def ended_with_def)+

lemma ended_with_last [simp]: "ended_with cause (c\<lparr>ct_last_elapsed := e\<rparr>) e' = ended_with cause c e'"
  by (simp add: ended_with_def)

lemma boundary_late:
  assumes "ct_terminal_cause c = None" "\<not> on_time e c"
  shows "\<exists>cause e'. check_boundary e c
    = (Inl (run_termination c cause (map_option at_cleanup (ct_active_tool_call c))), ended_with cause c e')"
  using assms by (auto simp: check_boundary_def on_time_def Let_def refuse_healthy split: option.splits)

lemmas control_ops = controller_poll_def admit_model_turn_def begin_tool_call_def accept_tool_output_def
  finish_tool_call_def mark_progress_def request_cancel_def preflight_finish_def

lemma step_ended: "ct_terminal_cause c = Some cause \<Longrightarrow> control_step op c = (Inl (run_termination c cause None), c)"
  by (cases op) (simp_all add: control_ops and_then_def boundary_Some)

lemma step_late:
  assumes "ct_terminal_cause c = None" "\<not> on_time (at_time op) c"
  shows "\<exists>cause e'. control_step op c
    = (Inl (run_termination c cause (map_option at_cleanup (ct_active_tool_call c))), ended_with cause c e')"
proof -
  obtain cause e' where "check_boundary (at_time op) c
      = (Inl (run_termination c cause (map_option at_cleanup (ct_active_tool_call c))), ended_with cause c e')"
    using boundary_late [OF assms] by blast
  then show ?thesis by (cases op) (auto simp: control_ops and_then_def)
qed

lemma step_refused:
  assumes "ct_terminal_cause c = None" "on_time (at_time op) c" "\<not> within_budget op c"
  shows "\<exists>cause e'. control_step op c
    = (Inl (run_termination c cause (map_option at_cleanup (ct_active_tool_call c))), ended_with cause c e')"
  using assms
  by (cases op) (auto simp: control_ops and_then_def boundary_on_time refuse_healthy terminate_healthy Let_def not_less not_le)

lemma step_accepted:
  assumes "ct_terminal_cause c = None" "on_time (at_time op) c" "within_budget op c"
  shows "control_step op c = (Inr (), (charge op c)\<lparr>ct_last_elapsed := at_time op\<rparr>)"
  using assms
  by (cases op)
    (auto simp: control_ops and_then_def boundary_on_time Let_def not_less not_le tool_call_count_def split: option.splits)

lemma control_step_cases:
  obtains (ended) cause where "ct_terminal_cause c = Some cause" "control_step op c = (Inl (run_termination c cause None), c)"
  | (refused) cause e where "ct_terminal_cause c = None" "\<not> (on_time (at_time op) c \<and> within_budget op c)"
      "control_step op c = (Inl (run_termination c cause (map_option at_cleanup (ct_active_tool_call c))), ended_with cause c e)"
  | (accepted) "ct_terminal_cause c = None" "on_time (at_time op) c" "within_budget op c"
      "control_step op c = (Inr (), (charge op c)\<lparr>ct_last_elapsed := at_time op\<rparr>)"
proof (cases "ct_terminal_cause c")
  case None
  show thesis
  proof (cases "on_time (at_time op) c")
    case True
    note now = this
    show ?thesis
    proof (cases "within_budget op c")
      case True
      then show ?thesis using accepted None now step_accepted by blast
    next
      case False
      then show ?thesis using step_refused [OF None now] refused None by blast
    qed
  next
    case False
    then show ?thesis using step_late [OF None] refused None by blast
  qed
next
  case (Some cause)
  then show thesis using ended step_ended by blast
qed


section \<open>Sequences of operations\<close>

text \<open>The log of a run, and what of it counts: the accepted turns, calls and bytes, and the open call.\<close>

type_synonym control_log = "(control \<times> (RunTermination + unit)) list"

definition accepted :: "control_log \<Rightarrow> control list" where
  "accepted log = map fst (filter (\<lambda>(_, r). r = Inr ()) log)"

fun is_turn :: "control \<Rightarrow> bool" where
  "is_turn (AdmitModelTurn _) = True"
| "is_turn _ = False"

fun is_call :: "control \<Rightarrow> bool" where
  "is_call (BeginToolCall _ _ _) = True"
| "is_call _ = False"

fun is_call_of :: "string \<Rightarrow> string \<Rightarrow> control \<Rightarrow> bool" where
  "is_call_of t v (BeginToolCall _ t' v') \<longleftrightarrow> t' = t \<and> v' = v"
| "is_call_of t v _ \<longleftrightarrow> False"

fun output_bytes :: "control \<Rightarrow> nat" where
  "output_bytes (AcceptToolOutput _ n) = unat n"
| "output_bytes _ = 0"

fun open_after :: "control \<Rightarrow> ToolCallCleanup option \<Rightarrow> ToolCallCleanup option" where
  "open_after (BeginToolCall _ t v) _ = Some \<lparr>cl_exact_tool_id = t, cl_exact_version = v\<rparr>"
| "open_after (FinishToolCall _) _ = None"
| "open_after _ current = current"

definition open_call :: "control list \<Rightarrow> ToolCallCleanup option" where
  "open_call ops = fold open_after ops None"

lemma accepted_simps [simp]:
  "accepted [] = []" "accepted (log @ log') = accepted log @ accepted log'"
  "accepted [(op, Inr ())] = [op]" "accepted [(op, Inl t)] = []"
  by (simp_all add: accepted_def)

text \<open>The counters are those of the log and below their ceilings.\<close>

definition counters_exact :: "control_log \<Rightarrow> RunController \<Rightarrow> bool" where
  "counters_exact log c \<longleftrightarrow>
     unat (ct_model_turn_count c) = length (filter is_turn (accepted log))
     \<and> unat (ct_total_tool_call_count c) = length (filter is_call (accepted log))
     \<and> (\<forall>t v. unat (tool_call_count c t v) = length (filter (is_call_of t v) (accepted log)))
     \<and> unat (ct_accepted_tool_output_bytes c) = sum_list (map output_bytes (accepted log))"

definition below_ceilings :: "RunController \<Rightarrow> bool" where
  "below_ceilings c \<longleftrightarrow>
     ct_model_turn_count c \<le> rl_max_model_turns (ct_limits c)
     \<and> ct_total_tool_call_count c \<le> rl_max_tool_calls (ct_limits c)
     \<and> (\<forall>t v. tool_call_count c t v \<le> rl_max_calls_per_tool (ct_limits c))
     \<and> ct_accepted_tool_output_bytes c \<le> rl_max_tool_output_bytes (ct_limits c)"

lemma unat_plus_bounded: "unat a + unat b \<le> unat c \<Longrightarrow> unat (a + b) = unat a + unat b" for a b c :: u64
proof -
  assume le: "unat a + unat b \<le> unat c"
  have "unat c < 2 ^ 64" using unsigned_less [where 'a = nat, of c] by simp
  with le show ?thesis by (simp add: unat_word_ariths)
qed

lemma unat_plus_one_less: "a < b \<Longrightarrow> unat (a + 1) = Suc (unat a)" for a b :: u64
  using unat_plus_bounded [of a 1 b] by (simp add: word_less_nat_alt)

lemma plus_one_le: "a < b \<Longrightarrow> a + 1 \<le> b" for a b :: u64
  by (simp add: inc_le)

lemma unat_plus_remaining: "n \<le> m - a \<Longrightarrow> a \<le> m \<Longrightarrow> unat (a + n) = unat a + unat n \<and> a + n \<le> m" for a n m :: u64
proof -
  assume n: "n \<le> m - a" and a: "a \<le> m"
  have "unat (m - a) = unat m - unat a" using a by (rule unat_sub)
  with n a have sum: "unat a + unat n \<le> unat m" by (simp add: word_le_nat_alt)
  with unat_plus_bounded show ?thesis by (simp add: word_le_nat_alt)
qed

lemma tool_call_count_charge:
  "tool_call_count (charge op c) t v = tool_call_count c t v + (if is_call_of t v op then 1 else 0)"
  by (cases op) (auto simp: tool_call_count_def split: option.splits)


lemma charge_counters:
  assumes "within_budget op c" and "below_ceilings c"
  shows "below_ceilings (charge op c)"
    and "unat (ct_model_turn_count (charge op c)) = unat (ct_model_turn_count c) + (if is_turn op then 1 else 0)"
    and "unat (ct_total_tool_call_count (charge op c)) = unat (ct_total_tool_call_count c) + (if is_call op then 1 else 0)"
    and "unat (tool_call_count (charge op c) t v) = unat (tool_call_count c t v) + (if is_call_of t v op then 1 else 0)"
    and "unat (ct_accepted_tool_output_bytes (charge op c)) = unat (ct_accepted_tool_output_bytes c) + output_bytes op"
proof -
  have limits: "ct_limits (charge op c) = ct_limits c" by (cases op) simp_all
  have calls: "tool_call_count c t v < rl_max_calls_per_tool (ct_limits c)" if "is_call_of t v op" for t v
    using assms(1) that by (cases op) auto
  show "unat (tool_call_count (charge op c) t v) = unat (tool_call_count c t v) + (if is_call_of t v op then 1 else 0)"
    using unat_plus_one_less [OF calls] by (simp add: tool_call_count_charge)
  show "unat (ct_model_turn_count (charge op c)) = unat (ct_model_turn_count c) + (if is_turn op then 1 else 0)"
    using assms(1) by (cases op) (auto simp: unat_plus_one_less)
  show "unat (ct_total_tool_call_count (charge op c)) = unat (ct_total_tool_call_count c) + (if is_call op then 1 else 0)"
    using assms(1) by (cases op) (auto simp: unat_plus_one_less)
  show "unat (ct_accepted_tool_output_bytes (charge op c)) = unat (ct_accepted_tool_output_bytes c) + output_bytes op"
    using assms by (cases op) (auto simp: unat_plus_remaining below_ceilings_def)
  have "tool_call_count (charge op c) t v \<le> rl_max_calls_per_tool (ct_limits c)" for t v
    using assms(2) plus_one_le [OF calls] by (auto simp: tool_call_count_charge below_ceilings_def)
  moreover have "ct_model_turn_count (charge op c) \<le> rl_max_model_turns (ct_limits c)
      \<and> ct_total_tool_call_count (charge op c) \<le> rl_max_tool_calls (ct_limits c)
      \<and> ct_accepted_tool_output_bytes (charge op c) \<le> rl_max_tool_output_bytes (ct_limits c)"
    using assms by (cases op) (auto simp: below_ceilings_def unat_plus_remaining intro: plus_one_le)
  ultimately show "below_ceilings (charge op c)" by (simp add: below_ceilings_def limits)
qed

text \<open>How a run has gone so far: everything accepted, or ended once and refused from then on.\<close>

definition run_shape :: "control_log \<Rightarrow> RunController \<Rightarrow> bool" where
  "run_shape log c \<longleftrightarrow>
     (case ct_terminal_cause c of
        None \<Rightarrow> (\<forall>entry \<in> set log. snd entry = Inr ())
          \<and> map_option at_cleanup (ct_active_tool_call c) = open_call (accepted log)
      | Some cause \<Rightarrow> \<exists>before op after.
          log = before @ (op, Inl (run_termination c cause (open_call (accepted before)))) # after
          \<and> (\<forall>entry \<in> set before. snd entry = Inr ())
          \<and> (\<forall>entry \<in> set after. snd entry = Inl (run_termination c cause None)))"

lemma run_termination_charge [simp]: "run_termination (charge op c) = run_termination c"
  by (cases op; intro ext; simp add: run_termination_def)

definition run_inv :: "RunContext \<Rightarrow> control_log \<Rightarrow> RunController \<Rightarrow> bool" where
  "run_inv context log c \<longleftrightarrow>
     ct_run_id c = rx_run_id context \<and> ct_limits c = rx_limits context
     \<and> counters_exact log c \<and> below_ceilings c \<and> run_shape log c"

lemma charge_fixed [simp]:
  "ct_run_id (charge op c) = ct_run_id c" "ct_limits (charge op c) = ct_limits c"
  "ct_terminal_cause (charge op c) = ct_terminal_cause c"
  by (cases op; simp)+

lemma charge_open:
  "map_option at_cleanup (ct_active_tool_call (charge op c)) = open_after op (map_option at_cleanup (ct_active_tool_call c))"
  by (cases op) simp_all

lemma tool_call_count_ended [simp]: "tool_call_count (ended_with cause c e) = tool_call_count c"
  by (intro ext) (simp add: tool_call_count_def ended_with_def)

lemma ended_with_fixed [simp]:
  "ct_run_id (ended_with cause c e) = ct_run_id c" "ct_limits (ended_with cause c e) = ct_limits c"
  "ct_model_turn_count (ended_with cause c e) = ct_model_turn_count c"
  "ct_total_tool_call_count (ended_with cause c e) = ct_total_tool_call_count c"
  "ct_accepted_tool_output_bytes (ended_with cause c e) = ct_accepted_tool_output_bytes c"
  "ct_terminal_cause (ended_with cause c e) = Some cause"
  by (simp_all add: ended_with_def)

lemma control_step_inv:
  assumes inv: "run_inv context log c" and step: "control_step op c = (r, c')"
  shows "run_inv context (log @ [(op, r)]) c'"
proof (cases rule: control_step_cases [of c op])
  case (ended cause)
  then have r: "r = Inl (run_termination c cause None)" "c' = c" using step by simp_all
  obtain before op' after where log: "log = before @ (op', Inl (run_termination c cause (open_call (accepted before)))) # after"
      "\<forall>entry \<in> set before. snd entry = Inr ()" "\<forall>entry \<in> set after. snd entry = Inl (run_termination c cause None)"
    using inv ended(1) by (auto simp: run_inv_def run_shape_def)
  then have "run_shape (log @ [(op, r)]) c"
    unfolding run_shape_def ended(1) option.case r
    by (intro exI [of _ before] exI [of _ op'] exI [of _ "after @ [(op, r)]"]) (auto simp: r)
  then show ?thesis using inv r by (simp add: run_inv_def counters_exact_def)
next
  case (refused cause e)
  then have r: "r = Inl (run_termination c cause (map_option at_cleanup (ct_active_tool_call c)))" "c' = ended_with cause c e"
    using step by simp_all
  have "\<forall>entry \<in> set log. snd entry = Inr ()" "map_option at_cleanup (ct_active_tool_call c) = open_call (accepted log)"
    using inv refused(1) by (auto simp: run_inv_def run_shape_def)
  then have "run_shape (log @ [(op, r)]) c'"
    unfolding run_shape_def r ended_with_fixed option.case run_termination_simps
    by (intro exI [of _ log] exI [of _ op] exI [of _ "[]"]) simp
  then show ?thesis using inv r by (auto simp: run_inv_def counters_exact_def below_ceilings_def)
next
  case accepted
  then have r: "r = Inr ()" "c' = (charge op c)\<lparr>ct_last_elapsed := at_time op\<rparr>" using step by simp_all
  have "run_shape (log @ [(op, r)]) c'"
    using inv accepted(1) by (auto simp: run_inv_def run_shape_def r charge_open open_call_def)
  moreover have "counters_exact (log @ [(op, r)]) c'"
    using inv charge_counters(2-5) [OF accepted(3)] by (simp add: run_inv_def counters_exact_def r)
  moreover have "below_ceilings c'"
    using inv charge_counters(1) [OF accepted(3)] by (auto simp: run_inv_def below_ceilings_def r)
  ultimately show ?thesis using inv r by (simp add: run_inv_def)
qed

lemma control_run_inv:
  "control_run ops (RunController_new context) = (log, c) \<Longrightarrow> run_inv context log c"
proof (induction ops arbitrary: log c rule: rev_induct)
  case Nil
  then have "log = []" "c = RunController_new context" by simp_all
  then show ?case
    by (simp add: run_inv_def RunController_new_def counters_exact_def below_ceilings_def run_shape_def open_call_def tool_call_count_def)
next
  case (snoc op ops)
  obtain log' c' where run: "control_run ops (RunController_new context) = (log', c')" by fastforce
  obtain r c'' where step: "control_step op c' = (r, c'')" by fastforce
  have "log = log' @ [(op, r)]" "c = c''"
    using snoc.prems run step by (simp_all add: control_run_append)
  then show ?case using control_step_inv [OF snoc.IH [OF run] step] by simp
qed


section \<open>Properties\<close>

text \<open>
  the budget of a run is exact and never exceeded.  After any sequence of operations on a fresh
  controller the counters are the numbers of accepted model turns, tool calls, tool calls of each
  exact tool and version, and the sum of the accepted output bytes, without any wrap-around, and
  each of them is at most the ceiling of the run.
\<close>
theorem controller_budget_exact:
  "(case control_run ops (RunController_new context) of (log, c) \<Rightarrow>
      unat (ct_model_turn_count c) = length (filter is_turn (accepted log))
      \<and> length (filter is_turn (accepted log)) \<le> unat (rl_max_model_turns (rx_limits context))
      \<and> unat (ct_total_tool_call_count c) = length (filter is_call (accepted log))
      \<and> length (filter is_call (accepted log)) \<le> unat (rl_max_tool_calls (rx_limits context))
      \<and> (\<forall>t v. unat (tool_call_count c t v) = length (filter (is_call_of t v) (accepted log))
            \<and> length (filter (is_call_of t v) (accepted log)) \<le> unat (rl_max_calls_per_tool (rx_limits context)))
      \<and> unat (ct_accepted_tool_output_bytes c) = sum_list (map output_bytes (accepted log))
      \<and> sum_list (map output_bytes (accepted log)) \<le> unat (rl_max_tool_output_bytes (rx_limits context)))"
proof -
  obtain log c where run: "control_run ops (RunController_new context) = (log, c)" by fastforce
  note inv = control_run_inv [OF run]
  have exact: "counters_exact log c" and below: "below_ceilings c" and l: "ct_limits c = rx_limits context"
    using inv by (simp_all add: run_inv_def)
  have "unat (tool_call_count c t v) \<le> unat (rl_max_calls_per_tool (rx_limits context))" for t v
    using below l by (simp add: below_ceilings_def word_le_nat_alt)
  with exact below l show ?thesis
    by (simp add: run counters_exact_def below_ceilings_def word_le_nat_alt)
qed

text \<open>
  C37: a run ends once, and its open tool call is handed back for cleanup exactly once.  The log of any
  sequence of operations on a fresh controller is either all accepted, or it is accepted up to a
  first refusal, which carries the cleanup of the tool call that was open then (if one was begun
  and not finished), and from there on every operation is refused with that same cause and
  without a cleanup; every refusal names the identity and the limits of the run.
\<close>
theorem controller_ends_once:
  "\<exists>before rest. fst (control_run ops (RunController_new context)) = before @ rest
     \<and> list_all (\<lambda>entry. snd entry = Inr ()) before
     \<and> (rest = [] \<or> (\<exists>op cause after.
          rest = (op, Inl \<lparr>rt_cause = cause, rt_cleanup = open_call (map fst before), rt_source_context = context\<rparr>) # after
          \<and> list_all (\<lambda>entry. snd entry = Inl \<lparr>rt_cause = cause, rt_cleanup = None, rt_source_context = context\<rparr>) after))"
proof -
  obtain log c where run: "control_run ops (RunController_new context) = (log, c)" by fastforce
  note inv = control_run_inv [OF run]
  then have ctx: "run_termination c cause cleanup = \<lparr>rt_cause = cause, rt_cleanup = cleanup, rt_source_context = context\<rparr>" for cause cleanup
    by (simp add: run_inv_def run_termination_def)
  have all: "accepted before = map fst before" if "\<forall>entry \<in> set before. snd entry = Inr ()" for before
  proof -
    have "filter (\<lambda>(_, r). r = Inr ()) before = before" using that by (intro filter_True) auto
    then show ?thesis by (simp add: accepted_def)
  qed
  show ?thesis
  proof (cases "ct_terminal_cause c")
    case None
    then have "list_all (\<lambda>entry. snd entry = Inr ()) log" using inv by (simp add: run_inv_def run_shape_def list_all_iff)
    then show ?thesis using run by (intro exI [of _ log] exI [of _ "[]"]) simp
  next
    case (Some cause)
    then obtain before op after where log: "log = before @ (op, Inl (run_termination c cause (open_call (accepted before)))) # after"
      and b: "\<forall>entry \<in> set before. snd entry = Inr ()" and a: "\<forall>entry \<in> set after. snd entry = Inl (run_termination c cause None)"
      using inv by (auto simp: run_inv_def run_shape_def)
    then show ?thesis using run all [OF b]
      by (intro exI [of _ before] exI [of _ "(op, Inl (run_termination c cause (open_call (map fst before)))) # after"])
        (auto simp: ctx list_all_iff)
  qed
qed

text \<open>The deadlines of a controller; one that lies beyond what a \<open>Duration\<close> can hold is never reached.\<close>

definition deadlines :: "RunController \<Rightarrow> (Duration \<times> RunTimeoutKind) list" where
  "deadlines c =
     (let limits = ct_limits c; idle = ct_idle_started_at c + from_millis (rl_max_idle_time_ms limits) in
      (from_millis (rl_max_wall_time_ms limits), TimeoutWall)
      # (if idle < duration_limit then [(idle, TimeoutIdle)] else [])
      @ (case ct_active_tool_call c of
           None \<Rightarrow> []
         | Some active \<Rightarrow>
             let tool = at_started_at active + from_millis (rl_max_tool_time_ms limits) in
             if tool < duration_limit then [(tool, TimeoutTool)] else []))"

lemma reached_timeout_None: "reached_timeout c e = None \<longleftrightarrow> list_all (\<lambda>d. e < fst d) (deadlines c)"
  by (auto simp: reached_timeout_def deadlines_def consider_deadline_def Let_def duration_checked_add_def
      split: option.splits if_splits)

text \<open>The winner among some deadlines: none is reached, or the earliest of all of them is.\<close>

definition earliest :: "Duration \<Rightarrow> (Duration \<times> RunTimeoutKind) list \<Rightarrow> (Duration \<times> RunTimeoutKind) option \<Rightarrow> bool" where
  "earliest e ds winner \<longleftrightarrow>
     (case winner of
        None \<Rightarrow> list_all (\<lambda>d. e < fst d) ds
      | Some w \<Rightarrow> w \<in> set ds \<and> fst w \<le> e \<and> list_all (\<lambda>d. fst w \<le> fst d) ds)"

lemma earliest_Nil: "earliest e [] None"
  by (simp add: earliest_def)

lemma earliest_skip: "earliest e ds winner \<Longrightarrow> earliest e (ds @ []) (consider_deadline e None kind winner)"
  by (simp add: consider_deadline_def)

lemma earliest_step: "earliest e ds winner \<Longrightarrow> earliest e (ds @ [(d, kind)]) (consider_deadline e (Some d) kind winner)"
  by (cases winner) (auto simp: earliest_def consider_deadline_def list_all_iff)

lemma reached_timeout_earliest: "\<exists>winner. reached_timeout c e = map_option snd winner \<and> earliest e (deadlines c) winner"
proof -
  let ?limits = "ct_limits c"
  let ?wall = "consider_deadline e (Some (from_millis (rl_max_wall_time_ms ?limits))) TimeoutWall None"
  let ?i = "ct_idle_started_at c + from_millis (rl_max_idle_time_ms ?limits)"
  let ?idle = "consider_deadline e (duration_checked_add (ct_idle_started_at c) (from_millis (rl_max_idle_time_ms ?limits))) TimeoutIdle ?wall"
  let ?tool = "Option.bind (ct_active_tool_call c) (\<lambda>active.
      duration_checked_add (at_started_at active) (from_millis (rl_max_tool_time_ms ?limits)))"
  have wall: "earliest e [(from_millis (rl_max_wall_time_ms ?limits), TimeoutWall)] ?wall"
    using earliest_step [OF earliest_Nil] by simp
  have idle: "earliest e ((from_millis (rl_max_wall_time_ms ?limits), TimeoutWall)
      # (if ?i < duration_limit then [(?i, TimeoutIdle)] else [])) ?idle"
    using earliest_step [OF wall] earliest_skip [OF wall] by (simp add: duration_checked_add_def)
  have "earliest e (deadlines c) (consider_deadline e ?tool TimeoutTool ?idle)"
    using earliest_step [OF idle] earliest_skip [OF idle]
    by (cases "ct_active_tool_call c") (simp_all add: deadlines_def Let_def duration_checked_add_def)
  then show ?thesis by (auto simp: reached_timeout_def Let_def)
qed

text \<open>
  a run that is out of time is ended for the deadline that came first.  On a controller that has not
  ended, with a clock that has not gone backwards, \<open>poll\<close> succeeds if no deadline is reached, and
  otherwise it ends the run with the kind of a deadline that is reached and not later than any other.
\<close>
theorem poll_earliest_deadline:
  assumes "ct_terminal_cause c = None" and "ct_last_elapsed c \<le> e"
  shows "case fst (controller_poll e c) of
      Inr _ \<Rightarrow> list_all (\<lambda>d. e < fst d) (deadlines c)
    | Inl t \<Rightarrow> \<exists>deadline kind. rt_cause t = CauseTimedOut kind \<and> (deadline, kind) \<in> set (deadlines c)
        \<and> deadline \<le> e \<and> list_all (\<lambda>d. deadline \<le> fst d) (deadlines c)"
proof -
  obtain winner where w: "reached_timeout c e = map_option snd winner" "earliest e (deadlines c) winner"
    using reached_timeout_earliest by blast
  show ?thesis
    using assms w
    by (cases winner) (auto simp: controller_poll_def check_boundary_def Let_def refuse_healthy earliest_def run_termination_def)
qed

theorem poll_earliest_deadline_witness:
  "rt_cause (projl (fst (controller_poll 6000000
     (RunController_new \<lparr>rx_run_id = ''r'', rx_limits = \<lparr>rl_max_model_turns = 1, rl_max_tool_calls = 1, rl_max_calls_per_tool = 1,
        rl_max_wall_time_ms = 5, rl_max_idle_time_ms = 4, rl_max_tool_time_ms = 3, rl_max_tool_output_bytes = 2\<rparr>\<rparr>))))
   = CauseTimedOut TimeoutIdle"
  (is "rt_cause (projl (fst (controller_poll ?e ?c))) = _")
proof -
  have "ct_terminal_cause ?c = None" "ct_last_elapsed ?c \<le> ?e" by (simp_all add: RunController_new_def)
  from poll_earliest_deadline [OF this]
  show ?thesis
    by (auto simp: deadlines_def RunController_new_def from_millis_def duration_limit_def split: sum.splits)
qed

lemma step_accepts:
  "control_step op c = (Inr (), c') \<longleftrightarrow>
     ct_terminal_cause c = None \<and> ct_last_elapsed c \<le> at_time op
     \<and> list_all (\<lambda>d. at_time op < fst d) (deadlines c)
     \<and> within_budget op c \<and> c' = (charge op c)\<lparr>ct_last_elapsed := at_time op\<rparr>"
proof (cases rule: control_step_cases [of c op])
  case (refused cause e)
  then show ?thesis by (auto simp: on_time_def reached_timeout_None)
next
  case accepted
  then show ?thesis by (auto simp: on_time_def reached_timeout_None)
qed auto

text \<open>
  an operation is accepted exactly when the run has not ended, the clock has not gone backwards,
  every deadline (wall, idle, and the one of the open tool call) lies in the future, and the
  budget and the open call allow it; then exactly what the operation stands for is charged.
\<close>
theorem control_step_accepts_iff:
  "control_step op c = (Inr (), c') \<longleftrightarrow>
     ct_terminal_cause c = None \<and> ct_last_elapsed c \<le> at_time op
     \<and> list_all (\<lambda>d. at_time op < fst d) (deadlines c)
     \<and> within_budget op c \<and> c' = (charge op c)\<lparr>ct_last_elapsed := at_time op\<rparr>"
  by (rule step_accepts)

end
