(* ===== verification/Typed_Protocol.thy ===== *)
theory Typed_Protocol
  imports Firewall
begin

text \<open>
  The compact typed-output protocol (\<open>workflow-runtime/src/typed_protocol.rs\<close>): reason codes, spans and
  artifact references, the payload of each node kind, the strict decoder, admission to a reducer, the
  rendering and the exchange of outputs between workflows.

  A \<open>serde_json\<close> map iterates its members in the order of their keys; the encoders below list the
  members in that order.  Decoding of JSON text and the derived decoder of the firewall stamp are
  \<open>serde\<close> code: parameters.
\<close>

section \<open>Codes\<close>

definition TYPED_OUTPUT_SCHEMA_VERSION_V1 :: u32 where
  "TYPED_OUTPUT_SCHEMA_VERSION_V1 = 1"

datatype TypedOutputError =
    TUnknownSchemaVersion | TUnknownReasonCode | TTruncated | TRationaleNotEnabled | TInvalidJson | TOverBudget

datatype TypedNodeKind = KSentinel | KFirewall | KCompactState | KIssueCard | KDependency | KEscalation

fun TypedNodeKind_as_str :: "TypedNodeKind \<Rightarrow> string" where
  "TypedNodeKind_as_str KSentinel = ''sentinel''"
| "TypedNodeKind_as_str KFirewall = ''firewall''"
| "TypedNodeKind_as_str KCompactState = ''compact_state''"
| "TypedNodeKind_as_str KIssueCard = ''issue_card''"
| "TypedNodeKind_as_str KDependency = ''dependency''"
| "TypedNodeKind_as_str KEscalation = ''escalation''"

definition TypedNodeKind_parse :: "string \<Rightarrow> TypedOutputError + TypedNodeKind" where
  "TypedNodeKind_parse value =
     (if value = ''sentinel'' then Inr KSentinel
      else if value = ''firewall'' then Inr KFirewall
      else if value = ''compact_state'' then Inr KCompactState
      else if value = ''issue_card'' then Inr KIssueCard
      else if value = ''dependency'' then Inr KDependency
      else if value = ''escalation'' then Inr KEscalation
      else Inl TUnknownReasonCode)"

datatype SentinelVerdict = VInjection | VSuspicious | VUnsupportedLanguage | VInvalidInput | VClean

fun SentinelVerdict_as_code :: "SentinelVerdict \<Rightarrow> string" where
  "SentinelVerdict_as_code VInjection = ''inj''"
| "SentinelVerdict_as_code VSuspicious = ''sus''"
| "SentinelVerdict_as_code VUnsupportedLanguage = ''uns''"
| "SentinelVerdict_as_code VInvalidInput = ''inv''"
| "SentinelVerdict_as_code VClean = ''cln''"

fun SentinelVerdict_label :: "SentinelVerdict \<Rightarrow> string" where
  "SentinelVerdict_label VInjection = ''injection''"
| "SentinelVerdict_label VSuspicious = ''suspicious''"
| "SentinelVerdict_label VUnsupportedLanguage = ''unsupported language''"
| "SentinelVerdict_label VInvalidInput = ''invalid input''"
| "SentinelVerdict_label VClean = ''clean''"

definition SentinelVerdict_parse :: "string \<Rightarrow> TypedOutputError + SentinelVerdict" where
  "SentinelVerdict_parse code =
     (if code = ''inj'' then Inr VInjection
      else if code = ''sus'' then Inr VSuspicious
      else if code = ''uns'' then Inr VUnsupportedLanguage
      else if code = ''inv'' then Inr VInvalidInput
      else if code = ''cln'' then Inr VClean
      else Inl TUnknownReasonCode)"

fun FirewallDecision_as_code :: "FirewallDecision \<Rightarrow> string" where
  "FirewallDecision_as_code Allow = ''alw''"
| "FirewallDecision_as_code DenyCall = ''den''"
| "FirewallDecision_as_code RequireHumanApproval = ''rha''"

definition FirewallDecision_parse :: "string \<Rightarrow> TypedOutputError + FirewallDecision" where
  "FirewallDecision_parse code =
     (if code = ''alw'' then Inr Allow
      else if code = ''den'' then Inr DenyCall
      else if code = ''rha'' then Inr RequireHumanApproval
      else Inl TUnknownReasonCode)"

datatype DependencyJudgment = Blocks | DependsOn | Unrelated

fun DependencyJudgment_as_code :: "DependencyJudgment \<Rightarrow> string" where
  "DependencyJudgment_as_code Blocks = ''blk''"
| "DependencyJudgment_as_code DependsOn = ''dep''"
| "DependencyJudgment_as_code Unrelated = ''unr''"

definition DependencyJudgment_parse :: "string \<Rightarrow> TypedOutputError + DependencyJudgment" where
  "DependencyJudgment_parse code =
     (if code = ''blk'' then Inr Blocks
      else if code = ''dep'' then Inr DependsOn
      else if code = ''unr'' then Inr Unrelated
      else Inl TUnknownReasonCode)"

datatype EscalationTarget = Cloud | Hitl

fun EscalationTarget_as_code :: "EscalationTarget \<Rightarrow> string" where
  "EscalationTarget_as_code Cloud = ''cld''"
| "EscalationTarget_as_code Hitl = ''hitl''"

definition EscalationTarget_parse :: "string \<Rightarrow> TypedOutputError + EscalationTarget" where
  "EscalationTarget_parse code =
     (if code = ''cld'' then Inr Cloud else if code = ''hitl'' then Inr Hitl else Inl TUnknownReasonCode)"

definition parse_issue_status :: "string \<Rightarrow> TypedOutputError + string" where
  "parse_issue_status code = (if code \<in> {''open'', ''blocked'', ''done''} then Inr code else Inl TUnknownReasonCode)"

definition parse_state_op :: "string \<Rightarrow> TypedOutputError + string" where
  "parse_state_op code = (if code \<in> {''add'', ''set'', ''del''} then Inr code else Inl TUnknownReasonCode)"

section \<open>References\<close>

text \<open>\<open>ArtifactId::parse\<close> accepts 64 lowercase hexadecimal digits.\<close>

record SourceSpan =
  sp_artifact_id :: string
  sp_start :: u64
  sp_end :: u64

definition SourceSpan_new :: "string \<Rightarrow> u64 \<Rightarrow> u64 \<Rightarrow> TypedOutputError + SourceSpan" where
  "SourceSpan_new artifact start end =
     (if \<not> lower_hex64 artifact then Inl TInvalidJson
      else if end \<le> start then Inl TInvalidJson
      else Inr \<lparr>sp_artifact_id = artifact, sp_start = start, sp_end = end\<rparr>)"

record ArtifactRef =
  ar_artifact_id :: string
  ar_sha256 :: string

definition valid_sha256 :: "string \<Rightarrow> bool" where
  "valid_sha256 value = (case strip_prefix value ''sha256:'' of None \<Rightarrow> False | Some digits \<Rightarrow> lower_hex64 digits)"

definition ArtifactRef_new :: "string \<Rightarrow> string \<Rightarrow> TypedOutputError + ArtifactRef" where
  "ArtifactRef_new artifact sha256 =
     (if \<not> lower_hex64 artifact then Inl TInvalidJson
      else if \<not> valid_sha256 sha256 then Inl TInvalidJson
      else Inr \<lparr>ar_artifact_id = artifact, ar_sha256 = sha256\<rparr>)"

record Continuation =
  co_seq :: u32
  co_token :: string

definition Continuation_new :: "u32 \<Rightarrow> string \<Rightarrow> TypedOutputError + Continuation" where
  "Continuation_new seq text = (if seq = 0 \<or> blank text then Inl TInvalidJson else Inr \<lparr>co_seq = seq, co_token = text\<rparr>)"

datatype Completeness = CompleteOutput | TruncatedOutput Continuation

fun is_truncated :: "Completeness \<Rightarrow> bool" where
  "is_truncated CompleteOutput = False"
| "is_truncated (TruncatedOutput _) = True"

section \<open>Payloads\<close>

record SentinelEvidence =
  se_verdict :: SentinelVerdict
  se_spans :: "SourceSpan list"
  se_artifacts :: "ArtifactRef list"

record FirewallRecord =
  fr_decision :: FirewallDecision
  fr_artifacts :: "ArtifactRef list"
  fr_policy :: "FirewallStamp option"

record CompactStateDelta =
  cs_key :: string
  cs_op :: string
  cs_artifacts :: "ArtifactRef list"

record IssueCard =
  ic_id :: string
  ic_status :: string
  ic_spans :: "SourceSpan list"

record DependencyRecord =
  dr_from :: string
  dr_to :: string
  dr_judgment :: DependencyJudgment
  dr_artifacts :: "ArtifactRef list"

record EscalationRecord =
  er_target :: EscalationTarget
  er_artifacts :: "ArtifactRef list"

datatype TypedPayload =
    PSentinel SentinelEvidence
  | PFirewall FirewallRecord
  | PCompactState CompactStateDelta
  | PIssueCard IssueCard
  | PDependency DependencyRecord
  | PEscalation EscalationRecord

fun payload_kind :: "TypedPayload \<Rightarrow> TypedNodeKind" where
  "payload_kind (PSentinel _) = KSentinel"
| "payload_kind (PFirewall _) = KFirewall"
| "payload_kind (PCompactState _) = KCompactState"
| "payload_kind (PIssueCard _) = KIssueCard"
| "payload_kind (PDependency _) = KDependency"
| "payload_kind (PEscalation _) = KEscalation"

definition SourceSpan_value :: "SourceSpan \<Rightarrow> jvalue" where
  "SourceSpan_value span =
     JObj [(''artifact_id'', JStr (sp_artifact_id span)), (''end'', JNum (uint (sp_end span))), (''start'', JNum (uint (sp_start span)))]"

definition ArtifactRef_value :: "ArtifactRef \<Rightarrow> jvalue" where
  "ArtifactRef_value artifact = JObj [(''artifact_id'', JStr (ar_artifact_id artifact)), (''sha256'', JStr (ar_sha256 artifact))]"

definition FirewallStamp_value :: "FirewallStamp \<Rightarrow> jvalue" where
  "FirewallStamp_value stamp =
     JObj [(''identity'', JStr (fs_identity stamp)), (''reason'', JStr (FirewallReason_serde (fs_reason stamp))),
           (''schema_version'', u32_value (fs_schema_version stamp))]"

definition spans_value :: "SourceSpan list \<Rightarrow> jvalue" where
  "spans_value spans = JArr (map SourceSpan_value spans)"

definition artifacts_value :: "ArtifactRef list \<Rightarrow> jvalue" where
  "artifacts_value artifacts = JArr (map ArtifactRef_value artifacts)"

fun TypedPayload_value :: "TypedPayload \<Rightarrow> TypedOutputError + jvalue" where
  "TypedPayload_value (PSentinel evidence) =
     Inr (JObj [(''artifacts'', artifacts_value (se_artifacts evidence)), (''kind'', JStr ''sentinel''),
                (''spans'', spans_value (se_spans evidence)), (''verdict'', JStr (SentinelVerdict_as_code (se_verdict evidence)))])"
| "TypedPayload_value (PFirewall record) =
     Inr (JObj ([(''artifacts'', artifacts_value (fr_artifacts record)),
                 (''decision'', JStr (FirewallDecision_as_code (fr_decision record))), (''kind'', JStr ''firewall'')]
        @ (case fr_policy record of None \<Rightarrow> [] | Some policy \<Rightarrow> [(''policy'', FirewallStamp_value policy)])))"
| "TypedPayload_value (PCompactState delta) =
     res_bind (parse_state_op (cs_op delta)) (\<lambda>_.
       if blank (cs_key delta) then Inl TInvalidJson
       else Inr (JObj [(''artifacts'', artifacts_value (cs_artifacts delta)), (''key'', JStr (cs_key delta)),
                       (''kind'', JStr ''compact_state''), (''op'', JStr (cs_op delta))]))"
| "TypedPayload_value (PIssueCard issue) =
     res_bind (parse_issue_status (ic_status issue)) (\<lambda>_.
       if blank (ic_id issue) then Inl TInvalidJson
       else Inr (JObj [(''id'', JStr (ic_id issue)), (''kind'', JStr ''issue_card''), (''spans'', spans_value (ic_spans issue)),
                       (''status'', JStr (ic_status issue))]))"
| "TypedPayload_value (PDependency record) =
     (if blank (dr_from record) \<or> blank (dr_to record) then Inl TInvalidJson
      else Inr (JObj [(''artifacts'', artifacts_value (dr_artifacts record)), (''from'', JStr (dr_from record)),
                      (''judgment'', JStr (DependencyJudgment_as_code (dr_judgment record))), (''kind'', JStr ''dependency''),
                      (''to'', JStr (dr_to record))]))"
| "TypedPayload_value (PEscalation record) =
     Inr (JObj [(''artifacts'', artifacts_value (er_artifacts record)), (''kind'', JStr ''escalation''),
                (''target'', JStr (EscalationTarget_as_code (er_target record)))])"

record TypedOutput =
  to_schema_version :: u32
  to_payload :: TypedPayload
  to_completeness :: Completeness

definition TypedOutput_new :: "TypedPayload \<Rightarrow> Completeness \<Rightarrow> TypedOutputError + TypedOutput" where
  "TypedOutput_new payload completeness =
     res_bind (TypedPayload_value payload) (\<lambda>_.
       Inr \<lparr>to_schema_version = TYPED_OUTPUT_SCHEMA_VERSION_V1, to_payload = payload, to_completeness = completeness\<rparr>)"

fun Completeness_value :: "Completeness \<Rightarrow> jvalue" where
  "Completeness_value CompleteOutput = JStr ''complete''"
| "Completeness_value (TruncatedOutput continuation) =
     JObj [(''truncated'', JObj [(''seq'', u32_value (co_seq continuation)), (''token'', JStr (co_token continuation))])]"

definition TypedOutput_value :: "TypedOutput \<Rightarrow> TypedOutputError + jvalue" where
  "TypedOutput_value output =
     res_bind (TypedPayload_value (to_payload output)) (\<lambda>payload.
       Inr (JObj [(''completeness'', Completeness_value (to_completeness output)),
                  (''node'', JStr (TypedNodeKind_as_str (payload_kind (to_payload output)))), (''payload'', payload),
                  (''schema_version'', u32_value (to_schema_version output))]))"

definition TypedOutput_to_json :: "json_env \<Rightarrow> TypedOutput \<Rightarrow> TypedOutputError + string" where
  "TypedOutput_to_json env output =
     res_bind (TypedOutput_value output) (\<lambda>value. Inr (emit (je_quote env) (je_number env) value))"

section \<open>The decoder\<close>

type_synonym members = "(string \<times> jvalue) list"

definition ok_or_json :: "'a option \<Rightarrow> TypedOutputError + 'a" where
  "ok_or_json v = (case v of Some a \<Rightarrow> Inr a | None \<Rightarrow> Inl TInvalidJson)"

fun as_object :: "jvalue \<Rightarrow> members option" where
  "as_object (JObj object) = Some object"
| "as_object _ = None"

fun as_array :: "jvalue \<Rightarrow> jvalue list option" where
  "as_array (JArr items) = Some items"
| "as_array _ = None"

fun as_str :: "jvalue \<Rightarrow> string option" where
  "as_str (JStr s) = Some s"
| "as_str _ = None"

fun as_u64 :: "jvalue \<Rightarrow> u64 option" where
  "as_u64 (JNum n) = (if 0 \<le> n \<and> n < 18446744073709551616 then Some (word_of_int n) else None)"
| "as_u64 _ = None"

definition require_keys :: "members \<Rightarrow> string list \<Rightarrow> TypedOutputError + unit" where
  "require_keys object keys =
     (if length object \<noteq> length keys \<or> list_ex (\<lambda>key. map_of object key = None) keys then Inl TInvalidJson else Inr ())"

definition get_field :: "members \<Rightarrow> string \<Rightarrow> TypedOutputError + jvalue" where
  "get_field object key = ok_or_json (map_of object key)"

definition string_field :: "members \<Rightarrow> string \<Rightarrow> TypedOutputError + string" where
  "string_field object key = ok_or_json (Option.bind (map_of object key) as_str)"

definition u64_field :: "members \<Rightarrow> string \<Rightarrow> TypedOutputError + u64" where
  "u64_field object key = ok_or_json (Option.bind (map_of object key) as_u64)"

definition u32_try_from :: "u64 \<Rightarrow> u32 option" where
  "u32_try_from n = (if unat n < 4294967296 then Some (ucast n) else None)"

definition parse_completeness :: "jvalue \<Rightarrow> TypedOutputError + Completeness" where
  "parse_completeness value =
     (if as_str value = Some ''complete'' then Inr CompleteOutput
      else
        res_bind (ok_or_json (as_object value)) (\<lambda>object.
        res_bind (require_keys object [''truncated'']) (\<lambda>_.
        res_bind (get_field object ''truncated'') (\<lambda>truncated.
        res_bind (ok_or_json (as_object truncated)) (\<lambda>fields.
        res_bind (require_keys fields [''seq'', ''token'']) (\<lambda>_.
        res_bind (u64_field fields ''seq'') (\<lambda>seq.
        res_bind (ok_or_json (u32_try_from seq)) (\<lambda>seq.
        res_bind (string_field fields ''token'') (\<lambda>token.
        res_bind (Continuation_new seq token) (\<lambda>continuation. Inr (TruncatedOutput continuation)))))))))))"

definition parse_span :: "jvalue \<Rightarrow> TypedOutputError + SourceSpan" where
  "parse_span item =
     res_bind (ok_or_json (as_object item)) (\<lambda>object.
     res_bind (require_keys object [''artifact_id'', ''start'', ''end'']) (\<lambda>_.
     res_bind (u64_field object ''start'') (\<lambda>start.
     res_bind (u64_field object ''end'') (\<lambda>end.
     res_bind (string_field object ''artifact_id'') (\<lambda>artifact. SourceSpan_new artifact start end)))))"

definition parse_spans :: "jvalue \<Rightarrow> TypedOutputError + SourceSpan list" where
  "parse_spans value = res_bind (ok_or_json (as_array value)) (res_map parse_span)"

definition parse_artifact :: "jvalue \<Rightarrow> TypedOutputError + ArtifactRef" where
  "parse_artifact item =
     res_bind (ok_or_json (as_object item)) (\<lambda>object.
     res_bind (require_keys object [''artifact_id'', ''sha256'']) (\<lambda>_.
     res_bind (string_field object ''artifact_id'') (\<lambda>artifact.
     res_bind (string_field object ''sha256'') (\<lambda>sha256. ArtifactRef_new artifact sha256))))"

definition parse_artifacts :: "jvalue \<Rightarrow> TypedOutputError + ArtifactRef list" where
  "parse_artifacts value = res_bind (ok_or_json (as_array value)) (res_map parse_artifact)"

text \<open>The fields of a firewall stamp as the derived decoder delivers them.\<close>

type_synonym stamp_decoder = "jvalue \<Rightarrow> (u32 \<times> FirewallReason \<times> string) option"

definition decode_stamp :: "stamp_decoder \<Rightarrow> jvalue \<Rightarrow> TypedOutputError + FirewallStamp" where
  "decode_stamp wire policy =
     (case wire policy of
        None \<Rightarrow> Inl TInvalidJson
      | Some (schema_version, reason, identity) \<Rightarrow>
          map_err (\<lambda>_. TInvalidJson) (FirewallStamp_try_from schema_version reason identity))"

definition field_spans :: "members \<Rightarrow> TypedOutputError + SourceSpan list" where
  "field_spans object = res_bind (get_field object ''spans'') parse_spans"

definition field_artifacts :: "members \<Rightarrow> TypedOutputError + ArtifactRef list" where
  "field_artifacts object = res_bind (get_field object ''artifacts'') parse_artifacts"

definition firewall_policy :: "stamp_decoder \<Rightarrow> members \<Rightarrow> TypedOutputError + FirewallStamp option" where
  "firewall_policy wire object =
     (case map_of object ''policy'' of
        Some policy \<Rightarrow>
          res_bind (require_keys object [''kind'', ''decision'', ''artifacts'', ''policy'']) (\<lambda>_.
            res_bind (decode_stamp wire policy) (\<lambda>stamp. Inr (Some stamp)))
      | None \<Rightarrow> res_bind (require_keys object [''kind'', ''decision'', ''artifacts'']) (\<lambda>_. Inr None))"

fun parse_kind :: "stamp_decoder \<Rightarrow> TypedNodeKind \<Rightarrow> members \<Rightarrow> TypedOutputError + TypedPayload" where
  "parse_kind wire KSentinel object =
     res_bind (require_keys object [''kind'', ''verdict'', ''spans'', ''artifacts'']) (\<lambda>_.
     res_bind (string_field object ''verdict'') (\<lambda>code.
     res_bind (SentinelVerdict_parse code) (\<lambda>verdict.
     res_bind (field_spans object) (\<lambda>spans.
     res_bind (field_artifacts object) (\<lambda>artifacts.
       Inr (PSentinel \<lparr>se_verdict = verdict, se_spans = spans, se_artifacts = artifacts\<rparr>))))))"
| "parse_kind wire KFirewall object =
     res_bind (firewall_policy wire object) (\<lambda>policy.
     res_bind (string_field object ''decision'') (\<lambda>code.
     res_bind (FirewallDecision_parse code) (\<lambda>decision.
     res_bind (field_artifacts object) (\<lambda>artifacts.
       Inr (PFirewall \<lparr>fr_decision = decision, fr_artifacts = artifacts, fr_policy = policy\<rparr>)))))"
| "parse_kind wire KCompactState object =
     res_bind (require_keys object [''kind'', ''key'', ''op'', ''artifacts'']) (\<lambda>_.
     res_bind (string_field object ''op'') (\<lambda>code.
     res_bind (parse_state_op code) (\<lambda>op.
     res_bind (string_field object ''key'') (\<lambda>key.
     res_bind (field_artifacts object) (\<lambda>artifacts.
       Inr (PCompactState \<lparr>cs_key = key, cs_op = op, cs_artifacts = artifacts\<rparr>))))))"
| "parse_kind wire KIssueCard object =
     res_bind (require_keys object [''kind'', ''id'', ''status'', ''spans'']) (\<lambda>_.
     res_bind (string_field object ''status'') (\<lambda>code.
     res_bind (parse_issue_status code) (\<lambda>status.
     res_bind (string_field object ''id'') (\<lambda>id.
     res_bind (field_spans object) (\<lambda>spans.
       Inr (PIssueCard \<lparr>ic_id = id, ic_status = status, ic_spans = spans\<rparr>))))))"
| "parse_kind wire KDependency object =
     res_bind (require_keys object [''kind'', ''from'', ''to'', ''judgment'', ''artifacts'']) (\<lambda>_.
     res_bind (string_field object ''from'') (\<lambda>source.
     res_bind (string_field object ''to'') (\<lambda>target.
     res_bind (string_field object ''judgment'') (\<lambda>code.
     res_bind (DependencyJudgment_parse code) (\<lambda>judgment.
     res_bind (field_artifacts object) (\<lambda>artifacts.
       Inr (PDependency \<lparr>dr_from = source, dr_to = target, dr_judgment = judgment, dr_artifacts = artifacts\<rparr>)))))))"
| "parse_kind wire KEscalation object =
     res_bind (require_keys object [''kind'', ''target'', ''artifacts'']) (\<lambda>_.
     res_bind (string_field object ''target'') (\<lambda>code.
     res_bind (EscalationTarget_parse code) (\<lambda>target.
     res_bind (field_artifacts object) (\<lambda>artifacts.
       Inr (PEscalation \<lparr>er_target = target, er_artifacts = artifacts\<rparr>)))))"

definition parse_payload :: "stamp_decoder \<Rightarrow> jvalue \<Rightarrow> TypedOutputError + TypedPayload" where
  "parse_payload wire value =
     res_bind (ok_or_json (as_object value)) (\<lambda>object.
     res_bind (string_field object ''kind'') (\<lambda>name.
     res_bind (TypedNodeKind_parse name) (\<lambda>kind. parse_kind wire kind object)))"

definition parse_typed_value :: "stamp_decoder \<Rightarrow> jvalue \<Rightarrow> TypedOutputError + TypedOutput" where
  "parse_typed_value wire value =
     res_bind (ok_or_json (as_object value)) (\<lambda>object.
       if map_of object ''rationale'' \<noteq> None then Inl TRationaleNotEnabled
       else
         res_bind (u64_field object ''schema_version'') (\<lambda>schema_version.
           if schema_version \<noteq> ucast TYPED_OUTPUT_SCHEMA_VERSION_V1 then Inl TUnknownSchemaVersion
           else
             res_bind (require_keys object [''schema_version'', ''node'', ''completeness'', ''payload'']) (\<lambda>_.
             res_bind (string_field object ''node'') (\<lambda>name.
             res_bind (TypedNodeKind_parse name) (\<lambda>node.
             res_bind (res_bind (get_field object ''completeness'') parse_completeness) (\<lambda>completeness.
             res_bind (res_bind (get_field object ''payload'') (parse_payload wire)) (\<lambda>payload.
               if payload_kind payload \<noteq> node then Inl TInvalidJson
               else TypedOutput_new payload completeness)))))))"

type_synonym json_decoder = "string \<Rightarrow> jvalue option"

definition parse_typed_output :: "json_decoder \<Rightarrow> stamp_decoder \<Rightarrow> string \<Rightarrow> TypedOutputError + TypedOutput" where
  "parse_typed_output decode wire bytes = res_bind (ok_or_json (decode bytes)) (parse_typed_value wire)"


section \<open>Admission\<close>

fun node_output_token_budget :: "TypedNodeKind \<Rightarrow> nat" where
  "node_output_token_budget KSentinel = 128"
| "node_output_token_budget KFirewall = 96"
| "node_output_token_budget KCompactState = 192"
| "node_output_token_budget KIssueCard = 160"
| "node_output_token_budget KDependency = 96"
| "node_output_token_budget KEscalation = 80"

text \<open>\<open>div_ceil(4)\<close>\<close>

definition estimate_output_tokens :: "string \<Rightarrow> nat" where
  "estimate_output_tokens s = (length s + 3) div 4"

definition admit_for_reducer :: "json_env \<Rightarrow> TypedOutput \<Rightarrow> TypedOutputError + TypedPayload" where
  "admit_for_reducer env output =
     (if is_truncated (to_completeness output) then Inl TTruncated
      else
        res_bind (TypedOutput_to_json env output) (\<lambda>json.
          if estimate_output_tokens json > node_output_token_budget (payload_kind (to_payload output)) then Inl TOverBudget
          else Inr (to_payload output)))"

section \<open>Rendering\<close>

definition is_ascii_punctuation :: "char \<Rightarrow> bool" where
  "is_ascii_punctuation c \<longleftrightarrow>
     (let b = (of_char c :: nat) in 33 \<le> b \<and> b \<le> 47 \<or> 58 \<le> b \<and> b \<le> 64 \<or> 91 \<le> b \<and> b \<le> 96 \<or> 123 \<le> b \<and> b \<le> 126)"

definition escape_markdown :: "string \<Rightarrow> string" where
  "escape_markdown value = concat (map (\<lambda>c. if is_ascii_punctuation c then [CHR 0x5C, c] else [c]) value)"

fun FirewallReason_debug :: "FirewallReason \<Rightarrow> string" where
  "FirewallReason_debug RSchema = ''Schema''" | "FirewallReason_debug RPolicy = ''Policy''"
| "FirewallReason_debug RProvenance = ''Provenance''" | "FirewallReason_debug RGoal = ''Goal''"
| "FirewallReason_debug RTool = ''Tool''" | "FirewallReason_debug RCapability = ''Capability''"
| "FirewallReason_debug RScope = ''Scope''" | "FirewallReason_debug RDestination = ''Destination''"
| "FirewallReason_debug RArguments = ''Arguments''" | "FirewallReason_debug RSecret = ''Secret''"
| "FirewallReason_debug RSideEffect = ''SideEffect''" | "FirewallReason_debug RStaleTarget = ''StaleTarget''"
| "FirewallReason_debug RLowRisk = ''LowRisk''" | "FirewallReason_debug RSemantic = ''Semantic''"
| "FirewallReason_debug RHumanApproval = ''HumanApproval''"

definition push_spans :: "SourceSpan list \<Rightarrow> string list" where
  "push_spans spans =
     map (\<lambda>span. ''- span: '' @ escape_markdown (sp_artifact_id span) @ ''#'' @ nat_decimal (unat (sp_start span)) @ ''-''
            @ nat_decimal (unat (sp_end span))) spans"

definition push_artifacts :: "ArtifactRef list \<Rightarrow> string list" where
  "push_artifacts artifacts = map (\<lambda>artifact. ''- artifact: '' @ escape_markdown (ar_artifact_id artifact)) artifacts"

fun payload_lines :: "TypedPayload \<Rightarrow> string list" where
  "payload_lines (PSentinel evidence) =
     [''- verdict: '' @ SentinelVerdict_as_code (se_verdict evidence), ''- label: '' @ SentinelVerdict_label (se_verdict evidence)]
     @ push_spans (se_spans evidence) @ push_artifacts (se_artifacts evidence)"
| "payload_lines (PFirewall record) =
     [''- decision: '' @ FirewallDecision_as_code (fr_decision record)]
     @ (case fr_policy record of
          None \<Rightarrow> []
        | Some policy \<Rightarrow> [''- reason: '' @ FirewallReason_debug (fs_reason policy), ''- identity: '' @ fs_identity policy])
     @ push_artifacts (fr_artifacts record)"
| "payload_lines (PCompactState delta) = [''- op: '' @ cs_op delta] @ push_artifacts (cs_artifacts delta)"
| "payload_lines (PIssueCard issue) = [''- status: '' @ ic_status issue] @ push_spans (ic_spans issue)"
| "payload_lines (PDependency record) =
     [''- judgment: '' @ DependencyJudgment_as_code (dr_judgment record)] @ push_artifacts (dr_artifacts record)"
| "payload_lines (PEscalation record) =
     [''- target: '' @ EscalationTarget_as_code (er_target record)] @ push_artifacts (er_artifacts record)"

definition render_typed_markdown :: "TypedOutput \<Rightarrow> string" where
  "render_typed_markdown output =
     join (CHR 0x0A)
       ([''# '' @ TypedNodeKind_as_str (payload_kind (to_payload output))] @ payload_lines (to_payload output)
        @ (case to_completeness output of
             CompleteOutput \<Rightarrow> []
           | TruncatedOutput continuation \<Rightarrow> [''- truncated: seq '' @ nat_decimal (unat (co_seq continuation))])
        @ [[]])"

section \<open>Exchange between workflows\<close>

datatype WorkflowExchange = CodeInvestigation | GroundedAnswer | MultiHop | ReviewExchange

fun WorkflowExchange_as_str :: "WorkflowExchange \<Rightarrow> string" where
  "WorkflowExchange_as_str CodeInvestigation = ''code.investigation''"
| "WorkflowExchange_as_str GroundedAnswer = ''grounded.answer''"
| "WorkflowExchange_as_str MultiHop = ''multi.hop''"
| "WorkflowExchange_as_str ReviewExchange = ''review''"

definition WorkflowExchange_parse :: "string \<Rightarrow> WorkflowExchange option" where
  "WorkflowExchange_parse workflow_id =
     (if workflow_id = ''code.investigation'' then Some CodeInvestigation
      else if workflow_id = ''grounded.answer'' then Some GroundedAnswer
      else if workflow_id = ''multi.hop'' then Some MultiHop
      else if workflow_id = ''review'' then Some ReviewExchange
      else None)"

fun successor :: "WorkflowExchange \<Rightarrow> WorkflowExchange" where
  "successor CodeInvestigation = GroundedAnswer"
| "successor GroundedAnswer = MultiHop"
| "successor MultiHop = ReviewExchange"
| "successor ReviewExchange = CodeInvestigation"

definition MAX_EXCHANGE_WRAPPER_BYTES :: nat where
  "MAX_EXCHANGE_WRAPPER_BYTES = 65"

definition MAX_EXCHANGE_ENVELOPE_BYTES :: nat where
  "MAX_EXCHANGE_ENVELOPE_BYTES = 192 * 4 + MAX_EXCHANGE_WRAPPER_BYTES"

definition exchange_value :: "WorkflowExchange \<Rightarrow> WorkflowExchange \<Rightarrow> jvalue \<Rightarrow> jvalue" where
  "exchange_value source target output =
     JObj [(''from'', JStr (WorkflowExchange_as_str source)), (''output'', output), (''to'', JStr (WorkflowExchange_as_str target))]"

definition exchange_bytes ::
    "json_env \<Rightarrow> WorkflowExchange \<Rightarrow> WorkflowExchange \<Rightarrow> TypedOutput \<Rightarrow> TypedOutputError + string" where
  "exchange_bytes env source target output =
     res_bind (admit_for_reducer env output) (\<lambda>_.
     res_bind (TypedOutput_value output) (\<lambda>value.
       let bytes = emit (je_quote env) (je_number env) (exchange_value source target value) in
       if length bytes > MAX_EXCHANGE_ENVELOPE_BYTES then Inl TInvalidJson else Inr bytes))"

definition encode_named_output ::
    "json_env \<Rightarrow> json_decoder \<Rightarrow> stamp_decoder \<Rightarrow> string \<Rightarrow> string \<Rightarrow> TypedOutputError + string option" where
  "encode_named_output env decode wire workflow_id json_bytes =
     (case WorkflowExchange_parse workflow_id of
        None \<Rightarrow> Inr None
      | Some source \<Rightarrow>
          res_bind (parse_typed_output decode wire json_bytes) (\<lambda>output.
          res_bind (exchange_bytes env source (successor source) output) (\<lambda>bytes. Inr (Some bytes))))"

definition consume_bytes ::
    "json_env \<Rightarrow> json_decoder \<Rightarrow> stamp_decoder \<Rightarrow> WorkflowExchange \<Rightarrow> WorkflowExchange \<Rightarrow> string \<Rightarrow> TypedOutputError + TypedPayload" where
  "consume_bytes env decode wire target source bytes =
     res_bind (ok_or_json (decode bytes)) (\<lambda>value.
     res_bind (ok_or_json (as_object value)) (\<lambda>object.
       if map_of object ''rationale'' \<noteq> None then Inl TRationaleNotEnabled
       else
         res_bind (require_keys object [''from'', ''to'', ''output'']) (\<lambda>_.
         res_bind (string_field object ''from'') (\<lambda>sender.
           if sender \<noteq> WorkflowExchange_as_str source then Inl TInvalidJson
           else
             res_bind (string_field object ''to'') (\<lambda>receiver.
               if receiver \<noteq> WorkflowExchange_as_str target then Inl TInvalidJson
               else
                 res_bind (res_bind (get_field object ''output'') (parse_typed_value wire)) (admit_for_reducer env))))))"

text \<open>
  An artifact store: \<open>put\<close> of bytes, and pages with the offset of the next one.  The loop that reads an
  envelope goes on only to a greater offset.
\<close>

type_synonym page_reader = "u64 \<Rightarrow> (string \<times> u64 option) option"

function read_exchange_bytes :: "page_reader \<Rightarrow> u64 \<Rightarrow> string \<Rightarrow> TypedOutputError + string" where
  "read_exchange_bytes read_page offset bytes =
     (case read_page offset of
        None \<Rightarrow> Inl TInvalidJson
      | Some (page, successor_offset) \<Rightarrow>
          if length (bytes @ page) > MAX_EXCHANGE_ENVELOPE_BYTES then Inl TInvalidJson
          else
            (case successor_offset of
               None \<Rightarrow> Inr (bytes @ page)
             | Some further \<Rightarrow> if further > offset then read_exchange_bytes read_page further (bytes @ page) else Inl TInvalidJson))"
  by pat_completeness auto
termination
proof (relation "measure (\<lambda>(read_page, offset, bytes). 2 ^ 64 - unat offset)", goal_cases)
  case (2 read_page offset bytes p page successor_offset further)
  have "unat further < 2 ^ 64" using unsigned_less [where 'a = nat, of further] by simp
  then show ?case using 2(5) by (simp add: word_less_nat_alt)
qed simp

declare read_exchange_bytes.simps [simp del]

type_synonym 'a store_put = "'a \<Rightarrow> string \<Rightarrow> string option \<times> 'a"

definition exchange_publish ::
    "json_env \<Rightarrow> 'a store_put \<Rightarrow> WorkflowExchange \<Rightarrow> WorkflowExchange \<Rightarrow> TypedOutput \<Rightarrow> 'a \<Rightarrow> (TypedOutputError + string) \<times> 'a" where
  "exchange_publish env put source target output store =
     (case exchange_bytes env source target output of
        Inl e \<Rightarrow> (Inl e, store)
      | Inr bytes \<Rightarrow> (case put store bytes of (handle, store) \<Rightarrow> (ok_or_json handle, store)))"

definition exchange_consume ::
    "json_env \<Rightarrow> json_decoder \<Rightarrow> stamp_decoder \<Rightarrow> WorkflowExchange \<Rightarrow> WorkflowExchange \<Rightarrow> page_reader \<Rightarrow> TypedOutputError + TypedPayload" where
  "exchange_consume env decode wire target source read_page =
     res_bind (read_exchange_bytes read_page 0 []) (consume_bytes env decode wire target source)"

record ResearchRationale =
  ra_output_digest :: string
  ra_text :: string

definition ResearchRationale_store :: "json_env \<Rightarrow> TypedOutput \<Rightarrow> string \<Rightarrow> TypedOutputError + ResearchRationale" where
  "ResearchRationale_store env output rationale =
     res_bind (TypedOutput_to_json env output) (\<lambda>json.
       Inr \<lparr>ra_output_digest = ''sha256:'' @ hex (je_sha256 env (str_bytes json)), ra_text = rationale\<rparr>)"

end
