(* ===== verification/Artifact_Store.thy ===== *)
theory Artifact_Store
  imports Typed_Protocol Session
begin

text \<open>
  Content-addressed artifacts (\<open>workflow-runtime/src/artifact.rs\<close>, \<open>artifact/bounded_read.rs\<close>): staging,
  the atomic commit, bounded pages, retention metadata, for the in-memory and for the file system store.

  The directory of the file system store is a map from file names to contents.  What the operating
  system may do to a single call (a failing read, create, write, link or unlink) is the parameter
  \<open>disk\<close> of that call.  SHA-256 is a parameter.  The token of a temporary file comes from a global
  counter, and the capability of a store likewise; both are arguments.
\<close>

section \<open>Identities and pages\<close>

definition ArtifactId_parse :: "string \<Rightarrow> string option" where
  "ArtifactId_parse value =
     (if length value \<noteq> 64 \<or> \<not> list_all (\<lambda>c. is_ascii_digit c \<or> CHR ''a'' \<le> c \<and> c \<le> CHR ''f'') value then None else Some value)"

record PageRequest =
  pq_offset :: u64
  pq_limit :: u64

record ArtifactPage =
  pg_bytes :: "byte list"
  pg_next_offset :: "u64 option"

text \<open>A point in time is the number of nanoseconds since the epoch.\<close>

datatype RetentionPolicy = Retain | ExpiresAt int

datatype ArtifactErrorKind =
    EmptyContent | ContentTooLarge | PageOutOfBounds | ArtifactNotFound | ContentIdCollision | ArtifactIo | ForeignStagedArtifact

text \<open>The identifier of a content: \<open>encode_hex\<close> of its SHA-256 digest.\<close>

definition content_id :: "(byte list \<Rightarrow> byte list) \<Rightarrow> byte list \<Rightarrow> string" where
  "content_id sha256 bytes = encode_hex (sha256 bytes)"

text \<open>\<open>u64::try_from(len)\<close>\<close>

definition length_u64 :: "byte list \<Rightarrow> u64 option" where
  "length_u64 bytes = (if length bytes < 18446744073709551616 then Some (word_of_nat (length bytes)) else None)"

definition too_large :: "byte list \<Rightarrow> u64 \<Rightarrow> bool" where
  "too_large bytes limit = (case length_u64 bytes of None \<Rightarrow> True | Some len \<Rightarrow> len > limit)"

text \<open>The page of a content; \<open>usize\<close> has 64 bits.\<close>

definition page_of :: "byte list \<Rightarrow> u64 \<Rightarrow> PageRequest \<Rightarrow> ArtifactErrorKind + ArtifactPage" where
  "page_of bytes max_page_bytes request =
     (case length_u64 bytes of
        None \<Rightarrow> Inl ContentTooLarge
      | Some content_len \<Rightarrow>
          if pq_offset request > content_len then Inl PageOutOfBounds
          else
            let page_len = min (min (pq_limit request) max_page_bytes) (content_len - pq_offset request) in
            case checked_add (pq_offset request) page_len of
              None \<Rightarrow> Inl PageOutOfBounds
            | Some end_offset \<Rightarrow>
                Inr \<lparr>pg_bytes = take (unat end_offset - unat (pq_offset request)) (drop (unat (pq_offset request)) bytes),
                     pg_next_offset = (if end_offset < content_len then Some end_offset else None)\<rparr>)"

section \<open>The store in memory\<close>

record Entry =
  ent_bytes :: "byte list"
  ent_retention :: RetentionPolicy

record InMemoryArtifactStore =
  ms_entries :: "string \<rightharpoonup> Entry"
  ms_max_content_bytes :: u64
  ms_max_page_bytes :: u64
  ms_capability :: u64

definition InMemoryArtifactStore_new :: "u64 \<Rightarrow> u64 \<Rightarrow> u64 \<Rightarrow> InMemoryArtifactStore" where
  "InMemoryArtifactStore_new max_content_bytes max_page_bytes capability =
     \<lparr>ms_entries = Map.empty, ms_max_content_bytes = max_content_bytes, ms_max_page_bytes = max_page_bytes, ms_capability = capability\<rparr>"

datatype StagedState = StagedMemory "byte list" | StagedFile string

record StagedArtifact =
  sa_id :: string
  sa_state :: StagedState
  sa_capability :: u64

definition memory_stage ::
    "(byte list \<Rightarrow> byte list) \<Rightarrow> byte list \<Rightarrow> InMemoryArtifactStore \<Rightarrow> (ArtifactErrorKind + StagedArtifact) \<times> InMemoryArtifactStore" where
  "memory_stage sha256 bytes store =
     (if bytes = [] then (Inl EmptyContent, store)
      else if too_large bytes (ms_max_content_bytes store) then (Inl ContentTooLarge, store)
      else
        let name = content_id sha256 bytes in
        case ms_entries store name of
          Some entry \<Rightarrow>
            if ent_bytes entry = bytes
            then (Inr \<lparr>sa_id = name, sa_state = StagedMemory [], sa_capability = ms_capability store\<rparr>, store)
            else (Inl ContentIdCollision, store)
        | None \<Rightarrow> (Inr \<lparr>sa_id = name, sa_state = StagedMemory bytes, sa_capability = ms_capability store\<rparr>, store))"

text \<open>The arm for a file is \<open>unreachable!\<close> in a memory store; it is not reached with its own staged artifacts.\<close>

definition memory_commit ::
    "StagedArtifact \<Rightarrow> InMemoryArtifactStore \<Rightarrow> (ArtifactErrorKind + string) \<times> InMemoryArtifactStore" where
  "memory_commit staged store =
     (if sa_capability staged \<noteq> ms_capability store then (Inl ForeignStagedArtifact, store)
      else
        let name = sa_id staged in
        case sa_state staged of
          StagedMemory bytes \<Rightarrow>
            if bytes \<noteq> [] then
              (case ms_entries store name of
                 Some entry \<Rightarrow> if ent_bytes entry = bytes then (Inr name, store) else (Inl ContentIdCollision, store)
               | None \<Rightarrow>
                   (Inr name, store\<lparr>ms_entries := (ms_entries store)(name \<mapsto> \<lparr>ent_bytes = bytes, ent_retention = Retain\<rparr>)\<rparr>))
            else (Inr name, store)
        | StagedFile _ \<Rightarrow> (Inr name, store))"

definition memory_read_page :: "InMemoryArtifactStore \<Rightarrow> string \<Rightarrow> PageRequest \<Rightarrow> ArtifactErrorKind + ArtifactPage" where
  "memory_read_page store name request =
     (case ms_entries store name of
        None \<Rightarrow> Inl ArtifactNotFound
      | Some entry \<Rightarrow> page_of (ent_bytes entry) (ms_max_page_bytes store) request)"

definition memory_set_retention ::
    "string \<Rightarrow> RetentionPolicy \<Rightarrow> InMemoryArtifactStore \<Rightarrow> (ArtifactErrorKind + unit) \<times> InMemoryArtifactStore" where
  "memory_set_retention name policy store =
     (case ms_entries store name of
        None \<Rightarrow> (Inl ArtifactNotFound, store)
      | Some entry \<Rightarrow> (Inr (), store\<lparr>ms_entries := (ms_entries store)(name \<mapsto> entry\<lparr>ent_retention := policy\<rparr>)\<rparr>))"

definition memory_retention :: "InMemoryArtifactStore \<Rightarrow> string \<Rightarrow> ArtifactErrorKind + RetentionPolicy" where
  "memory_retention store name =
     (case ms_entries store name of None \<Rightarrow> Inl ArtifactNotFound | Some entry \<Rightarrow> Inr (ent_retention entry))"

section \<open>The store on disk\<close>

text \<open>What goes wrong during one call.\<close>

record disk =
  dk_read_fails :: "string \<Rightarrow> bool"
  dk_create_fails :: "ArtifactErrorKind option"
  dk_write_fails :: "ArtifactErrorKind option"
  dk_link_fails :: "ArtifactErrorKind option"
  dk_unlink_fails :: bool

record FilesystemArtifactStore =
  fa_files :: "string \<rightharpoonup> byte list"
  fa_retention :: "string \<rightharpoonup> RetentionPolicy"
  fa_max_content_bytes :: u64
  fa_max_page_bytes :: u64
  fa_capability :: u64

definition read_file :: "disk \<Rightarrow> (string \<rightharpoonup> byte list) \<Rightarrow> string \<Rightarrow> u64 \<Rightarrow> ArtifactErrorKind + byte list" where
  "read_file disk files path limit =
     (case files path of
        None \<Rightarrow> Inl ArtifactNotFound
      | Some bytes \<Rightarrow>
          if dk_read_fails disk path then Inl ArtifactIo
          else if too_large bytes limit then Inl ContentTooLarge
          else Inr bytes)"

definition remove_temporary :: "disk \<Rightarrow> string \<Rightarrow> FilesystemArtifactStore \<Rightarrow> FilesystemArtifactStore" where
  "remove_temporary disk path store =
     (if dk_unlink_fails disk then store else store\<lparr>fa_files := (fa_files store)(path := None)\<rparr>)"

definition temporary_path :: "string \<Rightarrow> u64 \<Rightarrow> string" where
  "temporary_path name tok = ''.tmp-'' @ name @ ''-'' @ nat_decimal (unat tok)"

definition file_stage ::
    "(byte list \<Rightarrow> byte list) \<Rightarrow> disk \<Rightarrow> u64 \<Rightarrow> byte list \<Rightarrow> FilesystemArtifactStore
       \<Rightarrow> (ArtifactErrorKind + StagedArtifact) \<times> FilesystemArtifactStore" where
  "file_stage sha256 disk tok bytes store =
     (if bytes = [] then (Inl EmptyContent, store)
      else if too_large bytes (fa_max_content_bytes store) then (Inl ContentTooLarge, store)
      else
        let name = content_id sha256 bytes;
            existing = read_file disk (fa_files store) name (fa_max_content_bytes store);
            temporary = temporary_path name tok;
            create =
              (if fa_files store temporary \<noteq> None then (Inl ArtifactIo, store)
               else case dk_create_fails disk of
                 Some e \<Rightarrow> (Inl e, store)
               | None \<Rightarrow>
                   let store = store\<lparr>fa_files := (fa_files store)(temporary \<mapsto> bytes)\<rparr> in
                   (case dk_write_fails disk of
                      Some e \<Rightarrow> (Inl e, remove_temporary disk temporary store)
                    | None \<Rightarrow>
                        (Inr \<lparr>sa_id = name, sa_state = StagedFile temporary, sa_capability = fa_capability store\<rparr>, store)))
        in case existing of
             Inr old \<Rightarrow> if old \<noteq> bytes then (Inl ContentIdCollision, store) else create
           | Inl e \<Rightarrow> if e \<noteq> ArtifactNotFound then (Inl e, store) else create)"

text \<open>An artifact that was staged and is not committed is dropped.\<close>

definition memory_discard :: "StagedArtifact \<Rightarrow> InMemoryArtifactStore \<Rightarrow> InMemoryArtifactStore" where
  "memory_discard staged store = store"

definition file_discard :: "disk \<Rightarrow> StagedArtifact \<Rightarrow> FilesystemArtifactStore \<Rightarrow> FilesystemArtifactStore" where
  "file_discard disk staged store =
     (case sa_state staged of StagedFile temporary \<Rightarrow> remove_temporary disk temporary store | StagedMemory _ \<Rightarrow> store)"

text \<open>\<open>staged\<close> is dropped when the commit fails, which removes its temporary file.\<close>

definition file_commit ::
    "disk \<Rightarrow> StagedArtifact \<Rightarrow> FilesystemArtifactStore \<Rightarrow> (ArtifactErrorKind + string) \<times> FilesystemArtifactStore" where
  "file_commit disk staged store =
     (let name = sa_id staged;
          dropped = file_discard disk staged store;
          publish = (\<lambda>store. (Inr name, store\<lparr>fa_retention :=
            (case fa_retention store name of Some _ \<Rightarrow> fa_retention store | None \<Rightarrow> (fa_retention store)(name \<mapsto> Retain))\<rparr>))
      in if sa_capability staged \<noteq> fa_capability store then (Inl ForeignStagedArtifact, dropped)
         else case sa_state staged of
           StagedMemory _ \<Rightarrow> publish store
         | StagedFile temporary \<Rightarrow>
             (case dk_link_fails disk of
                Some e \<Rightarrow> (Inl e, dropped)
              | None \<Rightarrow>
                  (case fa_files store temporary of
                     None \<Rightarrow> (Inl ArtifactNotFound, dropped)
                   | Some bytes \<Rightarrow>
                       (case fa_files store name of
                          None \<Rightarrow> publish (remove_temporary disk temporary (store\<lparr>fa_files := (fa_files store)(name \<mapsto> bytes)\<rparr>))
                        | Some _ \<Rightarrow>
                            (case read_file disk (fa_files store) name (fa_max_content_bytes store) of
                               Inl e \<Rightarrow> (Inl e, dropped)
                             | Inr existing \<Rightarrow>
                                 (case read_file disk (fa_files store) temporary (fa_max_content_bytes store) of
                                    Inl e \<Rightarrow> (Inl e, dropped)
                                  | Inr staged_bytes \<Rightarrow>
                                      if existing \<noteq> staged_bytes then (Inl ContentIdCollision, dropped)
                                      else publish (remove_temporary disk temporary store)))))))"

definition file_read_page ::
    "(byte list \<Rightarrow> byte list) \<Rightarrow> disk \<Rightarrow> FilesystemArtifactStore \<Rightarrow> string \<Rightarrow> PageRequest \<Rightarrow> ArtifactErrorKind + ArtifactPage" where
  "file_read_page sha256 disk store name request =
     res_bind (read_file disk (fa_files store) name (fa_max_content_bytes store)) (\<lambda>bytes.
       if content_id sha256 bytes \<noteq> name then Inl ContentIdCollision
       else page_of bytes (fa_max_page_bytes store) request)"

definition file_set_retention ::
    "string \<Rightarrow> RetentionPolicy \<Rightarrow> FilesystemArtifactStore \<Rightarrow> (ArtifactErrorKind + unit) \<times> FilesystemArtifactStore" where
  "file_set_retention name policy store =
     (case fa_files store name of
        None \<Rightarrow> (Inl ArtifactNotFound, store)
      | Some _ \<Rightarrow> (Inr (), store\<lparr>fa_retention := (fa_retention store)(name \<mapsto> policy)\<rparr>))"

definition file_retention :: "FilesystemArtifactStore \<Rightarrow> string \<Rightarrow> ArtifactErrorKind + RetentionPolicy" where
  "file_retention store name =
     (case fa_files store name of
        None \<Rightarrow> Inl ArtifactNotFound
      | Some _ \<Rightarrow> (case fa_retention store name of Some policy \<Rightarrow> Inr policy | None \<Rightarrow> Inl ArtifactNotFound))"

section \<open>The contract of a store\<close>

text \<open>
  \<open>visible\<close> is what readers see; \<open>prepared s t bytes\<close> says that \<open>t\<close> holds \<open>bytes\<close> ready for \<open>s\<close>.  The
  argument of type \<open>'f\<close> is what the environment does during a call.
\<close>

text \<open>\<open>put\<close>, the provided method of the trait, and a sequence of puts.\<close>

definition artifact_put ::
    "('f \<Rightarrow> byte list \<Rightarrow> 's \<Rightarrow> (ArtifactErrorKind + 't) \<times> 's) \<Rightarrow> ('f \<Rightarrow> 't \<Rightarrow> 's \<Rightarrow> (ArtifactErrorKind + string) \<times> 's)
       \<Rightarrow> 'f \<Rightarrow> 'f \<Rightarrow> byte list \<Rightarrow> 's \<Rightarrow> (ArtifactErrorKind + string) \<times> 's" where
  "artifact_put stage commit f g bytes s =
     (case stage f bytes s of (Inl e, s) \<Rightarrow> (Inl e, s) | (Inr t, s) \<Rightarrow> commit g t s)"

fun put_all ::
    "('f \<Rightarrow> 'f \<Rightarrow> byte list \<Rightarrow> 's \<Rightarrow> (ArtifactErrorKind + string) \<times> 's) \<Rightarrow> ('f \<times> 'f \<times> byte list) list \<Rightarrow> 's \<Rightarrow> 's" where
  "put_all put [] s = s"
| "put_all put ((f, g, bytes) # ps) s = put_all put ps (snd (put f g bytes s))"

locale artifact_store =
  fixes stage :: "'f \<Rightarrow> byte list \<Rightarrow> 's \<Rightarrow> (ArtifactErrorKind + 't) \<times> 's"
    and commit :: "'f \<Rightarrow> 't \<Rightarrow> 's \<Rightarrow> (ArtifactErrorKind + string) \<times> 's"
    and discard :: "'f \<Rightarrow> 't \<Rightarrow> 's \<Rightarrow> 's"
    and visible :: "'s \<Rightarrow> string \<rightharpoonup> byte list"
    and prepared :: "'s \<Rightarrow> 't \<Rightarrow> byte list \<Rightarrow> bool"
    and name_of :: "byte list \<Rightarrow> string"
  assumes stage_hidden: "stage f bytes s = (r, s') \<Longrightarrow> visible s' = visible s"
    and stage_prepares: "stage f bytes s = (Inr t, s') \<Longrightarrow> prepared s' t bytes"
    and commit_publishes: "prepared s t bytes \<Longrightarrow> commit f t s = (Inr name, s') \<Longrightarrow>
      name = name_of bytes \<and> visible s name \<in> {None, Some bytes} \<and> visible s' = (visible s)(name \<mapsto> bytes)"
    and commit_refused: "prepared s t bytes \<Longrightarrow> commit f t s = (Inl e, s') \<Longrightarrow> visible s' = visible s"
    and discard_hidden: "prepared s t bytes \<Longrightarrow> visible (discard f t s) = visible s"
begin

abbreviation put :: "'f \<Rightarrow> 'f \<Rightarrow> byte list \<Rightarrow> 's \<Rightarrow> (ArtifactErrorKind + string) \<times> 's" where
  "put \<equiv> artifact_put stage commit"

lemma put_Inr:
  assumes "put f g bytes s = (Inr name, s')"
  shows "name = name_of bytes" "visible s' name = Some bytes" "visible s \<subseteq>\<^sub>m visible s'"
    "visible s' = (visible s)(name \<mapsto> bytes)"
proof -
  obtain t u where t: "stage f bytes s = (Inr t, u)" "commit g t u = (Inr name, s')"
    using assms by (auto simp: artifact_put_def split: prod.splits sum.splits)
  note pub = commit_publishes [OF stage_prepares [OF t(1)] t(2)] stage_hidden [OF t(1)]
  show "name = name_of bytes" "visible s' name = Some bytes" "visible s' = (visible s)(name \<mapsto> bytes)"
    using pub by simp_all
  show "visible s \<subseteq>\<^sub>m visible s'" using pub by (auto simp: map_le_def)
qed

lemma put_Inl: "put f g bytes s = (Inl e, s') \<Longrightarrow> visible s' = visible s"
  using stage_hidden commit_refused [OF stage_prepares]
  by (fastforce simp: artifact_put_def split: prod.splits sum.splits)

text \<open>Any sequence of puts: what is visible stays, and everything new was put under its own name.\<close>

lemma put_grows: "visible s \<subseteq>\<^sub>m visible (snd (put f g bytes s))"
proof -
  obtain r s' where "put f g bytes s = (r, s')" by fastforce
  then show ?thesis using put_Inr(3) put_Inl by (cases r) auto
qed

lemma put_all_history:
  "visible s \<subseteq>\<^sub>m visible (put_all put ps s) \<and>
   (\<forall>name bytes. visible (put_all put ps s) name = Some bytes \<longrightarrow>
      visible s name = Some bytes \<or> name = name_of bytes \<and> bytes \<in> (snd \<circ> snd) ` set ps)"
proof (induction ps arbitrary: s)
  case (Cons p ps)
  obtain f g b where p3: "p = (f, g, b)" by (cases p)
  obtain r s' where p: "put f g b s = (r, s')" by fastforce
  have "visible s' name = Some bytes \<longrightarrow> visible s name = Some bytes \<or> name = name_of bytes \<and> bytes = b" for name bytes
    using p put_Inl put_Inr(1,4) by (cases r) (auto split: if_splits)
  moreover have "visible s \<subseteq>\<^sub>m visible s'" using put_grows [of s f g b] p by simp
  ultimately show ?case using Cons.IH [of s'] p by (auto simp: p3 intro: map_le_trans)
qed simp

end


section \<open>Both stores keep the contract\<close>

definition memory_visible :: "InMemoryArtifactStore \<Rightarrow> string \<rightharpoonup> byte list" where
  "memory_visible store name = map_option ent_bytes (ms_entries store name)"

definition memory_prepared :: "(byte list \<Rightarrow> byte list) \<Rightarrow> InMemoryArtifactStore \<Rightarrow> StagedArtifact \<Rightarrow> byte list \<Rightarrow> bool" where
  "memory_prepared sha256 store t bytes \<longleftrightarrow>
     bytes \<noteq> [] \<and> sa_id t = content_id sha256 bytes \<and>
     (sa_state t = StagedMemory bytes \<or> sa_state t = StagedMemory [] \<and> memory_visible store (sa_id t) = Some bytes)"

interpretation memory: artifact_store "\<lambda>_. memory_stage sha256" "\<lambda>_. memory_commit" "\<lambda>_. memory_discard" memory_visible "memory_prepared sha256"
  "content_id sha256" for sha256
proof unfold_locales
  fix f :: 'f and bytes r s s' t name e
  show "memory_stage sha256 bytes s = (r, s') \<Longrightarrow> memory_visible s' = memory_visible s"
    by (auto simp: memory_stage_def Let_def split: if_splits option.splits)
  show "memory_stage sha256 bytes s = (Inr t, s') \<Longrightarrow> memory_prepared sha256 s' t bytes"
    by (auto simp: memory_stage_def Let_def memory_prepared_def memory_visible_def split: if_splits option.splits)
  show "memory_prepared sha256 s t bytes \<Longrightarrow> memory_commit t s = (Inr name, s') \<Longrightarrow>
      name = content_id sha256 bytes \<and> memory_visible s name \<in> {None, Some bytes}
      \<and> memory_visible s' = (memory_visible s)(name \<mapsto> bytes)"
    by (auto simp: memory_commit_def Let_def memory_prepared_def memory_visible_def fun_eq_iff split: if_splits option.splits StagedState.splits)
  show "memory_prepared sha256 s t bytes \<Longrightarrow> memory_commit t s = (Inl e, s') \<Longrightarrow> memory_visible s' = memory_visible s"
    by (auto simp: memory_commit_def Let_def split: if_splits option.splits StagedState.splits)
qed (simp add: memory_discard_def)

text \<open>Readers see a file under its final name only.\<close>

definition file_visible :: "FilesystemArtifactStore \<Rightarrow> string \<rightharpoonup> byte list" where
  "file_visible store name = (if starts_with name ''.tmp-'' then None else fa_files store name)"

definition file_prepared :: "(byte list \<Rightarrow> byte list) \<Rightarrow> FilesystemArtifactStore \<Rightarrow> StagedArtifact \<Rightarrow> byte list \<Rightarrow> bool" where
  "file_prepared sha256 store t bytes \<longleftrightarrow>
     sa_id t = content_id sha256 bytes \<and>
     (\<exists>temporary. sa_state t = StagedFile temporary \<and> starts_with temporary ''.tmp-'' \<and> fa_files store temporary = Some bytes)"

lemma temporary_prefix: "starts_with (temporary_path name tok) ''.tmp-''"
  by (simp add: temporary_path_def starts_with_def)

lemma content_id_not_temporary: "\<not> starts_with (content_id sha256 bytes) ''.tmp-''"
proof -
  have "list_all is_lower_hex (content_id sha256 bytes)" by (simp add: content_id_def encode_hex_eq_hex hex_lower)
  moreover have "\<not> is_lower_hex (CHR ''.'')" by code_simp
  ultimately show ?thesis by (cases "content_id sha256 bytes") (auto simp: starts_with_def)
qed

lemma remove_temporary_visible:
  "starts_with path ''.tmp-'' \<Longrightarrow> file_visible (remove_temporary disk path store) = file_visible store"
  by (auto simp: remove_temporary_def file_visible_def fun_eq_iff)

lemma file_stage_hidden: "file_stage sha256 disk tok bytes s = (r, s') \<Longrightarrow> file_visible s' = file_visible s"
proof -
  have w: "file_visible (s\<lparr>fa_files := (fa_files s)(temporary_path n tok \<mapsto> b)\<rparr>) = file_visible s" for n b
    using temporary_prefix [of n tok] by (auto simp: file_visible_def fun_eq_iff)
  show "file_stage sha256 disk tok bytes s = (r, s') \<Longrightarrow> ?thesis"
    by (auto simp: file_stage_def Let_def w remove_temporary_visible temporary_prefix split: if_splits option.splits sum.splits)
qed

lemma file_stage_prepares: "file_stage sha256 disk tok bytes s = (Inr t, s') \<Longrightarrow> file_prepared sha256 s' t bytes"
  by (auto simp: file_stage_def Let_def file_prepared_def temporary_prefix split: if_splits option.splits sum.splits)

lemma visible_retention [simp]: "file_visible (store\<lparr>fa_retention := r\<rparr>) = file_visible store"
  by (simp add: file_visible_def fun_eq_iff)

lemma file_commit_publishes:
  assumes "file_prepared sha256 s t bytes" "file_commit disk t s = (Inr name, s')"
  shows "name = content_id sha256 bytes \<and> file_visible s name \<in> {None, Some bytes} \<and> file_visible s' = (file_visible s)(name \<mapsto> bytes)"
proof -
  obtain temporary where t: "sa_id t = content_id sha256 bytes" "sa_state t = StagedFile temporary"
      "starts_with temporary ''.tmp-''" "fa_files s temporary = Some bytes"
    using assms(1) by (auto simp: file_prepared_def)
  have new: "file_visible (s\<lparr>fa_files := (fa_files s)(content_id sha256 bytes \<mapsto> bytes)\<rparr>)
      = (file_visible s)(content_id sha256 bytes \<mapsto> bytes)"
    using content_id_not_temporary by (auto simp: file_visible_def fun_eq_iff)
  show ?thesis
    using assms(2) t new content_id_not_temporary [of sha256 bytes]
    by (auto simp: file_commit_def file_discard_def Let_def read_file_def remove_temporary_visible file_visible_def [of s]
        split: if_splits option.splits sum.splits)
qed

lemma file_commit_refused: "file_prepared sha256 s t bytes \<Longrightarrow> file_commit disk t s = (Inl e, s') \<Longrightarrow> file_visible s' = file_visible s"
  by (auto simp: file_commit_def file_discard_def Let_def file_prepared_def remove_temporary_visible split: if_splits option.splits sum.splits)

lemma file_discard_hidden: "file_prepared sha256 s t bytes \<Longrightarrow> file_visible (file_discard disk t s) = file_visible s"
  by (auto simp: file_discard_def file_prepared_def remove_temporary_visible)

interpretation disk: artifact_store "\<lambda>(disk, tok). file_stage sha256 disk tok" "\<lambda>(disk, tok). file_commit disk"
  "\<lambda>(disk, tok). file_discard disk" file_visible
  "file_prepared sha256" "content_id sha256" for sha256
  by unfold_locales
    (auto dest: file_stage_hidden file_stage_prepares file_commit_publishes file_commit_refused file_discard_hidden split: prod.splits)

end
