(* ===== verification/Pure_Transform.thy ===== *)
theory Pure_Transform
  imports Run_Control_Correct Artifact_Store
begin

text \<open>
  The bounded JSON transform (\<open>workflow-runtime/src/pure_transform.rs\<close>) and its execution under a run
  controller, up to the publication of its output (\<open>workflow-runtime/src/execution.rs\<close>).

  The WebAssembly engine is third-party code: the record \<open>engine\<close> holds what the backend calls of it.
  The clock samples, the artifact store and JSON coding are parameters too.
\<close>

section \<open>Requests\<close>

definition MAX_MODULE_BYTES :: nat where "MAX_MODULE_BYTES = 1048576"
definition MAX_JSON_BYTES :: nat where "MAX_JSON_BYTES = 65536"

datatype PureTransformRequestError = ModuleTooLarge | InputTooLarge | JsonSerializationFailed

record PureTransformRequest =
  pt_module :: "byte list"
  pt_input :: string
  pt_requested :: RequestedCapabilities

definition json_text_of :: "json_env \<Rightarrow> jvalue \<Rightarrow> string" where
  "json_text_of env v = emit (je_quote env) (je_number env) v"

definition PureTransformRequest_new ::
    "json_env \<Rightarrow> byte list \<Rightarrow> jvalue \<Rightarrow> RequestedCapabilities \<Rightarrow> PureTransformRequestError + PureTransformRequest" where
  "PureTransformRequest_new env module input requested =
     (if length module > MAX_MODULE_BYTES then Inl ModuleTooLarge
      else
        let input = json_text_of env input in
        if length input > MAX_JSON_BYTES then Inl InputTooLarge
        else Inr \<lparr>pt_module = module, pt_input = input, pt_requested = requested\<rparr>)"

section \<open>The backend\<close>

datatype PureTransformError =
    PtCapabilities "SandboxCapability list" | PtMissingModule | PtInvalidModule | PtUnsupportedImports | PtInstantiationFailed
  | PtMissingMemoryExport | PtInvalidTransformExport | PtMemoryAccessFailed | PtFuelConfigurationFailed | PtTransformFailed
  | PtInputTooLarge | PtInvalidOutputRange | PtOutputTooLarge | PtInvalidJsonOutput

definition MAX_FUEL :: u64 where "MAX_FUEL = 1000000"
definition MAX_MEMORY_BYTES :: nat where "MAX_MEMORY_BYTES = 64 * (64 * 1024)"

type_synonym i32 = "32 word"

text \<open>The engine: compiling a module, instantiating it under a memory limit and fuel, memory access and the call.\<close>

record ('m, 'i) engine =
  eg_compile :: "byte list \<Rightarrow> 'm option"
  eg_has_imports :: "'m \<Rightarrow> bool"
  eg_fuel :: bool
  eg_instantiate :: "nat \<Rightarrow> u64 \<Rightarrow> 'm \<Rightarrow> 'i option"
  eg_memory :: "'i \<Rightarrow> bool"
  eg_write :: "'i \<Rightarrow> nat \<Rightarrow> string \<Rightarrow> 'i option"
  eg_transform :: "'i \<Rightarrow> bool"
  eg_call :: "'i \<Rightarrow> i32 \<Rightarrow> i32 \<Rightarrow> (i32 \<times> i32 \<times> 'i) option"
  eg_read :: "'i \<Rightarrow> nat \<Rightarrow> nat \<Rightarrow> string option"

definition ok_or :: "'e \<Rightarrow> 'a option \<Rightarrow> 'e + 'a" where
  "ok_or e v = (case v of Some a \<Rightarrow> Inr a | None \<Rightarrow> Inl e)"

definition i32_try_from :: "nat \<Rightarrow> i32 option" where
  "i32_try_from n = (if n < 2147483648 then Some (word_of_nat n) else None)"

text \<open>\<open>usize::try_from\<close> of an \<open>i32\<close>.\<close>

definition usize_of_i32 :: "i32 \<Rightarrow> nat option" where
  "usize_of_i32 n = (if sint n < 0 then None else Some (nat (sint n)))"

definition backend_execute ::
    "('m, 'i) engine \<Rightarrow> json_decoder \<Rightarrow> PureTransformRequest \<Rightarrow> PureTransformError + jvalue" where
  "backend_execute engine decode request =
     res_bind (map_err PtCapabilities (verify_sandbox_capabilities (pt_requested request) [])) (\<lambda>_.
     if pt_module request = [] then Inl PtMissingModule
     else
       res_bind (ok_or PtInvalidModule (eg_compile engine (pt_module request))) (\<lambda>module.
       if eg_has_imports engine module then Inl PtUnsupportedImports
       else if \<not> eg_fuel engine then Inl PtFuelConfigurationFailed
       else
         res_bind (ok_or PtInstantiationFailed (eg_instantiate engine MAX_MEMORY_BYTES MAX_FUEL module)) (\<lambda>inst.
         if \<not> eg_memory engine inst then Inl PtMissingMemoryExport
         else
           res_bind (ok_or PtMemoryAccessFailed (eg_write engine inst 0 (pt_input request))) (\<lambda>inst.
           if \<not> eg_transform engine inst then Inl PtInvalidTransformExport
           else
             res_bind (ok_or PtInputTooLarge (i32_try_from (length (pt_input request)))) (\<lambda>input_len.
             res_bind (ok_or PtTransformFailed (eg_call engine inst 0 input_len)) (\<lambda>(pointer, len, inst).
             if sint pointer < 0 \<or> sint len < 0 then Inl PtInvalidOutputRange
             else
               res_bind (ok_or PtInvalidOutputRange (usize_of_i32 pointer)) (\<lambda>pointer.
               res_bind (ok_or PtInvalidOutputRange (usize_of_i32 len)) (\<lambda>len.
               if len > MAX_JSON_BYTES then Inl PtOutputTooLarge
               else
                 res_bind (ok_or PtMemoryAccessFailed (eg_read engine inst pointer len)) (\<lambda>output.
                 ok_or PtInvalidJsonOutput (decode output))))))))))"

section \<open>Plans\<close>

definition valid_identity :: "string \<Rightarrow> bool" where
  "valid_identity value \<longleftrightarrow> value \<noteq> [] \<and> list_all (\<lambda>c. \<not> ((of_char c :: nat) < 32 \<or> (of_char c :: nat) = 127)) value"

definition module_digest_of :: "json_env \<Rightarrow> byte list \<Rightarrow> string" where
  "module_digest_of env bytes = ''sha256:'' @ encode_hex (je_sha256 env bytes)"

datatype PureTransformPlanError =
    PlInvalidIdentity | PlMissingModule | PlDigestMismatch | PlRequest PureTransformRequestError

record PureTransformBinding =
  pb_workflow_id :: string
  pb_workflow_version :: string
  pb_module_digest :: string
  pb_module :: "byte list"

definition PureTransformBinding_new ::
    "json_env \<Rightarrow> string \<Rightarrow> string \<Rightarrow> string \<Rightarrow> byte list \<Rightarrow> PureTransformPlanError + PureTransformBinding" where
  "PureTransformBinding_new env workflow_id workflow_version module_digest module =
     (if \<not> valid_identity workflow_id \<or> \<not> valid_identity workflow_version \<or> \<not> valid_sha256 module_digest
      then Inl PlInvalidIdentity
      else if module = [] then Inl PlMissingModule
      else if module_digest \<noteq> module_digest_of env module then Inl PlDigestMismatch
      else Inr \<lparr>pb_workflow_id = workflow_id, pb_workflow_version = workflow_version, pb_module_digest = module_digest, pb_module = module\<rparr>)"

record PureTransformPlanV1 =
  pp_binding :: PureTransformBinding
  pp_input :: jvalue
  pp_requested :: RequestedCapabilities
  pp_input_digest :: string
  pp_input_bytes :: nat

definition PureTransformPlanV1_new ::
    "json_env \<Rightarrow> PureTransformBinding \<Rightarrow> jvalue \<Rightarrow> RequestedCapabilities \<Rightarrow> PureTransformPlanError + PureTransformPlanV1" where
  "PureTransformPlanV1_new env binding input requested =
     res_bind (map_err PlRequest (PureTransformRequest_new env (pb_module binding) input requested)) (\<lambda>_.
       let serialized = json_text_of env input in
       Inr \<lparr>pp_binding = binding, pp_input = input, pp_requested = requested,
            pp_input_digest = module_digest_of env (str_bytes serialized), pp_input_bytes = length serialized\<rparr>)"

definition plan_render :: "PureTransformPlanV1 \<Rightarrow> string" where
  "plan_render plan =
     (let line = (\<lambda>name value. name @ ''='' @ value @ [CHR 0x0A]) in
      line ''plan_version'' ''1'' @ line ''backend'' ''pure-transform'' @ line ''binding_version'' ''1''
      @ line ''workflow_id'' (pb_workflow_id (pp_binding plan)) @ line ''workflow_version'' (pb_workflow_version (pp_binding plan))
      @ line ''module_digest'' (pb_module_digest (pp_binding plan)) @ line ''input_digest'' (pp_input_digest plan)
      @ line ''input_bytes'' (nat_decimal (pp_input_bytes plan)) @ line ''artifact'' ''sha256(serialized-json-output)''
      @ line ''execution'' ''not_started'')"

section \<open>Execution\<close>

datatype PureTransformExecutionError =
    XWorkdirRunMismatch
  | XControllerRunMismatch
  | XControllerTermination RunTermination
  | XIdentityRejection PureTransformExecutionError RunTermination
  | XRequest PureTransformRequestError
  | XBackend PureTransformError
  | XOutputSerialization
  | XEmptyOutput
  | XArtifact ArtifactErrorKind

type_synonym execution_result = "(string, PureTransformExecutionError) RunResult"

definition failed_run :: "RunContext \<Rightarrow> PureTransformExecutionError \<Rightarrow> execution_result" where
  "failed_run context diagnostic = \<lparr>rr_run_id = rx_run_id context, rr_outcome = OutFailed diagnostic\<rparr>"

definition terminal_failure :: "RunContext \<Rightarrow> RunTermination \<Rightarrow> execution_result" where
  "terminal_failure context t =
     \<lparr>rr_run_id = rx_run_id context, rr_outcome = into_outcome (rt_cause t) (XControllerTermination t)\<rparr>"

definition identity_failure :: "RunContext \<Rightarrow> RunController \<Rightarrow> PureTransformExecutionError \<Rightarrow> execution_result" where
  "identity_failure context controller mismatch =
     (case into_rejection_termination controller of
        Some t \<Rightarrow> \<lparr>rr_run_id = rx_run_id context, rr_outcome = into_outcome (rt_cause t) (XIdentityRejection mismatch t)\<rparr>
      | None \<Rightarrow> failed_run context mismatch)"

text \<open>
  From the request to the bytes that are published; an error comes with the number of executions of
  the backend.
\<close>

definition plan_output ::
    "json_env \<Rightarrow> ('m, 'i) engine \<Rightarrow> json_decoder \<Rightarrow> stamp_decoder \<Rightarrow> PureTransformPlanV1
       \<Rightarrow> PureTransformExecutionError \<times> nat + string" where
  "plan_output env engine decode wire plan =
     (case PureTransformRequest_new env (pb_module (pp_binding plan)) (pp_input plan) (pp_requested plan) of
        Inl e \<Rightarrow> Inl (XRequest e, 0)
      | Inr request \<Rightarrow>
          (case backend_execute engine decode request of
             Inl e \<Rightarrow> Inl (XBackend e, 1)
           | Inr output \<Rightarrow>
               let output = json_text_of env output in
               if output = [] then Inl (XEmptyOutput, 1)
               else case encode_named_output env decode wire (pb_workflow_id (pp_binding plan)) output of
                 Inl _ \<Rightarrow> Inl (XOutputSerialization, 1)
               | Inr wrapped \<Rightarrow> Inr (case wrapped of Some bytes \<Rightarrow> bytes | None \<Rightarrow> output)))"

text \<open>Staging, the last look at the clock, and the commit.\<close>

definition publish_output ::
    "(byte list \<Rightarrow> 's \<Rightarrow> (ArtifactErrorKind + 't) \<times> 's) \<Rightarrow> ('t \<Rightarrow> 's \<Rightarrow> (ArtifactErrorKind + string) \<times> 's)
       \<Rightarrow> ('t \<Rightarrow> 's \<Rightarrow> 's) \<Rightarrow> RunContext \<Rightarrow> RunController \<Rightarrow> Duration \<Rightarrow> string \<Rightarrow> 's \<Rightarrow> execution_result \<times> 's" where
  "publish_output stage commit discard context controller elapsed output store =
     (case stage (str_bytes output) store of
        (Inl e, store) \<Rightarrow> (failed_run context (XArtifact e), store)
      | (Inr staged, store) \<Rightarrow>
          (case controller_finish elapsed controller of
             Inl t \<Rightarrow> (terminal_failure context t, discard staged store)
           | Inr _ \<Rightarrow>
               (case commit staged store of
                  (Inl e, store) \<Rightarrow> (failed_run context (XArtifact e), store)
                | (Inr name, store) \<Rightarrow> (\<lparr>rr_run_id = rx_run_id context, rr_outcome = OutCompleted name\<rparr>, store))))"

text \<open>
  The store is given by its operations; \<open>elapsed\<close> and \<open>elapsed'\<close> are the two samples of the clock.  The
  last component counts the executions of the backend.
\<close>

definition plan_execute ::
    "json_env \<Rightarrow> ('m, 'i) engine \<Rightarrow> json_decoder \<Rightarrow> stamp_decoder
       \<Rightarrow> (byte list \<Rightarrow> 's \<Rightarrow> (ArtifactErrorKind + 't) \<times> 's) \<Rightarrow> ('t \<Rightarrow> 's \<Rightarrow> (ArtifactErrorKind + string) \<times> 's)
       \<Rightarrow> ('t \<Rightarrow> 's \<Rightarrow> 's) \<Rightarrow> RunContext \<Rightarrow> RunController \<Rightarrow> Duration \<Rightarrow> Duration \<Rightarrow> string \<Rightarrow> PureTransformPlanV1 \<Rightarrow> 's
       \<Rightarrow> execution_result \<times> 's \<times> nat" where
  "plan_execute env engine decode wire stage commit discard context controller elapsed elapsed' workdir_run plan store =
     (if rx_run_id context \<noteq> workdir_run then (identity_failure context controller XWorkdirRunMismatch, store, 0)
      else if \<not> belongs_to controller context then (identity_failure context controller XControllerRunMismatch, store, 0)
      else case preflight_finish elapsed controller of
        (Inl t, controller) \<Rightarrow> (terminal_failure context t, store, 0)
      | (Inr _, controller) \<Rightarrow>
          (case plan_output env engine decode wire plan of
             Inl (e, executions) \<Rightarrow> (failed_run context e, store, executions)
           | Inr output \<Rightarrow>
               (case publish_output stage commit discard context controller elapsed' output store of
                  (result, store) \<Rightarrow> (result, store, 1))))"

end
