(* ===== verification/Execution_Safety.thy ===== *)
theory Execution_Safety
  imports Pure_Transform
begin

text \<open>
  The execution of a plan: an output becomes visible only for a run that is identified, healthy and in
  time, the backend runs at most once, and its requests and outputs are bounded.
\<close>

section \<open>The controller during an execution\<close>

lemma preflight_finish_Inr:
  "preflight_finish e c = (Inr (), c') \<longleftrightarrow>
     ct_terminal_cause c = None \<and> ct_last_elapsed c \<le> e \<and> list_all (\<lambda>d. e < fst d) (deadlines c)
     \<and> ct_active_tool_call c = None \<and> c' = c\<lparr>ct_last_elapsed := e\<rparr>"
  using step_accepts [of "PreflightFinish e" c c'] by simp

lemma deadlines_last [simp]: "deadlines (c\<lparr>ct_last_elapsed := e\<rparr>) = deadlines c"
  by (simp add: deadlines_def)

text \<open>Healthy at both samples of the clock, with no tool call open.\<close>

definition in_time :: "RunController \<Rightarrow> Duration \<Rightarrow> Duration \<Rightarrow> bool" where
  "in_time c e e' \<longleftrightarrow>
     ct_terminal_cause c = None \<and> ct_active_tool_call c = None \<and> ct_last_elapsed c \<le> e \<and> e \<le> e'
     \<and> list_all (\<lambda>d. e' < fst d) (deadlines c)"

lemma not_completed:
  "rr_run_id (failed_run context d) = rx_run_id context" "rr_outcome (failed_run context d) \<noteq> OutCompleted name"
  "rr_run_id (terminal_failure context t) = rx_run_id context" "rr_outcome (terminal_failure context t) \<noteq> OutCompleted name"
  "rr_run_id (identity_failure context c d) = rx_run_id context" "rr_outcome (identity_failure context c d) \<noteq> OutCompleted name"
proof -
  have into: "into_outcome cause x \<noteq> OutCompleted name" for cause and x :: PureTransformExecutionError and name :: string
    by (cases cause) simp_all
  then show "rr_run_id (failed_run context d) = rx_run_id context" "rr_outcome (failed_run context d) \<noteq> OutCompleted name"
    "rr_run_id (terminal_failure context t) = rx_run_id context" "rr_outcome (terminal_failure context t) \<noteq> OutCompleted name"
    "rr_run_id (identity_failure context c d) = rx_run_id context" "rr_outcome (identity_failure context c d) \<noteq> OutCompleted name"
    by (simp_all add: failed_run_def terminal_failure_def identity_failure_def split: option.splits)
qed

lemma plan_output_count: "plan_output env engine decode wire plan = Inl (e, n) \<Longrightarrow> n \<le> 1"
  by (auto simp: plan_output_def Let_def split: sum.splits if_splits)

context artifact_store
begin

lemma publish_output_visible:
  assumes "publish_output (stage f) (commit g) (discard h) context c e text s = (result, s')"
  shows "rr_run_id result = rx_run_id context
    \<and> (\<forall>name. rr_outcome result = OutCompleted name \<longrightarrow>
         controller_finish e c = Inr () \<and> name = name_of (str_bytes text) \<and> visible s' = (visible s)(name \<mapsto> str_bytes text))
    \<and> ((\<forall>name. rr_outcome result \<noteq> OutCompleted name) \<longrightarrow> visible s' = visible s)"
proof -
  obtain r u where st: "stage f (str_bytes text) s = (r, u)" by fastforce
  have u: "visible u = visible s" using stage_hidden [OF st] .
  show ?thesis
  proof (cases r)
    case (Inl e)
    then show ?thesis using assms st u by (auto simp: publish_output_def not_completed)
  next
    case (Inr t)
    have prep: "prepared u t (str_bytes text)" using stage_prepares st Inr by blast
    obtain q w where co: "commit g t u = (q, w)" by fastforce
    show ?thesis
    proof (cases "controller_finish e c")
      case (Inl x)
      then show ?thesis using assms st \<open>r = Inr t\<close> u discard_hidden [OF prep] by (auto simp: publish_output_def not_completed)
    next
      case fin: (Inr x)
      show ?thesis
      proof (cases q)
        case (Inl y)
        then show ?thesis using assms st \<open>r = Inr t\<close> fin co u commit_refused [OF prep]
          by (auto simp: publish_output_def not_completed)
      next
        case (Inr name)
        then show ?thesis using assms st \<open>r = Inr t\<close> fin co u commit_publishes [OF prep, of g name w]
          by (auto simp: publish_output_def)
      qed
    qed
  qed
qed

text \<open>An execution that makes something visible has completed, and only a healthy run in time completes.\<close>

lemma execute_publishes:
  assumes "plan_execute env engine decode wire (stage f) (commit g) (discard h) context controller e e' workdir_run plan s = (result, s', n)"
  shows "rr_run_id result = rx_run_id context \<and> n \<le> 1 \<and>
    (\<forall>name. rr_outcome result = OutCompleted name \<longrightarrow>
       workdir_run = rx_run_id context \<and> belongs_to controller context \<and> in_time controller e e' \<and> n = 1
       \<and> (\<exists>text. plan_output env engine decode wire plan = Inr text \<and> name = name_of (str_bytes text)
            \<and> visible s' = (visible s)(name \<mapsto> str_bytes text)))
    \<and> ((\<forall>name. rr_outcome result \<noteq> OutCompleted name) \<longrightarrow> visible s' = visible s)"
proof (cases "workdir_run = rx_run_id context \<and> belongs_to controller context \<and> (\<exists>c. preflight_finish e controller = (Inr (), c))")
  case False
  then have "s' = s \<and> n = 0 \<and> ((\<exists>d. result = identity_failure context controller d) \<or> (\<exists>t. result = terminal_failure context t))"
    using assms by (auto simp: plan_execute_def split: if_splits prod.splits sum.splits)
  then show ?thesis by (auto simp: not_completed)
next
  case True
  then obtain c where ids: "workdir_run = rx_run_id context" "belongs_to controller context"
    and pre: "preflight_finish e controller = (Inr (), c)" by blast
  show ?thesis
  proof (cases "plan_output env engine decode wire plan")
    case (Inl x)
    then show ?thesis using assms ids pre plan_output_count by (cases x) (auto simp: plan_execute_def not_completed)
  next
    case (Inr out)
    then have pub: "publish_output (stage f) (commit g) (discard h) context c e' out s = (result, s')" and "n = 1"
      using assms ids pre by (auto simp: plan_execute_def split: prod.splits)
    have "in_time controller e e'" if fin: "controller_finish e' c = Inr ()"
    proof -
      obtain c' where "preflight_finish e' c = (Inr (), c')"
        using fin unfolding controller_finish_def by (metis prod.collapse)
      then show ?thesis using pre by (auto simp: preflight_finish_Inr in_time_def)
    qed
    then show ?thesis using publish_output_visible [OF pub] \<open>n = 1\<close> ids Inr by blast
  qed
qed

end

text \<open>
  C20: an output is published only for the right run, in time, and once.  For every execution of a plan
  against the store on disk, whatever the disk, the WebAssembly engine and the clock do: the backend
  runs at most once; if anything new is visible in the store afterwards, then the run completed, the
  workdir and the controller belong to the run, the controller had not ended, no tool call was
  open, both clock samples lie before every deadline, and the new artifact is the plan's own
  output under its content identifier; every other outcome leaves the store as it was.
\<close>
theorem execution_publishes_in_time:
  assumes "plan_execute env engine decode wire (file_stage sha256 d tok) (file_commit d') (file_discard d'')
      context controller e e' workdir_run plan store = (result, store', executions)"
  shows "executions \<le> 1 \<and> rr_run_id result = rx_run_id context \<and>
    (case rr_outcome result of
       OutCompleted name \<Rightarrow>
         workdir_run = rx_run_id context \<and> belongs_to controller context \<and> in_time controller e e'
         \<and> (\<exists>text. plan_output env engine decode wire plan = Inr text \<and> name = content_id sha256 (str_bytes text)
              \<and> file_visible store' = (file_visible store)(name \<mapsto> str_bytes text))
     | _ \<Rightarrow> file_visible store' = file_visible store)"
  using disk.execute_publishes [of env engine decode wire sha256 "(d, tok)" "(d', tok)" "(d'', tok)" "context" controller e e' workdir_run plan store]
    assms
  by (auto split: RunOutcome.splits)


section \<open>An example\<close>

text \<open>An engine whose module copies its input.\<close>

definition copy_engine :: "(unit, string) engine" where
  "copy_engine =
     \<lparr>eg_compile = (\<lambda>_. Some ()), eg_has_imports = (\<lambda>_. False), eg_fuel = True, eg_instantiate = (\<lambda>_ _ _. Some []),
      eg_memory = (\<lambda>_. True), eg_write = (\<lambda>_ _ input. Some input), eg_transform = (\<lambda>_. True),
      eg_call = (\<lambda>mem pointer len. Some (pointer, len, mem)), eg_read = (\<lambda>mem pointer len. Some (take len (drop pointer mem)))\<rparr>"

definition calm_disk :: disk where
  "calm_disk = \<lparr>dk_read_fails = (\<lambda>_. False), dk_create_fails = None, dk_write_fails = None, dk_link_fails = None, dk_unlink_fails = False\<rparr>"

definition small_store :: FilesystemArtifactStore where
  "small_store = \<lparr>fa_files = Map.empty, fa_retention = Map.empty, fa_max_content_bytes = 100, fa_max_page_bytes = 100, fa_capability = 1\<rparr>"

definition demo_context :: RunContext where
  "demo_context = \<lparr>rx_run_id = ''run'', rx_limits = \<lparr>rl_max_model_turns = 1, rl_max_tool_calls = 1, rl_max_calls_per_tool = 1,
     rl_max_wall_time_ms = 5, rl_max_idle_time_ms = 5, rl_max_tool_time_ms = 5, rl_max_tool_output_bytes = 1\<rparr>\<rparr>"

definition demo_json :: json_env where
  "demo_json = \<lparr>je_sha256 = (\<lambda>_. [1]), je_quote = (\<lambda>s. [CHR 0x22] @ s @ [CHR 0x22]), je_number = (\<lambda>_. ''7'')\<rparr>"

definition demo_plan :: PureTransformPlanV1 where
  "demo_plan = \<lparr>pp_binding = \<lparr>pb_workflow_id = ''w'', pb_workflow_version = ''1'', pb_module_digest = ''d'', pb_module = [0]\<rparr>,
     pp_input = JNum 7, pp_requested = RequestedCapabilities_new [], pp_input_digest = [], pp_input_bytes = 1\<rparr>"

definition no_stamp :: stamp_decoder where
  "no_stamp v = None"

theorem execution_publishes_in_time_witness:
  "\<exists>store' name.
     plan_execute demo_json copy_engine (\<lambda>_. Some (JNum 7)) no_stamp (file_stage (\<lambda>_. [1]) calm_disk 1) (file_commit calm_disk)
       (file_discard calm_disk) demo_context (RunController_new demo_context) 3 4 ''run'' demo_plan small_store
     = (\<lparr>rr_run_id = ''run'', rr_outcome = OutCompleted name\<rparr>, store', 1)
     \<and> file_visible store' = [name \<mapsto> str_bytes ''7'']"
proof -
  let ?run = "plan_execute demo_json copy_engine (\<lambda>_. Some (JNum 7)) no_stamp (file_stage (\<lambda>_. [1]) calm_disk 1) (file_commit calm_disk)
       (file_discard calm_disk) demo_context (RunController_new demo_context) 3 4 ''run'' demo_plan small_store"
  let ?c = "(RunController_new demo_context)\<lparr>ct_last_elapsed := 3\<rparr>"
  have out: "plan_output demo_json copy_engine (\<lambda>_. Some (JNum 7)) no_stamp demo_plan = Inr ''7''"
    by (simp add: plan_output_def PureTransformRequest_new_def json_text_of_def backend_execute_def copy_engine_def demo_json_def
        demo_plan_def MAX_MODULE_BYTES_def MAX_JSON_BYTES_def i32_try_from_def usize_of_i32_def ok_or_def Let_def
        encode_named_output_def WorkflowExchange_parse_def verify_sandbox_capabilities_def RequestedCapabilities_new_def)
  have times: "deadlines (RunController_new demo_context) = [(5000000, TimeoutWall), (5000000, TimeoutIdle)]"
    by (simp add: deadlines_def RunController_new_def demo_context_def from_millis_def duration_limit_def)
  have new: "ct_terminal_cause (RunController_new demo_context) = None" "ct_last_elapsed (RunController_new demo_context) = 0"
    "ct_active_tool_call (RunController_new demo_context) = None"
    by (simp_all add: RunController_new_def)
  have pre: "preflight_finish 3 (RunController_new demo_context) = (Inr (), ?c)"
    by (simp add: preflight_finish_Inr times new)
  have "preflight_finish 4 ?c = (Inr (), ?c\<lparr>ct_last_elapsed := 4\<rparr>)" unfolding preflight_finish_Inr by (simp add: times new)
  then have fin: "controller_finish 4 ?c = Inr ()" by (simp add: controller_finish_def)
  have name: "content_id (\<lambda>_. [1]) bytes = ''01''" for bytes
    by (simp add: content_id_def encode_hex_eq_hex hex_def hex_digit_def)
  have run_id: "rx_run_id demo_context = ''run''" by (simp add: demo_context_def)
  have other: "''01'' \<noteq> temporary_path ''01'' 1" by (simp add: temporary_path_def)
  obtain r store' where pub: "publish_output (file_stage (\<lambda>_. [1]) calm_disk 1) (file_commit calm_disk) (file_discard calm_disk)
      demo_context ?c 4 ''7'' small_store = (r, store')" by fastforce
  then have r: "r = \<lparr>rr_run_id = ''run'', rr_outcome = OutCompleted ''01''\<rparr>"
    by (simp add: publish_output_def fin file_stage_def file_commit_def name other too_large_def length_u64_def read_file_def
        small_store_def calm_disk_def remove_temporary_def Let_def run_id str_bytes_def)
  have "belongs_to (RunController_new demo_context) demo_context" by (simp add: belongs_to_def RunController_new_def)
  then have run: "?run = (\<lparr>rr_run_id = ''run'', rr_outcome = OutCompleted ''01''\<rparr>, store', 1)"
    by (simp add: plan_execute_def pre out run_id pub r)
  have "file_visible small_store = Map.empty" by (simp add: file_visible_def small_store_def fun_eq_iff)
  then show ?thesis using execution_publishes_in_time [OF run] run out by auto
qed

end
