(* ===== verification/Typed_Roundtrip.thy ===== *)
theory Typed_Roundtrip
  imports Typed_Protocol
begin

text \<open>
  The typed-output codec: what is decoded is well formed and encodes again, an output has one
  encoding up to the order of members, and an exchange between workflows delivers the payload.
\<close>

section \<open>Codes\<close>

lemma TypedNodeKind_parse_iff [simp]: "TypedNodeKind_parse s = Inr k \<longleftrightarrow> s = TypedNodeKind_as_str k"
  by (cases k) (simp_all add: TypedNodeKind_parse_def)

lemma SentinelVerdict_parse_iff [simp]: "SentinelVerdict_parse s = Inr v \<longleftrightarrow> s = SentinelVerdict_as_code v"
  by (cases v) (simp_all add: SentinelVerdict_parse_def)

lemma FirewallDecision_parse_iff [simp]: "FirewallDecision_parse s = Inr d \<longleftrightarrow> s = FirewallDecision_as_code d"
  by (cases d) (simp_all add: FirewallDecision_parse_def)

lemma DependencyJudgment_parse_iff [simp]: "DependencyJudgment_parse s = Inr j \<longleftrightarrow> s = DependencyJudgment_as_code j"
  by (cases j) (simp_all add: DependencyJudgment_parse_def)

lemma EscalationTarget_parse_iff [simp]: "EscalationTarget_parse s = Inr t \<longleftrightarrow> s = EscalationTarget_as_code t"
  by (cases t) (simp_all add: EscalationTarget_parse_def)

lemma code_inj [simp]:
  "TypedNodeKind_as_str k = TypedNodeKind_as_str k' \<longleftrightarrow> k = k'"
  "SentinelVerdict_as_code v = SentinelVerdict_as_code v' \<longleftrightarrow> v = v'"
  "FirewallDecision_as_code d = FirewallDecision_as_code d' \<longleftrightarrow> d = d'"
  "DependencyJudgment_as_code j = DependencyJudgment_as_code j' \<longleftrightarrow> j = j'"
  "EscalationTarget_as_code t = EscalationTarget_as_code t' \<longleftrightarrow> t = t'"
  using TypedNodeKind_parse_iff SentinelVerdict_parse_iff FirewallDecision_parse_iff DependencyJudgment_parse_iff
    EscalationTarget_parse_iff
  by (metis sum.inject(2))+

section \<open>Fields\<close>

lemma ok_or_json_Inr [simp]: "ok_or_json v = Inr a \<longleftrightarrow> v = Some a"
  by (cases v) (simp_all add: ok_or_json_def)

lemma as_iffs:
  "as_object v = Some ms \<longleftrightarrow> v = JObj ms" "as_array v = Some vs \<longleftrightarrow> v = JArr vs" "as_str v = Some s \<longleftrightarrow> v = JStr s"
  by (cases v; auto)+

lemma as_u64_iff: "as_u64 v = Some w \<longleftrightarrow> v = JNum (uint w)"
proof
  assume "as_u64 v = Some w"
  then obtain n where n: "v = JNum n" "0 \<le> n" "n < 18446744073709551616" "w = word_of_int n"
    by (cases v) (auto split: if_splits)
  then have "uint w = n" by (simp add: uint_word_of_int_eq take_bit_eq_mod)
  then show "v = JNum (uint w)" using n by simp
next
  assume v: "v = JNum (uint w)"
  have "uint w < 2 ^ 64" using uint_bounded [of w] by simp
  then show "as_u64 v = Some w" by (simp add: v)
qed

lemma field_iffs:
  "get_field ms k = Inr v \<longleftrightarrow> map_of ms k = Some v"
  "string_field ms k = Inr s \<longleftrightarrow> map_of ms k = Some (JStr s)"
  "u64_field ms k = Inr w \<longleftrightarrow> map_of ms k = Some (JNum (uint w))"
  by (auto simp: get_field_def string_field_def u64_field_def bind_eq_Some_conv as_iffs as_u64_iff)

lemma u32_try_from_iff: "u32_try_from n = Some w \<longleftrightarrow> uint n = uint w"
proof -
  have b: "uint w < 4294967296" using uint_bounded [of w] by simp
  show ?thesis
  proof
    assume "u32_try_from n = Some w"
    then have n: "unat n < 4294967296" "w = ucast n" by (auto simp: u32_try_from_def split: if_splits)
    then have "uint n < 4294967296" by (metis nat_less_iff of_nat_numeral uint_ge_0 unat_eq_nat_uint)
    then show "uint n = uint w" using n(2) by (simp add: unsigned_ucast_eq take_bit_eq_mod)
  next
    assume e: "uint n = uint w"
    then have "unat n < 4294967296" using b by (metis unat_eq_nat_uint nat_less_iff of_nat_numeral uint_ge_0)
    moreover have "ucast n = w" using e by (metis ucast_eq word_of_int_uint)
    ultimately show "u32_try_from n = Some w" by (simp add: u32_try_from_def)
  qed
qed

text \<open>An object that has exactly the required keys is, sorted, the list of its fields.\<close>

lemma require_keys_sorted:
  assumes "distinct (map fst ms)" "require_keys ms keys = Inr ()" "distinct keys" "sorted keys'" "set keys' = set keys" "distinct keys'"
  shows "sort_key fst ms = map (\<lambda>k. (k, the (map_of ms k))) keys'"
proof -
  have len: "length ms = length keys" and sub: "\<forall>k \<in> set keys. map_of ms k \<noteq> None"
    using assms(2) by (auto simp: require_keys_def list_ex_iff split: if_splits)
  have "set keys \<subseteq> set (map fst ms)" using sub by (auto simp: map_of_eq_None_iff)
  moreover have "card (set keys) = card (set (map fst ms))"
    using len assms(1,3) by (simp add: distinct_card [symmetric] del: set_map) (metis distinct_card length_map)
  ultimately have keys: "set (map fst ms) = set keys'" using assms(5) by (metis card_subset_eq finite_set)
  let ?f = "\<lambda>k. (k, the (map_of ms k))"
  have "map fst (sort_key fst ms) = keys'"
    by (rule sorted_distinct_set_unique) (use assms keys in \<open>simp_all add: distinct_map\<close>)
  moreover have "map (?f \<circ> fst) (sort_key fst ms) = sort_key fst ms"
    by (rule map_idI) (use assms(1) in auto)
  ultimately show ?thesis by (metis map_map)
qed

section \<open>Well-formed outputs\<close>

definition wf_span :: "SourceSpan \<Rightarrow> bool" where
  "wf_span span \<longleftrightarrow> lower_hex64 (sp_artifact_id span) \<and> sp_start span < sp_end span"

definition wf_artifact :: "ArtifactRef \<Rightarrow> bool" where
  "wf_artifact artifact \<longleftrightarrow> lower_hex64 (ar_artifact_id artifact) \<and> valid_sha256 (ar_sha256 artifact)"

definition wf_stamp :: "FirewallStamp \<Rightarrow> bool" where
  "wf_stamp stamp \<longleftrightarrow> fs_schema_version stamp = FIREWALL_SCHEMA_VERSION \<and> lower_hex64 (fs_identity stamp)"

fun wf_payload :: "TypedPayload \<Rightarrow> bool" where
  "wf_payload (PSentinel e) \<longleftrightarrow> list_all wf_span (se_spans e) \<and> list_all wf_artifact (se_artifacts e)"
| "wf_payload (PFirewall r) \<longleftrightarrow> list_all wf_artifact (fr_artifacts r) \<and> pred_option wf_stamp (fr_policy r)"
| "wf_payload (PCompactState d) \<longleftrightarrow>
     cs_op d \<in> {''add'', ''set'', ''del''} \<and> \<not> blank (cs_key d) \<and> list_all wf_artifact (cs_artifacts d)"
| "wf_payload (PIssueCard i) \<longleftrightarrow>
     ic_status i \<in> {''open'', ''blocked'', ''done''} \<and> \<not> blank (ic_id i) \<and> list_all wf_span (ic_spans i)"
| "wf_payload (PDependency r) \<longleftrightarrow> \<not> blank (dr_from r) \<and> \<not> blank (dr_to r) \<and> list_all wf_artifact (dr_artifacts r)"
| "wf_payload (PEscalation r) \<longleftrightarrow> list_all wf_artifact (er_artifacts r)"

fun wf_completeness :: "Completeness \<Rightarrow> bool" where
  "wf_completeness CompleteOutput \<longleftrightarrow> True"
| "wf_completeness (TruncatedOutput c) \<longleftrightarrow> co_seq c \<noteq> 0 \<and> \<not> blank (co_token c)"

definition wf_output :: "TypedOutput \<Rightarrow> bool" where
  "wf_output output \<longleftrightarrow>
     to_schema_version output = TYPED_OUTPUT_SCHEMA_VERSION_V1 \<and> wf_payload (to_payload output) \<and> wf_completeness (to_completeness output)"

text \<open>What the derived decoder promises on the serialised form of a stamp.\<close>

definition stamp_roundtrip :: "stamp_decoder \<Rightarrow> bool" where
  "stamp_roundtrip wire \<longleftrightarrow>
     (\<forall>stamp. wire (FirewallStamp_value stamp) = Some (fs_schema_version stamp, fs_reason stamp, fs_identity stamp))"

section \<open>Encoding, then decoding\<close>

lemma parse_span_value: "wf_span span \<Longrightarrow> parse_span (SourceSpan_value span) = Inr span"
  by (auto simp: parse_span_def SourceSpan_value_def res_iffs as_iffs field_iffs require_keys_def SourceSpan_new_def wf_span_def
      word_uint_eq_iff [symmetric] intro!: exI [of _ "sp_start span"] exI [of _ "sp_end span"])

lemma parse_artifact_value: "wf_artifact a \<Longrightarrow> parse_artifact (ArtifactRef_value a) = Inr a"
  by (auto simp: parse_artifact_def ArtifactRef_value_def res_iffs as_iffs field_iffs require_keys_def ArtifactRef_new_def wf_artifact_def)

lemma parse_spans_value: "list_all wf_span spans \<Longrightarrow> parse_spans (spans_value spans) = Inr spans"
  by (auto simp: parse_spans_def spans_value_def res_iffs as_iffs res_map_Inr_iff list_all_iff parse_span_value)

lemma parse_artifacts_value: "list_all wf_artifact as \<Longrightarrow> parse_artifacts (artifacts_value as) = Inr as"
  by (auto simp: parse_artifacts_def artifacts_value_def res_iffs as_iffs res_map_Inr_iff list_all_iff parse_artifact_value)

lemma decode_stamp_value: "stamp_roundtrip wire \<Longrightarrow> wf_stamp stamp \<Longrightarrow> decode_stamp wire (FirewallStamp_value stamp) = Inr stamp"
  by (simp add: decode_stamp_def stamp_roundtrip_def FirewallStamp_try_from_def wf_stamp_def)

lemma parse_completeness_value: "wf_completeness c \<Longrightarrow> parse_completeness (Completeness_value c) = Inr c"
proof (cases c)
  case (TruncatedOutput continuation)
  moreover have "uint (ucast (co_seq continuation) :: u64) = uint (co_seq continuation)"
    using uint_bounded [of "co_seq continuation"] by (simp add: unsigned_ucast_eq take_bit_int_eq_self)
  ultimately show "wf_completeness c \<Longrightarrow> ?thesis"
    by (auto simp: parse_completeness_def u32_value_def res_iffs as_iffs field_iffs require_keys_def u32_try_from_iff
        Continuation_new_def intro!: exI [of _ "ucast (co_seq continuation)"])
qed (simp add: parse_completeness_def)

lemma parse_payload_value:
  assumes "stamp_roundtrip wire" "wf_payload p"
  shows "\<exists>v. TypedPayload_value p = Inr v \<and> parse_payload wire v = Inr p"
  using assms
  by (cases p)
    (auto simp: parse_payload_def res_iffs as_iffs field_iffs require_keys_def field_spans_def field_artifacts_def
      parse_spans_value parse_artifacts_value parse_state_op_def parse_issue_status_def firewall_policy_def decode_stamp_value
      TypedNodeKind_parse_def split: option.splits)


section \<open>Decoding, then encoding\<close>

lemma object_normal:
  assumes "wf_json (JObj ms)" "require_keys ms keys = Inr ()" "distinct keys" "sorted keys'" "set keys' = set keys" "distinct keys'"
  shows "normal (JObj ms) = JObj (map (\<lambda>k. (k, normal (the (map_of ms k)))) keys')"
  using require_keys_sorted [OF _ assms(2-6)] assms(1) by (simp add: sort_key_map_snd)

lemma wf_member: "wf_json (JObj ms) \<Longrightarrow> map_of ms k = Some v \<Longrightarrow> wf_json v"
  by (auto simp: list_all_iff dest: map_of_SomeD)

lemma parse_span_Inr:
  assumes "wf_json v" "parse_span v = Inr span"
  shows "wf_span span \<and> normal v = SourceSpan_value span"
proof -
  obtain ms where v: "v = JObj ms" and keys: "require_keys ms [''artifact_id'', ''start'', ''end''] = Inr ()"
    and f: "map_of ms ''start'' = Some (JNum (uint (sp_start span)))" "map_of ms ''end'' = Some (JNum (uint (sp_end span)))"
      "map_of ms ''artifact_id'' = Some (JStr (sp_artifact_id span))" and "wf_span span"
    using assms(2)
    by (auto simp: parse_span_def res_iffs as_iffs field_iffs SourceSpan_new_def wf_span_def not_le split: if_splits)
  moreover have "normal v = SourceSpan_value span"
    using object_normal [OF _ keys, of "[''artifact_id'', ''end'', ''start'']"] assms(1) f
    by (simp add: v SourceSpan_value_def insert_commute)
  ultimately show ?thesis by blast
qed

lemma parse_artifact_Inr:
  assumes "wf_json v" "parse_artifact v = Inr a"
  shows "wf_artifact a \<and> normal v = ArtifactRef_value a"
proof -
  obtain ms where v: "v = JObj ms" and keys: "require_keys ms [''artifact_id'', ''sha256''] = Inr ()"
    and f: "map_of ms ''artifact_id'' = Some (JStr (ar_artifact_id a))" "map_of ms ''sha256'' = Some (JStr (ar_sha256 a))"
    and "wf_artifact a"
    using assms(2)
    by (auto simp: parse_artifact_def res_iffs as_iffs field_iffs ArtifactRef_new_def wf_artifact_def split: if_splits)
  moreover have "normal v = ArtifactRef_value a"
    using object_normal [OF _ keys, of "[''artifact_id'', ''sha256'']"] assms(1) f by (simp add: v ArtifactRef_value_def)
  ultimately show ?thesis by blast
qed

text \<open>A list of items, decoded one by one.\<close>

lemma res_map_decoded:
  assumes "\<And>v x. wf_json v \<Longrightarrow> parse v = Inr x \<Longrightarrow> ok x \<and> normal v = enc x"
    and "list_all wf_json vs" and "res_map parse vs = Inr xs"
  shows "list_all ok xs \<and> map normal vs = map enc xs"
  using assms(2,3)
proof (induction vs arbitrary: xs)
  case (Cons v vs)
  then show ?case using assms(1) by (fastforce simp: res_iffs)
qed simp

lemma parse_spans_Inr:
  assumes "wf_json v" "parse_spans v = Inr spans"
  shows "list_all wf_span spans \<and> normal v = spans_value spans"
proof -
  obtain vs where "v = JArr vs" "res_map parse_span vs = Inr spans"
    using assms(2) by (auto simp: parse_spans_def res_iffs as_iffs)
  then show ?thesis
    using res_map_decoded [of parse_span wf_span SourceSpan_value vs spans] parse_span_Inr assms(1) by (simp add: spans_value_def)
qed

lemma parse_artifacts_Inr:
  assumes "wf_json v" "parse_artifacts v = Inr as"
  shows "list_all wf_artifact as \<and> normal v = artifacts_value as"
proof -
  obtain vs where "v = JArr vs" "res_map parse_artifact vs = Inr as"
    using assms(2) by (auto simp: parse_artifacts_def res_iffs as_iffs)
  then show ?thesis
    using res_map_decoded [of parse_artifact wf_artifact ArtifactRef_value vs as] parse_artifact_Inr assms(1)
    by (simp add: artifacts_value_def)
qed

lemma parse_completeness_Inr:
  assumes "wf_json v" "parse_completeness v = Inr c"
  shows "wf_completeness c \<and> normal v = Completeness_value c"
proof (cases "as_str v = Some ''complete''")
  case True
  then show ?thesis using assms(2) by (simp add: parse_completeness_def as_iffs)
next
  case False
  with assms(2) obtain ms fs and n :: u32 and tok where v: "v = JObj ms" and keys: "require_keys ms [''truncated''] = Inr ()"
    and t: "map_of ms ''truncated'' = Some (JObj fs)" and fkeys: "require_keys fs [''seq'', ''token''] = Inr ()"
    and f: "map_of fs ''seq'' = Some (JNum (uint n))" "map_of fs ''token'' = Some (JStr tok)"
    and c: "c = TruncatedOutput \<lparr>co_seq = n, co_token = tok\<rparr>" "n \<noteq> 0" "\<not> blank tok"
    by (auto simp: parse_completeness_def res_iffs as_iffs field_iffs u32_try_from_iff Continuation_new_def split: if_splits)
  have "normal (JObj fs) = JObj [(''seq'', JNum (uint n)), (''token'', JStr tok)]"
    using object_normal [OF _ fkeys, of "[''seq'', ''token'']"] wf_member [OF _ t] assms(1) f by (simp add: v)
  then have "normal v = Completeness_value c"
    using object_normal [OF _ keys, of "[''truncated'']"] assms(1) t by (simp add: v c(1) u32_value_def del: normal.simps(1))
  then show ?thesis using c by simp
qed

fun has_policy :: "TypedPayload \<Rightarrow> bool" where
  "has_policy (PFirewall r) \<longleftrightarrow> fr_policy r \<noteq> None"
| "has_policy _ \<longleftrightarrow> False"

lemma decode_stamp_Inr: "decode_stamp wire v = Inr stamp \<Longrightarrow> wf_stamp stamp"
  by (auto simp: decode_stamp_def map_err_Inr_iff FirewallStamp_try_from_def wf_stamp_def split: option.splits prod.splits if_splits)

lemma field_spans_Inr:
  "wf_json (JObj ms) \<Longrightarrow> field_spans ms = Inr spans \<Longrightarrow>
   \<exists>v. map_of ms ''spans'' = Some v \<and> normal v = spans_value spans \<and> list_all wf_span spans"
  using parse_spans_Inr wf_member by (fastforce simp: field_spans_def res_iffs field_iffs)

lemma field_artifacts_Inr:
  "wf_json (JObj ms) \<Longrightarrow> field_artifacts ms = Inr as \<Longrightarrow>
   \<exists>v. map_of ms ''artifacts'' = Some v \<and> normal v = artifacts_value as \<and> list_all wf_artifact as"
  using parse_artifacts_Inr wf_member by (fastforce simp: field_artifacts_def res_iffs field_iffs)


text \<open>The references of a decoded payload are well formed; the rest of \<open>wf_payload\<close> is checked by \<open>TypedOutput::new\<close>.\<close>

lemma wf_payload_iff_value:
  "(\<exists>v. TypedPayload_value p = Inr v) \<and>
     (case p of
        PSentinel e \<Rightarrow> list_all wf_span (se_spans e) \<and> list_all wf_artifact (se_artifacts e)
      | PFirewall r \<Rightarrow> list_all wf_artifact (fr_artifacts r) \<and> pred_option wf_stamp (fr_policy r)
      | PCompactState d \<Rightarrow> list_all wf_artifact (cs_artifacts d)
      | PIssueCard i \<Rightarrow> list_all wf_span (ic_spans i)
      | PDependency r \<Rightarrow> list_all wf_artifact (dr_artifacts r)
      | PEscalation r \<Rightarrow> list_all wf_artifact (er_artifacts r)) \<longleftrightarrow> wf_payload p"
  by (cases p) (auto simp: parse_state_op_def parse_issue_status_def split: if_splits)

lemma parse_kind_wf:
  assumes "wf_json (JObj ms)" "parse_kind wire kind ms = Inr p" "TypedPayload_value p = Inr value"
  shows "wf_payload p"
proof -
  have "\<exists>v. TypedPayload_value p = Inr v" using assms(3) by blast
  moreover have "pred_option wf_stamp policy" if "firewall_policy wire ms = Inr policy" for policy
    using that by (auto simp: firewall_policy_def res_iffs dest: decode_stamp_Inr split: option.splits)
  ultimately show ?thesis
    unfolding wf_payload_iff_value [symmetric]
    using assms(2) by (cases kind) (auto simp: res_iffs dest!: field_spans_Inr [OF assms(1)] field_artifacts_Inr [OF assms(1)])
qed

lemma parse_kind_unique:
  assumes wf: "wf_json (JObj ms)" and kind: "map_of ms ''kind'' = Some (JStr (TypedNodeKind_as_str k))"
    and p: "parse_kind wire k ms = Inr p" and "\<not> has_policy p" and v: "TypedPayload_value p = Inr value"
  shows "normal (JObj ms) = value"
proof (cases k)
  case KSentinel
  then show ?thesis
    using p v kind object_normal [OF wf, of _ "[''artifacts'', ''kind'', ''spans'', ''verdict'']"]
    by (fastforce simp: res_iffs field_iffs insert_commute simp del: normal.simps(1)
        dest!: field_spans_Inr [OF wf] field_artifacts_Inr [OF wf])
next
  case KFirewall
  then show ?thesis
    using p v kind object_normal [OF wf, of _ "[''artifacts'', ''decision'', ''kind'']"] assms(4)
    by (fastforce simp: res_iffs field_iffs firewall_policy_def insert_commute simp del: normal.simps(1) split: option.splits
        dest!: field_artifacts_Inr [OF wf])
next
  case KCompactState
  then show ?thesis
    using p v kind object_normal [OF wf, of _ "[''artifacts'', ''key'', ''kind'', ''op'']"]
    by (fastforce simp: res_iffs field_iffs parse_state_op_def insert_commute simp del: normal.simps(1) split: if_splits
        dest!: field_artifacts_Inr [OF wf])
next
  case KIssueCard
  then show ?thesis
    using p v kind object_normal [OF wf, of _ "[''id'', ''kind'', ''spans'', ''status'']"]
    by (fastforce simp: res_iffs field_iffs parse_issue_status_def insert_commute simp del: normal.simps(1) split: if_splits
        dest!: field_spans_Inr [OF wf])
next
  case KDependency
  then show ?thesis
    using p v kind object_normal [OF wf, of _ "[''artifacts'', ''from'', ''judgment'', ''kind'', ''to'']"]
    by (fastforce simp: res_iffs field_iffs insert_commute simp del: normal.simps(1) split: if_splits
        dest!: field_artifacts_Inr [OF wf])
next
  case KEscalation
  then show ?thesis
    using p v kind object_normal [OF wf, of _ "[''artifacts'', ''kind'', ''target'']"]
    by (fastforce simp: res_iffs field_iffs insert_commute simp del: normal.simps(1) dest!: field_artifacts_Inr [OF wf])
qed


lemma uint_u32_u64: "uint (ucast (w :: u32) :: u64) = uint w"
  using uint_bounded [of w] by (simp add: unsigned_ucast_eq take_bit_int_eq_self)

section \<open>Properties of the codec\<close>

lemma typed_output_roundtrip_raw:
  assumes "stamp_roundtrip wire" and "wf_output output"
  shows "\<exists>v. TypedOutput_value output = Inr v \<and> parse_typed_value wire v = Inr output"
proof -
  obtain payload where p: "TypedPayload_value (to_payload output) = Inr payload" "parse_payload wire payload = Inr (to_payload output)"
    using parse_payload_value [OF assms(1)] assms(2) by (auto simp: wf_output_def)
  moreover have "parse_completeness (Completeness_value (to_completeness output)) = Inr (to_completeness output)"
    using assms(2) by (simp add: wf_output_def parse_completeness_value)
  moreover have "to_schema_version output = 1" using assms(2) by (simp add: wf_output_def TYPED_OUTPUT_SCHEMA_VERSION_V1_def)
  ultimately show ?thesis
    by (auto simp: TypedOutput_value_def parse_typed_value_def res_iffs as_iffs field_iffs require_keys_def u32_value_def
        TypedOutput_new_def TYPED_OUTPUT_SCHEMA_VERSION_V1_def intro!: exI [of _ "1 :: u64"])
qed

text \<open>
  C22: a well-formed typed output survives its encoding.  Every output with the current schema version,
  legal codes, non-blank identifiers, valid spans, artifact references and continuation is encoded,
  and the decoder returns exactly that output, provided that the derived decoder of the firewall
  stamp reads back the fields of a serialised stamp.
\<close>
theorem typed_output_roundtrip:
  assumes "stamp_roundtrip wire" and "wf_output output"
  shows "\<exists>v. TypedOutput_value output = Inr v \<and> parse_typed_value wire v = Inr output"
  by (rule typed_output_roundtrip_raw [OF assms])

definition demo_output :: TypedOutput where
  "demo_output = \<lparr>to_schema_version = 1, to_payload = PEscalation \<lparr>er_target = Hitl, er_artifacts = []\<rparr>, to_completeness = CompleteOutput\<rparr>"

definition no_stamps :: stamp_decoder where
  "no_stamps v = None"

text \<open>A decoder of stamps that reads exactly the serialised form.\<close>

definition stamp_reader :: stamp_decoder where
  "stamp_reader v =
     (case v of
        JObj [(_, JStr identity), (_, JStr reason), (_, JNum version)] \<Rightarrow>
          map_option (\<lambda>r. (word_of_int version, r, identity))
            (List.find (\<lambda>r. FirewallReason_serde r = reason)
               [RSchema, RPolicy, RProvenance, RGoal, RTool, RCapability, RScope, RDestination, RArguments,
                RSecret, RSideEffect, RStaleTarget, RLowRisk, RSemantic, RHumanApproval])
      | _ \<Rightarrow> None)"

lemma stamp_reader_roundtrip: "stamp_roundtrip stamp_reader"
proof -
  have "stamp_reader (FirewallStamp_value stamp) = Some (fs_schema_version stamp, fs_reason stamp, fs_identity stamp)" for stamp
    by (cases "fs_reason stamp") (simp_all add: stamp_reader_def FirewallStamp_value_def u32_value_def)
  then show ?thesis by (simp add: stamp_roundtrip_def)
qed

theorem typed_output_roundtrip_witness:
  "stamp_roundtrip stamp_reader \<and> wf_output demo_output
   \<and> (\<exists>v. TypedOutput_value demo_output = Inr v \<and> parse_typed_value stamp_reader v = Inr demo_output)"
proof -
  have "wf_output demo_output" by (simp add: wf_output_def demo_output_def TYPED_OUTPUT_SCHEMA_VERSION_V1_def)
  then show ?thesis using typed_output_roundtrip stamp_reader_roundtrip by blast
qed

lemma parse_typed_value_Inr:
  assumes wf: "wf_json v" and "parse_typed_value wire v = Inr output"
  shows "wf_output output \<and> (\<not> has_policy (to_payload output) \<longrightarrow> TypedOutput_value output = Inr (normal v))"
proof -
  obtain ms cv pv pm payload where v: "v = JObj ms" and keys: "require_keys ms [''schema_version'', ''node'', ''completeness'', ''payload''] = Inr ()"
    and schema: "map_of ms ''schema_version'' = Some (JNum (uint (ucast TYPED_OUTPUT_SCHEMA_VERSION_V1 :: u64)))"
    and node: "map_of ms ''node'' = Some (JStr (TypedNodeKind_as_str (payload_kind (to_payload output))))"
    and c: "map_of ms ''completeness'' = Some cv" "parse_completeness cv = Inr (to_completeness output)"
    and p: "map_of ms ''payload'' = Some (JObj pm)" "TypedPayload_value (to_payload output) = Inr payload"
      "\<exists>k. map_of pm ''kind'' = Some (JStr (TypedNodeKind_as_str k)) \<and> parse_kind wire k pm = Inr (to_payload output)"
    and ver: "to_schema_version output = TYPED_OUTPUT_SCHEMA_VERSION_V1"
    using assms(2)
    by (auto simp: parse_typed_value_def parse_payload_def res_iffs as_iffs field_iffs TypedOutput_new_def split: if_splits)
  have pm: "wf_json (JObj pm)" using wf_member wf p(1) v by blast
  have cw: "wf_completeness (to_completeness output)" "normal cv = Completeness_value (to_completeness output)"
    using parse_completeness_Inr c(2) wf_member [OF _ c(1)] wf v by blast+
  have "normal v = JObj [(''completeness'', normal cv), (''node'', JStr (TypedNodeKind_as_str (payload_kind (to_payload output)))),
      (''payload'', normal (JObj pm)), (''schema_version'', JNum (uint (ucast TYPED_OUTPUT_SCHEMA_VERSION_V1 :: u64)))]"
    using object_normal [OF _ keys, of "[''completeness'', ''node'', ''payload'', ''schema_version'']"] wf v schema node c(1) p(1)
    by (simp add: insert_commute del: normal.simps(1))
  moreover have "\<not> has_policy (to_payload output) \<longrightarrow> normal (JObj pm) = payload"
    using parse_kind_unique [OF pm] p(2,3) by blast
  ultimately show ?thesis
    using cw ver p(2) parse_kind_wf [OF pm] p(3)
    by (auto simp: wf_output_def TypedOutput_value_def u32_value_def uint_u32_u64)
qed

text \<open>
  C23: the strict decoder accepts one encoding only.  Whatever JSON value it accepts (with no key
  twice in an object), the decoded output is well formed, so that it encodes and decodes again, and
  unless it carries a firewall stamp, its encoding is the value that was read, up to the order of
  members: no unknown member, no other spelling of a code, a number or a reference is accepted.
\<close>
theorem typed_output_unique:
  assumes "wf_json v" and "parse_typed_value wire v = Inr output"
  shows "wf_output output \<and> (\<not> has_policy (to_payload output) \<longrightarrow> TypedOutput_value output = Inr (normal v))"
  by (rule parse_typed_value_Inr [OF assms])

theorem typed_output_unique_witness:
  "\<exists>v. wf_json v \<and> parse_typed_value no_stamps v = Inr demo_output \<and> TypedOutput_value demo_output = Inr (normal v)"
proof -
  let ?v = "JObj [(''schema_version'', JNum 1), (''node'', JStr ''escalation''), (''completeness'', JStr ''complete''),
     (''payload'', JObj [(''kind'', JStr ''escalation''), (''target'', JStr ''hitl''), (''artifacts'', JArr [])])] :: jvalue"
  have "parse_typed_value no_stamps ?v = Inr demo_output" and "wf_json ?v" by code_simp+
  moreover have "\<not> has_policy (to_payload demo_output)" by (simp add: demo_output_def)
  ultimately show ?thesis using typed_output_unique by blast
qed

section \<open>Exchange\<close>

lemma admit_Inr:
  assumes "admit_for_reducer env output = Inr payload"
  shows "payload = to_payload output" "to_completeness output = CompleteOutput"
    "\<exists>v. TypedOutput_value output = Inr v
      \<and> length (emit (je_quote env) (je_number env) v) \<le> 4 * node_output_token_budget (payload_kind payload)"
  using assms
  by (cases "to_completeness output";
      auto simp: admit_for_reducer_def TypedOutput_to_json_def res_iffs estimate_output_tokens_def split: if_splits)+

text \<open>\<open>serde_json\<close> writes a string without characters that need an escape between two quotes.\<close>

definition plain_text :: "string \<Rightarrow> bool" where
  "plain_text s = list_all (\<lambda>c. is_ascii_alphanumeric c \<or> c = CHR ''.'') s"

definition quotes_plain :: "json_env \<Rightarrow> bool" where
  "quotes_plain env \<longleftrightarrow> (\<forall>s. plain_text s \<longrightarrow> length (je_quote env s) = length s + 2)"

lemma plain_names:
  "plain_text ''code.investigation''" "plain_text ''grounded.answer''" "plain_text ''multi.hop''" "plain_text ''review''"
  "plain_text ''from''" "plain_text ''output''" "plain_text ''to''"
  by code_simp+

lemma exchange_name_plain: "length (WorkflowExchange_as_str w) \<le> 18 \<and> plain_text (WorkflowExchange_as_str w)"
  by (cases w) (simp_all add: plain_names)

lemma exchange_delivers_raw:
  assumes "stamp_roundtrip wire" and "quotes_plain env" and "wf_output output" and "admit_for_reducer env output = Inr payload"
    and decodes: "\<And>v. TypedOutput_value output = Inr v \<Longrightarrow> decode (emit (je_quote env) (je_number env) (exchange_value source target v)) = Some (exchange_value source target v)"
  shows "\<exists>bytes. exchange_bytes env source target output = Inr bytes
    \<and> length bytes \<le> MAX_EXCHANGE_ENVELOPE_BYTES
    \<and> (\<forall>target' source'. consume_bytes env decode wire target' source' bytes
         = (if target' = target \<and> source' = source then Inr payload else Inl TInvalidJson))"
proof -
  obtain v where v: "TypedOutput_value output = Inr v" "parse_typed_value wire v = Inr output"
    using typed_output_roundtrip_raw [OF assms(1,3)] by blast
  let ?bytes = "emit (je_quote env) (je_number env) (exchange_value source target v)"
  have names: "length (je_quote env (WorkflowExchange_as_str w)) \<le> 20" for w
    using assms(2) exchange_name_plain [of w] by (simp add: quotes_plain_def)
  have keys: "length (je_quote env ''from'') = 6" "length (je_quote env ''output'') = 8" "length (je_quote env ''to'') = 4"
    using assms(2) plain_names(5-7) by (auto simp: quotes_plain_def)
  have "node_output_token_budget k \<le> 192" for k by (cases k) simp_all
  then have "length (emit (je_quote env) (je_number env) v) \<le> 4 * 192"
    using admit_Inr(3) [OF assms(4)] v(1) by (metis Inr_inject le_trans mult_le_mono2)
  then have len: "length ?bytes \<le> MAX_EXCHANGE_ENVELOPE_BYTES"
    using names [of source] names [of target] keys
    by (simp add: exchange_value_def MAX_EXCHANGE_ENVELOPE_BYTES_def MAX_EXCHANGE_WRAPPER_BYTES_def)
  have bytes: "exchange_bytes env source target output = Inr ?bytes"
    using assms(4) v(1) len by (simp add: exchange_bytes_def)
  have inj: "WorkflowExchange_as_str a = WorkflowExchange_as_str b \<longleftrightarrow> a = b" for a b by (cases a; cases b) simp_all
  have "consume_bytes env decode wire target' source' ?bytes
      = (if target' = target \<and> source' = source then Inr payload else Inl TInvalidJson)" for target' source'
    using decodes [OF v(1)] v(2) assms(4)
    by (simp add: consume_bytes_def exchange_value_def ok_or_json_def require_keys_def string_field_def get_field_def inj)
  then show ?thesis using bytes len by blast
qed


text \<open>
  an admitted output always fits into an exchange, and arrives.  Whenever an output is admitted for a
  reducer, its exchange envelope is built (the size check cannot fail) and is within the envelope
  limit; the receiver that the envelope names reads back exactly the payload, and any other
  receiver, and anyone who expects another sender, gets an error, provided that JSON decoding
  returns the value that was encoded.
\<close>
theorem exchange_delivers:
  assumes "stamp_roundtrip wire" and "quotes_plain env" and "wf_output output" and "admit_for_reducer env output = Inr payload"
    and decodes: "\<And>v. TypedOutput_value output = Inr v \<Longrightarrow> decode (emit (je_quote env) (je_number env) (exchange_value source target v)) = Some (exchange_value source target v)"
  shows "\<exists>bytes. exchange_bytes env source target output = Inr bytes
    \<and> length bytes \<le> MAX_EXCHANGE_ENVELOPE_BYTES
    \<and> (\<forall>target' source'. consume_bytes env decode wire target' source' bytes
         = (if target' = target \<and> source' = source then Inr payload else Inl TInvalidJson))"
  using assms by (rule exchange_delivers_raw)

definition plain_json :: json_env where
  "plain_json = \<lparr>je_sha256 = (\<lambda>_. []), je_quote = (\<lambda>s. [CHR 0x22] @ s @ [CHR 0x22]), je_number = (\<lambda>_. ''1'')\<rparr>"

theorem exchange_delivers_witness:
  "\<exists>decode bytes. exchange_bytes plain_json MultiHop ReviewExchange demo_output = Inr bytes
     \<and> consume_bytes plain_json decode stamp_reader ReviewExchange MultiHop bytes = Inr (to_payload demo_output)
     \<and> consume_bytes plain_json decode stamp_reader GroundedAnswer MultiHop bytes = Inl TInvalidJson"
proof -
  obtain v where v: "TypedOutput_value demo_output = Inr v" by (simp add: TypedOutput_value_def demo_output_def)
  have "quotes_plain plain_json" by (simp add: quotes_plain_def plain_json_def)
  moreover have "wf_output demo_output" by (simp add: wf_output_def demo_output_def TYPED_OUTPUT_SCHEMA_VERSION_V1_def)
  moreover have "admit_for_reducer plain_json demo_output = Inr (to_payload demo_output)" by code_simp
  ultimately show ?thesis
    using exchange_delivers [OF stamp_reader_roundtrip, of plain_json demo_output "to_payload demo_output"
        "\<lambda>_. Some (exchange_value MultiHop ReviewExchange v)" MultiHop ReviewExchange] v
    by (intro exI [of _ "\<lambda>_. Some (exchange_value MultiHop ReviewExchange v)"]) auto
qed

end
