(* ===== verification/Artifact_Exchange.thy ===== *)
theory Artifact_Exchange
  imports Artifact_Store Typed_Roundtrip
begin

text \<open>
  What the artifact stores give their clients: contents are immutable and content-addressed under any
  faults of the disk, pages add up to the content, and a typed output that one workflow publishes
  reaches the workflow it is addressed to.
\<close>

definition file_put ::
    "(byte list \<Rightarrow> byte list) \<Rightarrow> disk \<times> u64 \<Rightarrow> disk \<times> u64 \<Rightarrow> byte list \<Rightarrow> FilesystemArtifactStore
       \<Rightarrow> (ArtifactErrorKind + string) \<times> FilesystemArtifactStore" where
  "file_put sha256 = artifact_put (\<lambda>(disk, tok). file_stage sha256 disk tok) (\<lambda>(disk, tok). file_commit disk)"

definition memory_put ::
    "(byte list \<Rightarrow> byte list) \<Rightarrow> byte list \<Rightarrow> InMemoryArtifactStore \<Rightarrow> (ArtifactErrorKind + string) \<times> InMemoryArtifactStore" where
  "memory_put sha256 = artifact_put (\<lambda>_. memory_stage sha256) (\<lambda>_. memory_commit) () ()"

text \<open>
  the store on disk is content-addressed and never changes or loses a published artifact.  After any
  sequence of puts, whatever reads, creations, writes, links and removals fail on the way, everything
  that was visible before is still visible with the same bytes, and everything else that is
  visible is one of the contents that were put, under its own identifier.
\<close>
theorem disk_store_content_addressed:
  "file_visible store \<subseteq>\<^sub>m file_visible (put_all (file_put sha256) puts store)
    \<and> Map.graph (file_visible (put_all (file_put sha256) puts store))
        \<subseteq> Map.graph (file_visible store) \<union> (\<lambda>(_, _, bytes). (content_id sha256 bytes, bytes)) ` set puts"
  using disk.put_all_history [of store sha256 puts] unfolding file_put_def by (force simp: Map.graph_def)

section \<open>Pages\<close>

definition bytes_str :: "byte list \<Rightarrow> string" where
  "bytes_str bytes = map (\<lambda>b. char_of (unat b)) bytes"

lemma bytes_str_str_bytes [simp]: "bytes_str (str_bytes s) = s"
proof -
  have "char_of (unat (of_char c :: byte)) = c" for c
  proof -
    have "unat (word_of_nat (of_char c) :: byte) = of_char c" by (simp add: unat_of_nat take_bit_eq_mod)
    then show ?thesis by (simp only: of_nat_of_char char_of_char)
  qed
  then show ?thesis by (simp add: bytes_str_def str_bytes_def map_idI)
qed

lemma bytes_str_append: "bytes_str (a @ b) = bytes_str a @ bytes_str b"
  by (simp add: bytes_str_def)

lemma length_bytes_str [simp]: "length (bytes_str b) = length b"
  by (simp add: bytes_str_def)

lemma unat_len: "n < 2 ^ 64 \<Longrightarrow> unat (word_of_nat n :: u64) = n"
  by (simp add: unat_of_nat take_bit_eq_mod)

lemma page_of_at:
  fixes bytes :: "byte list" and n off :: nat
  assumes fits: "length bytes < 2 ^ 64" and off: "off \<le> length bytes"
    and n: "n = min (unat (min limit max_page)) (length bytes - off)"
  shows "page_of bytes max_page \<lparr>pq_offset = word_of_nat off, pq_limit = limit\<rparr>
    = Inr \<lparr>pg_bytes = take n (drop off bytes),
           pg_next_offset = (if off + n < length bytes then Some (word_of_nat (off + n)) else None)\<rparr>"
proof -
  let ?len = "word_of_nat (length bytes) :: u64" and ?off = "word_of_nat off :: u64"
  have u: "unat ?len = length bytes" "unat ?off = off" using fits off by (simp_all add: unat_len)
  have le: "?off \<le> ?len" using u off by (simp add: word_le_nat_alt)
  have m: "unat (min (min limit max_page) (?len - ?off)) = n"
    using le u by (simp add: n min_def word_le_nat_alt unat_sub)
  have sum: "unat ?off + unat (min (min limit max_page) (?len - ?off)) = off + n" by (simp only: m u)
  have "off + n < 2 ^ 64" using n off fits by simp
  then have "checked_add ?off (min (min limit max_page) (?len - ?off)) = Some (word_of_nat (off + n))"
    unfolding checked_add_eq_Some_iff sum by (rule unat_len)
  moreover have "unat (word_of_nat (off + n) :: u64) = off + n" using \<open>off + n < 2 ^ 64\<close> by (rule unat_len)
  ultimately show ?thesis
    using le u fits off by (simp add: page_of_def length_u64_def not_less word_less_nat_alt Let_def)
qed

text \<open>The reader that \<open>read_exchange_bytes\<close> uses: pages of 64 KiB of one artifact.\<close>

definition page_reader_of :: "(PageRequest \<Rightarrow> ArtifactErrorKind + ArtifactPage) \<Rightarrow> page_reader" where
  "page_reader_of read_page offset =
     (case read_page \<lparr>pq_offset = offset, pq_limit = 65536\<rparr> of
        Inl _ \<Rightarrow> None
      | Inr page \<Rightarrow> Some (bytes_str (pg_bytes page), pg_next_offset page))"

lemma read_exchange_all:
  assumes "0 < max_page" and small: "length bytes \<le> MAX_EXCHANGE_ENVELOPE_BYTES"
  shows "off \<le> length bytes \<Longrightarrow>
    read_exchange_bytes (page_reader_of (page_of bytes max_page)) (word_of_nat off) (bytes_str (take off bytes)) = Inr (bytes_str bytes)"
proof (induction "length bytes - off" arbitrary: off rule: less_induct)
  case less
  have fits: "length bytes < 2 ^ 64" using small by (simp add: MAX_EXCHANGE_ENVELOPE_BYTES_def MAX_EXCHANGE_WRAPPER_BYTES_def)
  define n where "n = min (unat (min 65536 max_page)) (length bytes - off)"
  have page: "page_reader_of (page_of bytes max_page) (word_of_nat off)
      = Some (bytes_str (take n (drop off bytes)), if off + n < length bytes then Some (word_of_nat (off + n)) else None)"
    using page_of_at [OF fits less.prems n_def] by (simp add: page_reader_of_def)
  have so_far: "bytes_str (take off bytes) @ bytes_str (take n (drop off bytes)) = bytes_str (take (off + n) bytes)"
    by (simp add: bytes_str_append [symmetric] take_add)
  have len: "length (bytes_str (take (off + n) bytes)) \<le> MAX_EXCHANGE_ENVELOPE_BYTES" using small by simp
  show ?case
  proof (cases "off + n < length bytes")
    case False
    then show ?thesis
      using page so_far len by (subst read_exchange_bytes.simps) simp
  next
    case True
    have "0 < unat (min 65536 max_page)" using assms(1) by (auto simp: min_def word_less_nat_alt)
    then have "0 < n" using True n_def by auto
    have "off + n < 2 ^ 64" "off < 2 ^ 64" using True fits by linarith+
    then have "unat (word_of_nat (off + n) :: u64) = off + n" "unat (word_of_nat off :: u64) = off" by (auto intro: unat_len simp del: of_nat_add)
    then have up: "(word_of_nat off :: u64) < word_of_nat (off + n)" using \<open>0 < n\<close> by (simp add: word_less_nat_alt)
    have "read_exchange_bytes (page_reader_of (page_of bytes max_page)) (word_of_nat (off + n)) (bytes_str (take (off + n) bytes))
        = Inr (bytes_str bytes)"
      using less.hyps [of "off + n"] True \<open>0 < n\<close> by simp
    then show ?thesis using page so_far len up True by (subst read_exchange_bytes.simps) simp
  qed
qed


section \<open>An exchange through a store\<close>

definition memory_exchange_put :: "(byte list \<Rightarrow> byte list) \<Rightarrow> InMemoryArtifactStore store_put" where
  "memory_exchange_put sha256 store text =
     (case memory_put sha256 (str_bytes text) store of (Inr name, store) \<Rightarrow> (Some name, store) | (Inl _, store) \<Rightarrow> (None, store))"

lemma memory_stage_fresh:
  assumes "bytes \<noteq> []" "length bytes < 2 ^ 64" "length bytes \<le> unat (ms_max_content_bytes store)"
    and "ms_entries store (content_id sha256 bytes) = None \<or> memory_visible store (content_id sha256 bytes) = Some bytes"
  shows "\<exists>store'. memory_put sha256 bytes store = (Inr (content_id sha256 bytes), store')
    \<and> memory_visible store' (content_id sha256 bytes) = Some bytes \<and> ms_max_page_bytes store' = ms_max_page_bytes store"
proof -
  have "\<not> too_large bytes (ms_max_content_bytes store)"
    using assms(2,3) by (simp add: too_large_def length_u64_def word_less_nat_alt unat_len not_less)
  then show ?thesis
    using assms(1,4)
    by (auto simp: memory_put_def artifact_put_def memory_stage_def memory_commit_def Let_def memory_visible_def split: option.splits)
qed

text \<open>
  C21: a published output reaches its addressee through the artifact store.  When an admitted output is
  published to an in-memory store whose content limit admits an exchange envelope and which holds no
  other content under the identifier of the envelope, publishing succeeds, and the workflow
  that the envelope is addressed to reads, page by page, exactly the payload that was sent, while
  any other workflow gets an error.
\<close>
theorem published_output_consumed:
  assumes "stamp_roundtrip wire" and "quotes_plain env" and "wf_output output" and "admit_for_reducer env output = Inr payload"
    and "\<And>v. TypedOutput_value output = Inr v \<Longrightarrow>
      decode (emit (je_quote env) (je_number env) (exchange_value source target v)) = Some (exchange_value source target v)"
    and limit: "MAX_EXCHANGE_ENVELOPE_BYTES \<le> unat (ms_max_content_bytes store)" and "0 < ms_max_page_bytes store"
    and free: "\<And>bytes. exchange_bytes env source target output = Inr bytes \<Longrightarrow>
      ms_entries store (content_id sha256 (str_bytes bytes)) = None
      \<or> memory_visible store (content_id sha256 (str_bytes bytes)) = Some (str_bytes bytes)"
  shows "\<exists>name store'. exchange_publish env (memory_exchange_put sha256) source target output store = (Inr name, store')
    \<and> (\<forall>target' source'. exchange_consume env decode wire target' source' (page_reader_of (memory_read_page store' name))
         = (if target' = target \<and> source' = source then Inr payload else Inl TInvalidJson))"
proof -
  obtain bytes where b: "exchange_bytes env source target output = Inr bytes" "length bytes \<le> MAX_EXCHANGE_ENVELOPE_BYTES"
    and read: "consume_bytes env decode wire target' source' bytes
         = (if target' = target \<and> source' = source then Inr payload else Inl TInvalidJson)" for target' source'
    using exchange_delivers_raw [OF assms(1-5)] by blast
  have "bytes \<noteq> []" using b(1) by (auto simp: exchange_bytes_def exchange_value_def res_iffs Let_def split: if_splits)
  moreover have "length (str_bytes bytes) < 2 ^ 64" using b(2) by (simp add: MAX_EXCHANGE_ENVELOPE_BYTES_def MAX_EXCHANGE_WRAPPER_BYTES_def)
  ultimately obtain store' where put: "memory_put sha256 (str_bytes bytes) store = (Inr (content_id sha256 (str_bytes bytes)), store')"
      "memory_visible store' (content_id sha256 (str_bytes bytes)) = Some (str_bytes bytes)" "ms_max_page_bytes store' = ms_max_page_bytes store"
    using memory_stage_fresh [of "str_bytes bytes" store sha256] free [OF b(1)] b(2) limit by (force simp: str_bytes_def)
  let ?name = "content_id sha256 (str_bytes bytes)"
  have "exchange_publish env (memory_exchange_put sha256) source target output store = (Inr ?name, store')"
    using b(1) put(1) by (simp add: exchange_publish_def memory_exchange_put_def ok_or_json_def)
  moreover have "page_reader_of (memory_read_page store' ?name) = page_reader_of (page_of (str_bytes bytes) (ms_max_page_bytes store))"
    using put(2,3) by (auto simp: page_reader_of_def memory_read_page_def memory_visible_def fun_eq_iff)
  moreover have "read_exchange_bytes (page_reader_of (page_of (str_bytes bytes) (ms_max_page_bytes store))) 0 [] = Inr bytes"
    using read_exchange_all [OF assms(7), of "str_bytes bytes" 0] b(2) bytes_str_str_bytes [of bytes]
    by (simp add: bytes_str_def [of "[]"])
  ultimately show ?thesis using read by (auto simp: exchange_consume_def)
qed


theorem published_output_consumed_witness:
  "\<exists>decode name store'.
     exchange_publish plain_json (memory_exchange_put (\<lambda>_. [1])) MultiHop ReviewExchange demo_output (InMemoryArtifactStore_new 1000 7 1)
       = (Inr name, store')
     \<and> exchange_consume plain_json decode stamp_reader ReviewExchange MultiHop (page_reader_of (memory_read_page store' name))
       = Inr (to_payload demo_output)"
proof -
  obtain v where v: "TypedOutput_value demo_output = Inr v" by (simp add: TypedOutput_value_def demo_output_def)
  let ?decode = "\<lambda>_ :: string. Some (exchange_value MultiHop ReviewExchange v)"
  let ?store = "InMemoryArtifactStore_new 1000 7 1"
  have "quotes_plain plain_json" by (simp add: quotes_plain_def plain_json_def)
  moreover have "wf_output demo_output" by (simp add: wf_output_def demo_output_def TYPED_OUTPUT_SCHEMA_VERSION_V1_def)
  moreover have "admit_for_reducer plain_json demo_output = Inr (to_payload demo_output)" by code_simp
  moreover have "MAX_EXCHANGE_ENVELOPE_BYTES \<le> unat (ms_max_content_bytes ?store)" "0 < ms_max_page_bytes ?store"
    "ms_entries ?store n = None" for n
    by (simp_all add: InMemoryArtifactStore_new_def MAX_EXCHANGE_ENVELOPE_BYTES_def MAX_EXCHANGE_WRAPPER_BYTES_def)
  ultimately show ?thesis
    using published_output_consumed [OF stamp_reader_roundtrip, of plain_json demo_output "to_payload demo_output" ?decode
        MultiHop ReviewExchange ?store "\<lambda>_. [1]"] v
    by (intro exI [of _ ?decode]) auto
qed

end
