(* ===== verification/Event_Log.thy ===== *)
theory Event_Log
  imports Typed_Protocol Session
begin

text \<open>
  Runtime events (\<open>workflow-runtime/src/event.rs\<close>): the event envelope with its checks, the sanitiser
  of payloads, and the append-only log that assigns sequence numbers.

  SHA-256 and the spelling of JSON atoms are the parameter \<open>env\<close>.  The decoder that serde derives for
  the fields of an artifact reference is the parameter \<open>decode\<close>; the checks made on top of it are in the
  model.
\<close>

section \<open>Events\<close>

definition WORKFLOW_RUNTIME_EVENT_SCHEMA_VERSION_V1 :: u16 where
  "WORKFLOW_RUNTIME_EVENT_SCHEMA_VERSION_V1 = 1"

definition FOREIGN_TYPE_MARKERS :: "string list" where
  "FOREIGN_TYPE_MARKERS =
     [''adk_rust::'', ''adk_core::'', ''adk_agent::'', ''adk_model::'', ''adk_graph::'', ''adk_guardrail::'', ''adk_telemetry::'']"

datatype WorkflowRuntimeEventKindV1 =
    WorkflowStarted | WorkflowResumed | WorkflowCancelled | NodeScheduled | NodeStarted | NodeCompleted | NodeFailed
  | ModelRequestStarted | ModelRequestCompleted | ToolRequested | ToolAuthorized | ToolDenied | ToolStarted | ToolCompleted
  | RetryScheduled | ApprovalRequested | ApprovalResolved | CheckpointCommitStarted | CheckpointCommitted | CheckpointFailed
  | ArtifactCommitted | ReviewCompleted | RevisionRequested | WorkflowCompleted | WorkflowAbstained | WorkflowIncomplete
  | WorkflowFailed

fun WorkflowRuntimeEventKindV1_as_str :: "WorkflowRuntimeEventKindV1 \<Rightarrow> string" where
  "WorkflowRuntimeEventKindV1_as_str WorkflowStarted = ''workflow_started''"
| "WorkflowRuntimeEventKindV1_as_str WorkflowResumed = ''workflow_resumed''"
| "WorkflowRuntimeEventKindV1_as_str WorkflowCancelled = ''workflow_cancelled''"
| "WorkflowRuntimeEventKindV1_as_str NodeScheduled = ''node_scheduled''"
| "WorkflowRuntimeEventKindV1_as_str NodeStarted = ''node_started''"
| "WorkflowRuntimeEventKindV1_as_str NodeCompleted = ''node_completed''"
| "WorkflowRuntimeEventKindV1_as_str NodeFailed = ''node_failed''"
| "WorkflowRuntimeEventKindV1_as_str ModelRequestStarted = ''model_request_started''"
| "WorkflowRuntimeEventKindV1_as_str ModelRequestCompleted = ''model_request_completed''"
| "WorkflowRuntimeEventKindV1_as_str ToolRequested = ''tool_requested''"
| "WorkflowRuntimeEventKindV1_as_str ToolAuthorized = ''tool_authorized''"
| "WorkflowRuntimeEventKindV1_as_str ToolDenied = ''tool_denied''"
| "WorkflowRuntimeEventKindV1_as_str ToolStarted = ''tool_started''"
| "WorkflowRuntimeEventKindV1_as_str ToolCompleted = ''tool_completed''"
| "WorkflowRuntimeEventKindV1_as_str RetryScheduled = ''retry_scheduled''"
| "WorkflowRuntimeEventKindV1_as_str ApprovalRequested = ''approval_requested''"
| "WorkflowRuntimeEventKindV1_as_str ApprovalResolved = ''approval_resolved''"
| "WorkflowRuntimeEventKindV1_as_str CheckpointCommitStarted = ''checkpoint_commit_started''"
| "WorkflowRuntimeEventKindV1_as_str CheckpointCommitted = ''checkpoint_committed''"
| "WorkflowRuntimeEventKindV1_as_str CheckpointFailed = ''checkpoint_failed''"
| "WorkflowRuntimeEventKindV1_as_str ArtifactCommitted = ''artifact_committed''"
| "WorkflowRuntimeEventKindV1_as_str ReviewCompleted = ''review_completed''"
| "WorkflowRuntimeEventKindV1_as_str RevisionRequested = ''revision_requested''"
| "WorkflowRuntimeEventKindV1_as_str WorkflowCompleted = ''workflow_completed''"
| "WorkflowRuntimeEventKindV1_as_str WorkflowAbstained = ''workflow_abstained''"
| "WorkflowRuntimeEventKindV1_as_str WorkflowIncomplete = ''workflow_incomplete''"
| "WorkflowRuntimeEventKindV1_as_str WorkflowFailed = ''workflow_failed''"

datatype WorkflowRuntimeEventErrorKind =
    InvalidMetadata | InvalidPayload | InvalidArtifactReference | UnsupportedSchemaVersion | DuplicateEventId
  | SequenceIntegrity | SequenceOverflow | IntegrityMismatch | ForeignTypeLeakage

record ProtectedArtifactReferenceV1 =
  pr_artifact_id :: string
  pr_sha256 :: string
  pr_byte_len :: u64

record EventIntegrityV1 =
  ei_payload_sha256 :: string

record WorkflowRuntimeEventV1 =
  ev_schema_version :: u16
  ev_event_id :: string
  ev_run_id :: string
  ev_workflow_id :: string
  ev_node_id :: "string option"
  ev_sequence :: u64
  ev_occurred_at :: string
  ev_kind :: WorkflowRuntimeEventKindV1
  ev_payload :: jvalue
  ev_integrity :: EventIntegrityV1

section \<open>Checks\<close>

definition valid_metadata :: "string \<Rightarrow> bool" where
  "valid_metadata value \<longleftrightarrow> value \<noteq> [] \<and> \<not> list_ex is_ascii_control value"

definition ProtectedArtifactReferenceV1_new ::
    "string \<Rightarrow> string \<Rightarrow> u64 \<Rightarrow> WorkflowRuntimeEventErrorKind + ProtectedArtifactReferenceV1" where
  "ProtectedArtifactReferenceV1_new artifact_id' sha256 byte_len =
     (if \<not> valid_metadata artifact_id' \<or> \<not> valid_sha256 sha256 \<or> byte_len = 0 then Inl InvalidArtifactReference
      else Inr \<lparr>pr_artifact_id = artifact_id', pr_sha256 = sha256, pr_byte_len = byte_len\<rparr>)"

definition reference_deserialize ::
    "(jvalue \<Rightarrow> (string \<times> string \<times> u64) option) \<Rightarrow> jvalue \<Rightarrow> ProtectedArtifactReferenceV1 option" where
  "reference_deserialize decode v =
     (case decode v of
        None \<Rightarrow> None
      | Some (artifact_id', sha256, byte_len) \<Rightarrow>
          (case ProtectedArtifactReferenceV1_new artifact_id' sha256 byte_len of Inl _ \<Rightarrow> None | Inr r \<Rightarrow> Some r))"

text \<open>The text of a value that exists can always be written, so \<open>to_vec\<close> does not fail.\<close>

definition digest_json :: "json_env \<Rightarrow> jvalue \<Rightarrow> string" where
  "digest_json env v = ''sha256:'' @ encode_hex (je_sha256 env (str_bytes (emit (je_quote env) (je_number env) v)))"

fun sanitize_payload :: "jvalue \<Rightarrow> jvalue" where
  "sanitize_payload (JObj object) =
     JObj (map (\<lambda>(key, value). (key, if sensitive_key key then JStr REDACTION_MARKER else sanitize_payload value)) object)"
| "sanitize_payload (JArr values) = JArr (map sanitize_payload values)"
| "sanitize_payload v = v"

definition redact_json_value :: "jvalue \<Rightarrow> jvalue" where
  "redact_json_value v = sanitize_payload v"

definition redacted_json_digest :: "json_env \<Rightarrow> jvalue \<Rightarrow> string" where
  "redacted_json_digest env v = digest_json env (redact_json_value v)"

definition foreign_text :: "string \<Rightarrow> bool" where
  "foreign_text s \<longleftrightarrow> list_ex (\<lambda>marker. contains s marker) FOREIGN_TYPE_MARKERS"

lemma res_all_cong [fundef_cong]: "xs = ys \<Longrightarrow> (\<And>x. x \<in> set ys \<Longrightarrow> f x = g x) \<Longrightarrow> res_all f xs = res_all g ys"
  by (induction xs arbitrary: ys) auto

fun validate_value :: "jvalue \<Rightarrow> WorkflowRuntimeEventErrorKind + unit" where
  "validate_value (JStr s) = (if foreign_text s then Inl ForeignTypeLeakage else Inr ())"
| "validate_value (JArr values) = res_all validate_value values"
| "validate_value (JObj object) =
     res_all (\<lambda>(key, value).
       if foreign_text key then Inl ForeignTypeLeakage
       else if sensitive_key key \<and> value \<noteq> JStr REDACTION_MARKER then Inl InvalidPayload
       else validate_value value) object"
| "validate_value _ = Inr ()"

definition validate_persisted_payload ::
    "(jvalue \<Rightarrow> (string \<times> string \<times> u64) option) \<Rightarrow> jvalue \<Rightarrow> WorkflowRuntimeEventErrorKind + unit" where
  "validate_persisted_payload decode v =
     (case v of
        JObj object \<Rightarrow>
          res_bind (res_all (\<lambda>(key, value).
              if sensitive_key key \<and> value \<noteq> JStr REDACTION_MARKER then Inl InvalidPayload
              else validate_value value) object) (\<lambda>_.
            case map_of object ''artifact_reference'' of
              None \<Rightarrow> Inr ()
            | Some reference \<Rightarrow>
                (case reference_deserialize decode reference of None \<Rightarrow> Inl InvalidArtifactReference | Some _ \<Rightarrow> Inr ()))
      | _ \<Rightarrow> Inl InvalidPayload)"

definition event_validate ::
    "json_env \<Rightarrow> (jvalue \<Rightarrow> (string \<times> string \<times> u64) option) \<Rightarrow> WorkflowRuntimeEventV1 \<Rightarrow> WorkflowRuntimeEventErrorKind + unit" where
  "event_validate env decode event =
     (if ev_schema_version event \<noteq> WORKFLOW_RUNTIME_EVENT_SCHEMA_VERSION_V1 then Inl UnsupportedSchemaVersion
      else if \<not> valid_metadata (ev_event_id event) \<or> \<not> valid_metadata (ev_run_id event) \<or> \<not> valid_metadata (ev_workflow_id event)
        \<or> \<not> valid_metadata (ev_occurred_at event)
        \<or> (case ev_node_id event of Some node_id \<Rightarrow> \<not> valid_metadata node_id | None \<Rightarrow> False)
        \<or> ev_sequence event = 0
      then Inl InvalidMetadata
      else res_bind (validate_persisted_payload decode (ev_payload event)) (\<lambda>_.
        if ei_payload_sha256 (ev_integrity event) \<noteq> digest_json env (ev_payload event) then Inl IntegrityMismatch
        else Inr ()))"

text \<open>The fields of a stored event have been decoded; the event they make is validated.\<close>

definition event_from_fields ::
    "json_env \<Rightarrow> (jvalue \<Rightarrow> (string \<times> string \<times> u64) option) \<Rightarrow> WorkflowRuntimeEventV1
       \<Rightarrow> WorkflowRuntimeEventErrorKind + WorkflowRuntimeEventV1" where
  "event_from_fields env decode event = res_bind (event_validate env decode event) (\<lambda>_. Inr event)"

section \<open>The log\<close>

record WorkflowRuntimeEventLogV1 =
  lg_run_id :: string
  lg_workflow_id :: string
  lg_next_sequence :: u64
  lg_event_ids :: "string set"
  lg_events :: "WorkflowRuntimeEventV1 list"

text \<open>\<open>u64::try_from(n).ok().and_then(|v| v.checked_add(1))\<close>\<close>

definition succ_u64 :: "nat \<Rightarrow> u64 option" where
  "succ_u64 n = (if n < 18446744073709551616 then checked_add (word_of_nat n) 1 else None)"

fun resume_events ::
    "json_env \<Rightarrow> (jvalue \<Rightarrow> (string \<times> string \<times> u64) option) \<Rightarrow> string \<Rightarrow> string \<Rightarrow> nat \<Rightarrow> string set
       \<Rightarrow> WorkflowRuntimeEventV1 list \<Rightarrow> WorkflowRuntimeEventErrorKind + string set" where
  "resume_events env decode run_id workflow_id index event_ids [] = Inr event_ids"
| "resume_events env decode run_id workflow_id index event_ids (event # events) =
     res_bind (event_validate env decode event) (\<lambda>_.
       case succ_u64 index of
         None \<Rightarrow> Inl SequenceOverflow
       | Some expected \<Rightarrow>
           if ev_run_id event \<noteq> run_id \<or> ev_workflow_id event \<noteq> workflow_id \<or> ev_sequence event \<noteq> expected
           then Inl SequenceIntegrity
           else if ev_event_id event \<in> event_ids then Inl DuplicateEventId
           else resume_events env decode run_id workflow_id (Suc index) (insert (ev_event_id event) event_ids) events)"

definition log_resume ::
    "json_env \<Rightarrow> (jvalue \<Rightarrow> (string \<times> string \<times> u64) option) \<Rightarrow> string \<Rightarrow> string \<Rightarrow> WorkflowRuntimeEventV1 list
       \<Rightarrow> WorkflowRuntimeEventErrorKind + WorkflowRuntimeEventLogV1" where
  "log_resume env decode run_id workflow_id events =
     (if \<not> valid_metadata run_id \<or> \<not> valid_metadata workflow_id then Inl InvalidMetadata
      else res_bind (resume_events env decode run_id workflow_id 0 {} events) (\<lambda>event_ids.
        case succ_u64 (length events) of
          None \<Rightarrow> Inl SequenceOverflow
        | Some next_sequence \<Rightarrow>
            Inr \<lparr>lg_run_id = run_id, lg_workflow_id = workflow_id, lg_next_sequence = next_sequence,
                 lg_event_ids = event_ids, lg_events = events\<rparr>))"

definition log_new ::
    "json_env \<Rightarrow> (jvalue \<Rightarrow> (string \<times> string \<times> u64) option) \<Rightarrow> string \<Rightarrow> string
       \<Rightarrow> WorkflowRuntimeEventErrorKind + WorkflowRuntimeEventLogV1" where
  "log_new env decode run_id workflow_id = log_resume env decode run_id workflow_id []"

text \<open>What the caller of \<open>append\<close> passes.\<close>

record event_request =
  er_event_id :: string
  er_node_id :: "string option"
  er_occurred_at :: string
  er_kind :: WorkflowRuntimeEventKindV1
  er_payload :: jvalue

definition next_event :: "json_env \<Rightarrow> WorkflowRuntimeEventLogV1 \<Rightarrow> event_request \<Rightarrow> WorkflowRuntimeEventV1" where
  "next_event env log request =
     (let payload = sanitize_payload (er_payload request) in
      \<lparr>ev_schema_version = WORKFLOW_RUNTIME_EVENT_SCHEMA_VERSION_V1,
       ev_event_id = er_event_id request,
       ev_run_id = lg_run_id log,
       ev_workflow_id = lg_workflow_id log,
       ev_node_id = er_node_id request,
       ev_sequence = lg_next_sequence log,
       ev_occurred_at = er_occurred_at request,
       ev_kind = er_kind request,
       ev_payload = payload,
       ev_integrity = \<lparr>ei_payload_sha256 = digest_json env payload\<rparr>\<rparr>)"

definition log_append ::
    "json_env \<Rightarrow> (jvalue \<Rightarrow> (string \<times> string \<times> u64) option) \<Rightarrow> event_request \<Rightarrow> WorkflowRuntimeEventLogV1
       \<Rightarrow> (WorkflowRuntimeEventErrorKind + WorkflowRuntimeEventV1) \<times> WorkflowRuntimeEventLogV1" where
  "log_append env decode request log =
     (if er_event_id request \<in> lg_event_ids log then (Inl DuplicateEventId, log)
      else if lg_next_sequence log = - 1 then (Inl SequenceOverflow, log)
      else
        let event = next_event env log request in
        case event_validate env decode event of
          Inl e \<Rightarrow> (Inl e, log)
        | Inr _ \<Rightarrow>
            (Inr event,
             log\<lparr>lg_next_sequence := lg_next_sequence log + 1,
                 lg_event_ids := insert (er_event_id request) (lg_event_ids log),
                 lg_events := lg_events log @ [event]\<rparr>))"

fun append_all ::
    "json_env \<Rightarrow> (jvalue \<Rightarrow> (string \<times> string \<times> u64) option) \<Rightarrow> event_request list \<Rightarrow> WorkflowRuntimeEventLogV1
       \<Rightarrow> WorkflowRuntimeEventLogV1" where
  "append_all env decode [] log = log"
| "append_all env decode (r # rs) log = append_all env decode rs (snd (log_append env decode r log))"

section \<open>What the sanitiser removes\<close>

text \<open>Nothing but the marker stands under a sensitive key, at any depth.\<close>

fun redacted :: "jvalue \<Rightarrow> bool" where
  "redacted (JObj object) \<longleftrightarrow>
     list_all (\<lambda>(key, value). (sensitive_key key \<longrightarrow> value = JStr REDACTION_MARKER) \<and> redacted value) object"
| "redacted (JArr values) \<longleftrightarrow> list_all redacted values"
| "redacted _ \<longleftrightarrow> True"

text \<open>Two payloads that differ at most in what stands under sensitive keys.\<close>

inductive same_public :: "jvalue \<Rightarrow> jvalue \<Rightarrow> bool" where
  same_refl: "same_public v v"
| same_arr: "list_all2 same_public vs ws \<Longrightarrow> same_public (JArr vs) (JArr ws)"
| same_obj: "list_all2 (\<lambda>m n. fst m = fst n \<and> (sensitive_key (fst m) \<or> same_public (snd m) (snd n))) ms ns
    \<Longrightarrow> same_public (JObj ms) (JObj ns)"
monos list.rel_mono

lemma sanitize_redacted: "redacted (sanitize_payload v)"
proof (induction v rule: sanitize_payload.induct)
  case (1 object)
  have "redacted (snd (case m of (key, value) \<Rightarrow>
      (key, if sensitive_key key then JStr REDACTION_MARKER else sanitize_payload value)))"
    if "m \<in> set object" for m
    using 1 that by (cases m) auto
  then show ?case by (fastforce simp: list_all_iff split: if_splits)
qed (auto simp: list_all_iff)

lemma sanitize_ignores_secrets: "same_public v w \<Longrightarrow> sanitize_payload v = sanitize_payload w"
proof (induction rule: same_public.induct)
  case (same_arr vs ws)
  then show ?case by (simp add: list_all2_conv_all_nth list_eq_iff_nth_eq)
next
  case (same_obj ms ns)
  then show ?case by (induction rule: list_all2_induct) (auto simp: split_beta)
qed simp

lemma redacted_fixed: "redacted v \<Longrightarrow> sanitize_payload v = v"
proof (induction v rule: redacted.induct)
  case (1 object)
  then have "(case m of (key, value) \<Rightarrow> (key, if sensitive_key key then JStr REDACTION_MARKER else sanitize_payload value)) = m"
    if "m \<in> set object" for m
    using that by (cases m) (force simp: list_all_iff)
  then show ?case by (simp add: map_idI)
qed (auto simp: list_all_iff map_idI)

lemma validated_redacted: "validate_value v = Inr () \<Longrightarrow> redacted v"
  by (induction v rule: validate_value.induct) (force simp: res_all_Inr_iff list_all_iff split: if_splits)+

lemma persisted_redacted: "validate_persisted_payload decode v = Inr () \<Longrightarrow> redacted v"
  by (auto simp: validate_persisted_payload_def res_iffs res_all_Inr_iff list_all_iff dest!: bspec validated_redacted
      split: json.splits if_splits)

section \<open>The log is sealed\<close>

lemma event_validate_iff:
  "event_validate env decode event = Inr () \<longleftrightarrow>
     ev_schema_version event = WORKFLOW_RUNTIME_EVENT_SCHEMA_VERSION_V1
     \<and> valid_metadata (ev_event_id event) \<and> valid_metadata (ev_run_id event) \<and> valid_metadata (ev_workflow_id event)
     \<and> valid_metadata (ev_occurred_at event) \<and> pred_option valid_metadata (ev_node_id event) \<and> ev_sequence event \<noteq> 0
     \<and> validate_persisted_payload decode (ev_payload event) = Inr ()
     \<and> ei_payload_sha256 (ev_integrity event) = digest_json env (ev_payload event)"
  by (auto simp: event_validate_def res_iffs split: option.splits if_splits)

text \<open>What \<open>resume\<close> accepts, without the loop: valid events of this run, numbered from one, with distinct names.\<close>

definition sealed :: "json_env \<Rightarrow> (jvalue \<Rightarrow> (string \<times> string \<times> u64) option) \<Rightarrow> string \<Rightarrow> string \<Rightarrow> nat \<Rightarrow> WorkflowRuntimeEventV1 list \<Rightarrow> bool" where
  "sealed env decode run_id workflow_id index events \<longleftrightarrow>
     list_all (\<lambda>event. event_validate env decode event = Inr () \<and> ev_run_id event = run_id \<and> ev_workflow_id event = workflow_id) events
     \<and> map (unat \<circ> ev_sequence) events = [Suc index ..< Suc index + length events]
     \<and> distinct (map ev_event_id events)"

lemma succ_u64_iff: "succ_u64 n = Some w \<longleftrightarrow> unat w = Suc n"
proof -
  have "unat w < 2 ^ LENGTH(64)" by (rule unsigned_less)
  then have "unat w < 18446744073709551616" by simp
  moreover have "unat (word_of_nat n :: u64) = n" if "n < 18446744073709551616"
    using that by (simp add: unat_of_nat)
  ultimately show ?thesis unfolding succ_u64_def by (auto simp: checked_add_eq_Some_iff)
qed

lemma sealed_Cons:
  "sealed env decode r w i (e # es) \<longleftrightarrow>
     event_validate env decode e = Inr () \<and> ev_run_id e = r \<and> ev_workflow_id e = w \<and> succ_u64 i = Some (ev_sequence e)
     \<and> ev_event_id e \<notin> ev_event_id ` set es \<and> sealed env decode r w (Suc i) es"
proof -
  have "[Suc i ..< Suc i + length (e # es)] = Suc i # [Suc (Suc i) ..< Suc (Suc i) + length es]"
    by (simp add: upt_conv_Cons del: upt_Suc)
  then show ?thesis by (auto simp: sealed_def succ_u64_iff simp del: upt_Suc)
qed

lemma resume_events_iff:
  "resume_events env decode r w i ids events = Inr ids' \<longleftrightarrow>
     sealed env decode r w i events \<and> ids \<inter> ev_event_id ` set events = {} \<and> ids' = ids \<union> ev_event_id ` set events"
proof (induction events arbitrary: i ids)
  case (Cons e es)
  have unit: "event_validate env decode e = Inr u \<longleftrightarrow> event_validate env decode e = Inr ()" for u by simp
  show ?case
    by (auto simp: res_iffs Cons.IH sealed_Cons split: option.splits if_splits)
qed (auto simp: sealed_def)

lemma log_resume_iff:
  "log_resume env decode r w events = Inr log \<longleftrightarrow>
     valid_metadata r \<and> valid_metadata w \<and> sealed env decode r w 0 events
     \<and> succ_u64 (length events) = Some (lg_next_sequence log)
     \<and> lg_run_id log = r \<and> lg_workflow_id log = w \<and> lg_event_ids log = ev_event_id ` set events \<and> lg_events log = events"
  by (cases log) (auto simp: log_resume_def res_iffs resume_events_iff split: option.splits)

text \<open>The invariant of a log: resuming from its own events gives it back.\<close>

definition log_ok :: "json_env \<Rightarrow> (jvalue \<Rightarrow> (string \<times> string \<times> u64) option) \<Rightarrow> WorkflowRuntimeEventLogV1 \<Rightarrow> bool" where
  "log_ok env decode log \<longleftrightarrow> log_resume env decode (lg_run_id log) (lg_workflow_id log) (lg_events log) = Inr log"

lemma resumed_ok: "log_resume env decode r w events = Inr log \<Longrightarrow> log_ok env decode log"
  by (simp add: log_ok_def log_resume_iff)

lemma sealed_snoc:
  "sealed env decode r w i (es @ [e]) \<longleftrightarrow>
     sealed env decode r w i es \<and> event_validate env decode e = Inr () \<and> ev_run_id e = r \<and> ev_workflow_id e = w
     \<and> unat (ev_sequence e) = Suc i + length es \<and> ev_event_id e \<notin> ev_event_id ` set es"
  by (auto simp: sealed_def)

lemma append_Inr:
  assumes ok: "log_ok env decode log" and app: "log_append env decode request log = (Inr event, log')"
  shows "log_ok env decode log'" "lg_events log' = lg_events log @ [event]" "lg_run_id log' = lg_run_id log"
    "lg_workflow_id log' = lg_workflow_id log" "unat (ev_sequence event) = Suc (length (lg_events log))"
    "event = next_event env log request"
proof -
  have new: "er_event_id request \<notin> lg_event_ids log" "lg_next_sequence log \<noteq> - 1"
    and ev: "event = next_event env log request" and valid: "event_validate env decode event = Inr ()"
    and log': "log' = log\<lparr>lg_next_sequence := lg_next_sequence log + 1,
      lg_event_ids := insert (er_event_id request) (lg_event_ids log), lg_events := lg_events log @ [event]\<rparr>"
    using app by (auto simp: log_append_def Let_def split: if_splits sum.splits)
  then show "lg_events log' = lg_events log @ [event]" "lg_run_id log' = lg_run_id log"
    "lg_workflow_id log' = lg_workflow_id log" "event = next_event env log request"
    by simp_all
  note l = ok [unfolded log_ok_def log_resume_iff]
  have e: "ev_run_id event = lg_run_id log" "ev_workflow_id event = lg_workflow_id log"
    "ev_sequence event = lg_next_sequence log" "ev_event_id event = er_event_id request"
    by (simp_all add: ev next_event_def Let_def)
  then show "unat (ev_sequence event) = Suc (length (lg_events log))" using l by (simp add: succ_u64_iff)
  have "unat (lg_next_sequence log + 1) = Suc (unat (lg_next_sequence log))"
    using new(2) unatSuc [of "lg_next_sequence log"] by (simp add: add.commute eq_neg_iff_add_eq_0)
  moreover have "sealed env decode (lg_run_id log) (lg_workflow_id log) 0 (lg_events log @ [event])"
    unfolding sealed_snoc using l e valid new(1) by (simp add: succ_u64_iff)
  ultimately show "log_ok env decode log'"
    unfolding log_ok_def log_resume_iff using l e log' by (auto simp: succ_u64_iff)
qed

lemma append_Inl: "log_append env decode request log = (Inl e, log') \<Longrightarrow> log' = log"
  by (auto simp: log_append_def Let_def split: if_splits sum.splits)

lemma append_all_history:
  assumes "log_ok env decode log"
  shows "log_ok env decode (append_all env decode rs log) \<and> lg_run_id (append_all env decode rs log) = lg_run_id log
    \<and> lg_workflow_id (append_all env decode rs log) = lg_workflow_id log
    \<and> (\<exists>added. lg_events (append_all env decode rs log) = lg_events log @ added \<and> list_all (\<lambda>e. redacted (ev_payload e)) added)"
  using assms
proof (induction rs arbitrary: log)
  case (Cons r rs)
  obtain res log' where app: "log_append env decode r log = (res, log')" by fastforce
  show ?case
  proof (cases res)
    case (Inl e)
    then have "log' = log" using append_Inl app by simp
    then show ?thesis using Cons app by simp
  next
    case (Inr event)
    note step = append_Inr [OF Cons.prems app [unfolded Inr]]
    have "redacted (ev_payload event)" by (simp add: step(6) next_event_def Let_def sanitize_redacted)
    then show ?thesis using Cons.IH [OF step(1)] app step by auto
  qed
qed simp

lemma append_same_public:
  assumes "same_public p q"
  shows "log_append env decode (request\<lparr>er_payload := p\<rparr>) log = log_append env decode (request\<lparr>er_payload := q\<rparr>) log"
proof -
  have "next_event env log (request\<lparr>er_payload := p\<rparr>) = next_event env log (request\<lparr>er_payload := q\<rparr>)"
    using sanitize_ignores_secrets [OF assms] by (simp add: next_event_def)
  then show ?thesis by (simp add: log_append_def Let_def split: sum.split)
qed

section \<open>Properties\<close>

definition event_env :: json_env where
  "event_env = \<lparr>je_sha256 = (\<lambda>bs. [word_of_nat (length bs)]), je_quote = (\<lambda>s. CHR 0x22 # s @ [CHR 0x22]), je_number = int_decimal\<rparr>"

definition no_reference :: "jvalue \<Rightarrow> (string \<times> string \<times> u64) option" where
  "no_reference v = None"

definition fresh_log :: WorkflowRuntimeEventLogV1 where
  "fresh_log = \<lparr>lg_run_id = ''r'', lg_workflow_id = ''w'', lg_next_sequence = 1, lg_event_ids = {}, lg_events = []\<rparr>"

definition secret_request :: "string \<Rightarrow> event_request" where
  "secret_request secret = \<lparr>er_event_id = ''e1'', er_node_id = None, er_occurred_at = ''t'', er_kind = WorkflowStarted,
     er_payload = JObj [(''api_key'', JStr secret)]\<rparr>"

lemma fresh_log_resumed: "log_resume event_env no_reference ''r'' ''w'' [] = Inr fresh_log"
proof -
  have "valid_metadata ''r''" "valid_metadata ''w''" by code_simp+
  then show ?thesis by (simp add: log_resume_iff sealed_def succ_u64_iff fresh_log_def)
qed

text \<open>
  C29: the event log is append-only and resumable.  From any log that was accepted, every sequence of
  appends, refused ones included, leaves the earlier events in place and unchanged; the log that results
  is exactly what resuming from its events gives back (so its events are valid, of this run and workflow,
  numbered one, two, three and so on, and have distinct names); and nothing but the redaction marker
  stands under a sensitive key of an appended payload, at any depth.
\<close>

theorem event_log_sealed:
  assumes "log_resume env decode run_id workflow_id events = Inr log"
  shows "let log' = append_all env decode requests log in
      log_resume env decode run_id workflow_id (lg_events log') = Inr log'
      \<and> (\<exists>added. lg_events log' = events @ added \<and> list_all (\<lambda>e. redacted (ev_payload e)) added)"
proof -
  have "lg_run_id log = run_id" "lg_workflow_id log = workflow_id" "lg_events log = events"
    using assms by (simp_all add: log_resume_iff)
  then show ?thesis
    using append_all_history [OF resumed_ok [OF assms], of requests] by (auto simp: Let_def log_ok_def)
qed

theorem event_log_sealed_witness:
  "let log' = append_all event_env no_reference [secret_request ''k''] fresh_log in
      log_resume event_env no_reference ''r'' ''w'' (lg_events log') = Inr log'
      \<and> (\<exists>added. lg_events log' = [] @ added \<and> list_all (\<lambda>e. redacted (ev_payload e)) added)"
  by (rule event_log_sealed [OF fresh_log_resumed])

text \<open>
  C30: secrets do not reach the event log.  Two payloads that differ at most in what stands under
  sensitive keys give the same result and the same log: the same event, the same digest and the same
  error.  Whoever reads the log, the digests or the errors learns nothing of what was under such a key.
\<close>

theorem event_log_ignores_secrets:
  assumes "same_public p q"
  shows "log_append env decode (request\<lparr>er_payload := p\<rparr>) log = log_append env decode (request\<lparr>er_payload := q\<rparr>) log"
  using assms by (rule append_same_public)

theorem event_log_ignores_secrets_witness:
  "log_append event_env no_reference (secret_request ''k'') fresh_log = log_append event_env no_reference (secret_request ''other'') fresh_log"
proof -
  have "sensitive_key ''api_key''" by code_simp
  then have "same_public (JObj [(''api_key'', JStr ''k'')]) (JObj [(''api_key'', JStr ''other'')])"
    by (auto intro: same_obj)
  from event_log_ignores_secrets [OF this, of event_env no_reference "secret_request ''k''" fresh_log]
  show ?thesis by (simp add: secret_request_def)
qed

text \<open>The names of nested members are checked for foreign type names; those of the top level are not.\<close>

lemma top_level_names_unchecked:
  "validate_persisted_payload no_reference (JObj [(''adk_rust::X'', JNull)]) = Inr ()"
  "validate_persisted_payload no_reference (JObj [(''a'', JObj [(''adk_rust::X'', JNull)])]) = Inl ForeignTypeLeakage"
  by code_simp+

end
