(* ===== verification/Checkpoint_Store.thy ===== *)
theory Checkpoint_Store
  imports Event_Log Run_Control
begin

text \<open>
  Durable checkpoints (\<open>workflow-runtime/src/checkpoint.rs\<close>): the compatibility manifest, bounded
  checkpoints without secrets, and the run-scoped SQLite store.

  The directory of a store and the two tables of its database are explicit state.  A failing system call
  or SQL statement is an argument of the call; a failed transaction changes nothing.  The JSON codecs of
  \<open>serde_json\<close> are the parameter \<open>env\<close>.  File contents are modelled for regular files only, which is all
  that the store reads.
\<close>

section \<open>Checkpoints\<close>

datatype CheckpointErrorKind =
    EmptyState | Unavailable | ManifestMismatch | CkCorrupt | UnknownVersion | RunMismatch | InsecurePath

definition CHECKPOINT_SCHEMA_VERSION :: u16 where
  "CHECKPOINT_SCHEMA_VERSION = 1"

definition CHECKPOINT_MAX_STATE_BYTES :: nat where
  "CHECKPOINT_MAX_STATE_BYTES = 1024 * 1024"

record Checkpoint =
  ck_run_id :: string
  ck_state :: "byte list"

definition Checkpoint_new :: "string \<Rightarrow> byte list \<Rightarrow> CheckpointErrorKind + Checkpoint" where
  "Checkpoint_new run_id st = (if st = [] then Inl EmptyState else Inr \<lparr>ck_run_id = run_id, ck_state = st\<rparr>)"

text \<open>A \<open>BTreeMap\<close> of strings: its members in order.\<close>

fun btree_map_insert :: "string \<Rightarrow> string \<Rightarrow> (string \<times> string) list \<Rightarrow> (string \<times> string) list" where
  "btree_map_insert k v [] = [(k, v)]"
| "btree_map_insert k v (m # ms) =
     (if fst m = k then (k, v) # ms else if k < fst m then (k, v) # m # ms else m # btree_map_insert k v ms)"

record CheckpointCompatibilityManifestV1 =
  mf_schema_version :: u16
  mf_run_id :: string
  mf_workflow_id :: string
  mf_workflow_version :: string
  mf_workflow_hash :: string
  mf_resource_hashes :: "(string \<times> string) list"
  mf_implementation_identities :: "(string \<times> string) list"
  mf_sandbox_policy_hash :: string
  mf_event_log_identity :: string

definition manifest_new :: "string \<Rightarrow> string \<Rightarrow> string \<Rightarrow> CheckpointCompatibilityManifestV1" where
  "manifest_new run_id workflow_id workflow_version =
     \<lparr>mf_schema_version = CHECKPOINT_SCHEMA_VERSION, mf_run_id = run_id, mf_workflow_id = workflow_id,
      mf_workflow_version = workflow_version, mf_workflow_hash = [], mf_resource_hashes = [],
      mf_implementation_identities = [], mf_sandbox_policy_hash = [], mf_event_log_identity = []\<rparr>"

definition with_resource_hash ::
    "string \<Rightarrow> string \<Rightarrow> CheckpointCompatibilityManifestV1 \<Rightarrow> CheckpointCompatibilityManifestV1" where
  "with_resource_hash resource hash m = m\<lparr>mf_resource_hashes := btree_map_insert resource hash (mf_resource_hashes m)\<rparr>"

definition with_implementation ::
    "string \<Rightarrow> string \<Rightarrow> CheckpointCompatibilityManifestV1 \<Rightarrow> CheckpointCompatibilityManifestV1" where
  "with_implementation name identity m =
     m\<lparr>mf_implementation_identities := btree_map_insert name identity (mf_implementation_identities m)\<rparr>"

definition manifest_implementation :: "CheckpointCompatibilityManifestV1 \<Rightarrow> string \<Rightarrow> string option" where
  "manifest_implementation m name = map_of (mf_implementation_identities m) name"

record DurableCheckpointV1 =
  dc_run_id :: string
  dc_node_id :: string
  dc_event_sequence :: u64
  dc_state :: "byte list"
  dc_artifact_refs :: "string list"

fun contains_redaction_marker :: "jvalue \<Rightarrow> bool" where
  "contains_redaction_marker (JObj object) \<longleftrightarrow>
     list_ex (\<lambda>(key, value). key = REDACTION_MARKER \<or> contains_redaction_marker value) object"
| "contains_redaction_marker (JArr values) \<longleftrightarrow> list_ex contains_redaction_marker values"
| "contains_redaction_marker (JStr s) \<longleftrightarrow> s = REDACTION_MARKER"
| "contains_redaction_marker _ \<longleftrightarrow> False"

text \<open>The codecs; \<open>None\<close> is an \<open>Err\<close>.\<close>

record checkpoint_env =
  ke_value_from_slice :: "byte list \<Rightarrow> jvalue option"
  ke_manifest_to_vec :: "CheckpointCompatibilityManifestV1 \<Rightarrow> byte list option"
  ke_manifest_from_slice :: "byte list \<Rightarrow> CheckpointCompatibilityManifestV1 option"
  ke_refs_to_string :: "string list \<Rightarrow> string option"
  ke_refs_from_str :: "string \<Rightarrow> string list option"

definition DurableCheckpointV1_new ::
    "checkpoint_env \<Rightarrow> string \<Rightarrow> string \<Rightarrow> u64 \<Rightarrow> byte list \<Rightarrow> string list \<Rightarrow> CheckpointErrorKind + DurableCheckpointV1" where
  "DurableCheckpointV1_new env run_id node_id event_sequence st artifact_refs =
     (if (case ke_value_from_slice env st of
            Some v \<Rightarrow> contains_sensitive_key v \<or> contains_redaction_marker v
          | None \<Rightarrow> False) then Inl Unavailable
      else if st = [] then Inl EmptyState
      else if length st > CHECKPOINT_MAX_STATE_BYTES then Inl Unavailable
      else Inr \<lparr>dc_run_id = run_id, dc_node_id = node_id, dc_event_sequence = event_sequence, dc_state = st,
                dc_artifact_refs = artifact_refs\<rparr>)"

section \<open>The store\<close>

datatype FileKind = RegularFile | SymlinkFile | SpecialFile

record CheckpointRow =
  rw_run_id :: string
  rw_node_id :: string
  rw_event_sequence :: int
  rw_state :: "byte list"
  rw_artifact_refs_json :: string

record CheckpointDb =
  db_meta :: "(int \<times> byte list) option"
  db_rows :: "CheckpointRow list"

record CheckpointDir =
  cd_parent_is_dir :: bool
  cd_kinds :: "string \<rightharpoonup> FileKind"
  cd_manifest :: "byte list"
  cd_db :: "CheckpointDb option"

datatype SqliteFailure = BrokenDatabase | OtherFailure

fun map_sqlite_error :: "SqliteFailure \<Rightarrow> CheckpointErrorKind" where
  "map_sqlite_error BrokenDatabase = CkCorrupt"
| "map_sqlite_error OtherFailure = Unavailable"

text \<open>What fails during one call: the n-th SQL statement, and each kind of file operation; and whether SQLite
  leaves the files of its write-ahead log beside the database.\<close>

record CheckpointIo =
  ci_sql :: "nat \<Rightarrow> SqliteFailure option"
  ci_has_parent :: bool
  ci_read_fails :: bool
  ci_create_fails :: bool
  ci_write_fails :: bool
  ci_rename_fails :: bool
  ci_sync_fails :: bool
  ci_unlink_fails :: bool
  ci_sidecars :: bool

definition sql :: "CheckpointIo \<Rightarrow> nat \<Rightarrow> CheckpointErrorKind + unit" where
  "sql io n = (case ci_sql io n of None \<Rightarrow> Inr () | Some e \<Rightarrow> Inl (map_sqlite_error e))"

record SqliteCheckpointStore =
  sc_manifest :: CheckpointCompatibilityManifestV1
  sc_read_only :: bool
  sc_fail_saves :: bool

definition secure_existing_file :: "string \<Rightarrow> CheckpointDir \<Rightarrow> CheckpointErrorKind + unit" where
  "secure_existing_file name dir =
     (case cd_kinds dir name of None \<Rightarrow> Inr () | Some RegularFile \<Rightarrow> Inr () | _ \<Rightarrow> Inl InsecurePath)"

definition CHECKPOINT_MANIFEST_FILE :: string where
  "CHECKPOINT_MANIFEST_FILE = ''checkpoint-manifest.json''"

definition secure_parent :: "CheckpointIo \<Rightarrow> string \<Rightarrow> CheckpointDir \<Rightarrow> CheckpointErrorKind + unit" where
  "secure_parent io name dir =
     (if \<not> ci_has_parent io \<or> \<not> cd_parent_is_dir dir then Inl InsecurePath else secure_existing_file name dir)"

definition validate_manifest ::
    "checkpoint_env \<Rightarrow> byte list \<Rightarrow> CheckpointCompatibilityManifestV1 \<Rightarrow> CheckpointErrorKind + unit" where
  "validate_manifest env bytes expected =
     (case ke_manifest_from_slice env bytes of
        None \<Rightarrow> Inl CkCorrupt
      | Some persisted \<Rightarrow>
          if mf_schema_version persisted \<noteq> CHECKPOINT_SCHEMA_VERSION then Inl UnknownVersion
          else if persisted \<noteq> expected then Inl ManifestMismatch
          else Inr ())"

definition MANIFEST_TEMPORARY :: string where
  "MANIFEST_TEMPORARY = ''checkpoint-manifest.json.tmp''"

text \<open>
  The manifest is written to a temporary file and renamed.  When the directory cannot be synced after the
  rename, the call fails but the renamed file stays.
\<close>

definition write_manifest ::
    "checkpoint_env \<Rightarrow> CheckpointIo \<Rightarrow> CheckpointCompatibilityManifestV1 \<Rightarrow> CheckpointDir
       \<Rightarrow> (CheckpointErrorKind + unit) \<times> CheckpointDir" where
  "write_manifest env io manifest dir =
     (case ke_manifest_to_vec env manifest of
        None \<Rightarrow> (Inl Unavailable, dir)
      | Some bytes \<Rightarrow>
          if ci_create_fails io \<or> cd_kinds dir MANIFEST_TEMPORARY \<noteq> None then (Inl Unavailable, dir)
          else if ci_write_fails io \<or> ci_rename_fails io then
            (Inl Unavailable, if ci_unlink_fails io then dir\<lparr>cd_kinds := (cd_kinds dir)(MANIFEST_TEMPORARY \<mapsto> RegularFile)\<rparr> else dir)
          else
            let dir = dir\<lparr>cd_kinds := (cd_kinds dir)(CHECKPOINT_MANIFEST_FILE \<mapsto> RegularFile), cd_manifest := bytes\<rparr> in
            (if ci_sync_fails io then Inl Unavailable else Inr (), dir))"

definition empty_db :: CheckpointDb where
  "empty_db = \<lparr>db_meta = None, db_rows = []\<rparr>"

text \<open>The manifest on disk: checked when it exists, written when it does not.\<close>

definition open_manifest ::
    "checkpoint_env \<Rightarrow> CheckpointIo \<Rightarrow> CheckpointCompatibilityManifestV1 \<Rightarrow> CheckpointDir
       \<Rightarrow> (CheckpointErrorKind + unit) \<times> CheckpointDir" where
  "open_manifest env io manifest dir =
     (if cd_kinds dir CHECKPOINT_MANIFEST_FILE \<noteq> None then
        (if ci_read_fails io then Inl CkCorrupt else validate_manifest env (cd_manifest dir) manifest, dir)
      else write_manifest env io manifest dir)"

text \<open>The metadata row: checked when it exists, inserted when it does not.\<close>

definition open_meta ::
    "checkpoint_env \<Rightarrow> CheckpointIo \<Rightarrow> CheckpointCompatibilityManifestV1 \<Rightarrow> CheckpointDb
       \<Rightarrow> (CheckpointErrorKind + unit) \<times> CheckpointDb" where
  "open_meta env io manifest db =
     (case db_meta db of
        Some (version, json) \<Rightarrow>
          (if version \<noteq> uint CHECKPOINT_SCHEMA_VERSION then Inl UnknownVersion
           else case ke_manifest_from_slice env json of
             None \<Rightarrow> Inl CkCorrupt
           | Some persisted \<Rightarrow> if persisted \<noteq> manifest then Inl ManifestMismatch else Inr (), db)
      | None \<Rightarrow>
          (case ke_manifest_to_vec env manifest of
             None \<Rightarrow> (Inl Unavailable, db)
           | Some json \<Rightarrow>
               (case sql io 3 of
                  Inl e \<Rightarrow> (Inl e, db)
                | Inr _ \<Rightarrow> (Inr (), db\<lparr>db_meta := Some (uint CHECKPOINT_SCHEMA_VERSION, json)\<rparr>))))"

text \<open>\<open>PRAGMA journal_mode = WAL\<close>: the log and its index, created where they are missing.\<close>

definition add_file :: "string \<Rightarrow> CheckpointDir \<Rightarrow> CheckpointDir" where
  "add_file name dir = (if cd_kinds dir name = None then dir\<lparr>cd_kinds := (cd_kinds dir)(name \<mapsto> RegularFile)\<rparr> else dir)"

definition add_sidecars :: "CheckpointIo \<Rightarrow> string \<Rightarrow> CheckpointDir \<Rightarrow> CheckpointDir" where
  "add_sidecars io name dir =
     (if ci_sidecars io then add_file (name @ ''-shm'') (add_file (name @ ''-wal'') dir) else dir)"

definition open_store ::
    "checkpoint_env \<Rightarrow> CheckpointIo \<Rightarrow> string \<Rightarrow> CheckpointCompatibilityManifestV1 \<Rightarrow> CheckpointDir
       \<Rightarrow> (CheckpointErrorKind + SqliteCheckpointStore) \<times> CheckpointDir" where
  "open_store env io name manifest dir =
     (if mf_schema_version manifest \<noteq> CHECKPOINT_SCHEMA_VERSION then (Inl UnknownVersion, dir)
      else case res_bind (secure_parent io name dir) (\<lambda>_. secure_existing_file CHECKPOINT_MANIFEST_FILE dir) of
        Inl e \<Rightarrow> (Inl e, dir)
      | Inr _ \<Rightarrow>
          (case open_manifest env io manifest dir of
             (Inl e, dir) \<Rightarrow> (Inl e, dir)
           | (Inr _, dir) \<Rightarrow>
               let created_database = (cd_kinds dir name = None) in
               (case sql io 0 of
                  Inl e \<Rightarrow> (Inl e, dir)
                | Inr _ \<Rightarrow>
                    let dir = add_sidecars io name (dir\<lparr>cd_kinds := (cd_kinds dir)(name \<mapsto> RegularFile)\<rparr>) in
                    (case sql io 1 of
                       Inl e \<Rightarrow> (Inl e, dir)
                     | Inr _ \<Rightarrow>
                         let db = (case cd_db dir of None \<Rightarrow> empty_db | Some db \<Rightarrow> db);
                             dir = dir\<lparr>cd_db := Some db\<rparr> in
                         (case sql io 2 of
                            Inl e \<Rightarrow> (Inl e, dir)
                          | Inr _ \<Rightarrow>
                              (case open_meta env io manifest db of
                                 (Inl e, db) \<Rightarrow> (Inl e, dir\<lparr>cd_db := Some db\<rparr>)
                               | (Inr _, db) \<Rightarrow>
                                   (if created_database \<and> ci_sync_fails io then Inl Unavailable
                                    else Inr \<lparr>sc_manifest = manifest, sc_read_only = False, sc_fail_saves = False\<rparr>,
                                    dir\<lparr>cd_db := Some db\<rparr>)))))))"

definition failing_saves ::
    "checkpoint_env \<Rightarrow> CheckpointIo \<Rightarrow> string \<Rightarrow> CheckpointCompatibilityManifestV1 \<Rightarrow> CheckpointDir
       \<Rightarrow> (CheckpointErrorKind + SqliteCheckpointStore) \<times> CheckpointDir" where
  "failing_saves env io name manifest dir =
     (case open_store env io name manifest dir of
        (Inl e, dir) \<Rightarrow> (Inl e, dir)
      | (Inr store, dir) \<Rightarrow> (Inr (store\<lparr>sc_fail_saves := True\<rparr>), dir))"

definition open_read_only ::
    "checkpoint_env \<Rightarrow> CheckpointIo \<Rightarrow> string \<Rightarrow> CheckpointCompatibilityManifestV1 \<Rightarrow> CheckpointDir
       \<Rightarrow> CheckpointErrorKind + SqliteCheckpointStore" where
  "open_read_only env io name manifest dir =
     (if mf_schema_version manifest \<noteq> CHECKPOINT_SCHEMA_VERSION then Inl UnknownVersion
      else
        res_bind (secure_parent io name dir) (\<lambda>_.
        res_bind (secure_existing_file (name @ ''-wal'') dir) (\<lambda>_.
        res_bind (secure_existing_file (name @ ''-shm'') dir) (\<lambda>_.
        res_bind (secure_existing_file CHECKPOINT_MANIFEST_FILE dir) (\<lambda>_.
        res_bind (if ci_read_fails io \<or> cd_kinds dir CHECKPOINT_MANIFEST_FILE = None then Inl Unavailable else Inr (cd_manifest dir)) (\<lambda>bytes.
        res_bind (validate_manifest env bytes manifest) (\<lambda>_.
        res_bind (if cd_kinds dir name = None then Inl Unavailable else sql io 0) (\<lambda>_.
        res_bind (sql io 1) (\<lambda>_.
          case cd_db dir of
            None \<Rightarrow> Inl Unavailable
          | Some db \<Rightarrow>
              (case db_meta db of
                 None \<Rightarrow> Inl Unavailable
               | Some (version, encoded) \<Rightarrow>
                   if version \<noteq> uint CHECKPOINT_SCHEMA_VERSION then Inl UnknownVersion
                   else
                     res_bind (validate_manifest env encoded manifest) (\<lambda>_.
                     res_bind (sql io 2) (\<lambda>_.
                       Inr \<lparr>sc_manifest = manifest, sc_read_only = True, sc_fail_saves = False\<rparr>))))))))))))"

definition upsert :: "CheckpointRow \<Rightarrow> CheckpointRow list \<Rightarrow> CheckpointRow list" where
  "upsert row rows =
     (if list_ex (\<lambda>r. rw_run_id r = rw_run_id row) rows
      then map (\<lambda>r. if rw_run_id r = rw_run_id row then row else r) rows
      else rows @ [row])"

text \<open>Statement 0 begins the transaction, 1 is the upsert (refused on a read-only connection), 2 commits.\<close>

definition save_checkpoint ::
    "checkpoint_env \<Rightarrow> CheckpointIo \<Rightarrow> SqliteCheckpointStore \<Rightarrow> DurableCheckpointV1 \<Rightarrow> CheckpointDb
       \<Rightarrow> (CheckpointErrorKind + unit) \<times> CheckpointDb" where
  "save_checkpoint env io store checkpoint db =
     (if sc_fail_saves store then (Inl Unavailable, db)
      else case RunId_new (mf_run_id (sc_manifest store)) of
        Inl _ \<Rightarrow> (Inl CkCorrupt, db)
      | Inr own \<Rightarrow>
          if dc_run_id checkpoint \<noteq> own then (Inl RunMismatch, db)
          else case ke_refs_to_string env (dc_artifact_refs checkpoint) of
            None \<Rightarrow> (Inl Unavailable, db)
          | Some refs \<Rightarrow>
              if uint (dc_event_sequence checkpoint) \<ge> 9223372036854775808 then (Inl Unavailable, db)
              else case res_bind (sql io 0) (\<lambda>_. res_bind (if sc_read_only store then Inl Unavailable else sql io 1) (\<lambda>_. sql io 2)) of
                Inl e \<Rightarrow> (Inl e, db)
              | Inr _ \<Rightarrow>
                  (Inr (), db\<lparr>db_rows := upsert
                     \<lparr>rw_run_id = dc_run_id checkpoint, rw_node_id = dc_node_id checkpoint,
                      rw_event_sequence = uint (dc_event_sequence checkpoint), rw_state = dc_state checkpoint,
                      rw_artifact_refs_json = refs\<rparr> (db_rows db)\<rparr>))"

definition load_latest ::
    "checkpoint_env \<Rightarrow> CheckpointIo \<Rightarrow> string \<Rightarrow> CheckpointDb \<Rightarrow> CheckpointErrorKind + DurableCheckpointV1 option" where
  "load_latest env io run_id db =
     res_bind (sql io 0) (\<lambda>_.
       case find (\<lambda>r. rw_run_id r = run_id) (db_rows db) of
         None \<Rightarrow> Inr None
       | Some row \<Rightarrow>
           (case RunId_new (rw_run_id row) of
              Inl _ \<Rightarrow> Inl CkCorrupt
            | Inr stored_run_id \<Rightarrow>
                if stored_run_id \<noteq> run_id \<or> rw_event_sequence row < 0 then Inl CkCorrupt
                else case ke_refs_from_str env (rw_artifact_refs_json row) of
                  None \<Rightarrow> Inl CkCorrupt
                | Some refs \<Rightarrow>
                    (case DurableCheckpointV1_new env stored_run_id (rw_node_id row) (word_of_int (rw_event_sequence row)) (rw_state row) refs of
                       Inl _ \<Rightarrow> Inl CkCorrupt
                     | Inr checkpoint \<Rightarrow> Inr (Some checkpoint))))"

definition backend_load ::
    "checkpoint_env \<Rightarrow> CheckpointIo \<Rightarrow> string \<Rightarrow> CheckpointDb \<Rightarrow> CheckpointErrorKind + Checkpoint option" where
  "backend_load env io run_id db =
     res_bind (load_latest env io run_id db) (\<lambda>found.
       case found of
         None \<Rightarrow> Inr None
       | Some checkpoint \<Rightarrow> res_bind (Checkpoint_new (dc_run_id checkpoint) (dc_state checkpoint)) (\<lambda>c. Inr (Some c)))"

definition backend_save ::
    "checkpoint_env \<Rightarrow> CheckpointIo \<Rightarrow> SqliteCheckpointStore \<Rightarrow> Checkpoint \<Rightarrow> CheckpointDb
       \<Rightarrow> (CheckpointErrorKind + unit) \<times> CheckpointDb" where
  "backend_save env io store checkpoint db =
     (case DurableCheckpointV1_new env (ck_run_id checkpoint) ''checkpoint'' 0 (ck_state checkpoint) [] of
        Inl e \<Rightarrow> (Inl e, db)
      | Inr durable \<Rightarrow> save_checkpoint env io store durable db)"

end
