(* ===== verification/Checkpoint_Correct.thy ===== *)
theory Checkpoint_Correct
  imports Checkpoint_Store
begin

text \<open>
  What the checkpoint store promises: a saved checkpoint is the one that is loaded, nothing is ever
  loaded that could not have been saved, and a store opens only for the manifest it was created with.
\<close>

section \<open>Rows\<close>

lemma new_Inr_iff:
  "DurableCheckpointV1_new env run_id node_id event_sequence st refs = Inr c \<longleftrightarrow>
     c = \<lparr>dc_run_id = run_id, dc_node_id = node_id, dc_event_sequence = event_sequence, dc_state = st, dc_artifact_refs = refs\<rparr>
     \<and> st \<noteq> [] \<and> length st \<le> CHECKPOINT_MAX_STATE_BYTES
     \<and> pred_option (\<lambda>v. \<not> contains_sensitive_key v \<and> \<not> contains_redaction_marker v) (ke_value_from_slice env st)"
  by (auto simp: DurableCheckpointV1_new_def split: option.splits)

text \<open>What every checkpoint satisfies, however it was made.\<close>

definition checkpoint_ok :: "checkpoint_env \<Rightarrow> DurableCheckpointV1 \<Rightarrow> bool" where
  "checkpoint_ok env c \<longleftrightarrow>
     DurableCheckpointV1_new env (dc_run_id c) (dc_node_id c) (dc_event_sequence c) (dc_state c) (dc_artifact_refs c) = Inr c"

lemma find_upsert:
  "find (\<lambda>r. rw_run_id r = run) (upsert row rows) =
     (if run = rw_run_id row then Some row else find (\<lambda>r. rw_run_id r = run) rows)"
proof -
  have "find (\<lambda>r. rw_run_id r = run) (map (\<lambda>r. if rw_run_id r = rw_run_id row then row else r) rows) =
      (if run = rw_run_id row then if list_ex (\<lambda>r. rw_run_id r = rw_run_id row) rows then Some row else None
       else find (\<lambda>r. rw_run_id r = run) rows)"
    by (induction rows) auto
  moreover have "find (\<lambda>r. rw_run_id r = run) (rows @ [row]) =
      (if run = rw_run_id row then Some row else find (\<lambda>r. rw_run_id r = run) rows)"
    if "\<not> list_ex (\<lambda>r. rw_run_id r = rw_run_id row) rows"
    using that by (induction rows) auto
  ultimately show ?thesis by (cases "run = rw_run_id row") (simp_all add: upsert_def)
qed

lemma save_Inr:
  assumes "save_checkpoint env io store c db = (Inr u, db')"
  obtains refs where "ke_refs_to_string env (dc_artifact_refs c) = Some refs" "dc_run_id c = mf_run_id (sc_manifest store)"
    "dc_run_id c \<noteq> []" "uint (dc_event_sequence c) < 9223372036854775808" "\<not> sc_read_only store" "\<not> sc_fail_saves store"
    "db' = db\<lparr>db_rows := upsert \<lparr>rw_run_id = dc_run_id c, rw_node_id = dc_node_id c,
       rw_event_sequence = uint (dc_event_sequence c), rw_state = dc_state c, rw_artifact_refs_json = refs\<rparr> (db_rows db)\<rparr>"
  using assms by (auto simp: save_checkpoint_def RunId_new_def res_iffs split: if_splits option.splits sum.splits)

lemma save_Inl: "save_checkpoint env io store c db = (Inl e, db') \<Longrightarrow> db' = db"
  by (auto simp: save_checkpoint_def split: if_splits option.splits sum.splits)

lemma save_load:
  assumes ok: "checkpoint_ok env c" and save: "save_checkpoint env io store c db = (Inr u, db')"
    and json: "\<And>s. ke_refs_to_string env (dc_artifact_refs c) = Some s \<Longrightarrow> ke_refs_from_str env s = Some (dc_artifact_refs c)"
    and io: "ci_sql io' 0 = None"
  shows "load_latest env io' (dc_run_id c) db' = Inr (Some c)"
    and "run \<noteq> dc_run_id c \<Longrightarrow> load_latest env io' run db' = load_latest env io' run db"
proof -
  obtain refs where s: "ke_refs_to_string env (dc_artifact_refs c) = Some refs" "dc_run_id c \<noteq> []"
    and db': "db' = db\<lparr>db_rows := upsert \<lparr>rw_run_id = dc_run_id c, rw_node_id = dc_node_id c,
       rw_event_sequence = uint (dc_event_sequence c), rw_state = dc_state c, rw_artifact_refs_json = refs\<rparr> (db_rows db)\<rparr>"
    using save_Inr [OF save] by blast
  show "load_latest env io' (dc_run_id c) db' = Inr (Some c)"
    using ok json [OF s(1)] io s(2) by (simp add: load_latest_def db' find_upsert sql_def RunId_new_def checkpoint_ok_def)
  show "run \<noteq> dc_run_id c \<Longrightarrow> load_latest env io' run db' = load_latest env io' run db"
    by (simp add: load_latest_def db' find_upsert)
qed

text \<open>Whatever is in the database, only checkpoints that pass the checks are returned.\<close>

lemma loaded_ok:
  assumes "load_latest env io run db = Inr (Some c)"
  shows "checkpoint_ok env c" "dc_run_id c = run"
  using assms
  by (auto simp: load_latest_def res_iffs checkpoint_ok_def RunId_new_def new_Inr_iff
      split: option.splits sum.splits if_splits)

section \<open>The manifest\<close>

lemma validate_manifest_iff:
  "validate_manifest env bytes m = Inr () \<longleftrightarrow>
     ke_manifest_from_slice env bytes = Some m \<and> mf_schema_version m = CHECKPOINT_SCHEMA_VERSION"
  by (auto simp: validate_manifest_def split: option.splits)

lemma open_manifest_Inr:
  assumes "open_manifest env io m dir = (Inr u, dir')"
    and "\<And>bytes. ke_manifest_to_vec env m = Some bytes \<Longrightarrow> ke_manifest_from_slice env bytes = Some m"
  shows "cd_kinds dir' CHECKPOINT_MANIFEST_FILE \<noteq> None" "ke_manifest_from_slice env (cd_manifest dir') = Some m"
  using assms by (auto simp: open_manifest_def write_manifest_def Let_def validate_manifest_iff split: if_splits option.splits)

lemma add_sidecars_keeps [simp]:
  "cd_manifest (add_sidecars io name dir) = cd_manifest dir" "cd_db (add_sidecars io name dir) = cd_db dir"
  "cd_kinds dir file \<noteq> None \<Longrightarrow> cd_kinds (add_sidecars io name dir) file = cd_kinds dir file"
  by (auto simp: add_sidecars_def add_file_def)

lemma open_store_Inr:
  assumes op: "open_store env io name m dir = (Inr store, dir')"
    and json: "\<And>bytes. ke_manifest_to_vec env m = Some bytes \<Longrightarrow> ke_manifest_from_slice env bytes = Some m"
  shows "sc_manifest store = m" "cd_kinds dir' CHECKPOINT_MANIFEST_FILE \<noteq> None"
    "ke_manifest_from_slice env (cd_manifest dir') = Some m" "mf_schema_version m = CHECKPOINT_SCHEMA_VERSION"
proof -
  obtain d1 where d1: "open_manifest env io m dir = (Inr (), d1)"
    using op by (auto simp: open_store_def Let_def split: if_splits sum.splits prod.splits)
  have "cd_manifest dir' = cd_manifest d1" "sc_manifest store = m"
    "cd_kinds dir' = cd_kinds (add_sidecars io name (d1\<lparr>cd_kinds := (cd_kinds d1)(name \<mapsto> RegularFile)\<rparr>))"
    "mf_schema_version m = CHECKPOINT_SCHEMA_VERSION"
    using op d1 by (auto simp: open_store_def Let_def split: if_splits sum.splits prod.splits)
  then show "sc_manifest store = m" "cd_kinds dir' CHECKPOINT_MANIFEST_FILE \<noteq> None"
    "ke_manifest_from_slice env (cd_manifest dir') = Some m" "mf_schema_version m = CHECKPOINT_SCHEMA_VERSION"
    using open_manifest_Inr [OF d1 json] by auto
qed

lemma other_manifest_refused:
  assumes "cd_kinds dir CHECKPOINT_MANIFEST_FILE \<noteq> None" "ke_manifest_from_slice env (cd_manifest dir) = Some m" "m' \<noteq> m"
  shows "\<exists>e. open_store env io name m' dir = (Inl e, dir)" "\<exists>e. open_read_only env io name m' dir = Inl e"
proof -
  obtain e where "validate_manifest env (cd_manifest dir) m' = Inl e"
    using assms(2,3) validate_manifest_iff [of env "cd_manifest dir" m'] by (cases "validate_manifest env (cd_manifest dir) m'") auto
  note invalid = this
  show "\<exists>e. open_store env io name m' dir = (Inl e, dir)"
    using assms(1) invalid by (auto simp: open_store_def open_manifest_def split: sum.split)
  show "\<exists>e. open_read_only env io name m' dir = Inl e"
  proof (cases "open_read_only env io name m' dir")
    case (Inr store)
    then have "validate_manifest env (cd_manifest dir) m' = Inr ()"
      by (auto simp: open_read_only_def res_iffs split: if_splits)
    then show ?thesis using invalid by simp
  qed simp
qed

section \<open>Properties\<close>

definition sample_checkpoint :: DurableCheckpointV1 where
  "sample_checkpoint = \<lparr>dc_run_id = ''r'', dc_node_id = ''n'', dc_event_sequence = 4, dc_state = [7], dc_artifact_refs = []\<rparr>"

definition sample_manifest :: "string \<Rightarrow> CheckpointCompatibilityManifestV1" where
  "sample_manifest workflow = manifest_new ''r'' workflow ''1''"

definition sample_ck_env :: checkpoint_env where
  "sample_ck_env = \<lparr>ke_value_from_slice = (\<lambda>_. None), ke_manifest_to_vec = (\<lambda>m. Some (str_bytes (mf_workflow_id m))),
     ke_manifest_from_slice = (\<lambda>b. if b = str_bytes ''w'' then Some (sample_manifest ''w'') else None),
     ke_refs_to_string = (\<lambda>refs. Some (concat refs)), ke_refs_from_str = (\<lambda>s. if s = [] then Some [] else None)\<rparr>"

definition sample_ck_io :: CheckpointIo where
  "sample_ck_io = \<lparr>ci_sql = (\<lambda>_. None), ci_has_parent = True, ci_read_fails = False, ci_create_fails = False, ci_write_fails = False,
     ci_rename_fails = False, ci_sync_fails = False, ci_unlink_fails = False, ci_sidecars = True\<rparr>"

definition sample_store :: SqliteCheckpointStore where
  "sample_store = \<lparr>sc_manifest = sample_manifest ''w'', sc_read_only = False, sc_fail_saves = False\<rparr>"

definition fresh_dir :: CheckpointDir where
  "fresh_dir = \<lparr>cd_parent_is_dir = True, cd_kinds = Map.empty, cd_manifest = [], cd_db = None\<rparr>"

lemma sample_checkpoint_ok: "checkpoint_ok sample_ck_env sample_checkpoint"
  by (simp add: checkpoint_ok_def DurableCheckpointV1_new_def sample_ck_env_def sample_checkpoint_def CHECKPOINT_MAX_STATE_BYTES_def)

lemma sample_save:
  "save_checkpoint sample_ck_env sample_ck_io sample_store sample_checkpoint empty_db =
     (Inr (), \<lparr>db_meta = None, db_rows = [\<lparr>rw_run_id = ''r'', rw_node_id = ''n'', rw_event_sequence = 4, rw_state = [7], rw_artifact_refs_json = []\<rparr>]\<rparr>)"
  by (simp add: save_checkpoint_def sample_store_def sample_manifest_def manifest_new_def RunId_new_def sample_checkpoint_def
      sample_ck_env_def sample_ck_io_def sql_def empty_db_def upsert_def)

text \<open>
  a checkpoint that was saved is the one that is loaded.  After a successful save, loading its run
  gives back the checkpoint with its node, event sequence, state and artifact references, the checkpoint
  was of the run the store belongs to, and what is loaded for every other run is unchanged; a save that
  fails changes nothing.
\<close>

theorem checkpoint_save_load:
  assumes "checkpoint_ok env c"
    and "\<And>s. ke_refs_to_string env (dc_artifact_refs c) = Some s \<Longrightarrow> ke_refs_from_str env s = Some (dc_artifact_refs c)"
    and "ci_sql io' 0 = None"
  shows "case save_checkpoint env io store c db of
      (Inl e, db') \<Rightarrow> db' = db
    | (Inr u, db') \<Rightarrow> load_latest env io' (dc_run_id c) db' = Inr (Some c) \<and> dc_run_id c = mf_run_id (sc_manifest store)
        \<and> (\<forall>run. run \<noteq> dc_run_id c \<longrightarrow> load_latest env io' run db' = load_latest env io' run db)"
proof -
  obtain r db' where save: "save_checkpoint env io store c db = (r, db')" by fastforce
  show ?thesis
  proof (cases r)
    case (Inl e)
    then show ?thesis using save save_Inl by simp
  next
    case (Inr u)
    note save = save [unfolded Inr]
    have "dc_run_id c = mf_run_id (sc_manifest store)" using save_Inr [OF save] by blast
    then show ?thesis using save save_load [OF assms(1) save assms(2,3)] by simp
  qed
qed

theorem checkpoint_save_load_witness:
  "load_latest sample_ck_env sample_ck_io ''r''
     \<lparr>db_meta = None, db_rows = [\<lparr>rw_run_id = ''r'', rw_node_id = ''n'', rw_event_sequence = 4, rw_state = [7], rw_artifact_refs_json = []\<rparr>]\<rparr>
   = Inr (Some sample_checkpoint)"
proof -
  have "ke_refs_from_str sample_ck_env s = Some (dc_artifact_refs sample_checkpoint)"
    if "ke_refs_to_string sample_ck_env (dc_artifact_refs sample_checkpoint) = Some s" for s
    using that by (simp add: sample_ck_env_def sample_checkpoint_def)
  moreover have "ci_sql sample_ck_io 0 = None" by (simp add: sample_ck_io_def)
  ultimately have "load_latest sample_ck_env sample_ck_io (dc_run_id sample_checkpoint)
     \<lparr>db_meta = None, db_rows = [\<lparr>rw_run_id = ''r'', rw_node_id = ''n'', rw_event_sequence = 4, rw_state = [7], rw_artifact_refs_json = []\<rparr>]\<rparr>
     = Inr (Some sample_checkpoint)"
    using checkpoint_save_load [OF sample_checkpoint_ok, where io = sample_ck_io and io' = sample_ck_io and store = sample_store and db = empty_db]
    unfolding sample_save prod.case sum.case by blast
  moreover have "dc_run_id sample_checkpoint = ''r''" by (simp add: sample_checkpoint_def)
  ultimately show ?thesis by simp
qed

text \<open>
  C31: a store resumes only what it was created for.  Once a store has been opened with a manifest
  (run, workflow, version, hash, resources, implementations, sandbox policy, event log), then as long as
  the manifest file stays with its content, whatever happens to the database, its sidecar files and every
  other file of the directory (deleted, replaced, changed), opening with any other manifest fails, for
  writing and for reading alike, whatever the name of the database and whatever else fails, and opening for
  writing leaves the directory as it was.
\<close>

theorem checkpoint_open_exact:
  assumes "open_store env io name m dir = (Inr store, opened)"
    and "\<And>bytes. ke_manifest_to_vec env m = Some bytes \<Longrightarrow> ke_manifest_from_slice env bytes = Some m"
    and "cd_manifest later = cd_manifest opened"
    and "cd_kinds later CHECKPOINT_MANIFEST_FILE = cd_kinds opened CHECKPOINT_MANIFEST_FILE" and "m' \<noteq> m"
  shows "(\<exists>e. open_store env io' name' m' later = (Inl e, later)) \<and> (\<exists>e. open_read_only env io' name' m' later = Inl e)"
  using other_manifest_refused [of later env m m'] open_store_Inr [OF assms(1,2)] assms(3-5) by simp

text \<open>Another manifest, after the database and everything but the manifest file was deleted.\<close>

theorem checkpoint_open_exact_witness:
  "\<exists>opened. open_store sample_ck_env sample_ck_io ''db'' (sample_manifest ''w'') fresh_dir = (Inr sample_store, opened)
     \<and> (let later = opened\<lparr>cd_kinds := [CHECKPOINT_MANIFEST_FILE \<mapsto> RegularFile], cd_db := None\<rparr> in
          cd_kinds opened ''db'' \<noteq> None \<and> cd_kinds opened ''db-wal'' \<noteq> None
          \<and> (\<exists>e. open_store sample_ck_env sample_ck_io ''db'' (sample_manifest ''v'') later = (Inl e, later)))"
proof -
  obtain opened where op: "open_store sample_ck_env sample_ck_io ''db'' (sample_manifest ''w'') fresh_dir = (Inr sample_store, opened)"
    and kinds: "cd_kinds opened CHECKPOINT_MANIFEST_FILE = Some RegularFile" "cd_kinds opened ''db'' \<noteq> None" "cd_kinds opened ''db-wal'' \<noteq> None"
    by (simp add: open_store_def sample_manifest_def manifest_new_def CHECKPOINT_SCHEMA_VERSION_def secure_parent_def
        sample_ck_io_def fresh_dir_def secure_existing_file_def open_manifest_def write_manifest_def sample_ck_env_def
        CHECKPOINT_MANIFEST_FILE_def MANIFEST_TEMPORARY_def Let_def sql_def empty_db_def open_meta_def sample_store_def
        add_sidecars_def add_file_def)
  let ?later = "opened\<lparr>cd_kinds := [CHECKPOINT_MANIFEST_FILE \<mapsto> RegularFile], cd_db := None\<rparr>"
  have "ke_manifest_from_slice sample_ck_env bytes = Some (sample_manifest ''w'')"
    if "ke_manifest_to_vec sample_ck_env (sample_manifest ''w'') = Some bytes" for bytes
    using that by (auto simp: sample_ck_env_def sample_manifest_def manifest_new_def)
  moreover have "sample_manifest ''v'' \<noteq> sample_manifest ''w''" by (simp add: sample_manifest_def manifest_new_def)
  moreover have "cd_manifest ?later = cd_manifest opened"
    "cd_kinds ?later CHECKPOINT_MANIFEST_FILE = cd_kinds opened CHECKPOINT_MANIFEST_FILE" by (simp_all add: kinds)
  ultimately have "\<exists>e. open_store sample_ck_env sample_ck_io ''db'' (sample_manifest ''v'') ?later = (Inl e, ?later)"
    using checkpoint_open_exact [OF op] by blast
  then show ?thesis using op kinds(2,3) unfolding Let_def by blast
qed

end
