(* ===== verification/Utf8.thy ===== *)
theory Utf8
  imports Wire_Code
begin

text \<open>
  UTF-8, the encoding of Rust's \<open>str\<close>: a \<open>char\<close> is a Unicode scalar value, \<open>std::str::from_utf8\<close> accepts
  exactly the encodings of sequences of scalar values.  The encoding of a scalar value is a prefix code,
  so a byte string has at most one decoding.
\<close>

definition scalar :: "nat \<Rightarrow> bool" where
  "scalar c \<longleftrightarrow> c < 0xD800 \<or> 0xE000 \<le> c \<and> c < 0x110000"

definition utf8_values :: "nat \<Rightarrow> nat list" where
  "utf8_values c =
     (if c < 0x80 then [c]
      else if c < 0x800 then [0xC0 + c div 64, 0x80 + c mod 64]
      else if c < 0x10000 then [0xE0 + c div 4096, 0x80 + c div 64 mod 64, 0x80 + c mod 64]
      else [0xF0 + c div 262144, 0x80 + c div 4096 mod 64, 0x80 + c div 64 mod 64, 0x80 + c mod 64])"

definition utf8 :: "nat \<Rightarrow> byte list" where
  "utf8 c = map word_of_nat (utf8_values c)"

text \<open>The candidate for the first scalar value; it is accepted when its encoding is what stands there.\<close>

definition utf8_guess :: "nat list \<Rightarrow> nat" where
  "utf8_guess bs =
     (case bs of
        [] \<Rightarrow> 0
      | a # rest \<Rightarrow>
          if a < 0x80 then a
          else if a < 0xE0 then (a - 0xC0) * 64 + (case rest of b # _ \<Rightarrow> b - 0x80 | [] \<Rightarrow> 0)
          else if a < 0xF0 then (a - 0xE0) * 4096 + (case rest of b # c # _ \<Rightarrow> (b - 0x80) * 64 + (c - 0x80) | _ \<Rightarrow> 0)
          else (a - 0xF0) * 262144 + (case rest of b # c # d # _ \<Rightarrow> (b - 0x80) * 4096 + (c - 0x80) * 64 + (d - 0x80) | _ \<Rightarrow> 0))"

definition utf8_next :: "byte list \<Rightarrow> (nat \<times> nat) option" where
  "utf8_next bytes =
     (let c = utf8_guess (map unat (take 4 bytes)); n = length (utf8 c) in
      if scalar c \<and> take n bytes = utf8 c then Some (c, n) else None)"

lemma length_utf8: "length (utf8 c) = (if c < 0x80 then 1 else if c < 0x800 then 2 else if c < 0x10000 then 3 else 4)"
  by (simp add: utf8_def utf8_values_def)

lemma length_utf8_pos [simp]: "0 < length (utf8 c)"
  by (simp add: length_utf8)

lemma utf8_nonempty [simp]: "utf8 c \<noteq> []"
  using length_utf8_pos [of c] by (metis length_greater_0_conv)

text \<open>\<open>std::str::from_utf8\<close>, with the scalar values of the text.\<close>

function from_utf8 :: "byte list \<Rightarrow> nat list option" where
  "from_utf8 bytes =
     (if bytes = [] then Some []
      else case utf8_next bytes of
        None \<Rightarrow> None
      | Some (c, n) \<Rightarrow> map_option (Cons c) (from_utf8 (drop n bytes)))"
  by pat_completeness auto
termination
  by (relation "measure length") (auto simp: utf8_next_def Let_def split: if_splits)

declare from_utf8.simps [simp del]

lemma scalar_values:
  assumes "scalar c"
  shows "\<forall>v \<in> set (utf8_values c). v < 256" "utf8_guess (utf8_values c @ rest) = c"
    "length (utf8_values c) \<le> 4"
proof -
  have c: "c < 0x110000" using assms by (auto simp: scalar_def)
  have m: "x mod 64 < 64" for x :: nat by simp
  have m128: "x mod 64 < 128" for x :: nat by (rule less_trans [OF m]) simp
  have d64: "x div 64 * 64 + x mod 64 = x" for x :: nat by (rule div_mult_mod_eq)
  have q: "c div 4096 = c div 64 div 64" "c div 262144 = c div 64 div 64 div 64" by (simp_all add: div_mult2_eq [symmetric])
  have compose: "(h * 64 + i) * 64 + j = h * 4096 + i * 64 + j"
    "((g * 64 + h) * 64 + i) * 64 + j = g * 262144 + h * 4096 + i * 64 + j" for g h i j :: nat by simp_all
  consider (a) "c < 0x80" | (b) "0x80 \<le> c" "c < 0x800" | (d) "0x800 \<le> c" "c < 0x10000" | (e) "0x10000 \<le> c" by linarith
  then have "(\<forall>v \<in> set (utf8_values c). v < 256) \<and> utf8_guess (utf8_values c @ rest) = c"
  proof cases
    case a
    then show ?thesis by (simp add: utf8_values_def utf8_guess_def)
  next
    case b
    have "c div 64 < 32" using b by (simp add: less_mult_imp_div_less)
    then show ?thesis using b by (simp add: utf8_values_def utf8_guess_def m128)
  next
    case d
    have "c div 4096 < 16" using d by (simp add: less_mult_imp_div_less)
    moreover have "c = c div 4096 * 4096 + (c div 64 mod 64) * 64 + c mod 64"
      unfolding q using compose(1) [of "c div 64 div 64" "c div 64 mod 64" "c mod 64"] by (simp only: d64)
    ultimately show ?thesis using d by (simp add: utf8_values_def utf8_guess_def m128)
  next
    case e
    have "c div 262144 < 5" using c by (simp add: less_mult_imp_div_less)
    moreover have "c = c div 262144 * 262144 + (c div 4096 mod 64) * 4096 + (c div 64 mod 64) * 64 + c mod 64"
      unfolding q using compose(2) [of "c div 64 div 64 div 64" "c div 64 div 64 mod 64" "c div 64 mod 64" "c mod 64"] by (simp only: d64)
    ultimately show ?thesis using e by (simp add: utf8_values_def utf8_guess_def m128)
  qed
  then show "\<forall>v \<in> set (utf8_values c). v < 256" "utf8_guess (utf8_values c @ rest) = c" by auto
  show "length (utf8_values c) \<le> 4" by (simp add: utf8_values_def)
qed

lemma unat_utf8: "scalar c \<Longrightarrow> map unat (utf8 c) = utf8_values c"
  using scalar_values(1) [of c] by (auto simp: utf8_def unat_of_nat comp_def intro!: map_idI)

lemma utf8_next_append: "scalar c \<Longrightarrow> utf8_next (utf8 c @ rest) = Some (c, length (utf8 c))"
proof -
  assume c: "scalar c"
  have "length (utf8 c) \<le> 4" by (simp add: length_utf8)
  then have "map unat (take 4 (utf8 c @ rest)) = utf8_values c @ map unat (take (4 - length (utf8 c)) rest)"
    by (simp add: unat_utf8 [OF c])
  then show ?thesis using c by (simp add: utf8_next_def scalar_values(2) Let_def)
qed

interpretation scalar_code: prefix_code utf8 scalar
proof
  fix a b x y
  assume "scalar a" "scalar b" and eq: "utf8 a @ x = utf8 b @ y"
  then have "(a, length (utf8 a)) = (b, length (utf8 b))" using utf8_next_append by (metis option.inject)
  then show "a = b \<and> x = y" using eq by simp
qed

lemma from_utf8_sound: "from_utf8 bytes = Some cs \<Longrightarrow> bytes = concat (map utf8 cs) \<and> list_all scalar cs"
proof (induction bytes arbitrary: cs rule: from_utf8.induct)
  case (1 bytes)
  show ?case
  proof (cases "bytes = []")
    case False
    then obtain c n ds where c: "utf8_next bytes = Some (c, n)" and ds: "from_utf8 (drop n bytes) = Some ds" "cs = c # ds"
      using "1.prems" by (subst (asm) from_utf8.simps) (auto split: option.splits)
    have "scalar c" "take n bytes = utf8 c" using c by (auto simp: utf8_next_def Let_def split: if_splits)
    moreover have "drop n bytes = concat (map utf8 ds) \<and> list_all scalar ds" using "1.IH" [OF False c refl ds(1)] .
    ultimately show ?thesis using append_take_drop_id [of n bytes] ds(2) by simp
  qed (use "1.prems" in \<open>simp add: from_utf8.simps\<close>)
qed

lemma from_utf8_complete: "list_all scalar cs \<Longrightarrow> from_utf8 (concat (map utf8 cs)) = Some cs"
proof (induction cs)
  case (Cons c cs)
  then have "from_utf8 (utf8 c @ concat (map utf8 cs)) = map_option (Cons c) (from_utf8 (concat (map utf8 cs)))"
    by (subst from_utf8.simps) (simp add: utf8_next_append)
  then show ?case using Cons by simp
qed (simp add: from_utf8.simps)

text \<open>The accepted byte strings are exactly the encodings, each of one text.\<close>

lemma from_utf8_iff: "from_utf8 bytes = Some cs \<longleftrightarrow> bytes = concat (map utf8 cs) \<and> list_all scalar cs"
  using from_utf8_sound from_utf8_complete by blast

end
