(* ===== verification/Node_Cache.thy ===== *)
theory Node_Cache
  imports Firewall Session Canonical_Json
begin

text \<open>
  Durable memoization of node results (\<open>workflow-runtime/src/node_cache.rs\<close>): the binding of a key, the
  verification of a stored entry, and the operations of the cache on its directory.

  The directory is a map from file names to contents.  What the operating system does during one call
  (failing reads, links and syncs, the tokens of temporary names, the order of a directory listing, a
  concurrent writer) is the parameter \<open>io\<close> of that call.  SHA-256 and the JSON reader and writer of
  \<open>serde_json\<close> are the parameter \<open>env\<close>.  The counter of directory syncs, a test seam, is left out.
\<close>

section \<open>Keys\<close>

record NodeCacheKeyMaterial =
  nm_workflow_id :: string
  nm_workflow_version :: string
  nm_node_id :: string
  nm_node_version :: string
  nm_invocation_identity :: string
  nm_input_artifact_hashes :: "string list"
  nm_request_input_digest :: string
  nm_policy_digest :: string

record NodeCacheKey =
  nk_digest :: string
  nk_workflow_id :: string
  nk_workflow_version :: string
  nk_node_id :: string
  nk_node_version :: string
  nk_invocation_identity :: string
  nk_input_artifact_hashes :: "string list"
  nk_request_input_digest :: string
  nk_policy_digest :: string

datatype NodeCacheKeyError = EmptyIdentity

record CacheProvenance =
  cv_invocation_identity :: string
  cv_workflow_id :: string
  cv_workflow_version :: string
  cv_node_id :: string
  cv_node_version :: string
  cv_policy_digest :: string
  cv_input_artifact_hashes :: "string list"
  cv_request_input_digest :: string

datatype NodeCacheInvalidationReason = HashMismatch | SchemaMismatch | InvalidOutput | ExplicitInvalidate | CorruptEntry

datatype NodeCacheOutcome = CacheSuccess | CacheNegative NodeCacheInvalidationReason

record 'v NodeCacheEntry =
  ne_schema_version :: u16
  ne_key_digest :: string
  ne_payload :: 'v
  ne_payload_sha256 :: string
  ne_outcome :: NodeCacheOutcome
  ne_provenance :: CacheProvenance

datatype 'v NodeCacheLookup = CacheHit "'v NodeCacheEntry" | CacheMiss | CacheInvalid NodeCacheInvalidationReason

datatype NodeCacheErrorKind = InvalidIdentity | CacheIo | CacheCorrupt

text \<open>What the cache calls of other packages; \<open>None\<close> is an \<open>Err\<close>.\<close>

record 'v NodeEnv =
  nv_sha256 :: "byte list \<Rightarrow> byte list"
  nv_value_to_vec :: "'v \<Rightarrow> byte list option"
  nv_entry_to_vec :: "'v NodeCacheEntry \<Rightarrow> byte list option"
  nv_entry_from_slice :: "byte list \<Rightarrow> 'v NodeCacheEntry option"
  nv_entries_to_vec :: "'v NodeCacheEntry list \<Rightarrow> byte list option"
  nv_entries_from_slice :: "byte list \<Rightarrow> 'v NodeCacheEntry list option"
  nv_null :: 'v

definition NODE_CACHE_SCHEMA_VERSION :: u16 where
  "NODE_CACHE_SCHEMA_VERSION = 1"

definition digest_bytes :: "(byte list \<Rightarrow> byte list) \<Rightarrow> byte list \<Rightarrow> string" where
  "digest_bytes sha256 bytes = ''sha256:'' @ encode_hex (sha256 bytes)"

definition frame_text :: "string \<Rightarrow> string \<Rightarrow> string" where
  "frame_text label value = label @ ''_BYTES:'' @ nat_decimal (length value) @ CHR 0x0A # value"

definition node_key_material :: "NodeCacheKeyMaterial \<Rightarrow> string" where
  "node_key_material m =
     join (CHR 0x0A)
       [frame_text ''WORKFLOW_ID'' (nm_workflow_id m),
        frame_text ''WORKFLOW_VERSION'' (nm_workflow_version m),
        frame_text ''NODE_ID'' (nm_node_id m),
        frame_text ''NODE_VERSION'' (nm_node_version m),
        frame_text ''INVOCATION_IDENTITY'' (nm_invocation_identity m),
        frame_text ''INPUT_ARTIFACT_HASHES'' (join (CHR 0x0A) (sort (nm_input_artifact_hashes m))),
        frame_text ''REQUEST_INPUT_DIGEST'' (nm_request_input_digest m),
        frame_text ''POLICY_DIGEST'' (nm_policy_digest m)]"

definition NodeCacheKey_bind ::
    "(byte list \<Rightarrow> byte list) \<Rightarrow> NodeCacheKeyMaterial \<Rightarrow> NodeCacheKeyError + NodeCacheKey" where
  "NodeCacheKey_bind sha256 m =
     (if list_ex (\<lambda>s. s = [])
           [nm_workflow_id m, nm_workflow_version m, nm_node_id m, nm_node_version m, nm_invocation_identity m,
            nm_request_input_digest m, nm_policy_digest m]
      then Inl EmptyIdentity
      else Inr
        \<lparr>nk_digest = digest_bytes sha256 (str_bytes (node_key_material m)),
         nk_workflow_id = nm_workflow_id m,
         nk_workflow_version = nm_workflow_version m,
         nk_node_id = nm_node_id m,
         nk_node_version = nm_node_version m,
         nk_invocation_identity = nm_invocation_identity m,
         nk_input_artifact_hashes = sort (nm_input_artifact_hashes m),
         nk_request_input_digest = nm_request_input_digest m,
         nk_policy_digest = nm_policy_digest m\<rparr>)"

definition CacheProvenance_from_key :: "NodeCacheKey \<Rightarrow> CacheProvenance" where
  "CacheProvenance_from_key key =
     \<lparr>cv_invocation_identity = nk_invocation_identity key,
      cv_workflow_id = nk_workflow_id key,
      cv_workflow_version = nk_workflow_version key,
      cv_node_id = nk_node_id key,
      cv_node_version = nk_node_version key,
      cv_policy_digest = nk_policy_digest key,
      cv_input_artifact_hashes = nk_input_artifact_hashes key,
      cv_request_input_digest = nk_request_input_digest key\<rparr>"

definition provenance_material :: "CacheProvenance \<Rightarrow> NodeCacheKeyMaterial" where
  "provenance_material p =
     \<lparr>nm_workflow_id = cv_workflow_id p,
      nm_workflow_version = cv_workflow_version p,
      nm_node_id = cv_node_id p,
      nm_node_version = cv_node_version p,
      nm_invocation_identity = cv_invocation_identity p,
      nm_input_artifact_hashes = cv_input_artifact_hashes p,
      nm_request_input_digest = cv_request_input_digest p,
      nm_policy_digest = cv_policy_digest p\<rparr>"

definition key_from_provenance ::
    "(byte list \<Rightarrow> byte list) \<Rightarrow> CacheProvenance \<Rightarrow> NodeCacheKeyError + NodeCacheKey" where
  "key_from_provenance sha256 p = NodeCacheKey_bind sha256 (provenance_material p)"

definition key_digest_leaf :: "string \<Rightarrow> string option" where
  "key_digest_leaf kd =
     (case strip_prefix kd ''sha256:'' of
        None \<Rightarrow> None
      | Some h \<Rightarrow> if lower_hex64 h then Some (''sha256-'' @ h) else None)"

section \<open>Entries\<close>

definition payload_digest :: "'v NodeEnv \<Rightarrow> 'v \<Rightarrow> NodeCacheErrorKind + string" where
  "payload_digest env payload =
     (case nv_value_to_vec env payload of
        None \<Rightarrow> Inl CacheCorrupt
      | Some encoded \<Rightarrow> Inr (digest_bytes (nv_sha256 env) encoded))"

definition NodeCacheEntry_new ::
    "'v NodeEnv \<Rightarrow> NodeCacheKey \<Rightarrow> 'v \<Rightarrow> NodeCacheOutcome \<Rightarrow> CacheProvenance \<Rightarrow> NodeCacheErrorKind + 'v NodeCacheEntry" where
  "NodeCacheEntry_new env key payload outcome provenance =
     res_bind (payload_digest env payload) (\<lambda>payload_sha256.
       Inr \<lparr>ne_schema_version = NODE_CACHE_SCHEMA_VERSION,
            ne_key_digest = nk_digest key,
            ne_payload = payload,
            ne_payload_sha256 = payload_sha256,
            ne_outcome = outcome,
            ne_provenance = provenance\<rparr>)"

definition NodeCacheEntry_success ::
    "'v NodeEnv \<Rightarrow> NodeCacheKey \<Rightarrow> 'v \<Rightarrow> CacheProvenance \<Rightarrow> NodeCacheErrorKind + 'v NodeCacheEntry" where
  "NodeCacheEntry_success env key payload provenance = NodeCacheEntry_new env key payload CacheSuccess provenance"

definition NodeCacheEntry_negative ::
    "'v NodeEnv \<Rightarrow> NodeCacheKey \<Rightarrow> NodeCacheInvalidationReason \<Rightarrow> CacheProvenance \<Rightarrow> NodeCacheErrorKind + 'v NodeCacheEntry" where
  "NodeCacheEntry_negative env key reason provenance =
     NodeCacheEntry_new env key (nv_null env) (CacheNegative reason) provenance"

definition verify_entry :: "'v NodeEnv \<Rightarrow> byte list \<Rightarrow> string option \<Rightarrow> 'v NodeCacheLookup" where
  "verify_entry env bytes expected_digest =
     (case nv_entry_from_slice env bytes of
        None \<Rightarrow> CacheInvalid CorruptEntry
      | Some entry \<Rightarrow>
          if ne_schema_version entry \<noteq> NODE_CACHE_SCHEMA_VERSION then CacheInvalid SchemaMismatch
          else case payload_digest env (ne_payload entry) of
            Inl _ \<Rightarrow> CacheInvalid HashMismatch
          | Inr kd \<Rightarrow>
              if kd \<noteq> ne_payload_sha256 entry then CacheInvalid HashMismatch
              else if key_digest_leaf (ne_key_digest entry) = None then CacheInvalid HashMismatch
              else case key_from_provenance (nv_sha256 env) (ne_provenance entry) of
                Inl _ \<Rightarrow> CacheInvalid HashMismatch
              | Inr reconstructed \<Rightarrow>
                  if nk_digest reconstructed \<noteq> ne_key_digest entry then CacheInvalid HashMismatch
                  else if (case expected_digest of Some d \<Rightarrow> d \<noteq> ne_key_digest entry | None \<Rightarrow> False)
                  then CacheInvalid HashMismatch
                  else CacheHit entry)"

section \<open>The directory\<close>

datatype DirKind = RealDir | SymlinkDir | OtherFile

record NodeDisk =
  nd_root_exists :: bool
  nd_entries_kind :: "DirKind option"
  nd_root_files :: "string \<rightharpoonup> byte list"
  nd_entries :: "string \<rightharpoonup> byte list"

text \<open>
  The environment of one call.  \<open>ni_race\<close> is what a concurrent writer links under the final name
  between the removal of the old entry and the second link.
\<close>

record NodeIo =
  ni_pid :: string
  ni_tokens :: "nat \<Rightarrow> string"
  ni_metadata_fails :: bool
  ni_mkdir_fails :: bool
  ni_has_parent :: bool
  ni_sync_fails :: "nat \<Rightarrow> bool"
  ni_create_fails :: "nat \<Rightarrow> bool"
  ni_write_fails :: bool
  ni_read_fails :: "string \<Rightarrow> bool"
  ni_link_fails :: "nat \<Rightarrow> bool"
  ni_unlink_fails :: "string \<Rightarrow> bool"
  ni_list_fails :: bool
  ni_listing :: "string list"
  ni_race :: "byte list option"

definition verified_entries_dir :: "NodeIo \<Rightarrow> NodeDisk \<Rightarrow> NodeCacheErrorKind + unit" where
  "verified_entries_dir io disk =
     (if ni_metadata_fails io then Inl CacheIo
      else case nd_entries_kind disk of Some RealDir \<Rightarrow> Inr () | _ \<Rightarrow> Inl CacheIo)"

definition sync_dir :: "NodeIo \<Rightarrow> nat \<Rightarrow> NodeCacheErrorKind + unit" where
  "sync_dir io n = (if ni_sync_fails io n then Inl CacheIo else Inr ())"

definition sync_created_parent :: "NodeIo \<Rightarrow> nat \<Rightarrow> bool \<Rightarrow> NodeCacheErrorKind + unit" where
  "sync_created_parent io n created = (if created \<and> ni_has_parent io then sync_dir io n else Inr ())"

definition node_cache_open :: "NodeIo \<Rightarrow> NodeDisk \<Rightarrow> (NodeCacheErrorKind + unit) \<times> NodeDisk" where
  "node_cache_open io disk =
     (let missing_root = \<not> nd_root_exists disk in
      if ni_mkdir_fails io \<or> nd_entries_kind disk = Some OtherFile then (Inl CacheIo, disk)
      else
        let disk = disk\<lparr>nd_root_exists := True,
              nd_entries_kind := (case nd_entries_kind disk of None \<Rightarrow> Some RealDir | Some kind \<Rightarrow> Some kind)\<rparr> in
        (res_bind (verified_entries_dir io disk) (\<lambda>_.
         res_bind (sync_dir io 0) (\<lambda>_.
         res_bind (sync_dir io 1) (\<lambda>_. sync_created_parent io 2 missing_root))), disk))"

definition sync_entries :: "NodeIo \<Rightarrow> NodeDisk \<Rightarrow> nat \<Rightarrow> NodeCacheErrorKind + unit" where
  "sync_entries io disk n = res_bind (verified_entries_dir io disk) (\<lambda>_. sync_dir io n)"

definition path_for :: "NodeIo \<Rightarrow> NodeDisk \<Rightarrow> string \<Rightarrow> NodeCacheErrorKind + string" where
  "path_for io disk kd =
     (case key_digest_leaf kd of
        None \<Rightarrow> Inl InvalidIdentity
      | Some leaf \<Rightarrow> res_bind (verified_entries_dir io disk) (\<lambda>_. Inr leaf))"

definition tmp_name :: "NodeIo \<Rightarrow> string \<Rightarrow> nat \<Rightarrow> string" where
  "tmp_name io stem attempt = ''.tmp-'' @ stem @ ''-'' @ ni_pid io @ ''-'' @ ni_tokens io attempt"

text \<open>The loop \<open>for _ in 0..8\<close> from attempt \<open>8 - fuel\<close> on.\<close>

fun create_tmp_loop ::
    "NodeIo \<Rightarrow> string \<Rightarrow> byte list \<Rightarrow> nat \<Rightarrow> NodeDisk \<Rightarrow> (NodeCacheErrorKind + string) \<times> NodeDisk" where
  "create_tmp_loop io stem bytes 0 disk = (Inl CacheIo, disk)"
| "create_tmp_loop io stem bytes (Suc n) disk =
     (let tmp = tmp_name io stem (7 - n) in
      if nd_root_files disk tmp \<noteq> None then create_tmp_loop io stem bytes n disk
      else if ni_create_fails io (7 - n) then (Inl CacheIo, disk)
      else if ni_write_fails io then
        (Inl CacheIo, if ni_unlink_fails io tmp then disk\<lparr>nd_root_files := (nd_root_files disk)(tmp \<mapsto> bytes)\<rparr> else disk)
      else (Inr tmp, disk\<lparr>nd_root_files := (nd_root_files disk)(tmp \<mapsto> bytes)\<rparr>))"

definition create_tmp ::
    "NodeIo \<Rightarrow> string \<Rightarrow> byte list \<Rightarrow> NodeDisk \<Rightarrow> (NodeCacheErrorKind + string) \<times> NodeDisk" where
  "create_tmp io kd bytes disk =
     (case key_digest_leaf kd of
        None \<Rightarrow> (Inl InvalidIdentity, disk)
      | Some stem \<Rightarrow> create_tmp_loop io stem bytes 8 disk)"

definition entry_link :: "string \<Rightarrow> byte list \<Rightarrow> NodeDisk \<Rightarrow> NodeDisk" where
  "entry_link leaf bytes disk = disk\<lparr>nd_entries := (nd_entries disk)(leaf \<mapsto> bytes)\<rparr>"

definition entry_unlink :: "string \<Rightarrow> NodeDisk \<Rightarrow> NodeDisk" where
  "entry_unlink leaf disk = disk\<lparr>nd_entries := (nd_entries disk)(leaf := None)\<rparr>"

definition publish :: "NodeIo \<Rightarrow> string \<Rightarrow> byte list \<Rightarrow> NodeDisk \<Rightarrow> (NodeCacheErrorKind + unit) \<times> NodeDisk" where
  "publish io leaf bytes disk =
     (if ni_link_fails io 0 then (Inl CacheIo, disk)
      else case nd_entries disk leaf of
        None \<Rightarrow> let disk = entry_link leaf bytes disk in (sync_entries io disk 1, disk)
      | Some existing \<Rightarrow>
          if ni_read_fails io leaf then (Inl CacheIo, disk)
          else if existing = bytes then (sync_entries io disk 1, disk)
          else if ni_unlink_fails io leaf then (Inl CacheIo, disk)
          else
            let disk = entry_unlink leaf disk in
            case sync_entries io disk 0 of
              Inl e \<Rightarrow> (Inl e, disk)
            | Inr _ \<Rightarrow>
                let disk = (case ni_race io of None \<Rightarrow> disk | Some raced \<Rightarrow> entry_link leaf raced disk) in
                if ni_link_fails io 1 then (Inl CacheIo, disk)
                else case nd_entries disk leaf of
                  None \<Rightarrow> let disk = entry_link leaf bytes disk in (sync_entries io disk 1, disk)
                | Some existing \<Rightarrow>
                    if ni_read_fails io leaf then (Inl CacheIo, disk)
                    else if existing = bytes then (sync_entries io disk 1, disk)
                    else (Inl CacheCorrupt, disk))"

definition cache_put ::
    "'v NodeEnv \<Rightarrow> NodeIo \<Rightarrow> 'v NodeCacheEntry \<Rightarrow> NodeDisk \<Rightarrow> (NodeCacheErrorKind + unit) \<times> NodeDisk" where
  "cache_put env io entry disk =
     (case nv_entry_to_vec env entry of
        None \<Rightarrow> (Inl CacheCorrupt, disk)
      | Some bytes \<Rightarrow>
          (case path_for io disk (ne_key_digest entry) of
             Inl e \<Rightarrow> (Inl e, disk)
           | Inr leaf \<Rightarrow>
               (case create_tmp io (ne_key_digest entry) bytes disk of
                  (Inl e, disk) \<Rightarrow> (Inl e, disk)
                | (Inr tmp, disk) \<Rightarrow>
                    (case publish io leaf bytes disk of
                       (published, disk) \<Rightarrow>
                         (published, if ni_unlink_fails io tmp then disk
                                     else disk\<lparr>nd_root_files := (nd_root_files disk)(tmp := None)\<rparr>)))))"

definition cache_lookup ::
    "'v NodeEnv \<Rightarrow> NodeIo \<Rightarrow> NodeCacheKey \<Rightarrow> NodeDisk \<Rightarrow> NodeCacheErrorKind + 'v NodeCacheLookup" where
  "cache_lookup env io key disk =
     res_bind (path_for io disk (nk_digest key)) (\<lambda>leaf.
       case nd_entries disk leaf of
         None \<Rightarrow> Inr CacheMiss
       | Some bytes \<Rightarrow>
           if ni_read_fails io leaf then Inl CacheIo
           else Inr (verify_entry env bytes (Some (nk_digest key))))"

record NodeCacheInspect =
  nx_entry_count :: nat
  nx_negative_entries :: nat
  nx_paths :: "(string \<times> string) list"

text \<open>One turn of the loop of \<open>inspect\<close>: the verified entry of a file, if it has one.\<close>

definition inspect_file :: "'v NodeEnv \<Rightarrow> NodeIo \<Rightarrow> NodeDisk \<Rightarrow> string \<Rightarrow> ('v NodeCacheEntry \<times> string) option" where
  "inspect_file env io disk leaf =
     (case nd_entries disk leaf of
        None \<Rightarrow> None
      | Some bytes \<Rightarrow>
          if ni_read_fails io leaf then None
          else case verify_entry env bytes None of CacheHit cached \<Rightarrow> Some (cached, leaf) | _ \<Rightarrow> None)"

definition is_negative :: "'v NodeCacheEntry \<Rightarrow> bool" where
  "is_negative entry = (case ne_outcome entry of CacheNegative _ \<Rightarrow> True | CacheSuccess \<Rightarrow> False)"

definition cache_inspect :: "'v NodeEnv \<Rightarrow> NodeIo \<Rightarrow> NodeDisk \<Rightarrow> NodeCacheErrorKind + NodeCacheInspect" where
  "cache_inspect env io disk =
     res_bind (verified_entries_dir io disk) (\<lambda>_.
       if ni_list_fails io then Inl CacheIo
       else
         let found = List.map_filter (inspect_file env io disk) (ni_listing io);
             paths = sort_key fst (map (\<lambda>(cached, leaf). (ne_key_digest cached, leaf)) found)
         in Inr \<lparr>nx_entry_count = length paths,
                 nx_negative_entries = length (filter (\<lambda>(cached, _). is_negative cached) found),
                 nx_paths = paths\<rparr>)"

definition entry_path :: "NodeCacheInspect \<Rightarrow> NodeCacheKey \<Rightarrow> string option" where
  "entry_path inspect key = map_option snd (find (\<lambda>(kd, _). kd = nk_digest key) (nx_paths inspect))"

definition cache_invalidate :: "NodeIo \<Rightarrow> NodeCacheKey \<Rightarrow> NodeDisk \<Rightarrow> (NodeCacheErrorKind + unit) \<times> NodeDisk" where
  "cache_invalidate io key disk =
     (case path_for io disk (nk_digest key) of
        Inl e \<Rightarrow> (Inl e, disk)
      | Inr leaf \<Rightarrow>
          (case nd_entries disk leaf of
             None \<Rightarrow> (sync_entries io disk 0, disk)
           | Some _ \<Rightarrow>
               if ni_unlink_fails io leaf then (Inl CacheIo, disk)
               else let disk = entry_unlink leaf disk in (sync_entries io disk 0, disk)))"

text \<open>The loop of \<open>export\<close>: a file that no longer verifies is skipped, one that cannot be read is an error.\<close>

fun export_entries ::
    "'v NodeEnv \<Rightarrow> NodeIo \<Rightarrow> NodeDisk \<Rightarrow> (string \<times> string) list \<Rightarrow> NodeCacheErrorKind + 'v NodeCacheEntry list" where
  "export_entries env io disk [] = Inr []"
| "export_entries env io disk ((_, leaf) # paths) =
     (case nd_entries disk leaf of
        None \<Rightarrow> Inl CacheIo
      | Some bytes \<Rightarrow>
          if ni_read_fails io leaf then Inl CacheIo
          else res_bind (export_entries env io disk paths) (\<lambda>entries.
            case verify_entry env bytes None of CacheHit entry \<Rightarrow> Inr (entry # entries) | _ \<Rightarrow> Inr entries))"

definition cache_export :: "'v NodeEnv \<Rightarrow> NodeIo \<Rightarrow> NodeDisk \<Rightarrow> NodeCacheErrorKind + byte list" where
  "cache_export env io disk =
     res_bind (cache_inspect env io disk) (\<lambda>inspect.
     res_bind (export_entries env io disk (nx_paths inspect)) (\<lambda>entries.
       case nv_entries_to_vec env entries of None \<Rightarrow> Inl CacheCorrupt | Some bytes \<Rightarrow> Inr bytes))"

text \<open>The loop of \<open>import\<close>; each \<open>put\<close> has its own environment.\<close>

fun import_entries ::
    "'v NodeEnv \<Rightarrow> (nat \<Rightarrow> NodeIo) \<Rightarrow> 'v NodeCacheEntry list \<Rightarrow> NodeDisk \<Rightarrow> (NodeCacheErrorKind + unit) \<times> NodeDisk" where
  "import_entries env ios [] disk = (Inr (), disk)"
| "import_entries env ios (entry # entries) disk =
     (case nv_entry_to_vec env entry of
        None \<Rightarrow> (Inl CacheCorrupt, disk)
      | Some bytes \<Rightarrow>
          (case verify_entry env bytes None of
             CacheHit _ \<Rightarrow>
               (case cache_put env (ios (length entries)) entry disk of
                  (Inl e, disk) \<Rightarrow> (Inl e, disk)
                | (Inr _, disk) \<Rightarrow> import_entries env ios entries disk)
           | _ \<Rightarrow> (Inl CacheCorrupt, disk)))"

definition cache_import ::
    "'v NodeEnv \<Rightarrow> (nat \<Rightarrow> NodeIo) \<Rightarrow> byte list \<Rightarrow> NodeDisk \<Rightarrow> (NodeCacheErrorKind + nat) \<times> NodeDisk" where
  "cache_import env ios bytes disk =
     (case nv_entries_from_slice env bytes of
        None \<Rightarrow> (Inl CacheCorrupt, disk)
      | Some entries \<Rightarrow>
          (case import_entries env ios entries disk of
             (Inl e, disk) \<Rightarrow> (Inl e, disk)
           | (Inr _, disk) \<Rightarrow> (Inr (length entries), disk)))"

fun remove_paths :: "NodeIo \<Rightarrow> (string \<times> string) list \<Rightarrow> NodeDisk \<Rightarrow> (NodeCacheErrorKind + unit) \<times> NodeDisk" where
  "remove_paths io [] disk = (Inr (), disk)"
| "remove_paths io ((_, leaf) # paths) disk =
     (if nd_entries disk leaf = None \<or> ni_unlink_fails io leaf then (Inl CacheIo, disk)
      else remove_paths io paths (entry_unlink leaf disk))"

definition cache_gc ::
    "'v NodeEnv \<Rightarrow> NodeIo \<Rightarrow> nat option \<Rightarrow> NodeDisk \<Rightarrow> (NodeCacheErrorKind + nat) \<times> NodeDisk" where
  "cache_gc env io max_entries disk =
     (case max_entries of
        None \<Rightarrow> (Inr 0, disk)
      | Some limit \<Rightarrow>
          (case cache_inspect env io disk of
             Inl e \<Rightarrow> (Inl e, disk)
           | Inr inspect \<Rightarrow>
               if nx_entry_count inspect \<le> limit then (Inr 0, disk)
               else
                 let drop = nx_entry_count inspect - limit in
                 (case remove_paths io (take drop (nx_paths inspect)) disk of
                    (Inl e, disk) \<Rightarrow> (Inl e, disk)
                  | (Inr _, disk) \<Rightarrow> (res_bind (sync_entries io disk 0) (\<lambda>_. Inr drop), disk))))"

end
