(* ===== verification/Node_Cache_Correct.thy ===== *)
theory Node_Cache_Correct
  imports Node_Cache
begin

text \<open>
  What the node cache promises: the framed material of a key determines every identity bound into it, a
  hit is an entry of exactly the key that was asked for, what is put is what is looked up, collection
  keeps exactly the entries it may keep, and an export can be imported.
\<close>

section \<open>Framed text\<close>

lemma nat_decimal_digits: "list_all is_ascii_digit (nat_decimal n)"
proof (induction n rule: nat_decimal.induct)
  case (1 n)
  have digit: "is_ascii_digit (char_of (48 + d))" if "d < 10" for d :: nat
  proof -
    have "d \<in> {0,1,2,3,4,5,6,7,8,9}" using that by auto
    then show ?thesis by (auto simp: is_ascii_digit_def less_eq_char_def)
  qed
  show ?case using 1 by (subst nat_decimal.simps) (simp add: digit)
qed

lemma nat_decimal_inj: "nat_decimal m = nat_decimal n \<Longrightarrow> m = n"
proof (induction m arbitrary: n rule: nat_decimal.induct)
  case (1 m)
  have ne: "nat_decimal k \<noteq> []" for k by (subst nat_decimal.simps) simp
  have chr: "char_of (48 + a) = char_of (48 + b) \<longleftrightarrow> a = b" if "a < 10" "b < 10" for a b :: nat
    using that by (simp add: char_of_eq_iff take_bit_eq_mod)
  have single: "length (nat_decimal k) = 1 \<longleftrightarrow> k < 10" for k
    by (subst nat_decimal.simps) (simp add: ne)
  show ?case
  proof (cases "m < 10")
    case True
    then have "n < 10" using single [of m] single [of n] "1.prems" by simp
    then show ?thesis using True "1.prems" by (subst (asm) (1 2) nat_decimal.simps) (simp add: chr)
  next
    case False
    then have n: "\<not> n < 10" using single [of m] single [of n] "1.prems" by simp
    have "nat_decimal (m div 10) @ [char_of (48 + m mod 10)] = nat_decimal (n div 10) @ [char_of (48 + n mod 10)]"
      using "1.prems" False n by (subst (asm) (1 2) nat_decimal.simps) simp
    then have "m div 10 = n div 10" "m mod 10 = n mod 10" using "1.IH" [OF False] by (simp_all add: chr)
    then show ?thesis by (metis div_mult_mod_eq)
  qed
qed

lemma append_sep_inj:
  assumes "xs @ c # a = ys @ c # b" "c \<notin> set xs" "c \<notin> set ys"
  shows "xs = ys \<and> a = b"
proof -
  have "takeWhile (\<lambda>z. z \<noteq> c) (zs @ c # r) = zs" if "c \<notin> set zs" for zs r
    using that by (induction zs) auto
  then have "xs = ys" using assms by metis
  then show ?thesis using assms(1) by simp
qed

lemma newline_not_decimal: "CHR 0x0A \<notin> set (nat_decimal n)"
  using nat_decimal_digits [of n] by (auto simp: list_all_iff is_ascii_digit_def)

lemma frame_text_inj:
  assumes "frame_text l v @ x = frame_text l w @ y"
  shows "v = w \<and> x = y"
proof -
  have "nat_decimal (length v) @ CHR 0x0A # v @ x = nat_decimal (length w) @ CHR 0x0A # w @ y"
    using assms by (simp add: frame_text_def)
  from append_sep_inj [OF this newline_not_decimal newline_not_decimal]
  have "nat_decimal (length v) = nat_decimal (length w)" "v @ x = w @ y" by simp_all
  then show ?thesis using nat_decimal_inj by simp
qed

lemma frame_text_inj_last: "frame_text l v = frame_text l w \<Longrightarrow> v = w"
  using frame_text_inj [of l v "[]" w "[]"] by simp

text \<open>A list of hashes is joined with newlines: unambiguous when every hash is a non-empty line.\<close>

definition is_line :: "string \<Rightarrow> bool" where
  "is_line s \<longleftrightarrow> s \<noteq> [] \<and> CHR 0x0A \<notin> set s"

lemma join_lines_inj:
  assumes "join (CHR 0x0A) xs = join (CHR 0x0A) ys" "list_all is_line xs" "list_all is_line ys"
  shows "xs = ys"
  using assms
proof (induction "CHR 0x0A" xs arbitrary: ys rule: join.induct)
  case 1
  then show ?case by (cases "(CHR 0x0A, ys)" rule: join.cases) (auto simp: is_line_def)
next
  case (2 p)
  have "CHR 0x0A \<notin> set p" "p \<noteq> []" using "2.prems" by (simp_all add: is_line_def)
  then show ?case using "2.prems" by (cases "(CHR 0x0A, ys)" rule: join.cases) auto
next
  case (3 p q r)
  have p: "CHR 0x0A \<notin> set p" using "3.prems" by (simp add: is_line_def)
  show ?case
  proof (cases "(CHR 0x0A, ys)" rule: join.cases)
    case (3 sep a b c)
    have eq: "p @ CHR 0x0A # join (CHR 0x0A) (q # r) = a @ CHR 0x0A # join (CHR 0x0A) (b # c)"
      using 3 "3.prems"(1) by simp
    have a: "CHR 0x0A \<notin> set a" using 3 "3.prems"(3) by (simp add: is_line_def)
    have "p = a" "join (CHR 0x0A) (q # r) = join (CHR 0x0A) (b # c)"
      using append_sep_inj [OF eq p a] by simp_all
    then show ?thesis using "3.hyps" [of "b # c"] 3 "3.prems" by simp
  next
    case 1
    then show ?thesis using "3.prems"(1) by simp
  next
    case (2 sep a)
    then have "CHR 0x0A \<in> set a" using "3.prems"(1) by (auto dest!: arg_cong [of _ _ set])
    then show ?thesis using 2 "3.prems"(3) by (simp add: is_line_def)
  qed
qed

lemma node_key_material_fields:
  assumes "node_key_material m = node_key_material n"
  shows "nm_workflow_id m = nm_workflow_id n" "nm_workflow_version m = nm_workflow_version n"
    "nm_node_id m = nm_node_id n" "nm_node_version m = nm_node_version n"
    "nm_invocation_identity m = nm_invocation_identity n"
    "join (CHR 0x0A) (sort (nm_input_artifact_hashes m)) = join (CHR 0x0A) (sort (nm_input_artifact_hashes n))"
    "nm_request_input_digest m = nm_request_input_digest n" "nm_policy_digest m = nm_policy_digest n"
  using assms unfolding node_key_material_def by (auto dest!: frame_text_inj frame_text_inj_last)

section \<open>Hits\<close>

text \<open>The verifier accepts exactly the entries whose version, payload hash and provenance are right.\<close>

lemma verify_entry_hit_iff:
  "verify_entry env bytes expected = CacheHit e \<longleftrightarrow>
     nv_entry_from_slice env bytes = Some e \<and> ne_schema_version e = NODE_CACHE_SCHEMA_VERSION
     \<and> payload_digest env (ne_payload e) = Inr (ne_payload_sha256 e)
     \<and> key_digest_leaf (ne_key_digest e) \<noteq> None
     \<and> (\<exists>k. key_from_provenance (nv_sha256 env) (ne_provenance e) = Inr k \<and> nk_digest k = ne_key_digest e)
     \<and> pred_option (\<lambda>d. d = ne_key_digest e) expected"
  by (auto simp: verify_entry_def split: option.splits sum.splits if_splits)

lemma key_bind_Inr:
  assumes "NodeCacheKey_bind sha256 m = Inr key"
  shows "nk_digest key = digest_bytes sha256 (str_bytes (node_key_material m))"
    "nk_workflow_id key = nm_workflow_id m" "nk_workflow_version key = nm_workflow_version m"
    "nk_node_id key = nm_node_id m" "nk_node_version key = nm_node_version m"
    "nk_invocation_identity key = nm_invocation_identity m"
    "nk_input_artifact_hashes key = sort (nm_input_artifact_hashes m)"
    "nk_request_input_digest key = nm_request_input_digest m" "nk_policy_digest key = nm_policy_digest m"
  using assms by (auto simp: NodeCacheKey_bind_def split: if_splits)

lemma bind_Inr_iff:
  "(\<exists>key. NodeCacheKey_bind sha256 m = Inr key) \<longleftrightarrow>
     [] \<notin> {nm_workflow_id m, nm_workflow_version m, nm_node_id m, nm_node_version m, nm_invocation_identity m,
           nm_request_input_digest m, nm_policy_digest m}"
  by (auto simp: NodeCacheKey_bind_def)

lemma digest_bytes_inj: "digest_bytes sha256 a = digest_bytes sha256 b \<longleftrightarrow> sha256 a = sha256 b"
  by (auto simp: digest_bytes_def encode_hex_eq_hex dest: hex_inj)

text \<open>The bytes that a key hashes.\<close>

definition key_preimage :: "NodeCacheKeyMaterial \<Rightarrow> byte list" where
  "key_preimage m = str_bytes (node_key_material m)"

lemma cache_lookup_hitE:
  assumes "cache_lookup env io key disk = Inr (CacheHit e)"
  obtains leaf bytes where "key_digest_leaf (nk_digest key) = Some leaf" "nd_entries disk leaf = Some bytes"
    "verify_entry env bytes (Some (nk_digest key)) = CacheHit e"
  using assms by (auto simp: cache_lookup_def path_for_def res_iffs split: option.splits if_splits)

lemma hit_provenance:
  assumes key: "NodeCacheKey_bind (nv_sha256 env) m = Inr key"
    and hit: "cache_lookup env io key disk = Inr (CacheHit e)"
    and lines: "list_all is_line (nm_input_artifact_hashes m)" "list_all is_line (cv_input_artifact_hashes (ne_provenance e))"
    and apart: "nv_sha256 env (key_preimage m) = nv_sha256 env (key_preimage (provenance_material (ne_provenance e)))
      \<Longrightarrow> key_preimage m = key_preimage (provenance_material (ne_provenance e))"
  shows "CacheProvenance_from_key key
      = (ne_provenance e)\<lparr>cv_input_artifact_hashes := sort (cv_input_artifact_hashes (ne_provenance e))\<rparr>"
proof -
  let ?n = "provenance_material (ne_provenance e)"
  obtain bytes where v: "verify_entry env bytes (Some (nk_digest key)) = CacheHit e"
    using cache_lookup_hitE [OF hit] .
  obtain k where k: "NodeCacheKey_bind (nv_sha256 env) ?n = Inr k" "nk_digest k = nk_digest key"
    using v by (auto simp: verify_entry_hit_iff key_from_provenance_def)
  then have "nv_sha256 env (key_preimage m) = nv_sha256 env (key_preimage ?n)"
    using key_bind_Inr(1) [OF k(1)] key_bind_Inr(1) [OF key] by (simp add: digest_bytes_inj key_preimage_def)
  then have eq: "node_key_material m = node_key_material ?n" using apart by (simp add: key_preimage_def)
  have "sort (nm_input_artifact_hashes m) = sort (nm_input_artifact_hashes ?n)"
    using join_lines_inj [OF node_key_material_fields(6) [OF eq]] lines
    by (simp add: list_all_iff provenance_material_def)
  then show ?thesis
    using node_key_material_fields [OF eq] key_bind_Inr [OF key]
    by (simp add: CacheProvenance_from_key_def provenance_material_def)
qed

section \<open>Storing\<close>

lemma create_tmp_loop_entries:
  "create_tmp_loop io stem bytes n disk = (r, disk') \<Longrightarrow>
     nd_entries disk' = nd_entries disk \<and> nd_entries_kind disk' = nd_entries_kind disk
     \<and> (\<forall>tmp. r = Inr tmp \<longrightarrow> nd_root_files disk tmp = None \<and> nd_root_files disk' = (nd_root_files disk)(tmp \<mapsto> bytes))"
  by (induction n) (auto simp: Let_def split: if_splits)

lemma create_tmp_keeps:
  assumes "create_tmp io kd bytes disk = (r, disk')"
  shows "nd_entries disk' = nd_entries disk" "nd_entries_kind disk' = nd_entries_kind disk"
    "r = Inr tmp \<Longrightarrow> nd_root_files disk tmp = None \<and> nd_root_files disk' = (nd_root_files disk)(tmp \<mapsto> bytes)"
  using assms create_tmp_loop_entries unfolding create_tmp_def by (auto split: option.splits)

text \<open>A publication touches one name of the directory, and a successful one leaves the new bytes there.\<close>

lemma publish_frame:
  assumes "publish io leaf bytes disk = (r, disk')"
  shows "nd_root_files disk' = nd_root_files disk" "nd_entries_kind disk' = nd_entries_kind disk"
    "other \<noteq> leaf \<Longrightarrow> nd_entries disk' other = nd_entries disk other"
  using assms unfolding publish_def entry_link_def entry_unlink_def Let_def
  by (auto split: option.splits if_splits sum.splits)

lemma publish_stores:
  assumes "publish io leaf bytes disk = (Inr u, disk')"
  shows "nd_entries disk' leaf = Some bytes"
  using assms unfolding publish_def entry_link_def entry_unlink_def Let_def
  by (auto split: option.splits if_splits sum.splits)

lemma cache_putE:
  assumes "cache_put env io e disk = (Inr u, disk')"
  obtains bytes leaf where "nv_entry_to_vec env e = Some bytes" "key_digest_leaf (ne_key_digest e) = Some leaf"
    "nd_entries disk' = (nd_entries disk)(leaf \<mapsto> bytes)" "nd_entries_kind disk' = Some RealDir"
proof -
  obtain bytes where b: "nv_entry_to_vec env e = Some bytes"
    using assms by (auto simp: cache_put_def split: option.splits)
  obtain leaf where l: "path_for io disk (ne_key_digest e) = Inr leaf"
    using assms b by (auto simp: cache_put_def split: sum.splits)
  then have leaf: "key_digest_leaf (ne_key_digest e) = Some leaf" "nd_entries_kind disk = Some RealDir"
    by (auto simp: path_for_def verified_entries_dir_def res_iffs split: option.splits if_splits DirKind.splits)
  obtain tmp d1 where c: "create_tmp io (ne_key_digest e) bytes disk = (Inr tmp, d1)"
    using assms b l by (auto simp: cache_put_def split: sum.splits prod.splits)
  obtain d2 where p: "publish io leaf bytes d1 = (Inr u, d2)"
    and d: "nd_entries disk' = nd_entries d2" "nd_entries_kind disk' = nd_entries_kind d2"
    using assms b l c by (auto simp: cache_put_def split: prod.splits if_splits)
  have "nd_entries d2 = (nd_entries disk)(leaf \<mapsto> bytes)"
    using publish_frame(3) [OF p] publish_stores [OF p] create_tmp_keeps(1) [OF c] by (auto simp: fun_eq_iff)
  then show ?thesis
    using that [OF b leaf(1)] d publish_frame(2) [OF p] create_tmp_keeps(2) [OF c] leaf(2) by simp
qed

text \<open>An entry made for a key verifies under that key once it is read back.\<close>

definition survives_json :: "'v NodeEnv \<Rightarrow> 'v NodeCacheEntry \<Rightarrow> bool" where
  "survives_json env e \<longleftrightarrow> (case nv_entry_to_vec env e of Some bytes \<Rightarrow> nv_entry_from_slice env bytes = Some e | None \<Rightarrow> False)"

lemma own_entry_verifies:
  assumes key: "NodeCacheKey_bind (nv_sha256 env) m = Inr key"
    and e: "NodeCacheEntry_new env key payload outcome (CacheProvenance_from_key key) = Inr e"
    and json: "nv_entry_from_slice env bytes = Some e" and leaf: "key_digest_leaf (nk_digest key) = Some leaf"
  shows "verify_entry env bytes (Some (nk_digest key)) = CacheHit e"
proof -
  have new: "ne_key_digest e = nk_digest key" "ne_schema_version e = NODE_CACHE_SCHEMA_VERSION"
    "payload_digest env (ne_payload e) = Inr (ne_payload_sha256 e)" "ne_provenance e = CacheProvenance_from_key key"
    using e by (auto simp: NodeCacheEntry_new_def res_iffs)
  have "[] \<notin> {nm_workflow_id m, nm_workflow_version m, nm_node_id m, nm_node_version m, nm_invocation_identity m,
      nm_request_input_digest m, nm_policy_digest m}"
    using key bind_Inr_iff by blast
  then obtain k where k: "NodeCacheKey_bind (nv_sha256 env) (provenance_material (ne_provenance e)) = Inr k"
    using bind_Inr_iff [of "nv_sha256 env" "provenance_material (ne_provenance e)"] key_bind_Inr [OF key]
    by (auto simp: new provenance_material_def CacheProvenance_from_key_def)
  have "node_key_material (provenance_material (ne_provenance e)) = node_key_material m"
    using key_bind_Inr [OF key] by (simp add: new node_key_material_def provenance_material_def CacheProvenance_from_key_def sorted_sort_id)
  then have "nk_digest k = ne_key_digest e" using key_bind_Inr(1) [OF k] key_bind_Inr(1) [OF key] by (simp add: new)
  then show ?thesis using json leaf k by (simp add: verify_entry_hit_iff new key_from_provenance_def)
qed

definition healthy :: "NodeIo \<Rightarrow> bool" where
  "healthy io \<longleftrightarrow> \<not> ni_metadata_fails io \<and> \<not> ni_list_fails io \<and> ni_read_fails io = (\<lambda>_. False)"

lemma healthy_path: "healthy io \<Longrightarrow> nd_entries_kind disk = Some RealDir \<Longrightarrow> key_digest_leaf kd = Some leaf \<Longrightarrow> path_for io disk kd = Inr leaf"
  by (simp add: path_for_def verified_entries_dir_def healthy_def)

lemma healthy_lookup:
  assumes "healthy io" "nd_entries_kind disk = Some RealDir" "key_digest_leaf (nk_digest key) = Some leaf"
  shows "cache_lookup env io key disk
    = Inr (case nd_entries disk leaf of None \<Rightarrow> CacheMiss | Some bytes \<Rightarrow> verify_entry env bytes (Some (nk_digest key)))"
  using assms by (simp add: cache_lookup_def healthy_path healthy_def split: option.split)

lemma key_digest_leaf_inj: "key_digest_leaf a = Some leaf \<Longrightarrow> key_digest_leaf b = Some leaf \<Longrightarrow> a = b"
proof -
  have "a = ''sha256:'' @ drop 7 leaf" if "key_digest_leaf a = Some leaf" for a
    using that by (auto simp: key_digest_leaf_def strip_prefix_def starts_with_append split: if_splits option.splits)
  then show "key_digest_leaf a = Some leaf \<Longrightarrow> key_digest_leaf b = Some leaf \<Longrightarrow> a = b" by metis
qed

lemma put_then_lookup:
  assumes key: "NodeCacheKey_bind (nv_sha256 env) m = Inr key"
    and e: "NodeCacheEntry_new env key payload outcome (CacheProvenance_from_key key) = Inr e"
    and json: "survives_json env e" and put: "cache_put env io e disk = (Inr u, disk')"
    and well: "healthy io'"
  shows "cache_lookup env io' key disk' = Inr (CacheHit e)"
    and "nk_digest other \<noteq> nk_digest key \<Longrightarrow> nd_entries_kind disk = Some RealDir \<Longrightarrow>
      cache_lookup env io' other disk' = cache_lookup env io' other disk"
proof -
  obtain bytes leaf where b: "nv_entry_to_vec env e = Some bytes" "key_digest_leaf (ne_key_digest e) = Some leaf"
    "nd_entries disk' = (nd_entries disk)(leaf \<mapsto> bytes)" "nd_entries_kind disk' = Some RealDir"
    using cache_putE [OF put] .
  have kd: "ne_key_digest e = nk_digest key" using e by (auto simp: NodeCacheEntry_new_def res_iffs)
  have "nv_entry_from_slice env bytes = Some e" using json b(1) by (simp add: survives_json_def)
  then have "verify_entry env bytes (Some (nk_digest key)) = CacheHit e"
    using own_entry_verifies [OF key e] b(2) kd by simp
  then show "cache_lookup env io' key disk' = Inr (CacheHit e)"
    using healthy_lookup [OF well b(4), of key leaf env] b(2,3) kd by simp
  assume other: "nk_digest other \<noteq> nk_digest key" and real: "nd_entries_kind disk = Some RealDir"
  show "cache_lookup env io' other disk' = cache_lookup env io' other disk"
  proof (cases "key_digest_leaf (nk_digest other)")
    case None
    then show ?thesis by (simp add: cache_lookup_def path_for_def)
  next
    case (Some l)
    then have "l \<noteq> leaf" using key_digest_leaf_inj other b(2) kd by metis
    then show ?thesis using healthy_lookup [OF well b(4) Some, of env] healthy_lookup [OF well real Some, of env] b(3) by simp
  qed
qed

section \<open>Collection\<close>

lemma inspect_file_unlinked:
  "inspect_file env io (disk\<lparr>nd_entries := (\<lambda>l. if l \<in> gone then None else nd_entries disk l)\<rparr>) leaf
     = (if leaf \<in> gone then None else inspect_file env io disk leaf)"
  by (simp add: inspect_file_def)

lemma remove_paths_Inr:
  "remove_paths io ps disk = (Inr u, disk') \<Longrightarrow>
     disk' = disk\<lparr>nd_entries := (\<lambda>l. if l \<in> snd ` set ps then None else nd_entries disk l)\<rparr>"
proof (induction ps arbitrary: disk)
  case (Cons p ps)
  then show ?case
    by (cases p) (force simp: entry_unlink_def fun_eq_iff split: if_splits)
qed simp

lemma inspect_file_leaf: "inspect_file env io disk leaf = Some (e, l) \<Longrightarrow> l = leaf"
  by (auto simp: inspect_file_def split: option.splits if_splits NodeCacheLookup.splits)

lemma in_map_filter: "q \<in> set (List.map_filter f xs) \<longleftrightarrow> (\<exists>x \<in> set xs. f x = Some q)"
  by (induction xs) (auto simp: List.map_filter_simps split: option.split)

lemma map_filter_inspect_leaves: "distinct ls \<Longrightarrow> distinct (map snd (List.map_filter (inspect_file env io disk) ls))
    \<and> set (map snd (List.map_filter (inspect_file env io disk) ls)) \<subseteq> set ls"
  by (induction ls) (auto simp: List.map_filter_simps dest: inspect_file_leaf split: option.split)

lemma map_filter_unlinked:
  "List.map_filter (inspect_file env io (disk\<lparr>nd_entries := (\<lambda>l. if l \<in> gone then None else nd_entries disk l)\<rparr>)) ls
     = filter (\<lambda>p. snd p \<notin> gone) (List.map_filter (inspect_file env io disk) ls)"
  by (induction ls) (auto simp: List.map_filter_simps inspect_file_unlinked dest: inspect_file_leaf split: option.split)

lemma distinct_map_sort: "distinct (map f (sort_key g xs)) \<longleftrightarrow> distinct (map f xs)"
  by (rule mset_eq_imp_distinct_iff) simp

lemma filter_take_gone:
  "distinct (map f xs) \<Longrightarrow> filter (\<lambda>x. f x \<notin> f ` set (take n xs)) xs = drop n xs"
proof (induction xs arbitrary: n)
  case (Cons x xs)
  show ?case
  proof (cases n)
    case (Suc k)
    have "filter (\<lambda>y. f y \<notin> f ` set (take n (x # xs))) (x # xs) = filter (\<lambda>y. f y \<notin> f ` set (take k xs)) xs"
      using Cons.prems Suc by (auto intro!: filter_cong) (metis imageI)
    then show ?thesis using Cons.IH [of k] Cons.prems Suc by simp
  qed simp
qed simp

lemma gc_keeps_latest:
  assumes before: "cache_inspect env io disk = Inr x" and gc: "cache_gc env io (Some limit) disk = (Inr k, disk')"
    and names: "distinct (ni_listing io)"
  shows "k = nx_entry_count x - limit" "\<exists>y. cache_inspect env io disk' = Inr y \<and> nx_paths y = drop k (nx_paths x)
     \<and> nx_entry_count y = min limit (nx_entry_count x)"
proof -
  let ?found = "List.map_filter (inspect_file env io disk) (ni_listing io)"
  let ?pair = "\<lambda>(cached, leaf). (ne_key_digest cached, leaf)"
  have ok: "verified_entries_dir io disk = Inr ()" "\<not> ni_list_fails io"
    and x: "nx_paths x = sort_key fst (map ?pair ?found)" "nx_entry_count x = length (nx_paths x)"
    using before by (auto simp: cache_inspect_def Let_def res_iffs split: if_splits)
  show k: "k = nx_entry_count x - limit"
    using gc before by (auto simp: cache_gc_def Let_def res_iffs split: if_splits sum.splits prod.splits)
  have len: "length (drop k (nx_paths x)) = min limit (nx_entry_count x)" using x k by simp
  show "\<exists>y. cache_inspect env io disk' = Inr y \<and> nx_paths y = drop k (nx_paths x)
     \<and> nx_entry_count y = min limit (nx_entry_count x)"
  proof (cases "nx_entry_count x \<le> limit")
    case True
    then show ?thesis using gc before k by (auto simp: cache_gc_def)
  next
    case False
    let ?gone = "snd ` set (take k (nx_paths x))"
    have "remove_paths io (take k (nx_paths x)) disk = (Inr (), disk')"
      using gc before False k by (auto simp: cache_gc_def Let_def res_iffs split: sum.splits prod.splits)
    then have d: "disk' = disk\<lparr>nd_entries := (\<lambda>l. if l \<in> ?gone then None else nd_entries disk l)\<rparr>"
      by (rule remove_paths_Inr)
    have snd_pair: "snd (?pair p) = snd p" for p :: "'a NodeCacheEntry \<times> string" by (cases p) simp
    have "distinct (map snd (map ?pair ?found))"
      using map_filter_inspect_leaves [OF names, of env io disk] by (simp add: snd_pair comp_def)
    then have "distinct (map snd (nx_paths x))"
      unfolding x(1) distinct_map_sort .
    from filter_take_gone [OF this, of k]
    have "filter (\<lambda>p. snd p \<notin> ?gone) (nx_paths x) = drop k (nx_paths x)" .
    moreover have "sort_key fst (map ?pair (List.map_filter (inspect_file env io disk') (ni_listing io)))
        = filter (\<lambda>p. snd p \<notin> ?gone) (nx_paths x)"
      unfolding d map_filter_unlinked x(1) filter_sort by (simp add: filter_map comp_def snd_pair)
    ultimately have sorted: "sort_key fst (map ?pair (List.map_filter (inspect_file env io disk') (ni_listing io))) = drop k (nx_paths x)"
      by simp
    then have "length (List.map_filter (inspect_file env io disk') (ni_listing io)) = min limit (nx_entry_count x)"
      using len by (metis length_map length_sort)
    moreover have "verified_entries_dir io disk' = Inr ()" using ok(1) by (auto simp: d verified_entries_dir_def split: if_splits)
    ultimately show ?thesis using ok(2) sorted by (simp add: cache_inspect_def Let_def)
  qed
qed

section \<open>Transfer\<close>

lemma import_entries_stored:
  assumes "import_entries env ios es disk = (Inr u, disk')" "distinct (map ne_key_digest es)"
  shows "(\<forall>e \<in> set es. \<exists>bytes leaf. nv_entry_to_vec env e = Some bytes \<and> key_digest_leaf (ne_key_digest e) = Some leaf
      \<and> nd_entries disk' leaf = Some bytes)
    \<and> (\<forall>leaf. (\<forall>e \<in> set es. key_digest_leaf (ne_key_digest e) \<noteq> Some leaf) \<longrightarrow> nd_entries disk' leaf = nd_entries disk leaf)
    \<and> (es \<noteq> [] \<longrightarrow> nd_entries_kind disk' = Some RealDir)"
  using assms
proof (induction es arbitrary: disk)
  case (Cons e es)
  obtain d1 u1 where put: "cache_put env (ios (length es)) e disk = (Inr u1, d1)"
    and rest: "import_entries env ios es d1 = (Inr u, disk')"
    using Cons.prems(1) by (auto split: option.splits NodeCacheLookup.splits prod.splits sum.splits)
  obtain bytes leaf where b: "nv_entry_to_vec env e = Some bytes" "key_digest_leaf (ne_key_digest e) = Some leaf"
    "nd_entries d1 = (nd_entries disk)(leaf \<mapsto> bytes)" "nd_entries_kind d1 = Some RealDir"
    using cache_putE [OF put] .
  have "distinct (map ne_key_digest es)" using Cons.prems(2) by simp
  note IH = Cons.IH [OF rest this]
  have "\<forall>e' \<in> set es. key_digest_leaf (ne_key_digest e') \<noteq> Some leaf"
    using key_digest_leaf_inj [OF b(2)] Cons.prems(2) by force
  then have "nd_entries disk' leaf = Some bytes" using IH b(3) by simp
  moreover have "nd_entries_kind disk' = Some RealDir" using IH b(4) rest by (cases es) auto
  moreover have "nd_entries disk' l = nd_entries disk l"
    if "\<forall>e' \<in> set (e # es). key_digest_leaf (ne_key_digest e') \<noteq> Some l" for l
    using IH b(2,3) that by auto
  ultimately show ?case using b(1,2) IH by auto
qed simp

lemma export_entries_found:
  assumes "\<forall>p \<in> set paths. inspect_file env io disk (snd p) = Some (f p, snd p)" "healthy io"
  shows "export_entries env io disk paths = Inr (map f paths)"
  using assms
proof (induction paths)
  case (Cons p paths)
  obtain d leaf where p: "p = (d, leaf)" by (cases p)
  have "inspect_file env io disk leaf = Some (f p, leaf)" using Cons.prems(1) p by simp
  then show ?case using Cons p
    by (auto simp: inspect_file_def healthy_def split: option.splits if_splits NodeCacheLookup.splits)
qed simp

text \<open>Every file stands under the name of its key.\<close>

definition well_named :: "'v NodeEnv \<Rightarrow> NodeDisk \<Rightarrow> bool" where
  "well_named env disk \<longleftrightarrow>
     (\<forall>leaf bytes e. nd_entries disk leaf = Some bytes \<longrightarrow> verify_entry env bytes None = CacheHit e \<longrightarrow>
        key_digest_leaf (ne_key_digest e) = Some leaf)"

lemma inspect_file_verified:
  "healthy io \<Longrightarrow> inspect_file env io disk leaf = Some (e, l) \<longleftrightarrow>
     l = leaf \<and> (\<exists>bytes. nd_entries disk leaf = Some bytes \<and> verify_entry env bytes None = CacheHit e)"
  by (auto simp: inspect_file_def healthy_def split: option.splits NodeCacheLookup.splits)

lemma export_list:
  assumes "cache_export env io disk = Inr bytes" "healthy io"
  obtains es where "nv_entries_to_vec env es = Some bytes"
    "mset es = mset (map fst (List.map_filter (inspect_file env io disk) (ni_listing io)))"
proof -
  let ?found = "List.map_filter (inspect_file env io disk) (ni_listing io)"
  let ?pair = "\<lambda>(cached, leaf). (ne_key_digest cached, leaf)"
  let ?entry = "\<lambda>p. fst (the (inspect_file env io disk (snd p)))"
  let ?paths = "sort_key fst (map ?pair ?found)"
  have found: "inspect_file env io disk (snd q) = Some q" if "q \<in> set ?found" for q
    using that by (cases q rule: prod.exhaust) (auto simp: in_map_filter dest: inspect_file_leaf)
  have "inspect_file env io disk (snd p) = Some (?entry p, snd p)" if p: "p \<in> set ?paths" for p
  proof -
    obtain q where "q \<in> set ?found" "p = ?pair q" using p by auto
    then show ?thesis using found [of q] by (cases q rule: prod.exhaust) simp
  qed
  then have ex: "export_entries env io disk ?paths = Inr (map ?entry ?paths)"
    by (intro export_entries_found ballI assms(2))
  obtain x where x: "cache_inspect env io disk = Inr x" using assms(1) by (auto simp: cache_export_def res_iffs)
  then have "nx_paths x = ?paths" by (auto simp: cache_inspect_def Let_def res_iffs split: if_splits)
  then have to_vec: "nv_entries_to_vec env (map ?entry ?paths) = Some bytes"
    using assms(1) ex x by (auto simp: cache_export_def split: option.splits)
  have "?entry (?pair q) = fst q" if "q \<in> set ?found" for q
    using found [OF that] by (simp add: split_beta)
  then have "map ?entry (map ?pair ?found) = map fst ?found" by (simp only: list.map_comp comp_def cong: map_cong)
  moreover have "mset (map ?entry ?paths) = mset (map ?entry (map ?pair ?found))" by (simp only: mset_map mset_sort)
  ultimately have "mset (map ?entry ?paths) = mset (map fst ?found)" by (simp only:)
  with to_vec show ?thesis by (rule that)
qed

lemma export_import:
  assumes export: "cache_export env io disk = Inr bytes" and well: "healthy io" "healthy io'"
    and names: "well_named env disk" "distinct (ni_listing io)"
    and array: "\<And>es. nv_entries_to_vec env es = Some bytes \<Longrightarrow> nv_entries_from_slice env bytes = Some es"
    and import: "cache_import env ios bytes target = (Inr n, target')"
    and json: "survives_json env e"
    and leaf: "leaf \<in> set (ni_listing io)" "nd_entries disk leaf = Some file" "verify_entry env file None = CacheHit e"
    and key: "nk_digest key = ne_key_digest e"
  shows "cache_lookup env io' key target' = Inr (CacheHit e)"
proof -
  let ?found = "List.map_filter (inspect_file env io disk) (ni_listing io)"
  obtain es where es: "nv_entries_to_vec env es = Some bytes" "mset es = mset (map fst ?found)"
    using export_list [OF export well(1)] .
  have imp: "import_entries env ios es target = (Inr (), target')"
    using import array [OF es(1)] by (auto simp: cache_import_def split: sum.splits prod.splits)
  have named: "key_digest_leaf (ne_key_digest (fst q)) = Some (snd q)" if "q \<in> set ?found" for q
    using that names(1) inspect_file_verified [OF well(1), of env disk]
    by (cases q rule: prod.exhaust) (auto simp: in_map_filter well_named_def)
  have "distinct (map (\<lambda>q. key_digest_leaf (ne_key_digest (fst q))) ?found)"
    using map_filter_inspect_leaves [OF names(2), of env io disk] named
    by (simp add: distinct_map inj_on_def)
  then have "distinct (map ne_key_digest (map fst ?found))"
    by (auto simp: distinct_map inj_on_def)
  then have dist: "distinct (map ne_key_digest es)" using es(2) by (metis mset_map mset_eq_imp_distinct_iff)
  have "inspect_file env io disk leaf = Some (e, leaf)" using inspect_file_verified [OF well(1)] leaf by blast
  then have "e \<in> fst ` set ?found" using leaf(1) by (force simp: in_map_filter)
  then have e: "e \<in> set es" using es(2) by (metis list.set_map mset_eq_setD)
  obtain b l where b: "nv_entry_to_vec env e = Some b" "key_digest_leaf (ne_key_digest e) = Some l" "nd_entries target' l = Some b"
    and real: "nd_entries_kind target' = Some RealDir"
    using import_entries_stored [OF imp dist] e by fastforce
  have "nv_entry_from_slice env b = Some e" using json b(1) by (simp add: survives_json_def)
  then have "verify_entry env b (Some (nk_digest key)) = CacheHit e"
    using leaf(3) key by (simp add: verify_entry_hit_iff)
  then show ?thesis using healthy_lookup [OF well(2) real, of key l env] b(2,3) key by simp
qed

section \<open>Properties\<close>

definition sample_digest :: string where
  "sample_digest = ''sha256:'' @ replicate 64 (CHR ''0'')"

definition sample_leaf :: string where
  "sample_leaf = ''sha256-'' @ replicate 64 (CHR ''0'')"

definition sample_material :: NodeCacheKeyMaterial where
  "sample_material = \<lparr>nm_workflow_id = ''w'', nm_workflow_version = ''1'', nm_node_id = ''n'', nm_node_version = ''1'',
     nm_invocation_identity = ''i'', nm_input_artifact_hashes = [''b'', ''a''], nm_request_input_digest = ''r'', nm_policy_digest = ''p''\<rparr>"

definition sample_node_key :: NodeCacheKey where
  "sample_node_key = \<lparr>nk_digest = sample_digest, nk_workflow_id = ''w'', nk_workflow_version = ''1'', nk_node_id = ''n'',
     nk_node_version = ''1'', nk_invocation_identity = ''i'', nk_input_artifact_hashes = [''a'', ''b''],
     nk_request_input_digest = ''r'', nk_policy_digest = ''p''\<rparr>"

definition sample_node_entry :: "nat NodeCacheEntry" where
  "sample_node_entry = \<lparr>ne_schema_version = 1, ne_key_digest = sample_digest, ne_payload = 5, ne_payload_sha256 = sample_digest,
     ne_outcome = CacheSuccess, ne_provenance = CacheProvenance_from_key sample_node_key\<rparr>"

definition sample_node_env :: "nat NodeEnv" where
  "sample_node_env = \<lparr>nv_sha256 = (\<lambda>_. replicate 32 0), nv_value_to_vec = (\<lambda>v. Some [word_of_nat v]),
     nv_entry_to_vec = (\<lambda>e. if e = sample_node_entry then Some [1] else None),
     nv_entry_from_slice = (\<lambda>b. if b = [1] then Some sample_node_entry else None),
     nv_entries_to_vec = (\<lambda>es. if es = [sample_node_entry] then Some [3] else None),
     nv_entries_from_slice = (\<lambda>b. if b = [3] then Some [sample_node_entry] else None), nv_null = 0\<rparr>"

definition sample_io :: NodeIo where
  "sample_io = \<lparr>ni_pid = ''7'', ni_tokens = (\<lambda>_. ''t''), ni_metadata_fails = False, ni_mkdir_fails = False, ni_has_parent = True,
     ni_sync_fails = (\<lambda>_. False), ni_create_fails = (\<lambda>_. False), ni_write_fails = False, ni_read_fails = (\<lambda>_. False),
     ni_link_fails = (\<lambda>_. False), ni_unlink_fails = (\<lambda>_. False), ni_list_fails = False, ni_listing = [sample_leaf], ni_race = None\<rparr>"

definition empty_disk :: NodeDisk where
  "empty_disk = \<lparr>nd_root_exists = True, nd_entries_kind = Some RealDir, nd_root_files = Map.empty, nd_entries = Map.empty\<rparr>"

definition sample_disk :: NodeDisk where
  "sample_disk = empty_disk\<lparr>nd_entries := [sample_leaf \<mapsto> [1]]\<rparr>"

lemma sample_env_fields:
  "nv_entries_to_vec sample_node_env es = (if es = [sample_node_entry] then Some [3] else None)"
  "nv_entries_from_slice sample_node_env b = (if b = [3] then Some [sample_node_entry] else None)"
  "nv_entry_to_vec sample_node_env e = (if e = sample_node_entry then Some [1] else None)"
  by (simp_all add: sample_node_env_def)

lemma sample_io_fields:
  "ni_listing sample_io = [sample_leaf]" "\<not> ni_read_fails sample_io l" "\<not> ni_unlink_fails sample_io l"
  by (simp_all add: sample_io_def)

lemma sample_hash: "digest_bytes (nv_sha256 sample_node_env) x = sample_digest"
proof -
  have "encode_hex (replicate 32 0) = replicate 64 (CHR ''0'')" by code_simp
  then show ?thesis by (simp add: digest_bytes_def sample_node_env_def sample_digest_def)
qed

lemma sample_bind: "NodeCacheKey_bind (nv_sha256 sample_node_env) sample_material = Inr sample_node_key"
  unfolding NodeCacheKey_bind_def sample_hash by (simp add: sample_material_def sample_node_key_def)

lemma sample_payload: "payload_digest sample_node_env v = Inr sample_digest"
proof -
  have "\<exists>bs. nv_value_to_vec sample_node_env v = Some bs" by (simp add: sample_node_env_def)
  then show ?thesis unfolding payload_digest_def by (auto simp: sample_hash)
qed

lemma sample_new: "NodeCacheEntry_new sample_node_env sample_node_key 5 CacheSuccess (CacheProvenance_from_key sample_node_key) = Inr sample_node_entry"
  unfolding NodeCacheEntry_new_def sample_payload by (simp add: sample_node_entry_def NODE_CACHE_SCHEMA_VERSION_def sample_node_key_def)

lemma sample_leaf_of: "key_digest_leaf sample_digest = Some sample_leaf"
  by code_simp

lemma sample_verifies: "verify_entry sample_node_env [1] None = CacheHit sample_node_entry"
  "verify_entry sample_node_env [1] (Some sample_digest) = CacheHit sample_node_entry"
proof -
  have entry: "nv_entry_from_slice sample_node_env [1] = Some sample_node_entry" by (simp add: sample_node_env_def)
  have key: "ne_key_digest sample_node_entry = sample_digest" "ne_payload_sha256 sample_node_entry = sample_digest"
    "ne_schema_version sample_node_entry = NODE_CACHE_SCHEMA_VERSION"
    by (simp_all add: sample_node_entry_def NODE_CACHE_SCHEMA_VERSION_def)
  have "\<exists>k. key_from_provenance (nv_sha256 sample_node_env) (ne_provenance sample_node_entry) = Inr k \<and> nk_digest k = sample_digest"
    unfolding key_from_provenance_def NodeCacheKey_bind_def sample_hash
    by (simp add: provenance_material_def sample_node_entry_def CacheProvenance_from_key_def sample_node_key_def)
  then show "verify_entry sample_node_env [1] None = CacheHit sample_node_entry"
    "verify_entry sample_node_env [1] (Some sample_digest) = CacheHit sample_node_entry"
    by (simp_all add: verify_entry_hit_iff entry key sample_payload sample_leaf_of)
qed

lemma sample_survives: "survives_json sample_node_env sample_node_entry"
  by (simp add: survives_json_def sample_node_env_def)

lemma sample_healthy: "healthy sample_io"
  by (simp add: healthy_def sample_io_def)

lemma sample_put: "cache_put sample_node_env sample_io sample_node_entry empty_disk = (Inr (), sample_disk)"
proof -
  have k: "ne_key_digest sample_node_entry = sample_digest" by (simp add: sample_node_entry_def)
  have "nv_entry_to_vec sample_node_env sample_node_entry = Some [1]" by (simp add: sample_node_env_def)
  moreover have "path_for sample_io empty_disk sample_digest = Inr sample_leaf"
    by (simp add: path_for_def sample_leaf_of verified_entries_dir_def sample_io_def empty_disk_def)
  ultimately show ?thesis
    by (simp add: cache_put_def k create_tmp_def sample_leaf_of eval_nat_numeral publish_def sync_entries_def sync_dir_def
        verified_entries_dir_def entry_link_def sample_disk_def sample_io_def empty_disk_def Let_def)
qed

lemma sample_lookup: "cache_lookup sample_node_env sample_io sample_node_key sample_disk = Inr (CacheHit sample_node_entry)"
  by (simp add: cache_lookup_def path_for_def sample_leaf_of verified_entries_dir_def sample_io_def sample_disk_def
      empty_disk_def sample_node_key_def sample_verifies)

lemma sample_inspect: "cache_inspect sample_node_env sample_io sample_disk
    = Inr \<lparr>nx_entry_count = Suc 0, nx_negative_entries = 0, nx_paths = [(sample_digest, sample_leaf)]\<rparr>"
  by (simp add: cache_inspect_def verified_entries_dir_def sample_io_def sample_disk_def empty_disk_def Let_def
      List.map_filter_simps inspect_file_def sample_verifies is_negative_def sample_node_entry_def)

text \<open>
  C28: a hit is never served for another invocation.  Whenever a key was bound from some identities
  and a lookup under it is a hit, the provenance stored in the entry is the provenance of that very key
  (the stored input hashes in any order): workflow, node and their versions, invocation identity,
  request digest, policy digest and input artifacts all agree.  The hypotheses are that the input hashes
  are non-empty lines and that SHA-256 does not collide on the two preimages at hand; the framing of the
  preimage is then unambiguous.
\<close>

theorem node_cache_hit_bound:
  assumes "NodeCacheKey_bind (nv_sha256 env) m = Inr key"
    and "cache_lookup env io key disk = Inr (CacheHit e)"
    and "list_all is_line (nm_input_artifact_hashes m)" "list_all is_line (cv_input_artifact_hashes (ne_provenance e))"
    and "nv_sha256 env (key_preimage m) = nv_sha256 env (key_preimage (provenance_material (ne_provenance e)))
      \<Longrightarrow> key_preimage m = key_preimage (provenance_material (ne_provenance e))"
  shows "CacheProvenance_from_key key
      = (ne_provenance e)\<lparr>cv_input_artifact_hashes := sort (cv_input_artifact_hashes (ne_provenance e))\<rparr>"
  using assms by (rule hit_provenance)

theorem node_cache_hit_bound_witness:
  "CacheProvenance_from_key sample_node_key
     = (ne_provenance sample_node_entry)\<lparr>cv_input_artifact_hashes := sort (cv_input_artifact_hashes (ne_provenance sample_node_entry))\<rparr>"
proof (rule node_cache_hit_bound [OF sample_bind sample_lookup])
  show "list_all is_line (nm_input_artifact_hashes sample_material)"
    by (simp add: sample_material_def is_line_def)
  show "list_all is_line (cv_input_artifact_hashes (ne_provenance sample_node_entry))"
    by (simp add: sample_node_entry_def CacheProvenance_from_key_def sample_node_key_def is_line_def)
  have "sort [''b'', ''a''] = [''a'', ''b'' :: string]" "sort [''a'', ''b''] = [''a'', ''b'' :: string]" by (simp_all add: less_char_def)
  then show "key_preimage sample_material = key_preimage (provenance_material (ne_provenance sample_node_entry))"
    by (simp add: key_preimage_def node_key_material_def provenance_material_def sample_node_entry_def CacheProvenance_from_key_def
        sample_node_key_def sample_material_def)
qed

text \<open>
  what is put is what is looked up.  An entry made for a bound key with that key's provenance, a
  success or a negative one, is returned by a later lookup under the key once a put of it has succeeded,
  whatever was in the directory before (an equal file, another file that had to be replaced, a concurrent
  writer in between), and lookups under every other key are not affected.
\<close>

theorem node_cache_put_lookup:
  assumes "NodeCacheKey_bind (nv_sha256 env) m = Inr key"
    and "NodeCacheEntry_new env key payload outcome (CacheProvenance_from_key key) = Inr e"
    and "survives_json env e" and "cache_put env io e disk = (Inr u, disk')"
    and "healthy io'" and "nd_entries_kind disk = Some RealDir"
  shows "cache_lookup env io' key disk' = Inr (CacheHit e)
    \<and> (\<forall>other. nk_digest other \<noteq> nk_digest key \<longrightarrow> cache_lookup env io' other disk' = cache_lookup env io' other disk)"
  using put_then_lookup [OF assms(1-5)] assms(6) by blast

theorem node_cache_put_lookup_witness:
  "cache_lookup sample_node_env sample_io sample_node_key sample_disk = Inr (CacheHit sample_node_entry)
   \<and> (\<forall>other. nk_digest other \<noteq> nk_digest sample_node_key \<longrightarrow>
        cache_lookup sample_node_env sample_io other sample_disk = cache_lookup sample_node_env sample_io other empty_disk)"
  using node_cache_put_lookup [OF sample_bind sample_new sample_survives sample_put sample_healthy]
  by (simp add: empty_disk_def)

text \<open>
  collection is exact.  A successful collection with a limit reports how many entries it removed,
  and an inspection afterwards finds exactly the entries found before without that many of the smallest
  key digests: never more than the limit, and never fewer than it has to keep.
\<close>

theorem node_cache_gc_exact:
  assumes "cache_inspect env io disk = Inr x" and "cache_gc env io (Some limit) disk = (Inr k, disk')"
    and "distinct (ni_listing io)"
  shows "k = nx_entry_count x - limit \<and> (\<exists>y. cache_inspect env io disk' = Inr y \<and> nx_paths y = drop k (nx_paths x)
     \<and> nx_entry_count y = min limit (nx_entry_count x))"
  using gc_keeps_latest [OF assms] by blast

theorem node_cache_gc_exact_witness:
  "\<exists>y. cache_inspect sample_node_env sample_io empty_disk = Inr y \<and> nx_paths y = []"
proof -
  have "remove_paths sample_io [(sample_digest, sample_leaf)] sample_disk = (Inr (), empty_disk)"
    by (simp add: sample_disk_def entry_unlink_def sample_io_def empty_disk_def)
  then have "cache_gc sample_node_env sample_io (Some 0) sample_disk = (Inr (Suc 0), empty_disk)"
    by (simp add: cache_gc_def sample_inspect Let_def sync_entries_def verified_entries_dir_def sync_dir_def)
      (simp add: sample_io_def empty_disk_def)
  from node_cache_gc_exact [OF sample_inspect this] show ?thesis by (auto simp: sample_io_fields)
qed

text \<open>
  a cache can be moved.  If every file stands under the name of its key, the export of a cache
  succeeds and an import of the exported bytes into any other cache succeeds, then each verified entry of
  the first cache is a hit of the second under its key.
\<close>

theorem node_cache_transfer:
  assumes "cache_export env io disk = Inr bytes" and "healthy io" "healthy io'"
    and "well_named env disk" "distinct (ni_listing io)"
    and "\<And>es. nv_entries_to_vec env es = Some bytes \<Longrightarrow> nv_entries_from_slice env bytes = Some es"
    and "cache_import env ios bytes target = (Inr n, target')"
    and "survives_json env e"
    and "leaf \<in> set (ni_listing io)" "nd_entries disk leaf = Some file" "verify_entry env file None = CacheHit e"
    and "nk_digest key = ne_key_digest e"
  shows "cache_lookup env io' key target' = Inr (CacheHit e)"
  using assms by (rule export_import)

theorem node_cache_transfer_witness:
  "cache_lookup sample_node_env sample_io sample_node_key sample_disk = Inr (CacheHit sample_node_entry)"
proof -
  have stored: "nd_entries sample_disk sample_leaf = Some [1]" by (simp add: sample_disk_def)
  show ?thesis
  proof (rule node_cache_transfer [OF _ sample_healthy sample_healthy _ _ _ _ sample_survives _ _ sample_verifies(1)])
    show "cache_export sample_node_env sample_io sample_disk = Inr [3]"
      using stored by (simp add: cache_export_def sample_inspect sample_verifies sample_io_fields sample_env_fields)
    show "cache_import sample_node_env (\<lambda>_. sample_io) [3] empty_disk = (Inr (Suc 0), sample_disk)"
      by (simp add: cache_import_def sample_verifies sample_put sample_env_fields)
    show "well_named sample_node_env sample_disk"
      by (auto simp: well_named_def sample_disk_def empty_disk_def sample_verifies sample_node_entry_def sample_leaf_of split: if_splits)
  qed (simp_all add: sample_io_fields sample_disk_def sample_env_fields sample_node_key_def sample_node_entry_def split: if_splits)
qed

end
