(* ===== verification/Sentinel_Correct.thy ===== *)
theory Sentinel_Correct
  imports Sentinel_Envelope Node_Cache_Correct
begin

text \<open>
  What preparation of untrusted text promises: the normalized view is the original text without the
  removed carriers, its source map points at exactly the original bytes of every scalar, the view is a
  fixed point, the envelope frames it unambiguously, and equal cache keys mean equal views.
\<close>

section \<open>The normalized view\<close>

definition kept :: "nat \<Rightarrow> bool" where
  "kept ch \<longleftrightarrow> carrier ch = None \<or> preserved_format ch"

definition normal_text :: "nat list \<Rightarrow> byte list" where
  "normal_text chars = concat (map utf8 (filter kept chars))"

lemma normal_text_simps [simp]:
  "normal_text [] = []"
  "normal_text (ch # chars) = (if kept ch then utf8 ch @ normal_text chars else normal_text chars)"
  by (simp_all add: normal_text_def)

text \<open>The source map and the annotations, without the loop: from source offset \<open>s\<close> and view offset \<open>n\<close>.\<close>

definition span_at :: "string \<Rightarrow> nat \<Rightarrow> nat \<Rightarrow> SourceSpan" where
  "span_at ident s ch = \<lparr>sp_artifact_id = ident, sp_start = word_of_nat s, sp_end = word_of_nat (s + length (utf8 ch))\<rparr>"

fun map_from :: "string \<Rightarrow> nat \<Rightarrow> nat \<Rightarrow> nat list \<Rightarrow> NormalizedSourceSpan list" where
  "map_from ident s n [] = []"
| "map_from ident s n (ch # chars) =
     (if kept ch
      then \<lparr>ns_normalized_start = n, ns_normalized_end = n + length (utf8 ch), ns_source = span_at ident s ch\<rparr>
        # map_from ident (s + length (utf8 ch)) (n + length (utf8 ch)) chars
      else map_from ident (s + length (utf8 ch)) n chars)"

fun annotations_from :: "string \<Rightarrow> nat \<Rightarrow> nat list \<Rightarrow> CarrierAnnotation list" where
  "annotations_from ident s [] = []"
| "annotations_from ident s (ch # chars) =
     (case carrier ch of
        Some kind \<Rightarrow> \<lparr>an_kind = kind, an_source = span_at ident s ch\<rparr> # annotations_from ident (s + length (utf8 ch)) chars
      | None \<Rightarrow> annotations_from ident (s + length (utf8 ch)) chars)"

lemma kept_iff: "carrier ch \<noteq> None \<and> \<not> preserved_format ch \<longleftrightarrow> \<not> kept ch"
  by (auto simp: kept_def)

lemma normalize_loop_Inr:
  assumes "normalize_loop clock k s chars r = Inr t"
  shows "cu_normalized t = cu_normalized r @ normal_text chars
    \<and> cu_source_map t = cu_source_map r @ map_from (cu_original_id r) s (length (cu_normalized r)) chars
    \<and> cu_annotations t = cu_annotations r @ annotations_from (cu_original_id r) s chars
    \<and> cu_original_id t = cu_original_id r \<and> cu_limits t = cu_limits r \<and> cu_work_units t = cu_work_units r \<and> cu_deadline t = cu_deadline r
    \<and> clock (k + length chars) < cu_deadline r
    \<and> (length (cu_normalized r) \<le> nl_max_output_bytes (cu_limits r) \<longrightarrow>
         length (cu_normalized r) + length (normal_text chars) \<le> nl_max_output_bytes (cu_limits r))"
  using assms
proof (induction chars arbitrary: k s r)
  case Nil
  then show ?case by (auto simp: res_iffs check_deadline_def split: if_splits)
next
  case (Cons ch chars)
  obtain source where src: "SourceSpan_new (cu_original_id r) (word_of_nat s) (word_of_nat (s + length (utf8 ch))) = Inr source"
    using Cons.prems by (auto simp: res_iffs map_err_Inr_iff)
  then have source: "source = span_at (cu_original_id r) s ch"
    by (auto simp: SourceSpan_new_def span_at_def split: if_splits)
  let ?r = "case carrier ch of Some kind \<Rightarrow> r\<lparr>cu_annotations := cu_annotations r @ [\<lparr>an_kind = kind, an_source = source\<rparr>]\<rparr> | None \<Rightarrow> r"
  have r: "cu_original_id ?r = cu_original_id r" "cu_normalized ?r = cu_normalized r" "cu_source_map ?r = cu_source_map r"
    "cu_limits ?r = cu_limits r" "cu_work_units ?r = cu_work_units r" "cu_deadline ?r = cu_deadline r"
    by (auto split: option.split)
  have ann: "cu_annotations ?r @ annotations_from (cu_original_id r) (s + length (utf8 ch)) chars
      = cu_annotations r @ annotations_from (cu_original_id r) s (ch # chars)"
    by (simp add: source split: option.split)
  show ?case
  proof (cases "kept ch")
    case False
    then have "normalize_loop clock (Suc k) (s + length (utf8 ch)) chars ?r = Inr t"
      using Cons.prems src kept_iff [of ch] by (auto simp: res_iffs Let_def)
    from Cons.IH [OF this] show ?thesis using False ann by (simp add: r)
  next
    case True
    then have small: "length (cu_normalized r) + length (utf8 ch) \<le> nl_max_output_bytes (cu_limits r)"
      and step: "normalize_loop clock (Suc k) (s + length (utf8 ch)) chars
        (?r\<lparr>cu_normalized := cu_normalized r @ utf8 ch, cu_source_map := cu_source_map r @
           [\<lparr>ns_normalized_start = length (cu_normalized r), ns_normalized_end = length (cu_normalized r @ utf8 ch), ns_source = source\<rparr>]\<rparr>) = Inr t"
      using Cons.prems src kept_iff [of ch] by (auto simp: res_iffs Let_def r split: if_splits)
    from Cons.IH [OF step] show ?thesis using True ann small by (simp add: r source)
  qed
qed

text \<open>A piece of a byte string.\<close>

definition slice :: "byte list \<Rightarrow> nat \<Rightarrow> nat \<Rightarrow> byte list" where
  "slice bytes a b = take (b - a) (drop a bytes)"

text \<open>An entry of a source map is faithful when both of its ranges hold the same bytes.\<close>

definition faithful_span :: "string \<Rightarrow> byte list \<Rightarrow> byte list \<Rightarrow> NormalizedSourceSpan \<Rightarrow> bool" where
  "faithful_span ident raw view m \<longleftrightarrow>
     sp_artifact_id (ns_source m) = ident \<and> ns_normalized_start m < ns_normalized_end m \<and> ns_normalized_end m \<le> length view
     \<and> unat (sp_end (ns_source m)) \<le> length raw
     \<and> slice view (ns_normalized_start m) (ns_normalized_end m) = slice raw (unat (sp_start (ns_source m))) (unat (sp_end (ns_source m)))"

text \<open>The view ranges follow each other without gap or overlap, and so do not reach backwards in the source.\<close>

fun tiles :: "nat \<Rightarrow> NormalizedSourceSpan list \<Rightarrow> nat \<Rightarrow> bool" where
  "tiles n [] size_of_view \<longleftrightarrow> n = size_of_view"
| "tiles n (m # ms) size_of_view \<longleftrightarrow>
     ns_normalized_start m = n \<and> tiles (ns_normalized_end m) ms size_of_view
     \<and> list_all (\<lambda>m'. sp_end (ns_source m) \<le> sp_start (ns_source m')) ms"

lemma unat_small: "n < 18446744073709551616 \<Longrightarrow> unat (word_of_nat n :: u64) = n"
  by (simp add: unat_of_nat)

lemma span_at_unat:
  assumes "s + length (utf8 ch) < 18446744073709551616"
  shows "unat (sp_start (span_at ident s ch)) = s" "unat (sp_end (span_at ident s ch)) = s + length (utf8 ch)"
    "sp_artifact_id (span_at ident s ch) = ident"
  using assms unat_small [of s] unat_small [of "s + length (utf8 ch)"] by (simp_all add: span_at_def del: of_nat_add)

lemma map_from_faithful:
  assumes "length p = s" "length q = n" "s + length (concat (map utf8 chars)) < 18446744073709551616"
  shows "list_all (faithful_span ident (p @ concat (map utf8 chars)) (q @ normal_text chars)) (map_from ident s n chars)"
  using assms
proof (induction chars arbitrary: p q s n)
  case (Cons ch chars)
  have rest: "list_all (faithful_span ident ((p @ utf8 ch) @ concat (map utf8 chars)) (q' @ normal_text chars))
      (map_from ident (s + length (utf8 ch)) (length q') chars)" for q'
    using Cons.IH [of "p @ utf8 ch" "s + length (utf8 ch)" q' "length q'"] Cons.prems by simp
  show ?case
  proof (cases "kept ch")
    case True
    have fit: "s + length (utf8 ch) < 18446744073709551616" using Cons.prems(3) by simp
    have "faithful_span ident (p @ utf8 ch @ concat (map utf8 chars)) (q @ utf8 ch @ normal_text chars)
        \<lparr>ns_normalized_start = n, ns_normalized_end = n + length (utf8 ch), ns_source = span_at ident s ch\<rparr>"
      using Cons.prems(1,2) by (simp add: faithful_span_def span_at_unat [OF fit] slice_def)
    then show ?thesis using True rest [of "q @ utf8 ch"] Cons.prems(2) by simp
  next
    case False
    then show ?thesis using rest [of q] Cons.prems(2) by simp
  qed
qed simp

lemma map_from_starts:
  assumes "s + length (concat (map utf8 chars)) < 18446744073709551616"
  shows "list_all (\<lambda>m. s \<le> unat (sp_start (ns_source m))) (map_from ident s n chars)"
  using assms
proof (induction chars arbitrary: s n)
  case (Cons ch chars)
  have "list_all (\<lambda>m. s \<le> unat (sp_start (ns_source m))) (map_from ident (s + length (utf8 ch)) n' chars)" for n'
    using Cons.IH [of "s + length (utf8 ch)" n'] Cons.prems by (auto simp: list_all_iff)
  moreover have "s + length (utf8 ch) < 18446744073709551616" using Cons.prems by simp
  ultimately show ?case by (simp add: span_at_unat)
qed simp

lemma map_from_tiles:
  assumes "s + length (concat (map utf8 chars)) < 18446744073709551616"
  shows "tiles n (map_from ident s n chars) (n + length (normal_text chars))"
  using assms
proof (induction chars arbitrary: s n)
  case (Cons ch chars)
  have fit: "s + length (utf8 ch) + length (concat (map utf8 chars)) < 18446744073709551616" using Cons.prems by simp
  show ?case
  proof (cases "kept ch")
    case True
    have "list_all (\<lambda>m. sp_end (span_at ident s ch) \<le> sp_start (ns_source m)) (map_from ident (s + length (utf8 ch)) (n + length (utf8 ch)) chars)"
      using map_from_starts [OF fit] fit by (auto simp: list_all_iff word_le_nat_alt span_at_unat)
    then show ?thesis using True Cons.IH [OF fit, of "n + length (utf8 ch)"] by (simp add: normal_text_def add.assoc)
  next
    case False
    then show ?thesis using Cons.IH [OF fit, of n] by simp
  qed
qed simp

lemma prepared_Inr:
  assumes "prepare_retained_untrusted_text sha256 clock raw ident limits started = Prepared t"
  obtains chars where "from_utf8 raw = Some chars" "ident = encode_hex (sha256 raw)" "cu_original_id t = ident"
    "cu_normalized t = normal_text chars" "cu_source_map t = map_from ident 0 0 chars"
    "cu_annotations t = annotations_from ident 0 chars" "cu_limits t = limits" "length raw \<le> 1048576"
    "length (cu_normalized t) \<le> nl_max_output_bytes limits" "cu_deadline t = started + 1000000000"
proof -
  have adm: "length raw \<le> 1048576" and ident: "ident = encode_hex (sha256 raw)"
    and norm: "normalize (\<lambda>n. clock (Suc n)) raw ident limits (started + 1000000000) = Inr t"
    using assms by (auto simp: prepare_retained_untrusted_text_def admission_rejection_def Let_def
        SENTINEL_PREPARATION_BUDGET_MS_def split: option.splits sum.splits if_splits)
  obtain chars where c: "from_utf8 raw = Some chars"
    and loop: "normalize_loop (\<lambda>n. clock (Suc n)) 1 0 chars \<lparr>cu_original_id = ident, cu_normalized = [], cu_source_map = [],
      cu_annotations = [], cu_limits = limits, cu_work_units = length raw, cu_deadline = started + 1000000000\<rparr> = Inr t"
    using norm by (auto simp: normalize_def res_iffs split: option.splits if_splits)
  from normalize_loop_Inr [OF loop] show ?thesis by (intro that [OF c ident]) (simp_all add: adm)
qed

lemma annotations_kinds: "map an_kind (annotations_from ident s chars) = List.map_filter carrier chars"
  by (induction chars arbitrary: s) (auto simp: List.map_filter_simps split: option.split)

lemma prepared_faithful:
  assumes "prepare_retained_untrusted_text sha256 clock raw ident limits started = Prepared t"
  shows "\<exists>chars. raw = concat (map utf8 chars) \<and> list_all scalar chars \<and> cu_normalized t = normal_text chars
     \<and> list_all (faithful_span ident raw (cu_normalized t)) (cu_source_map t)
     \<and> tiles 0 (cu_source_map t) (length (cu_normalized t))
     \<and> map an_kind (cu_annotations t) = List.map_filter carrier chars
     \<and> ident = encode_hex (sha256 raw) \<and> cu_original_id t = ident
     \<and> length (cu_normalized t) \<le> nl_max_output_bytes limits"
proof -
  obtain chars where c: "from_utf8 raw = Some chars" and t: "ident = encode_hex (sha256 raw)" "cu_original_id t = ident"
    "cu_normalized t = normal_text chars" "cu_source_map t = map_from ident 0 0 chars"
    "cu_annotations t = annotations_from ident 0 chars" "length raw \<le> 1048576"
    "length (cu_normalized t) \<le> nl_max_output_bytes limits"
    using prepared_Inr [OF assms] by metis
  have raw: "raw = concat (map utf8 chars)" "list_all scalar chars" using c by (simp_all add: from_utf8_iff)
  have fit: "0 + length (concat (map utf8 chars)) < 18446744073709551616" using t(6) raw(1) by simp
  have "list_all (faithful_span ident raw (cu_normalized t)) (cu_source_map t)"
    using map_from_faithful [of "[]" 0 "[]" 0 chars ident] fit by (simp add: t(3,4) raw(1))
  moreover have "tiles 0 (cu_source_map t) (length (cu_normalized t))"
    using map_from_tiles [OF fit, of 0 ident] by (simp add: t(3,4))
  ultimately show ?thesis using raw t by (intro exI [of _ chars]) (simp add: annotations_kinds)
qed

lemma scalar_filter: "list_all scalar chars \<Longrightarrow> list_all scalar (filter P chars)"
  by (auto simp: list_all_iff)

lemma prepared_fixed:
  assumes "prepare_retained_untrusted_text sha256 clock raw ident limits started = Prepared t"
    and "prepare_retained_untrusted_text sha256' clock' (cu_normalized t) ident' limits' started' = Prepared t'"
  shows "cu_normalized t' = cu_normalized t"
proof -
  obtain chars where c: "list_all scalar chars" "cu_normalized t = normal_text chars"
    using prepared_faithful [OF assms(1)] by blast
  obtain chars' where c': "cu_normalized t = concat (map utf8 chars')" "list_all scalar chars'" "cu_normalized t' = normal_text chars'"
    using prepared_faithful [OF assms(2)] by blast
  have "from_utf8 (cu_normalized t) = Some (filter kept chars)"
    using from_utf8_complete [OF scalar_filter [OF c(1)], of kept] c(2) by (simp add: normal_text_def)
  moreover have "from_utf8 (cu_normalized t) = Some chars'" using from_utf8_complete [OF c'(2)] c'(1) by simp
  ultimately have "chars' = filter kept chars" by simp
  then show ?thesis using c c' by (simp add: normal_text_def)
qed

section \<open>Success\<close>

lemma utf8_span_new:
  assumes "lower_hex64 ident" "s + length (utf8 ch) < 18446744073709551616"
  shows "SourceSpan_new ident (word_of_nat s) (word_of_nat (s + length (utf8 ch))) = Inr (span_at ident s ch)"
proof -
  have "unat (word_of_nat s :: u64) < unat (word_of_nat (s + length (utf8 ch)) :: u64)"
    using unat_small [of s] unat_small [OF assms(2)] assms(2) by (simp del: of_nat_add)
  then show ?thesis using assms(1) by (simp add: SourceSpan_new_def span_at_def word_le_nat_alt del: of_nat_add)
qed

lemma normalize_loop_total:
  assumes "lower_hex64 (cu_original_id r)" "\<And>j. clock j < cu_deadline r"
    and "s + length (concat (map utf8 chars)) < 18446744073709551616"
    and "length (cu_normalized r) + length (normal_text chars) \<le> nl_max_output_bytes (cu_limits r)"
  shows "\<exists>t. normalize_loop clock k s chars r = Inr t"
  using assms
proof (induction chars arbitrary: k s r)
  case Nil
  then have "\<not> cu_deadline r \<le> clock k" by (simp add: not_le)
  then show ?case by (simp add: check_deadline_def)
next
  case (Cons ch chars)
  have clock: "check_deadline (clock k) (cu_deadline r) = Inr ()"
    using Cons.prems(2) [of k] by (simp add: check_deadline_def)
  have source: "SourceSpan_new (cu_original_id r) (word_of_nat s) (word_of_nat (s + length (utf8 ch))) = Inr (span_at (cu_original_id r) s ch)"
    using utf8_span_new Cons.prems(1,3) by simp
  let ?source = "span_at (cu_original_id r) s ch"
  let ?r = "case carrier ch of Some kind \<Rightarrow> r\<lparr>cu_annotations := cu_annotations r @ [\<lparr>an_kind = kind, an_source = ?source\<rparr>]\<rparr> | None \<Rightarrow> r"
  let ?q = "?r\<lparr>cu_normalized := cu_normalized r @ utf8 ch, cu_source_map := cu_source_map r @
     [\<lparr>ns_normalized_start = length (cu_normalized r), ns_normalized_end = length (cu_normalized r @ utf8 ch), ns_source = ?source\<rparr>]\<rparr>"
  have r: "cu_original_id ?r = cu_original_id r" "cu_normalized ?r = cu_normalized r" "cu_source_map ?r = cu_source_map r"
    "cu_limits ?r = cu_limits r" "cu_deadline ?r = cu_deadline r"
    by (auto split: option.split)
  have step: "normalize_loop clock k s (ch # chars) r = normalize_loop clock (Suc k) (s + length (utf8 ch)) chars (if kept ch then ?q else ?r)"
  proof (cases "kept ch")
    case True
    then have c: "(carrier ch \<noteq> None \<and> \<not> preserved_format ch) = False" using kept_iff [of ch] by blast
    have "\<not> nl_max_output_bytes (cu_limits r) < length (cu_normalized r) + length (utf8 ch)" using Cons.prems(4) True by simp
    then show ?thesis unfolding normalize_loop.simps clock source Let_def map_err.simps res_bind.simps c by (simp add: True r)
  next
    case False
    then have c: "(carrier ch \<noteq> None \<and> \<not> preserved_format ch) = True" using kept_iff [of ch] by blast
    show ?thesis unfolding normalize_loop.simps clock source Let_def map_err.simps res_bind.simps c by (simp add: False)
  qed
  show ?case unfolding step
  proof (rule Cons.IH)
    show "lower_hex64 (cu_original_id (if kept ch then ?q else ?r))" using Cons.prems(1) r by simp
    show "clock j < cu_deadline (if kept ch then ?q else ?r)" for j using Cons.prems(2) r by simp
    show "s + length (utf8 ch) + length (concat (map utf8 chars)) < 18446744073709551616" using Cons.prems(3) by simp
    show "length (cu_normalized (if kept ch then ?q else ?r)) + length (normal_text chars)
        \<le> nl_max_output_bytes (cu_limits (if kept ch then ?q else ?r))"
      using Cons.prems(4) r by (cases "kept ch") simp_all
  qed
qed

lemma prepared_total:
  assumes "raw = concat (map utf8 chars)" "list_all scalar chars" "raw \<noteq> []" "length (sha256 raw) = 32"
    and "length raw \<le> nl_max_input_bytes limits" "length raw \<le> nl_max_work_units limits"
    and "length (normal_text chars) \<le> nl_max_output_bytes limits"
    and "nl_max_input_bytes limits \<le> 1048576" "nl_max_output_bytes limits \<le> 4194304" "nl_max_work_units limits \<le> 16777216"
    and "\<And>n. started \<le> clock n \<and> clock n < started + 1000000000"
  shows "\<exists>t. prepare_retained_untrusted_text sha256 clock raw (encode_hex (sha256 raw)) limits started = Prepared t"
proof -
  let ?ident = "encode_hex (sha256 raw)"
  have ident: "lower_hex64 ?ident"
    using hex_lower assms(4) by (simp add: lower_hex64_def encode_hex_eq_hex length_hex)
  have adm: "admission_rejection (clock 0) raw limits started = None"
    using assms(3,5,8-10) assms(11) [of 0] by (simp add: admission_rejection_def)
  obtain t where loop: "normalize_loop (\<lambda>n. clock (Suc n)) 1 0 chars \<lparr>cu_original_id = ?ident, cu_normalized = [], cu_source_map = [],
      cu_annotations = [], cu_limits = limits, cu_work_units = length raw, cu_deadline = started + 1000000000\<rparr> = Inr t"
    using normalize_loop_total [of "\<lparr>cu_original_id = ?ident, cu_normalized = [], cu_source_map = [], cu_annotations = [],
        cu_limits = limits, cu_work_units = length raw, cu_deadline = started + 1000000000\<rparr>" "\<lambda>n. clock (Suc n)" 0 chars 1]
      ident assms by auto
  have "from_utf8 raw = Some chars" using from_utf8_complete assms(1,2) by simp
  then have "normalize (\<lambda>n. clock (Suc n)) raw ?ident limits (started + 1000000000) = Inr t"
    using loop assms(6) assms(11) [of 1] by (simp add: normalize_def check_deadline_def)
  then show ?thesis
    using adm by (simp add: prepare_retained_untrusted_text_def Let_def SENTINEL_PREPARATION_BUDGET_MS_def)
qed

section \<open>The envelope\<close>

lemma str_bytes_append: "str_bytes (a @ b) = str_bytes a @ str_bytes b"
  by (simp add: str_bytes_def)

lemma envelope_inj:
  assumes "envelope s @ x = envelope t @ y"
  shows "cu_normalized s = cu_normalized t \<and> x = y"
proof -
  let ?d = "\<lambda>t. nat_decimal (length (cu_normalized t))"
  have "str_bytes (?d s @ [CHR 0x0A]) @ str_bytes [CHR 0x0A] @ cu_normalized s @ x
      = str_bytes (?d t @ [CHR 0x0A]) @ str_bytes [CHR 0x0A] @ cu_normalized t @ y"
    using assms by (simp add: envelope_def str_bytes_def)
  then have "str_bytes (?d s) @ of_char (CHR 0x0A) # str_bytes [CHR 0x0A] @ cu_normalized s @ x
      = str_bytes (?d t) @ of_char (CHR 0x0A) # str_bytes [CHR 0x0A] @ cu_normalized t @ y"
    by (simp add: str_bytes_def)
  moreover have "(of_char (CHR 0x0A) :: byte) \<notin> set (str_bytes (nat_decimal n))" for n
    unfolding str_bytes_def set_map image_iff using of_char_byte_inj newline_not_decimal [of n] by metis
  ultimately have "str_bytes (?d s) = str_bytes (?d t)"
    "str_bytes [CHR 0x0A] @ cu_normalized s @ x = str_bytes [CHR 0x0A] @ cu_normalized t @ y"
    using append_sep_inj by metis+
  then have "length (cu_normalized s) = length (cu_normalized t)" "cu_normalized s @ x = cu_normalized t @ y"
    using nat_decimal_inj by simp_all
  then show ?thesis by simp
qed

section \<open>Cache keys of prepared text\<close>

lemma hash_fields_inj:
  assumes "hash_fields sha256 fs = hash_fields sha256 gs" "length fs = length gs" "list_all fits fs" "list_all fits gs"
    and "inj_on sha256 A" "concat (map update_field fs) \<in> A" "concat (map update_field gs) \<in> A"
  shows "fs = gs"
proof -
  have "sha256 (concat (map update_field fs)) = sha256 (concat (map update_field gs))"
    using assms(1) by (auto simp: hash_fields_def encode_hex_eq_hex dest: hex_inj)
  then have "concat (map update_field fs) @ [] = concat (map update_field gs) @ []"
    using assms(5-7) by (simp add: inj_on_eq_iff)
  then show ?thesis using field.concat_cancel [OF assms(2-4)] by blast
qed

text \<open>Every byte string that the binding of a key hashes.\<close>

definition bind_preimages ::
    "(byte list \<Rightarrow> byte list) \<Rightarrow> byte list \<Rightarrow> CanonicalUntrustedText \<Rightarrow> NodeCacheKeyMaterial \<Rightarrow> ContentProvenance \<Rightarrow> byte list set" where
  "bind_preimages sha256 unicode t m p =
     {concat (map update_field (request_fields sha256 t (nm_request_input_digest m) p)),
      concat (map update_field [str_bytes (nm_policy_digest m), str_bytes (text_policy_digest sha256 unicode t)]),
      concat (map update_field (policy_fields unicode (cu_limits t))),
      cache_key_material p (str_bytes (cu_original_id t)),
      key_preimage (m\<lparr>nm_input_artifact_hashes := nm_input_artifact_hashes m @ [''sha256:'' @ cu_original_id t],
        nm_request_input_digest := hash_fields sha256 (request_fields sha256 t (nm_request_input_digest m) p),
        nm_policy_digest := hash_fields sha256 [str_bytes (nm_policy_digest m), str_bytes (text_policy_digest sha256 unicode t)]\<rparr>)}"

text \<open>Lengths and limits that a machine can hold.\<close>

definition bindable :: "byte list \<Rightarrow> CanonicalUntrustedText \<Rightarrow> NodeCacheKeyMaterial \<Rightarrow> ContentProvenance \<Rightarrow> bool" where
  "bindable unicode t m p \<longleftrightarrow>
     fits unicode \<and> fits (cu_normalized t) \<and> fits (cu_original_id t) \<and> fits (nm_request_input_digest m) \<and> fits (nm_policy_digest m)
     \<and> fits_provenance p \<and> nl_max_input_bytes (cu_limits t) \<le> 1048576 \<and> nl_max_output_bytes (cu_limits t) \<le> 4194304
     \<and> nl_max_work_units (cu_limits t) \<le> 16777216"

lemma fits_str_bytes_iff [simp]: "fits (str_bytes s) \<longleftrightarrow> fits s"
  by (simp add: fits_def)

lemma fits_to_be_bytes: "n < 100 \<Longrightarrow> fits (to_be_bytes n w)"
  by (simp add: fits_def)

lemma limit_word_inj:
  assumes "to_be_bytes 8 (word_of_nat a :: u64) = to_be_bytes 8 (word_of_nat b :: u64)" "a \<le> 16777216" "b \<le> 16777216"
  shows "a = b"
proof -
  have "(word_of_nat a :: u64) = word_of_nat b" using to_be_bytes_inj [OF _ assms(1)] by simp
  then have "unat (word_of_nat a :: u64) = unat (word_of_nat b :: u64)" by simp
  then show ?thesis using assms(2,3) by (simp add: unat_small)
qed

lemma policy_fields_fit: "fits unicode \<Longrightarrow> list_all fits (policy_fields unicode limits)"
  by (simp add: policy_fields_def fits_to_be_bytes)
    (simp add: fits_def SENTINEL_NORMALIZATION_VERSION_def SENTINEL_CARRIER_VERSION_def SENTINEL_SEGMENTATION_VERSION_def
      SENTINEL_SCRIPT_DATA_VERSION_def SECURITY_MODEL_VERSION_def)

lemma key_digest_inj:
  assumes "NodeCacheKey_bind sha256 m = Inr k" "NodeCacheKey_bind sha256 n = Inr l" "nk_digest k = nk_digest l"
    and "inj_on sha256 A" "key_preimage m \<in> A" "key_preimage n \<in> A"
  shows "node_key_material m = node_key_material n"
proof -
  have "sha256 (key_preimage m) = sha256 (key_preimage n)"
    using key_bind_Inr(1) [OF assms(1)] key_bind_Inr(1) [OF assms(2)] assms(3) by (simp add: digest_bytes_inj key_preimage_def)
  then have "key_preimage m = key_preimage n" using assms(4-6) by (simp add: inj_on_eq_iff)
  then show ?thesis by (simp add: key_preimage_def)
qed

lemma hash_fields_fits: "(\<And>x. length (sha256 x) = 32) \<Longrightarrow> fits (hash_fields sha256 fs)"
  by (simp add: hash_fields_def fits_def encode_hex_eq_hex length_hex)

lemma text_bind_Inr:
  assumes "text_bind_cache_key sha256 unicode t m p = Inr k"
  shows "NodeCacheKey_bind sha256 (m\<lparr>nm_input_artifact_hashes := nm_input_artifact_hashes m @ [''sha256:'' @ cu_original_id t],
        nm_request_input_digest := hash_fields sha256 (request_fields sha256 t (nm_request_input_digest m) p),
        nm_policy_digest := hash_fields sha256 [str_bytes (nm_policy_digest m), str_bytes (text_policy_digest sha256 unicode t)]\<rparr>) = Inr k"
  using assms by (simp add: text_bind_cache_key_def Let_def split: if_splits)

lemma policy_fields_limits:
  assumes "policy_fields unicode s = policy_fields unicode' t"
    and "nl_max_input_bytes s \<le> 1048576" "nl_max_output_bytes s \<le> 4194304" "nl_max_work_units s \<le> 16777216"
    and "nl_max_input_bytes t \<le> 1048576" "nl_max_output_bytes t \<le> 4194304" "nl_max_work_units t \<le> 16777216"
  shows "s = t \<and> unicode = unicode'"
proof -
  have "nl_max_input_bytes s = nl_max_input_bytes t" "nl_max_output_bytes s = nl_max_output_bytes t"
    "nl_max_work_units s = nl_max_work_units t"
    using assms by (auto simp: policy_fields_def intro!: limit_word_inj)
  then show ?thesis using assms(1) by (simp add: policy_fields_def NormalizationLimits.equality)
qed

text \<open>What the key of a prepared view binds, given that the hash separates the byte strings at hand.\<close>

lemma bound_view:
  assumes k: "text_bind_cache_key sha256 unicode s m p = Inr k"
    and l: "text_bind_cache_key sha256 unicode' t n q = Inr l"
    and eq: "nk_digest k = nk_digest l"
    and fit: "bindable unicode s m p" "bindable unicode' t n q"
    and len: "\<And>x. length (sha256 x) = 32"
    and apart: "inj_on sha256 (bind_preimages sha256 unicode s m p \<union> bind_preimages sha256 unicode' t n q)"
  shows "cu_original_id s = cu_original_id t \<and> cu_normalized s = cu_normalized t \<and> cu_limits s = cu_limits t
    \<and> p = q \<and> unicode = unicode' \<and> nm_workflow_id m = nm_workflow_id n \<and> nm_workflow_version m = nm_workflow_version n
    \<and> nm_node_id m = nm_node_id n \<and> nm_node_version m = nm_node_version n
    \<and> nm_invocation_identity m = nm_invocation_identity n
    \<and> nm_request_input_digest m = nm_request_input_digest n \<and> nm_policy_digest m = nm_policy_digest n"
proof -
  let ?A = "bind_preimages sha256 unicode s m p \<union> bind_preimages sha256 unicode' t n q"
  note eqs = node_key_material_fields [OF key_digest_inj [OF text_bind_Inr [OF k] text_bind_Inr [OF l] eq apart]]
  have mem: "concat (map update_field (request_fields sha256 s (nm_request_input_digest m) p)) \<in> ?A"
    "concat (map update_field (request_fields sha256 t (nm_request_input_digest n) q)) \<in> ?A"
    "concat (map update_field [str_bytes (nm_policy_digest m), str_bytes (text_policy_digest sha256 unicode s)]) \<in> ?A"
    "concat (map update_field [str_bytes (nm_policy_digest n), str_bytes (text_policy_digest sha256 unicode' t)]) \<in> ?A"
    "concat (map update_field (policy_fields unicode (cu_limits s))) \<in> ?A"
    "concat (map update_field (policy_fields unicode' (cu_limits t))) \<in> ?A"
    "cache_key_material p (str_bytes (cu_original_id s)) \<in> ?A" "cache_key_material q (str_bytes (cu_original_id t)) \<in> ?A"
    unfolding bind_preimages_def by blast+
  have ids: "nm_workflow_id m = nm_workflow_id n" "nm_workflow_version m = nm_workflow_version n"
    "nm_node_id m = nm_node_id n" "nm_node_version m = nm_node_version n" "nm_invocation_identity m = nm_invocation_identity n"
    and req: "hash_fields sha256 (request_fields sha256 s (nm_request_input_digest m) p)
      = hash_fields sha256 (request_fields sha256 t (nm_request_input_digest n) q)"
    and pol: "hash_fields sha256 [str_bytes (nm_policy_digest m), str_bytes (text_policy_digest sha256 unicode s)]
      = hash_fields sha256 [str_bytes (nm_policy_digest n), str_bytes (text_policy_digest sha256 unicode' t)]"
    using eqs by (simp_all add: bind_preimages_def)
  have small: "fits x" if "length x = 32" for x :: "byte list" using that by (simp add: fits_def)
  have "request_fields sha256 s (nm_request_input_digest m) p = request_fields sha256 t (nm_request_input_digest n) q"
    using fit by (intro hash_fields_inj [OF req _ _ _ apart mem(1,2)])
      (simp_all add: request_fields_def bindable_def cache_key_def small len)
  then have 1: "nm_request_input_digest m = nm_request_input_digest n" "cu_original_id s = cu_original_id t"
    "cu_normalized s = cu_normalized t" "cache_key sha256 p (str_bytes (cu_original_id s)) = cache_key sha256 q (str_bytes (cu_original_id t))"
    unfolding request_fields_def by auto
  have "cache_key_material p (str_bytes (cu_original_id s)) = cache_key_material q (str_bytes (cu_original_id t))"
    using 1(4) inj_on_eq_iff [OF apart mem(7,8)] by (simp add: cache_key_def)
  then have prov: "p = q"
    using cache_key_material_eq [of p q "str_bytes (cu_original_id s)" "str_bytes (cu_original_id t)"] fit
    by (cases p; cases q) (simp add: bindable_def)
  have "[str_bytes (nm_policy_digest m), str_bytes (text_policy_digest sha256 unicode s)]
      = [str_bytes (nm_policy_digest n), str_bytes (text_policy_digest sha256 unicode' t)]"
    using fit by (intro hash_fields_inj [OF pol _ _ _ apart mem(3,4)])
      (simp_all add: bindable_def text_policy_digest_def hash_fields_fits len)
  then have 2: "nm_policy_digest m = nm_policy_digest n"
    "hash_fields sha256 (policy_fields unicode (cu_limits s)) = hash_fields sha256 (policy_fields unicode' (cu_limits t))"
    by (simp_all add: text_policy_digest_def)
  have "policy_fields unicode (cu_limits s) = policy_fields unicode' (cu_limits t)"
    using fit by (intro hash_fields_inj [OF 2(2) _ _ _ apart mem(5,6)])
      (simp_all add: bindable_def policy_fields_fit, simp add: policy_fields_def)
  then have "cu_limits s = cu_limits t \<and> unicode = unicode'" using fit policy_fields_limits by (simp add: bindable_def)
  then show ?thesis using ids 1 2(1) prov by simp
qed

section \<open>Properties\<close>

text \<open>
  C26: the prepared view of untrusted text is faithful.  Whenever preparation succeeds, the original bytes
  are valid UTF-8 and have the artifact identity under which they are retained; the view is the original
  without the scalars that carry hidden text (zero-width, bidirectional and control characters, joiners and
  variation selectors kept) and within the output limit; the source map tiles the view in source order and
  each of its entries names original bytes equal to the bytes of the view; and every carrier of the
  original, kept or removed, is annotated in order.
\<close>

theorem prepared_text_faithful:
  assumes "prepare_retained_untrusted_text sha256 clock raw ident limits started = Prepared t"
  shows "\<exists>chars. raw = concat (map utf8 chars) \<and> list_all scalar chars \<and> cu_normalized t = normal_text chars
     \<and> list_all (faithful_span ident raw (cu_normalized t)) (cu_source_map t)
     \<and> tiles 0 (cu_source_map t) (length (cu_normalized t))
     \<and> map an_kind (cu_annotations t) = List.map_filter carrier chars
     \<and> ident = encode_hex (sha256 raw) \<and> cu_original_id t = ident
     \<and> length (cu_normalized t) \<le> nl_max_output_bytes limits"
  using assms by (rule prepared_faithful)

definition sample_sha :: "byte list \<Rightarrow> byte list" where
  "sample_sha x = to_be_bytes 8 (word_of_nat (length x) :: u64) @ replicate 24 0"

definition sample_raw :: "byte list" where
  "sample_raw = [0x61, 0xE2, 0x80, 0x8B, 0x62]"

definition sample_ident :: string where
  "sample_ident = encode_hex (sample_sha sample_raw)"

lemma sample_chars: "sample_raw = concat (map utf8 [0x61, 0x200B, 0x62])"
  by (simp add: sample_raw_def utf8_def utf8_values_def)

lemma sample_utf8: "from_utf8 sample_raw = Some [0x61, 0x200B, 0x62]"
  unfolding sample_chars by (rule from_utf8_complete) (simp add: scalar_def)

lemma sample_sha_length: "length (sample_sha x) = 32"
  by (simp add: sample_sha_def)

lemma sample_kept: "kept 0x61" "kept 0x62" "\<not> kept 0x200B"
  by (simp_all add: kept_def carrier_def preserved_format_def char_is_control_def)

lemma sample_prepared:
  obtains t where "prepare_retained_untrusted_text sample_sha (\<lambda>_. 0) sample_raw sample_ident NormalizationLimits_default 0 = Prepared t"
    "cu_normalized t = [0x61, 0x62]" "cu_original_id t = sample_ident" "cu_limits t = NormalizationLimits_default"
proof -
  have view: "normal_text [0x61, 0x200B, 0x62] = [0x61, 0x62]"
    by (simp add: sample_kept utf8_def utf8_values_def)
  have "\<exists>t. prepare_retained_untrusted_text sample_sha (\<lambda>_. 0) sample_raw sample_ident NormalizationLimits_default 0 = Prepared t"
    unfolding sample_ident_def
    by (rule prepared_total [OF sample_chars])
      (simp_all add: scalar_def sample_sha_length NormalizationLimits_default_def length_utf8 sample_kept, simp_all add: sample_raw_def)
  then obtain t where t: "prepare_retained_untrusted_text sample_sha (\<lambda>_. 0) sample_raw sample_ident NormalizationLimits_default 0 = Prepared t" by blast
  show ?thesis
    using prepared_Inr [OF t] sample_utf8 view by (intro that [OF t]) auto
qed

theorem prepared_text_faithful_witness:
  "\<exists>(t :: CanonicalUntrustedText) chars. sample_raw = concat (map utf8 chars) \<and> cu_normalized t = normal_text chars \<and> cu_normalized t = [0x61, 0x62]
     \<and> list_all (faithful_span sample_ident sample_raw (cu_normalized t)) (cu_source_map t)
     \<and> tiles 0 (cu_source_map t) 2"
proof -
  obtain t where t: "prepare_retained_untrusted_text sample_sha (\<lambda>_. 0) sample_raw sample_ident NormalizationLimits_default 0 = Prepared t"
    "cu_normalized t = [0x61, 0x62]" using sample_prepared by blast
  have len: "length (cu_normalized t) = 2" by (simp add: t(2))
  show ?thesis using prepared_text_faithful [OF t(1)] t(2) unfolding len by blast
qed

text \<open>
  preparation is complete.  Every nonempty valid UTF-8 text within the input, work and output limits is
  prepared, for limits within the hard ceilings and a clock that stays within the preparation budget: no
  text is refused for what it says.
\<close>

theorem preparation_succeeds:
  assumes "raw = concat (map utf8 chars)" "list_all scalar chars" "raw \<noteq> []" "length (sha256 raw) = 32"
    and "length raw \<le> nl_max_input_bytes limits" "length raw \<le> nl_max_work_units limits"
    and "length (normal_text chars) \<le> nl_max_output_bytes limits"
    and "nl_max_input_bytes limits \<le> 1048576" "nl_max_output_bytes limits \<le> 4194304" "nl_max_work_units limits \<le> 16777216"
    and "\<And>n. started \<le> clock n \<and> clock n < started + 1000000000"
  shows "\<exists>t. prepare_retained_untrusted_text sha256 clock raw (encode_hex (sha256 raw)) limits started = Prepared t"
  using assms by (rule prepared_total)

theorem preparation_succeeds_witness:
  "\<exists>t. prepare_retained_untrusted_text sample_sha (\<lambda>_. 0) sample_raw (encode_hex (sample_sha sample_raw)) NormalizationLimits_default 0 = Prepared t"
  by (rule preparation_succeeds [OF sample_chars])
    (simp_all add: scalar_def sample_sha_length NormalizationLimits_default_def length_utf8 sample_kept, simp_all add: sample_raw_def)

text \<open>
  preparation is idempotent.  Preparing the prepared view of a text, under any limits, clock and hash
  that let it pass, changes nothing: nothing to remove is left in the view or produced by removing.
\<close>

theorem preparation_idempotent:
  assumes "prepare_retained_untrusted_text sha256 clock raw ident limits started = Prepared t"
    and "prepare_retained_untrusted_text sha256' clock' (cu_normalized t) ident' limits' started' = Prepared t'"
  shows "cu_normalized t' = cu_normalized t"
  using assms by (rule prepared_fixed)

theorem preparation_idempotent_witness:
  "\<exists>t t'. prepare_retained_untrusted_text sample_sha (\<lambda>_. 0) sample_raw sample_ident NormalizationLimits_default 0 = Prepared t
     \<and> prepare_retained_untrusted_text sample_sha (\<lambda>_. 0) (cu_normalized t) (encode_hex (sample_sha (cu_normalized t)))
         NormalizationLimits_default 0 = Prepared t' \<and> cu_normalized t' = cu_normalized t"
proof -
  obtain t where t: "prepare_retained_untrusted_text sample_sha (\<lambda>_. 0) sample_raw sample_ident NormalizationLimits_default 0 = Prepared t"
    "cu_normalized t = [0x61, 0x62]" using sample_prepared by blast
  have "cu_normalized t = concat (map utf8 [0x61, 0x62])" by (simp add: t(2) utf8_def utf8_values_def)
  then obtain t' where t': "prepare_retained_untrusted_text sample_sha (\<lambda>_. 0) (cu_normalized t) (encode_hex (sample_sha (cu_normalized t)))
      NormalizationLimits_default 0 = Prepared t'"
    using prepared_total [of "cu_normalized t" "[0x61, 0x62]" sample_sha NormalizationLimits_default 0 "\<lambda>_. 0"] t(2)
    by (auto simp: scalar_def sample_sha_length NormalizationLimits_default_def length_utf8 sample_kept)
  show ?thesis using t(1) t' preparation_idempotent [OF t(1) t'] by blast
qed

text \<open>
  C27: cache keys of prepared text bind the view.  If two keys made by \<open>bind_cache_key\<close> have the same digest,
  then the original artifact, the normalized text, the normalization limits, the provenance with its trust
  domain, the workflow, the node, the invocation and the request and policy digests are the same, unless
  SHA-256 collides on the byte strings hashed: a result computed on one view is never served for another.
\<close>

theorem sentinel_key_binds_view:
  assumes "text_bind_cache_key sha256 unicode s m p = Inr k" "text_bind_cache_key sha256 unicode' t n q = Inr l"
    and "nk_digest k = nk_digest l"
    and "bindable unicode s m p" "bindable unicode' t n q" "\<And>x. length (sha256 x) = 32"
    and "inj_on sha256 (bind_preimages sha256 unicode s m p \<union> bind_preimages sha256 unicode' t n q)"
  shows "cu_original_id s = cu_original_id t \<and> cu_normalized s = cu_normalized t \<and> cu_limits s = cu_limits t
    \<and> p = q \<and> unicode = unicode' \<and> nm_workflow_id m = nm_workflow_id n \<and> nm_workflow_version m = nm_workflow_version n
    \<and> nm_node_id m = nm_node_id n \<and> nm_node_version m = nm_node_version n
    \<and> nm_invocation_identity m = nm_invocation_identity n
    \<and> nm_request_input_digest m = nm_request_input_digest n \<and> nm_policy_digest m = nm_policy_digest n"
  using assms by (rule bound_view)

definition sample_view :: "nat \<Rightarrow> CanonicalUntrustedText" where
  "sample_view work =
     \<lparr>cu_original_id = replicate 64 (CHR ''a''), cu_normalized = [0x61, 0x62], cu_source_map = [], cu_annotations = [],
      cu_limits = NormalizationLimits_default, cu_work_units = work, cu_deadline = 0\<rparr>"

lemma sample_sha_inj:
  assumes "distinct (map length xs)" "list_all (\<lambda>x. length x < 18446744073709551616) xs"
  shows "inj_on sample_sha (set xs)"
proof (rule inj_onI)
  fix x y assume xy: "x \<in> set xs" "y \<in> set xs" "sample_sha x = sample_sha y"
  then have "to_be_bytes 8 (word_of_nat (length x) :: u64) = to_be_bytes 8 (word_of_nat (length y) :: u64)"
    by (simp add: sample_sha_def)
  then have "unat (word_of_nat (length x) :: u64) = unat (word_of_nat (length y) :: u64)"
    using to_be_bytes_inj [of 8 "word_of_nat (length x) :: u64"] by simp
  moreover have "length x < 18446744073709551616" "length y < 18446744073709551616" using xy assms(2) by (auto simp: list_all_iff)
  ultimately have same: "length x = length y" by (simp add: unat_small)
  have "inj_on length (set xs)" using assms(1) by (simp add: distinct_map)
  from inj_onD [OF this same xy(1,2)] show "x = y" .
qed

lemma sample_bindable: "bindable [1] (sample_view w) sample_material (sample_provenance UntrustedContent)"
  by (simp add: bindable_def fits_def sample_view_def sample_material_def fits_provenance_def sample_provenance_def NormalizationLimits_default_def)

lemma sample_text_bind:
  "\<exists>k. text_bind_cache_key sample_sha [1] (sample_view w) sample_material (sample_provenance UntrustedContent) = Inr k"
  by (simp add: text_bind_cache_key_def sample_material_def NodeCacheKey_bind_def Let_def hash_fields_def)

lemma sample_lengths:
  "map length [concat (map update_field (request_fields sample_sha (sample_view w) (nm_request_input_digest sample_material) (sample_provenance UntrustedContent))),
      concat (map update_field [str_bytes (nm_policy_digest sample_material), str_bytes (text_policy_digest sample_sha [1] (sample_view w))]),
      concat (map update_field (policy_fields [1] (cu_limits (sample_view w)))),
      cache_key_material (sample_provenance UntrustedContent) (str_bytes (cu_original_id (sample_view w)))] = [131, 88, 303, 237]"
  by (simp add: sample_view_def sample_material_def request_fields_def text_policy_digest_def hash_fields_def cache_key_material_def
      update_field_def policy_fields_def length_hex encode_hex_eq_hex sample_sha_length cache_key_def write_u64_def sample_provenance_def
      SENTINEL_NORMALIZATION_VERSION_def SENTINEL_CARRIER_VERSION_def SENTINEL_SEGMENTATION_VERSION_def
      SENTINEL_SCRIPT_DATA_VERSION_def SECURITY_MODEL_VERSION_def SECRET_POLICY_VERSION_def)

lemma sample_key_length:
  fixes a b :: string
  assumes "length a = 71" "length b = 71"
  shows "400 < length (key_preimage (sample_material\<lparr>nm_input_artifact_hashes := nm_input_artifact_hashes sample_material @ [''sha256:'' @ cu_original_id (sample_view w)],
      nm_request_input_digest := a, nm_policy_digest := b\<rparr>)) \<and>
    length (key_preimage (sample_material\<lparr>nm_input_artifact_hashes := nm_input_artifact_hashes sample_material @ [''sha256:'' @ cu_original_id (sample_view w)],
      nm_request_input_digest := a, nm_policy_digest := b\<rparr>)) < 1000"
proof -
  have "nat_decimal (Suc 0) = ''1''" "nat_decimal 75 = ''75''" "nat_decimal 71 = ''71''" by code_simp+
  then show ?thesis
    using assms by (simp add: key_preimage_def node_key_material_def frame_text_def sample_material_def sample_view_def str_bytes_def)
qed

lemma sample_apart:
  "inj_on sample_sha (bind_preimages sample_sha [1] (sample_view w) sample_material (sample_provenance UntrustedContent))"
proof -
  let ?p = "sample_provenance UntrustedContent"
  let ?a = "hash_fields sample_sha (request_fields sample_sha (sample_view w) (nm_request_input_digest sample_material) ?p)"
  let ?b = "hash_fields sample_sha [str_bytes (nm_policy_digest sample_material), str_bytes (text_policy_digest sample_sha [1] (sample_view w))]"
  let ?k = "key_preimage (sample_material\<lparr>nm_input_artifact_hashes := nm_input_artifact_hashes sample_material @ [''sha256:'' @ cu_original_id (sample_view w)],
      nm_request_input_digest := ?a, nm_policy_digest := ?b\<rparr>)"
  let ?xs = "[concat (map update_field (request_fields sample_sha (sample_view w) (nm_request_input_digest sample_material) ?p)),
      concat (map update_field [str_bytes (nm_policy_digest sample_material), str_bytes (text_policy_digest sample_sha [1] (sample_view w))]),
      concat (map update_field (policy_fields [1] (cu_limits (sample_view w)))),
      cache_key_material ?p (str_bytes (cu_original_id (sample_view w)))]"
  have "length ?a = 71" "length ?b = 71"
    by (simp_all add: hash_fields_def encode_hex_eq_hex length_hex sample_sha_length)
  note key = sample_key_length [OF this, of w]
  have lens: "map length (?xs @ [?k]) = [131, 88, 303, 237, length ?k]"
    unfolding map_append sample_lengths by simp
  have "distinct (map length (?xs @ [?k]))" unfolding lens using key by simp
  moreover have "list_all (\<lambda>n. n < 18446744073709551616) (map length (?xs @ [?k]))" unfolding lens using key by simp
  ultimately have "inj_on sample_sha (set (?xs @ [?k]))"
    by (intro sample_sha_inj) (simp_all only: list.pred_map o_def)
  then show ?thesis unfolding bind_preimages_def by (simp only: set_append list.set Un_insert_left Un_empty_left)
qed

theorem sentinel_key_binds_view_witness:
  "\<exists>k. text_bind_cache_key sample_sha [1] (sample_view 2) sample_material (sample_provenance UntrustedContent) = Inr k
     \<and> cu_normalized (sample_view 2) = cu_normalized (sample_view 3)"
proof -
  obtain k where k: "text_bind_cache_key sample_sha [1] (sample_view 2) sample_material (sample_provenance UntrustedContent) = Inr k"
    using sample_text_bind by blast
  have same: "cu_original_id (sample_view 3) = cu_original_id (sample_view 2)" "cu_normalized (sample_view 3) = cu_normalized (sample_view 2)"
    "cu_limits (sample_view 3) = cu_limits (sample_view 2)" by (simp_all add: sample_view_def)
  have other: "text_bind_cache_key sample_sha [1] (sample_view 3) sample_material (sample_provenance UntrustedContent) = Inr k"
    "bind_preimages sample_sha [1] (sample_view 3) sample_material (sample_provenance UntrustedContent)
      = bind_preimages sample_sha [1] (sample_view 2) sample_material (sample_provenance UntrustedContent)"
    using k unfolding text_bind_cache_key_def bind_preimages_def request_fields_def text_policy_digest_def same by simp_all
  show ?thesis
    using k sentinel_key_binds_view [OF k other(1) refl sample_bindable sample_bindable sample_sha_length]
      sample_apart [of 2] unfolding other(2) Un_absorb by blast
qed

end
