(* ===== verification/Grounding.thy ===== *)
theory Grounding
  imports Review_Result Rust_Str
begin

text \<open>
  The two answer gates of the review crate: grounded answers (\<open>workflow-review/src/grounded_answer.rs\<close>)
  are published or abstain, multi-hop candidates (\<open>workflow-review/src/multi_hop.rs\<close>) are complete,
  corrective or incomplete.  SHA-256 is a parameter.
\<close>

section \<open>Names\<close>

text \<open>\<open>is_empty() || bytes().any(is_ascii_control)\<close>\<close>

definition bad_name :: "string \<Rightarrow> bool" where
  "bad_name s \<longleftrightarrow> s = [] \<or> list_ex is_ascii_control s"

text \<open>\<open>xs.iter().enumerate().any(|(i, x)| xs[..i].iter().any(|y| f(y) == f(x)))\<close>\<close>

definition repeated :: "('a \<Rightarrow> string) \<Rightarrow> 'a list \<Rightarrow> bool" where
  "repeated f xs \<longleftrightarrow> list_ex (\<lambda>(index, x). list_ex (\<lambda>previous. f previous = f x) (take index xs)) (enumerate 0 xs)"

lemma repeated_iff: "repeated f xs \<longleftrightarrow> \<not> distinct (map f xs)"
proof -
  have "repeated f xs \<longleftrightarrow> (\<exists>i < length xs. f (xs ! i) \<in> f ` set (take i xs))"
    unfolding repeated_def list_ex_iff by (auto simp: in_set_enumerate_eq image_iff Bex_def eq_commute)
  also have "\<dots> \<longleftrightarrow> (\<exists>i < length xs. \<exists>j < i. f (xs ! i) = f (xs ! j))"
  proof -
    have "f (xs ! i) \<in> f ` set (take i xs) \<longleftrightarrow> (\<exists>j < i. f (xs ! i) = f (xs ! j))" if "i < length xs" for i
      using that by (auto simp: nth_image [of i xs, symmetric] image_image image_iff)
    then show ?thesis by (simp cong: conj_cong)
  qed
  also have "\<dots> \<longleftrightarrow> \<not> distinct (map f xs)"
  proof
    assume "\<exists>i < length xs. \<exists>j < i. f (xs ! i) = f (xs ! j)"
    then obtain i j where "i < length xs" "j < i" "f (xs ! i) = f (xs ! j)" by blast
    then show "\<not> distinct (map f xs)" using nth_eq_iff_index_eq [of "map f xs" i j] by auto
  next
    assume "\<not> distinct (map f xs)"
    then obtain i j where ij: "i < length xs" "j < length xs" "i \<noteq> j" "f (xs ! i) = f (xs ! j)"
      by (auto simp: distinct_conv_nth)
    then show "\<exists>i < length xs. \<exists>j < i. f (xs ! i) = f (xs ! j)" by (cases "i < j") (use ij in force)+
  qed
  finally show ?thesis .
qed

section \<open>Grounded answers\<close>

record GroundedAnswerClaim =
  ga_text :: string
  ga_citation_ids :: "string list"

record GroundedAnswerCitation =
  gc_id :: string
  gc_evidence :: string

record GroundedAnswerInput =
  gi_subject :: string
  gi_answer :: string
  gi_claims :: "GroundedAnswerClaim list"
  gi_citations :: "GroundedAnswerCitation list"
  gi_review_votes :: "ReviewVote list"

definition GroundedAnswerInput_new :: "string \<Rightarrow> string \<Rightarrow> ReviewVote list \<Rightarrow> GroundedAnswerInput" where
  "GroundedAnswerInput_new subject answer review_votes =
     \<lparr>gi_subject = subject, gi_answer = answer, gi_claims = [], gi_citations = [], gi_review_votes = review_votes\<rparr>"

definition with_claims ::
    "GroundedAnswerClaim list \<Rightarrow> GroundedAnswerCitation list \<Rightarrow> GroundedAnswerInput \<Rightarrow> GroundedAnswerInput" where
  "with_claims claims citations input = input\<lparr>gi_claims := claims, gi_citations := citations\<rparr>"

record GroundedAnswerPublicationAck =
  pa_answer_len :: nat
  pa_answer_sha256 :: string

datatype GroundedAnswerDiagnosticKind = ReviewDeferred | UnsupportedClaim

record GroundedAnswerDiagnostic =
  gd_kind :: GroundedAnswerDiagnosticKind
  gd_code :: string

datatype GroundedAnswerEnvelope = Published GroundedAnswerPublicationAck | Abstained GroundedAnswerDiagnostic

datatype GroundedAnswerError =
    GInvalidSubject | GEmptyAnswer | GInvalidAnswer | GInvalidClaim | GInvalidCitation | GMissingReview
  | GMixedReviewSubject | GReviewSubjectMismatch | GReviewResolutionFailed

definition validate_claim_boundaries ::
    "GroundedAnswerClaim list \<Rightarrow> GroundedAnswerCitation list \<Rightarrow> GroundedAnswerError + unit" where
  "validate_claim_boundaries claims citations =
     (if claims = [] \<and> citations \<noteq> [] then Inl GInvalidCitation
      else if list_ex (\<lambda>claim. bad_name (ga_text claim) \<or> ga_citation_ids claim = [] \<or> list_ex bad_name (ga_citation_ids claim)) claims
      then Inl GInvalidClaim
      else if list_ex (\<lambda>citation. bad_name (gc_id citation) \<or> bad_name (gc_evidence citation)) citations then Inl GInvalidCitation
      else if repeated gc_id citations then Inl GInvalidCitation
      else Inr ())"

definition grounded_boundary :: "GroundedAnswerInput \<Rightarrow> GroundedAnswerError + unit" where
  "grounded_boundary input =
     (if bad_name (gi_subject input) then Inl GInvalidSubject
      else if gi_answer input = [] then Inl GEmptyAnswer
      else if list_ex is_ascii_control (gi_answer input) then Inl GInvalidAnswer
      else res_bind (validate_claim_boundaries (gi_claims input) (gi_citations input)) (\<lambda>_.
        if gi_review_votes input = [] then Inl GMissingReview else Inr ()))"

definition claims_are_supported :: "GroundedAnswerInput \<Rightarrow> bool" where
  "claims_are_supported input \<longleftrightarrow>
     list_all (\<lambda>claim. list_all (\<lambda>citation_id.
       list_ex (\<lambda>citation. gc_id citation = citation_id \<and> contains (gc_evidence citation) (ga_text claim)) (gi_citations input))
       (ga_citation_ids claim)) (gi_claims input)"

fun map_review_error :: "'j ReviewError \<Rightarrow> GroundedAnswerError" where
  "map_review_error EmptyReviewerSet = GMissingReview"
| "map_review_error MixedSubjectIdentity = GMixedReviewSubject"
| "map_review_error _ = GReviewResolutionFailed"

definition compile_grounded_answer ::
    "(byte list \<Rightarrow> byte list) \<Rightarrow> GroundedAnswerInput \<Rightarrow> GroundedAnswerError + GroundedAnswerEnvelope" where
  "compile_grounded_answer sha256 input =
     res_bind (grounded_boundary input) (\<lambda>_.
       if \<not> claims_are_supported input
       then Inr (Abstained \<lparr>gd_kind = UnsupportedClaim, gd_code = ''grounded_answer.unsupported_claim''\<rparr>)
       else res_bind (map_err map_review_error (resolve_disposition (gi_review_votes input) :: unit ReviewError + ReviewDisposition)) (\<lambda>disposition.
         if list_ex (\<lambda>vote. vt_subject vote \<noteq> gi_subject input) (gi_review_votes input) then Inl GReviewSubjectMismatch
         else case disposition of
           Accept \<Rightarrow> Inr (Published \<lparr>pa_answer_len = length (gi_answer input), pa_answer_sha256 = hex (sha256 (str_bytes (gi_answer input)))\<rparr>)
         | Defer \<Rightarrow> Inr (Abstained \<lparr>gd_kind = ReviewDeferred, gd_code = ''grounded_answer.review_deferred''\<rparr>)))"

section \<open>Multi-hop candidates\<close>

record MultiHopHop =
  mh_id :: string
  mh_query :: string

record MultiHopCoverage =
  mc_hop_id :: string
  mc_evidence :: string

record MultiHopAttribution =
  ma_hop_id :: string
  ma_source :: string

record MultiHopInput =
  mi_subject :: string
  mi_hops :: "MultiHopHop list"
  mi_coverages :: "MultiHopCoverage list"
  mi_budget :: "nat option"
  mi_coverage_predicate :: "nat option"
  mi_attributions :: "MultiHopAttribution list"

definition MultiHopInput_new :: "string \<Rightarrow> MultiHopHop list \<Rightarrow> MultiHopCoverage list \<Rightarrow> MultiHopInput" where
  "MultiHopInput_new subject hops coverages =
     \<lparr>mi_subject = subject, mi_hops = hops, mi_coverages = coverages, mi_budget = None, mi_coverage_predicate = None, mi_attributions = []\<rparr>"

record MultiHopAcknowledgement =
  mk_hop_count :: nat
  mk_covered_count :: nat
  mk_attributed_count :: nat

datatype MultiHopDiagnosticKind =
    UnsupportedCoverage | DroppedHop | BudgetExceeded | CoveragePredicateMiss | MissingAttribution

record MultiHopDiagnostic =
  md_kind :: MultiHopDiagnosticKind
  md_code :: string

datatype MultiHopEnvelope = Complete MultiHopAcknowledgement | Corrective MultiHopDiagnostic | Incomplete MultiHopDiagnostic

datatype MultiHopError = MInvalidSubject | MInvalidHop | MInvalidCoverage | MInvalidAttribution

definition multi_hop_boundary :: "MultiHopInput \<Rightarrow> MultiHopError + unit" where
  "multi_hop_boundary input =
     (if bad_name (mi_subject input) then Inl MInvalidSubject
      else if mi_hops input = [] then Inl MInvalidHop
      else if list_ex (\<lambda>hop. bad_name (mh_id hop) \<or> bad_name (mh_query hop)) (mi_hops input) then Inl MInvalidHop
      else if repeated mh_id (mi_hops input) then Inl MInvalidHop
      else if list_ex (\<lambda>coverage. bad_name (mc_hop_id coverage) \<or> bad_name (mc_evidence coverage)) (mi_coverages input) then Inl MInvalidCoverage
      else if repeated mc_hop_id (mi_coverages input) then Inl MInvalidCoverage
      else if list_ex (\<lambda>coverage. \<not> list_ex (\<lambda>hop. mh_id hop = mc_hop_id coverage) (mi_hops input)) (mi_coverages input) then Inl MInvalidCoverage
      else if list_ex (\<lambda>attribution. bad_name (ma_hop_id attribution) \<or> bad_name (ma_source attribution)) (mi_attributions input) then Inl MInvalidAttribution
      else if repeated ma_hop_id (mi_attributions input) then Inl MInvalidAttribution
      else if list_ex (\<lambda>attribution. \<not> list_ex (\<lambda>hop. mh_id hop = ma_hop_id attribution) (mi_hops input)) (mi_attributions input) then Inl MInvalidAttribution
      else Inr ())"

definition has_dropped_hop :: "MultiHopInput \<Rightarrow> bool" where
  "has_dropped_hop input \<longleftrightarrow>
     list_ex (\<lambda>hop. \<not> list_ex (\<lambda>coverage. mc_hop_id coverage = mh_id hop) (mi_coverages input)) (mi_hops input)"

definition coverage_supports_hops :: "MultiHopInput \<Rightarrow> bool" where
  "coverage_supports_hops input \<longleftrightarrow>
     list_all (\<lambda>hop. list_ex (\<lambda>coverage. mc_hop_id coverage = mh_id hop \<and> contains (mc_evidence coverage) (mh_query hop)) (mi_coverages input))
       (mi_hops input)"

definition budget_exceeded :: "MultiHopInput \<Rightarrow> bool" where
  "budget_exceeded input \<longleftrightarrow> (case mi_budget input of Some hop_limit \<Rightarrow> length (mi_hops input) > hop_limit | None \<Rightarrow> False)"

definition coverage_predicate_miss :: "MultiHopInput \<Rightarrow> bool" where
  "coverage_predicate_miss input \<longleftrightarrow>
     (case mi_coverage_predicate input of Some required \<Rightarrow> length (mi_hops input) < required | None \<Rightarrow> False)"

definition missing_attribution :: "MultiHopInput \<Rightarrow> bool" where
  "missing_attribution input \<longleftrightarrow>
     mi_attributions input \<noteq> []
     \<and> list_ex (\<lambda>hop. \<not> list_ex (\<lambda>attribution. ma_hop_id attribution = mh_id hop) (mi_attributions input)) (mi_hops input)"

definition compile_multi_hop :: "MultiHopInput \<Rightarrow> MultiHopError + MultiHopEnvelope" where
  "compile_multi_hop input =
     res_bind (multi_hop_boundary input) (\<lambda>_.
       if has_dropped_hop input then Inr (Incomplete \<lparr>md_kind = DroppedHop, md_code = ''multi_hop.dropped_hop''\<rparr>)
       else if budget_exceeded input then Inr (Corrective \<lparr>md_kind = BudgetExceeded, md_code = ''multi_hop.budget_exceeded''\<rparr>)
       else if \<not> coverage_supports_hops input then Inr (Corrective \<lparr>md_kind = UnsupportedCoverage, md_code = ''multi_hop.unsupported_coverage''\<rparr>)
       else if coverage_predicate_miss input then Inr (Corrective \<lparr>md_kind = CoveragePredicateMiss, md_code = ''multi_hop.coverage_predicate_miss''\<rparr>)
       else if missing_attribution input then Inr (Corrective \<lparr>md_kind = MissingAttribution, md_code = ''multi_hop.missing_attribution''\<rparr>)
       else Inr (Complete \<lparr>mk_hop_count = length (mi_hops input), mk_covered_count = length (mi_hops input),
                           mk_attributed_count = length (mi_attributions input)\<rparr>))"

section \<open>What is published\<close>

text \<open>A claim is grounded when every citation it names exists and quotes it in full.\<close>

definition grounded :: "GroundedAnswerCitation list \<Rightarrow> GroundedAnswerClaim \<Rightarrow> bool" where
  "grounded citations claim \<longleftrightarrow>
     ga_citation_ids claim \<noteq> [] \<and>
     (\<forall>ident \<in> set (ga_citation_ids claim). \<exists>before after.
        map_of (map (\<lambda>c. (gc_id c, gc_evidence c)) citations) ident = Some (before @ ga_text claim @ after))"

lemma citation_lookup:
  assumes "distinct (map gc_id citations)"
  shows "(\<exists>c \<in> set citations. gc_id c = ident \<and> P (gc_evidence c)) \<longleftrightarrow>
     (\<exists>e. map_of (map (\<lambda>c. (gc_id c, gc_evidence c)) citations) ident = Some e \<and> P e)"
proof -
  have "distinct (map fst (map (\<lambda>c. (gc_id c, gc_evidence c)) citations))" using assms by (simp add: comp_def)
  from map_of_eq_Some_iff [OF this] show ?thesis by force
qed

lemma supported_grounded:
  assumes "grounded_boundary input = Inr ()"
  shows "claims_are_supported input \<longleftrightarrow> (\<forall>claim \<in> set (gi_claims input). grounded (gi_citations input) claim)"
proof -
  have "distinct (map gc_id (gi_citations input))" "\<forall>claim \<in> set (gi_claims input). ga_citation_ids claim \<noteq> []"
    using assms by (auto simp: grounded_boundary_def validate_claim_boundaries_def repeated_iff list_ex_iff res_iffs split: if_splits)
  note ok = this
  have quote: "(\<exists>c \<in> set (gi_citations input). gc_id c = ident \<and> contains (gc_evidence c) t) \<longleftrightarrow>
      (\<exists>before after. map_of (map (\<lambda>c. (gc_id c, gc_evidence c)) (gi_citations input)) ident = Some (before @ t @ after))" for ident t
    by (subst citation_lookup [OF ok(1), where P = "\<lambda>e. contains e t"]) (auto simp: contains_iff)
  show ?thesis using ok(2) by (simp add: claims_are_supported_def list_all_iff list_ex_iff grounded_def quote)
qed

lemma accept_iff:
  "(resolve_disposition votes :: 'j ReviewError + ReviewDisposition) = Inr Accept \<and> (\<forall>v \<in> set votes. vt_subject v = s) \<longleftrightarrow>
     votes \<noteq> [] \<and> (\<forall>v \<in> set votes. vt_subject v = s \<and> vt_verdict v = Pass)"
  by (cases votes) (auto simp: resolve_disposition_def list_all_iff list_ex_iff split: if_splits)

lemma published_iff:
  "compile_grounded_answer sha256 input = Inr (Published ack) \<longleftrightarrow>
     grounded_boundary input = Inr () \<and> (\<forall>claim \<in> set (gi_claims input). grounded (gi_citations input) claim)
     \<and> (\<forall>vote \<in> set (gi_review_votes input). vt_subject vote = gi_subject input \<and> vt_verdict vote = Pass)
     \<and> ack = \<lparr>pa_answer_len = length (gi_answer input), pa_answer_sha256 = hex (sha256 (str_bytes (gi_answer input)))\<rparr>"
proof (cases "grounded_boundary input")
  case (Inr u)
  then have b: "grounded_boundary input = Inr ()" by simp
  then have "gi_review_votes input \<noteq> []" by (auto simp: grounded_boundary_def res_iffs split: if_splits)
  note votes = this
  let ?r = "resolve_disposition (gi_review_votes input) :: unit ReviewError + ReviewDisposition"
  have "compile_grounded_answer sha256 input = Inr (Published ack) \<longleftrightarrow>
      claims_are_supported input \<and> (?r = Inr Accept \<and> (\<forall>v \<in> set (gi_review_votes input). vt_subject v = gi_subject input))
      \<and> ack = \<lparr>pa_answer_len = length (gi_answer input), pa_answer_sha256 = hex (sha256 (str_bytes (gi_answer input)))\<rparr>"
  proof (cases ?r)
    case (Inr d)
    then show ?thesis by (cases d) (auto simp: compile_grounded_answer_def b list_ex_iff)
  qed (simp add: compile_grounded_answer_def b)
  then show ?thesis using votes b supported_grounded [OF b] unfolding accept_iff by auto
qed (simp add: compile_grounded_answer_def)

section \<open>Properties\<close>

text \<open>
  C32: an answer is published exactly when it is grounded and unanimously accepted.  The gate publishes
  if and only if the candidate is well-formed, every claim names at least one citation and each citation
  it names exists and quotes the claim in full, and every vote is a pass on this very subject; the
  acknowledgement then carries the length and the SHA-256 of the answer.  In every other case there is an
  abstention or an error.
\<close>

theorem grounded_answer_published_iff:
  "compile_grounded_answer sha256 input = Inr (Published ack) \<longleftrightarrow>
     grounded_boundary input = Inr () \<and> list_all (grounded (gi_citations input)) (gi_claims input)
     \<and> list_all (\<lambda>vote. vt_subject vote = gi_subject input \<and> vt_verdict vote = Pass) (gi_review_votes input)
     \<and> ack = \<lparr>pa_answer_len = length (gi_answer input), pa_answer_sha256 = hex (sha256 (str_bytes (gi_answer input)))\<rparr>"
  unfolding published_iff by (simp add: list_all_iff)

lemma attributions_cover:
  assumes "multi_hop_boundary input = Inr ()" "\<not> missing_attribution input"
  shows "length (mi_attributions input) \<in> {0, length (mi_hops input)}"
proof (cases "mi_attributions input = []")
  case False
  have "\<not> repeated mh_id (mi_hops input)" "\<not> repeated ma_hop_id (mi_attributions input)"
    and "\<not> list_ex (\<lambda>attribution. \<not> list_ex (\<lambda>hop. mh_id hop = ma_hop_id attribution) (mi_hops input)) (mi_attributions input)"
    using assms(1) by (auto simp: multi_hop_boundary_def split: if_splits)
  then have d: "distinct (map mh_id (mi_hops input))" "distinct (map ma_hop_id (mi_attributions input))"
    and sub: "set (map ma_hop_id (mi_attributions input)) \<subseteq> set (map mh_id (mi_hops input))"
    by (simp_all add: repeated_iff list_ex_iff image_subset_iff) (metis image_eqI)
  have "set (map mh_id (mi_hops input)) \<subseteq> set (map ma_hop_id (mi_attributions input))"
    using assms(2) False by (force simp: missing_attribution_def list_ex_iff)
  with sub have "set (map ma_hop_id (mi_attributions input)) = set (map mh_id (mi_hops input))" by (rule subset_antisym)
  then show ?thesis using distinct_card [OF d(1)] distinct_card [OF d(2)] by simp
qed simp

lemma supported_not_dropped: "coverage_supports_hops input \<Longrightarrow> \<not> has_dropped_hop input"
  by (fastforce simp: coverage_supports_hops_def has_dropped_hop_def list_all_iff list_ex_iff)

text \<open>
  a multi-hop candidate is complete exactly when every hop is covered.  Completion is reported if
  and only if the candidate is well-formed, the evidence for every hop contains its query, the hops fit
  the budget and satisfy the coverage predicate when there are such, and attributions, when there are
  any, reach every hop.  The acknowledgement counts every hop as covered, and the attributed count is
  zero or the number of hops, never something in between.
\<close>

theorem multi_hop_complete_iff:
  "compile_multi_hop input = Inr (Complete ack) \<longleftrightarrow>
     multi_hop_boundary input = Inr () \<and> coverage_supports_hops input
     \<and> pred_option (\<lambda>limit. length (mi_hops input) \<le> limit) (mi_budget input)
     \<and> pred_option (\<lambda>required. required \<le> length (mi_hops input)) (mi_coverage_predicate input)
     \<and> \<not> missing_attribution input
     \<and> mk_hop_count ack = length (mi_hops input) \<and> mk_covered_count ack = length (mi_hops input)
     \<and> mk_attributed_count ack = (if mi_attributions input = [] then 0 else length (mi_hops input))"
  (is "?l \<longleftrightarrow> ?r")
proof -
  have pre: "pred_option (\<lambda>limit. length (mi_hops input) \<le> limit) (mi_budget input) \<longleftrightarrow> \<not> budget_exceeded input"
    "pred_option (\<lambda>required. required \<le> length (mi_hops input)) (mi_coverage_predicate input) \<longleftrightarrow> \<not> coverage_predicate_miss input"
    by (auto simp: budget_exceeded_def coverage_predicate_miss_def split: option.split)
  have ack: "ack = \<lparr>mk_hop_count = a, mk_covered_count = b, mk_attributed_count = c\<rparr> \<longleftrightarrow>
      mk_hop_count ack = a \<and> mk_covered_count ack = b \<and> mk_attributed_count ack = c" for a b c
    by (cases ack) auto
  have count: "length (mi_attributions input) = (if mi_attributions input = [] then 0 else length (mi_hops input))"
    if "multi_hop_boundary input = Inr ()" "\<not> missing_attribution input"
    using attributions_cover [OF that] by auto
  show ?thesis
  proof
    assume ?l
    then have "multi_hop_boundary input = Inr ()" "\<not> missing_attribution input" "coverage_supports_hops input"
      "\<not> budget_exceeded input" "\<not> coverage_predicate_miss input"
      and "ack = \<lparr>mk_hop_count = length (mi_hops input), mk_covered_count = length (mi_hops input),
            mk_attributed_count = length (mi_attributions input)\<rparr>"
      by (auto simp: compile_multi_hop_def res_iffs split: if_splits)
    then show ?r using count pre by simp
  next
    assume r: ?r
    then show ?l
      unfolding pre using ack [of "length (mi_hops input)" "length (mi_hops input)" "length (mi_attributions input)"] count
        supported_not_dropped [of input]
      by (simp add: compile_multi_hop_def)
  qed
qed

end
