(* ===== verification/Sentinel_Reduction.thy ===== *)
theory Sentinel_Reduction
  imports Probe_Worker Effect_Binding
begin

text \<open>
  Evidence about untrusted text: the offline observer of probe reports
  (\<open>workflow-runtime/src/trajectory.rs\<close>, with \<open>ProbeReport::evidence\<close> of \<open>behavioral.rs\<close>) and the reduction
  of preparation, semantic, behavioural and observer facts to one verdict
  (\<open>workflow-runtime/src/sentinel_reduction.rs\<close>).

  SHA-256 and the spelling of JSON atoms are the parameter \<open>env\<close>, the derived decoder of compact claims and
  the JSON parser are parameters.
\<close>

section \<open>Probe reports as evidence\<close>

definition ProbeEvent_value :: "ProbeEvent \<Rightarrow> jvalue" where
  "ProbeEvent_value e =
     JObj [(''seq'', JNum (int (ev_seq e))), (''kind'', JStr (ev_kind e)), (''tool'', opt_str_value (ev_tool e)),
           (''action_digest'', JStr (ev_action_digest e)), (''outcome'', SimulatedToolOutcome_value (ev_outcome e))]"

definition ProbeReport_value :: "ProbeReport \<Rightarrow> jvalue" where
  "ProbeReport_value r =
     JObj [(''schema_version'', u32_value (rep_schema_version r)), (''version'', JStr (rep_version r)), (''mode'', JStr (rep_mode r)),
           (''causal_attribution'', JStr (rep_causal_attribution r)), (''identity'', JStr (rep_identity r)),
           (''original_artifact_id'', JStr (rep_original_artifact_id r)), (''canary_digest'', opt_str_value (rep_canary_digest r)),
           (''events'', JArr (map ProbeEvent_value (rep_events r))), (''stop'', ProbeStop_value (rep_stop r))]"

definition probe_report_bytes :: "json_env \<Rightarrow> ProbeReport \<Rightarrow> byte list" where
  "probe_report_bytes env r = json_vec env (ProbeReport_value r)"

text \<open>\<open>.map(Some)\<close>\<close>

definition ok_some :: "'e + 'a \<Rightarrow> 'e + 'a option" where
  "ok_some r = res_bind r (\<lambda>v. Inr (Some v))"

text \<open>Suspicious evidence that cites one artifact.\<close>

definition cited_suspicious :: "string \<Rightarrow> string \<Rightarrow> TypedOutputError + TypedOutput" where
  "cited_suspicious ident address =
     res_bind (ArtifactRef_new ident address) (\<lambda>artifact.
       TypedOutput_new (PSentinel \<lparr>se_verdict = VSuspicious, se_spans = [], se_artifacts = [artifact]\<rparr>) CompleteOutput)"

definition report_evidence :: "json_env \<Rightarrow> ProbeReport \<Rightarrow> TypedOutputError + TypedOutput option" where
  "report_evidence env r =
     (case rep_stop r of
        StopTripwire _ \<Rightarrow>
          let digest_text = hex (je_sha256 env (probe_report_bytes env r)) in
          ok_some (cited_suspicious digest_text (''sha256:'' @ digest_text))
      | _ \<Rightarrow> Inr None)"

section \<open>The offline observer\<close>

definition TRAJECTORY_VERSION :: string where
  "TRAJECTORY_VERSION = ''sentinel-offline-trajectory-v1''"

datatype ObserverMode = ObserverDisabled | OfflineSummary

datatype ReasoningStatus = ReasoningDisabled | ReasoningUnavailable | ReasoningMalformed | ReasoningPresent

datatype WeakSignal = GoalOverride | SecretSeeking | ToolManipulation | ReasoningActionInconsistency

fun ObserverMode_serde :: "ObserverMode \<Rightarrow> string" where
  "ObserverMode_serde ObserverDisabled = ''disabled''"
| "ObserverMode_serde OfflineSummary = ''offline_summary''"

fun ReasoningStatus_serde :: "ReasoningStatus \<Rightarrow> string" where
  "ReasoningStatus_serde ReasoningDisabled = ''disabled''"
| "ReasoningStatus_serde ReasoningUnavailable = ''unavailable''"
| "ReasoningStatus_serde ReasoningMalformed = ''malformed''"
| "ReasoningStatus_serde ReasoningPresent = ''present''"

fun WeakSignal_serde :: "WeakSignal \<Rightarrow> string" where
  "WeakSignal_serde GoalOverride = ''goal_override''"
| "WeakSignal_serde SecretSeeking = ''secret_seeking''"
| "WeakSignal_serde ToolManipulation = ''tool_manipulation''"
| "WeakSignal_serde ReasoningActionInconsistency = ''reasoning_action_inconsistency''"

record TrustedObserverTask =
  ot_task :: string
  ot_report_digest :: string

definition TrustedObserverTask_authorize :: "json_env \<Rightarrow> ProbeReport \<Rightarrow> string \<Rightarrow> TypedOutputError + TrustedObserverTask" where
  "TrustedObserverTask_authorize env report task =
     (if blank task \<or> length task > 2048 then Inl TInvalidJson
      else Inr \<lparr>ot_task = task, ot_report_digest = worker_digest env (probe_report_bytes env report)\<rparr>)"

record CanonicalTrajectory =
  cy_version :: string
  cy_trusted_task :: string
  cy_report_digest :: string
  cy_events :: "ProbeEvent list"
  cy_stop :: ProbeStop

definition CanonicalTrajectory_value :: "CanonicalTrajectory \<Rightarrow> jvalue" where
  "CanonicalTrajectory_value t =
     JObj [(''version'', JStr (cy_version t)), (''trusted_task'', JStr (cy_trusted_task t)), (''report_digest'', JStr (cy_report_digest t)),
           (''events'', JArr (map ProbeEvent_value (cy_events t))), (''stop'', ProbeStop_value (cy_stop t))]"

definition canonical_input :: "json_env \<Rightarrow> TrustedObserverTask \<Rightarrow> ProbeReport \<Rightarrow> TypedOutputError + CanonicalTrajectory" where
  "canonical_input env task report =
     (if ot_report_digest task \<noteq> worker_digest env (probe_report_bytes env report) then Inl TInvalidJson
      else Inr \<lparr>cy_version = TRAJECTORY_VERSION, cy_trusted_task = ot_task task, cy_report_digest = ot_report_digest task,
                cy_events = rep_events report, cy_stop = rep_stop report\<rparr>)"

record ClosedTrajectoryClaims =
  cl_schema_version :: u32
  cl_goal_override :: bool
  cl_secret_seeking :: bool
  cl_tool_manipulation :: bool
  cl_claims_no_tools :: bool

definition claims_value :: "ClosedTrajectoryClaims \<Rightarrow> jvalue" where
  "claims_value c =
     JObj [(''schema_version'', u32_value (cl_schema_version c)), (''goal_override'', JBool (cl_goal_override c)),
           (''secret_seeking'', JBool (cl_secret_seeking c)), (''tool_manipulation'', JBool (cl_tool_manipulation c)),
           (''claims_no_tools'', JBool (cl_claims_no_tools c))]"

text \<open>\<open>trim_ascii_start\<close> drops space, tab, line feed, form feed and carriage return.\<close>

definition starts_object :: "byte list \<Rightarrow> bool" where
  "starts_object bytes \<longleftrightarrow>
     (case dropWhile (\<lambda>b. b \<in> set [32, 9, 10, 12, 13]) bytes of [] \<Rightarrow> False | b # _ \<Rightarrow> b = 0x7B)"

definition parse_summary ::
    "(byte list \<Rightarrow> ClosedTrajectoryClaims option) \<Rightarrow> ObserverMode \<Rightarrow> byte list option
       \<Rightarrow> ReasoningStatus \<times> ClosedTrajectoryClaims option" where
  "parse_summary decode mode summary =
     (let parsed = (if mode = OfflineSummary
          then (case summary of
              None \<Rightarrow> None
            | Some bytes \<Rightarrow>
                if length bytes \<le> 1024 \<and> starts_object bytes
                then (case decode bytes of None \<Rightarrow> None | Some v \<Rightarrow> if cl_schema_version v = 1 then Some v else None)
                else None)
          else None);
          reasoning = (if mode = ObserverDisabled then ReasoningDisabled
            else if summary = None then ReasoningUnavailable
            else if parsed = None then ReasoningMalformed else ReasoningPresent)
      in (reasoning, parsed))"

definition claims_weak_signals :: "ClosedTrajectoryClaims \<Rightarrow> bool \<Rightarrow> WeakSignal list" where
  "claims_weak_signals c executed_call =
     map snd (filter fst [(cl_goal_override c, GoalOverride), (cl_secret_seeking c, SecretSeeking),
       (cl_tool_manipulation c, ToolManipulation), (cl_claims_no_tools c \<and> executed_call, ReasoningActionInconsistency)])"

record TrajectoryObservation =
  tb_version :: string
  tb_identity :: string
  tb_summary_status :: ReasoningStatus
  tb_raw_reasoning :: ReasoningStatus
  tb_weak_signals :: "WeakSignal list"
  tb_hard_stop :: ProbeStop
  tb_hard_evidence :: "TypedOutput option"
  tb_report_digest :: string

definition TrajectoryObservation_value :: "TrajectoryObservation \<Rightarrow> jvalue" where
  "TrajectoryObservation_value t =
     JObj [(''version'', JStr (tb_version t)), (''identity'', JStr (tb_identity t)),
           (''summary_status'', JStr (ReasoningStatus_serde (tb_summary_status t))),
           (''raw_reasoning'', JStr (ReasoningStatus_serde (tb_raw_reasoning t))),
           (''weak_signals'', strs_value (map WeakSignal_serde (tb_weak_signals t))), (''hard_stop'', ProbeStop_value (tb_hard_stop t))]"

definition observation_bytes :: "json_env \<Rightarrow> TrajectoryObservation \<Rightarrow> byte list" where
  "observation_bytes env t = json_vec env (TrajectoryObservation_value t)"

definition matches_report :: "json_env \<Rightarrow> TrajectoryObservation \<Rightarrow> ProbeReport \<Rightarrow> bool" where
  "matches_report env t report \<longleftrightarrow> tb_report_digest t = worker_digest env (probe_report_bytes env report)"

definition observation_evidence :: "json_env \<Rightarrow> TrajectoryObservation \<Rightarrow> TypedOutputError + TypedOutput option" where
  "observation_evidence env t =
     (case tb_hard_evidence t of
        Some hard \<Rightarrow> Inr (Some hard)
      | None \<Rightarrow>
          if tb_weak_signals t = [] then Inr None
          else
            let digest_text = hex (je_sha256 env (observation_bytes env t)) in
            ok_some (cited_suspicious digest_text (''sha256:'' @ digest_text)))"

definition observe_parsed ::
    "json_env \<Rightarrow> ObserverMode \<Rightarrow> TrustedObserverTask \<Rightarrow> ProbeReport \<Rightarrow> ReasoningStatus \<Rightarrow> ClosedTrajectoryClaims option
       \<Rightarrow> TypedOutputError + TrajectoryObservation" where
  "observe_parsed env mode task report reasoning parsed =
     res_bind (canonical_input env task report) (\<lambda>input.
       let weak_signals = (case parsed of None \<Rightarrow> []
             | Some claims \<Rightarrow> claims_weak_signals claims (list_ex (\<lambda>event. ev_kind event = ''call'') (cy_events input)));
           identity = worker_digest env (json_vec env (normal
             (JObj [(''input'', CanonicalTrajectory_value input), (''mode'', JStr (ObserverMode_serde mode)),
                    (''reasoning'', JStr (ReasoningStatus_serde reasoning)),
                    (''summary'', (case parsed of None \<Rightarrow> JNull | Some claims \<Rightarrow> claims_value claims)),
                    (''provider'', JNull), (''model'', JNull), (''raw_reasoning'', JStr ''not_captured'')])))
       in res_bind (report_evidence env report) (\<lambda>hard.
         Inr \<lparr>tb_version = TRAJECTORY_VERSION, tb_identity = identity, tb_summary_status = reasoning,
              tb_raw_reasoning = (if mode = ObserverDisabled then ReasoningDisabled else ReasoningUnavailable),
              tb_weak_signals = weak_signals, tb_hard_stop = rep_stop report, tb_hard_evidence = hard,
              tb_report_digest = cy_report_digest input\<rparr>))"

definition observe ::
    "json_env \<Rightarrow> (byte list \<Rightarrow> ClosedTrajectoryClaims option) \<Rightarrow> ObserverMode \<Rightarrow> TrustedObserverTask \<Rightarrow> ProbeReport \<Rightarrow> byte list option
       \<Rightarrow> TypedOutputError + TrajectoryObservation" where
  "observe env decode mode task report summary =
     (let (status, parsed) = parse_summary decode mode summary in observe_parsed env mode task report status parsed)"

text \<open>The observer that an approved script carries holds its task and the parsed summary.\<close>

definition observe_trajectory ::
    "json_env \<Rightarrow> (ReasoningStatus \<times> ClosedTrajectoryClaims option) AuthoredObserver option \<Rightarrow> BehavioralProbe \<Rightarrow> ProbeReport
       \<Rightarrow> TypedOutputError + TrajectoryObservation option" where
  "observe_trajectory env observer probe report =
     (if bpr_identity probe \<noteq> rep_identity report then Inl TInvalidJson
      else case observer of
        None \<Rightarrow> Inr None
      | Some observer \<Rightarrow>
          res_bind (TrustedObserverTask_authorize env report (ao_task observer)) (\<lambda>task.
            ok_some (observe_parsed env OfflineSummary task report (fst (ao_summary observer)) (snd (ao_summary observer)))))"

section \<open>Reduction\<close>

definition SENTINEL_REDUCTION_POLICY_VERSION :: string where
  "SENTINEL_REDUCTION_POLICY_VERSION = ''sentinel-reduction-policy-v1''"

record SemanticReductionInput =
  si_output :: TypedOutput
  si_producer_identity :: string

record SentinelReductionInput =
  ri_source_cover :: "SourceSpan option"
  ri_preparation_terminal :: "SentinelVerdict option"
  ri_preparation_identity :: string
  ri_semantic :: "SemanticReductionInput option"
  ri_behavior :: "ProbeReport option"
  ri_observation :: "TrajectoryObservation option"

record SentinelReduction =
  rd_output :: TypedOutput
  rd_identity :: string
  rd_policy_digest :: string

datatype SentinelReductionError = InvalidTerminal | InvalidBinding | ReductionTypedOutput TypedOutputError

definition reduction_policy_digest :: "json_env \<Rightarrow> string" where
  "reduction_policy_digest env = ''sha256:'' @ digest env
     (JObj [(''version'', JStr SENTINEL_REDUCTION_POLICY_VERSION), (''typed_schema'', JNum 1),
            (''rules'', strs_value [''invalid_input'', ''unsupported_language'', ''semantic_injection'', ''behavior_tripwire'',
               ''semantic_suspicious'', ''observer_weak'', ''abstain_suspicious'']),
            (''clean'', JStr ''never''), (''causal_promotion'', JStr ''never'')])"

definition verdict_only :: "SentinelVerdict \<Rightarrow> TypedOutputError + TypedOutput" where
  "verdict_only verdict = TypedOutput_new (PSentinel \<lparr>se_verdict = verdict, se_spans = [], se_artifacts = []\<rparr>) CompleteOutput"

fun sentinel_verdict :: "TypedPayload \<Rightarrow> SentinelVerdict option" where
  "sentinel_verdict (PSentinel evidence) = Some (se_verdict evidence)"
| "sentinel_verdict _ = None"

definition reduced_output ::
    "SentinelVerdict option \<Rightarrow> TypedOutput option \<Rightarrow> TypedOutput option \<Rightarrow> TypedOutput option \<Rightarrow> SentinelReductionError + TypedOutput" where
  "reduced_output terminal semantic hard weak =
     (let semantic_verdict = Option.bind semantic (\<lambda>output. sentinel_verdict (to_payload output)) in
      case terminal of
        Some terminal \<Rightarrow> map_err ReductionTypedOutput (verdict_only terminal)
      | None \<Rightarrow>
          if semantic_verdict = Some VInjection then (case semantic of None \<Rightarrow> Inl InvalidBinding | Some output \<Rightarrow> Inr output)
          else case hard of
            Some hard \<Rightarrow> Inr hard
          | None \<Rightarrow>
              if semantic_verdict = Some VSuspicious then (case semantic of None \<Rightarrow> Inl InvalidBinding | Some output \<Rightarrow> Inr output)
              else case weak of
                Some weak \<Rightarrow> Inr weak
              | None \<Rightarrow> map_err ReductionTypedOutput (verdict_only VSuspicious))"

definition finish_reduction ::
    "json_env \<Rightarrow> SentinelVerdict option \<Rightarrow> TypedOutput option \<Rightarrow> TypedOutput option \<Rightarrow> TypedOutput option \<Rightarrow> string \<Rightarrow> string
       \<Rightarrow> SentinelReductionError + SentinelReduction" where
  "finish_reduction env terminal semantic hard weak identity policy =
     res_bind (reduced_output terminal semantic hard weak) (\<lambda>output.
     res_bind (map_err ReductionTypedOutput (admit_for_reducer env output)) (\<lambda>_.
     res_bind (map_err ReductionTypedOutput (TypedOutput_to_json env output)) (\<lambda>json.
       if length json > 512 then Inl (ReductionTypedOutput TOverBudget)
       else Inr \<lparr>rd_output = output, rd_identity = identity, rd_policy_digest = policy\<rparr>)))"

text \<open>The checks of semantic evidence against the covered source, once it is admitted.\<close>

definition bound_evidence :: "SourceSpan option \<Rightarrow> TypedPayload \<Rightarrow> bool" where
  "bound_evidence source_cover payload \<longleftrightarrow>
     (case payload of
        PSentinel evidence \<Rightarrow>
          (case source_cover of
             None \<Rightarrow> False
           | Some cover \<Rightarrow>
               (case se_spans evidence of
                  [span] \<Rightarrow>
                    \<not> (se_artifacts evidence \<noteq> [] \<or> sp_artifact_id span \<noteq> sp_artifact_id cover \<or> sp_start span < sp_start cover
                       \<or> sp_end span > sp_end cover \<or> se_verdict evidence \<notin> {VClean, VInjection, VSuspicious})
                | _ \<Rightarrow> False))
      | _ \<Rightarrow> False)"

definition semantic_reduction_material ::
    "json_env \<Rightarrow> json_decoder \<Rightarrow> SourceSpan option \<Rightarrow> SemanticReductionInput \<Rightarrow> SentinelReductionError + jvalue" where
  "semantic_reduction_material env decode source_cover semantic =
     (if ArtifactId_parse (si_producer_identity semantic) = None then Inl InvalidBinding
      else
        res_bind (map_err ReductionTypedOutput (TypedOutput_to_json env (si_output semantic))) (\<lambda>bytes.
        if length bytes > 512 then Inl (ReductionTypedOutput TOverBudget)
        else
        res_bind (map_err ReductionTypedOutput (admit_for_reducer env (si_output semantic))) (\<lambda>payload.
        if \<not> bound_evidence source_cover payload then Inl InvalidBinding
        else case decode bytes of
          None \<Rightarrow> Inl (ReductionTypedOutput TInvalidJson)
        | Some value \<Rightarrow> Inr (JObj [(''output'', value), (''producer_identity'', JStr (si_producer_identity semantic))]))))"

definition prefixed_artifact :: "string \<Rightarrow> bool" where
  "prefixed_artifact s \<longleftrightarrow> (case strip_prefix s ''sha256:'' of None \<Rightarrow> False | Some h \<Rightarrow> ArtifactId_parse h \<noteq> None)"

fun terminal_label :: "SentinelVerdict \<Rightarrow> string" where
  "terminal_label VInvalidInput = ''invalid_input''"
| "terminal_label _ = ''unsupported_language''"

definition reduction_material ::
    "json_env \<Rightarrow> SentinelReductionInput \<Rightarrow> jvalue option \<Rightarrow> jvalue" where
  "reduction_material env input semantic =
     JObj [(''policy_digest'', JStr (reduction_policy_digest env)), (''preparation_identity'', JStr (ri_preparation_identity input)),
           (''source_cover'', (case ri_source_cover input of None \<Rightarrow> JNull | Some cover \<Rightarrow> SourceSpan_value cover)),
           (''preparation_terminal'', opt_str_value (map_option terminal_label (ri_preparation_terminal input))),
           (''semantic'', (case semantic of None \<Rightarrow> JNull | Some v \<Rightarrow> v)),
           (''behavior_digest'', opt_str_value (map_option (\<lambda>r. worker_digest env (probe_report_bytes env r)) (ri_behavior input))),
           (''observation_digest'', opt_str_value (map_option (\<lambda>t. worker_digest env (observation_bytes env t)) (ri_observation input)))]"

definition opt_evidence :: "('a \<Rightarrow> TypedOutputError + TypedOutput option) \<Rightarrow> 'a option \<Rightarrow> SentinelReductionError + TypedOutput option" where
  "opt_evidence f v = (case v of None \<Rightarrow> Inr None | Some a \<Rightarrow> map_err ReductionTypedOutput (f a))"

definition reduce_sentinel ::
    "json_env \<Rightarrow> json_decoder \<Rightarrow> SentinelReductionInput \<Rightarrow> SentinelReductionError + SentinelReduction" where
  "reduce_sentinel env decode input =
     (if (case ri_preparation_terminal input of None \<Rightarrow> False | Some verdict \<Rightarrow> verdict \<notin> {VInvalidInput, VUnsupportedLanguage})
      then Inl InvalidTerminal
      else if \<not> prefixed_artifact (ri_preparation_identity input)
        \<or> ri_preparation_terminal input = None \<and> ri_source_cover input = None
        \<or> (case ri_source_cover input of None \<Rightarrow> False | Some cover \<Rightarrow> sp_start cover \<noteq> 0)
      then Inl InvalidBinding
      else
        res_bind (case ri_semantic input of None \<Rightarrow> Inr None
          | Some semantic \<Rightarrow> ok_some (semantic_reduction_material env decode (ri_source_cover input) semantic)) (\<lambda>material.
        if (case ri_behavior input of None \<Rightarrow> False
            | Some report \<Rightarrow> (case ri_source_cover input of None \<Rightarrow> True
                | Some cover \<Rightarrow> sp_artifact_id cover \<noteq> rep_original_artifact_id report))
        then Inl InvalidBinding
        else if (case ri_observation input of None \<Rightarrow> False
            | Some observation \<Rightarrow> (case ri_behavior input of None \<Rightarrow> True
                | Some report \<Rightarrow> \<not> matches_report env observation report))
        then Inl InvalidBinding
        else
          let identity = ''sha256:'' @ digest env (reduction_material env input material) in
          res_bind (opt_evidence (report_evidence env) (ri_behavior input)) (\<lambda>hard.
          res_bind (opt_evidence (observation_evidence env)
            (Option.bind (ri_observation input) (\<lambda>t. if tb_weak_signals t = [] then None else Some t))) (\<lambda>weak.
            finish_reduction env (ri_preparation_terminal input) (map_option si_output (ri_semantic input)) hard weak
              identity (reduction_policy_digest env)))))"

definition referenced_suspicious :: "string \<Rightarrow> TypedOutputError + TypedOutput" where
  "referenced_suspicious address =
     (case strip_prefix address ''sha256:'' of None \<Rightarrow> Inl TInvalidJson | Some ident \<Rightarrow> cited_suspicious ident address)"

definition opt_reference :: "bool \<Rightarrow> string \<Rightarrow> SentinelReductionError + TypedOutput option" where
  "opt_reference present address =
     (if present then map_err ReductionTypedOutput (ok_some (referenced_suspicious address)) else Inr None)"

definition reduce_model_trajectory ::
    "json_env \<Rightarrow> ModelTrajectoryEvidence \<Rightarrow> WeakSignal list \<Rightarrow> string \<Rightarrow> SentinelReductionError + SentinelReduction" where
  "reduce_model_trajectory env facts weak observation_identity =
     (if \<not> prefixed_artifact observation_identity then Inl InvalidBinding
      else
        let policy = reduction_policy_digest env;
            weak_digest = worker_digest env (json_vec env (normal
              (JObj [(''version'', JStr ''model-trajectory-weak-evidence-v1''), (''producer'', JStr (me_identity facts)),
                     (''observation'', JStr observation_identity), (''weak_signals'', strs_value (map WeakSignal_serde weak))])));
            identity = worker_digest env (json_vec env (normal
              (JObj [(''policy_digest'', JStr policy), (''model_producer'', JStr (me_identity facts)), (''source'', JStr (me_source facts)),
                     (''observation'', JStr observation_identity), (''weak_digest'', JStr weak_digest)])))
        in
        res_bind (opt_reference (case me_stop facts of StopTripwire _ \<Rightarrow> True | _ \<Rightarrow> False) (me_report_digest facts)) (\<lambda>hard.
        res_bind (opt_reference (weak \<noteq> []) weak_digest) (\<lambda>weak.
          finish_reduction env None None hard weak identity policy)))"

end
