(* ===== verification/Probe_Worker_Correct.thy ===== *)
theory Probe_Worker_Correct
  imports Probe_Worker
begin

text \<open>
  What the sealed worker promises: an accepted report is the evaluation the host makes itself, an honest
  worker is accepted, its verdicts are those of the scripted simulation, the two phases of a feedback
  observation share one budget, and counterfactual sources are exact edits of the original.
\<close>

section \<open>Acceptance\<close>

lemma execute_expected_Inr: "execute_expected env wire host w input expected = Inr r \<Longrightarrow> r = expected"
  by (auto simp: execute_expected_def Let_def split: if_splits sum.splits SandboxError.splits option.splits)

lemma worker_execute_Inr: "worker_execute env wire host w input = Inr r \<Longrightarrow> r = worker_evaluate env never_expired input"
  unfolding worker_execute_def by (rule execute_expected_Inr)

lemma observe_batch_Inr:
  assumes "observe_batch env wire host w approval bytes = Inr r"
  obtains batch input where "ModelBatch_parse env wire bytes = Inr batch"
    "recorded_request env (TrustedModelProbe_identity env approval) (ph_run_id host) (sw_digest w) (mp_limits approval) batch = Inr input"
    "r = worker_evaluate env never_expired input"
  using assms by (auto simp: observe_batch_def res_iffs dest: worker_execute_Inr)

lemma recorded_request_Inr:
  assumes "recorded_request env approval run worker limits batch = Inr input"
  shows "wr_protocol input = PROTOCOL" "worker_scope env approval run worker = Inr (wr_scope input)"
    "wr_max_steps input = pl_max_steps limits" "wr_timeout_ms input = pl_timeout_ms limits" "wr_batch input = batch"
    "ProbeLimits_validate limits = Inr ()"
  using assms by (auto simp: recorded_request_def res_iffs split: if_splits)

lemma evaluate_steps_keeps:
  "wy_protocol (evaluate_steps env expired m seq steps r) = wy_protocol r"
  "wy_scope (evaluate_steps env expired m seq steps r) = wy_scope r"
  "wy_batch_digest (evaluate_steps env expired m seq steps r) = wy_batch_digest r"
  by (induction steps arbitrary: seq r) (simp_all add: Let_def split: SimulatedToolOutcome.split)

lemma worker_evaluate_keeps [simp]:
  "wy_protocol (worker_evaluate env expired input) = PROTOCOL"
  "wy_scope (worker_evaluate env expired input) = wr_scope input"
  by (simp_all add: worker_evaluate_def Let_def evaluate_steps_keeps)

lemma evaluate_steps_bounded:
  assumes "length (wy_events r) = seq" "seq \<le> unat m"
  shows "length (wy_events (evaluate_steps env expired m seq steps r)) \<le> unat m
    \<and> length (wy_events (evaluate_steps env expired m seq steps r)) \<le> seq + length steps"
  using assms
proof (induction steps arbitrary: seq r)
  case (Cons a steps)
  let ?r = "r\<lparr>wy_events := wy_events r @
    [\<lparr>we_seq = seq, we_action_digest = worker_digest env (json_vec env (ModelAction_value a)), we_outcome = model_outcome a\<rparr>]\<rparr>"
  have ih: "length (wy_events (evaluate_steps env expired m (Suc seq) steps ?r)) \<le> unat m
      \<and> length (wy_events (evaluate_steps env expired m (Suc seq) steps ?r)) \<le> Suc seq + length steps" if "seq < unat m"
    using that Cons.IH [of ?r "Suc seq"] Cons.prems by simp
  show ?case using ih Cons.prems by (auto simp: Let_def split: SimulatedToolOutcome.split)
qed simp

lemma worker_evaluate_bounded:
  "length (wy_events (worker_evaluate env expired input)) \<le> unat (wr_max_steps input)"
  "length (wy_events (worker_evaluate env expired input)) \<le> length (mb_steps (wr_batch input))"
  using evaluate_steps_bounded [where seq = 0] by (simp_all add: worker_evaluate_def Let_def)

text \<open>A report accepted live verifies later, and nothing else does.\<close>

lemma recorded_verifies:
  assumes "observe_batch env wire host w approval bytes = Inr r"
    and "ww_reply wire (report_bytes env r) = Some r" "length (report_bytes env r) \<le> OUTPUT_BYTES"
  shows "verify_recorded_batch env wire (TrustedModelProbe_identity env approval) (ph_run_id host) (sw_digest w) (mp_limits approval)
      bytes (report_bytes env r) = Inr ()"
  using assms by (auto elim!: observe_batch_Inr simp: verify_recorded_batch_def)

lemma verified_is_evaluated:
  assumes "observe_batch env wire host w approval bytes = Inr r"
    and "verify_recorded_batch env wire (TrustedModelProbe_identity env approval) (ph_run_id host) (sw_digest w) (mp_limits approval)
      bytes report = Inr ()"
  shows "ww_reply wire report = Some r"
  using assms by (auto elim!: observe_batch_Inr simp: verify_recorded_batch_def split: if_splits option.splits)

section \<open>An honest worker\<close>

text \<open>The sandbox runs the worker on its input and reports what it printed.\<close>

definition honest :: "json_env \<Rightarrow> worker_wire \<Rightarrow> probe_host \<Rightarrow> bool" where
  "honest env wire host \<longleftrightarrow> ph_request_ok host \<and>
     (\<forall>exe input timeout output. run_worker env wire never_expired input = Inr output \<longrightarrow>
        ph_sandbox host exe input timeout = Inr \<lparr>sx_exit_success = True, sx_stdout = output, sx_stderr = []\<rparr>)"

lemma worker_digest_valid: "length (je_sha256 env x) = 32 \<Longrightarrow> valid_digest (worker_digest env x)"
  using hex_lower [of "je_sha256 env x"]
  by (simp add: valid_digest_def worker_digest_def strip_prefix_def starts_with_def lower_hex64_def length_hex)

lemma ModelBatch_parse_Inr:
  assumes "ModelBatch_parse env wire bytes = Inr batch"
  shows "ModelBatch_validate env batch = Inr ()" "ww_batch wire bytes = Some batch" "length bytes \<le> MAX_BATCH_BYTES"
  using assms by (auto simp: ModelBatch_parse_def res_iffs split: if_splits option.splits)

lemma honest_accepted:
  assumes "ModelBatch_parse env wire bytes = Inr batch"
    and req: "recorded_request env (TrustedModelProbe_identity env approval) (ph_run_id host) (sw_digest w) (mp_limits approval) batch = Inr input"
    and hon: "honest env wire host" and len: "\<And>x. length (je_sha256 env x) = 32"
    and dec: "ww_request wire (json_vec env (WorkerRequest_value input)) = Some input"
    and size: "length (json_vec env (WorkerRequest_value input)) \<le> MAX_STDIN_BYTES"
    and rep: "ww_reply wire (report_bytes env (worker_evaluate env never_expired input)) = Some (worker_evaluate env never_expired input)"
  shows "observe_batch env wire host w approval bytes = Inr (worker_evaluate env never_expired input)"
proof -
  note r = recorded_request_Inr [OF req]
  have "wr_scope input = worker_digest env (json_vec env (normal
      (JObj [(''domain'', JStr ''sentinel-model-worker-v1''), (''protocol'', JNum (uint PROTOCOL)), (''approval'', JStr (TrustedModelProbe_identity env approval)),
             (''run'', JStr (ph_run_id host)), (''worker'', JStr (sw_digest w)), (''tools'', strs_value PROBE_TOOL_CATALOG)])))"
    using r(2) by (auto simp: worker_scope_def split: if_splits)
  then have scope: "valid_digest (wr_scope input)" using worker_digest_valid len by simp
  have limits: "1 \<le> wr_max_steps input \<and> wr_max_steps input \<le> 32" "1 \<le> wr_timeout_ms input \<and> wr_timeout_ms input \<le> 1000"
    using r(6) unfolding r(3,4) ProbeLimits_validate_def by (auto split: if_splits)
  have run: "run_worker env wire never_expired (json_vec env (WorkerRequest_value input))
      = Inr (report_bytes env (worker_evaluate env never_expired input))"
    unfolding run_worker_def using size dec r(1) scope limits ModelBatch_parse_Inr(1) [OF assms(1)] r(5)
    by (simp add: report_bytes_def)
  have "execute_expected env wire host w input (worker_evaluate env never_expired input) = Inr (worker_evaluate env never_expired input)"
    using hon run size rep by (simp add: execute_expected_def honest_def Let_def)
  then show ?thesis using assms(1) req by (simp add: observe_batch_def worker_execute_def)
qed

section \<open>Agreement with the scripted simulation\<close>

fun as_script :: "ModelAction \<Rightarrow> Action" where
  "as_script (ModelCall tool arguments) = Call tool arguments"
| "as_script (ModelOutput text') = Output text'"

lemma as_script_not_crash [simp]: "as_script a \<noteq> Crash"
  by (cases a) auto

lemma worker_signal_eq: "worker_signal ss = token_signal False ss"
  by (induction ss) auto

lemma model_outcome_eq: "model_outcome a = action_outcome False (as_script a)"
  by (cases a) (simp_all add: model_outcome_def action_outcome_def worker_signal_eq split: option.split)

text \<open>Both loops see the same clock samples, and the scripted one is not cancelled.\<close>

lemma evaluate_steps_scripted:
  assumes "list_all (\<lambda>a. model_outcome a \<noteq> SyntheticCredential) steps" "wy_stop r = rep_stop q"
    and "map we_outcome (wy_events r) = map ev_outcome (rep_events q)" "pl_max_steps limits = m"
  shows "wy_stop (evaluate_steps env expired m seq steps r)
      = rep_stop (run_steps never_expired expired fingerprint sha256 limits seq (map as_script steps) False q) \<and>
    map we_outcome (wy_events (evaluate_steps env expired m seq steps r))
      = map ev_outcome (rep_events (run_steps never_expired expired fingerprint sha256 limits seq (map as_script steps) False q))"
  using assms
proof (induction steps arbitrary: seq r q)
  case (Cons a steps)
  let ?r = "r\<lparr>wy_events := wy_events r @
    [\<lparr>we_seq = seq, we_action_digest = worker_digest env (json_vec env (ModelAction_value a)), we_outcome = model_outcome a\<rparr>]\<rparr>"
  let ?q = "q\<lparr>rep_events := rep_events q @ [\<lparr>ev_seq = seq, ev_kind = fst (kind_tool (as_script a)), ev_tool = snd (kind_tool (as_script a)),
    ev_action_digest = fingerprint (as_script a), ev_outcome = model_outcome a\<rparr>]\<rparr>"
  have "wy_stop ?r = rep_stop ?q" "map we_outcome (wy_events ?r) = map ev_outcome (rep_events ?q)" using Cons.prems(2,3) by simp_all
  note ih = Cons.IH [OF _ this Cons.prems(4), of "Suc seq"]
  show ?case
  proof (cases "model_outcome a")
    case Recorded
    then show ?thesis using ih Cons.prems by (simp add: never_expired_def model_outcome_eq [symmetric] Let_def)
  next
    case SyntheticCredential
    then show ?thesis using Cons.prems(1) by simp
  qed (use Cons.prems in \<open>simp_all add: never_expired_def model_outcome_eq [symmetric] Let_def\<close>)
qed simp

text \<open>A deadline or a cancellation only cuts a run short: the outcomes before it are those of the full run.\<close>

lemma evaluate_steps_extends: "\<exists>zs. wy_events (evaluate_steps env expired m seq steps r) = wy_events r @ zs"
proof (induction steps arbitrary: seq r)
  case (Cons a steps)
  let ?r = "r\<lparr>wy_events := wy_events r @
    [\<lparr>we_seq = seq, we_action_digest = worker_digest env (json_vec env (ModelAction_value a)), we_outcome = model_outcome a\<rparr>]\<rparr>"
  show ?case using Cons.IH [of "Suc seq" ?r] by (auto simp: Let_def split: SimulatedToolOutcome.split)
qed simp

lemma evaluate_steps_cut:
  "\<exists>zs. wy_events (evaluate_steps env never_expired m seq steps r) = wy_events (evaluate_steps env expired m seq steps r) @ zs"
proof (induction steps arbitrary: seq r)
  case (Cons a steps)
  show ?case
  proof (cases "expired seq")
    case True
    then show ?thesis using evaluate_steps_extends [of env never_expired m seq "a # steps" r] by simp
  next
    case False
    then show ?thesis using Cons.IH [of "Suc seq"] by (simp add: never_expired_def [of seq] Let_def split: SimulatedToolOutcome.split)
  qed
qed simp

lemma scripted_steps_extend: "\<exists>zs. rep_events (run_steps cancelled expired fingerprint sha256 limits seq steps canary q) = rep_events q @ zs"
proof (induction steps arbitrary: seq canary q)
  case (Cons a steps)
  let ?e = "\<lparr>ev_seq = seq, ev_kind = fst (kind_tool a), ev_tool = snd (kind_tool a), ev_action_digest = fingerprint a,
    ev_outcome = action_outcome canary a\<rparr>"
  have "\<exists>zs. rep_events (run_steps cancelled expired fingerprint sha256 limits (Suc seq) steps c q') = rep_events q @ zs"
    if "rep_events q' = rep_events q @ [?e]" for c q'
    using Cons.IH [of "Suc seq" c q'] that by auto
  then show ?case by (simp add: Let_def split: SimulatedToolOutcome.split sum.split)
qed simp

lemma scripted_steps_cut:
  "\<exists>zs. rep_events (run_steps never_expired never_expired fingerprint sha256 limits seq steps canary q)
     = rep_events (run_steps cancelled expired fingerprint sha256 limits seq steps canary q) @ zs"
proof (induction steps arbitrary: seq canary q)
  case (Cons a steps)
  show ?case
  proof (cases "cancelled seq \<or> expired seq")
    case True
    then show ?thesis using scripted_steps_extend [of never_expired never_expired fingerprint sha256 limits seq "a # steps" canary q] by auto
  next
    case False
    then show ?thesis using Cons.IH [of "Suc seq"]
      by (simp add: never_expired_def [of seq] Let_def split: SimulatedToolOutcome.split sum.split)
  qed
qed simp

lemma common_prefix:
  assumes "full = xs @ zs" "full = ys @ zs'"
  shows "(\<exists>us. xs = ys @ us) \<or> (\<exists>us. ys = xs @ us)"
  using assms by (metis append_eq_append_conv2)

section \<open>The budget of a feedback observation\<close>

lemma PhaseClock_start_Inr:
  assumes "PhaseClock_start start s slot route = Inr clock"
  shows "pc_route_deadline clock = route" "pc_deadline clock \<le> route" "pc_deadline clock = start + 1000000 * unat slot"
  using assms by (auto simp: PhaseClock_start_def Let_def res_iffs instant_checked_add_def split: option.splits if_splits)

lemma phase_accept_Inr:
  assumes "phase_accept p s = Inr (r, c)"
  shows "r = pf_report p" "c = pf_continuation p" "ps_now s < pc_deadline (pf_clock p)" "ps_now s < pc_route_deadline (pf_clock p)"
    "\<not> ps_cancelled s"
  using assms by (auto simp: phase_accept_def PhaseClock_check_def res_iffs split: if_splits)

lemma start_feedback_Some:
  assumes "start_feedback env wire host w approval bytes route start s = Inr p" "pf_continuation p = Some c"
  shows "fc_approval c = approval" "fc_worker c = w" "fc_run_id c = ph_run_id host" "fc_route_deadline c = route"
    "fc_slot_ms c = pl_timeout_ms (mp_limits approval) - pl_timeout_ms (mp_limits approval) div 2"
    "2 \<le> pl_max_steps (mp_limits approval)" "length (wy_events (pf_report p)) = 1"
    "we_outcome (hd (wy_events (pf_report p))) = Recorded"
    "fc_prior c = worker_digest env (report_bytes env (pf_report p))" "pc_route_deadline (pf_clock p) = route"
    "pc_deadline (pf_clock p) = start + 1000000 * unat (pl_timeout_ms (mp_limits approval) div 2)"
  using assms
  by (auto simp: start_feedback_def Let_def res_iffs not_less split: if_splits dest: PhaseClock_start_Inr)

text \<open>A first phase that may be continued executed the one read that the approval knows.\<close>

definition feedback_read :: ModelAction where
  "feedback_read = ModelCall ''read_document'' [(''path'', ''workspace/report.txt'')]"

lemma continuable_single:
  assumes "continuable steps" "length steps = 1"
  shows "steps = [feedback_read]"
proof -
  obtain tool arguments where s: "steps = [ModelCall tool arguments]"
    using assms by (cases steps rule: continuable.cases) auto
  then have "tool = ''read_document''" "length arguments = 1" "map_of arguments ''path'' = Some ''workspace/report.txt''"
    using assms(1) by simp_all
  then show ?thesis by (cases arguments) (auto simp: s feedback_read_def split: if_splits)
qed

lemma start_feedback_read:
  assumes "start_feedback env wire host w approval bytes route start s = Inr p" "pf_continuation p = Some c"
  obtains batch where "ModelBatch_parse env wire bytes = Inr batch" "mb_steps batch = [feedback_read]"
    and "wy_events (pf_report p) = [\<lparr>we_seq = 0, we_action_digest = worker_digest env (json_vec env (ModelAction_value feedback_read)),
           we_outcome = Recorded\<rparr>]"
proof -
  obtain batch input where b: "ModelBatch_parse env wire bytes = Inr batch" "length (mb_steps batch) = 1" "continuable (mb_steps batch)"
    and i: "recorded_request env (TrustedModelProbe_identity env approval) (ph_run_id host) (sw_digest w)
        \<lparr>pl_max_steps = 1, pl_timeout_ms = pl_timeout_ms (mp_limits approval) div 2\<rparr> batch = Inr input"
    and r: "pf_report p = worker_evaluate env never_expired input"
    and rec: "we_outcome (hd (wy_events (pf_report p))) = Recorded"
    using assms by (auto simp: start_feedback_def Let_def res_iffs split: if_splits dest!: worker_execute_Inr)
  note steps = continuable_single [OF b(3,2)]
  have "wy_events (pf_report p) = [\<lparr>we_seq = 0, we_action_digest = worker_digest env (json_vec env (ModelAction_value feedback_read)),
      we_outcome = model_outcome feedback_read\<rparr>]"
    using recorded_request_Inr [OF i]
    by (simp add: r worker_evaluate_def Let_def steps never_expired_def split: SimulatedToolOutcome.split)
  then show thesis using that [OF b(1) steps] rec by simp
qed

lemma continuation_observe_Inr:
  assumes "continuation_observe env wire host c bytes start s = Inr p"
  shows "pf_continuation p = None" "pc_route_deadline (pf_clock p) = fc_route_deadline c"
    "pc_deadline (pf_clock p) = start + 1000000 * unat (fc_slot_ms c)"
    "length (wy_events (pf_report p)) \<le> unat (pl_max_steps (mp_limits (fc_approval c)) - 1)"
    "\<exists>root. worker_scope env (TrustedModelProbe_identity env (fc_approval c)) (fc_run_id c) (sw_digest (fc_worker c)) = Inr root
      \<and> wy_scope (pf_report p) = worker_digest env (json_vec env (normal
          (JObj [(''domain'', JStr ''sentinel-model-feedback-worker-v1''), (''ordinal'', JNum 2), (''root'', JStr root),
                 (''prior_report'', JStr (fc_prior c))])))"
proof -
  obtain clock batch input where *: "PhaseClock_start start s (fc_slot_ms c) (fc_route_deadline c) = Inr clock"
    "recorded_request env (TrustedModelProbe_identity env (fc_approval c)) (fc_run_id c) (sw_digest (fc_worker c))
       \<lparr>pl_max_steps = pl_max_steps (mp_limits (fc_approval c)) - 1, pl_timeout_ms = fc_slot_ms c\<rparr> batch = Inr input"
    and p: "p = \<lparr>pf_report = worker_evaluate env never_expired (input\<lparr>wr_scope := worker_digest env (json_vec env (normal
            (JObj [(''domain'', JStr ''sentinel-model-feedback-worker-v1''), (''ordinal'', JNum 2), (''root'', JStr (wr_scope input)),
                   (''prior_report'', JStr (fc_prior c))])))\<rparr>), pf_continuation = None, pf_clock = clock\<rparr>"
    using assms by (auto simp: continuation_observe_def Let_def res_iffs split: if_splits dest!: worker_execute_Inr)
  note r = recorded_request_Inr [OF *(2)]
  show "pf_continuation p = None" "pc_route_deadline (pf_clock p) = fc_route_deadline c"
    "pc_deadline (pf_clock p) = start + 1000000 * unat (fc_slot_ms c)"
    using PhaseClock_start_Inr [OF *(1)] by (simp_all add: p)
  show "length (wy_events (pf_report p)) \<le> unat (pl_max_steps (mp_limits (fc_approval c)) - 1)"
    using worker_evaluate_bounded(1) [of env never_expired "input\<lparr>wr_scope := x\<rparr>" for x] r(3) by (simp add: p)
  show "\<exists>root. worker_scope env (TrustedModelProbe_identity env (fc_approval c)) (fc_run_id c) (sw_digest (fc_worker c)) = Inr root
      \<and> wy_scope (pf_report p) = worker_digest env (json_vec env (normal
          (JObj [(''domain'', JStr ''sentinel-model-feedback-worker-v1''), (''ordinal'', JNum 2), (''root'', JStr root),
                 (''prior_report'', JStr (fc_prior c))])))"
    using r(2) by (simp add: p)
qed

lemma feedback_budget_raw:
  assumes "start_feedback env wire host w approval bytes route start s = Inr p" "phase_accept p s1 = Inr (r1, Some c)"
    and "continuation_observe env wire host' c bytes' start' s' = Inr p'" "phase_accept p' s2 = Inr (r2, next)"
  shows "next = None \<and> length (wy_events r1) = 1 \<and> we_outcome (hd (wy_events r1)) = Recorded
    \<and> length (wy_events r1) + length (wy_events r2) \<le> unat (pl_max_steps (mp_limits approval))
    \<and> (pc_deadline (pf_clock p) - start) + (pc_deadline (pf_clock p') - start') = 1000000 * unat (pl_timeout_ms (mp_limits approval))
    \<and> ps_now s1 < route \<and> ps_now s2 < route
    \<and> (\<exists>root. worker_scope env (TrustedModelProbe_identity env approval) (ph_run_id host) (sw_digest w) = Inr root
        \<and> wy_scope r2 = worker_digest env (json_vec env (normal
            (JObj [(''domain'', JStr ''sentinel-model-feedback-worker-v1''), (''ordinal'', JNum 2), (''root'', JStr root),
                   (''prior_report'', JStr (worker_digest env (report_bytes env r1)))]))))"
proof -
  note a1 = phase_accept_Inr [OF assms(2)] and a2 = phase_accept_Inr [OF assms(4)]
  note c = start_feedback_Some [OF assms(1) a1(2) [symmetric]] and o = continuation_observe_Inr [OF assms(3)]
  have "unat (pl_max_steps (mp_limits approval) - 1) = unat (pl_max_steps (mp_limits approval)) - 1"
    using c(6) by (intro unat_minus_one) auto
  moreover have "2 \<le> unat (pl_max_steps (mp_limits approval))" using c(6) by (simp add: word_le_nat_alt)
  ultimately have steps: "length (wy_events r1) + length (wy_events r2) \<le> unat (pl_max_steps (mp_limits approval))"
    using c(1,7) o(4) a1(1) a2(1) by simp
  let ?t = "pl_timeout_ms (mp_limits approval)"
  have half: "unat (?t div 2) = unat ?t div 2" by (simp add: unat_div)
  then have "?t div 2 \<le> ?t" by (simp add: word_le_nat_alt)
  then have "unat (?t - ?t div 2) = unat ?t - unat ?t div 2" by (simp add: unat_sub half)
  then have "unat (?t div 2) + unat (fc_slot_ms c) = unat ?t" using half c(5) by simp
  then have "1000000 * unat (?t div 2) + 1000000 * unat (fc_slot_ms c) = 1000000 * unat ?t" by (metis distrib_left)
  then have slots: "(pc_deadline (pf_clock p) - start) + (pc_deadline (pf_clock p') - start') = 1000000 * unat ?t"
    using c(11) o(3) by simp
  show ?thesis using c o a1 a2 steps slots by simp
qed

section \<open>Counterfactual sources\<close>

lemma continuation_byte:
  assumes "k < 64"
  shows "\<not> (word_of_nat (128 + k) :: byte) < 0x80" "\<not> 0xC0 \<le> (word_of_nat (128 + k) :: byte)"
proof -
  have "unat (word_of_nat (128 + k) :: byte) = 128 + k" using assms by (simp add: unat_of_nat del: of_nat_add)
  then show "\<not> (word_of_nat (128 + k) :: byte) < 0x80" "\<not> 0xC0 \<le> (word_of_nat (128 + k) :: byte)"
    using assms by (simp_all add: word_less_nat_alt word_le_nat_alt del: of_nat_add)
qed

lemma utf8_inner_byte:
  assumes "0 < j" "j < length (utf8 ch)"
  shows "\<not> utf8 ch ! j < 0x80 \<and> \<not> 0xC0 \<le> utf8 ch ! j"
proof -
  have small: "list_all (\<lambda>v. \<exists>k. v = 128 + k mod 64) (tl (utf8_values ch))"
    by (auto simp: utf8_values_def)
  have len: "length (utf8 ch) = length (utf8_values ch)" by (simp add: utf8_def)
  obtain i where i: "j = Suc i" using assms(1) by (cases j) auto
  then have "i < length (tl (utf8_values ch))" using assms(2) len by simp
  then obtain k where "tl (utf8_values ch) ! i = 128 + k mod 64" using small by (auto simp: list_all_length)
  then have "utf8_values ch ! j = 128 + k mod 64" using i assms(2) len by (simp add: nth_tl)
  then have "utf8 ch ! j = word_of_nat (128 + k mod 64)" using assms(2) len by (simp add: utf8_def del: of_nat_add)
  then show ?thesis using continuation_byte [of "k mod 64"] by (simp del: of_nat_add)
qed

lemma boundary_split:
  assumes "is_char_boundary (concat (map utf8 chars)) i" "i \<le> length (concat (map utf8 chars))"
  shows "\<exists>cs ds. chars = cs @ ds \<and> i = length (concat (map utf8 cs))"
  using assms
proof (induction chars arbitrary: i)
  case (Cons ch chars)
  let ?n = "length (utf8 ch)"
  consider "i = 0" | "?n \<le> i" | "0 < i" "i < ?n" by linarith
  then show ?case
  proof cases
    case 1
    then have "ch # chars = [] @ (ch # chars) \<and> i = length (concat (map utf8 []))" by simp
    then show ?thesis by blast
  next
    case 2
    then have "is_char_boundary (concat (map utf8 chars)) (i - ?n)"
      using Cons.prems length_utf8_pos [of ch] unfolding is_char_boundary_def by (auto simp: nth_append)
    moreover have "i - ?n \<le> length (concat (map utf8 chars))" using Cons.prems(2) 2 by simp
    ultimately obtain cs ds where "chars = cs @ ds" "i - ?n = length (concat (map utf8 cs))" using Cons.IH by blast
    then have "ch # chars = (ch # cs) @ ds \<and> i = length (concat (map utf8 (ch # cs)))" using 2 by simp
    then show ?thesis by blast
  next
    case 3
    then have "concat (map utf8 (ch # chars)) ! i = utf8 ch ! i" by (simp add: nth_append)
    then show ?thesis using Cons.prems(1) 3 utf8_inner_byte [OF 3] by (auto simp: is_char_boundary_def)
  qed
qed simp

lemma utf8_ascii: "list_all (\<lambda>b. b < 0x80) bs \<Longrightarrow> bs = concat (map utf8 (map unat bs))"
proof (induction bs)
  case (Cons b bs)
  then have "unat b < 128" by (simp add: word_less_nat_alt)
  then have "utf8 (unat b) = [b]" by (simp add: utf8_def utf8_values_def)
  then show ?case using Cons by simp
qed simp

lemma from_utf8_ascii: "list_all (\<lambda>b. b < 0x80) bs \<Longrightarrow> from_utf8 bs = Some (map unat bs)"
proof -
  assume a: "list_all (\<lambda>b. b < 0x80) bs"
  have "list_all scalar (map unat bs)" using a by (auto simp: list_all_iff scalar_def word_less_nat_alt)
  from from_utf8_complete [OF this] show ?thesis using utf8_ascii [OF a] by simp
qed

definition blanked :: "byte list \<Rightarrow> byte list" where
  "blanked bs = map (\<lambda>b. if b = 13 \<or> b = 10 then b else 32) bs"

lemma blanked_ascii: "list_all (\<lambda>b. b < 0x80) (blanked bs)" "length (blanked bs) = length bs"
  by (auto simp: blanked_def list_all_iff)

lemma ArtifactId_parse_hex: "length bytes = 32 \<Longrightarrow> ArtifactId_parse (hex bytes) = Some (hex bytes)"
  using hex_lower [of bytes] by (simp add: ArtifactId_parse_def length_hex list_all_iff is_lower_hex_def)

lemma counterfactual_exact_raw:
  assumes "counterfactual_derive env approval span raw = Inr cf" "\<And>x. length (je_sha256 env x) = 32"
  shows "\<exists>a m b. list_all scalar (a @ m @ b) \<and> m \<noteq> [] \<and> raw = concat (map utf8 (a @ m @ b))
     \<and> unat (sp_start span) = length (concat (map utf8 a)) \<and> unat (sp_end span) = length (concat (map utf8 (a @ m)))
     \<and> map cs_bytes (cf_variants cf) =
         [raw, concat (map utf8 (a @ b)), concat (map utf8 a) @ blanked (concat (map utf8 m)) @ concat (map utf8 b), concat (map utf8 m)]
     \<and> list_all (\<lambda>v. from_utf8 (cs_bytes v) \<noteq> None) (cf_variants cf)
     \<and> list_all (\<lambda>v. cs_source_id v = (if cs_bytes v = [] then None else Some (hex (je_sha256 env (cs_bytes v)))) \<and>
          cs_approval v = map_option (exact_derivative approval) (cs_source_id v)) (cf_variants cf)"
proof -
  let ?s = "unat (sp_start span)" and ?e = "unat (sp_end span)"
  let ?U = "\<lambda>cs. concat (map utf8 cs)"
  obtain chars where chars: "from_utf8 raw = Some chars" using assms(1) by (cases "from_utf8 raw") (simp_all add: counterfactual_derive_def)
  have guard: "is_char_boundary raw ?s" "is_char_boundary raw ?e" "?s < ?e" "?e \<le> length raw"
    using assms(1) chars by (auto simp: counterfactual_derive_def Let_def split: if_splits)
  have raw: "raw = ?U chars" "list_all scalar chars" using chars by (simp_all add: from_utf8_iff)
  obtain am b where e: "chars = am @ b" "?e = length (?U am)" using boundary_split [of chars ?e] guard raw(1) by blast
  have "is_char_boundary (?U am) ?s"
    using guard(1,3) e unfolding raw(1) is_char_boundary_def by (auto simp: nth_append)
  then obtain a m where s: "am = a @ m" "?s = length (?U a)" using boundary_split [of am ?s] guard(3) e(2) by force
  have m: "m \<noteq> []" using guard(3) e(2) s by auto
  have vs: "cf_variants cf = map (\<lambda>(operator, bytes). counterfactual_source env approval operator bytes)
      [(CfOriginal, raw), (CfRemove, take ?s raw @ drop ?e raw), (CfNeutralize, neutralized raw ?s ?e), (CfIsolate, take (?e - ?s) (drop ?s raw))]"
    using assms(1) chars by (auto simp: counterfactual_derive_def Let_def split: if_splits)
  have parts: "take ?s raw = ?U a" "drop ?e raw = ?U b" "take (?e - ?s) (drop ?s raw) = ?U m"
    using raw(1) e s by simp_all
  have bytes: "map cs_bytes (cf_variants cf) = [raw, ?U (a @ b), ?U a @ blanked (?U m) @ ?U b, ?U m]"
    unfolding vs by (simp add: counterfactual_source_def Let_def neutralized_def parts blanked_def)
  have sc: "list_all scalar (a @ m @ b)" using raw(2) e(1) s(1) by simp
  let ?n = "map unat (blanked (?U m))"
  have n: "blanked (?U m) = ?U ?n" using utf8_ascii blanked_ascii(1) by blast
  have "list_all scalar ?n" using blanked_ascii(1) [of "?U m"] by (auto simp: list_all_iff scalar_def word_less_nat_alt)
  then have "from_utf8 (?U (a @ ?n @ b)) \<noteq> None" using from_utf8_complete [of "a @ ?n @ b"] sc by simp
  then have mid: "from_utf8 (?U a @ blanked (?U m) @ ?U b) \<noteq> None" using n by simp
  have "from_utf8 (?U (a @ b)) \<noteq> None" "from_utf8 (?U m) \<noteq> None"
    using from_utf8_complete [of "a @ b"] from_utf8_complete [of m] sc by simp_all
  then have "list_all (\<lambda>bs. from_utf8 bs \<noteq> None) (map cs_bytes (cf_variants cf))"
    unfolding bytes using mid chars by simp
  then have valid: "list_all (\<lambda>v. from_utf8 (cs_bytes v) \<noteq> None) (cf_variants cf)" by (simp add: list.pred_map comp_def)
  have ids: "list_all (\<lambda>v. cs_source_id v = (if cs_bytes v = [] then None else Some (hex (je_sha256 env (cs_bytes v)))) \<and>
      cs_approval v = map_option (exact_derivative approval) (cs_source_id v)) (cf_variants cf)"
    unfolding vs using assms(2) by (simp add: counterfactual_source_def Let_def ArtifactId_parse_hex)
  show ?thesis using sc m raw(1) e s bytes valid ids by (intro exI [of _ a] exI [of _ m] exI [of _ b]) simp
qed

section \<open>Properties\<close>

definition zero_env :: json_env where
  "zero_env = \<lparr>je_sha256 = (\<lambda>_. replicate 32 0), je_quote = (\<lambda>_. []), je_number = (\<lambda>_. [])\<rparr>"

definition zero_digest_text :: string where
  "zero_digest_text = ''sha256:'' @ replicate 64 (CHR ''0'')"

lemma zero_hex: "hex (je_sha256 zero_env x) = replicate 64 (CHR ''0'')"
proof -
  have "hex (replicate 32 0) = replicate 64 (CHR ''0'')" by code_simp
  then show ?thesis by (simp add: zero_env_def)
qed

lemma zero_digests [simp]:
  "worker_digest zero_env x = zero_digest_text" "TrustedModelProbe_identity zero_env p = zero_digest_text"
  "valid_digest zero_digest_text" "length (je_sha256 zero_env y) = 32"
proof -
  show "worker_digest zero_env x = zero_digest_text" "TrustedModelProbe_identity zero_env p = zero_digest_text"
    by (simp_all add: zero_hex worker_digest_def TrustedModelProbe_identity_def digest_def argument_fingerprint_def zero_digest_text_def)
  show "valid_digest zero_digest_text" by code_simp
  show "length (je_sha256 zero_env y) = 32" by (simp add: zero_env_def)
qed

definition live_probe :: TrustedModelProbe where
  "live_probe = \<lparr>mp_approved_ir_hash = zero_digest_text, mp_approved_source = replicate 64 (CHR ''0''),
     mp_provenance = sample_provenance UntrustedContent, mp_revision = ''r'', mp_model_route_digest = zero_digest_text,
     mp_limits = \<lparr>pl_max_steps = 4, pl_timeout_ms = 100\<rparr>, mp_reasoning_capture = False, mp_monitor = None\<rparr>"

definition sample_worker :: SealedProbeWorker where
  "sample_worker = \<lparr>sw_executable = [], sw_digest = zero_digest_text\<rparr>"

definition read_batch :: ModelBatch where
  "read_batch = \<lparr>mb_schema_version = 1, mb_steps = [ModelCall ''read_document'' [(''path'', ''workspace/report.txt'')]]\<rparr>"

definition done_batch :: ModelBatch where
  "done_batch = \<lparr>mb_schema_version = 1, mb_steps = [ModelOutput ''done'']\<rparr>"

definition sample_request :: "ModelBatch \<Rightarrow> usize \<Rightarrow> u64 \<Rightarrow> WorkerRequest" where
  "sample_request batch steps timeout =
     \<lparr>wr_protocol = PROTOCOL, wr_scope = zero_digest_text, wr_max_steps = steps, wr_timeout_ms = timeout, wr_batch = batch\<rparr>"

lemma sample_recorded:
  "ProbeLimits_validate \<lparr>pl_max_steps = steps, pl_timeout_ms = timeout\<rparr> = Inr () \<Longrightarrow>
   recorded_request zero_env zero_digest_text ''run'' zero_digest_text \<lparr>pl_max_steps = steps, pl_timeout_ms = timeout\<rparr> batch
     = Inr (sample_request batch steps timeout)"
proof -
  have "\<not> blank ''run''" by code_simp
  then show "ProbeLimits_validate \<lparr>pl_max_steps = steps, pl_timeout_ms = timeout\<rparr> = Inr () \<Longrightarrow> ?thesis"
    by (simp add: recorded_request_def worker_scope_def sample_request_def)
qed

lemma sample_batches: "ModelBatch_validate zero_env read_batch = Inr ()" "ModelBatch_validate zero_env done_batch = Inr ()"
  by (simp_all add: ModelBatch_validate_def read_batch_def done_batch_def MAX_BATCH_BYTES_def json_vec_def ModelBatch_value_def zero_env_def)

lemma sample_read: "model_outcome (ModelCall ''read_document'' [(''path'', ''workspace/report.txt'')]) = Recorded"
  by code_simp

definition sample_wire :: "WorkerRequest \<Rightarrow> worker_wire" where
  "sample_wire input = \<lparr>ww_batch = (\<lambda>_. Some (wr_batch input)), ww_request = (\<lambda>_. Some input),
     ww_reply = (\<lambda>_. Some (worker_evaluate zero_env never_expired input))\<rparr>"

definition honest_host :: "worker_wire \<Rightarrow> probe_host" where
  "honest_host wire = \<lparr>ph_run_id = ''run'', ph_request_ok = True,
     ph_sandbox = (\<lambda>_ input _. case run_worker zero_env wire never_expired input of
        Inr output \<Rightarrow> Inr \<lparr>sx_exit_success = True, sx_stdout = output, sx_stderr = []\<rparr> | Inl _ \<Rightarrow> Inl SandboxFailure),
     ph_clone_ok = True, ph_seek_ok = True\<rparr>"

lemma honest_host_runs: "honest zero_env wire (honest_host wire)"
  by (simp add: honest_def honest_host_def)

lemma sample_parse: "ModelBatch_validate zero_env (wr_batch input) = Inr () \<Longrightarrow> ModelBatch_parse zero_env (sample_wire input) [1] = Inr (wr_batch input)"
  by (simp add: ModelBatch_parse_def MAX_BATCH_BYTES_def sample_wire_def)

lemma sample_limits:
  "ProbeLimits_validate \<lparr>pl_max_steps = 4, pl_timeout_ms = 100\<rparr> = Inr ()" "ProbeLimits_validate \<lparr>pl_max_steps = 1, pl_timeout_ms = 50\<rparr> = Inr ()"
  "ProbeLimits_validate \<lparr>pl_max_steps = 3, pl_timeout_ms = 50\<rparr> = Inr ()"
  by (simp_all add: ProbeLimits_validate_def)

abbreviation live_request :: WorkerRequest where
  "live_request \<equiv> sample_request read_batch 4 100"

lemma live_recorded:
  "recorded_request zero_env (TrustedModelProbe_identity zero_env live_probe) (ph_run_id (honest_host wire)) (sw_digest sample_worker)
     (mp_limits live_probe) (wr_batch live_request) = Inr live_request"
  using sample_recorded [OF sample_limits(1)] by (simp add: honest_host_def sample_worker_def live_probe_def) (simp add: sample_request_def)

lemma live_size: "length (json_vec zero_env (WorkerRequest_value (sample_request read_batch n t))) \<le> MAX_STDIN_BYTES"
  by (simp add: MAX_STDIN_BYTES_def json_vec_def WorkerRequest_value_def ModelBatch_value_def sample_request_def read_batch_def zero_env_def)

lemma live_batch: "ModelBatch_validate zero_env (wr_batch live_request) = Inr ()"
  using sample_batches(1) by (simp add: sample_request_def)

lemma live_accepted:
  "observe_batch zero_env (sample_wire live_request) (honest_host (sample_wire live_request)) sample_worker live_probe [1]
     = Inr (worker_evaluate zero_env never_expired live_request)"
  by (rule honest_accepted [OF sample_parse [OF live_batch] live_recorded honest_host_runs]) (simp_all add: live_size, simp_all add: sample_wire_def)

lemma live_report_size: "length (report_bytes zero_env (worker_evaluate zero_env never_expired live_request)) \<le> OUTPUT_BYTES"
  by (simp add: report_bytes_def json_vec_def WorkerReply_value_def worker_evaluate_def Let_def sample_request_def read_batch_def sample_read
      never_expired_def WorkerEvent_value_def OUTPUT_BYTES_def) (simp add: zero_env_def)

text \<open>
  C33: a worker report is authentic.  Whatever the sandboxed process prints, a report that \<open>observe_batch\<close>
  accepts is the evaluation that the host makes of the same batch under the same approval, run, worker and
  limits.  The bytes of an accepted report verify later, and any bytes that verify for this batch decode to
  this very report.
\<close>

theorem worker_report_authentic:
  assumes "observe_batch env wire host w approval bytes = Inr r"
    and "ww_reply wire (report_bytes env r) = Some r" "length (report_bytes env r) \<le> OUTPUT_BYTES"
  shows "(\<exists>batch input. ModelBatch_parse env wire bytes = Inr batch
      \<and> recorded_request env (TrustedModelProbe_identity env approval) (ph_run_id host) (sw_digest w) (mp_limits approval) batch = Inr input
      \<and> r = worker_evaluate env never_expired input)
    \<and> verify_recorded_batch env wire (TrustedModelProbe_identity env approval) (ph_run_id host) (sw_digest w) (mp_limits approval)
        bytes (report_bytes env r) = Inr ()
    \<and> (\<forall>report. verify_recorded_batch env wire (TrustedModelProbe_identity env approval) (ph_run_id host) (sw_digest w)
          (mp_limits approval) bytes report = Inr () \<longrightarrow> ww_reply wire report = Some r)"
  using observe_batch_Inr [OF assms(1)] recorded_verifies [OF assms] verified_is_evaluated [OF assms(1)] by blast

theorem worker_report_authentic_witness:
  "verify_recorded_batch zero_env (sample_wire live_request) (TrustedModelProbe_identity zero_env live_probe)
     (ph_run_id (honest_host (sample_wire live_request))) (sw_digest sample_worker) (mp_limits live_probe)
     [1] (report_bytes zero_env (worker_evaluate zero_env never_expired live_request)) = Inr ()"
  using worker_report_authentic [OF live_accepted _ live_report_size] by (simp add: sample_wire_def)

text \<open>
  an honest worker is accepted.  If the sandbox runs the worker of \<open>run_worker\<close> within its deadline
  and the decoders invert the encoders on the request and the reply at hand, every valid batch is observed
  and the report is the host's evaluation: no round of the protocol rejects an unmodified worker.
\<close>

theorem honest_worker_accepted:
  assumes "ModelBatch_parse env wire bytes = Inr batch"
    and "recorded_request env (TrustedModelProbe_identity env approval) (ph_run_id host) (sw_digest w) (mp_limits approval) batch = Inr input"
    and "honest env wire host" "\<And>x. length (je_sha256 env x) = 32"
    and "ww_request wire (json_vec env (WorkerRequest_value input)) = Some input"
    and "length (json_vec env (WorkerRequest_value input)) \<le> MAX_STDIN_BYTES"
    and "ww_reply wire (report_bytes env (worker_evaluate env never_expired input)) = Some (worker_evaluate env never_expired input)"
  shows "observe_batch env wire host w approval bytes = Inr (worker_evaluate env never_expired input)"
  using assms by (rule honest_accepted)

theorem honest_worker_accepted_witness:
  "observe_batch zero_env (sample_wire live_request) (honest_host (sample_wire live_request)) sample_worker live_probe [1]
     = Inr (worker_evaluate zero_env never_expired live_request)"
  by (rule honest_worker_accepted [OF sample_parse [OF live_batch] live_recorded honest_host_runs])
    (simp_all add: live_size, simp_all add: sample_wire_def)

text \<open>
  C34: the worker judges as the scripted simulation does.  For a batch whose actions never ask for a
  synthetic credential, and the scripted probe on the same actions with the same step limit: when the
  deadline is reached at the same steps for both and the scripted run is not cancelled, evaluation in the
  worker stops for the same reason and with the same outcome at every step as the scripted probe; and
  whatever the deadlines of the two and the cancellation of the scripted run, the two never disagree on a
  step: the outcomes of one are those of the other, possibly cut short.
\<close>

theorem worker_agrees_with_script:
  assumes "list_all (\<lambda>a. model_outcome a \<noteq> SyntheticCredential) (mb_steps (wr_batch input))"
    and "sc_steps (bpr_script probe) = map as_script (mb_steps (wr_batch input))"
    and "pl_max_steps (bpr_limits probe) = wr_max_steps input"
  shows "wy_stop (worker_evaluate env expired input) = rep_stop (run_until never_expired expired fingerprint sha256 probe) \<and>
    map we_outcome (wy_events (worker_evaluate env expired input))
      = map ev_outcome (rep_events (run_until never_expired expired fingerprint sha256 probe)) \<and>
    ((\<exists>cut. map we_outcome (wy_events (worker_evaluate env expired input))
        = map ev_outcome (rep_events (run_until cancelled expired' fingerprint sha256 probe)) @ cut) \<or>
     (\<exists>cut. map ev_outcome (rep_events (run_until cancelled expired' fingerprint sha256 probe))
        = map we_outcome (wy_events (worker_evaluate env expired input)) @ cut))"
proof -
  have agree: "wy_stop (worker_evaluate env expired input) = rep_stop (run_until never_expired expired fingerprint sha256 probe) \<and>
      map we_outcome (wy_events (worker_evaluate env expired input))
        = map ev_outcome (rep_events (run_until never_expired expired fingerprint sha256 probe))" for expired
    using evaluate_steps_scripted [OF assms(1) _ _ assms(3), where q = "empty_report probe"] assms(2)
    by (simp add: worker_evaluate_def run_until_def Let_def empty_report_def)
  obtain zs where "wy_events (worker_evaluate env never_expired input) = wy_events (worker_evaluate env expired input) @ zs"
    using evaluate_steps_cut by (fastforce simp: worker_evaluate_def Let_def)
  moreover obtain zs' where "rep_events (run_until never_expired never_expired fingerprint sha256 probe)
      = rep_events (run_until cancelled expired' fingerprint sha256 probe) @ zs'"
    unfolding run_until_def using scripted_steps_cut by blast
  ultimately have "map we_outcome (wy_events (worker_evaluate env never_expired input))
      = map we_outcome (wy_events (worker_evaluate env expired input)) @ map we_outcome zs"
    "map we_outcome (wy_events (worker_evaluate env never_expired input))
      = map ev_outcome (rep_events (run_until cancelled expired' fingerprint sha256 probe)) @ map ev_outcome zs'"
    using agree [of never_expired] by simp_all
  from common_prefix [OF this] agree [of expired] show ?thesis by blast
qed

theorem worker_agrees_with_script_witness:
  "map we_outcome (wy_events (worker_evaluate zero_env never_expired live_request))
     = map ev_outcome (rep_events (run_until never_expired never_expired (\<lambda>_. []) (\<lambda>_. [])
         \<lparr>bpr_identity = [], bpr_original_artifact_id = [],
          bpr_script = \<lparr>sc_schema_version = 1, sc_steps = [Call ''read_document'' [(''path'', ''workspace/report.txt'')]]\<rparr>,
          bpr_limits = \<lparr>pl_max_steps = 4, pl_timeout_ms = 100\<rparr>\<rparr>))"
  by (rule conjunct1 [OF conjunct2 [OF worker_agrees_with_script]]) (simp_all add: sample_request_def read_batch_def sample_read)

text \<open>
  C35: a feedback observation spends one budget.  When the first phase is accepted with a continuation, its
  batch was exactly one call, \<open>read_document\<close> with the one argument \<open>path\<close> for \<open>workspace/report.txt\<close>, and
  its report has exactly one event, the digest of that call with the outcome \<open>Recorded\<close>; the second phase
  yields no further continuation; the two
  phases together execute no more steps than the approval allows, their time slots add up to its timeout,
  both are accepted before the deadline of the route, and the scope of the second report binds the digest
  of the first.
\<close>

theorem feedback_budget_shared:
  assumes "start_feedback env wire host w approval bytes route start s = Inr p" "phase_accept p s1 = Inr (r1, Some c)"
    and "continuation_observe env wire host' c bytes' start' s' = Inr p'" "phase_accept p' s2 = Inr (r2, next)"
  shows "next = None
    \<and> (\<exists>batch. ModelBatch_parse env wire bytes = Inr batch
        \<and> mb_steps batch = [ModelCall ''read_document'' [(''path'', ''workspace/report.txt'')]]
        \<and> wy_events r1 = [\<lparr>we_seq = 0, we_action_digest = worker_digest env (json_vec env (ModelAction_value (hd (mb_steps batch)))),
             we_outcome = Recorded\<rparr>])
    \<and> length (wy_events r1) + length (wy_events r2) \<le> unat (pl_max_steps (mp_limits approval))
    \<and> (pc_deadline (pf_clock p) - start) + (pc_deadline (pf_clock p') - start') = 1000000 * unat (pl_timeout_ms (mp_limits approval))
    \<and> ps_now s1 < route \<and> ps_now s2 < route
    \<and> (\<exists>root. worker_scope env (TrustedModelProbe_identity env approval) (ph_run_id host) (sw_digest w) = Inr root
        \<and> wy_scope r2 = worker_digest env (json_vec env (normal
            (JObj [(''domain'', JStr ''sentinel-model-feedback-worker-v1''), (''ordinal'', JNum 2), (''root'', JStr root),
                   (''prior_report'', JStr (worker_digest env (report_bytes env r1)))]))))"
proof -
  note accepted = phase_accept_Inr [OF assms(2)]
  obtain batch where "ModelBatch_parse env wire bytes = Inr batch" "mb_steps batch = [feedback_read]"
    and "wy_events (pf_report p) = [\<lparr>we_seq = 0, we_action_digest = worker_digest env (json_vec env (ModelAction_value feedback_read)),
           we_outcome = Recorded\<rparr>]"
    using start_feedback_read [OF assms(1) accepted(2) [symmetric]] by blast
  then show ?thesis using feedback_budget_raw [OF assms] accepted(1) unfolding feedback_read_def by auto
qed

definition phase_wire :: worker_wire where
  "phase_wire = \<lparr>ww_batch = (\<lambda>bytes. Some (if bytes = [1] then read_batch else done_batch)), ww_request = (\<lambda>_. None),
     ww_reply = (\<lambda>bytes. Some (worker_evaluate zero_env never_expired
       (if bytes = [1] then sample_request read_batch 1 50 else sample_request done_batch 3 50)))\<rparr>"

definition phase_host :: "byte list \<Rightarrow> probe_host" where
  "phase_host stdout = \<lparr>ph_run_id = ''run'', ph_request_ok = True,
     ph_sandbox = (\<lambda>_ _ _. Inr \<lparr>sx_exit_success = True, sx_stdout = stdout, sx_stderr = []\<rparr>), ph_clone_ok = True, ph_seek_ok = True\<rparr>"

abbreviation early :: phase_sample where
  "early \<equiv> \<lparr>ps_now = 0, ps_cancelled = False\<rparr>"

definition sample_continuation :: FeedbackContinuation where
  "sample_continuation = \<lparr>fc_worker = sample_worker, fc_approval = live_probe, fc_run_id = ''run'', fc_route_deadline = 1000000000,
     fc_prior = zero_digest_text, fc_slot_ms = 50\<rparr>"

definition sample_clock :: PhaseClock where
  "sample_clock = \<lparr>pc_deadline = 50000000, pc_route_deadline = 1000000000\<rparr>"

definition first_phase :: PendingFeedbackPhase where
  "first_phase = \<lparr>pf_report = worker_evaluate zero_env never_expired (sample_request read_batch 1 50),
     pf_continuation = Some sample_continuation, pf_clock = sample_clock\<rparr>"

definition second_phase :: PendingFeedbackPhase where
  "second_phase = \<lparr>pf_report = worker_evaluate zero_env never_expired (sample_request done_batch 3 50),
     pf_continuation = None, pf_clock = sample_clock\<rparr>"

lemma sample_clock_start: "PhaseClock_start 0 early 50 1000000000 = Inr sample_clock"
  by (simp add: PhaseClock_start_def instant_checked_add_def INSTANT_LIMIT_def PhaseClock_check_def sample_clock_def Let_def)

lemma phase_execute:
  "worker_execute zero_env phase_wire (phase_host [1]) sample_worker (sample_request read_batch 1 50)
     = Inr (worker_evaluate zero_env never_expired (sample_request read_batch 1 50))"
  "worker_execute zero_env phase_wire (phase_host [2]) sample_worker (sample_request done_batch 3 50)
     = Inr (worker_evaluate zero_env never_expired (sample_request done_batch 3 50))"
proof -
  have "length (json_vec zero_env (WorkerRequest_value (sample_request done_batch 3 50))) \<le> MAX_STDIN_BYTES"
    by (simp add: MAX_STDIN_BYTES_def json_vec_def WorkerRequest_value_def ModelBatch_value_def sample_request_def done_batch_def zero_env_def)
  then show "worker_execute zero_env phase_wire (phase_host [1]) sample_worker (sample_request read_batch 1 50)
     = Inr (worker_evaluate zero_env never_expired (sample_request read_batch 1 50))"
    "worker_execute zero_env phase_wire (phase_host [2]) sample_worker (sample_request done_batch 3 50)
     = Inr (worker_evaluate zero_env never_expired (sample_request done_batch 3 50))"
    using live_size [of 1 50] by (simp_all add: worker_execute_def execute_expected_def Let_def phase_host_def phase_wire_def not_less)
qed

lemma phase_parse:
  "ModelBatch_parse zero_env phase_wire [1] = Inr read_batch" "ModelBatch_parse zero_env phase_wire [2] = Inr done_batch"
  using sample_batches by (simp_all add: ModelBatch_parse_def MAX_BATCH_BYTES_def phase_wire_def)

lemma first_phase_events:
  "wy_events (worker_evaluate zero_env never_expired (sample_request read_batch 1 50))
     = [\<lparr>we_seq = 0, we_action_digest = zero_digest_text, we_outcome = Recorded\<rparr>]"
  by (simp add: worker_evaluate_def Let_def sample_request_def read_batch_def sample_read never_expired_def)

lemma first_phase_started:
  "start_feedback zero_env phase_wire (phase_host [1]) sample_worker live_probe [1] 1000000000 0 early = Inr first_phase"
proof -
  have half: "(100 :: u64) div 2 = 50" by code_simp
  have "continuable (mb_steps read_batch)" "length (mb_steps read_batch) = 1" by (simp_all add: read_batch_def)
  then show ?thesis
    using sample_recorded [OF sample_limits(2), of read_batch] phase_execute(1) sample_clock_start
    by (simp add: start_feedback_def Let_def live_probe_def half phase_parse(1) first_phase_def first_phase_events sample_continuation_def)
      (simp add: phase_host_def sample_worker_def first_phase_events)
qed

lemma second_phase_observed:
  "continuation_observe zero_env phase_wire (phase_host [2]) sample_continuation [2] 0 early = Inr second_phase"
proof -
  have scope: "sample_request done_batch 3 50\<lparr>wr_scope := zero_digest_text\<rparr> = sample_request done_batch 3 50"
    by (simp add: sample_request_def)
  have "length (mb_steps done_batch) = 1" by (simp add: done_batch_def)
  then show ?thesis
    using sample_recorded [OF sample_limits(3), of done_batch] phase_execute(2) sample_clock_start
    by (simp add: continuation_observe_def Let_def sample_continuation_def live_probe_def phase_parse(2) second_phase_def scope)
      (simp add: phase_host_def sample_worker_def scope)
qed

theorem feedback_budget_shared_witness:
  "length (wy_events (pf_report first_phase)) + length (wy_events (pf_report second_phase)) \<le> unat (pl_max_steps (mp_limits live_probe))
   \<and> (\<exists>batch. ModelBatch_parse zero_env phase_wire [1] = Inr batch
        \<and> mb_steps batch = [ModelCall ''read_document'' [(''path'', ''workspace/report.txt'')]])"
proof -
  have accept: "phase_accept first_phase early = Inr (pf_report first_phase, Some sample_continuation)"
    "phase_accept second_phase early = Inr (pf_report second_phase, None)"
    by (simp_all add: phase_accept_def PhaseClock_check_def first_phase_def second_phase_def sample_clock_def)
  show ?thesis
    using feedback_budget_shared [OF first_phase_started accept(1) second_phase_observed accept(2)] by blast
qed

text \<open>
  C36: counterfactual sources are exact edits.  A derivation that is granted splits the original text into
  whole characters before, in and after a nonempty span; its four variants are the original, the text
  without the span, the text with every byte of the span but line ends blanked, and the span alone.  All
  of them are valid UTF-8, and each nonempty variant is approved under its own content identity and nothing
  but the source changes in that approval, except that no capture or monitor is passed on.
\<close>

theorem counterfactual_sources_exact:
  assumes "counterfactual_derive env approval span raw = Inr cf" "\<And>x. length (je_sha256 env x) = 32"
  shows "\<exists>a m b. list_all scalar (a @ m @ b) \<and> m \<noteq> [] \<and> raw = concat (map utf8 (a @ m @ b))
     \<and> unat (sp_start span) = length (concat (map utf8 a)) \<and> unat (sp_end span) = length (concat (map utf8 (a @ m)))
     \<and> map cs_bytes (cf_variants cf) =
         [raw, concat (map utf8 (a @ b)), concat (map utf8 a) @ blanked (concat (map utf8 m)) @ concat (map utf8 b), concat (map utf8 m)]
     \<and> list_all (\<lambda>v. from_utf8 (cs_bytes v) \<noteq> None) (cf_variants cf)
     \<and> list_all (\<lambda>v. cs_source_id v = (if cs_bytes v = [] then None else Some (hex (je_sha256 env (cs_bytes v)))) \<and>
          cs_approval v = map_option (exact_derivative approval) (cs_source_id v)) (cf_variants cf)"
  using assms by (rule counterfactual_exact_raw)

theorem counterfactual_sources_exact_witness:
  "\<exists>cf. counterfactual_derive zero_env live_probe \<lparr>sp_artifact_id = replicate 64 (CHR ''0''), sp_start = 1, sp_end = 2\<rparr> [97, 98, 99] = Inr cf
     \<and> list_all (\<lambda>v. from_utf8 (cs_bytes v) \<noteq> None) (cf_variants cf)"
proof -
  have "from_utf8 [97, 98, 99] = Some (map unat [97, 98, 99 :: byte])" by (rule from_utf8_ascii) simp
  then obtain cf where cf: "counterfactual_derive zero_env live_probe
      \<lparr>sp_artifact_id = replicate 64 (CHR ''0''), sp_start = 1, sp_end = 2\<rparr> [97, 98, 99] = Inr cf"
    by (simp add: counterfactual_derive_def Let_def zero_hex is_char_boundary_def)
  from counterfactual_sources_exact [OF this] show ?thesis using cf by (auto simp: zero_env_def)
qed

end
