(* ===== verification/Reduction_Correct.thy ===== *)
theory Reduction_Correct
  imports Sentinel_Reduction Probe_Worker_Correct
begin

text \<open>
  What the reduction of sentinel evidence promises: its verdict is a fixed function of the facts and never
  clean, a tripwire is never lost to weaker evidence, and equal identities mean equal facts.
\<close>

section \<open>The verdict\<close>

text \<open>Evidence with the given verdict that cites the given artifacts.\<close>

definition says :: "SentinelVerdict \<Rightarrow> TypedOutput \<Rightarrow> bool" where
  "says verdict output \<longleftrightarrow> sentinel_verdict (to_payload output) = Some verdict"

lemma ok_some_Inr [simp]: "ok_some r = Inr x \<longleftrightarrow> (\<exists>v. r = Inr v \<and> x = Some v)"
  by (auto simp: ok_some_def res_iffs)

lemma cited_suspicious_Inr:
  assumes "cited_suspicious ident address = Inr output"
  shows "to_payload output = PSentinel \<lparr>se_verdict = VSuspicious, se_spans = [], se_artifacts = [\<lparr>ar_artifact_id = ident, ar_sha256 = address\<rparr>]\<rparr>"
  using assms by (auto simp: cited_suspicious_def TypedOutput_new_def ArtifactRef_new_def res_iffs split: if_splits)

lemma verdict_only_Inr:
  "verdict_only v = Inr output \<Longrightarrow> to_payload output = PSentinel \<lparr>se_verdict = v, se_spans = [], se_artifacts = []\<rparr>"
  by (auto simp: verdict_only_def TypedOutput_new_def res_iffs)

lemma report_evidence_Inr:
  assumes "report_evidence env r = Inr x"
  shows "(\<forall>s. rep_stop r \<noteq> StopTripwire s) \<and> x = None \<or>
    (\<exists>s output. rep_stop r = StopTripwire s \<and> x = Some output \<and>
      to_payload output = PSentinel \<lparr>se_verdict = VSuspicious, se_spans = [],
        se_artifacts = [\<lparr>ar_artifact_id = hex (je_sha256 env (probe_report_bytes env r)), ar_sha256 = worker_digest env (probe_report_bytes env r)\<rparr>]\<rparr>)"
  using assms by (cases "rep_stop r") (auto simp: report_evidence_def Let_def worker_digest_def dest: cited_suspicious_Inr)

lemma report_evidence_says: "report_evidence env r = Inr x \<Longrightarrow> pred_option (says VSuspicious) x"
  using report_evidence_Inr [of env r x] by (auto simp: says_def)

text \<open>An observation made by the observer.\<close>

definition genuine :: "json_env \<Rightarrow> TrajectoryObservation \<Rightarrow> bool" where
  "genuine env t \<longleftrightarrow> (\<exists>mode task report reasoning parsed. observe_parsed env mode task report reasoning parsed = Inr t)"

lemma genuine_evidence:
  assumes "genuine env t" "observation_evidence env t = Inr (Some output)"
  shows "says VSuspicious output"
proof -
  obtain mode task report reasoning parsed where "observe_parsed env mode task report reasoning parsed = Inr t"
    using assms(1) by (auto simp: genuine_def)
  then have "report_evidence env report = Inr (tb_hard_evidence t)"
    by (auto simp: observe_parsed_def Let_def res_iffs)
  from report_evidence_Inr [OF this] show ?thesis
    using assms(2) by (auto simp: observation_evidence_def says_def Let_def split: option.splits if_splits dest!: cited_suspicious_Inr)
qed

text \<open>The verdict that the policy assigns to a terminal of the preparation and to semantic evidence.\<close>

fun policy_verdict :: "SentinelVerdict option \<Rightarrow> SentinelVerdict option \<Rightarrow> SentinelVerdict" where
  "policy_verdict (Some terminal) _ = terminal"
| "policy_verdict None semantic = (if semantic = Some VInjection then VInjection else VSuspicious)"

lemma reduced_output_verdict:
  assumes "reduced_output terminal semantic hard weak = Inr output"
    and "pred_option (says VSuspicious) hard" "pred_option (says VSuspicious) weak"
  shows "says (policy_verdict terminal (Option.bind semantic (sentinel_verdict \<circ> to_payload))) output"
  using assms by (auto simp: reduced_output_def says_def Let_def map_err_Inr_iff split: option.splits if_splits dest!: verdict_only_Inr)

lemma finish_reduction_Inr:
  assumes "finish_reduction env terminal semantic hard weak identity policy = Inr r"
  shows "reduced_output terminal semantic hard weak = Inr (rd_output r)" "rd_identity r = identity" "rd_policy_digest r = policy"
  using assms by (auto simp: finish_reduction_def res_iffs split: if_splits)

lemma opt_evidence_Inr:
  "opt_evidence f v = Inr x \<longleftrightarrow> (case v of None \<Rightarrow> x = None | Some a \<Rightarrow> f a = Inr x)"
  by (auto simp: opt_evidence_def map_err_Inr_iff split: option.split)

lemma reduce_sentinel_Inr:
  assumes "reduce_sentinel env decode input = Inr r"
  obtains material hard weak where
    "opt_evidence (report_evidence env) (ri_behavior input) = Inr hard"
    "opt_evidence (observation_evidence env) (Option.bind (ri_observation input) (\<lambda>t. if tb_weak_signals t = [] then None else Some t)) = Inr weak"
    "(case ri_semantic input of None \<Rightarrow> Inr None
        | Some semantic \<Rightarrow> ok_some (semantic_reduction_material env decode (ri_source_cover input) semantic)) = Inr material"
    "pred_option (\<lambda>v. v \<in> {VInvalidInput, VUnsupportedLanguage}) (ri_preparation_terminal input)"
    "finish_reduction env (ri_preparation_terminal input) (map_option si_output (ri_semantic input)) hard weak
       (''sha256:'' @ digest env (reduction_material env input material)) (reduction_policy_digest env) = Inr r"
  using assms unfolding reduce_sentinel_def Let_def res_bind_Inr_iff
  by (cases "ri_preparation_terminal input") (auto simp: res_iffs split: if_splits)

lemma reduction_verdict_raw:
  assumes "reduce_sentinel env decode input = Inr r" "pred_option (genuine env) (ri_observation input)"
  shows "says (policy_verdict (ri_preparation_terminal input)
      (Option.bind (ri_semantic input) (sentinel_verdict \<circ> to_payload \<circ> si_output))) (rd_output r)
    \<and> \<not> says VClean (rd_output r)"
proof -
  obtain hard weak identity policy where *: "opt_evidence (report_evidence env) (ri_behavior input) = Inr hard"
    "opt_evidence (observation_evidence env) (Option.bind (ri_observation input) (\<lambda>t. if tb_weak_signals t = [] then None else Some t)) = Inr weak"
    and stops: "pred_option (\<lambda>v. v \<in> {VInvalidInput, VUnsupportedLanguage}) (ri_preparation_terminal input)"
    and fin: "finish_reduction env (ri_preparation_terminal input) (map_option si_output (ri_semantic input)) hard weak identity policy = Inr r"
    using assms(1) by (rule reduce_sentinel_Inr) blast
  have "pred_option (says VSuspicious) hard"
    using *(1) report_evidence_says by (auto simp: opt_evidence_Inr split: option.splits)
  moreover have "pred_option (says VSuspicious) weak"
    using *(2) assms(2) genuine_evidence by (cases weak) (auto simp: opt_evidence_Inr split: option.splits bind_splits if_splits)
  ultimately have "says (policy_verdict (ri_preparation_terminal input) (Option.bind (map_option si_output (ri_semantic input)) (sentinel_verdict \<circ> to_payload))) (rd_output r)"
    using reduced_output_verdict [OF finish_reduction_Inr(1) [OF fin]] by blast
  moreover have "Option.bind (map_option si_output (ri_semantic input)) (sentinel_verdict \<circ> to_payload)
      = Option.bind (ri_semantic input) (sentinel_verdict \<circ> to_payload \<circ> si_output)"
    by (cases "ri_semantic input") simp_all
  ultimately show ?thesis using stops by (cases "ri_preparation_terminal input") (auto simp: says_def split: if_splits)
qed

lemma tripwire_cited_raw:
  assumes "reduce_sentinel env decode input = Inr r" "ri_behavior input = Some report" "rep_stop report = StopTripwire signal"
    and "ri_preparation_terminal input = None"
    and "Option.bind (ri_semantic input) (sentinel_verdict \<circ> to_payload \<circ> si_output) \<noteq> Some VInjection"
  shows "to_payload (rd_output r) = PSentinel \<lparr>se_verdict = VSuspicious, se_spans = [],
    se_artifacts = [\<lparr>ar_artifact_id = hex (je_sha256 env (probe_report_bytes env report)),
      ar_sha256 = worker_digest env (probe_report_bytes env report)\<rparr>]\<rparr>"
proof -
  obtain hard weak identity policy where *: "opt_evidence (report_evidence env) (ri_behavior input) = Inr hard"
    and fin: "finish_reduction env (ri_preparation_terminal input) (map_option si_output (ri_semantic input)) hard weak identity policy = Inr r"
    using assms(1) by (rule reduce_sentinel_Inr) blast
  obtain out where "hard = Some out" and payload: "to_payload out = PSentinel \<lparr>se_verdict = VSuspicious, se_spans = [],
    se_artifacts = [\<lparr>ar_artifact_id = hex (je_sha256 env (probe_report_bytes env report)),
      ar_sha256 = worker_digest env (probe_report_bytes env report)\<rparr>]\<rparr>"
    using * assms(2,3) report_evidence_Inr [of env report hard] by (auto simp: opt_evidence_Inr)
  moreover have "Option.bind (map_option si_output (ri_semantic input)) (\<lambda>output. sentinel_verdict (to_payload output)) \<noteq> Some VInjection"
    using assms(5) by (cases "ri_semantic input") simp_all
  ultimately have "rd_output r = out"
    using finish_reduction_Inr(1) [OF fin] assms(4) by (simp add: reduced_output_def)
  then show ?thesis using payload by simp
qed

section \<open>What the identity binds\<close>

text \<open>The semantic fact as it enters the identity.\<close>

definition semantic_value :: "json_env \<Rightarrow> json_decoder \<Rightarrow> SentinelReductionInput \<Rightarrow> jvalue option" where
  "semantic_value env decode input =
     (case ri_semantic input of None \<Rightarrow> None
      | Some semantic \<Rightarrow>
          (case semantic_reduction_material env decode (ri_source_cover input) semantic of Inr v \<Rightarrow> Some v | Inl _ \<Rightarrow> None))"

definition reduction_preimages :: "json_env \<Rightarrow> json_decoder \<Rightarrow> SentinelReductionInput \<Rightarrow> byte list set" where
  "reduction_preimages env decode input =
     {hashed env (reduction_material env input (semantic_value env decode input))}
     \<union> (case ri_behavior input of None \<Rightarrow> {} | Some r \<Rightarrow> {probe_report_bytes env r})
     \<union> (case ri_observation input of None \<Rightarrow> {} | Some t \<Rightarrow> {observation_bytes env t})"

lemma reduction_identity:
  assumes "reduce_sentinel env decode input = Inr r"
  shows "rd_identity r = ''sha256:'' @ digest env (reduction_material env input (semantic_value env decode input))"
proof -
  obtain material hard weak where
    mat: "(case ri_semantic input of None \<Rightarrow> Inr None
        | Some semantic \<Rightarrow> ok_some (semantic_reduction_material env decode (ri_source_cover input) semantic)) = Inr material"
    and fin: "finish_reduction env (ri_preparation_terminal input) (map_option si_output (ri_semantic input)) hard weak
       (''sha256:'' @ digest env (reduction_material env input material)) (reduction_policy_digest env) = Inr r"
    using assms by (rule reduce_sentinel_Inr) blast
  have "material = semantic_value env decode input"
    using mat by (auto simp: semantic_value_def split: option.splits)
  then show ?thesis using finish_reduction_Inr(2) [OF fin] by simp
qed

lemma json_vec_inj:
  assumes "json_text (je_quote env) (je_number env)" "json_vec env v = json_vec env w"
  shows "v = w"
proof -
  have "emit (je_quote env) (je_number env) v @ [] = emit (je_quote env) (je_number env) w @ []"
    using assms(2) by (simp add: json_vec_def)
  then show ?thesis using emit_inj [OF assms(1), of "[]" "[]" v w] by (simp add: delimited_def)
qed

lemma normal_SourceSpan: "normal (SourceSpan_value a) = normal (SourceSpan_value b) \<Longrightarrow> a = b"
  using normal_fields [of "[(''artifact_id'', JStr (sp_artifact_id a)), (''end'', JNum (uint (sp_end a))), (''start'', JNum (uint (sp_start a)))]"
    "[(''artifact_id'', JStr (sp_artifact_id b)), (''end'', JNum (uint (sp_end b))), (''start'', JNum (uint (sp_start b)))]"]
  by (cases a; cases b) (simp add: SourceSpan_value_def word_uint_eq_iff del: normal.simps(1))

lemma normal_opt_str: "normal (opt_str_value a) = normal (opt_str_value b) \<Longrightarrow> a = b"
  by (cases a; cases b) (simp_all add: opt_str_value_def)

lemma semantic_value_object: "semantic_value env decode input = Some v \<Longrightarrow> \<exists>ms. v = JObj ms"
  by (auto simp: semantic_value_def semantic_reduction_material_def res_iffs
      split: option.splits sum.splits if_splits)

lemma reduction_terminal:
  assumes "reduce_sentinel env decode input = Inr r"
  shows "pred_option (\<lambda>v. v \<in> {VInvalidInput, VUnsupportedLanguage}) (ri_preparation_terminal input)"
  using assms by (rule reduce_sentinel_Inr) blast

lemma reduction_binds_raw:
  assumes "reduce_sentinel env decode a = Inr r" "reduce_sentinel env decode b = Inr s" "rd_identity r = rd_identity s"
    and jt: "json_text (je_quote env) (je_number env)"
    and inj: "inj_on (je_sha256 env) (reduction_preimages env decode a \<union> reduction_preimages env decode b)"
  shows "ri_preparation_identity a = ri_preparation_identity b \<and> ri_source_cover a = ri_source_cover b
    \<and> ri_preparation_terminal a = ri_preparation_terminal b
    \<and> map_option normal (semantic_value env decode a) = map_option normal (semantic_value env decode b)
    \<and> map_option ProbeReport_value (ri_behavior a) = map_option ProbeReport_value (ri_behavior b)
    \<and> map_option TrajectoryObservation_value (ri_observation a) = map_option TrajectoryObservation_value (ri_observation b)"
proof -
  let ?A = "reduction_preimages env decode a \<union> reduction_preimages env decode b"
  have "digest env (reduction_material env a (semantic_value env decode a)) = digest env (reduction_material env b (semantic_value env decode b))"
    using reduction_identity [OF assms(1)] reduction_identity [OF assms(2)] assms(3) by simp
  then have "normal (reduction_material env a (semantic_value env decode a)) = normal (reduction_material env b (semantic_value env decode b))"
    by (intro digest_inj [OF jt inj]) (simp_all add: reduction_preimages_def)
  from normal_fields [OF this [unfolded reduction_material_def]]
  have f: "ri_preparation_identity a = ri_preparation_identity b"
    "normal (case ri_source_cover a of None \<Rightarrow> JNull | Some cover \<Rightarrow> SourceSpan_value cover)
      = normal (case ri_source_cover b of None \<Rightarrow> JNull | Some cover \<Rightarrow> SourceSpan_value cover)"
    "normal (opt_str_value (map_option terminal_label (ri_preparation_terminal a))) = normal (opt_str_value (map_option terminal_label (ri_preparation_terminal b)))"
    "normal (case semantic_value env decode a of None \<Rightarrow> JNull | Some v \<Rightarrow> v) = normal (case semantic_value env decode b of None \<Rightarrow> JNull | Some v \<Rightarrow> v)"
    "normal (opt_str_value (map_option (\<lambda>r. worker_digest env (probe_report_bytes env r)) (ri_behavior a)))
      = normal (opt_str_value (map_option (\<lambda>r. worker_digest env (probe_report_bytes env r)) (ri_behavior b)))"
    "normal (opt_str_value (map_option (\<lambda>t. worker_digest env (observation_bytes env t)) (ri_observation a)))
      = normal (opt_str_value (map_option (\<lambda>t. worker_digest env (observation_bytes env t)) (ri_observation b)))"
    by (simp_all del: normal.simps(1))
  have cover: "ri_source_cover a = ri_source_cover b"
    using f(2) normal_SourceSpan
    by (cases "ri_source_cover a"; cases "ri_source_cover b") (auto simp: SourceSpan_value_def)
  have hashes: "map_option g x = map_option g y"
    if "map_option (\<lambda>v. worker_digest env (json_vec env (g v))) x = map_option (\<lambda>v. worker_digest env (json_vec env (g v))) y"
      "\<And>v. x = Some v \<Longrightarrow> json_vec env (g v) \<in> ?A" "\<And>v. y = Some v \<Longrightarrow> json_vec env (g v) \<in> ?A" for g :: "'v \<Rightarrow> jvalue" and x y
    using that json_vec_inj [OF jt] inj_onD [OF inj]
    by (cases x; cases y) (auto simp: worker_digest_def dest!: hex_inj)
  have behavior: "map_option ProbeReport_value (ri_behavior a) = map_option ProbeReport_value (ri_behavior b)"
    using normal_opt_str [OF f(5)] unfolding probe_report_bytes_def
    by (rule hashes) (simp_all add: reduction_preimages_def probe_report_bytes_def)
  have observation: "map_option TrajectoryObservation_value (ri_observation a) = map_option TrajectoryObservation_value (ri_observation b)"
    using normal_opt_str [OF f(6)] unfolding observation_bytes_def
    by (rule hashes) (simp_all add: reduction_preimages_def observation_bytes_def)
  have terminal: "ri_preparation_terminal a = ri_preparation_terminal b"
    using normal_opt_str [OF f(3)] reduction_terminal [OF assms(1)] reduction_terminal [OF assms(2)]
    by (cases "ri_preparation_terminal a"; cases "ri_preparation_terminal b") auto
  have semantic: "map_option normal (semantic_value env decode a) = map_option normal (semantic_value env decode b)"
    using f(4) semantic_value_object [of env decode a] semantic_value_object [of env decode b]
    by (cases "semantic_value env decode a"; cases "semantic_value env decode b") auto
  show ?thesis using f(1) cover terminal semantic behavior observation by blast
qed

section \<open>Properties\<close>

text \<open>
  C24: the verdict of a reduction is fixed by its facts and never clean.  Whenever the facts about one
  preparation are reduced, the verdict is the terminal of the preparation if there is one, injection if the
  semantic draft says so, and suspicious in every other case: no combination of a clean draft, a probe
  without tripwire and an observer without weak signals yields the verdict clean.
\<close>

theorem reduction_never_clean:
  assumes "reduce_sentinel env decode input = Inr r" "pred_option (genuine env) (ri_observation input)"
  shows "says (policy_verdict (ri_preparation_terminal input)
      (Option.bind (ri_semantic input) (sentinel_verdict \<circ> to_payload \<circ> si_output))) (rd_output r)
    \<and> \<not> says VClean (rd_output r)"
  using assms by (rule reduction_verdict_raw)

definition plain_input :: SentinelReductionInput where
  "plain_input = \<lparr>ri_source_cover = None, ri_preparation_terminal = Some VInvalidInput,
     ri_preparation_identity = ''sha256:'' @ replicate 64 (CHR ''0''), ri_semantic = None, ri_behavior = None, ri_observation = None\<rparr>"

lemma plain_reduction: "\<exists>r. reduce_sentinel plain_env decode plain_input = Inr r"
proof -
  have "prefixed_artifact (''sha256:'' @ replicate 64 (CHR ''0''))" by code_simp
  moreover have "\<exists>r. finish_reduction plain_env (Some VInvalidInput) None None None identity policy = Inr r" for identity policy
  proof -
    let ?o = "\<lparr>to_schema_version = TYPED_OUTPUT_SCHEMA_VERSION_V1,
      to_payload = PSentinel \<lparr>se_verdict = VInvalidInput, se_spans = [], se_artifacts = []\<rparr>, to_completeness = CompleteOutput\<rparr>"
    have "verdict_only VInvalidInput = Inr ?o" "admit_for_reducer plain_env ?o = Inr (to_payload ?o)"
      "case TypedOutput_to_json plain_env ?o of Inr json \<Rightarrow> length json \<le> 512 | Inl _ \<Rightarrow> False"
      by code_simp+
    then show ?thesis by (auto simp: finish_reduction_def reduced_output_def split: sum.splits)
  qed
  ultimately show ?thesis
    by (simp add: reduce_sentinel_def plain_input_def opt_evidence_def Let_def)
qed

theorem reduction_never_clean_witness:
  "\<exists>r. reduce_sentinel plain_env (\<lambda>_. None) plain_input = Inr r \<and> says VInvalidInput (rd_output r) \<and> \<not> says VClean (rd_output r)"
proof -
  obtain r where r: "reduce_sentinel plain_env (\<lambda>_. None) plain_input = Inr r" using plain_reduction by blast
  show ?thesis using r reduction_never_clean [OF r] by (auto simp: plain_input_def)
qed

text \<open>
  equal identities mean equal facts.  If two reductions have the same identity, then the preparation
  identity, the covered source span, the terminal, the semantic draft with its producer (up to the order of
  members) and the serialised probe report and observation are the same, unless SHA-256 collides on the
  byte strings hashed.
\<close>

theorem reduction_identity_binds:
  assumes "reduce_sentinel env decode a = Inr r" "reduce_sentinel env decode b = Inr s" "rd_identity r = rd_identity s"
    and "json_text (je_quote env) (je_number env)"
    and "inj_on (je_sha256 env) (reduction_preimages env decode a \<union> reduction_preimages env decode b)"
  shows "ri_preparation_identity a = ri_preparation_identity b \<and> ri_source_cover a = ri_source_cover b
    \<and> ri_preparation_terminal a = ri_preparation_terminal b
    \<and> map_option normal (semantic_value env decode a) = map_option normal (semantic_value env decode b)
    \<and> map_option ProbeReport_value (ri_behavior a) = map_option ProbeReport_value (ri_behavior b)
    \<and> map_option TrajectoryObservation_value (ri_observation a) = map_option TrajectoryObservation_value (ri_observation b)"
  using assms by (rule reduction_binds_raw)

theorem reduction_identity_binds_witness:
  "ri_preparation_identity plain_input = ri_preparation_identity plain_input
   \<and> map_option normal (semantic_value plain_env (\<lambda>_. None) plain_input) = None"
proof -
  obtain r where r: "reduce_sentinel plain_env (\<lambda>_. None) plain_input = Inr r" using plain_reduction by blast
  have "json_text (je_quote plain_env) (je_number plain_env)" using plain_env_json_text by (simp add: plain_env_def)
  from reduction_identity_binds [OF r r refl this] show ?thesis
    by (simp add: plain_env_def semantic_value_def plain_input_def)
qed

text \<open>
  C25: a tripwire is never lost.  When the probe of the prepared source hit a tripwire, the preparation has no
  terminal and the semantic draft does not already say injection, the reduction is suspicious and cites the
  probe report by its content address, whatever the draft and the observer say.
\<close>

theorem tripwire_never_lost:
  assumes "reduce_sentinel env decode input = Inr r" "ri_behavior input = Some report" "rep_stop report = StopTripwire signal"
    and "ri_preparation_terminal input = None"
    and "Option.bind (ri_semantic input) (sentinel_verdict \<circ> to_payload \<circ> si_output) \<noteq> Some VInjection"
  shows "to_payload (rd_output r) = PSentinel \<lparr>se_verdict = VSuspicious, se_spans = [],
    se_artifacts = [\<lparr>ar_artifact_id = hex (je_sha256 env (probe_report_bytes env report)),
      ar_sha256 = worker_digest env (probe_report_bytes env report)\<rparr>]\<rparr>"
  using assms by (rule tripwire_cited_raw)

definition tripped_report :: ProbeReport where
  "tripped_report = \<lparr>rep_schema_version = 1, rep_version = BEHAVIORAL_VERSION, rep_mode = [], rep_causal_attribution = [], rep_identity = [],
     rep_original_artifact_id = ''s'', rep_canary_digest = None, rep_events = [], rep_stop = StopTripwire SecretAccess\<rparr>"

definition tripped_input :: SentinelReductionInput where
  "tripped_input = \<lparr>ri_source_cover = Some \<lparr>sp_artifact_id = ''s'', sp_start = 0, sp_end = 1\<rparr>, ri_preparation_terminal = None,
     ri_preparation_identity = ''sha256:'' @ replicate 64 (CHR ''0''), ri_semantic = None, ri_behavior = Some tripped_report,
     ri_observation = None\<rparr>"

definition tripped_output :: TypedOutput where
  "tripped_output = \<lparr>to_schema_version = TYPED_OUTPUT_SCHEMA_VERSION_V1,
     to_payload = PSentinel \<lparr>se_verdict = VSuspicious, se_spans = [],
       se_artifacts = [\<lparr>ar_artifact_id = replicate 64 (CHR ''0''), ar_sha256 = ''sha256:'' @ replicate 64 (CHR ''0'')\<rparr>]\<rparr>,
     to_completeness = CompleteOutput\<rparr>"

lemma tripped_evidence: "report_evidence zero_env tripped_report = Inr (Some tripped_output)"
proof -
  have "cited_suspicious (replicate 64 (CHR ''0'')) (''sha256:'' @ replicate 64 (CHR ''0'')) = Inr tripped_output" by code_simp
  then show ?thesis by (simp add: report_evidence_def tripped_report_def Let_def zero_hex ok_some_def)
qed

lemma tripped_reduction: "\<exists>r. reduce_sentinel zero_env decode tripped_input = Inr r"
proof -
  have "prefixed_artifact (''sha256:'' @ replicate 64 (CHR ''0''))" by code_simp
  moreover have "\<exists>r. finish_reduction zero_env None None (Some tripped_output) None identity policy = Inr r" for identity policy
  proof -
    have "admit_for_reducer zero_env tripped_output = Inr (to_payload tripped_output)"
      "case TypedOutput_to_json zero_env tripped_output of Inr json \<Rightarrow> length json \<le> 512 | Inl _ \<Rightarrow> False"
      by code_simp+
    then show ?thesis by (auto simp: finish_reduction_def reduced_output_def split: sum.splits)
  qed
  moreover have "rep_original_artifact_id tripped_report = ''s''" by (simp add: tripped_report_def)
  ultimately show ?thesis
    by (simp add: reduce_sentinel_def tripped_input_def opt_evidence_def Let_def tripped_evidence)
qed

theorem tripwire_never_lost_witness:
  "\<exists>r. reduce_sentinel zero_env (\<lambda>_. None) tripped_input = Inr r \<and> says VSuspicious (rd_output r)"
proof -
  obtain r where r: "reduce_sentinel zero_env (\<lambda>_. None) tripped_input = Inr r" using tripped_reduction by blast
  have "to_payload (rd_output r) = PSentinel \<lparr>se_verdict = VSuspicious, se_spans = [],
    se_artifacts = [\<lparr>ar_artifact_id = hex (je_sha256 zero_env (probe_report_bytes zero_env tripped_report)),
      ar_sha256 = worker_digest zero_env (probe_report_bytes zero_env tripped_report)\<rparr>]\<rparr>"
    by (rule tripwire_never_lost [OF r]) (simp_all add: tripped_input_def tripped_report_def)
  then show ?thesis using r by (simp add: says_def)
qed

end
