(* ===== verification/Release.thy ===== *)
theory Release
  imports Compile Pure_Transform
begin

text \<open>
  Identities of released packages: the lock of a compiled plan and the migration of a legacy lock
  (\<open>workflow-compiler/src/lock.rs\<close>), and the publisher that replaces a transform package during
  development (\<open>workflow-runtime/src/hot_reload.rs\<close>).  SHA-256 and the TOML decoder are parameters.
\<close>

section \<open>Workflow locks\<close>

record WorkflowLock =
  wl_lock_version :: u16
  wl_canonical_ir_wire_version :: u16
  wl_ir_schema_version :: u32
  wl_workflow_id :: string
  wl_workflow_version :: string
  wl_ir_hash :: string
  wl_semantic_resource_hashes :: "string list"

record LegacyWorkflowLock =
  ll_lock_version :: u16
  ll_workflow_id :: string
  ll_workflow_version :: string
  ll_ir_hash :: string
  ll_semantic_resource_hashes :: "string list"

datatype WorkflowLockMigrationError = LockDecode | UnsupportedSourceSchema u16 | IdentityMismatch string

text \<open>\<open>try_from_plan\<close> has no failing branch.\<close>

definition try_from_plan :: "(byte list \<Rightarrow> byte list) \<Rightarrow> CompiledPlan \<Rightarrow> WorkflowLock" where
  "try_from_plan sha256 plan' =
     (let ir = cpl_ir plan' in
      \<lparr>wl_lock_version = 1, wl_canonical_ir_wire_version = canonical_wire_version ir,
       wl_ir_schema_version = (case ir_schema_version ir of IrV1 \<Rightarrow> 1),
       wl_workflow_id = ir_workflow_id ir, wl_workflow_version = ir_workflow_version ir,
       wl_ir_hash = ''sha256:'' @ hex (canonical_hash sha256 ir),
       wl_semantic_resource_hashes = map irr_sha256 (ir_resources ir)\<rparr>)"

fun first_mismatch :: "(string \<times> bool) list \<Rightarrow> WorkflowLockMigrationError option" where
  "first_mismatch [] = None"
| "first_mismatch ((field, same) # rest) = (if \<not> same then Some (IdentityMismatch field) else first_mismatch rest)"

definition migrate_from_toml ::
    "(byte list \<Rightarrow> byte list) \<Rightarrow> (string \<Rightarrow> LegacyWorkflowLock option) \<Rightarrow> string \<Rightarrow> CompiledPlan
       \<Rightarrow> WorkflowLockMigrationError + WorkflowLock" where
  "migrate_from_toml sha256 decode document plan' =
     (case decode document of
        None \<Rightarrow> Inl LockDecode
      | Some legacy \<Rightarrow>
          if ll_lock_version legacy \<noteq> 0 then Inl (UnsupportedSourceSchema (ll_lock_version legacy))
          else
            let current = try_from_plan sha256 plan' in
            (case first_mismatch
               [(''workflow_id'', ll_workflow_id legacy = wl_workflow_id current),
                (''workflow_version'', ll_workflow_version legacy = wl_workflow_version current),
                (''ir_hash'', ll_ir_hash legacy = wl_ir_hash current),
                (''semantic_resource_hashes'', ll_semantic_resource_hashes legacy = wl_semantic_resource_hashes current)] of
               Some e \<Rightarrow> Inl e
             | None \<Rightarrow> Inr current))"

section \<open>Hot reload\<close>

datatype HotReloadErrorKind = ProductionReloadForbidden | MissingPackage | InvalidPackage | IdentityDrift

record DevelopmentHotReload =
  hr_current :: PureTransformBinding

definition hot_start_run :: "DevelopmentHotReload \<Rightarrow> PureTransformBinding" where
  "hot_start_run publisher = hr_current publisher"

record reload_request =
  rr_expected :: string
  rr_workflow_id :: string
  rr_workflow_version :: string
  rr_module_digest :: string
  rr_module :: "byte list option"

definition hot_reload ::
    "json_env \<Rightarrow> reload_request \<Rightarrow> DevelopmentHotReload
       \<Rightarrow> (HotReloadErrorKind + PureTransformBinding) \<times> DevelopmentHotReload" where
  "hot_reload env q publisher =
     (if pb_module_digest (hr_current publisher) \<noteq> rr_expected q then (Inl IdentityDrift, publisher)
      else case rr_module q of
        None \<Rightarrow> (Inl MissingPackage, publisher)
      | Some module \<Rightarrow>
          (case PureTransformBinding_new env (rr_workflow_id q) (rr_workflow_version q) (rr_module_digest q) module of
             Inl _ \<Rightarrow> (Inl InvalidPackage, publisher)
           | Inr replacement \<Rightarrow>
               if pb_module_digest replacement = pb_module_digest (hr_current publisher) then (Inl IdentityDrift, publisher)
               else (Inr replacement, publisher\<lparr>hr_current := replacement\<rparr>)))"

section \<open>What they promise\<close>

lemma first_mismatch_None: "first_mismatch fs = None \<longleftrightarrow> list_all snd fs"
  by (induction fs rule: first_mismatch.induct) auto

text \<open>
  a legacy lock migrates exactly when it names the compiled workflow.  Migration succeeds if and only if the
  document decodes, has the legacy schema and agrees with the plan in workflow, version, canonical hash and
  resource hashes, and the result is then the lock of the plan.
\<close>

theorem lock_migration_exact:
  "migrate_from_toml sha256 decode document plan' = Inr lock \<longleftrightarrow>
     (\<exists>legacy. decode document = Some legacy \<and> ll_lock_version legacy = 0 \<and> lock = try_from_plan sha256 plan'
        \<and> ll_workflow_id legacy = ir_workflow_id (cpl_ir plan') \<and> ll_workflow_version legacy = ir_workflow_version (cpl_ir plan')
        \<and> ll_ir_hash legacy = ''sha256:'' @ hex (canonical_hash sha256 (cpl_ir plan'))
        \<and> ll_semantic_resource_hashes legacy = map irr_sha256 (ir_resources (cpl_ir plan')))"
  by (auto simp: migrate_from_toml_def Let_def first_mismatch_None split: option.split)
    (auto simp: try_from_plan_def Let_def)

text \<open>Any sequence of reload requests.\<close>

inductive reloads :: "json_env \<Rightarrow> DevelopmentHotReload \<Rightarrow> PureTransformBinding list \<Rightarrow> DevelopmentHotReload \<Rightarrow> bool"
  for env publisher where
  start: "reloads env publisher [] publisher"
| refused: "reloads env publisher published p \<Longrightarrow> hot_reload env q p = (Inl e, p') \<Longrightarrow> reloads env publisher published p'"
| accepted: "reloads env publisher published p \<Longrightarrow> hot_reload env q p = (Inr b, p') \<Longrightarrow> reloads env publisher (published @ [b]) p'"

lemma hot_reload_cases:
  "hot_reload env q p = (Inl e, p') \<Longrightarrow> p' = p"
  "hot_reload env q p = (Inr b, p') \<Longrightarrow> p' = p\<lparr>hr_current := b\<rparr> \<and> pb_module_digest b \<noteq> pb_module_digest (hr_current p)
     \<and> pb_module_digest b = module_digest_of env (pb_module b) \<and> pb_module b \<noteq> [] \<and> pb_module_digest (hr_current p) = rr_expected q"
  by (auto simp: hot_reload_def PureTransformBinding_new_def split: if_splits option.splits sum.splits)

text \<open>
  the publisher always serves a verified package.  After any sequence of reload requests, the package for
  new runs is the last one published, or the first one if none was; every published package is the module that
  its digest names, and no two packages published one after the other have the same digest.
\<close>

theorem reload_history_verified:
  assumes "reloads env publisher published p"
  shows "hr_current p = last (hr_current publisher # published)
    \<and> list_all (\<lambda>b. pb_module_digest b = module_digest_of env (pb_module b) \<and> pb_module b \<noteq> []) published
    \<and> distinct_adj (map pb_module_digest (hr_current publisher # published))"
  using assms
proof induction
  case (refused published p q e p')
  then show ?case using hot_reload_cases(1) [OF refused(2)] by simp
next
  case (accepted published p q b p')
  have "distinct_adj (map pb_module_digest (hr_current publisher # published) @ [pb_module_digest b])"
    using accepted.IH hot_reload_cases(2) [OF accepted(2)]
    by (auto simp: distinct_adj_append_iff last_map simp del: list.map last.simps)
  then show ?case using accepted.IH hot_reload_cases(2) [OF accepted(2)] by simp
qed simp

end
