(* ===== verification/Spec2Isabelle.thy ===== *)
theory Spec2Isabelle
  imports Canonical_Identity
    Review_Safety
    Approval
    Effect_Binding
    Compact_Union
    Bridge_Safety
    Execution_Safety
    Artifact_Exchange
    Checkpoint_Correct
    Sentinel_Correct
    Grounding
    Reduction_Correct
    Release
begin

text \<open>
  Verification development of adk-workflow-kit, a Rust workspace that compiles declarative agent workflows
  and runs them under host control.

  \<^bold>\<open>The program.\<close>  A workflow document is parsed into an authored specification (\<open>crates/workflow-spec\<close>),
  normalised into a canonical intermediate form with a content hash (\<open>workflow-ir\<close>), checked and bound to
  registries (\<open>workflow-compiler\<close>) and executed by the host runtime (\<open>workflow-runtime\<close>): tool calls pass a
  bridge, a firewall, approvals and a durable effect ledger; untrusted text is normalised and probed before a
  model sees it; results go through content-addressed artifacts, a node cache, checkpoints and a sealed event
  log.  \<open>workflow-review\<close> runs the bounded producer and reviewer loop and the two answer gates over it.

  \<^bold>\<open>Theories and sources.\<close>  Every group of definitions keeps the names of the source; a mapped definition
  translates the lines that the manifest names.
  \<^item> \<open>Prelude\<close>, \<open>Wire_Code\<close>, \<open>Rust_Str\<close>, \<open>Utf8\<close>: machine integers, results of fallible calls, byte writers, and what
    the code uses of \<open>str\<close>, \<open>char\<close> and \<open>from_utf8\<close>.
  \<^item> \<open>Spec\<close>, \<open>Spec_Parse\<close> (\<open>workflow-spec/src/lib.rs\<close>, \<open>agent_contract.rs\<close>): the authored model and the parser; what it
    accepts is characterised exactly.
  \<^item> \<open>Ir\<close>, \<open>Ir_Normal\<close>, \<open>Ir_Wire\<close>, \<open>Canonical_Identity\<close> (\<open>workflow-ir/src/lib.rs\<close>): the normal form does not depend on the
    order of the document; the canonical bytes are injective within one layout, and a collision across layouts is
    exhibited.
  \<^item> \<open>Compact_State\<close>, \<open>Compact_Union\<close> (\<open>workflow-ir/src/compact_state.rs\<close>, \<open>workflow-runtime/src/compact_state.rs\<close>): union is
    the least common extension, fails exactly on a conflict, and is independent of order and grouping.
  \<^item> \<open>Graph_Check\<close>, \<open>Graph_Search\<close>, \<open>Graph_Correct\<close>, \<open>Compile\<close>, \<open>Compile_Correct\<close> (\<open>workflow-compiler\<close>: \<open>lib.rs\<close>, \<open>registry.rs\<close>,
    \<open>graph_builder.rs\<close>, \<open>behavioral.rs\<close>): the searches compute reachability and strong components, \<open>validate_graph\<close> accepts
    exactly the sound graphs, a compiled plan has its gates.
  \<^item> \<open>Security\<close>, \<open>Session\<close>, \<open>Policy\<close>, \<open>Approval\<close> (\<open>security.rs\<close>, \<open>session.rs\<close>, \<open>lib.rs\<close>, \<open>policy.rs\<close>, \<open>approval.rs\<close>): provenance
    and cache keys, log sanitising, identities, capability intersection, call-scoped approvals.
  \<^item> \<open>Behavioral\<close>, \<open>Probe_Worker\<close>, \<open>Probe_Worker_Correct\<close> (\<open>behavioral.rs\<close>, \<open>behavioral/model_authority.rs\<close>,
    \<open>behavioral/worker.rs\<close>, \<open>behavioral/worker/trajectory.rs\<close>, \<open>behavioral/counterfactual.rs\<close>): the simulated tools, the
    scripted probe, the sealed worker and its host; a report is accepted only when it is what the host computes itself.
  \<^item> \<open>Tool_Types\<close>, \<open>Tool_Bridge\<close>, \<open>Bridge_Safety\<close> (\<open>tool.rs\<close>, \<open>bridge.rs\<close>): authority, approval, idempotence and bounds of
    calls; the log of a bridge has an entry for every call, refused, read or effectful.
  \<^item> \<open>Canonical_Json\<close>, \<open>Firewall\<close>, \<open>Firewall_Correct\<close> (\<open>approval.rs\<close>, \<open>firewall.rs\<close>, \<open>firewall_types.rs\<close>,
    \<open>semantic_firewall.rs\<close>): canonical spelling of arguments is injective; what a call must satisfy to pass; evidence
    only restricts.
  \<^item> \<open>Effect_Ledger\<close>, \<open>Effect_Machine\<close>, \<open>Effect_Safety\<close>, \<open>Effect_Binding\<close> (\<open>effect_ledger.rs\<close>, \<open>effect_ledger/executor.rs\<close>):
    the ledger as a state machine with failing storage and restarts; no effect without approval, none twice; an approval
    digest determines policy, goal, proposal, decision and context.
  \<^item> \<open>Run_Control\<close>, \<open>Run_Control_Correct\<close>, \<open>Pure_Transform\<close>, \<open>Execution_Safety\<close> (\<open>controller.rs\<close>, \<open>lib.rs\<close>,
    \<open>pure_transform.rs\<close>, \<open>execution.rs\<close>): budgets, terminal states, and publication only in time.
  \<^item> \<open>Typed_Protocol\<close>, \<open>Typed_Roundtrip\<close>, \<open>Artifact_Store\<close>, \<open>Artifact_Exchange\<close> (\<open>typed_protocol.rs\<close>, \<open>artifact.rs\<close>,
    \<open>artifact/bounded_read.rs\<close>): codec round trips, content addressing under disk faults, exchange of outputs.
  \<^item> \<open>Event_Log\<close>, \<open>Checkpoint_Store\<close>, \<open>Checkpoint_Correct\<close>, \<open>Node_Cache\<close>, \<open>Node_Cache_Correct\<close> (\<open>event.rs\<close>,
    \<open>checkpoint.rs\<close>, \<open>node_cache.rs\<close>): sealed logs that ignore secrets, checkpoints bound to one workflow, cache hits bound
    to their keys, exact collection and transfer.
  \<^item> \<open>Sentinel_Envelope\<close>, \<open>Sentinel_Correct\<close> (\<open>sentinel_envelope.rs\<close>): normalisation with a faithful source map, its
    completeness and idempotence, cache keys that bind the view.
  \<^item> \<open>Sentinel_Reduction\<close>, \<open>Reduction_Correct\<close> (\<open>trajectory.rs\<close>, \<open>sentinel_reduction.rs\<close>): the offline observer and the
    reduction of evidence; the verdict is never clean, a tripwire is never lost, equal identities mean equal facts.
  \<^item> \<open>Release\<close> (\<open>workflow-compiler/src/lock.rs\<close>, \<open>workflow-runtime/src/hot_reload.rs\<close>): locks of plans, the migration of legacy
    locks, and the publisher of packages.
  \<^item> \<open>Review_Result\<close>, \<open>Review_Loop\<close>, \<open>Review_Correct\<close>, \<open>Review_Safety\<close>, \<open>Grounding\<close> (\<open>workflow-review\<close>: \<open>lib.rs\<close>,
    \<open>review_loop.rs\<close>, \<open>grounded_answer.rs\<close>, \<open>multi_hop.rs\<close>): the loop refines an abstract stage machine, ends within its
    bounds and publishes only validated candidates; the answer gates accept exactly the supported answers.

  \<^bold>\<open>Interfaces.\<close>  \<open>prefix_code\<close> and \<open>total_code\<close> are interpreted by every section writer of the canonical wire, by the
  hashed fields and by UTF-8; \<open>canonical_order\<close> by the six sort keys of the normal form; \<open>exact_registry\<close> by the
  builtin registry; \<open>partial_join\<close> by the union of continuation states; \<open>ledger_operation\<close> by the four operations of the
  effect ledger; \<open>artifact_store\<close> by the memory and the file system store.

  \<^bold>\<open>Modelling.\<close>  A string is the list of its UTF-8 bytes as \<open>char\<close>s.  Errors are the left side of a sum, one
  constructor per error of the source.  State is passed explicitly.  SHA-256, serde and TOML decoders, the
  spelling of JSON atoms, clocks, entropy, cancellation, the file system, SQLite, the sandbox, the
  WebAssembly engine and host callbacks are parameters; where a theorem relies on one, its hypothesis says how (an
  injective hash on the values at hand, a decoder that inverts an encoder, a clock within the deadline).
  No definition needs fuel: recursion is structural or has a measure, and the loop over the eight names of a temporary
  cache file counts its attempts.  The value \<open>None\<close> of a graph search stands for an index out of range, a panic of the
  source; \<open>Graph_Search\<close> shows that it does not arise.

  \<^bold>\<open>Not modelled.\<close>  \<open>workflow-adk\<close> adapts the adk-rust agent framework: asynchronous glue around third-party agents,
  models and sessions.  \<open>workflow-testkit\<close> is harness and fixtures, \<open>workflowctl\<close> argument parsing and printing.  In the
  runtime: processes and containers (\<open>bubblewrap\<close>, \<open>podman\<close>, \<open>sandbox_execution\<close>, \<open>sealed_file\<close>, \<open>workdir\<close>), network
  intake (\<open>github_*\<close>, \<open>issue_*\<close>, \<open>dataset*\<close>), carrier decoding, segmentation and language
  detection of the sentinel, \<open>production_profile\<close>,
  \<open>observability\<close>, \<open>effect_journal\<close> and \<open>tool_registry\<close>.  In the compiler: diagnostics, runtime plans,
  security audit and skills.  In the review crate: packaging.
\<close>

end
